(* ===== verification/Prelude.thy ===== *)
theory Prelude
  imports Main "HOL-Library.Word"
begin

text \<open>
  Shared vocabulary of the development: bytes and byte strings, the little-endian layout of the
  integers the program copies to and from memory with \<open>memcpy\<close> and \<open>WRITEDATA\<close>, the collections
  of rewrite rules the component theories extend, and generic facts on lists, bytes and words.
\<close>

unbundle bit_operations_syntax

section \<open>Names\<close>

type_synonym byte = "8 word"
type_synonym valtype = "byte list"

text \<open>
  \<open>exec_defs\<close> collects the equations of the script interpreters' opcode groups, \<open>frame\<close> the facts
  that say which part of a state an operation leaves alone, \<open>codec_laws\<close> the round-trip facts.
\<close>

named_theorems exec_defs "unfolding equations of the opcode groups"
named_theorems frame "parts of the state that an operation does not change"
named_theorems codec_laws "decoding what was encoded"

section \<open>Bytes\<close>

lemma unat_byte_less [simp]: "unat (b :: byte) < 256"
proof -
  have "unat b < 2 ^ LENGTH(8)" by (rule unsigned_less)
  then show ?thesis by simp
qed

lemma byte_mod_256 [simp]: "unat (b :: byte) mod 256 = unat b"
  by simp

lemma byte_256 [simp]: "(256 :: byte) = 0"
  by simp

lemma unat_of_nat_byte [simp]: "unat (of_nat x :: byte) = x mod 256"
  by (simp add: unat_of_nat)

lemma of_nat_byte_digits [simp]: "of_nat (unat b + 256 * n) = (b :: byte)"
  by (simp only: of_nat_add of_nat_mult of_nat_numeral byte_256 mult_zero_left add_0_right)
    simp

lemma byte_bit7: "bit (b :: byte) 7 \<longleftrightarrow> 128 \<le> unat b"
proof -
  have d: "odd k \<longleftrightarrow> k = 1" if "k < 2" for k :: nat
    using that by (cases k) auto
  have "unat b div 128 < 2" using unat_byte_less [of b] by (simp add: less_mult_imp_div_less)
  then have e: "odd (unat b div 128) \<longleftrightarrow> unat b div 128 = 1" by (rule d)
  have "bit b 7 = bit (unat b) 7" by (simp add: bit_unsigned_iff)
  also have "\<dots> = odd (unat b div 128)" by (simp add: bit_nat_def)
  also have "\<dots> = (unat b div 128 = 1)" by (rule e)
  also have "\<dots> = (128 \<le> unat b)" using unat_byte_less [of b] by linarith
  finally show ?thesis .
qed

lemma byte_and_80: "(b :: byte) AND 0x80 = 0 \<longleftrightarrow> unat b < 128"
proof -
  have "b AND 0x80 = 0 \<longleftrightarrow> \<not> bit b 7"
    using and_exp_eq_0_iff_not_bit [of b 7] by simp
  then show ?thesis using byte_bit7 [of b] by linarith
qed

lemma byte_and_7f: "unat ((b :: byte) AND 0x7f) = unat b mod 128"
proof -
  have "b AND 0x7f = take_bit 7 b"
    by (simp add: take_bit_eq_mask mask_eq_decr_exp)
  then show ?thesis
    by (simp only: unsigned_take_bit_eq) (simp add: take_bit_eq_mod)
qed

lemma byte_or_80: "unat b < 128 \<Longrightarrow> unat ((b :: byte) OR 0x80) = unat b + 128"
proof -
  assume less: "unat b < 128"
  then have "b AND 0x80 = 0" by (simp add: byte_and_80)
  then have "b OR 0x80 = b + 0x80" by (rule disjunctive_add_eq_or [symmetric])
  with less show ?thesis by (simp add: unat_word_ariths)
qed

section \<open>Little-endian byte strings\<close>

text \<open>\<open>le n x\<close> is the \<open>n\<close> lowest bytes of \<open>x\<close>, the lowest first; \<open>le_nat\<close> reads such a string.\<close>

fun le :: "nat \<Rightarrow> nat \<Rightarrow> byte list" where
  "le 0 x = []"
| "le (Suc n) x = of_nat x # le n (x div 256)"

fun le_nat :: "byte list \<Rightarrow> nat" where
  "le_nat [] = 0"
| "le_nat (b # bs) = unat b + 256 * le_nat bs"

lemma le_numeral: "le (numeral k) x = of_nat x # le (pred_numeral k) (x div 256)"
  using le.simps(2) [of "pred_numeral k" x] by (simp only: numeral_eq_Suc [symmetric])

lemma length_le [simp]: "length (le n x) = n"
  by (induction n arbitrary: x) auto

lemma le_nat_le: "le_nat (le n x) = x mod 256 ^ n"
proof (induction n arbitrary: x)
  case 0
  then show ?case by simp
next
  case (Suc n)
  have "x mod (256 * 256 ^ n) = 256 * (x div 256 mod 256 ^ n) + x mod 256"
    by (rule mod_mult2_eq)
  with Suc show ?case by simp
qed

lemma le_nat_le_id [simp]: "x < 256 ^ n \<Longrightarrow> le_nat (le n x) = x"
  by (simp add: le_nat_le)

lemma le_nat_bound: "le_nat bs < 256 ^ length bs"
proof (induction bs)
  case Nil
  then show ?case by simp
next
  case (Cons b bs)
  have step: "u < 256 \<Longrightarrow> l < p \<Longrightarrow> u + 256 * l < 256 * p" for u l p :: nat
    by linarith
  show ?case using step [OF unat_byte_less [of b] Cons] by simp
qed

lemma le_le_nat [simp]: "le (length bs) (le_nat bs) = bs"
proof (induction bs)
  case Nil
  then show ?case by simp
next
  case (Cons b bs)
  have "(unat b + 256 * le_nat bs) div 256 = le_nat bs" by simp
  with Cons show ?case by (simp del: of_nat_add of_nat_mult)
qed

lemma le_nat_append: "le_nat (xs @ ys) = le_nat xs + 256 ^ length xs * le_nat ys"
  by (induction xs) (auto simp: algebra_simps)

lemma le_nat_inject: "length xs = length ys \<Longrightarrow> le_nat xs = le_nat ys \<Longrightarrow> xs = ys"
  by (metis le_le_nat)

lemma le_nat_eq_0: "le_nat bs = 0 \<longleftrightarrow> (\<forall>b \<in> set bs. b = 0)"
  by (induction bs) (auto simp: unat_eq_0)

text \<open>Big-endian layout, as the hash functions and OpenSSL's MPI format use it.\<close>

definition be :: "nat \<Rightarrow> nat \<Rightarrow> byte list" where
  "be n x = rev (le n x)"

definition be_nat :: "byte list \<Rightarrow> nat" where
  "be_nat bs = le_nat (rev bs)"

lemma length_be [simp]: "length (be n x) = n"
  by (simp add: be_def)

lemma be_nat_be [simp]: "x < 256 ^ n \<Longrightarrow> be_nat (be n x) = x"
  by (simp add: be_def be_nat_def)

lemma be_be_nat [simp]: "be (length bs) (be_nat bs) = bs"
  using le_le_nat [of "rev bs"] by (simp add: be_def be_nat_def)

end
