(* ===== verification/HashStream.thy ===== *)
theory HashStream
  imports Prelude
begin

text \<open>
  The buffering that the four hash classes of \<open>src/crypto\<close> share: a chaining state, a buffer of one
  block and a byte counter; \<open>Write\<close> fills the buffer, compresses whole blocks straight from the
  input and keeps the remainder; \<open>Finalize\<close> writes the padding and the length field. The source
  repeats this text in each class with its own block size and compression function, so it is
  written here once, over the block size and the compression function, and each class is an
  instance. The locale \<open>block_hash\<close> states what an instance has to provide and proves, once for
  all four, that hashing in pieces is hashing the concatenation.
\<close>

section \<open>Reading and writing words\<close>

definition ReadBE32 :: "byte list \<Rightarrow> 32 word" where
  "ReadBE32 p =
     push_bit 24 (ucast (p ! 0)) OR push_bit 16 (ucast (p ! 1)) OR
     push_bit 8 (ucast (p ! 2)) OR ucast (p ! 3)"

definition ReadLE32 :: "byte list \<Rightarrow> 32 word" where
  "ReadLE32 p =
     push_bit 24 (ucast (p ! 3)) OR push_bit 16 (ucast (p ! 2)) OR
     push_bit 8 (ucast (p ! 1)) OR ucast (p ! 0)"

definition ReadBE64 :: "byte list \<Rightarrow> 64 word" where
  "ReadBE64 p =
     push_bit 56 (ucast (p ! 0)) OR push_bit 48 (ucast (p ! 1)) OR
     push_bit 40 (ucast (p ! 2)) OR push_bit 32 (ucast (p ! 3)) OR
     push_bit 24 (ucast (p ! 4)) OR push_bit 16 (ucast (p ! 5)) OR
     push_bit 8 (ucast (p ! 6)) OR ucast (p ! 7)"

definition WriteBE32 :: "32 word \<Rightarrow> byte list" where
  "WriteBE32 x =
     [ucast (drop_bit 24 x), ucast (drop_bit 16 x), ucast (drop_bit 8 x), ucast x]"

definition WriteLE32 :: "32 word \<Rightarrow> byte list" where
  "WriteLE32 x =
     [ucast x, ucast (drop_bit 8 x), ucast (drop_bit 16 x), ucast (drop_bit 24 x)]"

definition WriteBE64 :: "64 word \<Rightarrow> byte list" where
  "WriteBE64 x =
     [ucast (drop_bit 56 x), ucast (drop_bit 48 x), ucast (drop_bit 40 x), ucast (drop_bit 32 x),
      ucast (drop_bit 24 x), ucast (drop_bit 16 x), ucast (drop_bit 8 x), ucast x]"

definition WriteLE64 :: "64 word \<Rightarrow> byte list" where
  "WriteLE64 x =
     [ucast x, ucast (drop_bit 8 x), ucast (drop_bit 16 x), ucast (drop_bit 24 x),
      ucast (drop_bit 32 x), ucast (drop_bit 40 x), ucast (drop_bit 48 x), ucast (drop_bit 56 x)]"

lemma length_Write [simp]:
  "length (WriteBE32 x) = 4" "length (WriteLE32 x) = 4"
  "length (WriteBE64 y) = 8" "length (WriteLE64 y) = 8"
  by (simp_all add: WriteBE32_def WriteLE32_def WriteBE64_def WriteLE64_def)

section \<open>The hasher\<close>

record 'w hasher =
  hs :: "'w list"
  buf :: "byte list"
  bytes :: "64 word"

text \<open>\<open>memcpy(buf + off, data, length data)\<close>\<close>

definition memcpy_at :: "byte list \<Rightarrow> nat \<Rightarrow> byte list \<Rightarrow> byte list" where
  "memcpy_at b off data = take off b @ data @ drop (off + length data) b"

function hasher_chunks ::
  "nat \<Rightarrow> ('w list \<Rightarrow> byte list \<Rightarrow> 'w list) \<Rightarrow> 'w hasher \<Rightarrow> byte list \<Rightarrow> 'w hasher \<times> byte list"
where
  "hasher_chunks bs T h data =
     (if 0 < bs \<and> bs \<le> length data
      then hasher_chunks bs T
             (h\<lparr>hs := T (hs h) (take bs data), bytes := bytes h + of_nat bs\<rparr>) (drop bs data)
      else (h, data))"
  by pat_completeness auto
termination
  by (relation "measure (\<lambda>(bs, T, h, data). length data)") auto

declare hasher_chunks.simps [simp del]

definition hasher_Write ::
  "nat \<Rightarrow> ('w list \<Rightarrow> byte list \<Rightarrow> 'w list) \<Rightarrow> 'w hasher \<Rightarrow> byte list \<Rightarrow> 'w hasher" where
  "hasher_Write bs T h data =
     (let bufsize = unat (bytes h) mod bs;
          (h1, data1, bufsize1) =
            (if bufsize \<noteq> 0 \<and> bs \<le> bufsize + length data
             then let buf1 = memcpy_at (buf h) bufsize (take (bs - bufsize) data)
                  in (h\<lparr>buf := buf1, bytes := bytes h + of_nat (bs - bufsize), hs := T (hs h) buf1\<rparr>,
                      drop (bs - bufsize) data, 0)
             else (h, data, bufsize));
          (h2, data2) = hasher_chunks bs T h1 data1
      in if data2 \<noteq> []
         then h2\<lparr>buf := memcpy_at (buf h2) bufsize1 data2, bytes := bytes h2 + of_nat (length data2)\<rparr>
         else h2)"

text \<open>
  \<open>Finalize\<close>: \<open>padc\<close> is the constant of the padding length (119 for blocks of 64 bytes, 239 for
  blocks of 128), \<open>sizedesc\<close> the layout of the bit count, \<open>out\<close> the layout of the digest.
  \<open>hasher_Final\<close> is the object after the call, \<open>hasher_Finalize\<close> the digest it writes.
\<close>

definition hasher_pad :: "nat \<Rightarrow> nat \<Rightarrow> 64 word \<Rightarrow> byte list" where
  "hasher_pad bs padc n = take (1 + (padc - unat n mod bs) mod bs) (0x80 # replicate (bs - 1) 0)"

definition hasher_Final ::
  "nat \<Rightarrow> ('w list \<Rightarrow> byte list \<Rightarrow> 'w list) \<Rightarrow> nat \<Rightarrow> (64 word \<Rightarrow> byte list) \<Rightarrow> 'w hasher \<Rightarrow> 'w hasher"
where
  "hasher_Final bs T padc sizedesc h =
     (let sz = sizedesc (push_bit 3 (bytes h));
          h1 = hasher_Write bs T h (hasher_pad bs padc (bytes h))
      in hasher_Write bs T h1 sz)"

definition hasher_Finalize ::
  "nat \<Rightarrow> ('w list \<Rightarrow> byte list \<Rightarrow> 'w list) \<Rightarrow> nat \<Rightarrow> (64 word \<Rightarrow> byte list) \<Rightarrow> ('w list \<Rightarrow> byte list)
   \<Rightarrow> 'w hasher \<Rightarrow> byte list" where
  "hasher_Finalize bs T padc sizedesc out h = out (hs (hasher_Final bs T padc sizedesc h))"

section \<open>Specification: absorbing a message block by block\<close>

function absorb :: "nat \<Rightarrow> ('w list \<Rightarrow> byte list \<Rightarrow> 'w list) \<Rightarrow> 'w list \<Rightarrow> byte list \<Rightarrow> 'w list \<times> byte list"
where
  "absorb bs T s m =
     (if 0 < bs \<and> bs \<le> length m then absorb bs T (T s (take bs m)) (drop bs m) else (s, m))"
  by pat_completeness auto
termination
  by (relation "measure (\<lambda>(bs, T, s, m). length m)") auto

declare absorb.simps [simp del]

lemma absorb_short [simp]: "length m < bs \<Longrightarrow> absorb bs T s m = (s, m)"
  by (simp add: absorb.simps)

lemma absorb_block [simp]:
  "0 < bs \<Longrightarrow> length b = bs \<Longrightarrow> absorb bs T s (b @ m) = absorb bs T (T s b) m"
  by (subst absorb.simps) simp

lemma absorb_append:
  "absorb bs T s (m @ d) = absorb bs T (fst (absorb bs T s m)) (snd (absorb bs T s m) @ d)"
proof (induction bs T s m rule: absorb.induct)
  case (1 bs T s m)
  show ?case
  proof (cases "0 < bs \<and> bs \<le> length m")
    case True
    then have "absorb bs T s (m @ d) = absorb bs T (T s (take bs m)) (drop bs m @ d)"
      by (subst absorb.simps) simp
    with 1 True show ?thesis by (simp add: absorb.simps [of bs T s m])
  next
    case False
    then have "absorb bs T s m = (s, m)" by (subst absorb.simps) auto
    then show ?thesis by simp
  qed
qed

lemma length_snd_absorb: "0 < bs \<Longrightarrow> length (snd (absorb bs T s m)) = length m mod bs"
proof (induction bs T s m rule: absorb.induct)
  case (1 bs T s m)
  show ?case
  proof (cases "bs \<le> length m")
    case True
    with 1 show ?thesis by (simp add: absorb.simps [of bs T s m] le_mod_geq)
  next
    case False
    then show ?thesis by simp
  qed
qed

lemma hasher_chunks_absorb:
  "0 < bs \<Longrightarrow> hasher_chunks bs T h data =
     (h\<lparr>hs := fst (absorb bs T (hs h) data),
        bytes := bytes h + of_nat (length data - length data mod bs)\<rparr>,
      snd (absorb bs T (hs h) data))"
proof (induction bs T h data rule: hasher_chunks.induct)
  case (1 bs T h data)
  show ?case
  proof (cases "bs \<le> length data")
    case True
    let ?h = "h\<lparr>hs := T (hs h) (take bs data), bytes := bytes h + of_nat bs\<rparr>"
    have unfold: "hasher_chunks bs T h data = hasher_chunks bs T ?h (drop bs data)"
      using True "1.prems" by (subst hasher_chunks.simps) simp
    have IH: "hasher_chunks bs T ?h (drop bs data) =
       (?h\<lparr>hs := fst (absorb bs T (hs ?h) (drop bs data)),
           bytes := bytes ?h + of_nat (length (drop bs data) - length (drop bs data) mod bs)\<rparr>,
        snd (absorb bs T (hs ?h) (drop bs data)))"
      using True "1.prems" by (intro "1.IH") simp_all
    have step: "absorb bs T (hs h) data = absorb bs T (T (hs h) (take bs data)) (drop bs data)"
      using True "1.prems" by (subst absorb.simps) simp
    have "(length data - bs) mod bs \<le> length data - bs" by (rule mod_less_eq_dividend)
    moreover have "length data mod bs = (length data - bs) mod bs"
      using True by (rule le_mod_geq)
    ultimately have "bs + (length data - bs - (length data - bs) mod bs) =
        length data - length data mod bs"
      using True by linarith
    then have count: "bytes h + of_nat bs + of_nat (length data - bs - (length data - bs) mod bs) =
        bytes h + of_nat (length data - length data mod bs)"
      by (metis add.assoc of_nat_add)
    show ?thesis
      by (simp add: unfold IH step count del: of_nat_diff diff_diff_left)
  next
    case False
    then have "hasher_chunks bs T h data = (h, data)" by (subst hasher_chunks.simps) simp
    with False show ?thesis by simp
  qed
qed

section \<open>The contract of a hash class\<close>

text \<open>
  \<open>represents h m\<close>: the hasher \<open>h\<close> has been fed exactly the bytes \<open>m\<close>. Bytes of the buffer beyond
  the pending ones are left over from earlier blocks and do not matter.
\<close>

definition represents ::
  "nat \<Rightarrow> ('w list \<Rightarrow> byte list \<Rightarrow> 'w list) \<Rightarrow> 'w list \<Rightarrow> 'w hasher \<Rightarrow> byte list \<Rightarrow> bool" where
  "represents bs T s0 h m \<longleftrightarrow>
     length (buf h) = bs \<and> bytes h = of_nat (length m) \<and>
     hs h = fst (absorb bs T s0 m) \<and>
     take (length m mod bs) (buf h) = snd (absorb bs T s0 m)"

definition digest_of ::
  "nat \<Rightarrow> ('w list \<Rightarrow> byte list \<Rightarrow> 'w list) \<Rightarrow> 'w list \<Rightarrow> nat \<Rightarrow> (64 word \<Rightarrow> byte list) \<Rightarrow>
   ('w list \<Rightarrow> byte list) \<Rightarrow> byte list \<Rightarrow> byte list" where
  "digest_of bs T s0 padc sizedesc out m =
     out (fst (absorb bs T s0
       (m @ hasher_pad bs padc (of_nat (length m)) @ sizedesc (push_bit 3 (of_nat (length m))))))"

text \<open>
  A \<open>block_hash\<close> is a block size that divides the range of the byte counter (so that the counter
  modulo the block size survives its wrap-around), a compression function, an initial chaining
  value and the parameters of the padding.
\<close>

locale block_hash =
  fixes bs :: nat
    and T :: "'w list \<Rightarrow> byte list \<Rightarrow> 'w list"
    and s0 :: "'w list"
    and padc :: nat
    and sizedesc :: "64 word \<Rightarrow> byte list"
    and out :: "'w list \<Rightarrow> byte list"
  assumes bs_pos: "0 < bs"
    and bs_dvd: "bs dvd 2 ^ 64"
begin

lemma counter_mod: "unat (of_nat n :: 64 word) mod bs = n mod bs"
  using bs_dvd by (simp add: unat_of_nat mod_mod_cancel)

lemma represents_init: "length b = bs \<Longrightarrow> represents bs T s0 \<lparr>hs = s0, buf = b, bytes = 0\<rparr> []"
  using bs_pos by (simp add: represents_def)

lemma absorb_rest_length: "length (snd (absorb bs T s m)) = length m mod bs"
  using bs_pos by (rule length_snd_absorb)

lemma bufsize: "represents bs T s0 h m \<Longrightarrow> unat (bytes h) mod bs = length m mod bs"
  by (simp add: represents_def counter_mod)

lemma represents_memcpy:
  assumes "length b = bs" and "take k b = r" and "k + length d < bs"
  shows "length (memcpy_at b k d) = bs" and "take (k + length d) (memcpy_at b k d) = r @ d"
  using assms by (auto simp: memcpy_at_def)

text \<open>\<open>Write\<close> when the pending bytes and the new data stay below one block.\<close>

lemma Write_short:
  assumes rep: "represents bs T s0 h m" and short: "length m mod bs + length d < bs"
  shows "represents bs T s0 (hasher_Write bs T h d) (m @ d)"
proof -
  let ?k = "length m mod bs" and ?r = "snd (absorb bs T s0 m)"
  have W: "hasher_Write bs T h d =
      (if d = [] then h else h\<lparr>buf := memcpy_at (buf h) ?k d, bytes := bytes h + of_nat (length d)\<rparr>)"
    using short unfolding hasher_Write_def bufsize [OF rep]
    by (simp add: Let_def hasher_chunks.simps [of bs T h d])
  have ab: "absorb bs T s0 (m @ d) = (fst (absorb bs T s0 m), ?r @ d)"
    using short unfolding absorb_append [of bs T s0 m d] by (simp add: absorb_rest_length)
  have len: "length (m @ d) mod bs = ?k + length d"
    using mod_add_left_eq [of "length m" bs "length d"] short by simp
  have buf: "length (buf h) = bs" "take ?k (buf h) = ?r" "bytes h = of_nat (length m)"
    and s: "hs h = fst (absorb bs T s0 m)"
    using rep by (simp_all add: represents_def)
  show ?thesis
  proof (cases "d = []")
    case True
    with rep W show ?thesis by simp
  next
    case False
    then have W': "hasher_Write bs T h d =
        h\<lparr>buf := memcpy_at (buf h) ?k d, bytes := bytes h + of_nat (length d)\<rparr>"
      using W by simp
    show ?thesis
      unfolding represents_def ab len W'
      using represents_memcpy [OF buf(1,2) short] s buf(3) by simp
  qed
qed

text \<open>\<open>Write\<close> when the data completes the pending block, and when no block is pending.\<close>

lemma Write_aligned:
  assumes s: "s = fst (absorb bs T s0 m)" and m: "length m mod bs = 0"
    and b: "length b = bs" and n: "n = of_nat (length m)"
    and g: "hasher_chunks bs T h d = (h2, d2)" and h: "h = \<lparr>hs = s, buf = b, bytes = n\<rparr>"
  shows "represents bs T s0
     (if d2 \<noteq> [] then h2\<lparr>buf := memcpy_at (buf h2) 0 d2, bytes := bytes h2 + of_nat (length d2)\<rparr>
      else h2) (m @ d)"
proof -
  have r: "snd (absorb bs T s0 m) = []"
    using absorb_rest_length [of s0 m] m by simp
  have ab: "absorb bs T s0 (m @ d) = absorb bs T s d"
    unfolding absorb_append [of bs T s0 m d] by (simp add: r s)
  have h2: "h2 = h\<lparr>hs := fst (absorb bs T s d), bytes := n + of_nat (length d - length d mod bs)\<rparr>"
    and d2: "d2 = snd (absorb bs T s d)"
    using g h by (simp_all add: hasher_chunks_absorb [OF bs_pos] del: of_nat_diff)
  have len: "length d2 = length d mod bs" unfolding d2 by (rule absorb_rest_length)
  then have less: "length d2 < bs" using bs_pos by simp
  have mlen: "length (m @ d) mod bs = length d mod bs"
    using mod_add_left_eq [of "length m" bs "length d"] m by simp
  have total: "n + of_nat (length d - length d mod bs) + of_nat (length d mod bs) =
      of_nat (length (m @ d))"
    unfolding n length_append of_nat_add
    by (simp only: add.assoc of_nat_add [symmetric] le_add_diff_inverse2 [OF mod_less_eq_dividend])
  show ?thesis
  proof (cases "d2 = []")
    case True
    then have "length d mod bs = 0" using len by simp
    with True ab h2 total mlen h b d2 show ?thesis
      by (simp add: represents_def)
  next
    case False
    then have if_eq: "(if d2 \<noteq> [] then A else B) = A" for A B :: "'w hasher" by simp
    have mem: "length (memcpy_at b 0 d2) = bs" "take (length d mod bs) (memcpy_at b 0 d2) = d2"
      using b less len by (simp_all add: memcpy_at_def)
    show ?thesis
      unfolding represents_def ab mlen h2 h if_eq
      by (simp only: hasher.simps mem total len d2 [symmetric] simp_thms)
  qed
qed

lemma Write_fill:
  assumes rep: "represents bs T s0 h m" and pending: "length m mod bs \<noteq> 0"
    and long: "bs \<le> length m mod bs + length d"
  shows "represents bs T s0 (hasher_Write bs T h d) (m @ d)"
proof -
  let ?k = "length m mod bs" and ?r = "snd (absorb bs T s0 m)"
  let ?x = "take (bs - ?k) d" and ?d = "drop (bs - ?k) d"
  let ?b = "?r @ ?x" and ?m = "m @ ?x"
  let ?h = "\<lparr>hs = T (hs h) ?b, buf = ?b, bytes = bytes h + of_nat (bs - ?k)\<rparr>"
  have k: "?k < bs" using bs_pos by simp
  have r: "length ?r = ?k" by (rule absorb_rest_length)
  have b: "length ?b = bs" using k long r by simp
  have buf: "length (buf h) = bs" "take ?k (buf h) = ?r" "bytes h = of_nat (length m)"
    and s: "hs h = fst (absorb bs T s0 m)"
    using rep by (simp_all add: represents_def)
  have mem: "memcpy_at (buf h) ?k ?x = ?b"
    using buf(1,2) k long by (simp add: memcpy_at_def)
  have ab: "absorb bs T s0 ?m = (T (hs h) ?b, [])"
    unfolding absorb_append [of bs T s0 m ?x] s [symmetric]
    using absorb_block [OF bs_pos b, of T "hs h" "[]"] bs_pos by simp
  have x: "length ?x = bs - ?k" using k long by simp
  have mm: "length ?m mod bs = 0"
    using x k mod_add_left_eq [of "length m" bs "bs - ?k"] by simp
  obtain h2 d2 where g: "hasher_chunks bs T ?h ?d = (h2, d2)"
    by (cases "hasher_chunks bs T ?h ?d")
  have hh: "h\<lparr>buf := ?b, bytes := bytes h + of_nat (bs - ?k), hs := T (hs h) ?b\<rparr> = ?h"
    by simp
  have W: "hasher_Write bs T h d =
      (if d2 \<noteq> [] then h2\<lparr>buf := memcpy_at (buf h2) 0 d2, bytes := bytes h2 + of_nat (length d2)\<rparr>
       else h2)"
    using pending long unfolding hasher_Write_def bufsize [OF rep]
    by (simp only: Let_def if_True mem hh g prod.case simp_thms)
  have "represents bs T s0 (hasher_Write bs T h d) (?m @ ?d)"
    unfolding W
    by (rule Write_aligned [OF _ mm b _ g refl]) (simp_all only: ab buf(3) x length_append of_nat_add fst_conv)
  then show ?thesis by simp
qed

lemma Write_start:
  assumes rep: "represents bs T s0 h m" and "length m mod bs = 0"
  shows "represents bs T s0 (hasher_Write bs T h d) (m @ d)"
proof -
  obtain h2 d2 where g: "hasher_chunks bs T h d = (h2, d2)"
    by (cases "hasher_chunks bs T h d")
  have W: "hasher_Write bs T h d =
      (if d2 \<noteq> [] then h2\<lparr>buf := memcpy_at (buf h2) 0 d2, bytes := bytes h2 + of_nat (length d2)\<rparr>
       else h2)"
    using assms(2) unfolding hasher_Write_def bufsize [OF rep] by (simp add: Let_def g)
  show ?thesis
    unfolding W
    by (rule Write_aligned [OF _ assms(2) _ _ g, of "hs h" "buf h" "bytes h"])
      (use rep in \<open>simp_all add: represents_def\<close>)
qed

text \<open>Feeding \<open>d\<close> to a hasher that holds \<open>m\<close> gives one that holds \<open>m @ d\<close>.\<close>

lemma Write_represents:
  assumes rep: "represents bs T s0 h m"
  shows "represents bs T s0 (hasher_Write bs T h d) (m @ d)"
proof -
  consider "length m mod bs + length d < bs" | "length m mod bs = 0"
    | "length m mod bs \<noteq> 0" "bs \<le> length m mod bs + length d"
    by linarith
  then show ?thesis
    by cases (auto intro: rep Write_short Write_start Write_fill)
qed

lemma Writes_represent:
  "represents bs T s0 h m \<Longrightarrow> represents bs T s0 (foldl (hasher_Write bs T) h ds) (m @ concat ds)"
proof (induction ds arbitrary: h m)
  case Nil
  then show ?case by simp
next
  case (Cons d ds)
  from Cons.IH [OF Write_represents [OF Cons.prems]] show ?case by simp
qed

text \<open>\<open>Finalize\<close> computes the digest of whatever has been fed, in whatever pieces.\<close>

lemma Final_represents:
  assumes rep: "represents bs T s0 h m"
  shows "represents bs T s0 (hasher_Final bs T padc sizedesc h)
    (m @ hasher_pad bs padc (of_nat (length m)) @ sizedesc (push_bit 3 (of_nat (length m))))"
proof -
  have n: "bytes h = of_nat (length m)" using rep by (simp add: represents_def)
  let ?p = "hasher_pad bs padc (bytes h)" and ?z = "sizedesc (push_bit 3 (bytes h))"
  have "represents bs T s0 (hasher_Write bs T (hasher_Write bs T h ?p) ?z) ((m @ ?p) @ ?z)"
    by (intro Write_represents rep)
  then show ?thesis
    unfolding hasher_Final_def Let_def n by simp
qed

lemma Finalize_digest:
  assumes rep: "represents bs T s0 h m"
  shows "hasher_Finalize bs T padc sizedesc out h = digest_of bs T s0 padc sizedesc out m"
  using Final_represents [OF rep] by (simp add: represents_def hasher_Finalize_def digest_of_def)

text \<open>\<open>Finalize\<close>, \<open>Reset\<close>, \<open>Write\<close>, \<open>Finalize\<close> on one object hashes the second message.\<close>

lemma Reset_represents:
  "represents bs T s0 h m \<Longrightarrow> represents bs T s0 (h\<lparr>bytes := 0, hs := s0\<rparr>) []"
  using bs_pos by (simp add: represents_def)

lemma pieces:
  assumes "length b = bs" and "length b' = bs"
  shows "hasher_Finalize bs T padc sizedesc out
           (foldl (hasher_Write bs T) \<lparr>hs = s0, buf = b, bytes = 0\<rparr> ds) =
         hasher_Finalize bs T padc sizedesc out
           (hasher_Write bs T \<lparr>hs = s0, buf = b', bytes = 0\<rparr> (concat ds))"
proof -
  have "represents bs T s0 (foldl (hasher_Write bs T) \<lparr>hs = s0, buf = b, bytes = 0\<rparr> ds) (concat ds)"
    using Writes_represent [OF represents_init [OF assms(1)]] by simp
  moreover have "represents bs T s0 (hasher_Write bs T \<lparr>hs = s0, buf = b', bytes = 0\<rparr> (concat ds))
      (concat ds)"
    using Write_represents [OF represents_init [OF assms(2)]] by simp
  ultimately show ?thesis by (simp add: Finalize_digest)
qed

end

text \<open>
  A hash class with a digest of \<open>dl\<close> bytes: the chaining value keeps its \<open>n\<close> words and the padding
  and the length field of \<open>z\<close> bytes fill up the last block.
\<close>

locale digest_hash = block_hash +
  fixes n dl z :: nat
  assumes s0_length: "length s0 = n"
    and T_length: "length (T s b) = n"
    and out_length: "length s = n \<Longrightarrow> length (out s) = dl"
    and size_length: "length (sizedesc w) = z"
    and pad_fits: "padc + z + 1 = 2 * bs"
    and size_fits: "z < bs"
begin

lemma absorb_state_length: "length s = n \<Longrightarrow> length (fst (absorb bs T s m)) = n"
proof (induction "length m" arbitrary: s m rule: less_induct)
  case less
  show ?case
  proof (cases "bs \<le> length m")
    case True
    then have "length (fst (absorb bs T (T s (take bs m)) (drop bs m))) = n"
      using bs_pos by (intro less.hyps) (simp_all add: T_length)
    then show ?thesis using True bs_pos by (simp add: absorb.simps [of bs T s m])
  next
    case False
    then show ?thesis using less.prems by simp
  qed
qed

lemma digest_length: "length (digest_of bs T s0 padc sizedesc out m) = dl"
  unfolding digest_of_def by (rule out_length [OF absorb_state_length [OF s0_length]])

lemma padded_length:
  "length (m @ hasher_pad bs padc (of_nat (length m)) @ sizedesc w) mod bs = 0"
proof -
  let ?r = "length m mod bs"
  have r: "?r < bs" using bs_pos by simp
  have "hasher_pad bs padc (of_nat (length m)) =
      take (1 + (padc - ?r) mod bs) (0x80 # replicate (bs - 1) 0)"
    by (simp only: hasher_pad_def counter_mod)
  then have p: "length (hasher_pad bs padc (of_nat (length m))) = 1 + (padc - ?r) mod bs"
    using bs_pos mod_less_divisor [OF bs_pos, of "padc - ?r"] by (simp add: min_def Suc_le_eq)
  have "(?r + (1 + (padc - ?r) mod bs + z)) mod bs = (?r + 1 + z + (padc - ?r) mod bs) mod bs"
    by (simp add: algebra_simps)
  also have "\<dots> = (?r + 1 + z + (padc - ?r)) mod bs"
    by (rule mod_add_right_eq)
  also have "?r + 1 + z + (padc - ?r) = 2 * bs"
    using r pad_fits size_fits by linarith
  finally have "(?r + (1 + (padc - ?r) mod bs + z)) mod bs = 0" by simp
  moreover have "(?r + x) mod bs = (length m + x) mod bs" for x by (rule mod_add_left_eq)
  ultimately have "(length m + (1 + (padc - ?r) mod bs + z)) mod bs = 0" by metis
  then show ?thesis by (simp add: p size_length)
qed

text \<open>\<open>Finalize\<close> leaves no byte uncompressed.\<close>

lemma Final_complete:
  "represents bs T s0 h m \<Longrightarrow>
     snd (absorb bs T s0 (m @ hasher_pad bs padc (of_nat (length m)) @
       sizedesc (push_bit 3 (of_nat (length m))))) = []"
  using absorb_rest_length [of s0] padded_length [of m] by (metis length_0_conv)

end

text \<open>The length of a list at the end of a chain of bindings.\<close>

lemma length_Let: "(\<And>x. length (f x) = n) \<Longrightarrow> length (Let a f) = n"
  by (simp add: Let_def)

lemma length_case_prod: "(\<And>x y. length (f x y) = n) \<Longrightarrow> length (case p of (x, y) \<Rightarrow> f x y) = n"
  by (cases p) simp

lemmas length_bindings = length_Let length_case_prod

end
