(* ===== verification/Sha256.thy ===== *)
theory Sha256
  imports HashStream
begin

text \<open>
  \<open>src/crypto/sha256.cpp\<close>: SHA-256 as the node computes it for scripts and block data.
  The 16 schedule words and the unrolled rounds are kept as the source has them, one line per
  call of \<open>Round\<close>, with the two registers the call updates by reference bound by the \<open>let\<close>.
\<close>

definition sha256_Ch :: "32 word \<Rightarrow> 32 word \<Rightarrow> 32 word \<Rightarrow> 32 word" where
  "sha256_Ch x y z = z XOR (x AND (y XOR z))"

definition sha256_Maj :: "32 word \<Rightarrow> 32 word \<Rightarrow> 32 word \<Rightarrow> 32 word" where
  "sha256_Maj x y z = (x AND y) OR (z AND (x OR y))"

definition sha256_Sigma0 :: "32 word \<Rightarrow> 32 word" where
  "sha256_Sigma0 x = (drop_bit 2 x OR push_bit 30 x) XOR (drop_bit 13 x OR push_bit 19 x) XOR (drop_bit 22 x OR push_bit 10 x)"

definition sha256_Sigma1 :: "32 word \<Rightarrow> 32 word" where
  "sha256_Sigma1 x = (drop_bit 6 x OR push_bit 26 x) XOR (drop_bit 11 x OR push_bit 21 x) XOR (drop_bit 25 x OR push_bit 7 x)"

definition sha256_sigma0 :: "32 word \<Rightarrow> 32 word" where
  "sha256_sigma0 x = (drop_bit 7 x OR push_bit 25 x) XOR (drop_bit 18 x OR push_bit 14 x) XOR drop_bit 3 x"

definition sha256_sigma1 :: "32 word \<Rightarrow> 32 word" where
  "sha256_sigma1 x = (drop_bit 17 x OR push_bit 15 x) XOR (drop_bit 19 x OR push_bit 13 x) XOR drop_bit 10 x"

text \<open>\<open>Round\<close> returns its two reference parameters, the new \<open>d\<close> and the new \<open>h\<close>.\<close>

definition sha256_Round ::
  "32 word \<Rightarrow> 32 word \<Rightarrow> 32 word \<Rightarrow> 32 word \<Rightarrow> 32 word \<Rightarrow> 32 word \<Rightarrow> 32 word \<Rightarrow> 32 word \<Rightarrow>
   32 word \<Rightarrow> 32 word \<Rightarrow> 32 word \<times> 32 word" where
  "sha256_Round a b c d e f g h k w =
     (let t1 = h + sha256_Sigma1 e + sha256_Ch e f g + k + w;
          t2 = sha256_Sigma0 a + sha256_Maj a b c
      in (d + t1, t1 + t2))"

definition sha256_Initialize :: "32 word list" where
  "sha256_Initialize =
     [0x6a09e667, 0xbb67ae85, 0x3c6ef372, 0xa54ff53a,
      0x510e527f, 0x9b05688c, 0x1f83d9ab, 0x5be0cd19]"

definition sha256_Transform :: "32 word list \<Rightarrow> byte list \<Rightarrow> 32 word list" where
  "sha256_Transform s chunk =
     (let a = s ! 0; b = s ! 1; c = s ! 2; d = s ! 3; e = s ! 4; f = s ! 5; g = s ! 6; h = s ! 7;
      w0 = ReadBE32 (drop 0 chunk);
      (d, h) = sha256_Round a b c d e f g h 0x428a2f98 w0;
      w1 = ReadBE32 (drop 4 chunk);
      (c, g) = sha256_Round h a b c d e f g 0x71374491 w1;
      w2 = ReadBE32 (drop 8 chunk);
      (b, f) = sha256_Round g h a b c d e f 0xb5c0fbcf w2;
      w3 = ReadBE32 (drop 12 chunk);
      (a, e) = sha256_Round f g h a b c d e 0xe9b5dba5 w3;
      w4 = ReadBE32 (drop 16 chunk);
      (h, d) = sha256_Round e f g h a b c d 0x3956c25b w4;
      w5 = ReadBE32 (drop 20 chunk);
      (g, c) = sha256_Round d e f g h a b c 0x59f111f1 w5;
      w6 = ReadBE32 (drop 24 chunk);
      (f, b) = sha256_Round c d e f g h a b 0x923f82a4 w6;
      w7 = ReadBE32 (drop 28 chunk);
      (e, a) = sha256_Round b c d e f g h a 0xab1c5ed5 w7;
      w8 = ReadBE32 (drop 32 chunk);
      (d, h) = sha256_Round a b c d e f g h 0xd807aa98 w8;
      w9 = ReadBE32 (drop 36 chunk);
      (c, g) = sha256_Round h a b c d e f g 0x12835b01 w9;
      w10 = ReadBE32 (drop 40 chunk);
      (b, f) = sha256_Round g h a b c d e f 0x243185be w10;
      w11 = ReadBE32 (drop 44 chunk);
      (a, e) = sha256_Round f g h a b c d e 0x550c7dc3 w11;
      w12 = ReadBE32 (drop 48 chunk);
      (h, d) = sha256_Round e f g h a b c d 0x72be5d74 w12;
      w13 = ReadBE32 (drop 52 chunk);
      (g, c) = sha256_Round d e f g h a b c 0x80deb1fe w13;
      w14 = ReadBE32 (drop 56 chunk);
      (f, b) = sha256_Round c d e f g h a b 0x9bdc06a7 w14;
      w15 = ReadBE32 (drop 60 chunk);
      (e, a) = sha256_Round b c d e f g h a 0xc19bf174 w15;
      w0 = w0 + ((sha256_sigma1 w14) + w9 + (sha256_sigma0 w1));
      (d, h) = sha256_Round a b c d e f g h 0xe49b69c1 w0;
      w1 = w1 + ((sha256_sigma1 w15) + w10 + (sha256_sigma0 w2));
      (c, g) = sha256_Round h a b c d e f g 0xefbe4786 w1;
      w2 = w2 + ((sha256_sigma1 w0) + w11 + (sha256_sigma0 w3));
      (b, f) = sha256_Round g h a b c d e f 0x0fc19dc6 w2;
      w3 = w3 + ((sha256_sigma1 w1) + w12 + (sha256_sigma0 w4));
      (a, e) = sha256_Round f g h a b c d e 0x240ca1cc w3;
      w4 = w4 + ((sha256_sigma1 w2) + w13 + (sha256_sigma0 w5));
      (h, d) = sha256_Round e f g h a b c d 0x2de92c6f w4;
      w5 = w5 + ((sha256_sigma1 w3) + w14 + (sha256_sigma0 w6));
      (g, c) = sha256_Round d e f g h a b c 0x4a7484aa w5;
      w6 = w6 + ((sha256_sigma1 w4) + w15 + (sha256_sigma0 w7));
      (f, b) = sha256_Round c d e f g h a b 0x5cb0a9dc w6;
      w7 = w7 + ((sha256_sigma1 w5) + w0 + (sha256_sigma0 w8));
      (e, a) = sha256_Round b c d e f g h a 0x76f988da w7;
      w8 = w8 + ((sha256_sigma1 w6) + w1 + (sha256_sigma0 w9));
      (d, h) = sha256_Round a b c d e f g h 0x983e5152 w8;
      w9 = w9 + ((sha256_sigma1 w7) + w2 + (sha256_sigma0 w10));
      (c, g) = sha256_Round h a b c d e f g 0xa831c66d w9;
      w10 = w10 + ((sha256_sigma1 w8) + w3 + (sha256_sigma0 w11));
      (b, f) = sha256_Round g h a b c d e f 0xb00327c8 w10;
      w11 = w11 + ((sha256_sigma1 w9) + w4 + (sha256_sigma0 w12));
      (a, e) = sha256_Round f g h a b c d e 0xbf597fc7 w11;
      w12 = w12 + ((sha256_sigma1 w10) + w5 + (sha256_sigma0 w13));
      (h, d) = sha256_Round e f g h a b c d 0xc6e00bf3 w12;
      w13 = w13 + ((sha256_sigma1 w11) + w6 + (sha256_sigma0 w14));
      (g, c) = sha256_Round d e f g h a b c 0xd5a79147 w13;
      w14 = w14 + ((sha256_sigma1 w12) + w7 + (sha256_sigma0 w15));
      (f, b) = sha256_Round c d e f g h a b 0x06ca6351 w14;
      w15 = w15 + ((sha256_sigma1 w13) + w8 + (sha256_sigma0 w0));
      (e, a) = sha256_Round b c d e f g h a 0x14292967 w15;
      w0 = w0 + ((sha256_sigma1 w14) + w9 + (sha256_sigma0 w1));
      (d, h) = sha256_Round a b c d e f g h 0x27b70a85 w0;
      w1 = w1 + ((sha256_sigma1 w15) + w10 + (sha256_sigma0 w2));
      (c, g) = sha256_Round h a b c d e f g 0x2e1b2138 w1;
      w2 = w2 + ((sha256_sigma1 w0) + w11 + (sha256_sigma0 w3));
      (b, f) = sha256_Round g h a b c d e f 0x4d2c6dfc w2;
      w3 = w3 + ((sha256_sigma1 w1) + w12 + (sha256_sigma0 w4));
      (a, e) = sha256_Round f g h a b c d e 0x53380d13 w3;
      w4 = w4 + ((sha256_sigma1 w2) + w13 + (sha256_sigma0 w5));
      (h, d) = sha256_Round e f g h a b c d 0x650a7354 w4;
      w5 = w5 + ((sha256_sigma1 w3) + w14 + (sha256_sigma0 w6));
      (g, c) = sha256_Round d e f g h a b c 0x766a0abb w5;
      w6 = w6 + ((sha256_sigma1 w4) + w15 + (sha256_sigma0 w7));
      (f, b) = sha256_Round c d e f g h a b 0x81c2c92e w6;
      w7 = w7 + ((sha256_sigma1 w5) + w0 + (sha256_sigma0 w8));
      (e, a) = sha256_Round b c d e f g h a 0x92722c85 w7;
      w8 = w8 + ((sha256_sigma1 w6) + w1 + (sha256_sigma0 w9));
      (d, h) = sha256_Round a b c d e f g h 0xa2bfe8a1 w8;
      w9 = w9 + ((sha256_sigma1 w7) + w2 + (sha256_sigma0 w10));
      (c, g) = sha256_Round h a b c d e f g 0xa81a664b w9;
      w10 = w10 + ((sha256_sigma1 w8) + w3 + (sha256_sigma0 w11));
      (b, f) = sha256_Round g h a b c d e f 0xc24b8b70 w10;
      w11 = w11 + ((sha256_sigma1 w9) + w4 + (sha256_sigma0 w12));
      (a, e) = sha256_Round f g h a b c d e 0xc76c51a3 w11;
      w12 = w12 + ((sha256_sigma1 w10) + w5 + (sha256_sigma0 w13));
      (h, d) = sha256_Round e f g h a b c d 0xd192e819 w12;
      w13 = w13 + ((sha256_sigma1 w11) + w6 + (sha256_sigma0 w14));
      (g, c) = sha256_Round d e f g h a b c 0xd6990624 w13;
      w14 = w14 + ((sha256_sigma1 w12) + w7 + (sha256_sigma0 w15));
      (f, b) = sha256_Round c d e f g h a b 0xf40e3585 w14;
      w15 = w15 + ((sha256_sigma1 w13) + w8 + (sha256_sigma0 w0));
      (e, a) = sha256_Round b c d e f g h a 0x106aa070 w15;
      w0 = w0 + ((sha256_sigma1 w14) + w9 + (sha256_sigma0 w1));
      (d, h) = sha256_Round a b c d e f g h 0x19a4c116 w0;
      w1 = w1 + ((sha256_sigma1 w15) + w10 + (sha256_sigma0 w2));
      (c, g) = sha256_Round h a b c d e f g 0x1e376c08 w1;
      w2 = w2 + ((sha256_sigma1 w0) + w11 + (sha256_sigma0 w3));
      (b, f) = sha256_Round g h a b c d e f 0x2748774c w2;
      w3 = w3 + ((sha256_sigma1 w1) + w12 + (sha256_sigma0 w4));
      (a, e) = sha256_Round f g h a b c d e 0x34b0bcb5 w3;
      w4 = w4 + ((sha256_sigma1 w2) + w13 + (sha256_sigma0 w5));
      (h, d) = sha256_Round e f g h a b c d 0x391c0cb3 w4;
      w5 = w5 + ((sha256_sigma1 w3) + w14 + (sha256_sigma0 w6));
      (g, c) = sha256_Round d e f g h a b c 0x4ed8aa4a w5;
      w6 = w6 + ((sha256_sigma1 w4) + w15 + (sha256_sigma0 w7));
      (f, b) = sha256_Round c d e f g h a b 0x5b9cca4f w6;
      w7 = w7 + ((sha256_sigma1 w5) + w0 + (sha256_sigma0 w8));
      (e, a) = sha256_Round b c d e f g h a 0x682e6ff3 w7;
      w8 = w8 + ((sha256_sigma1 w6) + w1 + (sha256_sigma0 w9));
      (d, h) = sha256_Round a b c d e f g h 0x748f82ee w8;
      w9 = w9 + ((sha256_sigma1 w7) + w2 + (sha256_sigma0 w10));
      (c, g) = sha256_Round h a b c d e f g 0x78a5636f w9;
      w10 = w10 + ((sha256_sigma1 w8) + w3 + (sha256_sigma0 w11));
      (b, f) = sha256_Round g h a b c d e f 0x84c87814 w10;
      w11 = w11 + ((sha256_sigma1 w9) + w4 + (sha256_sigma0 w12));
      (a, e) = sha256_Round f g h a b c d e 0x8cc70208 w11;
      w12 = w12 + ((sha256_sigma1 w10) + w5 + (sha256_sigma0 w13));
      (h, d) = sha256_Round e f g h a b c d 0x90befffa w12;
      w13 = w13 + ((sha256_sigma1 w11) + w6 + (sha256_sigma0 w14));
      (g, c) = sha256_Round d e f g h a b c 0xa4506ceb w13;
      (f, b) = sha256_Round c d e f g h a b 0xbef9a3f7 (w14 + (sha256_sigma1 w12) + w7 + (sha256_sigma0 w15));
      (e, a) = sha256_Round b c d e f g h a 0xc67178f2 (w15 + (sha256_sigma1 w13) + w8 + (sha256_sigma0 w0))
      in [s ! 0 + a, s ! 1 + b, s ! 2 + c, s ! 3 + d, s ! 4 + e, s ! 5 + f, s ! 6 + g, s ! 7 + h])"

section \<open>The class \<open>CSHA256\<close>\<close>

text \<open>
  The constructor leaves the buffer uninitialised: its content is a parameter.
\<close>

definition CSHA256 :: "byte list \<Rightarrow> 32 word hasher" where
  "CSHA256 garbage = \<lparr>hs = sha256_Initialize, buf = garbage, bytes = 0\<rparr>"

definition CSHA256_Write :: "32 word hasher \<Rightarrow> byte list \<Rightarrow> 32 word hasher" where
  "CSHA256_Write = hasher_Write 64 sha256_Transform"

definition CSHA256_out :: "32 word list \<Rightarrow> byte list" where
  "CSHA256_out s = concat (map WriteBE32 (take 8 s))"

definition CSHA256_Finalize :: "32 word hasher \<Rightarrow> byte list" where
  "CSHA256_Finalize = hasher_Finalize 64 sha256_Transform 119 WriteBE64 CSHA256_out"

definition CSHA256_Reset :: "32 word hasher \<Rightarrow> 32 word hasher" where
  "CSHA256_Reset h = h\<lparr>bytes := 0, hs := sha256_Initialize\<rparr>"

text \<open>The digest of a byte string by a fresh object: construct, \<open>Write\<close>, \<open>Finalize\<close>.\<close>

definition CSHA256_digest :: "byte list \<Rightarrow> byte list" where
  "CSHA256_digest data = CSHA256_Finalize (CSHA256_Write (CSHA256 (replicate 64 0)) data)"

section \<open>CSHA256 is a digest hash\<close>

lemma length_sha256_Transform: "length (sha256_Transform s chunk) = 8"
  unfolding sha256_Transform_def by (rule length_bindings | simp only: list.size)+

lemma length_CSHA256_out: "length s = 8 \<Longrightarrow> length (CSHA256_out s) = 32"
  by (simp add: CSHA256_out_def length_concat comp_def sum_list_triv)

interpretation sha256_hash: digest_hash 64 sha256_Transform sha256_Initialize 119 WriteBE64 CSHA256_out 8 32 8
  by unfold_locales
    (simp_all add: sha256_Initialize_def length_sha256_Transform length_CSHA256_out )

lemma CSHA256_digest_spec:
  "CSHA256_digest data = digest_of 64 sha256_Transform sha256_Initialize 119 WriteBE64 CSHA256_out data"
proof -
  have "represents 64 sha256_Transform sha256_Initialize
      (CSHA256_Write (CSHA256 (replicate 64 0)) data) ([] @ data)"
    unfolding CSHA256_Write_def CSHA256_def
    by (intro sha256_hash.Write_represents sha256_hash.represents_init) simp
  from sha256_hash.Finalize_digest [OF this] show ?thesis
    by (simp add: CSHA256_digest_def CSHA256_Finalize_def)
qed

end
