(* ===== verification/Sha512.thy ===== *)
theory Sha512
  imports HashStream
begin

text \<open>
  \<open>src/crypto/sha512.cpp\<close>: SHA-512, the hash behind the wallet key derivation.
  The 16 schedule words and the unrolled rounds are kept as the source has them, one line per
  call of \<open>Round\<close>, with the two registers the call updates by reference bound by the \<open>let\<close>.
\<close>

definition sha512_Ch :: "64 word \<Rightarrow> 64 word \<Rightarrow> 64 word \<Rightarrow> 64 word" where
  "sha512_Ch x y z = z XOR (x AND (y XOR z))"

definition sha512_Maj :: "64 word \<Rightarrow> 64 word \<Rightarrow> 64 word \<Rightarrow> 64 word" where
  "sha512_Maj x y z = (x AND y) OR (z AND (x OR y))"

definition sha512_Sigma0 :: "64 word \<Rightarrow> 64 word" where
  "sha512_Sigma0 x = (drop_bit 28 x OR push_bit 36 x) XOR (drop_bit 34 x OR push_bit 30 x) XOR (drop_bit 39 x OR push_bit 25 x)"

definition sha512_Sigma1 :: "64 word \<Rightarrow> 64 word" where
  "sha512_Sigma1 x = (drop_bit 14 x OR push_bit 50 x) XOR (drop_bit 18 x OR push_bit 46 x) XOR (drop_bit 41 x OR push_bit 23 x)"

definition sha512_sigma0 :: "64 word \<Rightarrow> 64 word" where
  "sha512_sigma0 x = (drop_bit 1 x OR push_bit 63 x) XOR (drop_bit 8 x OR push_bit 56 x) XOR drop_bit 7 x"

definition sha512_sigma1 :: "64 word \<Rightarrow> 64 word" where
  "sha512_sigma1 x = (drop_bit 19 x OR push_bit 45 x) XOR (drop_bit 61 x OR push_bit 3 x) XOR drop_bit 6 x"

text \<open>\<open>Round\<close> returns its two reference parameters, the new \<open>d\<close> and the new \<open>h\<close>.\<close>

definition sha512_Round ::
  "64 word \<Rightarrow> 64 word \<Rightarrow> 64 word \<Rightarrow> 64 word \<Rightarrow> 64 word \<Rightarrow> 64 word \<Rightarrow> 64 word \<Rightarrow> 64 word \<Rightarrow>
   64 word \<Rightarrow> 64 word \<Rightarrow> 64 word \<times> 64 word" where
  "sha512_Round a b c d e f g h k w =
     (let t1 = h + sha512_Sigma1 e + sha512_Ch e f g + k + w;
          t2 = sha512_Sigma0 a + sha512_Maj a b c
      in (d + t1, t1 + t2))"

definition sha512_Initialize :: "64 word list" where
  "sha512_Initialize =
     [0x6a09e667f3bcc908, 0xbb67ae8584caa73b, 0x3c6ef372fe94f82b, 0xa54ff53a5f1d36f1,
      0x510e527fade682d1, 0x9b05688c2b3e6c1f, 0x1f83d9abfb41bd6b, 0x5be0cd19137e2179]"

definition sha512_Transform :: "64 word list \<Rightarrow> byte list \<Rightarrow> 64 word list" where
  "sha512_Transform s chunk =
     (let a = s ! 0; b = s ! 1; c = s ! 2; d = s ! 3; e = s ! 4; f = s ! 5; g = s ! 6; h = s ! 7;
      w0 = ReadBE64 (drop 0 chunk);
      (d, h) = sha512_Round a b c d e f g h 0x428a2f98d728ae22 w0;
      w1 = ReadBE64 (drop 8 chunk);
      (c, g) = sha512_Round h a b c d e f g 0x7137449123ef65cd w1;
      w2 = ReadBE64 (drop 16 chunk);
      (b, f) = sha512_Round g h a b c d e f 0xb5c0fbcfec4d3b2f w2;
      w3 = ReadBE64 (drop 24 chunk);
      (a, e) = sha512_Round f g h a b c d e 0xe9b5dba58189dbbc w3;
      w4 = ReadBE64 (drop 32 chunk);
      (h, d) = sha512_Round e f g h a b c d 0x3956c25bf348b538 w4;
      w5 = ReadBE64 (drop 40 chunk);
      (g, c) = sha512_Round d e f g h a b c 0x59f111f1b605d019 w5;
      w6 = ReadBE64 (drop 48 chunk);
      (f, b) = sha512_Round c d e f g h a b 0x923f82a4af194f9b w6;
      w7 = ReadBE64 (drop 56 chunk);
      (e, a) = sha512_Round b c d e f g h a 0xab1c5ed5da6d8118 w7;
      w8 = ReadBE64 (drop 64 chunk);
      (d, h) = sha512_Round a b c d e f g h 0xd807aa98a3030242 w8;
      w9 = ReadBE64 (drop 72 chunk);
      (c, g) = sha512_Round h a b c d e f g 0x12835b0145706fbe w9;
      w10 = ReadBE64 (drop 80 chunk);
      (b, f) = sha512_Round g h a b c d e f 0x243185be4ee4b28c w10;
      w11 = ReadBE64 (drop 88 chunk);
      (a, e) = sha512_Round f g h a b c d e 0x550c7dc3d5ffb4e2 w11;
      w12 = ReadBE64 (drop 96 chunk);
      (h, d) = sha512_Round e f g h a b c d 0x72be5d74f27b896f w12;
      w13 = ReadBE64 (drop 104 chunk);
      (g, c) = sha512_Round d e f g h a b c 0x80deb1fe3b1696b1 w13;
      w14 = ReadBE64 (drop 112 chunk);
      (f, b) = sha512_Round c d e f g h a b 0x9bdc06a725c71235 w14;
      w15 = ReadBE64 (drop 120 chunk);
      (e, a) = sha512_Round b c d e f g h a 0xc19bf174cf692694 w15;
      w0 = w0 + ((sha512_sigma1 w14) + w9 + (sha512_sigma0 w1));
      (d, h) = sha512_Round a b c d e f g h 0xe49b69c19ef14ad2 w0;
      w1 = w1 + ((sha512_sigma1 w15) + w10 + (sha512_sigma0 w2));
      (c, g) = sha512_Round h a b c d e f g 0xefbe4786384f25e3 w1;
      w2 = w2 + ((sha512_sigma1 w0) + w11 + (sha512_sigma0 w3));
      (b, f) = sha512_Round g h a b c d e f 0x0fc19dc68b8cd5b5 w2;
      w3 = w3 + ((sha512_sigma1 w1) + w12 + (sha512_sigma0 w4));
      (a, e) = sha512_Round f g h a b c d e 0x240ca1cc77ac9c65 w3;
      w4 = w4 + ((sha512_sigma1 w2) + w13 + (sha512_sigma0 w5));
      (h, d) = sha512_Round e f g h a b c d 0x2de92c6f592b0275 w4;
      w5 = w5 + ((sha512_sigma1 w3) + w14 + (sha512_sigma0 w6));
      (g, c) = sha512_Round d e f g h a b c 0x4a7484aa6ea6e483 w5;
      w6 = w6 + ((sha512_sigma1 w4) + w15 + (sha512_sigma0 w7));
      (f, b) = sha512_Round c d e f g h a b 0x5cb0a9dcbd41fbd4 w6;
      w7 = w7 + ((sha512_sigma1 w5) + w0 + (sha512_sigma0 w8));
      (e, a) = sha512_Round b c d e f g h a 0x76f988da831153b5 w7;
      w8 = w8 + ((sha512_sigma1 w6) + w1 + (sha512_sigma0 w9));
      (d, h) = sha512_Round a b c d e f g h 0x983e5152ee66dfab w8;
      w9 = w9 + ((sha512_sigma1 w7) + w2 + (sha512_sigma0 w10));
      (c, g) = sha512_Round h a b c d e f g 0xa831c66d2db43210 w9;
      w10 = w10 + ((sha512_sigma1 w8) + w3 + (sha512_sigma0 w11));
      (b, f) = sha512_Round g h a b c d e f 0xb00327c898fb213f w10;
      w11 = w11 + ((sha512_sigma1 w9) + w4 + (sha512_sigma0 w12));
      (a, e) = sha512_Round f g h a b c d e 0xbf597fc7beef0ee4 w11;
      w12 = w12 + ((sha512_sigma1 w10) + w5 + (sha512_sigma0 w13));
      (h, d) = sha512_Round e f g h a b c d 0xc6e00bf33da88fc2 w12;
      w13 = w13 + ((sha512_sigma1 w11) + w6 + (sha512_sigma0 w14));
      (g, c) = sha512_Round d e f g h a b c 0xd5a79147930aa725 w13;
      w14 = w14 + ((sha512_sigma1 w12) + w7 + (sha512_sigma0 w15));
      (f, b) = sha512_Round c d e f g h a b 0x06ca6351e003826f w14;
      w15 = w15 + ((sha512_sigma1 w13) + w8 + (sha512_sigma0 w0));
      (e, a) = sha512_Round b c d e f g h a 0x142929670a0e6e70 w15;
      w0 = w0 + ((sha512_sigma1 w14) + w9 + (sha512_sigma0 w1));
      (d, h) = sha512_Round a b c d e f g h 0x27b70a8546d22ffc w0;
      w1 = w1 + ((sha512_sigma1 w15) + w10 + (sha512_sigma0 w2));
      (c, g) = sha512_Round h a b c d e f g 0x2e1b21385c26c926 w1;
      w2 = w2 + ((sha512_sigma1 w0) + w11 + (sha512_sigma0 w3));
      (b, f) = sha512_Round g h a b c d e f 0x4d2c6dfc5ac42aed w2;
      w3 = w3 + ((sha512_sigma1 w1) + w12 + (sha512_sigma0 w4));
      (a, e) = sha512_Round f g h a b c d e 0x53380d139d95b3df w3;
      w4 = w4 + ((sha512_sigma1 w2) + w13 + (sha512_sigma0 w5));
      (h, d) = sha512_Round e f g h a b c d 0x650a73548baf63de w4;
      w5 = w5 + ((sha512_sigma1 w3) + w14 + (sha512_sigma0 w6));
      (g, c) = sha512_Round d e f g h a b c 0x766a0abb3c77b2a8 w5;
      w6 = w6 + ((sha512_sigma1 w4) + w15 + (sha512_sigma0 w7));
      (f, b) = sha512_Round c d e f g h a b 0x81c2c92e47edaee6 w6;
      w7 = w7 + ((sha512_sigma1 w5) + w0 + (sha512_sigma0 w8));
      (e, a) = sha512_Round b c d e f g h a 0x92722c851482353b w7;
      w8 = w8 + ((sha512_sigma1 w6) + w1 + (sha512_sigma0 w9));
      (d, h) = sha512_Round a b c d e f g h 0xa2bfe8a14cf10364 w8;
      w9 = w9 + ((sha512_sigma1 w7) + w2 + (sha512_sigma0 w10));
      (c, g) = sha512_Round h a b c d e f g 0xa81a664bbc423001 w9;
      w10 = w10 + ((sha512_sigma1 w8) + w3 + (sha512_sigma0 w11));
      (b, f) = sha512_Round g h a b c d e f 0xc24b8b70d0f89791 w10;
      w11 = w11 + ((sha512_sigma1 w9) + w4 + (sha512_sigma0 w12));
      (a, e) = sha512_Round f g h a b c d e 0xc76c51a30654be30 w11;
      w12 = w12 + ((sha512_sigma1 w10) + w5 + (sha512_sigma0 w13));
      (h, d) = sha512_Round e f g h a b c d 0xd192e819d6ef5218 w12;
      w13 = w13 + ((sha512_sigma1 w11) + w6 + (sha512_sigma0 w14));
      (g, c) = sha512_Round d e f g h a b c 0xd69906245565a910 w13;
      w14 = w14 + ((sha512_sigma1 w12) + w7 + (sha512_sigma0 w15));
      (f, b) = sha512_Round c d e f g h a b 0xf40e35855771202a w14;
      w15 = w15 + ((sha512_sigma1 w13) + w8 + (sha512_sigma0 w0));
      (e, a) = sha512_Round b c d e f g h a 0x106aa07032bbd1b8 w15;
      w0 = w0 + ((sha512_sigma1 w14) + w9 + (sha512_sigma0 w1));
      (d, h) = sha512_Round a b c d e f g h 0x19a4c116b8d2d0c8 w0;
      w1 = w1 + ((sha512_sigma1 w15) + w10 + (sha512_sigma0 w2));
      (c, g) = sha512_Round h a b c d e f g 0x1e376c085141ab53 w1;
      w2 = w2 + ((sha512_sigma1 w0) + w11 + (sha512_sigma0 w3));
      (b, f) = sha512_Round g h a b c d e f 0x2748774cdf8eeb99 w2;
      w3 = w3 + ((sha512_sigma1 w1) + w12 + (sha512_sigma0 w4));
      (a, e) = sha512_Round f g h a b c d e 0x34b0bcb5e19b48a8 w3;
      w4 = w4 + ((sha512_sigma1 w2) + w13 + (sha512_sigma0 w5));
      (h, d) = sha512_Round e f g h a b c d 0x391c0cb3c5c95a63 w4;
      w5 = w5 + ((sha512_sigma1 w3) + w14 + (sha512_sigma0 w6));
      (g, c) = sha512_Round d e f g h a b c 0x4ed8aa4ae3418acb w5;
      w6 = w6 + ((sha512_sigma1 w4) + w15 + (sha512_sigma0 w7));
      (f, b) = sha512_Round c d e f g h a b 0x5b9cca4f7763e373 w6;
      w7 = w7 + ((sha512_sigma1 w5) + w0 + (sha512_sigma0 w8));
      (e, a) = sha512_Round b c d e f g h a 0x682e6ff3d6b2b8a3 w7;
      w8 = w8 + ((sha512_sigma1 w6) + w1 + (sha512_sigma0 w9));
      (d, h) = sha512_Round a b c d e f g h 0x748f82ee5defb2fc w8;
      w9 = w9 + ((sha512_sigma1 w7) + w2 + (sha512_sigma0 w10));
      (c, g) = sha512_Round h a b c d e f g 0x78a5636f43172f60 w9;
      w10 = w10 + ((sha512_sigma1 w8) + w3 + (sha512_sigma0 w11));
      (b, f) = sha512_Round g h a b c d e f 0x84c87814a1f0ab72 w10;
      w11 = w11 + ((sha512_sigma1 w9) + w4 + (sha512_sigma0 w12));
      (a, e) = sha512_Round f g h a b c d e 0x8cc702081a6439ec w11;
      w12 = w12 + ((sha512_sigma1 w10) + w5 + (sha512_sigma0 w13));
      (h, d) = sha512_Round e f g h a b c d 0x90befffa23631e28 w12;
      w13 = w13 + ((sha512_sigma1 w11) + w6 + (sha512_sigma0 w14));
      (g, c) = sha512_Round d e f g h a b c 0xa4506cebde82bde9 w13;
      w14 = w14 + ((sha512_sigma1 w12) + w7 + (sha512_sigma0 w15));
      (f, b) = sha512_Round c d e f g h a b 0xbef9a3f7b2c67915 w14;
      w15 = w15 + ((sha512_sigma1 w13) + w8 + (sha512_sigma0 w0));
      (e, a) = sha512_Round b c d e f g h a 0xc67178f2e372532b w15;
      w0 = w0 + ((sha512_sigma1 w14) + w9 + (sha512_sigma0 w1));
      (d, h) = sha512_Round a b c d e f g h 0xca273eceea26619c w0;
      w1 = w1 + ((sha512_sigma1 w15) + w10 + (sha512_sigma0 w2));
      (c, g) = sha512_Round h a b c d e f g 0xd186b8c721c0c207 w1;
      w2 = w2 + ((sha512_sigma1 w0) + w11 + (sha512_sigma0 w3));
      (b, f) = sha512_Round g h a b c d e f 0xeada7dd6cde0eb1e w2;
      w3 = w3 + ((sha512_sigma1 w1) + w12 + (sha512_sigma0 w4));
      (a, e) = sha512_Round f g h a b c d e 0xf57d4f7fee6ed178 w3;
      w4 = w4 + ((sha512_sigma1 w2) + w13 + (sha512_sigma0 w5));
      (h, d) = sha512_Round e f g h a b c d 0x06f067aa72176fba w4;
      w5 = w5 + ((sha512_sigma1 w3) + w14 + (sha512_sigma0 w6));
      (g, c) = sha512_Round d e f g h a b c 0x0a637dc5a2c898a6 w5;
      w6 = w6 + ((sha512_sigma1 w4) + w15 + (sha512_sigma0 w7));
      (f, b) = sha512_Round c d e f g h a b 0x113f9804bef90dae w6;
      w7 = w7 + ((sha512_sigma1 w5) + w0 + (sha512_sigma0 w8));
      (e, a) = sha512_Round b c d e f g h a 0x1b710b35131c471b w7;
      w8 = w8 + ((sha512_sigma1 w6) + w1 + (sha512_sigma0 w9));
      (d, h) = sha512_Round a b c d e f g h 0x28db77f523047d84 w8;
      w9 = w9 + ((sha512_sigma1 w7) + w2 + (sha512_sigma0 w10));
      (c, g) = sha512_Round h a b c d e f g 0x32caab7b40c72493 w9;
      w10 = w10 + ((sha512_sigma1 w8) + w3 + (sha512_sigma0 w11));
      (b, f) = sha512_Round g h a b c d e f 0x3c9ebe0a15c9bebc w10;
      w11 = w11 + ((sha512_sigma1 w9) + w4 + (sha512_sigma0 w12));
      (a, e) = sha512_Round f g h a b c d e 0x431d67c49c100d4c w11;
      w12 = w12 + ((sha512_sigma1 w10) + w5 + (sha512_sigma0 w13));
      (h, d) = sha512_Round e f g h a b c d 0x4cc5d4becb3e42b6 w12;
      w13 = w13 + ((sha512_sigma1 w11) + w6 + (sha512_sigma0 w14));
      (g, c) = sha512_Round d e f g h a b c 0x597f299cfc657e2a w13;
      (f, b) = sha512_Round c d e f g h a b 0x5fcb6fab3ad6faec (w14 + (sha512_sigma1 w12) + w7 + (sha512_sigma0 w15));
      (e, a) = sha512_Round b c d e f g h a 0x6c44198c4a475817 (w15 + (sha512_sigma1 w13) + w8 + (sha512_sigma0 w0))
      in [s ! 0 + a, s ! 1 + b, s ! 2 + c, s ! 3 + d, s ! 4 + e, s ! 5 + f, s ! 6 + g, s ! 7 + h])"

section \<open>The class \<open>CSHA512\<close>\<close>

text \<open>
  The constructor leaves the buffer uninitialised: its content is a parameter.
\<close>

definition CSHA512 :: "byte list \<Rightarrow> 64 word hasher" where
  "CSHA512 garbage = \<lparr>hs = sha512_Initialize, buf = garbage, bytes = 0\<rparr>"

definition CSHA512_Write :: "64 word hasher \<Rightarrow> byte list \<Rightarrow> 64 word hasher" where
  "CSHA512_Write = hasher_Write 128 sha512_Transform"

definition CSHA512_out :: "64 word list \<Rightarrow> byte list" where
  "CSHA512_out s = concat (map WriteBE64 (take 8 s))"

definition CSHA512_sizedesc :: "64 word \<Rightarrow> byte list" where
  "CSHA512_sizedesc n = replicate 8 0 @ WriteBE64 n"

definition CSHA512_Finalize :: "64 word hasher \<Rightarrow> byte list" where
  "CSHA512_Finalize = hasher_Finalize 128 sha512_Transform 239 CSHA512_sizedesc CSHA512_out"

definition CSHA512_Reset :: "64 word hasher \<Rightarrow> 64 word hasher" where
  "CSHA512_Reset h = h\<lparr>bytes := 0, hs := sha512_Initialize\<rparr>"

text \<open>The digest of a byte string by a fresh object: construct, \<open>Write\<close>, \<open>Finalize\<close>.\<close>

definition CSHA512_digest :: "byte list \<Rightarrow> byte list" where
  "CSHA512_digest data = CSHA512_Finalize (CSHA512_Write (CSHA512 (replicate 128 0)) data)"

section \<open>CSHA512 is a digest hash\<close>

lemma length_sha512_Transform: "length (sha512_Transform s chunk) = 8"
  unfolding sha512_Transform_def by (rule length_bindings | simp only: list.size)+

lemma length_CSHA512_out: "length s = 8 \<Longrightarrow> length (CSHA512_out s) = 64"
  by (simp add: CSHA512_out_def length_concat comp_def sum_list_triv)

interpretation sha512_hash: digest_hash 128 sha512_Transform sha512_Initialize 239 CSHA512_sizedesc CSHA512_out 8 64 16
  by unfold_locales
    (simp_all add: sha512_Initialize_def length_sha512_Transform length_CSHA512_out CSHA512_sizedesc_def)

lemma CSHA512_digest_spec:
  "CSHA512_digest data = digest_of 128 sha512_Transform sha512_Initialize 239 CSHA512_sizedesc CSHA512_out data"
proof -
  have "represents 128 sha512_Transform sha512_Initialize
      (CSHA512_Write (CSHA512 (replicate 128 0)) data) ([] @ data)"
    unfolding CSHA512_Write_def CSHA512_def
    by (intro sha512_hash.Write_represents sha512_hash.represents_init) simp
  from sha512_hash.Finalize_digest [OF this] show ?thesis
    by (simp add: CSHA512_digest_def CSHA512_Finalize_def)
qed

end
