(* ===== verification/Sha1.thy ===== *)
theory Sha1
  imports HashStream
begin

text \<open>
  \<open>src/crypto/sha1.cpp\<close>: SHA-1, reached by scripts through \<open>OP_SHA1\<close>. \<open>Round\<close> returns the two
  registers it updates by reference, \<open>b\<close> and \<open>e\<close>.
\<close>

definition sha1_Round ::
  "32 word \<Rightarrow> 32 word \<Rightarrow> 32 word \<Rightarrow> 32 word \<Rightarrow> 32 word \<Rightarrow> 32 word \<Rightarrow> 32 word \<Rightarrow> 32 word \<Rightarrow> 32 word \<times> 32 word"
where
  "sha1_Round a b c d e f k w =
     (push_bit 30 b OR drop_bit 2 b,
      e + ((push_bit 5 a OR drop_bit 27 a) + f + k + w))"

definition sha1_f1 :: "32 word \<Rightarrow> 32 word \<Rightarrow> 32 word \<Rightarrow> 32 word" where
  "sha1_f1 b c d = d XOR (b AND (c XOR d))"

definition sha1_f2 :: "32 word \<Rightarrow> 32 word \<Rightarrow> 32 word \<Rightarrow> 32 word" where
  "sha1_f2 b c d = b XOR c XOR d"

definition sha1_f3 :: "32 word \<Rightarrow> 32 word \<Rightarrow> 32 word \<Rightarrow> 32 word" where
  "sha1_f3 b c d = (b AND c) OR (d AND (b OR c))"

definition sha1_left :: "32 word \<Rightarrow> 32 word" where
  "sha1_left x = push_bit 1 x OR drop_bit 31 x"

definition sha1_Initialize :: "32 word list" where
  "sha1_Initialize = [0x67452301, 0xEFCDAB89, 0x98BADCFE, 0x10325476, 0xC3D2E1F0]"

definition sha1_k1 :: "32 word" where "sha1_k1 = 0x5A827999"

definition sha1_k2 :: "32 word" where "sha1_k2 = 0x6ED9EBA1"

definition sha1_k3 :: "32 word" where "sha1_k3 = 0x8F1BBCDC"

definition sha1_k4 :: "32 word" where "sha1_k4 = 0xCA62C1D6"

definition sha1_Transform :: "32 word list \<Rightarrow> byte list \<Rightarrow> 32 word list" where
  "sha1_Transform s chunk =
     (let a = s ! 0; b = s ! 1; c = s ! 2; d = s ! 3; e = s ! 4;
      w0 = ReadBE32 (drop 0 chunk);
      (b, e) = sha1_Round a b c d e (sha1_f1 b c d) sha1_k1 w0;
      w1 = ReadBE32 (drop 4 chunk);
      (a, d) = sha1_Round e a b c d (sha1_f1 a b c) sha1_k1 w1;
      w2 = ReadBE32 (drop 8 chunk);
      (e, c) = sha1_Round d e a b c (sha1_f1 e a b) sha1_k1 w2;
      w3 = ReadBE32 (drop 12 chunk);
      (d, b) = sha1_Round c d e a b (sha1_f1 d e a) sha1_k1 w3;
      w4 = ReadBE32 (drop 16 chunk);
      (c, a) = sha1_Round b c d e a (sha1_f1 c d e) sha1_k1 w4;
      w5 = ReadBE32 (drop 20 chunk);
      (b, e) = sha1_Round a b c d e (sha1_f1 b c d) sha1_k1 w5;
      w6 = ReadBE32 (drop 24 chunk);
      (a, d) = sha1_Round e a b c d (sha1_f1 a b c) sha1_k1 w6;
      w7 = ReadBE32 (drop 28 chunk);
      (e, c) = sha1_Round d e a b c (sha1_f1 e a b) sha1_k1 w7;
      w8 = ReadBE32 (drop 32 chunk);
      (d, b) = sha1_Round c d e a b (sha1_f1 d e a) sha1_k1 w8;
      w9 = ReadBE32 (drop 36 chunk);
      (c, a) = sha1_Round b c d e a (sha1_f1 c d e) sha1_k1 w9;
      w10 = ReadBE32 (drop 40 chunk);
      (b, e) = sha1_Round a b c d e (sha1_f1 b c d) sha1_k1 w10;
      w11 = ReadBE32 (drop 44 chunk);
      (a, d) = sha1_Round e a b c d (sha1_f1 a b c) sha1_k1 w11;
      w12 = ReadBE32 (drop 48 chunk);
      (e, c) = sha1_Round d e a b c (sha1_f1 e a b) sha1_k1 w12;
      w13 = ReadBE32 (drop 52 chunk);
      (d, b) = sha1_Round c d e a b (sha1_f1 d e a) sha1_k1 w13;
      w14 = ReadBE32 (drop 56 chunk);
      (c, a) = sha1_Round b c d e a (sha1_f1 c d e) sha1_k1 w14;
      w15 = ReadBE32 (drop 60 chunk);
      (b, e) = sha1_Round a b c d e (sha1_f1 b c d) sha1_k1 w15;
      w0 = sha1_left (w0 XOR w13 XOR w8 XOR w2);
      (a, d) = sha1_Round e a b c d (sha1_f1 a b c) sha1_k1 w0;
      w1 = sha1_left (w1 XOR w14 XOR w9 XOR w3);
      (e, c) = sha1_Round d e a b c (sha1_f1 e a b) sha1_k1 w1;
      w2 = sha1_left (w2 XOR w15 XOR w10 XOR w4);
      (d, b) = sha1_Round c d e a b (sha1_f1 d e a) sha1_k1 w2;
      w3 = sha1_left (w3 XOR w0 XOR w11 XOR w5);
      (c, a) = sha1_Round b c d e a (sha1_f1 c d e) sha1_k1 w3;
      w4 = sha1_left (w4 XOR w1 XOR w12 XOR w6);
      (b, e) = sha1_Round a b c d e (sha1_f2 b c d) sha1_k2 w4;
      w5 = sha1_left (w5 XOR w2 XOR w13 XOR w7);
      (a, d) = sha1_Round e a b c d (sha1_f2 a b c) sha1_k2 w5;
      w6 = sha1_left (w6 XOR w3 XOR w14 XOR w8);
      (e, c) = sha1_Round d e a b c (sha1_f2 e a b) sha1_k2 w6;
      w7 = sha1_left (w7 XOR w4 XOR w15 XOR w9);
      (d, b) = sha1_Round c d e a b (sha1_f2 d e a) sha1_k2 w7;
      w8 = sha1_left (w8 XOR w5 XOR w0 XOR w10);
      (c, a) = sha1_Round b c d e a (sha1_f2 c d e) sha1_k2 w8;
      w9 = sha1_left (w9 XOR w6 XOR w1 XOR w11);
      (b, e) = sha1_Round a b c d e (sha1_f2 b c d) sha1_k2 w9;
      w10 = sha1_left (w10 XOR w7 XOR w2 XOR w12);
      (a, d) = sha1_Round e a b c d (sha1_f2 a b c) sha1_k2 w10;
      w11 = sha1_left (w11 XOR w8 XOR w3 XOR w13);
      (e, c) = sha1_Round d e a b c (sha1_f2 e a b) sha1_k2 w11;
      w12 = sha1_left (w12 XOR w9 XOR w4 XOR w14);
      (d, b) = sha1_Round c d e a b (sha1_f2 d e a) sha1_k2 w12;
      w13 = sha1_left (w13 XOR w10 XOR w5 XOR w15);
      (c, a) = sha1_Round b c d e a (sha1_f2 c d e) sha1_k2 w13;
      w14 = sha1_left (w14 XOR w11 XOR w6 XOR w0);
      (b, e) = sha1_Round a b c d e (sha1_f2 b c d) sha1_k2 w14;
      w15 = sha1_left (w15 XOR w12 XOR w7 XOR w1);
      (a, d) = sha1_Round e a b c d (sha1_f2 a b c) sha1_k2 w15;
      w0 = sha1_left (w0 XOR w13 XOR w8 XOR w2);
      (e, c) = sha1_Round d e a b c (sha1_f2 e a b) sha1_k2 w0;
      w1 = sha1_left (w1 XOR w14 XOR w9 XOR w3);
      (d, b) = sha1_Round c d e a b (sha1_f2 d e a) sha1_k2 w1;
      w2 = sha1_left (w2 XOR w15 XOR w10 XOR w4);
      (c, a) = sha1_Round b c d e a (sha1_f2 c d e) sha1_k2 w2;
      w3 = sha1_left (w3 XOR w0 XOR w11 XOR w5);
      (b, e) = sha1_Round a b c d e (sha1_f2 b c d) sha1_k2 w3;
      w4 = sha1_left (w4 XOR w1 XOR w12 XOR w6);
      (a, d) = sha1_Round e a b c d (sha1_f2 a b c) sha1_k2 w4;
      w5 = sha1_left (w5 XOR w2 XOR w13 XOR w7);
      (e, c) = sha1_Round d e a b c (sha1_f2 e a b) sha1_k2 w5;
      w6 = sha1_left (w6 XOR w3 XOR w14 XOR w8);
      (d, b) = sha1_Round c d e a b (sha1_f2 d e a) sha1_k2 w6;
      w7 = sha1_left (w7 XOR w4 XOR w15 XOR w9);
      (c, a) = sha1_Round b c d e a (sha1_f2 c d e) sha1_k2 w7;
      w8 = sha1_left (w8 XOR w5 XOR w0 XOR w10);
      (b, e) = sha1_Round a b c d e (sha1_f3 b c d) sha1_k3 w8;
      w9 = sha1_left (w9 XOR w6 XOR w1 XOR w11);
      (a, d) = sha1_Round e a b c d (sha1_f3 a b c) sha1_k3 w9;
      w10 = sha1_left (w10 XOR w7 XOR w2 XOR w12);
      (e, c) = sha1_Round d e a b c (sha1_f3 e a b) sha1_k3 w10;
      w11 = sha1_left (w11 XOR w8 XOR w3 XOR w13);
      (d, b) = sha1_Round c d e a b (sha1_f3 d e a) sha1_k3 w11;
      w12 = sha1_left (w12 XOR w9 XOR w4 XOR w14);
      (c, a) = sha1_Round b c d e a (sha1_f3 c d e) sha1_k3 w12;
      w13 = sha1_left (w13 XOR w10 XOR w5 XOR w15);
      (b, e) = sha1_Round a b c d e (sha1_f3 b c d) sha1_k3 w13;
      w14 = sha1_left (w14 XOR w11 XOR w6 XOR w0);
      (a, d) = sha1_Round e a b c d (sha1_f3 a b c) sha1_k3 w14;
      w15 = sha1_left (w15 XOR w12 XOR w7 XOR w1);
      (e, c) = sha1_Round d e a b c (sha1_f3 e a b) sha1_k3 w15;
      w0 = sha1_left (w0 XOR w13 XOR w8 XOR w2);
      (d, b) = sha1_Round c d e a b (sha1_f3 d e a) sha1_k3 w0;
      w1 = sha1_left (w1 XOR w14 XOR w9 XOR w3);
      (c, a) = sha1_Round b c d e a (sha1_f3 c d e) sha1_k3 w1;
      w2 = sha1_left (w2 XOR w15 XOR w10 XOR w4);
      (b, e) = sha1_Round a b c d e (sha1_f3 b c d) sha1_k3 w2;
      w3 = sha1_left (w3 XOR w0 XOR w11 XOR w5);
      (a, d) = sha1_Round e a b c d (sha1_f3 a b c) sha1_k3 w3;
      w4 = sha1_left (w4 XOR w1 XOR w12 XOR w6);
      (e, c) = sha1_Round d e a b c (sha1_f3 e a b) sha1_k3 w4;
      w5 = sha1_left (w5 XOR w2 XOR w13 XOR w7);
      (d, b) = sha1_Round c d e a b (sha1_f3 d e a) sha1_k3 w5;
      w6 = sha1_left (w6 XOR w3 XOR w14 XOR w8);
      (c, a) = sha1_Round b c d e a (sha1_f3 c d e) sha1_k3 w6;
      w7 = sha1_left (w7 XOR w4 XOR w15 XOR w9);
      (b, e) = sha1_Round a b c d e (sha1_f3 b c d) sha1_k3 w7;
      w8 = sha1_left (w8 XOR w5 XOR w0 XOR w10);
      (a, d) = sha1_Round e a b c d (sha1_f3 a b c) sha1_k3 w8;
      w9 = sha1_left (w9 XOR w6 XOR w1 XOR w11);
      (e, c) = sha1_Round d e a b c (sha1_f3 e a b) sha1_k3 w9;
      w10 = sha1_left (w10 XOR w7 XOR w2 XOR w12);
      (d, b) = sha1_Round c d e a b (sha1_f3 d e a) sha1_k3 w10;
      w11 = sha1_left (w11 XOR w8 XOR w3 XOR w13);
      (c, a) = sha1_Round b c d e a (sha1_f3 c d e) sha1_k3 w11;
      w12 = sha1_left (w12 XOR w9 XOR w4 XOR w14);
      (b, e) = sha1_Round a b c d e (sha1_f2 b c d) sha1_k4 w12;
      w13 = sha1_left (w13 XOR w10 XOR w5 XOR w15);
      (a, d) = sha1_Round e a b c d (sha1_f2 a b c) sha1_k4 w13;
      w14 = sha1_left (w14 XOR w11 XOR w6 XOR w0);
      (e, c) = sha1_Round d e a b c (sha1_f2 e a b) sha1_k4 w14;
      w15 = sha1_left (w15 XOR w12 XOR w7 XOR w1);
      (d, b) = sha1_Round c d e a b (sha1_f2 d e a) sha1_k4 w15;
      w0 = sha1_left (w0 XOR w13 XOR w8 XOR w2);
      (c, a) = sha1_Round b c d e a (sha1_f2 c d e) sha1_k4 w0;
      w1 = sha1_left (w1 XOR w14 XOR w9 XOR w3);
      (b, e) = sha1_Round a b c d e (sha1_f2 b c d) sha1_k4 w1;
      w2 = sha1_left (w2 XOR w15 XOR w10 XOR w4);
      (a, d) = sha1_Round e a b c d (sha1_f2 a b c) sha1_k4 w2;
      w3 = sha1_left (w3 XOR w0 XOR w11 XOR w5);
      (e, c) = sha1_Round d e a b c (sha1_f2 e a b) sha1_k4 w3;
      w4 = sha1_left (w4 XOR w1 XOR w12 XOR w6);
      (d, b) = sha1_Round c d e a b (sha1_f2 d e a) sha1_k4 w4;
      w5 = sha1_left (w5 XOR w2 XOR w13 XOR w7);
      (c, a) = sha1_Round b c d e a (sha1_f2 c d e) sha1_k4 w5;
      w6 = sha1_left (w6 XOR w3 XOR w14 XOR w8);
      (b, e) = sha1_Round a b c d e (sha1_f2 b c d) sha1_k4 w6;
      w7 = sha1_left (w7 XOR w4 XOR w15 XOR w9);
      (a, d) = sha1_Round e a b c d (sha1_f2 a b c) sha1_k4 w7;
      w8 = sha1_left (w8 XOR w5 XOR w0 XOR w10);
      (e, c) = sha1_Round d e a b c (sha1_f2 e a b) sha1_k4 w8;
      w9 = sha1_left (w9 XOR w6 XOR w1 XOR w11);
      (d, b) = sha1_Round c d e a b (sha1_f2 d e a) sha1_k4 w9;
      w10 = sha1_left (w10 XOR w7 XOR w2 XOR w12);
      (c, a) = sha1_Round b c d e a (sha1_f2 c d e) sha1_k4 w10;
      w11 = sha1_left (w11 XOR w8 XOR w3 XOR w13);
      (b, e) = sha1_Round a b c d e (sha1_f2 b c d) sha1_k4 w11;
      w12 = sha1_left (w12 XOR w9 XOR w4 XOR w14);
      (a, d) = sha1_Round e a b c d (sha1_f2 a b c) sha1_k4 w12;
      (e, c) = sha1_Round d e a b c (sha1_f2 e a b) sha1_k4 (sha1_left (w13 XOR w10 XOR w5 XOR w15));
      (d, b) = sha1_Round c d e a b (sha1_f2 d e a) sha1_k4 (sha1_left (w14 XOR w11 XOR w6 XOR w0));
      (c, a) = sha1_Round b c d e a (sha1_f2 c d e) sha1_k4 (sha1_left (w15 XOR w12 XOR w7 XOR w1))
      in [s ! 0 + a, s ! 1 + b, s ! 2 + c, s ! 3 + d, s ! 4 + e])"

section \<open>The class \<open>CSHA1\<close>\<close>

text \<open>
  The constructor leaves the buffer uninitialised: its content is a parameter.
\<close>

definition CSHA1 :: "byte list \<Rightarrow> 32 word hasher" where
  "CSHA1 garbage = \<lparr>hs = sha1_Initialize, buf = garbage, bytes = 0\<rparr>"

definition CSHA1_Write :: "32 word hasher \<Rightarrow> byte list \<Rightarrow> 32 word hasher" where
  "CSHA1_Write = hasher_Write 64 sha1_Transform"

definition CSHA1_out :: "32 word list \<Rightarrow> byte list" where
  "CSHA1_out s = concat (map WriteBE32 (take 5 s))"

definition CSHA1_Finalize :: "32 word hasher \<Rightarrow> byte list" where
  "CSHA1_Finalize = hasher_Finalize 64 sha1_Transform 119 WriteBE64 CSHA1_out"

definition CSHA1_Reset :: "32 word hasher \<Rightarrow> 32 word hasher" where
  "CSHA1_Reset h = h\<lparr>bytes := 0, hs := sha1_Initialize\<rparr>"

text \<open>The digest of a byte string by a fresh object: construct, \<open>Write\<close>, \<open>Finalize\<close>.\<close>

definition CSHA1_digest :: "byte list \<Rightarrow> byte list" where
  "CSHA1_digest data = CSHA1_Finalize (CSHA1_Write (CSHA1 (replicate 64 0)) data)"

section \<open>CSHA1 is a digest hash\<close>

lemma length_sha1_Transform: "length (sha1_Transform s chunk) = 5"
  unfolding sha1_Transform_def by (rule length_bindings | simp only: list.size)+

lemma length_CSHA1_out: "length s = 5 \<Longrightarrow> length (CSHA1_out s) = 20"
  by (simp add: CSHA1_out_def length_concat comp_def sum_list_triv)

interpretation sha1_hash: digest_hash 64 sha1_Transform sha1_Initialize 119 WriteBE64 CSHA1_out 5 20 8
  by unfold_locales
    (simp_all add: sha1_Initialize_def length_sha1_Transform length_CSHA1_out )

lemma CSHA1_digest_spec:
  "CSHA1_digest data = digest_of 64 sha1_Transform sha1_Initialize 119 WriteBE64 CSHA1_out data"
proof -
  have "represents 64 sha1_Transform sha1_Initialize
      (CSHA1_Write (CSHA1 (replicate 64 0)) data) ([] @ data)"
    unfolding CSHA1_Write_def CSHA1_def
    by (intro sha1_hash.Write_represents sha1_hash.represents_init) simp
  from sha1_hash.Finalize_digest [OF this] show ?thesis
    by (simp add: CSHA1_digest_def CSHA1_Finalize_def)
qed

end
