(* ===== verification/Ripemd160.thy ===== *)
theory Ripemd160
  imports HashStream
begin

text \<open>
  \<open>src/crypto/ripemd160.cpp\<close>: RIPEMD-160, the outer hash of addresses. The 160 calls of the unrolled
  \<open>Transform\<close> are five groups of 32, one definition each; a call returns the two registers it
  updates by reference, its first and its third argument. The 16 message words never change, so
  each group reads them from the chunk again.
\<close>

type_synonym ripemd160_regs =
  "32 word \<times> 32 word \<times> 32 word \<times> 32 word \<times> 32 word \<times>
   32 word \<times> 32 word \<times> 32 word \<times> 32 word \<times> 32 word"

definition ripemd160_f1 :: "32 word \<Rightarrow> 32 word \<Rightarrow> 32 word \<Rightarrow> 32 word" where
  "ripemd160_f1 x y z = x XOR y XOR z"

definition ripemd160_f2 :: "32 word \<Rightarrow> 32 word \<Rightarrow> 32 word \<Rightarrow> 32 word" where
  "ripemd160_f2 x y z = (x AND y) OR (NOT x AND z)"

definition ripemd160_f3 :: "32 word \<Rightarrow> 32 word \<Rightarrow> 32 word \<Rightarrow> 32 word" where
  "ripemd160_f3 x y z = (x OR NOT y) XOR z"

definition ripemd160_f4 :: "32 word \<Rightarrow> 32 word \<Rightarrow> 32 word \<Rightarrow> 32 word" where
  "ripemd160_f4 x y z = (x AND z) OR (y AND NOT z)"

definition ripemd160_f5 :: "32 word \<Rightarrow> 32 word \<Rightarrow> 32 word \<Rightarrow> 32 word" where
  "ripemd160_f5 x y z = x XOR (y OR NOT z)"

definition ripemd160_Initialize :: "32 word list" where
  "ripemd160_Initialize = [0x67452301, 0xEFCDAB89, 0x98BADCFE, 0x10325476, 0xC3D2E1F0]"

definition ripemd160_rol :: "32 word \<Rightarrow> nat \<Rightarrow> 32 word" where
  "ripemd160_rol x i = push_bit i x OR drop_bit (32 - i) x"

definition ripemd160_Round ::
  "32 word \<Rightarrow> 32 word \<Rightarrow> 32 word \<Rightarrow> 32 word \<Rightarrow> 32 word \<Rightarrow> 32 word \<Rightarrow> 32 word \<Rightarrow> 32 word \<Rightarrow> nat \<Rightarrow>
   32 word \<times> 32 word" where
  "ripemd160_Round a b c d e f x k r = (ripemd160_rol (a + f + x + k) r + e, ripemd160_rol c 10)"

definition ripemd160_R11 ::
  "32 word \<Rightarrow> 32 word \<Rightarrow> 32 word \<Rightarrow> 32 word \<Rightarrow> 32 word \<Rightarrow> 32 word \<Rightarrow> nat \<Rightarrow> 32 word \<times> 32 word" where
  "ripemd160_R11 a b c d e x r = ripemd160_Round a b c d e (ripemd160_f1 b c d) x 0 r"

definition ripemd160_R21 ::
  "32 word \<Rightarrow> 32 word \<Rightarrow> 32 word \<Rightarrow> 32 word \<Rightarrow> 32 word \<Rightarrow> 32 word \<Rightarrow> nat \<Rightarrow> 32 word \<times> 32 word" where
  "ripemd160_R21 a b c d e x r = ripemd160_Round a b c d e (ripemd160_f2 b c d) x 0x5A827999 r"

definition ripemd160_R31 ::
  "32 word \<Rightarrow> 32 word \<Rightarrow> 32 word \<Rightarrow> 32 word \<Rightarrow> 32 word \<Rightarrow> 32 word \<Rightarrow> nat \<Rightarrow> 32 word \<times> 32 word" where
  "ripemd160_R31 a b c d e x r = ripemd160_Round a b c d e (ripemd160_f3 b c d) x 0x6ED9EBA1 r"

definition ripemd160_R41 ::
  "32 word \<Rightarrow> 32 word \<Rightarrow> 32 word \<Rightarrow> 32 word \<Rightarrow> 32 word \<Rightarrow> 32 word \<Rightarrow> nat \<Rightarrow> 32 word \<times> 32 word" where
  "ripemd160_R41 a b c d e x r = ripemd160_Round a b c d e (ripemd160_f4 b c d) x 0x8F1BBCDC r"

definition ripemd160_R51 ::
  "32 word \<Rightarrow> 32 word \<Rightarrow> 32 word \<Rightarrow> 32 word \<Rightarrow> 32 word \<Rightarrow> 32 word \<Rightarrow> nat \<Rightarrow> 32 word \<times> 32 word" where
  "ripemd160_R51 a b c d e x r = ripemd160_Round a b c d e (ripemd160_f5 b c d) x 0xA953FD4E r"

definition ripemd160_R12 ::
  "32 word \<Rightarrow> 32 word \<Rightarrow> 32 word \<Rightarrow> 32 word \<Rightarrow> 32 word \<Rightarrow> 32 word \<Rightarrow> nat \<Rightarrow> 32 word \<times> 32 word" where
  "ripemd160_R12 a b c d e x r = ripemd160_Round a b c d e (ripemd160_f5 b c d) x 0x50A28BE6 r"

definition ripemd160_R22 ::
  "32 word \<Rightarrow> 32 word \<Rightarrow> 32 word \<Rightarrow> 32 word \<Rightarrow> 32 word \<Rightarrow> 32 word \<Rightarrow> nat \<Rightarrow> 32 word \<times> 32 word" where
  "ripemd160_R22 a b c d e x r = ripemd160_Round a b c d e (ripemd160_f4 b c d) x 0x5C4DD124 r"

definition ripemd160_R32 ::
  "32 word \<Rightarrow> 32 word \<Rightarrow> 32 word \<Rightarrow> 32 word \<Rightarrow> 32 word \<Rightarrow> 32 word \<Rightarrow> nat \<Rightarrow> 32 word \<times> 32 word" where
  "ripemd160_R32 a b c d e x r = ripemd160_Round a b c d e (ripemd160_f3 b c d) x 0x6D703EF3 r"

definition ripemd160_R42 ::
  "32 word \<Rightarrow> 32 word \<Rightarrow> 32 word \<Rightarrow> 32 word \<Rightarrow> 32 word \<Rightarrow> 32 word \<Rightarrow> nat \<Rightarrow> 32 word \<times> 32 word" where
  "ripemd160_R42 a b c d e x r = ripemd160_Round a b c d e (ripemd160_f2 b c d) x 0x7A6D76E9 r"

definition ripemd160_R52 ::
  "32 word \<Rightarrow> 32 word \<Rightarrow> 32 word \<Rightarrow> 32 word \<Rightarrow> 32 word \<Rightarrow> 32 word \<Rightarrow> nat \<Rightarrow> 32 word \<times> 32 word" where
  "ripemd160_R52 a b c d e x r = ripemd160_Round a b c d e (ripemd160_f1 b c d) x 0 r"

definition ripemd160_rounds1 ::
  "byte list \<Rightarrow> ripemd160_regs \<Rightarrow> ripemd160_regs" where
  "ripemd160_rounds1 chunk regs =
     (let (a1, b1, c1, d1, e1, a2, b2, c2, d2, e2) = regs;
      w0 = ReadLE32 (drop 0 chunk);
      w1 = ReadLE32 (drop 4 chunk);
      w2 = ReadLE32 (drop 8 chunk);
      w3 = ReadLE32 (drop 12 chunk);
      w4 = ReadLE32 (drop 16 chunk);
      w5 = ReadLE32 (drop 20 chunk);
      w6 = ReadLE32 (drop 24 chunk);
      w7 = ReadLE32 (drop 28 chunk);
      w8 = ReadLE32 (drop 32 chunk);
      w9 = ReadLE32 (drop 36 chunk);
      w10 = ReadLE32 (drop 40 chunk);
      w11 = ReadLE32 (drop 44 chunk);
      w12 = ReadLE32 (drop 48 chunk);
      w13 = ReadLE32 (drop 52 chunk);
      w14 = ReadLE32 (drop 56 chunk);
      w15 = ReadLE32 (drop 60 chunk);
      (a1, c1) = ripemd160_R11 a1 b1 c1 d1 e1 w0 11;
      (a2, c2) = ripemd160_R12 a2 b2 c2 d2 e2 w5 8;
      (e1, b1) = ripemd160_R11 e1 a1 b1 c1 d1 w1 14;
      (e2, b2) = ripemd160_R12 e2 a2 b2 c2 d2 w14 9;
      (d1, a1) = ripemd160_R11 d1 e1 a1 b1 c1 w2 15;
      (d2, a2) = ripemd160_R12 d2 e2 a2 b2 c2 w7 9;
      (c1, e1) = ripemd160_R11 c1 d1 e1 a1 b1 w3 12;
      (c2, e2) = ripemd160_R12 c2 d2 e2 a2 b2 w0 11;
      (b1, d1) = ripemd160_R11 b1 c1 d1 e1 a1 w4 5;
      (b2, d2) = ripemd160_R12 b2 c2 d2 e2 a2 w9 13;
      (a1, c1) = ripemd160_R11 a1 b1 c1 d1 e1 w5 8;
      (a2, c2) = ripemd160_R12 a2 b2 c2 d2 e2 w2 15;
      (e1, b1) = ripemd160_R11 e1 a1 b1 c1 d1 w6 7;
      (e2, b2) = ripemd160_R12 e2 a2 b2 c2 d2 w11 15;
      (d1, a1) = ripemd160_R11 d1 e1 a1 b1 c1 w7 9;
      (d2, a2) = ripemd160_R12 d2 e2 a2 b2 c2 w4 5;
      (c1, e1) = ripemd160_R11 c1 d1 e1 a1 b1 w8 11;
      (c2, e2) = ripemd160_R12 c2 d2 e2 a2 b2 w13 7;
      (b1, d1) = ripemd160_R11 b1 c1 d1 e1 a1 w9 13;
      (b2, d2) = ripemd160_R12 b2 c2 d2 e2 a2 w6 7;
      (a1, c1) = ripemd160_R11 a1 b1 c1 d1 e1 w10 14;
      (a2, c2) = ripemd160_R12 a2 b2 c2 d2 e2 w15 8;
      (e1, b1) = ripemd160_R11 e1 a1 b1 c1 d1 w11 15;
      (e2, b2) = ripemd160_R12 e2 a2 b2 c2 d2 w8 11;
      (d1, a1) = ripemd160_R11 d1 e1 a1 b1 c1 w12 6;
      (d2, a2) = ripemd160_R12 d2 e2 a2 b2 c2 w1 14;
      (c1, e1) = ripemd160_R11 c1 d1 e1 a1 b1 w13 7;
      (c2, e2) = ripemd160_R12 c2 d2 e2 a2 b2 w10 14;
      (b1, d1) = ripemd160_R11 b1 c1 d1 e1 a1 w14 9;
      (b2, d2) = ripemd160_R12 b2 c2 d2 e2 a2 w3 12;
      (a1, c1) = ripemd160_R11 a1 b1 c1 d1 e1 w15 8;
      (a2, c2) = ripemd160_R12 a2 b2 c2 d2 e2 w12 6
      in (a1, b1, c1, d1, e1, a2, b2, c2, d2, e2))"

definition ripemd160_rounds2 ::
  "byte list \<Rightarrow> ripemd160_regs \<Rightarrow> ripemd160_regs" where
  "ripemd160_rounds2 chunk regs =
     (let (a1, b1, c1, d1, e1, a2, b2, c2, d2, e2) = regs;
      w0 = ReadLE32 (drop 0 chunk);
      w1 = ReadLE32 (drop 4 chunk);
      w2 = ReadLE32 (drop 8 chunk);
      w3 = ReadLE32 (drop 12 chunk);
      w4 = ReadLE32 (drop 16 chunk);
      w5 = ReadLE32 (drop 20 chunk);
      w6 = ReadLE32 (drop 24 chunk);
      w7 = ReadLE32 (drop 28 chunk);
      w8 = ReadLE32 (drop 32 chunk);
      w9 = ReadLE32 (drop 36 chunk);
      w10 = ReadLE32 (drop 40 chunk);
      w11 = ReadLE32 (drop 44 chunk);
      w12 = ReadLE32 (drop 48 chunk);
      w13 = ReadLE32 (drop 52 chunk);
      w14 = ReadLE32 (drop 56 chunk);
      w15 = ReadLE32 (drop 60 chunk);
      (e1, b1) = ripemd160_R21 e1 a1 b1 c1 d1 w7 7;
      (e2, b2) = ripemd160_R22 e2 a2 b2 c2 d2 w6 9;
      (d1, a1) = ripemd160_R21 d1 e1 a1 b1 c1 w4 6;
      (d2, a2) = ripemd160_R22 d2 e2 a2 b2 c2 w11 13;
      (c1, e1) = ripemd160_R21 c1 d1 e1 a1 b1 w13 8;
      (c2, e2) = ripemd160_R22 c2 d2 e2 a2 b2 w3 15;
      (b1, d1) = ripemd160_R21 b1 c1 d1 e1 a1 w1 13;
      (b2, d2) = ripemd160_R22 b2 c2 d2 e2 a2 w7 7;
      (a1, c1) = ripemd160_R21 a1 b1 c1 d1 e1 w10 11;
      (a2, c2) = ripemd160_R22 a2 b2 c2 d2 e2 w0 12;
      (e1, b1) = ripemd160_R21 e1 a1 b1 c1 d1 w6 9;
      (e2, b2) = ripemd160_R22 e2 a2 b2 c2 d2 w13 8;
      (d1, a1) = ripemd160_R21 d1 e1 a1 b1 c1 w15 7;
      (d2, a2) = ripemd160_R22 d2 e2 a2 b2 c2 w5 9;
      (c1, e1) = ripemd160_R21 c1 d1 e1 a1 b1 w3 15;
      (c2, e2) = ripemd160_R22 c2 d2 e2 a2 b2 w10 11;
      (b1, d1) = ripemd160_R21 b1 c1 d1 e1 a1 w12 7;
      (b2, d2) = ripemd160_R22 b2 c2 d2 e2 a2 w14 7;
      (a1, c1) = ripemd160_R21 a1 b1 c1 d1 e1 w0 12;
      (a2, c2) = ripemd160_R22 a2 b2 c2 d2 e2 w15 7;
      (e1, b1) = ripemd160_R21 e1 a1 b1 c1 d1 w9 15;
      (e2, b2) = ripemd160_R22 e2 a2 b2 c2 d2 w8 12;
      (d1, a1) = ripemd160_R21 d1 e1 a1 b1 c1 w5 9;
      (d2, a2) = ripemd160_R22 d2 e2 a2 b2 c2 w12 7;
      (c1, e1) = ripemd160_R21 c1 d1 e1 a1 b1 w2 11;
      (c2, e2) = ripemd160_R22 c2 d2 e2 a2 b2 w4 6;
      (b1, d1) = ripemd160_R21 b1 c1 d1 e1 a1 w14 7;
      (b2, d2) = ripemd160_R22 b2 c2 d2 e2 a2 w9 15;
      (a1, c1) = ripemd160_R21 a1 b1 c1 d1 e1 w11 13;
      (a2, c2) = ripemd160_R22 a2 b2 c2 d2 e2 w1 13;
      (e1, b1) = ripemd160_R21 e1 a1 b1 c1 d1 w8 12;
      (e2, b2) = ripemd160_R22 e2 a2 b2 c2 d2 w2 11
      in (a1, b1, c1, d1, e1, a2, b2, c2, d2, e2))"

definition ripemd160_rounds3 ::
  "byte list \<Rightarrow> ripemd160_regs \<Rightarrow> ripemd160_regs" where
  "ripemd160_rounds3 chunk regs =
     (let (a1, b1, c1, d1, e1, a2, b2, c2, d2, e2) = regs;
      w0 = ReadLE32 (drop 0 chunk);
      w1 = ReadLE32 (drop 4 chunk);
      w2 = ReadLE32 (drop 8 chunk);
      w3 = ReadLE32 (drop 12 chunk);
      w4 = ReadLE32 (drop 16 chunk);
      w5 = ReadLE32 (drop 20 chunk);
      w6 = ReadLE32 (drop 24 chunk);
      w7 = ReadLE32 (drop 28 chunk);
      w8 = ReadLE32 (drop 32 chunk);
      w9 = ReadLE32 (drop 36 chunk);
      w10 = ReadLE32 (drop 40 chunk);
      w11 = ReadLE32 (drop 44 chunk);
      w12 = ReadLE32 (drop 48 chunk);
      w13 = ReadLE32 (drop 52 chunk);
      w14 = ReadLE32 (drop 56 chunk);
      w15 = ReadLE32 (drop 60 chunk);
      (d1, a1) = ripemd160_R31 d1 e1 a1 b1 c1 w3 11;
      (d2, a2) = ripemd160_R32 d2 e2 a2 b2 c2 w15 9;
      (c1, e1) = ripemd160_R31 c1 d1 e1 a1 b1 w10 13;
      (c2, e2) = ripemd160_R32 c2 d2 e2 a2 b2 w5 7;
      (b1, d1) = ripemd160_R31 b1 c1 d1 e1 a1 w14 6;
      (b2, d2) = ripemd160_R32 b2 c2 d2 e2 a2 w1 15;
      (a1, c1) = ripemd160_R31 a1 b1 c1 d1 e1 w4 7;
      (a2, c2) = ripemd160_R32 a2 b2 c2 d2 e2 w3 11;
      (e1, b1) = ripemd160_R31 e1 a1 b1 c1 d1 w9 14;
      (e2, b2) = ripemd160_R32 e2 a2 b2 c2 d2 w7 8;
      (d1, a1) = ripemd160_R31 d1 e1 a1 b1 c1 w15 9;
      (d2, a2) = ripemd160_R32 d2 e2 a2 b2 c2 w14 6;
      (c1, e1) = ripemd160_R31 c1 d1 e1 a1 b1 w8 13;
      (c2, e2) = ripemd160_R32 c2 d2 e2 a2 b2 w6 6;
      (b1, d1) = ripemd160_R31 b1 c1 d1 e1 a1 w1 15;
      (b2, d2) = ripemd160_R32 b2 c2 d2 e2 a2 w9 14;
      (a1, c1) = ripemd160_R31 a1 b1 c1 d1 e1 w2 14;
      (a2, c2) = ripemd160_R32 a2 b2 c2 d2 e2 w11 12;
      (e1, b1) = ripemd160_R31 e1 a1 b1 c1 d1 w7 8;
      (e2, b2) = ripemd160_R32 e2 a2 b2 c2 d2 w8 13;
      (d1, a1) = ripemd160_R31 d1 e1 a1 b1 c1 w0 13;
      (d2, a2) = ripemd160_R32 d2 e2 a2 b2 c2 w12 5;
      (c1, e1) = ripemd160_R31 c1 d1 e1 a1 b1 w6 6;
      (c2, e2) = ripemd160_R32 c2 d2 e2 a2 b2 w2 14;
      (b1, d1) = ripemd160_R31 b1 c1 d1 e1 a1 w13 5;
      (b2, d2) = ripemd160_R32 b2 c2 d2 e2 a2 w10 13;
      (a1, c1) = ripemd160_R31 a1 b1 c1 d1 e1 w11 12;
      (a2, c2) = ripemd160_R32 a2 b2 c2 d2 e2 w0 13;
      (e1, b1) = ripemd160_R31 e1 a1 b1 c1 d1 w5 7;
      (e2, b2) = ripemd160_R32 e2 a2 b2 c2 d2 w4 7;
      (d1, a1) = ripemd160_R31 d1 e1 a1 b1 c1 w12 5;
      (d2, a2) = ripemd160_R32 d2 e2 a2 b2 c2 w13 5
      in (a1, b1, c1, d1, e1, a2, b2, c2, d2, e2))"

definition ripemd160_rounds4 ::
  "byte list \<Rightarrow> ripemd160_regs \<Rightarrow> ripemd160_regs" where
  "ripemd160_rounds4 chunk regs =
     (let (a1, b1, c1, d1, e1, a2, b2, c2, d2, e2) = regs;
      w0 = ReadLE32 (drop 0 chunk);
      w1 = ReadLE32 (drop 4 chunk);
      w2 = ReadLE32 (drop 8 chunk);
      w3 = ReadLE32 (drop 12 chunk);
      w4 = ReadLE32 (drop 16 chunk);
      w5 = ReadLE32 (drop 20 chunk);
      w6 = ReadLE32 (drop 24 chunk);
      w7 = ReadLE32 (drop 28 chunk);
      w8 = ReadLE32 (drop 32 chunk);
      w9 = ReadLE32 (drop 36 chunk);
      w10 = ReadLE32 (drop 40 chunk);
      w11 = ReadLE32 (drop 44 chunk);
      w12 = ReadLE32 (drop 48 chunk);
      w13 = ReadLE32 (drop 52 chunk);
      w14 = ReadLE32 (drop 56 chunk);
      w15 = ReadLE32 (drop 60 chunk);
      (c1, e1) = ripemd160_R41 c1 d1 e1 a1 b1 w1 11;
      (c2, e2) = ripemd160_R42 c2 d2 e2 a2 b2 w8 15;
      (b1, d1) = ripemd160_R41 b1 c1 d1 e1 a1 w9 12;
      (b2, d2) = ripemd160_R42 b2 c2 d2 e2 a2 w6 5;
      (a1, c1) = ripemd160_R41 a1 b1 c1 d1 e1 w11 14;
      (a2, c2) = ripemd160_R42 a2 b2 c2 d2 e2 w4 8;
      (e1, b1) = ripemd160_R41 e1 a1 b1 c1 d1 w10 15;
      (e2, b2) = ripemd160_R42 e2 a2 b2 c2 d2 w1 11;
      (d1, a1) = ripemd160_R41 d1 e1 a1 b1 c1 w0 14;
      (d2, a2) = ripemd160_R42 d2 e2 a2 b2 c2 w3 14;
      (c1, e1) = ripemd160_R41 c1 d1 e1 a1 b1 w8 15;
      (c2, e2) = ripemd160_R42 c2 d2 e2 a2 b2 w11 14;
      (b1, d1) = ripemd160_R41 b1 c1 d1 e1 a1 w12 9;
      (b2, d2) = ripemd160_R42 b2 c2 d2 e2 a2 w15 6;
      (a1, c1) = ripemd160_R41 a1 b1 c1 d1 e1 w4 8;
      (a2, c2) = ripemd160_R42 a2 b2 c2 d2 e2 w0 14;
      (e1, b1) = ripemd160_R41 e1 a1 b1 c1 d1 w13 9;
      (e2, b2) = ripemd160_R42 e2 a2 b2 c2 d2 w5 6;
      (d1, a1) = ripemd160_R41 d1 e1 a1 b1 c1 w3 14;
      (d2, a2) = ripemd160_R42 d2 e2 a2 b2 c2 w12 9;
      (c1, e1) = ripemd160_R41 c1 d1 e1 a1 b1 w7 5;
      (c2, e2) = ripemd160_R42 c2 d2 e2 a2 b2 w2 12;
      (b1, d1) = ripemd160_R41 b1 c1 d1 e1 a1 w15 6;
      (b2, d2) = ripemd160_R42 b2 c2 d2 e2 a2 w13 9;
      (a1, c1) = ripemd160_R41 a1 b1 c1 d1 e1 w14 8;
      (a2, c2) = ripemd160_R42 a2 b2 c2 d2 e2 w9 12;
      (e1, b1) = ripemd160_R41 e1 a1 b1 c1 d1 w5 6;
      (e2, b2) = ripemd160_R42 e2 a2 b2 c2 d2 w7 5;
      (d1, a1) = ripemd160_R41 d1 e1 a1 b1 c1 w6 5;
      (d2, a2) = ripemd160_R42 d2 e2 a2 b2 c2 w10 15;
      (c1, e1) = ripemd160_R41 c1 d1 e1 a1 b1 w2 12;
      (c2, e2) = ripemd160_R42 c2 d2 e2 a2 b2 w14 8
      in (a1, b1, c1, d1, e1, a2, b2, c2, d2, e2))"

definition ripemd160_rounds5 ::
  "byte list \<Rightarrow> ripemd160_regs \<Rightarrow> ripemd160_regs" where
  "ripemd160_rounds5 chunk regs =
     (let (a1, b1, c1, d1, e1, a2, b2, c2, d2, e2) = regs;
      w0 = ReadLE32 (drop 0 chunk);
      w1 = ReadLE32 (drop 4 chunk);
      w2 = ReadLE32 (drop 8 chunk);
      w3 = ReadLE32 (drop 12 chunk);
      w4 = ReadLE32 (drop 16 chunk);
      w5 = ReadLE32 (drop 20 chunk);
      w6 = ReadLE32 (drop 24 chunk);
      w7 = ReadLE32 (drop 28 chunk);
      w8 = ReadLE32 (drop 32 chunk);
      w9 = ReadLE32 (drop 36 chunk);
      w10 = ReadLE32 (drop 40 chunk);
      w11 = ReadLE32 (drop 44 chunk);
      w12 = ReadLE32 (drop 48 chunk);
      w13 = ReadLE32 (drop 52 chunk);
      w14 = ReadLE32 (drop 56 chunk);
      w15 = ReadLE32 (drop 60 chunk);
      (b1, d1) = ripemd160_R51 b1 c1 d1 e1 a1 w4 9;
      (b2, d2) = ripemd160_R52 b2 c2 d2 e2 a2 w12 8;
      (a1, c1) = ripemd160_R51 a1 b1 c1 d1 e1 w0 15;
      (a2, c2) = ripemd160_R52 a2 b2 c2 d2 e2 w15 5;
      (e1, b1) = ripemd160_R51 e1 a1 b1 c1 d1 w5 5;
      (e2, b2) = ripemd160_R52 e2 a2 b2 c2 d2 w10 12;
      (d1, a1) = ripemd160_R51 d1 e1 a1 b1 c1 w9 11;
      (d2, a2) = ripemd160_R52 d2 e2 a2 b2 c2 w4 9;
      (c1, e1) = ripemd160_R51 c1 d1 e1 a1 b1 w7 6;
      (c2, e2) = ripemd160_R52 c2 d2 e2 a2 b2 w1 12;
      (b1, d1) = ripemd160_R51 b1 c1 d1 e1 a1 w12 8;
      (b2, d2) = ripemd160_R52 b2 c2 d2 e2 a2 w5 5;
      (a1, c1) = ripemd160_R51 a1 b1 c1 d1 e1 w2 13;
      (a2, c2) = ripemd160_R52 a2 b2 c2 d2 e2 w8 14;
      (e1, b1) = ripemd160_R51 e1 a1 b1 c1 d1 w10 12;
      (e2, b2) = ripemd160_R52 e2 a2 b2 c2 d2 w7 6;
      (d1, a1) = ripemd160_R51 d1 e1 a1 b1 c1 w14 5;
      (d2, a2) = ripemd160_R52 d2 e2 a2 b2 c2 w6 8;
      (c1, e1) = ripemd160_R51 c1 d1 e1 a1 b1 w1 12;
      (c2, e2) = ripemd160_R52 c2 d2 e2 a2 b2 w2 13;
      (b1, d1) = ripemd160_R51 b1 c1 d1 e1 a1 w3 13;
      (b2, d2) = ripemd160_R52 b2 c2 d2 e2 a2 w13 6;
      (a1, c1) = ripemd160_R51 a1 b1 c1 d1 e1 w8 14;
      (a2, c2) = ripemd160_R52 a2 b2 c2 d2 e2 w14 5;
      (e1, b1) = ripemd160_R51 e1 a1 b1 c1 d1 w11 11;
      (e2, b2) = ripemd160_R52 e2 a2 b2 c2 d2 w0 15;
      (d1, a1) = ripemd160_R51 d1 e1 a1 b1 c1 w6 8;
      (d2, a2) = ripemd160_R52 d2 e2 a2 b2 c2 w3 13;
      (c1, e1) = ripemd160_R51 c1 d1 e1 a1 b1 w15 5;
      (c2, e2) = ripemd160_R52 c2 d2 e2 a2 b2 w9 11;
      (b1, d1) = ripemd160_R51 b1 c1 d1 e1 a1 w13 6;
      (b2, d2) = ripemd160_R52 b2 c2 d2 e2 a2 w11 11
      in (a1, b1, c1, d1, e1, a2, b2, c2, d2, e2))"

definition ripemd160_Transform :: "32 word list \<Rightarrow> byte list \<Rightarrow> 32 word list" where
  "ripemd160_Transform s chunk =
     (let a = s ! 0; b = s ! 1; c = s ! 2; d = s ! 3; e = s ! 4;
          (a1, b1, c1, d1, e1, a2, b2, c2, d2, e2) =
            ripemd160_rounds5 chunk (ripemd160_rounds4 chunk (ripemd160_rounds3 chunk
              (ripemd160_rounds2 chunk (ripemd160_rounds1 chunk (a, b, c, d, e, a, b, c, d, e)))))
      in [s ! 1 + c1 + d2, s ! 2 + d1 + e2, s ! 3 + e1 + a2, s ! 4 + a1 + b2, s ! 0 + b1 + c2])"

section \<open>The class \<open>CRIPEMD160\<close>\<close>

text \<open>
  The constructor leaves the buffer uninitialised: its content is a parameter.
\<close>

definition CRIPEMD160 :: "byte list \<Rightarrow> 32 word hasher" where
  "CRIPEMD160 garbage = \<lparr>hs = ripemd160_Initialize, buf = garbage, bytes = 0\<rparr>"

definition CRIPEMD160_Write :: "32 word hasher \<Rightarrow> byte list \<Rightarrow> 32 word hasher" where
  "CRIPEMD160_Write = hasher_Write 64 ripemd160_Transform"

definition CRIPEMD160_out :: "32 word list \<Rightarrow> byte list" where
  "CRIPEMD160_out s = concat (map WriteLE32 (take 5 s))"

definition CRIPEMD160_Finalize :: "32 word hasher \<Rightarrow> byte list" where
  "CRIPEMD160_Finalize = hasher_Finalize 64 ripemd160_Transform 119 WriteLE64 CRIPEMD160_out"

definition CRIPEMD160_Reset :: "32 word hasher \<Rightarrow> 32 word hasher" where
  "CRIPEMD160_Reset h = h\<lparr>bytes := 0, hs := ripemd160_Initialize\<rparr>"

text \<open>The digest of a byte string by a fresh object: construct, \<open>Write\<close>, \<open>Finalize\<close>.\<close>

definition CRIPEMD160_digest :: "byte list \<Rightarrow> byte list" where
  "CRIPEMD160_digest data = CRIPEMD160_Finalize (CRIPEMD160_Write (CRIPEMD160 (replicate 64 0)) data)"

section \<open>CRIPEMD160 is a digest hash\<close>

lemma length_ripemd160_Transform: "length (ripemd160_Transform s chunk) = 5"
  unfolding ripemd160_Transform_def by (rule length_bindings | simp only: list.size)+

lemma length_CRIPEMD160_out: "length s = 5 \<Longrightarrow> length (CRIPEMD160_out s) = 20"
  by (simp add: CRIPEMD160_out_def length_concat comp_def sum_list_triv)

interpretation ripemd160_hash: digest_hash 64 ripemd160_Transform ripemd160_Initialize 119 WriteLE64 CRIPEMD160_out 5 20 8
  by unfold_locales
    (simp_all add: ripemd160_Initialize_def length_ripemd160_Transform length_CRIPEMD160_out )

lemma CRIPEMD160_digest_spec:
  "CRIPEMD160_digest data = digest_of 64 ripemd160_Transform ripemd160_Initialize 119 WriteLE64 CRIPEMD160_out data"
proof -
  have "represents 64 ripemd160_Transform ripemd160_Initialize
      (CRIPEMD160_Write (CRIPEMD160 (replicate 64 0)) data) ([] @ data)"
    unfolding CRIPEMD160_Write_def CRIPEMD160_def
    by (intro ripemd160_hash.Write_represents ripemd160_hash.represents_init) simp
  from ripemd160_hash.Finalize_digest [OF this] show ?thesis
    by (simp add: CRIPEMD160_digest_def CRIPEMD160_Finalize_def)
qed

end
