(* ===== verification/Hashes.thy ===== *)
theory Hashes
  imports Sha256 Sha512 Sha1 Ripemd160
begin

text \<open>
  The hash functions built from the hash classes: \<open>CHash256\<close>, \<open>CHash160\<close> and the checksum and
  32-bit Murmur hash of \<open>src/src/hash.h\<close> and \<open>src/src/hash.cpp\<close>, and the HMAC classes of
  \<open>src/src/crypto/hmac_sha256.cpp\<close> and \<open>hmac_sha512.cpp\<close>. The functions of \<open>hash.h\<close> and
  \<open>hash.cpp\<close> that call OpenSSL's hash functions take those as a parameter.
\<close>

section \<open>\<open>CHash256\<close> and \<open>CHash160\<close>\<close>

definition CHash256 :: "byte list \<Rightarrow> 32 word hasher" where
  "CHash256 garbage = CSHA256 garbage"

definition CHash256_Write :: "32 word hasher \<Rightarrow> byte list \<Rightarrow> 32 word hasher" where
  "CHash256_Write sha data = CSHA256_Write sha data"

definition CHash256_Finalize :: "32 word hasher \<Rightarrow> byte list" where
  "CHash256_Finalize sha =
     (let sha1 = hasher_Final 64 sha256_Transform 119 WriteBE64 sha;
          buf1 = CSHA256_out (hs sha1)
      in CSHA256_Finalize (CSHA256_Write (CSHA256_Reset sha1) buf1))"

definition CHash256_Reset :: "32 word hasher \<Rightarrow> 32 word hasher" where
  "CHash256_Reset sha = CSHA256_Reset sha"

definition CHash256_digest :: "byte list \<Rightarrow> byte list" where
  "CHash256_digest data = CHash256_Finalize (CHash256_Write (CHash256 (replicate 64 0)) data)"

definition CHash160_Finalize :: "32 word hasher \<Rightarrow> byte list" where
  "CHash160_Finalize sha =
     (let buf1 = CSHA256_Finalize sha
      in CRIPEMD160_Finalize (CRIPEMD160_Write (CRIPEMD160 (replicate 64 0)) buf1))"

definition CHash160_digest :: "byte list \<Rightarrow> byte list" where
  "CHash160_digest data = CHash160_Finalize (CSHA256_Write (CSHA256 (replicate 64 0)) data)"

lemma CHash160_digest_comp: "CHash160_digest data = CRIPEMD160_digest (CSHA256_digest data)"
  by (simp add: CHash160_digest_def CHash160_Finalize_def CRIPEMD160_digest_def CSHA256_digest_def)

text \<open>The object that has been fed \<open>m\<close> finalizes to the double hash, its own buffer being reused.\<close>

lemma CHash256_Finalize_spec:
  assumes "represents 64 sha256_Transform sha256_Initialize sha m"
  shows "CHash256_Finalize sha = CSHA256_digest (CSHA256_digest m)"
proof -
  let ?f = "hasher_Final 64 sha256_Transform 119 WriteBE64 sha"
  let ?buf = "CSHA256_out (hs ?f)"
  have buf: "?buf = CSHA256_digest m"
    using sha256_hash.Finalize_digest [OF assms]
    by (simp add: hasher_Finalize_def CSHA256_digest_spec)
  have "represents 64 sha256_Transform sha256_Initialize (CSHA256_Reset ?f) []"
    unfolding CSHA256_Reset_def
    by (rule sha256_hash.Reset_represents [OF sha256_hash.Final_represents [OF assms]])
  from sha256_hash.Write_represents [OF this, of ?buf]
  have "represents 64 sha256_Transform sha256_Initialize (CSHA256_Write (CSHA256_Reset ?f) ?buf) ?buf"
    by (simp add: CSHA256_Write_def)
  from sha256_hash.Finalize_digest [OF this] buf show ?thesis
    by (simp add: CHash256_Finalize_def Let_def CSHA256_digest_spec CSHA256_Finalize_def)
qed

lemma CHash256_digest_comp: "CHash256_digest m = CSHA256_digest (CSHA256_digest m)"
proof -
  have "represents 64 sha256_Transform sha256_Initialize (CSHA256 (replicate 64 0)) []"
    unfolding CSHA256_def by (rule sha256_hash.represents_init) simp
  from sha256_hash.Write_represents [OF this, of m] show ?thesis
    by (simp add: CHash256_digest_def CHash256_def CHash256_Write_def CSHA256_Write_def
        CHash256_Finalize_spec)
qed

section \<open>HMAC\<close>

record 'w hmac =
  outer :: "'w hasher"
  inner :: "'w hasher"

text \<open>
  The two classes differ in the hash class, its block size \<open>bs\<close> and the digest length \<open>dl\<close>:
  \<open>new\<close> is the default-constructed hash object, \<open>wr\<close> and \<open>fin\<close> its methods.
\<close>

definition hmac_rkey ::
  "nat \<Rightarrow> nat \<Rightarrow> 'w hasher \<Rightarrow> ('w hasher \<Rightarrow> byte list \<Rightarrow> 'w hasher) \<Rightarrow> ('w hasher \<Rightarrow> byte list)
   \<Rightarrow> byte list \<Rightarrow> byte list" where
  "hmac_rkey bs dl new wr fin key =
     (if length key \<le> bs
      then key @ replicate (bs - length key) 0
      else fin (wr new key) @ replicate (bs - dl) 0)"

definition hmac_new ::
  "nat \<Rightarrow> nat \<Rightarrow> 'w hasher \<Rightarrow> ('w hasher \<Rightarrow> byte list \<Rightarrow> 'w hasher) \<Rightarrow> ('w hasher \<Rightarrow> byte list)
   \<Rightarrow> byte list \<Rightarrow> 'w hmac" where
  "hmac_new bs dl new wr fin key =
     (let rkey = hmac_rkey bs dl new wr fin key;
          rkey1 = map (\<lambda>b. b XOR 0x5c) rkey;
          outer1 = wr new rkey1;
          rkey2 = map (\<lambda>b. b XOR (0x5c XOR 0x36)) rkey1;
          inner1 = wr new rkey2
      in \<lparr>outer = outer1, inner = inner1\<rparr>)"

definition CHMAC_SHA256 :: "byte list \<Rightarrow> 32 word hmac" where
  "CHMAC_SHA256 key =
     hmac_new 64 32 (CSHA256 (replicate 64 0)) CSHA256_Write CSHA256_Finalize key"

definition CHMAC_SHA256_Write :: "32 word hmac \<Rightarrow> byte list \<Rightarrow> 32 word hmac" where
  "CHMAC_SHA256_Write c data = c\<lparr>inner := CSHA256_Write (inner c) data\<rparr>"

definition CHMAC_SHA256_Finalize :: "32 word hmac \<Rightarrow> byte list" where
  "CHMAC_SHA256_Finalize c =
     (let temp = CSHA256_Finalize (inner c) in CSHA256_Finalize (CSHA256_Write (outer c) temp))"

definition CHMAC_SHA512 :: "byte list \<Rightarrow> 64 word hmac" where
  "CHMAC_SHA512 key =
     hmac_new 128 64 (CSHA512 (replicate 128 0)) CSHA512_Write CSHA512_Finalize key"

definition CHMAC_SHA512_Write :: "64 word hmac \<Rightarrow> byte list \<Rightarrow> 64 word hmac" where
  "CHMAC_SHA512_Write c data = c\<lparr>inner := CSHA512_Write (inner c) data\<rparr>"

definition CHMAC_SHA512_Finalize :: "64 word hmac \<Rightarrow> byte list" where
  "CHMAC_SHA512_Finalize c =
     (let temp = CSHA512_Finalize (inner c) in CSHA512_Finalize (CSHA512_Write (outer c) temp))"

text \<open>The abstract HMAC of RFC 2104 over a hash function \<open>H\<close> with block size \<open>bs\<close>.\<close>

definition hmac_pad :: "nat \<Rightarrow> (byte list \<Rightarrow> byte list) \<Rightarrow> byte list \<Rightarrow> byte list" where
  "hmac_pad bs H key =
     (let k = (if length key \<le> bs then key else H key) in k @ replicate (bs - length k) 0)"

definition hmac_spec :: "nat \<Rightarrow> (byte list \<Rightarrow> byte list) \<Rightarrow> byte list \<Rightarrow> byte list \<Rightarrow> byte list" where
  "hmac_spec bs H key m =
     H (map (\<lambda>b. b XOR 0x5c) (hmac_pad bs H key) @ H (map (\<lambda>b. b XOR 0x36) (hmac_pad bs H key) @ m))"

lemma xor_twice: "((b :: byte) XOR 0x5c) XOR 0x6a = b XOR 0x36"
  by (simp add: xor.assoc)

context block_hash
begin

text \<open>
  One proof for both classes: a block hash with a digest of \<open>dl\<close> bytes gives HMAC, however the
  message is cut into \<open>Write\<close> calls.
\<close>

lemma hmac_pieces:
  assumes dl: "\<And>m. length (digest_of bs T s0 padc sizedesc out m) = dl"
    and b: "length b = bs"
    and new: "new = \<lparr>hs = s0, buf = b, bytes = 0\<rparr>"
    and c: "c = hmac_new bs dl new (hasher_Write bs T) (hasher_Finalize bs T padc sizedesc out) key"
  shows "hasher_Finalize bs T padc sizedesc out
      (hasher_Write bs T (outer c)
        (hasher_Finalize bs T padc sizedesc out (foldl (hasher_Write bs T) (inner c) ds))) =
     hmac_spec bs (digest_of bs T s0 padc sizedesc out) key (concat ds)"
proof -
  let ?H = "digest_of bs T s0 padc sizedesc out"
  have init: "represents bs T s0 new []"
    unfolding new by (rule represents_init [OF b])
  have one: "represents bs T s0 (hasher_Write bs T new d) d" for d
    using Write_represents [OF init, of d] by simp
  have rkey: "hmac_rkey bs dl new (hasher_Write bs T) (hasher_Finalize bs T padc sizedesc out) key =
      hmac_pad bs ?H key"
    by (simp add: hmac_rkey_def hmac_pad_def Let_def Finalize_digest [OF one] dl)
  have o: "outer c = hasher_Write bs T new (map (\<lambda>b. b XOR 0x5c) (hmac_pad bs ?H key))"
    and i: "inner c = hasher_Write bs T new (map (\<lambda>b. b XOR 0x36) (hmac_pad bs ?H key))"
    unfolding c by (simp_all add: hmac_new_def Let_def rkey xor_twice comp_def)
  have "hasher_Finalize bs T padc sizedesc out (foldl (hasher_Write bs T) (inner c) ds) =
      ?H (map (\<lambda>b. b XOR 0x36) (hmac_pad bs ?H key) @ concat ds)"
    unfolding i by (rule Finalize_digest [OF Writes_represent [OF one]])
  then show ?thesis
    unfolding hmac_spec_def o
    by (simp add: Finalize_digest [OF Write_represents [OF one]])
qed

end

lemma CHMAC_SHA256_spec:
  "CHMAC_SHA256_Finalize (foldl CHMAC_SHA256_Write (CHMAC_SHA256 key) ds) =
     hmac_spec 64 CSHA256_digest key (concat ds)"
proof -
  have fold: "foldl CHMAC_SHA256_Write c ds = c\<lparr>inner := foldl CSHA256_Write (inner c) ds\<rparr>" for c
    by (induction ds arbitrary: c) (simp_all add: CHMAC_SHA256_Write_def)
  have H: "CSHA256_digest = digest_of 64 sha256_Transform sha256_Initialize 119 WriteBE64 CSHA256_out"
    by (rule ext) (rule CSHA256_digest_spec)
  show ?thesis
    unfolding fold CHMAC_SHA256_Finalize_def CSHA256_Write_def CSHA256_Finalize_def H
    using sha256_hash.hmac_pieces [OF sha256_hash.digest_length _ CSHA256_def refl, of "replicate 64 0" key ds]
    by (simp add: CHMAC_SHA256_def CSHA256_Write_def CSHA256_Finalize_def)
qed

lemma CHMAC_SHA512_spec:
  "CHMAC_SHA512_Finalize (foldl CHMAC_SHA512_Write (CHMAC_SHA512 key) ds) =
     hmac_spec 128 CSHA512_digest key (concat ds)"
proof -
  have fold: "foldl CHMAC_SHA512_Write c ds = c\<lparr>inner := foldl CSHA512_Write (inner c) ds\<rparr>" for c
    by (induction ds arbitrary: c) (simp_all add: CHMAC_SHA512_Write_def)
  have H: "CSHA512_digest =
      digest_of 128 sha512_Transform sha512_Initialize 239 CSHA512_sizedesc CSHA512_out"
    by (rule ext) (rule CSHA512_digest_spec)
  show ?thesis
    unfolding fold CHMAC_SHA512_Finalize_def CSHA512_Write_def CSHA512_Finalize_def H
    using sha512_hash.hmac_pieces [OF sha512_hash.digest_length _ CSHA512_def refl, of "replicate 128 0" key ds]
    by (simp add: CHMAC_SHA512_def CSHA512_Write_def CSHA512_Finalize_def)
qed

lemma length_digests [simp]:
  "length (CSHA256_digest m) = 32" "length (CSHA512_digest m) = 64" "length (CSHA1_digest m) = 20"
  "length (CRIPEMD160_digest m) = 20" "length (CHash256_digest m) = 32" "length (CHash160_digest m) = 20"
  by (simp_all add: CHash256_digest_comp CHash160_digest_comp CSHA256_digest_spec CSHA512_digest_spec
      CSHA1_digest_spec CRIPEMD160_digest_spec sha256_hash.digest_length sha512_hash.digest_length
      sha1_hash.digest_length ripemd160_hash.digest_length)

section \<open>\<open>MurmurHash3\<close>\<close>

definition ROTL32 :: "32 word \<Rightarrow> nat \<Rightarrow> 32 word" where
  "ROTL32 x r = push_bit r x OR drop_bit (32 - r) x"

definition murmur_mix :: "32 word \<Rightarrow> 32 word" where
  "murmur_mix k1 = ROTL32 (k1 * 0xcc9e2d51) 15 * 0x1b873593"

definition murmur_body :: "byte list \<Rightarrow> 32 word \<Rightarrow> nat \<Rightarrow> 32 word" where
  "murmur_body data h1 i =
     (let k1 = murmur_mix (ReadLE32 (drop (4 * i) data));
          h1 = h1 XOR k1;
          h1 = ROTL32 h1 13
      in h1 * 5 + 0xe6546b64)"

definition murmur_tail :: "byte list \<Rightarrow> 32 word \<Rightarrow> 32 word" where
  "murmur_tail data h1 =
     (let tail = drop (length data div 4 * 4) data
      in case length data mod 4 of
           0 \<Rightarrow> h1
         | Suc 0 \<Rightarrow> h1 XOR murmur_mix (ucast (tail ! 0))
         | Suc (Suc 0) \<Rightarrow> h1 XOR murmur_mix (push_bit 8 (ucast (tail ! 1)) XOR ucast (tail ! 0))
         | _ \<Rightarrow> h1 XOR murmur_mix (push_bit 16 (ucast (tail ! 2)) XOR push_bit 8 (ucast (tail ! 1))
                                  XOR ucast (tail ! 0)))"

definition MurmurHash3 :: "32 word \<Rightarrow> byte list \<Rightarrow> 32 word" where
  "MurmurHash3 nHashSeed vDataToHash =
     (let nblocks = length vDataToHash div 4;
          h1 = foldl (murmur_body vDataToHash) nHashSeed [0..<nblocks];
          h1 = murmur_tail vDataToHash h1;
          h1 = h1 XOR of_nat (length vDataToHash);
          h1 = h1 XOR drop_bit 16 h1;
          h1 = h1 * 0x85ebca6b;
          h1 = h1 XOR drop_bit 13 h1;
          h1 = h1 * 0xc2b2ae35
      in h1 XOR drop_bit 16 h1)"

section \<open>The functions that call OpenSSL\<close>

text \<open>
  OpenSSL's one-shot \<open>SHA256\<close> and \<open>RIPEMD160\<close> are arguments of the functions that call them, its
  streaming SHA-512 is the record \<open>sha512_lib\<close> of the three functions used.
\<close>

definition Hash :: "(byte list \<Rightarrow> byte list) \<Rightarrow> byte list \<Rightarrow> byte list" where
  "Hash sha256 data = (let hash1 = sha256 data in sha256 hash1)"

definition Hash160 :: "(byte list \<Rightarrow> byte list) \<Rightarrow> (byte list \<Rightarrow> byte list) \<Rightarrow> byte list \<Rightarrow> byte list" where
  "Hash160 sha256 rmd160 vch = (let hash1 = sha256 vch in rmd160 hash1)"

text \<open>The bytes from the pointer on; their number is truncated to 32 bits where a size is given for it.\<close>

definition BitcoinChecksum :: "(byte list \<Rightarrow> byte list) \<Rightarrow> byte list \<Rightarrow> 32 word \<Rightarrow> 32 word" where
  "BitcoinChecksum sha256 p nBytes =
     (if nBytes = 0 then 0
      else let hash1 = sha256 (take (unat nBytes) p); hash2 = sha256 hash1 in of_nat (le_nat (take 4 hash2)))"

definition AppendChecksum :: "(byte list \<Rightarrow> byte list) \<Rightarrow> byte list \<Rightarrow> byte list" where
  "AppendChecksum sha256 data = data @ le 4 (unat (BitcoinChecksum sha256 data (of_nat (length data))))"

definition VerifyChecksum :: "(byte list \<Rightarrow> byte list) \<Rightarrow> byte list \<Rightarrow> bool" where
  "VerifyChecksum sha256 data =
     (if length data < 4 then False
      else let checksum = of_nat (le_nat (drop (length data - 4) data))
           in BitcoinChecksum sha256 data (of_nat (length data - 4)) = checksum)"

text \<open>Bytes behind the given number do not matter.\<close>

lemma BitcoinChecksum_append: "BitcoinChecksum sha256 (d @ c) (of_nat (length d)) = BitcoinChecksum sha256 d (of_nat (length d))"
proof -
  have "unat (of_nat (length d) :: 32 word) \<le> length d" by (simp add: unat_of_nat)
  then show ?thesis by (simp add: BitcoinChecksum_def)
qed

text \<open>A checked string is one that \<open>AppendChecksum\<close> produces.\<close>

lemma VerifyChecksum_iff:
  "VerifyChecksum sha256 data \<longleftrightarrow> (\<exists>d. data = AppendChecksum sha256 d)"
proof
  assume v: "VerifyChecksum sha256 data"
  let ?d = "take (length data - 4) data" and ?c = "drop (length data - 4) data"
  from v have len: "4 \<le> length data" by (auto simp: VerifyChecksum_def split: if_splits)
  then have c4: "length ?c = 4" "length ?d = length data - 4" by simp_all
  have less: "le_nat ?c < 2 ^ 32" using le_nat_bound [of ?c] c4 by simp
  have "BitcoinChecksum sha256 data (of_nat (length data - 4)) = of_nat (le_nat ?c)"
    using v len by (simp add: VerifyChecksum_def Let_def)
  then have "BitcoinChecksum sha256 ?d (of_nat (length ?d)) = of_nat (le_nat ?c)"
    using BitcoinChecksum_append [of sha256 ?d ?c] c4(2) by (simp only: append_take_drop_id)
  then have "unat (BitcoinChecksum sha256 ?d (of_nat (length ?d))) = le_nat ?c"
    using less by (simp add: unat_of_nat)
  then have "AppendChecksum sha256 ?d = ?d @ ?c"
    using le_le_nat [of ?c] c4 by (simp only: AppendChecksum_def)
  then show "\<exists>d. data = AppendChecksum sha256 d" by (metis append_take_drop_id)
next
  assume "\<exists>d. data = AppendChecksum sha256 d"
  then obtain d where d: "data = AppendChecksum sha256 d" ..
  let ?n = "BitcoinChecksum sha256 d (of_nat (length d))"
  have "unat ?n < 256 ^ 4" using unsigned_less [of ?n] by simp
  then show "VerifyChecksum sha256 data"
    using BitcoinChecksum_append [of sha256 d "le 4 (unat ?n)"] by (simp add: d VerifyChecksum_def AppendChecksum_def)
qed

record 'c sha512_lib =
  SHA512_Init :: 'c
  SHA512_Update :: "'c \<Rightarrow> byte list \<Rightarrow> 'c"
  SHA512_Final :: "'c \<Rightarrow> byte list"

record 'c HMAC_SHA512_CTX =
  ctxOuter :: 'c
  ctxInner :: 'c

definition HMAC_SHA512_key :: "'c sha512_lib \<Rightarrow> byte list \<Rightarrow> byte list" where
  "HMAC_SHA512_key L pkey =
     (if length pkey \<le> 128
      then pkey @ replicate (128 - length pkey) 0
      else SHA512_Final L (SHA512_Update L (SHA512_Init L) pkey) @ replicate 64 0)"

definition HMAC_SHA512_Init :: "'c sha512_lib \<Rightarrow> byte list \<Rightarrow> 'c HMAC_SHA512_CTX" where
  "HMAC_SHA512_Init L pkey =
     (let key1 = map (\<lambda>b. b XOR 0x5c) (HMAC_SHA512_key L pkey);
          o1 = SHA512_Update L (SHA512_Init L) key1;
          key2 = map (\<lambda>b. b XOR (0x5c XOR 0x36)) key1
      in \<lparr>ctxOuter = o1, ctxInner = SHA512_Update L (SHA512_Init L) key2\<rparr>)"

definition HMAC_SHA512_Update ::
  "'c sha512_lib \<Rightarrow> 'c HMAC_SHA512_CTX \<Rightarrow> byte list \<Rightarrow> 'c HMAC_SHA512_CTX" where
  "HMAC_SHA512_Update L ctx pdata = ctx\<lparr>ctxInner := SHA512_Update L (ctxInner ctx) pdata\<rparr>"

definition HMAC_SHA512_Final :: "'c sha512_lib \<Rightarrow> 'c HMAC_SHA512_CTX \<Rightarrow> byte list" where
  "HMAC_SHA512_Final L ctx =
     (let buf1 = SHA512_Final L (ctxInner ctx)
      in SHA512_Final L (SHA512_Update L (ctxOuter ctx) buf1))"

definition BIP32Hash :: "'c sha512_lib \<Rightarrow> byte list \<Rightarrow> 32 word \<Rightarrow> byte \<Rightarrow> byte list \<Rightarrow> byte list" where
  "BIP32Hash L chainCode nChild header data =
     (let num = [ucast (drop_bit 24 nChild), ucast (drop_bit 16 nChild),
                 ucast (drop_bit 8 nChild), ucast nChild];
          ctx = HMAC_SHA512_Init L chainCode;
          ctx = HMAC_SHA512_Update L ctx [header];
          ctx = HMAC_SHA512_Update L ctx data;
          ctx = HMAC_SHA512_Update L ctx num
      in HMAC_SHA512_Final L ctx)"

text \<open>What the streaming interface documents: \<open>Final\<close> gives the hash of all the data, in order.\<close>

definition sha512_lib_ok :: "'c sha512_lib \<Rightarrow> (byte list \<Rightarrow> byte list) \<Rightarrow> bool" where
  "sha512_lib_ok L H \<longleftrightarrow>
     (\<forall>ds. SHA512_Final L (foldl (SHA512_Update L) (SHA512_Init L) ds) = H (concat ds)) \<and>
     (\<forall>m. length (H m) = 64)"

lemma sha512_lib_stream:
  assumes "sha512_lib_ok L H"
  shows "SHA512_Final L (foldl (SHA512_Update L) (SHA512_Update L (SHA512_Init L) d) ds) =
    H (d @ concat ds)"
proof -
  have "SHA512_Final L (foldl (SHA512_Update L) (SHA512_Init L) (d # ds)) = H (concat (d # ds))"
    using assms unfolding sha512_lib_ok_def by blast
  then show ?thesis by simp
qed

lemma HMAC_SHA512_spec:
  assumes ok: "sha512_lib_ok L H"
  shows "HMAC_SHA512_Final L (foldl (HMAC_SHA512_Update L) (HMAC_SHA512_Init L key) ds) =
    hmac_spec 128 H key (concat ds)"
proof -
  have fold: "foldl (HMAC_SHA512_Update L) c ds = c\<lparr>ctxInner := foldl (SHA512_Update L) (ctxInner c) ds\<rparr>"
    for c by (induction ds arbitrary: c) (simp_all add: HMAC_SHA512_Update_def)
  note stream = sha512_lib_stream [OF ok]
  have key: "HMAC_SHA512_key L key = hmac_pad 128 H key"
    using stream [of key "[]"] ok
    by (simp add: HMAC_SHA512_key_def hmac_pad_def Let_def sha512_lib_ok_def)
  have out: "SHA512_Final L (SHA512_Update L (SHA512_Update L (SHA512_Init L) d) e) = H (d @ e)" for d e
    using stream [of d "[e]"] by simp
  show ?thesis
    unfolding fold HMAC_SHA512_Init_def HMAC_SHA512_Final_def hmac_spec_def Let_def key
    by (simp add: stream out comp_def xor_twice)
qed

lemma BIP32Hash_spec:
  assumes ok: "sha512_lib_ok L H"
  shows "BIP32Hash L chainCode nChild header data =
    hmac_spec 128 H chainCode (header # data @ WriteBE32 nChild)"
  using HMAC_SHA512_spec [OF ok, of chainCode "[[header], data, WriteBE32 nChild]"]
  by (simp add: BIP32Hash_def Let_def WriteBE32_def)

section \<open>The hash writer\<close>

text \<open>
  OpenSSL's SHA-256 as the record of its functions, the one-shot function among them. An object to serialize is the list of
  pieces that \<open>Serialize\<close> writes, which depends on the type and the version of the stream.
\<close>

record 'c sha256_lib =
  SHA256_Init :: 'c
  SHA256_Update :: "'c \<Rightarrow> byte list \<Rightarrow> 'c"
  SHA256_Final :: "'c \<Rightarrow> byte list"
  SHA256_once :: "byte list \<Rightarrow> byte list"

record 'c CHashWriter =
  hw_ctx :: 'c
  hw_nType :: int
  hw_nVersion :: int

type_synonym serial = "int \<Rightarrow> int \<Rightarrow> byte list list"

definition new_CHashWriter :: "'c sha256_lib \<Rightarrow> int \<Rightarrow> int \<Rightarrow> 'c CHashWriter" where
  "new_CHashWriter L t v = \<lparr>hw_ctx = SHA256_Init L, hw_nType = t, hw_nVersion = v\<rparr>"

definition CHashWriter_write :: "'c sha256_lib \<Rightarrow> 'c CHashWriter \<Rightarrow> byte list \<Rightarrow> 'c CHashWriter" where
  "CHashWriter_write L w p = w\<lparr>hw_ctx := SHA256_Update L (hw_ctx w) p\<rparr>"

definition CHashWriter_put :: "'c sha256_lib \<Rightarrow> 'c CHashWriter \<Rightarrow> serial \<Rightarrow> 'c CHashWriter" where
  "CHashWriter_put L w x = foldl (CHashWriter_write L) w (x (hw_nType w) (hw_nVersion w))"

definition GetHash :: "'c sha256_lib \<Rightarrow> 'c CHashWriter \<Rightarrow> byte list" where
  "GetHash L w = (let hash1 = SHA256_Final L (hw_ctx w) in SHA256_once L hash1)"

definition SerializeHash :: "'c sha256_lib \<Rightarrow> serial \<Rightarrow> int \<Rightarrow> int \<Rightarrow> byte list" where
  "SerializeHash L x t v = (let ss = new_CHashWriter L t v; ss = CHashWriter_put L ss x in GetHash L ss)"

definition Hash_two :: "'c sha256_lib \<Rightarrow> byte list \<Rightarrow> byte list \<Rightarrow> byte list" where
  "Hash_two L p1 p2 =
     (let c = SHA256_Init L; c = SHA256_Update L c p1; c = SHA256_Update L c p2; hash1 = SHA256_Final L c
      in SHA256_once L hash1)"

definition Hash_three :: "'c sha256_lib \<Rightarrow> byte list \<Rightarrow> byte list \<Rightarrow> byte list \<Rightarrow> byte list" where
  "Hash_three L p1 p2 p3 =
     (let c = SHA256_Init L; c = SHA256_Update L c p1; c = SHA256_Update L c p2; c = SHA256_Update L c p3;
          hash1 = SHA256_Final L c
      in SHA256_once L hash1)"

text \<open>What OpenSSL documents: \<open>Final\<close> gives the hash of all the data, as the one-shot function does.\<close>

definition sha256_lib_ok :: "'c sha256_lib \<Rightarrow> bool" where
  "sha256_lib_ok L \<longleftrightarrow>
     (\<forall>ds. SHA256_Final L (foldl (SHA256_Update L) (SHA256_Init L) ds) = SHA256_once L (concat ds))"

lemma put_fields:
  "hw_nType (CHashWriter_put L w x) = hw_nType w \<and> hw_nVersion (CHashWriter_put L w x) = hw_nVersion w \<and>
   hw_ctx (CHashWriter_put L w x) = foldl (SHA256_Update L) (hw_ctx w) (x (hw_nType w) (hw_nVersion w))"
proof -
  have "hw_nType (foldl (CHashWriter_write L) w ds) = hw_nType w \<and>
      hw_nVersion (foldl (CHashWriter_write L) w ds) = hw_nVersion w \<and>
      hw_ctx (foldl (CHashWriter_write L) w ds) = foldl (SHA256_Update L) (hw_ctx w) ds" for ds
    by (induction ds arbitrary: w) (simp_all add: CHashWriter_write_def)
  then show ?thesis by (simp add: CHashWriter_put_def)
qed

text \<open>Any number of objects put into a writer: the double hash of what they write, in order.\<close>

lemma writer_hash:
  assumes "sha256_lib_ok L"
  shows "GetHash L (foldl (CHashWriter_put L) (new_CHashWriter L t v) xs) =
    Hash (SHA256_once L) (concat (map (\<lambda>x. concat (x t v)) xs))"
proof -
  have "hw_ctx (foldl (CHashWriter_put L) w xs) =
      foldl (SHA256_Update L) (hw_ctx w) (concat (map (\<lambda>x. x (hw_nType w) (hw_nVersion w)) xs))" for w
    by (induction xs arbitrary: w) (simp_all add: put_fields)
  moreover have "concat (concat (map (\<lambda>x. x t v) xs)) = concat (map (\<lambda>x. concat (x t v)) xs)"
    by (induction xs) simp_all
  ultimately show ?thesis
    using assms by (simp add: GetHash_def Hash_def new_CHashWriter_def sha256_lib_ok_def)
qed

lemma SerializeHash_spec:
  "sha256_lib_ok L \<Longrightarrow> SerializeHash L x t v = Hash (SHA256_once L) (concat (x t v))"
  using writer_hash [of L t v "[x]"] by (simp add: SerializeHash_def)

text \<open>The hash of several ranges is the hash of their concatenation.\<close>

lemma Hash_two_spec: "sha256_lib_ok L \<Longrightarrow> Hash_two L p1 p2 = Hash (SHA256_once L) (p1 @ p2)"
  using spec [of "\<lambda>ds. SHA256_Final L (foldl (SHA256_Update L) (SHA256_Init L) ds) = SHA256_once L (concat ds)" "[p1, p2]"]
  by (simp add: sha256_lib_ok_def Hash_two_def Hash_def Let_def)

lemma Hash_three_spec: "sha256_lib_ok L \<Longrightarrow> Hash_three L p1 p2 p3 = Hash (SHA256_once L) (p1 @ p2 @ p3)"
  using spec [of "\<lambda>ds. SHA256_Final L (foldl (SHA256_Update L) (SHA256_Init L) ds) = SHA256_once L (concat ds)" "[p1, p2, p3]"]
  by (simp add: sha256_lib_ok_def Hash_three_def Hash_def Let_def)

text \<open>The model of \<open>CSHA256\<close> meets the contract, with its digest as the one-shot function.\<close>

definition csha256_lib :: "32 word hasher sha256_lib" where
  "csha256_lib = \<lparr>SHA256_Init = CSHA256 (replicate 64 0), SHA256_Update = CSHA256_Write,
     SHA256_Final = CSHA256_Finalize, SHA256_once = CSHA256_digest\<rparr>"

lemma csha256_lib_ok: "sha256_lib_ok csha256_lib"
proof -
  have "represents 64 sha256_Transform sha256_Initialize
      (foldl CSHA256_Write (CSHA256 (replicate 64 0)) ds) (concat ds)" for ds
    unfolding CSHA256_Write_def CSHA256_def
    using sha256_hash.Writes_represent [OF sha256_hash.represents_init, of "replicate 64 0" ds] by simp
  then show ?thesis
    by (simp add: sha256_lib_ok_def csha256_lib_def CSHA256_Finalize_def CSHA256_digest_spec sha256_hash.Finalize_digest)
qed

end
