(* ===== verification/ScriptNum.thy ===== *)
theory ScriptNum
  imports Prelude
begin

text \<open>
  Numbers in scripts. \<open>smdec\<close> and \<open>smenc\<close> are the meaning of the byte strings of numeric operands:
  little-endian magnitude with the sign in the top bit of the last byte. \<open>CScriptNum\<close> of
  \<open>src/script.h\<close> computes them with shifts on an \<open>int64_t\<close>.
\<close>

section \<open>Specification: sign-magnitude byte strings\<close>

fun nat_bytes :: "nat \<Rightarrow> byte list" where
  "nat_bytes n = (if n = 0 then [] else of_nat n # nat_bytes (n div 256))"

declare nat_bytes.simps [simp del]

definition smdec :: "byte list \<Rightarrow> int" where
  "smdec v =
     (if v = [] then 0
      else if unat (last v) < 128 then int (le_nat v)
      else - int (le_nat v - 128 * 256 ^ (length v - 1)))"

definition smenc :: "int \<Rightarrow> byte list" where
  "smenc i =
     (let m = nat_bytes (nat \<bar>i\<bar>)
      in if m = [] then []
         else if 128 \<le> unat (last m) then m @ [if i < 0 then 0x80 else 0]
         else if i < 0 then butlast m @ [last m OR 0x80]
         else m)"

lemma nat_bytes_0 [simp]: "nat_bytes 0 = []"
  by (simp add: nat_bytes.simps)

lemma nat_bytes_eq_Nil [simp]: "nat_bytes n = [] \<longleftrightarrow> n = 0"
  by (subst nat_bytes.simps) simp

lemma le_nat_nat_bytes [simp]: "le_nat (nat_bytes n) = n"
proof (induction n rule: nat_bytes.induct)
  case (1 n)
  then show ?case by (subst nat_bytes.simps) simp
qed

lemma last_nat_bytes: "n \<noteq> 0 \<Longrightarrow> last (nat_bytes n) \<noteq> 0"
proof (induction n rule: nat_bytes.induct)
  case (1 n)
  show ?case
  proof (cases "n div 256 = 0")
    case True
    then have "n < 256" by auto
    then have "unat (of_nat n :: byte) = n" by simp
    then have "(of_nat n :: byte) \<noteq> 0" using "1.prems" by (metis unat_eq_0)
    with "1.prems" True show ?thesis by (subst nat_bytes.simps) simp
  next
    case False
    with 1 show ?thesis by (subst nat_bytes.simps) simp
  qed
qed

lemma le_nat_snoc: "le_nat (xs @ [b]) = le_nat xs + 256 ^ length xs * unat b"
  by (simp add: le_nat_append)

lemma nat_bytes_le_nat: "v = [] \<or> last v \<noteq> 0 \<Longrightarrow> nat_bytes (le_nat v) = v"
proof (induction v)
  case Nil
  then show ?case by simp
next
  case (Cons b v)
  have nz: "le_nat (b # v) \<noteq> 0"
    using Cons.prems le_nat_eq_0 [of "b # v"] last_in_set [of "b # v"] by blast
  have tl: "nat_bytes (le_nat v) = v" using Cons by (auto split: if_splits)
  have "le_nat (b # v) div 256 = le_nat v" by simp
  then show ?case using nz tl by (subst nat_bytes.simps) (simp del: of_nat_add of_nat_mult)
qed

lemma length_nat_bytes_le: "n < 256 ^ k \<Longrightarrow> length (nat_bytes n) \<le> k"
proof (induction k arbitrary: n)
  case 0
  then show ?case by simp
next
  case (Suc k)
  then have "n div 256 < 256 ^ k" by (simp add: less_mult_imp_div_less mult.commute)
  from Suc.IH [OF this] show ?case by (subst nat_bytes.simps) simp
qed

lemma digit_bound: "x < p \<Longrightarrow> u < m \<Longrightarrow> x + p * u < p * (m :: nat)"
proof -
  assume "x < p" and "u < m"
  then have "p * Suc u \<le> p * m" by (intro mult_le_mono) simp_all
  with \<open>x < p\<close> show ?thesis by simp
qed

lemma smdec_snoc:
  "smdec (xs @ [b]) =
     (if unat b < 128 then int (le_nat (xs @ [b]))
      else - int (le_nat xs + 256 ^ length xs * (unat b - 128)))"
proof (cases "unat b < 128")
  case True
  then show ?thesis by (simp add: smdec_def)
next
  case False
  then have "256 ^ length xs * unat b = 256 ^ length xs * (unat b - 128) + 128 * 256 ^ length xs"
    by (simp add: diff_mult_distrib2)
  with False show ?thesis by (simp add: smdec_def le_nat_snoc)
qed

lemma smdec_Nil [simp]: "smdec [] = 0"
  by (simp add: smdec_def)

lemma butlast_last_snoc: "m \<noteq> [] \<Longrightarrow> \<exists>xs b. m = xs @ [b]"
  by (metis append_butlast_last_id)

lemma smdec_smenc [simp, codec_laws]: "smdec (smenc i) = i"
proof (cases "i = 0")
  case True
  then show ?thesis by (simp add: smenc_def)
next
  case False
  let ?n = "nat \<bar>i\<bar>"
  have "nat_bytes ?n \<noteq> []" using False by simp
  then obtain xs b where m: "nat_bytes ?n = xs @ [b]" using butlast_last_snoc by blast
  have n: "le_nat (xs @ [b]) = ?n" using le_nat_nat_bytes [of ?n] m by simp
  show ?thesis
  proof (cases "128 \<le> unat b")
    case True
    then have "smenc i = (xs @ [b]) @ [if i < 0 then 0x80 else 0]"
      using m by (simp add: smenc_def)
    then have "smdec (smenc i) = smdec ((xs @ [b]) @ [if i < 0 then 0x80 else 0])"
      by (rule arg_cong)
    also have "\<dots> = i"
      using n False unfolding smdec_snoc
      by (auto simp: le_nat_append simp del: of_nat_add of_nat_mult)
    finally show ?thesis .
  next
    case less: False
    then have or: "unat (b OR 0x80) = unat b + 128" by (simp add: byte_or_80)
    show ?thesis
    proof (cases "i < 0")
      case True
      then show ?thesis using m n less or by (simp add: smenc_def smdec_snoc le_nat_snoc)
    next
      case pos: False
      then show ?thesis using m n less by (simp add: smenc_def smdec_snoc)
    qed
  qed
qed

lemma smenc_0 [simp]: "smenc 0 = []"
  by (simp add: smenc_def)

lemma smenc_eq_Nil [simp]: "smenc i = [] \<longleftrightarrow> i = 0"
  by (metis smdec_smenc smdec_Nil smenc_0)

lemma smenc_inject: "smenc i = smenc j \<longleftrightarrow> i = j"
  by (metis smdec_smenc)

lemma length_smenc:
  assumes "\<bar>i\<bar> < 128 * 256 ^ k"
  shows "length (smenc i) \<le> Suc k"
proof -
  let ?n = "nat \<bar>i\<bar>"
  have n: "?n < 128 * 256 ^ k" using assms by (simp add: nat_less_iff)
  then have "?n < 256 ^ Suc k" by simp
  then have len: "length (nat_bytes ?n) \<le> Suc k" by (rule length_nat_bytes_le)
  have big: "length (nat_bytes ?n) \<le> k" if nn: "?n \<noteq> 0" and last: "128 \<le> unat (last (nat_bytes ?n))"
  proof (rule ccontr)
    assume "\<not> length (nat_bytes ?n) \<le> k"
    with len have l: "length (nat_bytes ?n) = Suc k" by simp
    obtain xs b where m: "nat_bytes ?n = xs @ [b]"
      using butlast_last_snoc [of "nat_bytes ?n"] nn by (auto simp only: nat_bytes_eq_Nil)
    then have "?n = le_nat xs + 256 ^ k * unat b"
      using le_nat_nat_bytes [of ?n] l by (simp add: le_nat_snoc)
    moreover have "256 ^ k * 128 \<le> 256 ^ k * unat b" using last m by simp
    ultimately show False using n by simp
  qed
  show ?thesis using len big by (auto simp: smenc_def Let_def)
qed

section \<open>The class \<open>CScriptNum\<close>\<close>

type_synonym CScriptNum = "64 word"

abbreviation (input) nMaxNumSize :: nat where "nMaxNumSize \<equiv> 4"

definition set_vch :: "byte list \<Rightarrow> CScriptNum" where
  "set_vch vch =
     (if vch = [] then 0
      else
        let result = foldl (\<lambda>r i. r OR push_bit (8 * i) (ucast (vch ! i))) 0 [0..<length vch]
        in if last vch AND 0x80 \<noteq> 0
           then - (result AND NOT (push_bit (8 * (length vch - 1)) 0x80))
           else result)"

datatype scriptnum_error = scriptnum_overflow | scriptnum_nonminimal

text \<open>The constructor from bytes; the exceptions it throws are values.\<close>

definition scriptnum_minimal :: "byte list \<Rightarrow> bool" where
  "scriptnum_minimal vch \<longleftrightarrow>
     \<not> (length vch > 0 \<and> last vch AND 0x7f = 0 \<and>
        (length vch \<le> 1 \<or> vch ! (length vch - 2) AND 0x80 = 0))"

definition CScriptNum_ctor :: "byte list \<Rightarrow> bool \<Rightarrow> scriptnum_error + CScriptNum" where
  "CScriptNum_ctor vch fRequireMinimal =
     (if nMaxNumSize < length vch then Inl scriptnum_overflow
      else if fRequireMinimal \<and> \<not> scriptnum_minimal vch then Inl scriptnum_nonminimal
      else Inr (set_vch vch))"

lemma unat_drop_bit_8: "unat (drop_bit 8 (a :: 64 word)) = unat a div 256"
proof -
  have "unat (drop_bit 8 a) = drop_bit 8 (take_bit 64 (unat a))"
    by (subst unsigned_drop_bit_eq) simp
  also have "take_bit 64 (unat a) = unat a"
    using unsigned_less [of a] by (intro take_bit_nat_eq_self) simp
  finally show ?thesis by (simp only: drop_bit_eq_div) simp
qed

function serialize_bytes :: "64 word \<Rightarrow> byte list" where
  "serialize_bytes absvalue =
     (if absvalue = 0 then []
      else ucast (absvalue AND 0xff) # serialize_bytes (drop_bit 8 absvalue))"
  by pat_completeness auto
termination
  by (relation "measure unat") (auto simp: unat_drop_bit_8 unat_gt_0)

declare serialize_bytes.simps [simp del]

definition scriptnum_serialize :: "64 word \<Rightarrow> byte list" where
  "scriptnum_serialize value =
     (if value = 0 then []
      else
        let neg = sint value < 0;
            absvalue = (if neg then - value else value);
            result = serialize_bytes absvalue
        in if last result AND 0x80 \<noteq> 0 then result @ [if neg then 0x80 else 0]
           else if neg then butlast result @ [last result OR 0x80]
           else result)"

definition scriptnum_getvch :: "CScriptNum \<Rightarrow> byte list" where
  "scriptnum_getvch n = scriptnum_serialize n"

definition scriptnum_getint :: "CScriptNum \<Rightarrow> int" where
  "scriptnum_getint n =
     (if sint n > 2 ^ 31 - 1 then 2 ^ 31 - 1
      else if sint n < - (2 ^ 31) then - (2 ^ 31)
      else sint n)"

text \<open>\<open>operator-()\<close> and the in-place operators assert that the result is representable: \<open>None\<close>
  is a failed assertion. The binary operators do not check and wrap.\<close>

definition scriptnum_neg :: "CScriptNum \<Rightarrow> CScriptNum option" where
  "scriptnum_neg n = (if sint n = - (2 ^ 63) then None else Some (- n))"

definition scriptnum_add_assign :: "CScriptNum \<Rightarrow> CScriptNum \<Rightarrow> CScriptNum option" where
  "scriptnum_add_assign n rhs =
     (if sint rhs = 0 \<or> (sint rhs > 0 \<and> sint n \<le> (2 ^ 63 - 1) - sint rhs) \<or>
         (sint rhs < 0 \<and> sint n \<ge> - (2 ^ 63) - sint rhs)
      then Some (n + rhs) else None)"

definition scriptnum_sub_assign :: "CScriptNum \<Rightarrow> CScriptNum \<Rightarrow> CScriptNum option" where
  "scriptnum_sub_assign n rhs =
     (if sint rhs = 0 \<or> (sint rhs > 0 \<and> sint n \<ge> - (2 ^ 63) + sint rhs) \<or>
         (sint rhs < 0 \<and> sint n \<le> (2 ^ 63 - 1) + sint rhs)
      then Some (n - rhs) else None)"

section \<open>The class computes the sign-magnitude reading\<close>

lemma unat_push_bit_byte:
  assumes "8 * i + 8 \<le> 64"
  shows "unat (push_bit (8 * i) (ucast (b :: byte)) :: 64 word) = unat b * 256 ^ i"
proof -
  have p: "(256 :: nat) ^ i = 2 ^ (8 * i)" by (simp add: power_mult)
  have "unat b * 2 ^ (8 * i) < 256 * 2 ^ (8 * i)" by (rule mult_strict_right_mono) simp_all
  also have "256 * (2 :: nat) ^ (8 * i) = 2 ^ (8 * i + 8)" by (simp add: power_add)
  also have "\<dots> \<le> 2 ^ 64" using assms by (rule power_increasing) simp
  finally have "unat b * 2 ^ (8 * i) < 2 ^ 64" .
  moreover have "unat (ucast b :: 64 word) = unat b"
  proof -
    have "unat b < 2 ^ 64" by (rule less_trans [OF unat_byte_less]) simp
    then have "take_bit 64 (unat b) = unat b" by (rule take_bit_nat_eq_self)
    then show ?thesis by (simp only: unsigned_ucast_eq) simp
  qed
  ultimately have "take_bit 64 (push_bit (8 * i) (unat (ucast b :: 64 word))) = unat b * 256 ^ i"
    unfolding p push_bit_eq_mult by (simp only: take_bit_nat_eq_self)
  then show ?thesis by (subst unsigned_push_bit_eq) simp
qed

lemma or_push_bit_nat: "x < 2 ^ n \<Longrightarrow> x OR push_bit n y = x + push_bit n (y :: nat)"
proof -
  assume "x < 2 ^ n"
  then have t: "take_bit n x = x" by (rule take_bit_nat_eq_self)
  have "\<not> (bit x m \<and> n \<le> m)" for m
    using bit_take_bit_iff [of n x m] unfolding t by auto
  then have "x AND push_bit n y = 0"
    by (intro bit_eqI) (auto simp: bit_and_iff bit_push_bit_iff)
  then show ?thesis by (rule disjunctive_add_eq_or [symmetric])
qed

lemma set_vch_magnitude:
  "k \<le> length vch \<Longrightarrow> length vch \<le> 8 \<Longrightarrow>
     unat (foldl (\<lambda>r i. r OR push_bit (8 * i) (ucast (vch ! i))) (0 :: 64 word) [0..<k]) =
     le_nat (take k vch)"
proof (induction k)
  case 0
  then show ?case by simp
next
  case (Suc k)
  let ?f = "foldl (\<lambda>r i. r OR push_bit (8 * i) (ucast (vch ! i))) (0 :: 64 word) [0..<k]"
  let ?p = "push_bit (8 * k) (ucast (vch ! k)) :: 64 word"
  have IH: "unat ?f = le_nat (take k vch)" using Suc by simp
  have "le_nat (take k vch) < 256 ^ k"
    using le_nat_bound [of "take k vch"] Suc.prems by simp
  then have less: "unat ?f < 2 ^ (8 * k)" by (simp add: IH power_mult)
  have p: "unat ?p = push_bit (8 * k) (unat (vch ! k))"
    using Suc.prems by (subst unat_push_bit_byte) (simp_all add: push_bit_eq_mult power_mult)
  have "unat (?f OR ?p) = unat ?f + unat ?p"
    unfolding p unsigned_or_eq by (rule or_push_bit_nat [OF less])
  also have "unat ?p = unat (vch ! k) * 256 ^ k"
    using Suc.prems by (intro unat_push_bit_byte) simp
  also have "unat ?f + unat (vch ! k) * 256 ^ k = le_nat (take k vch @ [vch ! k])"
    using Suc.prems by (simp only: IH le_nat_snoc) (simp add: min_def)
  finally show ?case using Suc.prems by (simp add: take_Suc_conv_app_nth)
qed

lemma sint_of_nat_64: "n < 2 ^ 63 \<Longrightarrow> sint (of_nat n :: 64 word) = int n"
  by (simp add: signed_of_nat signed_take_bit_int_eq_self)

lemma sint_minus_of_nat_64: "n < 2 ^ 63 \<Longrightarrow> sint (- of_nat n :: 64 word) = - int n"
proof -
  assume n: "n < 2 ^ 63"
  have "(- of_nat n :: 64 word) = of_int (- int n)" by simp
  then have "sint (- of_nat n :: 64 word) = signed_take_bit 63 (- int n)"
    by (simp only: signed_of_int) simp
  then show ?thesis using n by (simp add: signed_take_bit_int_eq_self)
qed

lemma and_not_bit:
  assumes "bit a n"
  shows "(a :: 64 word) AND NOT (push_bit n 1) = a - push_bit n 1"
proof -
  have d: "(a AND NOT (push_bit n 1)) AND push_bit n 1 = 0"
    by (intro bit_word_eqI) (auto simp: bit_simps)
  have o: "(a AND NOT (push_bit n 1)) OR push_bit n 1 = a"
    using assms by (intro bit_word_eqI) (auto simp: bit_simps)
  have "(a AND NOT (push_bit n 1)) + push_bit n 1 = a"
    using disjunctive_add_eq_or [OF d] o by simp
  then show ?thesis by (simp add: eq_diff_eq)
qed

lemma sint_set_vch:
  assumes len: "length vch \<le> 8"
  shows "sint (set_vch vch) = smdec vch"
proof (cases "vch = []")
  case True
  then show ?thesis by (simp add: set_vch_def)
next
  case False
  then obtain xs b where v: "vch = xs @ [b]" using butlast_last_snoc by blast
  let ?k = "length xs"
  let ?r = "foldl (\<lambda>r i. r OR push_bit (8 * i) (ucast (vch ! i))) (0 :: 64 word) [0..<length vch]"
  have k: "?k \<le> 7" using len v by simp
  have r: "unat ?r = le_nat vch" using set_vch_magnitude [of "length vch" vch] len by simp
  have rn: "unat ?r = le_nat xs + 256 ^ ?k * unat b" using r v by (simp add: le_nat_snoc)
  have xs: "le_nat xs < 256 ^ ?k" by (rule le_nat_bound)
  have pk: "256 ^ ?k * (128 :: nat) \<le> 2 ^ 63"
  proof -
    have "(256 :: nat) ^ ?k * 128 = 2 ^ (8 * ?k + 7)" by (simp add: power_add power_mult)
    also have "\<dots> \<le> 2 ^ 63" using k by (intro power_increasing) simp_all
    finally show ?thesis .
  qed
  have low: "le_nat xs + 256 ^ ?k * u < 2 ^ 63" if "u < 128" for u
    using digit_bound [OF xs that] pk by (rule less_le_trans)
  show ?thesis
  proof (cases "unat b < 128")
    case True
    then have "b AND 0x80 = 0" by (simp add: byte_and_80)
    then have "set_vch vch = ?r"
      using False v by (simp add: set_vch_def Let_def)
    also have "?r = of_nat (le_nat vch)" unfolding r [symmetric] by simp
    finally have "set_vch vch = of_nat (le_nat vch)" .
    then show ?thesis
      using low [OF True] True v by (simp add: sint_of_nat_64 smdec_snoc le_nat_snoc del: of_nat_add)
  next
    case big: False
    then have "b AND 0x80 \<noteq> 0" by (simp add: byte_and_80)
    have p7: "256 ^ ?k * (128 :: nat) = 2 ^ (8 * ?k + 7)" by (simp add: power_add power_mult)
    have mask: "(push_bit (8 * (length vch - 1)) 0x80 :: 64 word) = push_bit (8 * ?k + 7) 1"
      by (simp add: v push_bit_eq_mult power_add)
    have um: "unat (push_bit (8 * ?k + 7) 1 :: 64 word) = 256 ^ ?k * 128"
    proof -
      have "(2 :: nat) ^ (8 * ?k + 7) < 2 ^ 64" using k by (intro power_strict_increasing) simp_all
      then have "take_bit 64 (push_bit (8 * ?k + 7) (1 :: nat)) = 2 ^ (8 * ?k + 7)"
        by (simp only: push_bit_eq_mult mult_1 take_bit_nat_eq_self)
      then show ?thesis unfolding p7 by (subst unsigned_push_bit_eq) simp
    qed
    let ?n = "le_nat xs + 256 ^ ?k * (unat b - 128)"
    have eq: "unat ?r = ?n + 256 ^ ?k * 128"
    proof -
      have "256 ^ ?k * unat b = 256 ^ ?k * ((unat b - 128) + 128)" using big by simp
      then show ?thesis unfolding rn distrib_left by simp
    qed
    have bit: "bit ?r (8 * ?k + 7)"
    proof -
      have "?n < 256 ^ ?k * 128"
        using unat_byte_less [of b] by (intro digit_bound xs) linarith
      moreover have "n < p \<Longrightarrow> (n + p) div p = 1" for n p :: nat by (simp add: div_add_self2)
      ultimately have "unat ?r div 2 ^ (8 * ?k + 7) = 1" unfolding eq p7 [symmetric] by blast
      then have "bit (unat ?r) (8 * ?k + 7)" unfolding bit_nat_def by simp
      then show ?thesis by (simp add: bit_unsigned_iff)
    qed
    have "?r = of_nat (unat ?r)" by simp
    also have "\<dots> = of_nat ?n + push_bit (8 * ?k + 7) 1"
      unfolding eq of_nat_add [of ?n] um [symmetric] by simp
    finally have "?r AND NOT (push_bit (8 * ?k + 7) 1) = of_nat ?n"
      using and_not_bit [OF bit] by (simp only: add_diff_cancel_right')
    then have "set_vch vch = - of_nat ?n"
      using False v \<open>b AND 0x80 \<noteq> 0\<close> mask by (simp add: set_vch_def Let_def)
    moreover have "?n < 2 ^ 63" using unat_byte_less [of b] by (intro low) linarith
    ultimately show ?thesis
      using big by (simp only: sint_minus_of_nat_64) (simp add: v smdec_snoc)
  qed
qed

lemma serialize_bytes_nat_bytes: "serialize_bytes a = nat_bytes (unat a)"
proof (induction a rule: serialize_bytes.induct)
  case (1 a)
  have m: "(a AND 0xff) = take_bit 8 a" by (simp add: take_bit_eq_mask mask_eq_decr_exp)
  have "unat (ucast (take_bit 8 a) :: byte) = take_bit 8 (take_bit 8 (unat a))"
    by (simp only: unsigned_ucast_eq unsigned_take_bit_eq) simp
  also have "\<dots> = unat (of_nat (unat a) :: byte)"
    by (simp only: unat_of_nat) (simp add: take_bit_eq_mod)
  finally have hd: "(ucast (a AND 0xff) :: byte) = of_nat (unat a)"
    unfolding m by (rule unsigned_word_eqI)
  show ?case
    using 1 by (subst serialize_bytes.simps, subst nat_bytes.simps) (simp add: hd unat_drop_bit_8 unat_eq_0)
qed

lemma unat_abs_64: "unat (if sint w < 0 then - w else w :: 64 word) = nat \<bar>sint w\<bar>"
proof -
  let ?i = "sint w"
  have r: "- (2 ^ 63) \<le> ?i" "?i < 2 ^ 63"
    using sint_greater_eq [of w] sint_less [of w] by simp_all
  have w: "w = of_int ?i" by simp
  have "unat (of_int k :: 64 word) = nat k" if "0 \<le> k" "k \<le> 2 ^ 63" for k
    using that by (simp add: unsigned_of_int take_bit_int_eq_self)
  from this [of "\<bar>?i\<bar>"] r have "unat (of_int \<bar>?i\<bar> :: 64 word) = nat \<bar>?i\<bar>" by simp
  moreover have "(if ?i < 0 then - w else w) = of_int \<bar>?i\<bar>" by simp
  ultimately show ?thesis by simp
qed

lemma scriptnum_serialize_smenc: "scriptnum_serialize w = smenc (sint w)"
proof (cases "w = 0")
  case True
  then show ?thesis by (simp add: scriptnum_serialize_def)
next
  case False
  let ?a = "if sint w < 0 then - w else w"
  have m: "serialize_bytes ?a = nat_bytes (nat \<bar>sint w\<bar>)"
    by (simp only: serialize_bytes_nat_bytes unat_abs_64)
  have "sint w \<noteq> 0" using False by (simp add: signed_eq_0_iff)
  then have "nat \<bar>sint w\<bar> \<noteq> 0" by simp
  moreover have "(b AND 0x80 \<noteq> 0) = (128 \<le> unat b)" for b :: byte
    by (simp add: byte_and_80 not_less)
  ultimately show ?thesis
    using False unfolding scriptnum_serialize_def smenc_def Let_def m by simp
qed

text \<open>The minimality test accepts exactly the canonical encodings.\<close>

lemma byte_mod_128: "128 \<le> unat (b :: byte) \<Longrightarrow> unat b mod 128 = unat b - 128"
  using unat_byte_less [of b] by (simp only: le_mod_geq) (rule mod_less, linarith)

lemma nat_abs_smdec_snoc:
  "nat \<bar>smdec (xs @ [b])\<bar> = le_nat xs + 256 ^ length xs * (unat b mod 128)"
proof (cases "unat b < 128")
  case True
  then show ?thesis by (simp add: smdec_snoc le_nat_snoc del: of_nat_add of_nat_mult)
next
  case False
  then have "unat b mod 128 = unat b - 128" by (simp add: byte_mod_128)
  with False show ?thesis
    unfolding smdec_snoc le_nat_snoc by (simp only: if_False abs_minus_cancel abs_of_nat nat_int)
qed

lemma smenc_smdec_snoc:
  assumes "unat b mod 128 \<noteq> 0"
  shows "smenc (smdec (xs @ [b])) = xs @ [b]"
proof -
  let ?c = "b AND 0x7f"
  have c: "unat ?c = unat b mod 128" by (rule byte_and_7f)
  have n: "nat \<bar>smdec (xs @ [b])\<bar> = le_nat (xs @ [?c])"
    unfolding nat_abs_smdec_snoc le_nat_snoc c ..
  have m: "nat_bytes (nat \<bar>smdec (xs @ [b])\<bar>) = xs @ [?c]"
    unfolding n using assms c by (intro nat_bytes_le_nat) (auto simp: unat_eq_0 [symmetric])
  have neg: "smdec (xs @ [b]) < 0 \<longleftrightarrow> 128 \<le> unat b"
  proof (cases "unat b < 128")
    case False
    then have "0 < unat b - 128" using assms by (cases "unat b = 128") simp_all
    then have "0 < 256 ^ length xs * (unat b - 128)" by simp
    then have "0 < le_nat xs + 256 ^ length xs * (unat b - 128)" by (rule trans_less_add2)
    with False show ?thesis unfolding smdec_snoc by (simp del: of_nat_add of_nat_mult)
  qed (simp add: smdec_snoc)
  have "?c OR 0x80 = b" if "128 \<le> unat b"
  proof (rule unsigned_word_eqI [where 'a = nat])
    have "unat ?c < 128" by (simp add: c)
    then have "unat (?c OR 0x80) = unat b mod 128 + 128" by (simp only: byte_or_80 c)
    also have "\<dots> = unat b" using that by (simp add: byte_mod_128)
    finally show "unat (?c OR 0x80) = unat b" .
  qed
  moreover have "unat b < 128 \<Longrightarrow> ?c = b"
    by (intro unsigned_word_eqI [where 'a = nat]) (simp add: c)
  moreover have "\<not> 128 \<le> unat ?c" by (simp add: c)
  ultimately show ?thesis
    using neg by (simp add: smenc_def m Let_def)
qed

lemma scriptnum_minimal_snoc:
  "scriptnum_minimal (xs @ [b]) \<longleftrightarrow>
     unat b mod 128 \<noteq> 0 \<or> xs \<noteq> [] \<and> 128 \<le> unat (last xs)"
proof -
  have seven: "b AND 0x7f = 0 \<longleftrightarrow> unat b mod 128 = 0"
    using byte_and_7f [of b] by (metis unat_eq_0)
  show ?thesis
  proof (cases xs rule: rev_cases)
    case Nil
    then show ?thesis by (simp add: scriptnum_minimal_def seven)
  next
    case (snoc ys c)
    have "(ys @ [c, b]) ! length ys = c" by (simp add: nth_append)
    then show ?thesis by (auto simp: scriptnum_minimal_def seven snoc byte_and_80)
  qed
qed

lemma scriptnum_minimal_iff: "scriptnum_minimal vch \<longleftrightarrow> smenc (smdec vch) = vch"
proof (cases vch rule: rev_cases)
  case Nil
  then show ?thesis by (simp add: scriptnum_minimal_def)
next
  case v: (snoc xs b)
  show ?thesis
  proof (cases "unat b mod 128 = 0")
    case False
    then show ?thesis using smenc_smdec_snoc [of b xs] by (simp add: scriptnum_minimal_snoc v)
  next
    case True
    have "unat b = 0 \<or> unat b = 128"
      using True unat_byte_less [of b] by presburger
    then have b: "b = 0 \<or> b = 0x80"
      by (auto intro: unsigned_word_eqI [where 'a = nat])
    then have n: "nat \<bar>smdec (xs @ [b])\<bar> = le_nat xs"
      by (auto simp: smdec_snoc le_nat_snoc)
    have neg: "smdec (xs @ [b]) < 0 \<longleftrightarrow> b = 0x80 \<and> le_nat xs \<noteq> 0"
      using b by (auto simp: smdec_snoc le_nat_snoc)
    show ?thesis
    proof (cases "xs \<noteq> [] \<and> 128 \<le> unat (last xs)")
      case low: False
      have "length (smenc (smdec (xs @ [b]))) \<le> length xs"
      proof (cases xs rule: rev_cases)
        case Nil
        then have "smdec ([] @ [b]) = 0" using b unfolding smdec_snoc by auto
        then show ?thesis by (simp add: Nil)
      next
        case (snoc ys c)
        have "Suc (unat c) \<le> 128" using low snoc by simp
        then have "le_nat ys + 256 ^ length ys * unat c < 256 ^ length ys * 128"
          by (intro digit_bound le_nat_bound) simp
        then have "nat \<bar>smdec (xs @ [b])\<bar> < 128 * 256 ^ length ys"
          using n unfolding snoc le_nat_snoc by (simp only: mult.commute)
        then have "\<bar>smdec (xs @ [b])\<bar> < 128 * 256 ^ length ys"
          by (simp only: nat_less_iff [OF abs_ge_zero]) simp
        from length_smenc [OF this] show ?thesis by (simp add: snoc)
      qed
      then have "smenc (smdec vch) \<noteq> vch"
        unfolding v by (metis length_append_singleton not_less_eq_eq order_refl)
      then show ?thesis using low True by (simp add: scriptnum_minimal_snoc v)
    next
      case high: True
      then have "last xs \<noteq> 0" by auto
      then have "nat_bytes (le_nat xs) = xs" by (intro nat_bytes_le_nat) simp
      moreover have "le_nat xs \<noteq> 0"
        using high \<open>last xs \<noteq> 0\<close> le_nat_eq_0 [of xs] last_in_set [of xs] by blast
      ultimately have "smenc (smdec vch) = vch"
        using high b neg unfolding v smenc_def n by (auto simp: Let_def)
      then show ?thesis using high by (simp add: scriptnum_minimal_snoc v)
    qed
  qed
qed

end
