(* ===== verification/BigNum.thy ===== *)
theory BigNum
  imports ScriptNum HashStream
begin

text \<open>
  \<open>CBigNum\<close> of \<open>src/bignum.h\<close>: the wrapper of OpenSSL's big numbers that the older of the two script
  interpreters, the number pushes of \<open>CScript\<close> and the difficulty encoding use. OpenSSL is the
  record \<open>bn_lib\<close> of the functions the wrapper calls, and \<open>bn_ok\<close> is what their manual pages
  promise, over a function \<open>val\<close> that gives the integer a \<open>BIGNUM\<close> stands for. An exception that the
  wrapper throws when OpenSSL reports a failure is \<open>None\<close>.
\<close>

record 'b bn_lib =
  BN_mpi2bn :: "byte list \<Rightarrow> 'b"
  BN_bn2mpi :: "'b \<Rightarrow> byte list"
  BN_set_word :: "64 word \<Rightarrow> 'b option"
  BN_get_word :: "'b \<Rightarrow> 64 word"
  BN_is_negative :: "'b \<Rightarrow> bool"
  BN_set_negative :: "'b \<Rightarrow> bool \<Rightarrow> 'b"
  BN_add :: "'b \<Rightarrow> 'b \<Rightarrow> 'b option"
  BN_sub :: "'b \<Rightarrow> 'b \<Rightarrow> 'b option"
  BN_cmp :: "'b \<Rightarrow> 'b \<Rightarrow> int"

section \<open>The wrapper\<close>

definition CBigNum_setvch :: "'b bn_lib \<Rightarrow> byte list \<Rightarrow> 'b" where
  "CBigNum_setvch L vch =
     (let nSize = of_nat (length vch) :: 32 word;
          vch2 = [ucast (drop_bit 24 nSize), ucast (drop_bit 16 nSize),
                  ucast (drop_bit 8 nSize), ucast nSize] @ rev vch
      in BN_mpi2bn L vch2)"

definition CBigNum_getvch :: "'b bn_lib \<Rightarrow> 'b \<Rightarrow> byte list" where
  "CBigNum_getvch L b =
     (let vch = BN_bn2mpi L b
      in if length vch \<le> 4 then [] else rev (drop 4 vch))"

fun int64_mpi :: "nat \<Rightarrow> 64 word \<Rightarrow> bool \<Rightarrow> bool \<Rightarrow> byte list" where
  "int64_mpi 0 n fLeadingZeroes fNegative = []"
| "int64_mpi (Suc i) n fLeadingZeroes fNegative =
     (let c = ucast (drop_bit 56 n) :: byte;
          n1 = push_bit 8 n
      in if fLeadingZeroes
         then if c = 0 then int64_mpi i n1 True fNegative
              else if c AND 0x80 \<noteq> 0
                   then (if fNegative then 0x80 else 0) # c # int64_mpi i n1 False fNegative
              else (if fNegative then c OR 0x80 else c) # int64_mpi i n1 False fNegative
         else c # int64_mpi i n1 False fNegative)"

definition CBigNum_setint64 :: "'b bn_lib \<Rightarrow> 64 word \<Rightarrow> 'b" where
  "CBigNum_setint64 L sn =
     (let (n, fNegative) =
            (if sint sn < 0 then (- (sn + 1) + 1, True) else (sn, False));
          p = int64_mpi 8 n True fNegative;
          nSize = of_nat (length p) :: 32 word;
          pch = [ucast (drop_bit 24 nSize), ucast (drop_bit 16 nSize),
                 ucast (drop_bit 8 nSize), ucast nSize] @ p
      in BN_mpi2bn L pch)"

text \<open>The constructors from \<open>long\<close> and \<open>unsigned long\<close>, both of 64 bits on the supported platforms.\<close>

definition CBigNum_long :: "'b bn_lib \<Rightarrow> 64 word \<Rightarrow> 'b option" where
  "CBigNum_long L n =
     (if 0 \<le> sint n then BN_set_word L n else Some (CBigNum_setint64 L n))"

definition CBigNum_ulong :: "'b bn_lib \<Rightarrow> 64 word \<Rightarrow> 'b option" where
  "CBigNum_ulong L n = BN_set_word L n"

definition CBigNum_getint :: "'b bn_lib \<Rightarrow> 'b \<Rightarrow> int" where
  "CBigNum_getint L b =
     (let n = uint (BN_get_word L b)
      in if \<not> BN_is_negative L b
         then (if n > 2 ^ 31 - 1 then 2 ^ 31 - 1 else n)
         else (if n > 2 ^ 31 - 1 then - (2 ^ 31) else - n))"

definition CBigNum_neg :: "'b bn_lib \<Rightarrow> 'b \<Rightarrow> 'b" where
  "CBigNum_neg L a = BN_set_negative L a (\<not> BN_is_negative L a)"

definition CBigNum_SetCompact :: "'b bn_lib \<Rightarrow> 32 word \<Rightarrow> 'b" where
  "CBigNum_SetCompact L nCompact =
     (let nSize = unat (drop_bit 24 nCompact);
          vch = replicate (4 + nSize) 0;
          vch = vch[3 := of_nat nSize];
          vch = (if 1 \<le> nSize then vch[4 := ucast (drop_bit 16 nCompact)] else vch);
          vch = (if 2 \<le> nSize then vch[5 := ucast (drop_bit 8 nCompact)] else vch);
          vch = (if 3 \<le> nSize then vch[6 := ucast nCompact] else vch)
      in BN_mpi2bn L vch)"

definition CBigNum_GetCompact :: "'b bn_lib \<Rightarrow> 'b \<Rightarrow> 32 word" where
  "CBigNum_GetCompact L b =
     (let vch = BN_bn2mpi L b;
          nSize = length vch - 4;
          nCompact = push_bit 24 (of_nat nSize);
          nCompact = (if 1 \<le> nSize then nCompact OR push_bit 16 (ucast (vch ! 4)) else nCompact);
          nCompact = (if 2 \<le> nSize then nCompact OR push_bit 8 (ucast (vch ! 5)) else nCompact);
          nCompact = (if 3 \<le> nSize then nCompact OR ucast (vch ! 6) else nCompact)
      in nCompact)"

text \<open>\<open>CastToBigNum\<close> of \<open>src/script.cpp\<close>: \<open>None\<close> is the overflow exception.\<close>

definition CastToBigNum :: "'b bn_lib \<Rightarrow> byte list \<Rightarrow> nat \<Rightarrow> 'b option" where
  "CastToBigNum L vch nMax =
     (if nMax < length vch then None
      else Some (CBigNum_setvch L (CBigNum_getvch L (CBigNum_setvch L vch))))"

section \<open>What OpenSSL documents\<close>

text \<open>
  \<open>mpi v\<close> is OpenSSL's MPI format of a number whose sign-magnitude bytes, lowest first, are \<open>v\<close>: a
  length of four bytes and the bytes, highest first. A number that OpenSSL produced from a string
  with a negative zero may be zero and flagged negative; \<open>bn_normal\<close> excludes that.
\<close>

definition mpi :: "byte list \<Rightarrow> byte list" where
  "mpi v = be 4 (length v) @ rev v"

definition bn_normal :: "'b bn_lib \<Rightarrow> ('b \<Rightarrow> int) \<Rightarrow> 'b \<Rightarrow> bool" where
  "bn_normal L val b \<longleftrightarrow> (BN_is_negative L b \<longleftrightarrow> val b < 0)"

definition bn_ok :: "'b bn_lib \<Rightarrow> ('b \<Rightarrow> int) \<Rightarrow> bool" where
  "bn_ok L val \<longleftrightarrow>
     (\<forall>v. length v < 2 ^ 31 \<longrightarrow> val (BN_mpi2bn L (mpi v)) = smdec v) \<and>
     (\<forall>v. length v < 2 ^ 31 \<longrightarrow> smenc (smdec v) = v \<longrightarrow> bn_normal L val (BN_mpi2bn L (mpi v))) \<and>
     (\<forall>b. length (smenc (val b)) < 2 ^ 31 \<longrightarrow> BN_bn2mpi L b = mpi (smenc (val b))) \<and>
     (\<forall>n. \<exists>b. BN_set_word L n = Some b \<and> val b = uint n \<and> bn_normal L val b) \<and>
     (\<forall>b. \<bar>val b\<bar> < 2 ^ 64 \<longrightarrow> uint (BN_get_word L b) = \<bar>val b\<bar>) \<and>
     (\<forall>b f. val (BN_set_negative L b f) = (if f then - \<bar>val b\<bar> else \<bar>val b\<bar>) \<and>
        bn_normal L val (BN_set_negative L b f)) \<and>
     (\<forall>a b. bn_normal L val a \<longrightarrow> bn_normal L val b \<longrightarrow>
        (\<exists>c. BN_add L a b = Some c \<and> val c = val a + val b \<and> bn_normal L val c)) \<and>
     (\<forall>a b. bn_normal L val a \<longrightarrow> bn_normal L val b \<longrightarrow>
        (\<exists>c. BN_sub L a b = Some c \<and> val c = val a - val b \<and> bn_normal L val c)) \<and>
     (\<forall>a b. bn_normal L val a \<longrightarrow> bn_normal L val b \<longrightarrow> sgn (BN_cmp L a b) = sgn (val a - val b))"

lemma ucast_drop_of_nat:
  "(ucast (drop_bit k (of_nat n :: 32 word)) :: byte) = of_nat (n div 2 ^ k)" if "k + 8 \<le> 32"
proof (rule bit_word_eqI)
  fix m assume "m < LENGTH(8)"
  then show "bit (ucast (drop_bit k (of_nat n :: 32 word)) :: byte) m =
      bit (of_nat (n div 2 ^ k) :: byte) m"
    using that by (simp add: bit_simps flip: drop_bit_eq_div)
qed

lemma length_header:
  "[ucast (drop_bit 24 (of_nat n :: 32 word)), ucast (drop_bit 16 (of_nat n :: 32 word)),
    ucast (drop_bit 8 (of_nat n :: 32 word)), ucast (of_nat n :: 32 word)] = be 4 n"
  using ucast_drop_of_nat [of 24 n] ucast_drop_of_nat [of 16 n] ucast_drop_of_nat [of 8 n]
    ucast_drop_of_nat [of 0 n]
  by (simp add: be_def le_numeral div_mult2_eq [symmetric])

lemma CBigNum_setvch_mpi: "CBigNum_setvch L vch = BN_mpi2bn L (mpi vch)"
  unfolding CBigNum_setvch_def Let_def length_header mpi_def ..

lemma length_mpi [simp]: "length (mpi v) = 4 + length v"
  by (simp add: mpi_def)

section \<open>What the wrapper computes\<close>

text \<open>The facts of \<open>bn_ok\<close>, one by one.\<close>

lemma bn_mpi2bn:
  assumes "bn_ok L val"
  shows "length v < 2 ^ 31 \<Longrightarrow> val (BN_mpi2bn L (mpi v)) = smdec v"
  using assms [unfolded bn_ok_def, THEN conjunct1, rule_format] .

lemma bn_mpi2bn_normal:
  assumes "bn_ok L val"
  shows "length v < 2 ^ 31 \<Longrightarrow> smenc (smdec v) = v \<Longrightarrow> bn_normal L val (BN_mpi2bn L (mpi v))"
  using assms [unfolded bn_ok_def, THEN conjunct2, THEN conjunct1, rule_format] .

lemma bn_bn2mpi:
  assumes "bn_ok L val"
  shows "length (smenc (val b)) < 2 ^ 31 \<Longrightarrow> BN_bn2mpi L b = mpi (smenc (val b))"
  using assms [unfolded bn_ok_def, THEN conjunct2, THEN conjunct2, THEN conjunct1, rule_format] .

lemma bn_set_word:
  assumes "bn_ok L val"
  shows "\<exists>b. BN_set_word L n = Some b \<and> val b = uint n \<and> bn_normal L val b"
  using assms [unfolded bn_ok_def, THEN conjunct2, THEN conjunct2, THEN conjunct2, THEN conjunct1, rule_format] .

lemma bn_get_word:
  assumes "bn_ok L val"
  shows "\<bar>val b\<bar> < 2 ^ 64 \<Longrightarrow> uint (BN_get_word L b) = \<bar>val b\<bar>"
  using assms [unfolded bn_ok_def, THEN conjunct2, THEN conjunct2, THEN conjunct2, THEN conjunct2, THEN conjunct1, rule_format] .

lemma bn_set_negative:
  assumes "bn_ok L val"
  shows "val (BN_set_negative L b f) = (if f then - \<bar>val b\<bar> else \<bar>val b\<bar>)"
  using assms [unfolded bn_ok_def, THEN conjunct2, THEN conjunct2, THEN conjunct2, THEN conjunct2, THEN conjunct2, THEN conjunct1, rule_format] by blast

lemma bn_set_negative_normal:
  assumes "bn_ok L val"
  shows "bn_normal L val (BN_set_negative L b f)"
  using assms [unfolded bn_ok_def, THEN conjunct2, THEN conjunct2, THEN conjunct2, THEN conjunct2, THEN conjunct2, THEN conjunct1, rule_format] by blast

lemma bn_add:
  assumes "bn_ok L val"
  shows "bn_normal L val a \<Longrightarrow> bn_normal L val b \<Longrightarrow>
      \<exists>c. BN_add L a b = Some c \<and> val c = val a + val b \<and> bn_normal L val c"
  using assms [unfolded bn_ok_def, THEN conjunct2, THEN conjunct2, THEN conjunct2, THEN conjunct2, THEN conjunct2, THEN conjunct2, THEN conjunct1, rule_format] .

lemma bn_sub:
  assumes "bn_ok L val"
  shows "bn_normal L val a \<Longrightarrow> bn_normal L val b \<Longrightarrow>
      \<exists>c. BN_sub L a b = Some c \<and> val c = val a - val b \<and> bn_normal L val c"
  using assms [unfolded bn_ok_def, THEN conjunct2, THEN conjunct2, THEN conjunct2, THEN conjunct2, THEN conjunct2, THEN conjunct2, THEN conjunct2, THEN conjunct1, rule_format] .

lemma bn_cmp:
  assumes "bn_ok L val"
  shows "bn_normal L val a \<Longrightarrow> bn_normal L val b \<Longrightarrow>
      sgn (BN_cmp L a b) = sgn (val a - val b)"
  using assms [unfolded bn_ok_def, THEN conjunct2, THEN conjunct2, THEN conjunct2, THEN conjunct2, THEN conjunct2, THEN conjunct2, THEN conjunct2, THEN conjunct2, rule_format] .

lemma getvch_smenc:
  assumes "bn_ok L val" and "length (smenc (val b)) < 2 ^ 31"
  shows "CBigNum_getvch L b = smenc (val b)"
  using bn_bn2mpi [OF assms] by (simp add: CBigNum_getvch_def Let_def) (simp add: mpi_def)

lemma length_smenc_le: "length (smenc (smdec v)) \<le> length v"
proof (cases v rule: rev_cases)
  case Nil
  then show ?thesis by simp
next
  case (snoc xs b)
  have "\<bar>smdec v\<bar> = int (nat \<bar>smdec v\<bar>)" by simp
  have "nat \<bar>smdec v\<bar> \<le> le_nat xs + 256 ^ length xs * (if unat b < 128 then unat b else unat b - 128)"
    by (simp add: snoc smdec_snoc le_nat_snoc del: of_nat_add of_nat_mult)
  also have "\<dots> < 256 ^ length xs * 128"
    using unat_byte_less [of b] by (intro digit_bound le_nat_bound)
      (cases "unat b < 128"; simp only: if_True if_False; linarith)
  finally have "\<bar>smdec v\<bar> < 128 * 256 ^ length xs"
    by (simp add: nat_less_iff mult.commute)
  from length_smenc [OF this] show ?thesis by (simp add: snoc)
qed

text \<open>\<open>CastToBigNum\<close> reads a short string as a number, whatever its encoding.\<close>

lemma CastToBigNum_spec:
  assumes ok: "bn_ok L val" and len: "length v \<le> m" "m < 2 ^ 31"
  shows "\<exists>b. CastToBigNum L v m = Some b \<and> val b = smdec v \<and> bn_normal L val b"
proof -
  have l: "length v < 2 ^ 31" using len by linarith
  have v1: "val (CBigNum_setvch L v) = smdec v"
    using bn_mpi2bn [OF ok l] by (simp add: CBigNum_setvch_mpi)
  have l2: "length (smenc (smdec v)) < 2 ^ 31" using length_smenc_le [of v] l by linarith
  then have g: "CBigNum_getvch L (CBigNum_setvch L v) = smenc (smdec v)"
    using getvch_smenc [OF ok, of "CBigNum_setvch L v"] by (simp add: v1)
  have "CastToBigNum L v m = Some (CBigNum_setvch L (smenc (smdec v)))"
    using len(1) by (simp add: CastToBigNum_def g)
  then show ?thesis
    using bn_mpi2bn [OF ok l2] bn_mpi2bn_normal [OF ok l2] by (simp add: CBigNum_setvch_mpi)
qed

lemma CastToBigNum_overflow: "m < length v \<Longrightarrow> CastToBigNum L v m = None"
  by (simp add: CastToBigNum_def)

lemma CBigNum_getint_spec:
  assumes ok: "bn_ok L val" and n: "bn_normal L val b" and r: "\<bar>val b\<bar> < 2 ^ 31"
  shows "CBigNum_getint L b = val b"
proof -
  have "uint (BN_get_word L b) = \<bar>val b\<bar>" using r by (intro bn_get_word [OF ok]) simp
  then show ?thesis using n r by (auto simp: CBigNum_getint_def bn_normal_def Let_def)
qed

lemma CBigNum_neg_spec:
  assumes ok: "bn_ok L val" and n: "bn_normal L val b"
  shows "val (CBigNum_neg L b) = - val b" and "bn_normal L val (CBigNum_neg L b)"
  using n bn_set_negative [OF ok, of b] bn_set_negative_normal [OF ok, of b]
  by (auto simp: CBigNum_neg_def bn_normal_def)

text \<open>\<open>setint64\<close> writes the canonical encoding of its argument.\<close>

fun mpi_loop :: "byte list \<Rightarrow> bool \<Rightarrow> bool \<Rightarrow> byte list" where
  "mpi_loop [] lz neg = []"
| "mpi_loop (c # cs) lz neg =
     (if lz
      then if c = 0 then mpi_loop cs True neg
           else if c AND 0x80 \<noteq> 0 then (if neg then 0x80 else 0) # c # cs
           else (if neg then c OR 0x80 else c) # cs
      else c # cs)"

lemma take_WriteBE64:
  "i \<le> 7 \<Longrightarrow> take (Suc i) (WriteBE64 n) = ucast (drop_bit 56 n) # take i (WriteBE64 (push_bit 8 n))"
proof -
  have b: "(ucast (drop_bit (k + 8) (push_bit 8 n)) :: byte) = ucast (drop_bit k n)"
    if "k \<le> 48" for k
    by (rule bit_word_eqI) (use that in \<open>auto simp: bit_simps\<close>)
  have "WriteBE64 (push_bit 8 n) = tl (WriteBE64 n) @ [ucast (push_bit 8 n)]"
    using b [of 48] b [of 40] b [of 32] b [of 24] b [of 16] b [of 8] b [of 0]
    by (simp add: WriteBE64_def)
  then show "i \<le> 7 \<Longrightarrow> ?thesis"
    by (simp add: take_Cons') (simp add: WriteBE64_def)
qed

lemma int64_mpi_loop: "i \<le> 8 \<Longrightarrow> int64_mpi i n lz neg = mpi_loop (take i (WriteBE64 n)) lz neg"
proof (induction i arbitrary: n lz)
  case 0
  then show ?case by simp
next
  case (Suc i)
  have f: "mpi_loop cs False neg = cs" for cs by (cases cs) simp_all
  show ?case using Suc by (simp add: take_WriteBE64 Let_def f del: take_Suc_Cons)
qed

lemma of_nat_div_ucast: "(of_nat (unat (n :: 64 word) div 2 ^ k) :: byte) = ucast (drop_bit k n)"
proof -
  have "unat (drop_bit k n) = drop_bit k (take_bit 64 (unat n))"
    by (subst unsigned_drop_bit_eq) simp
  also have "take_bit 64 (unat n) = unat n"
    using unsigned_less [of n] by (intro take_bit_nat_eq_self) simp
  finally have "unat n div 2 ^ k = unat (drop_bit k n)" by (simp only: drop_bit_eq_div)
  then show ?thesis by simp
qed

lemma WriteBE64_be: "WriteBE64 n = be 8 (unat n)"
  using of_nat_div_ucast [of n 56] of_nat_div_ucast [of n 48] of_nat_div_ucast [of n 40]
    of_nat_div_ucast [of n 32] of_nat_div_ucast [of n 24] of_nat_div_ucast [of n 16]
    of_nat_div_ucast [of n 8] of_nat_div_ucast [of n 0]
  by (simp add: WriteBE64_def be_def le_numeral div_mult2_eq [symmetric])

lemma le_nat_bytes: "x < 256 ^ k \<Longrightarrow> le k x = nat_bytes x @ replicate (k - length (nat_bytes x)) 0"
proof -
  assume x: "x < 256 ^ k"
  let ?v = "nat_bytes x @ replicate (k - length (nat_bytes x)) 0"
  have "length ?v = k" using length_nat_bytes_le [OF x] by simp
  moreover have "le_nat (replicate j 0) = 0" for j by (induction j) simp_all
  then have "le_nat ?v = x" by (simp add: le_nat_append)
  ultimately show ?thesis using le_le_nat [of ?v] by simp
qed

lemma mpi_loop_zeros: "mpi_loop (replicate k 0 @ cs) True neg = mpi_loop cs True neg"
  by (induction k) simp_all

lemma int64_mpi_smenc:
  "int64_mpi 8 n True neg = rev (smenc (if neg then - int (unat n) else int (unat n)))"
proof (cases "n = 0")
  case True
  then show ?thesis by (simp add: eval_nat_numeral)
next
  case False
  then have x: "unat n \<noteq> 0" by (simp add: unat_eq_0)
  obtain xs b where m: "nat_bytes (unat n) = xs @ [b]"
    using butlast_last_snoc [of "nat_bytes (unat n)"] x by (auto simp only: nat_bytes_eq_Nil)
  have b: "b \<noteq> 0" using last_nat_bytes [OF x] m by simp
  have "unat n < 256 ^ 8" using unsigned_less [of n] by simp
  then have "WriteBE64 n = replicate (8 - length (nat_bytes (unat n))) 0 @ rev (nat_bytes (unat n))"
    unfolding WriteBE64_be be_def by (subst le_nat_bytes) simp_all
  then have w: "mpi_loop (WriteBE64 n) True neg = mpi_loop (b # rev xs) True neg"
    by (simp add: mpi_loop_zeros m del: mpi_loop.simps)
  have "int64_mpi 8 n True neg = mpi_loop (WriteBE64 n) True neg"
    by (subst int64_mpi_loop) simp_all
  moreover have "mpi_loop (b # rev xs) True neg = rev (smenc (if neg then - int k else int k))"
    if "k \<noteq> 0" "nat_bytes k = xs @ [b]" for k
    using that b by (simp add: smenc_def Let_def byte_and_80 not_less)
  ultimately show ?thesis using w x m by simp
qed

lemma CBigNum_setint64_mpi: "CBigNum_setint64 L sn = BN_mpi2bn L (mpi (smenc (sint sn)))"
proof -
  have a: "- (sn + 1) + 1 = - sn" by simp
  have "int64_mpi 8 (if sint sn < 0 then - sn else sn) True (sint sn < 0) = rev (smenc (sint sn))"
    unfolding int64_mpi_smenc unat_abs_64 by simp
  then show ?thesis
    unfolding CBigNum_setint64_def Let_def length_header a mpi_def
    by (cases "sint sn < 0") simp_all
qed

lemma length_smenc_sint: "length (smenc (sint (w :: 64 word))) \<le> 9"
proof -
  have "\<bar>sint w\<bar> \<le> 2 ^ 63" using sint_greater_eq [of w] sint_less [of w] by simp
  then have "\<bar>sint w\<bar> < 128 * 256 ^ 8" by simp
  from length_smenc [OF this] show ?thesis by simp
qed

lemma CBigNum_long_spec:
  assumes ok: "bn_ok L val"
  shows "\<exists>b. CBigNum_long L n = Some b \<and> val b = sint n \<and> bn_normal L val b"
proof (cases "0 \<le> sint n")
  case True
  then have "uint n = sint n"
    using unat_abs_64 [of n] by (simp add: nat_eq_iff2)
  then show ?thesis using bn_set_word [OF ok, of n] True by (auto simp: CBigNum_long_def)
next
  case False
  have l: "length (smenc (sint n)) < 2 ^ 31"
    by (rule le_less_trans [OF length_smenc_sint]) simp
  show ?thesis
    using False bn_mpi2bn [OF ok l] bn_mpi2bn_normal [OF ok l]
    by (simp add: CBigNum_long_def CBigNum_setint64_mpi)
qed

lemma getvch_long:
  assumes ok: "bn_ok L val" and b: "CBigNum_long L n = Some b"
  shows "CBigNum_getvch L b = smenc (sint n)"
proof -
  have v: "val b = sint n" using CBigNum_long_spec [OF ok, of n] b by auto
  have "length (smenc (val b)) < 2 ^ 31"
    unfolding v by (rule le_less_trans [OF length_smenc_sint]) simp
  from getvch_smenc [OF ok this] show ?thesis by (simp add: v)
qed

section \<open>An instance\<close>

text \<open>Exact integers satisfy what OpenSSL documents, so \<open>bn_ok\<close> can hold.\<close>

definition int_bn :: "int bn_lib" where
  "int_bn =
     \<lparr>BN_mpi2bn = (\<lambda>m. smdec (rev (drop 4 m))),
      BN_bn2mpi = (\<lambda>i. mpi (smenc i)),
      BN_set_word = (\<lambda>n. Some (uint n)),
      BN_get_word = (\<lambda>i. if \<bar>i\<bar> < 2 ^ 64 then word_of_int \<bar>i\<bar> else - 1),
      BN_is_negative = (\<lambda>i. i < 0),
      BN_set_negative = (\<lambda>i f. if f then - \<bar>i\<bar> else \<bar>i\<bar>),
      BN_add = (\<lambda>a b. Some (a + b)),
      BN_sub = (\<lambda>a b. Some (a - b)),
      BN_cmp = (\<lambda>a b. sgn (a - b))\<rparr>"

lemma int_bn_ok: "bn_ok int_bn id"
  by (simp add: bn_ok_def int_bn_def bn_normal_def mpi_def be_def unsigned_of_int take_bit_int_eq_self)

end
