(* ===== verification/Script.thy ===== *)
theory Script
  imports Opcodes BigNum
begin

text \<open>
  The class \<open>CScript\<close> of \<open>src/script.h\<close> and its members in \<open>src/script.cpp\<close>: a script is its byte
  string. A \<open>const_iterator\<close> into a script is the suffix it points to, so that \<open>GetOp\<close> returns the
  iterator it moved as a suffix. Failed assertions and thrown exceptions are \<open>None\<close>.
\<close>

type_synonym CScript = "byte list"

section \<open>Appending to a script\<close>

definition push_data :: "valtype \<Rightarrow> CScript" where
  "push_data b =
     (if length b < 0x4c then [of_nat (length b)]
      else if length b \<le> 0xff then [OP_PUSHDATA1, of_nat (length b)]
      else if length b \<le> 0xffff then OP_PUSHDATA2 # le 2 (length b)
      else OP_PUSHDATA4 # le 4 (length b)) @ b"

definition push_opcode :: "opcodetype \<Rightarrow> CScript" where
  "push_opcode opcode = [opcode]"

definition push_uint160 :: "160 word \<Rightarrow> CScript" where
  "push_uint160 b = 20 # le 20 (unat b)"

definition push_uint256 :: "256 word \<Rightarrow> CScript" where
  "push_uint256 b = 32 # le 32 (unat b)"

definition push_CPubKey :: "valtype \<Rightarrow> CScript option" where
  "push_CPubKey key = (if length key < 0x4c then Some (of_nat (length key) # key) else None)"

definition push_int64 :: "'b bn_lib \<Rightarrow> 64 word \<Rightarrow> CScript option" where
  "push_int64 L n =
     (if sint n = -1 \<or> (1 \<le> sint n \<and> sint n \<le> 16)
      then Some [ucast (n + (0x51 - 1))]
      else case CBigNum_long L n of
             None \<Rightarrow> None
           | Some bn \<Rightarrow> Some (push_data (CBigNum_getvch L bn)))"

definition push_uint64 :: "'b bn_lib \<Rightarrow> 64 word \<Rightarrow> CScript option" where
  "push_uint64 L n =
     (if 1 \<le> unat n \<and> unat n \<le> 16
      then Some [ucast (n + (0x51 - 1))]
      else case CBigNum_ulong L n of
             None \<Rightarrow> None
           | Some bn \<Rightarrow> Some (push_data (CBigNum_getvch L bn)))"

definition PushAll :: "valtype list \<Rightarrow> CScript" where
  "PushAll values = foldl (\<lambda>result v. result @ push_data v) [] values"

section \<open>Reading a script\<close>

definition GetOp_data :: "opcodetype \<Rightarrow> nat \<Rightarrow> CScript \<Rightarrow> bool \<times> opcodetype \<times> valtype \<times> CScript" where
  "GetOp_data opcode nSize pc =
     (if length pc mod 2 ^ 32 < nSize then (False, OP_INVALIDOPCODE, [], pc)
      else (True, opcode, take nSize pc, drop nSize pc))"

definition GetOp :: "CScript \<Rightarrow> bool \<times> opcodetype \<times> valtype \<times> CScript" where
  "GetOp pc =
     (case pc of
        [] \<Rightarrow> (False, OP_INVALIDOPCODE, [], [])
      | opcode # pc1 \<Rightarrow>
          if opcode \<le> OP_PUSHDATA4 then
            if opcode < OP_PUSHDATA1 then GetOp_data opcode (unat opcode) pc1
            else if opcode = OP_PUSHDATA1 then
              if length pc1 < 1 then (False, OP_INVALIDOPCODE, [], pc1)
              else GetOp_data opcode (unat (hd pc1)) (tl pc1)
            else if opcode = OP_PUSHDATA2 then
              if length pc1 < 2 then (False, OP_INVALIDOPCODE, [], pc1)
              else GetOp_data opcode (le_nat (take 2 pc1)) (drop 2 pc1)
            else
              if length pc1 < 4 then (False, OP_INVALIDOPCODE, [], pc1)
              else GetOp_data opcode (le_nat (take 4 pc1)) (drop 4 pc1)
          else (True, opcode, [], pc1))"

text \<open>\<open>GetOp\<close> consumes at least one byte of what is left, and only bytes of the script.\<close>

lemma GetOp_data_cases:
  "GetOp_data opc n pc = (ok, opc', vch, pc') \<Longrightarrow>
     (ok \<and> opc' = opc \<and> n \<le> length pc \<and> vch = take n pc \<and> pc' = drop n pc) \<or>
     (\<not> ok \<and> opc' = OP_INVALIDOPCODE \<and> vch = [] \<and> pc' = pc)"
  using mod_less_eq_dividend [of "length pc" "2 ^ 32"]
  by (auto simp: GetOp_data_def split: if_splits)

definition op_hdr :: "opcodetype \<Rightarrow> nat" where
  "op_hdr c = (if c < OP_PUSHDATA1 then 0 else if c = OP_PUSHDATA1 then 1
     else if c = OP_PUSHDATA2 then 2 else 4)"

definition op_size :: "opcodetype \<Rightarrow> CScript \<Rightarrow> nat" where
  "op_size c pc = (if c < OP_PUSHDATA1 then unat c else le_nat (take (op_hdr c) pc))"

lemma GetOp_Cons:
  "GetOp (c # pc) =
     (if \<not> c \<le> OP_PUSHDATA4 then (True, c, [], pc)
      else if length pc < op_hdr c then (False, OP_INVALIDOPCODE, [], pc)
      else GetOp_data c (op_size c pc) (drop (op_hdr c) pc))"
  by (cases pc) (simp_all add: GetOp_def op_hdr_def op_size_def drop_Suc)

lemma GetOp_Nil [simp]: "GetOp [] = (False, OP_INVALIDOPCODE, [], [])"
  by (simp add: GetOp_def)

lemma GetOp_suffix:
  assumes "GetOp pc = (ok, opc, vch, pc')"
  shows "\<exists>k. pc' = drop k pc \<and> (pc \<noteq> [] \<longrightarrow> 0 < k) \<and> k \<le> length pc"
proof (cases pc)
  case Nil
  with assms show ?thesis by auto
next
  case (Cons c pc1)
  consider "pc' = pc1"
    | n where "GetOp_data c n (drop (op_hdr c) pc1) = (ok, opc, vch, pc')" "op_hdr c \<le> length pc1"
    using assms unfolding Cons GetOp_Cons by (auto simp: not_less split: if_splits)
  then show ?thesis
  proof cases
    case 1
    then show ?thesis by (intro exI [of _ 1]) (simp add: Cons)
  next
    case 2
    from GetOp_data_cases [OF this(1)]
    obtain m where "pc' = drop m (drop (op_hdr c) pc1)" "m \<le> length (drop (op_hdr c) pc1)"
      by (auto intro: that [of 0])
    then have "pc' = drop (Suc (op_hdr c + m)) pc" "Suc (op_hdr c + m) \<le> length pc"
      using 2(2) by (simp_all add: Cons add.commute)
    then show ?thesis by blast
  qed
qed

lemma GetOp_less: "GetOp pc = (ok, opc, vch, pc') \<Longrightarrow> pc \<noteq> [] \<Longrightarrow> length pc' < length pc"
  using GetOp_suffix [of pc ok opc vch pc'] by auto

lemma GetOp_ok_nonempty: "GetOp pc = (True, opc, vch, pc') \<Longrightarrow> pc \<noteq> []"
  by (auto simp: GetOp_def)

lemma GetOp_ok_less: "GetOp pc = (True, opc, vch, pc') \<Longrightarrow> length pc' < length pc"
  using GetOp_less GetOp_ok_nonempty by blast

lemma GetOp_fail:
  "GetOp pc = (False, opc, vch, pc') \<Longrightarrow> opc = OP_INVALIDOPCODE \<and> vch = []"
  by (cases pc) (auto simp: GetOp_Cons GetOp_data_def split: if_splits)

lemma GetOp_nonpush: "\<not> c \<le> OP_PUSHDATA4 \<Longrightarrow> GetOp (c # pc) = (True, c, [], pc)"
  by (simp add: GetOp_Cons)

lemma GetOp_vch_nonpush: "GetOp pc = (True, opc, vch, pc') \<Longrightarrow> \<not> opc \<le> OP_PUSHDATA4 \<Longrightarrow> vch = []"
  by (cases pc) (auto simp: GetOp_Cons GetOp_data_def split: if_splits)

text \<open>Reading back what \<open>operator<<\<close> appended.\<close>

definition push_opcode_of :: "valtype \<Rightarrow> opcodetype" where
  "push_opcode_of v =
     (if length v < 0x4c then of_nat (length v)
      else if length v \<le> 0xff then OP_PUSHDATA1
      else if length v \<le> 0xffff then OP_PUSHDATA2 else OP_PUSHDATA4)"

lemma GetOp_data_append:
  "length (v @ r) < 2 ^ 32 \<Longrightarrow> GetOp_data c (length v) (v @ r) = (True, c, v, r)"
  by (simp add: GetOp_data_def)

lemma GetOp_push_data [codec_laws]:
  assumes "length (v @ r) < 2 ^ 32"
  shows "GetOp (push_data v @ r) = (True, push_opcode_of v, v, r)"
proof -
  have d: "GetOp_data c (length v) (v @ r) = (True, c, v, r)" for c
    using assms by (rule GetOp_data_append)
  consider "length v < 0x4c" | "0x4c \<le> length v" "length v \<le> 0xff"
    | "0xff < length v" "length v \<le> 0xffff" | "0xffff < length v" by linarith
  then show ?thesis
  proof cases
    case 1
    then have u: "unat (of_nat (length v) :: byte) = length v" by simp
    have "(of_nat (length v) :: byte) < 0x4c" unfolding word_less_nat_alt u using 1 by simp
    moreover have "(of_nat (length v) :: byte) \<le> 0x4e" unfolding word_le_nat_alt u using 1 by simp
    ultimately show ?thesis
      using 1 d by (simp add: push_data_def push_opcode_of_def GetOp_Cons op_hdr_def op_size_def u)
  next
    case 2
    then show ?thesis
      using d by (simp add: push_data_def push_opcode_of_def GetOp_Cons op_hdr_def op_size_def)
  next
    case 3
    then show ?thesis
      using d by (simp add: push_data_def push_opcode_of_def GetOp_Cons op_hdr_def op_size_def)
  next
    case 4
    have "length v < 2 ^ 32" using assms by simp
    then show ?thesis
      using 4 d by (simp add: push_data_def push_opcode_of_def GetOp_Cons op_hdr_def op_size_def)
  qed
qed

lemma PushAll_Cons [simp]: "PushAll [] = []" "PushAll (v # vs) = push_data v @ PushAll vs"
proof -
  have "foldl (\<lambda>result v. result @ push_data v) r vs = r @ concat (map push_data vs)" for r vs
    by (induction vs arbitrary: r) simp_all
  then show "PushAll [] = []" "PushAll (v # vs) = push_data v @ PushAll vs"
    by (simp_all add: PushAll_def)
qed

section \<open>Small integers\<close>

definition DecodeOP_N :: "opcodetype \<Rightarrow> int option" where
  "DecodeOP_N opcode =
     (if opcode = OP_0 then Some 0
      else if OP_1 \<le> opcode \<and> opcode \<le> OP_16 then Some (uint opcode - (0x51 - 1))
      else None)"

definition EncodeOP_N :: "int \<Rightarrow> opcodetype option" where
  "EncodeOP_N n =
     (if 0 \<le> n \<and> n \<le> 16 then Some (if n = 0 then OP_0 else word_of_int (0x51 + n - 1)) else None)"

lemma DecodeOP_N_EncodeOP_N:
  assumes "EncodeOP_N n = Some opc"
  shows "DecodeOP_N opc = Some n"
proof -
  have n: "0 \<le> n" "n \<le> 16" using assms by (auto simp: EncodeOP_N_def split: if_splits)
  show ?thesis
  proof (cases "n = 0")
    case True
    then show ?thesis using assms by (simp add: EncodeOP_N_def DecodeOP_N_def)
  next
    case False
    then have opc: "opc = word_of_int (0x50 + n)"
      using assms n by (simp add: EncodeOP_N_def algebra_simps)
    have "uint (word_of_int k :: byte) = k" if "0 \<le> k" "k < 256" for k
      using that by (simp add: unsigned_of_int take_bit_int_eq_self)
    then have u: "uint opc = 0x50 + n"
      unfolding opc using n by (simp only:)
    have "opc \<noteq> OP_0" using u n by auto
    moreover have "OP_1 \<le> opc" "opc \<le> OP_16" using u n False by (simp_all add: word_le_def)
    ultimately show ?thesis by (simp add: DecodeOP_N_def u)
  qed
qed

section \<open>Counting, searching and deleting\<close>

function Find_loop :: "opcodetype \<Rightarrow> CScript \<Rightarrow> nat \<Rightarrow> nat" where
  "Find_loop opc pc nFound =
     (if pc = [] then nFound
      else case GetOp pc of (ok, opcode, vch, pc') \<Rightarrow>
        if ok then Find_loop opc pc' (if opcode = opc then nFound + 1 else nFound)
        else nFound)"
  by pat_completeness auto
termination
  by (relation "measure (\<lambda>(opc, pc, n). length pc)") (auto dest: GetOp_less [OF sym])

declare Find_loop.simps [simp del]

definition Find :: "CScript \<Rightarrow> opcodetype \<Rightarrow> nat" where
  "Find script opc = Find_loop opc script 0"

text \<open>The inner loop of \<open>FindAndDelete\<close>: erase copies of \<open>b\<close> at the iterator.\<close>

function erase_copies :: "CScript \<Rightarrow> CScript \<Rightarrow> nat \<Rightarrow> CScript \<times> nat" where
  "erase_copies b pc nFound =
     (if b \<noteq> [] \<and> length b \<le> length pc \<and> take (length b) pc = b
      then erase_copies b (drop (length b) pc) (nFound + 1)
      else (pc, nFound))"
  by pat_completeness auto
termination
  by (relation "measure (\<lambda>(b, pc, n). length pc)") (auto simp flip: length_greater_0_conv)

declare erase_copies.simps [simp del]

lemma erase_copies_length: "length (fst (erase_copies b pc n)) \<le> length pc"
proof (induction b pc n rule: erase_copies.induct)
  case (1 b pc n)
  then show ?case by (subst erase_copies.simps) (auto intro: le_trans)
qed

function FindAndDelete_loop :: "CScript \<Rightarrow> CScript \<Rightarrow> nat \<Rightarrow> CScript \<times> nat" where
  "FindAndDelete_loop b pc nFound =
     (let (pc1, nFound1) = erase_copies b pc nFound
      in case GetOp pc1 of (ok, opcode, vch, pc2) \<Rightarrow>
           if ok
           then let (rest, nFound2) = FindAndDelete_loop b pc2 nFound1
                in (take (length pc1 - length pc2) pc1 @ rest, nFound2)
           else (pc1, nFound1))"
  by pat_completeness auto
termination
proof (relation "measure (\<lambda>(b, pc, n). length pc)", simp, clarsimp)
  fix b pc pc1 pc2 vch :: CScript and n m and opc :: opcodetype
  assume e: "(pc1, m) = erase_copies b pc n" and g: "(True, opc, vch, pc2) = GetOp pc1"
  have "length pc2 < length pc1" using GetOp_ok_less [OF g [symmetric]] .
  also have "length pc1 \<le> length pc" using erase_copies_length [of b pc n] e [symmetric] by simp
  finally show "length pc2 < length pc" .
qed

declare FindAndDelete_loop.simps [simp del]

definition FindAndDelete :: "CScript \<Rightarrow> CScript \<Rightarrow> CScript \<times> nat" where
  "FindAndDelete script b = (if b = [] then (script, 0) else FindAndDelete_loop b script 0)"

function GetSigOpCount_loop :: "bool \<Rightarrow> CScript \<Rightarrow> opcodetype \<Rightarrow> 32 word \<Rightarrow> 32 word" where
  "GetSigOpCount_loop fAccurate pc lastOpcode n =
     (if pc = [] then n
      else case GetOp pc of (ok, opcode, vch, pc') \<Rightarrow>
        if \<not> ok then n
        else GetSigOpCount_loop fAccurate pc' opcode
          (if opcode = OP_CHECKSIG \<or> opcode = OP_CHECKSIGVERIFY then n + 1
           else if opcode = OP_CHECKMULTISIG \<or> opcode = OP_CHECKMULTISIGVERIFY then
             (if fAccurate \<and> OP_1 \<le> lastOpcode \<and> lastOpcode \<le> OP_16
              then n + word_of_int (the (DecodeOP_N lastOpcode))
              else n + 20)
           else n))"
  by pat_completeness auto
termination
  by (relation "measure (\<lambda>(f, pc, l, n). length pc)") (auto dest: GetOp_less [OF sym])

declare GetSigOpCount_loop.simps [simp del]

definition GetSigOpCount :: "CScript \<Rightarrow> bool \<Rightarrow> 32 word" where
  "GetSigOpCount script fAccurate = GetSigOpCount_loop fAccurate script OP_INVALIDOPCODE 0"

definition IsPayToScriptHash :: "CScript \<Rightarrow> bool" where
  "IsPayToScriptHash s \<longleftrightarrow>
     length s = 23 \<and> s ! 0 = OP_HASH160 \<and> s ! 1 = 0x14 \<and> s ! 22 = OP_EQUAL"

text \<open>The last item that a script of pushes pushes; \<open>None\<close> if it has anything but pushes.\<close>

function last_push :: "CScript \<Rightarrow> valtype \<Rightarrow> valtype option" where
  "last_push pc data =
     (if pc = [] then Some data
      else case GetOp pc of (ok, opcode, vch, pc') \<Rightarrow>
        if \<not> ok then None
        else if OP_16 < opcode then None
        else last_push pc' vch)"
  by pat_completeness auto
termination
  by (relation "measure (\<lambda>(pc, d). length pc)") (auto dest: GetOp_less [OF sym])

declare last_push.simps [simp del]

definition GetSigOpCount_P2SH :: "CScript \<Rightarrow> CScript \<Rightarrow> 32 word" where
  "GetSigOpCount_P2SH script scriptSig =
     (if \<not> IsPayToScriptHash script then GetSigOpCount script True
      else case last_push scriptSig [] of
             None \<Rightarrow> 0
           | Some data \<Rightarrow> GetSigOpCount data True)"

function IsPushOnly :: "CScript \<Rightarrow> bool" where
  "IsPushOnly pc =
     (if pc = [] then True
      else case GetOp pc of (ok, opcode, vch, pc') \<Rightarrow>
        if \<not> ok then False
        else if OP_16 < opcode then False
        else IsPushOnly pc')"
  by pat_completeness auto
termination
  by (relation "measure length") (auto dest: GetOp_less [OF sym])

declare IsPushOnly.simps [simp del]

function HasCanonicalPushes :: "CScript \<Rightarrow> bool" where
  "HasCanonicalPushes pc =
     (if pc = [] then True
      else case GetOp pc of (ok, opcode, data, pc') \<Rightarrow>
        if \<not> ok then False
        else if OP_16 < opcode then HasCanonicalPushes pc'
        else if opcode < OP_PUSHDATA1 \<and> OP_0 < opcode \<and> length data = 1 \<and> data ! 0 \<le> 16 then False
        else if opcode = OP_PUSHDATA1 \<and> length data < 0x4c then False
        else if opcode = OP_PUSHDATA2 \<and> length data \<le> 0xff then False
        else if opcode = OP_PUSHDATA4 \<and> length data \<le> 0xffff then False
        else HasCanonicalPushes pc')"
  by pat_completeness auto
termination
  by (relation "measure length") (auto dest: GetOp_less [OF sym])

declare HasCanonicalPushes.simps [simp del]

function IsNormalPaymentScript_loop :: "CScript \<Rightarrow> nat \<Rightarrow> bool" where
  "IsNormalPaymentScript_loop pc i =
     (if pc = [] then True
      else case GetOp pc of (ok, opcode, vch, pc') \<Rightarrow>
        if i = 0 \<and> opcode \<noteq> OP_DUP then False
        else if i = 1 \<and> opcode \<noteq> OP_HASH160 then False
        else if i = 3 \<and> opcode \<noteq> OP_EQUALVERIFY then False
        else if i = 4 \<and> opcode \<noteq> OP_CHECKSIG then False
        else if i = 5 then False
        else IsNormalPaymentScript_loop pc' (i + 1))"
  by pat_completeness auto
termination
  by (relation "measure (\<lambda>(pc, i). length pc)") (auto dest: GetOp_less [OF sym])

declare IsNormalPaymentScript_loop.simps [simp del]

definition IsNormalPaymentScript :: "CScript \<Rightarrow> bool" where
  "IsNormalPaymentScript script =
     (if length script \<noteq> 25 then False else IsNormalPaymentScript_loop script 0)"

end
