(* ===== verification/SigEnc.thy ===== *)
theory SigEnc
  imports Script
begin

text \<open>
  The encoding rules of signatures, public keys, hash types and pushes of \<open>src/script.cpp\<close>, in the
  two versions that the two interpreters use. A call of \<open>error\<close> logs and returns false.
\<close>

section \<open>Booleans\<close>

fun CastToBool :: "valtype \<Rightarrow> bool" where
  "CastToBool [] = False"
| "CastToBool (b # vch) =
     (if b \<noteq> 0 then \<not> (vch = [] \<and> b = 0x80) else CastToBool vch)"

definition vchFalse :: valtype where "vchFalse = []"

definition vchTrue :: valtype where "vchTrue = [1]"

definition MakeSameSize :: "valtype \<Rightarrow> valtype \<Rightarrow> valtype \<times> valtype" where
  "MakeSameSize vch1 vch2 =
     (let vch1' = (if length vch1 < length vch2
                   then vch1 @ replicate (length vch2 - length vch1) 0 else vch1);
          vch2' = (if length vch2 < length vch1'
                   then vch2 @ replicate (length vch1' - length vch2) 0 else vch2)
      in (vch1', vch2'))"

section \<open>Public keys and signatures\<close>

definition IsCompressedOrUncompressedPubKey :: "valtype \<Rightarrow> bool" where
  "IsCompressedOrUncompressedPubKey vchPubKey =
     (if length vchPubKey < 33 then False
      else if vchPubKey ! 0 = 0x04 then length vchPubKey = 65
      else if vchPubKey ! 0 = 0x02 \<or> vchPubKey ! 0 = 0x03 then length vchPubKey = 33
      else False)"

definition IsDERSignature :: "valtype \<Rightarrow> bool \<Rightarrow> bool" where
  "IsDERSignature vchSig haveHashType =
     (if length vchSig < 9 then False
      else if length vchSig > 73 then False
      else if vchSig ! 0 \<noteq> 0x30 then False
      else if unat (vchSig ! 1) \<noteq> length vchSig - (if haveHashType then 3 else 2) then False
      else
        let nLenR = unat (vchSig ! 3) in
        if 5 + nLenR \<ge> length vchSig then False
        else
          let nLenS = unat (vchSig ! (5 + nLenR)) in
          if nLenR + nLenS + (if haveHashType then 7 else 6) \<noteq> length vchSig then False
          else
            let R = (\<lambda>k. vchSig ! (4 + k)) in
            if vchSig ! 2 \<noteq> 0x02 then False
            else if nLenR = 0 then False
            else if R 0 AND 0x80 \<noteq> 0 then False
            else if nLenR > 1 \<and> R 0 = 0x00 \<and> \<not> (R 1 AND 0x80 \<noteq> 0) then False
            else
              let S = (\<lambda>k. vchSig ! (6 + nLenR + k)) in
              if vchSig ! (4 + nLenR) \<noteq> 0x02 then False
              else if nLenS = 0 then False
              else if S 0 AND 0x80 \<noteq> 0 then False
              else if nLenS > 1 \<and> S 0 = 0x00 \<and> \<not> (S 1 AND 0x80 \<noteq> 0) then False
              else True)"

definition IsDefinedHashtypeSignature :: "valtype \<Rightarrow> bool" where
  "IsDefinedHashtypeSignature vchSig =
     (if length vchSig = 0 then False
      else
        let nHashType = vchSig ! (length vchSig - 1) AND NOT 0x80
        in \<not> (nHashType < 1 \<or> nHashType > 3))"

subsection \<open>As the older interpreter checks them\<close>

definition IsLowDERSignature_old :: "valtype \<Rightarrow> bool" where
  "IsLowDERSignature_old vchSig = IsDERSignature vchSig True"

definition CheckSignatureEncoding_old :: "valtype \<Rightarrow> flags \<Rightarrow> bool" where
  "CheckSignatureEncoding_old vchSig flags =
     (if flag_set flags SCRIPT_VERIFY_ALLOW_EMPTY_SIG \<and> length vchSig = 0 then True
      else if \<not> IsLowDERSignature_old vchSig then False
      else if \<not> flag_set flags SCRIPT_VERIFY_FIX_HASHTYPE \<and> \<not> IsDefinedHashtypeSignature vchSig
      then False
      else True)"

definition CheckPubKeyEncoding_old :: "valtype \<Rightarrow> bool" where
  "CheckPubKeyEncoding_old vchSig = IsCompressedOrUncompressedPubKey vchSig"

subsection \<open>As the newer interpreter checks them\<close>

text \<open>
  \<open>CheckLowS\<close> is \<open>CPubKey::CheckLowS\<close>, an argument. The result is the error that is set, or \<open>None\<close>;
  \<open>IsLowDERSignature\<close> sets no error when \<open>CheckLowS\<close> fails, so what the caller then leaves in
  \<open>serror\<close> is the value it had, \<open>SCRIPT_ERR_UNKNOWN_ERROR\<close>.
\<close>

definition IsLowDERSignature :: "(valtype \<Rightarrow> bool) \<Rightarrow> valtype \<Rightarrow> ScriptError option" where
  "IsLowDERSignature CheckLowS vchSig =
     (if \<not> IsDERSignature vchSig True then Some SCRIPT_ERR_SIG_DER
      else
        let vchSigCopy = take (length vchSig - 1) vchSig
        in if CheckLowS vchSigCopy then None else Some SCRIPT_ERR_UNKNOWN_ERROR)"

definition CheckSignatureEncoding ::
  "(valtype \<Rightarrow> bool) \<Rightarrow> valtype \<Rightarrow> flags \<Rightarrow> ScriptError option" where
  "CheckSignatureEncoding CheckLowS vchSig flags =
     (if flag_set flags (SCRIPT_VERIFY_DERSIG OR SCRIPT_VERIFY_LOW_S OR SCRIPT_VERIFY_STRICTENC) \<and>
         \<not> IsDERSignature vchSig True
      then Some SCRIPT_ERR_SIG_DER
      else if flag_set flags SCRIPT_VERIFY_LOW_S \<and> IsLowDERSignature CheckLowS vchSig \<noteq> None
      then IsLowDERSignature CheckLowS vchSig
      else if flag_set flags SCRIPT_VERIFY_STRICTENC \<and> \<not> IsDefinedHashtypeSignature vchSig
      then Some SCRIPT_ERR_SIG_HASHTYPE
      else None)"

definition CheckPubKeyEncoding :: "valtype \<Rightarrow> flags \<Rightarrow> ScriptError option" where
  "CheckPubKeyEncoding vchSig flags =
     (if flag_set flags SCRIPT_VERIFY_STRICTENC \<and> \<not> IsCompressedOrUncompressedPubKey vchSig
      then Some SCRIPT_ERR_PUBKEYTYPE else None)"

definition CheckMinimalPush :: "valtype \<Rightarrow> opcodetype \<Rightarrow> bool" where
  "CheckMinimalPush data opcode =
     (if length data = 0 then opcode = OP_0
      else if length data = 1 \<and> data ! 0 \<ge> 1 \<and> data ! 0 \<le> 16
      then opcode = OP_1 + (data ! 0 - 1)
      else if length data = 1 \<and> data ! 0 = 0x81 then opcode = OP_1NEGATE
      else if length data \<le> 75 then unat opcode = length data
      else if length data \<le> 255 then opcode = OP_PUSHDATA1
      else if length data \<le> 65535 then opcode = OP_PUSHDATA2
      else True)"

section \<open>Specifications\<close>

text \<open>A DER integer that is not negative and not padded, and the signature made of two of them.\<close>

definition der_int :: "byte list \<Rightarrow> bool" where
  "der_int x \<longleftrightarrow>
     x \<noteq> [] \<and> unat (hd x) < 128 \<and> (1 < length x \<longrightarrow> hd x = 0 \<longrightarrow> 128 \<le> unat (x ! 1))"

definition der_sig :: "byte list \<Rightarrow> byte list \<Rightarrow> byte list \<Rightarrow> byte list" where
  "der_sig r s rest =
     [0x30, of_nat (length r + length s + 4), 0x02, of_nat (length r)] @ r @
     [0x02, of_nat (length s)] @ s @ rest"

lemma nth_der_sig:
  "der_sig r s rest ! 0 = 0x30"
  "der_sig r s rest ! 1 = of_nat (length r + length s + 4)"
  "der_sig r s rest ! 2 = 0x02"
  "der_sig r s rest ! 3 = of_nat (length r)"
  "der_sig r s rest ! (4 + length r) = 0x02"
  "der_sig r s rest ! (5 + length r) = of_nat (length s)"
  by (simp_all add: der_sig_def nth_append numeral_eq_Suc)

lemma nth_der_sig_r: "k < length r \<Longrightarrow> der_sig r s rest ! (4 + k) = r ! k"
  by (simp add: der_sig_def nth_append numeral_eq_Suc)

lemma nth_der_sig_s: "k < length s \<Longrightarrow> der_sig r s rest ! (6 + length r + k) = s ! k"
  by (simp add: der_sig_def nth_append numeral_eq_Suc)

lemma length_der_sig: "length (der_sig r s rest) = 6 + length r + length s + length rest"
  by (simp add: der_sig_def)

lemma der_sig_IsDER:
  assumes "der_int r" and "der_int s" and h: "length rest = (if h then 1 else 0)"
    and max: "length (der_sig r s rest) \<le> 73" and min: "9 \<le> length (der_sig r s rest)"
  shows "IsDERSignature (der_sig r s rest) h"
proof -
  have u: "unat (of_nat n :: byte) = n" if "n < 256" for n using that by simp
  have len: "length r + length s + 4 < 256" "length r < 256" "length s < 256"
    using max by (simp_all add: length_der_sig)
  have r: "r \<noteq> []" and s: "s \<noteq> []" using assms by (simp_all add: der_int_def)
  have r0: "der_sig r s rest ! 4 = r ! 0" and s0: "der_sig r s rest ! (6 + length r) = s ! 0"
    using nth_der_sig_r [of 0 r s rest] nth_der_sig_s [of 0 s r rest] r s by simp_all
  have r1: "1 < length r \<Longrightarrow> der_sig r s rest ! (4 + 1) = r ! 1"
    and s1: "1 < length s \<Longrightarrow> der_sig r s rest ! (6 + length r + 1) = s ! 1"
    by (rule nth_der_sig_r, assumption) (rule nth_der_sig_s, assumption)
  have ri: "r ! 0 AND 0x80 = 0" "1 < length r \<Longrightarrow> r ! 0 = 0 \<Longrightarrow> r ! 1 AND 0x80 \<noteq> 0"
    and si: "s ! 0 AND 0x80 = 0" "1 < length s \<Longrightarrow> s ! 0 = 0 \<Longrightarrow> s ! 1 AND 0x80 \<noteq> 0"
    using assms(1,2) r s by (auto simp: der_int_def byte_and_80 hd_conv_nth)
  have l3: "length (der_sig r s rest) - (if h then 3 else 2) = length r + length s + 4"
    and l7: "length r + length s + (if h then 7 else 6) = length (der_sig r s rest)"
    and l5: "\<not> 5 + length r \<ge> length (der_sig r s rest)"
    using h s by (simp_all add: length_der_sig split: if_splits)
  show ?thesis
    unfolding IsDERSignature_def Let_def nth_der_sig u [OF len(1)] u [OF len(2)] u [OF len(3)] l3 l7
    using max min l5 r s ri si r1 s1 by (auto simp: r0 s0)
qed

lemma IsDER_der_sig:
  assumes "IsDERSignature sig h"
  shows "\<exists>r s rest. sig = der_sig r s rest \<and> der_int r \<and> der_int s \<and>
    length rest = (if h then 1 else 0)"
proof -
  let ?lr = "unat (sig ! 3)"
  let ?ls = "unat (sig ! (5 + ?lr))"
  let ?r = "take ?lr (drop 4 sig)" and ?s = "take ?ls (drop (6 + ?lr) sig)"
    and ?rest = "drop (6 + ?lr + ?ls) sig"
  have min: "9 \<le> length sig" and c0: "sig ! 0 = 0x30" and c2: "sig ! 2 = 0x02"
    and c1: "unat (sig ! 1) = length sig - (if h then 3 else 2)"
    and tot: "?lr + ?ls + (if h then 7 else 6) = length sig"
    and c4: "sig ! (4 + ?lr) = 0x02" and r0: "0 < ?lr" and s0: "0 < ?ls"
    and ri: "sig ! (4 + 0) AND 0x80 = 0"
      "\<not> (?lr > 1 \<and> sig ! (4 + 0) = 0 \<and> \<not> (sig ! (4 + 1) AND 0x80 \<noteq> 0))"
    and si: "sig ! (6 + ?lr + 0) AND 0x80 = 0"
      "\<not> (?ls > 1 \<and> sig ! (6 + ?lr + 0) = 0 \<and> \<not> (sig ! (6 + ?lr + 1) AND 0x80 \<noteq> 0))"
    using assms unfolding IsDERSignature_def Let_def by (auto split: if_splits)
  have lens: "length ?r = ?lr" "length ?s = ?ls" "length ?rest = (if h then 1 else 0)"
    using tot by (auto split: if_splits)
  have "?r \<noteq> []" "?s \<noteq> []" using lens r0 s0 by (auto simp del: length_take length_drop)
  moreover have "hd ?r = sig ! 4" "hd ?s = sig ! (6 + ?lr)"
    using r0 s0 tot min by (simp_all add: hd_conv_nth split: if_splits)
  moreover have "1 < ?lr \<Longrightarrow> ?r ! 1 = sig ! 5" "1 < ?ls \<Longrightarrow> ?s ! 1 = sig ! (6 + ?lr + 1)"
    using tot by (simp_all split: if_splits)
  ultimately have "der_int ?r" "der_int ?s"
    using ri si lens unfolding der_int_def by (auto simp: byte_and_80)
  moreover have "sig = der_sig ?r ?s ?rest"
  proof -
    have four: "sig = [sig ! 0, sig ! 1, sig ! 2, sig ! 3] @ drop 4 sig"
    proof -
      have "take 4 sig = map ((!) sig) [0..<4]"
        using min by (intro nth_equalityI) simp_all
      then have "take 4 sig = [sig ! 0, sig ! 1, sig ! 2, sig ! 3]"
        by (simp add: upt_rec numeral_2_eq_2 numeral_3_eq_3)
      then show ?thesis by (metis append_take_drop_id)
    qed
    have "drop 4 sig = ?r @ drop (4 + ?lr) sig"
      using append_take_drop_id [of ?lr "drop 4 sig", symmetric]
      unfolding drop_drop add.commute [of ?lr 4] .
    also have "drop (4 + ?lr) sig = sig ! (4 + ?lr) # sig ! (5 + ?lr) # drop (6 + ?lr) sig"
    proof -
      have e: "Suc (4 + ?lr) = 5 + ?lr" "Suc (5 + ?lr) = 6 + ?lr" by simp_all
      have "drop (4 + ?lr) sig = sig ! (4 + ?lr) # drop (Suc (4 + ?lr)) sig"
        using tot by (intro Cons_nth_drop_Suc [symmetric]) (simp split: if_splits)
      also have "drop (Suc (4 + ?lr)) sig = sig ! (Suc (4 + ?lr)) # drop (Suc (Suc (4 + ?lr))) sig"
        using tot by (intro Cons_nth_drop_Suc [symmetric]) (simp split: if_splits)
      finally show ?thesis unfolding e .
    qed
    also have "drop (6 + ?lr) sig = ?s @ ?rest"
      using append_take_drop_id [of ?ls "drop (6 + ?lr) sig", symmetric]
      unfolding drop_drop add.commute [of ?ls "6 + ?lr"] .
    finally have "drop 4 sig = ?r @ [0x02, sig ! (5 + ?lr)] @ ?s @ ?rest" using c4 by simp
    moreover have "sig ! 1 = of_nat (length ?r + length ?s + 4)"
    proof -
      have "unat (sig ! 1) = length ?r + length ?s + 4"
        unfolding c1 lens using tot by (auto split: if_splits)
      then have "(of_nat (unat (sig ! 1)) :: byte) = of_nat (length ?r + length ?s + 4)" by (rule arg_cong)
      then show ?thesis unfolding of_nat_unat by simp
    qed
    moreover have "sig ! 3 = of_nat (length ?r)" "sig ! (5 + ?lr) = of_nat (length ?s)"
      unfolding lens by simp_all
    ultimately show ?thesis
      using four c0 c2 unfolding der_sig_def by simp
  qed
  ultimately show ?thesis using lens by blast
qed

lemma IsDERSignature_iff:
  "IsDERSignature sig h \<longleftrightarrow> 9 \<le> length sig \<and> length sig \<le> 73 \<and>
     (\<exists>r s rest. sig = der_sig r s rest \<and> der_int r \<and> der_int s \<and> length rest = (if h then 1 else 0))"
proof -
  have "IsDERSignature sig h \<Longrightarrow> 9 \<le> length sig \<and> length sig \<le> 73"
    unfolding IsDERSignature_def by (simp split: if_splits)
  then show ?thesis using der_sig_IsDER IsDER_der_sig by meson
qed

text \<open>A byte string is true unless it is a number that is zero, of either sign and any length.\<close>

lemma smdec_eq_0_snoc: "smdec (xs @ [b]) = 0 \<longleftrightarrow> le_nat xs = 0 \<and> unat b mod 128 = 0"
proof -
  have "smdec (xs @ [b]) = 0 \<longleftrightarrow> nat \<bar>smdec (xs @ [b])\<bar> = 0" by simp
  also have "\<dots> \<longleftrightarrow> le_nat xs = 0 \<and> unat b mod 128 = 0"
    unfolding nat_abs_smdec_snoc by (simp del: mod_eq_0_iff_dvd)
  finally show ?thesis .
qed

lemma CastToBool_smdec: "CastToBool v \<longleftrightarrow> smdec v \<noteq> 0"
proof (induction v)
  case Nil
  then show ?case by simp
next
  case (Cons b v)
  show ?case
  proof (cases v rule: rev_cases)
    case Nil
    have "unat b mod 128 = 0 \<longleftrightarrow> unat b = 0 \<or> unat b = 128"
    proof
      assume "unat b mod 128 = 0"
      then obtain k where k: "unat b = 128 * k" by auto
      with unat_byte_less [of b] have "k < 2" by linarith
      then have "k = 0 \<or> k = 1" by linarith
      with k show "unat b = 0 \<or> unat b = 128" by auto
    qed auto
    then have "smdec ([] @ [b]) = 0 \<longleftrightarrow> unat b = 0 \<or> unat b = 128"
      unfolding smdec_eq_0_snoc by (simp del: mod_eq_0_iff_dvd)
    moreover have "b = 0x80 \<longleftrightarrow> unat b = 128"
      by (auto intro: unsigned_word_eqI [where 'a = nat])
    ultimately show ?thesis using Nil by (simp add: unat_eq_0)
  next
    case (snoc xs c)
    have "smdec ((b # xs) @ [c]) = 0 \<longleftrightarrow> b = 0 \<and> smdec (xs @ [c]) = 0"
      unfolding smdec_eq_0_snoc by (auto simp: unat_eq_0)
    then show ?thesis using Cons snoc by simp
  qed
qed

end
