(* ===== verification/Regex.thy ===== *)
theory Regex
  imports Main "HOL-Library.Sublist"
begin

text \<open>
  The part of ECMAScript's regular expressions that the scripts under \<open>src/src/qt/res/js\<close> use, as
  the standard specifies it: a backtracking matcher, with ordered alternatives, greedy and lazy
  counted repetition (captures are reset at each round and a round past the minimum must not be
  empty), capture groups, back references, look-ahead and the line anchors. The matcher returns the
  list of all ways to match in the order in which backtracking meets them; a program sees the first.

  A string is the list of its code units. The model has the code units 0 to 255, one \<open>char\<close> each.
  A pattern is a value of the type \<open>regex\<close>; the constants that the other theories define for the
  literals of the source are written with the same structure as the literal.
\<close>

section \<open>Patterns\<close>

datatype regex =
    Emp
  | Chs "char \<Rightarrow> bool"
  | Sq regex regex
  | Al regex regex
  | Rp nat "nat option" bool regex
  | Gp nat regex
  | Bk nat
  | La regex
  | Bol bool
  | Eol bool

text \<open>
  \<open>Rp mn mx greedy r\<close> is \<open>r{mn,mx}\<close>, lazy when \<open>greedy\<close> is false. \<open>Bol True\<close> and \<open>Eol True\<close> are the
  anchors under the flag \<open>m\<close>. \<open>La\<close> is the positive look-ahead.
\<close>

primrec sq :: "regex list \<Rightarrow> regex" where
  "sq [] = Emp"
| "sq (r # rs) = (case rs of [] \<Rightarrow> r | _ \<Rightarrow> Sq r (sq rs))"

fun al :: "regex list \<Rightarrow> regex" where
  "al [] = Chs (\<lambda>_. False)"
| "al [r] = r"
| "al (r # rs) = Al r (al rs)"

abbreviation star :: "regex \<Rightarrow> regex" where "star \<equiv> Rp 0 None True"
abbreviation starl :: "regex \<Rightarrow> regex" where "starl \<equiv> Rp 0 None False"
abbreviation plus1 :: "regex \<Rightarrow> regex" where "plus1 \<equiv> Rp 1 None True"
abbreviation plusl :: "regex \<Rightarrow> regex" where "plusl \<equiv> Rp 1 None False"
abbreviation opt :: "regex \<Rightarrow> regex" where "opt \<equiv> Rp 0 (Some 1) True"
abbreviation chr :: "char \<Rightarrow> regex" where "chr c \<equiv> Chs (\<lambda>x. x = c)"
abbreviation lit :: "string \<Rightarrow> regex" where "lit s \<equiv> sq (map (\<lambda>c. Chs (\<lambda>x. x = c)) s)"
abbreviation oneof :: "string \<Rightarrow> regex" where "oneof s \<equiv> Chs (\<lambda>x. x \<in> set s)"
abbreviation noneof :: "string \<Rightarrow> regex" where "noneof s \<equiv> Chs (\<lambda>x. x \<notin> set s)"

text \<open>The character classes \<open>\s\<close>, \<open>\d\<close>, \<open>\w\<close>, \<open>.\<close> and the line terminators.\<close>

definition is_eol :: "char \<Rightarrow> bool" where
  "is_eol c \<longleftrightarrow> c = CHR 0x0A \<or> c = CHR 0x0D"

definition is_space :: "char \<Rightarrow> bool" where
  "is_space c \<longleftrightarrow> c \<in> {CHR 0x09, CHR 0x0A, CHR 0x0B, CHR 0x0C, CHR 0x0D, CHR 0x20, CHR 0xA0}"

definition is_digit :: "char \<Rightarrow> bool" where
  "is_digit c \<longleftrightarrow> (of_char c :: nat) \<in> {48..57}"

definition is_upper :: "char \<Rightarrow> bool" where
  "is_upper c \<longleftrightarrow> (of_char c :: nat) \<in> {65..90}"

definition is_lower :: "char \<Rightarrow> bool" where
  "is_lower c \<longleftrightarrow> (of_char c :: nat) \<in> {97..122}"

definition is_word :: "char \<Rightarrow> bool" where
  "is_word c \<longleftrightarrow> is_digit c \<or> is_upper c \<or> is_lower c \<or> c = CHR 0x5F"

abbreviation dot :: regex where "dot \<equiv> Chs (\<lambda>c. \<not> is_eol c)"
abbreviation anych :: regex where "anych \<equiv> Chs (\<lambda>_. True)"
abbreviation sp :: regex where "sp \<equiv> Chs is_space"

section \<open>Matching\<close>

text \<open>
  The matcher's state: what lies before the position (nearest character first), what is left, and the
  captures, group 0 unused.
\<close>

record rst =
  prior :: string
  rest :: string
  caps :: "string option list"

primrec groups :: "regex \<Rightarrow> nat list" where
  "groups Emp = []"
| "groups (Chs p) = []"
| "groups (Sq r s) = groups r @ groups s"
| "groups (Al r s) = groups r @ groups s"
| "groups (Rp mn mx g r) = groups r"
| "groups (Gp n r) = n # groups r"
| "groups (Bk n) = []"
| "groups (La r) = groups r"
| "groups (Bol m) = []"
| "groups (Eol m) = []"

definition reset_caps :: "nat list \<Rightarrow> rst \<Rightarrow> rst" where
  "reset_caps gs s = s\<lparr>caps := fold (\<lambda>n cs. cs[n := None]) gs (caps s)\<rparr>"

function rep ::
  "(rst \<Rightarrow> rst list) \<Rightarrow> nat list \<Rightarrow> nat \<Rightarrow> nat option \<Rightarrow> bool \<Rightarrow> rst \<Rightarrow> rst list" where
  "rep m gs mn mx gr s =
     (if mx = Some 0 then [s]
      else let more = concat (map (\<lambda>s'. if mn = 0 \<and> \<not> length (rest s') < length (rest s) then []
                                   else rep m gs (mn - 1) (map_option (\<lambda>k. k - 1) mx) gr s')
                                  (m (reset_caps gs s)))
           in if mn \<noteq> 0 then more else if gr then more @ [s] else s # more)"
  by pat_completeness auto
termination
  by (relation "measures [\<lambda>(m, gs, mn, mx, gr, s). mn, \<lambda>(m, gs, mn, mx, gr, s). length (rest s)]") auto

declare rep.simps [simp del]

definition advance :: "nat \<Rightarrow> rst \<Rightarrow> rst" where
  "advance k s = s\<lparr>prior := rev (take k (rest s)) @ prior s, rest := drop k (rest s)\<rparr>"

definition eaten :: "rst \<Rightarrow> rst \<Rightarrow> string" where
  "eaten s s' = rev (take (length (prior s') - length (prior s)) (prior s'))"

primrec mtch :: "regex \<Rightarrow> rst \<Rightarrow> rst list" where
  "mtch Emp s = [s]"
| "mtch (Chs p) s = (case rest s of [] \<Rightarrow> [] | c # t \<Rightarrow> if p c then [advance 1 s] else [])"
| "mtch (Sq q r) s = concat (map (mtch r) (mtch q s))"
| "mtch (Al q r) s = mtch q s @ mtch r s"
| "mtch (Rp mn mx gr r) s = rep (mtch r) (groups r) mn mx gr s"
| "mtch (Gp n r) s = map (\<lambda>s'. s'\<lparr>caps := (caps s')[n := Some (eaten s s')]\<rparr>) (mtch r s)"
| "mtch (Bk n) s = (case caps s ! n of None \<Rightarrow> [s]
     | Some w \<Rightarrow> if take (length w) (rest s) = w then [advance (length w) s] else [])"
| "mtch (La r) s = (case mtch r s of [] \<Rightarrow> [] | s' # _ \<Rightarrow> [s\<lparr>caps := caps s'\<rparr>])"
| "mtch (Bol ml) s =
     (if (case prior s of [] \<Rightarrow> True | c # _ \<Rightarrow> ml \<and> is_eol c) then [s] else [])"
| "mtch (Eol ml) s =
     (if (case rest s of [] \<Rightarrow> True | c # _ \<Rightarrow> ml \<and> is_eol c) then [s] else [])"

text \<open>The first match at or after the position; both ends of it.\<close>

function search :: "regex \<Rightarrow> rst \<Rightarrow> (rst \<times> rst) option" where
  "search r s = (case mtch r s of s' # _ \<Rightarrow> Some (s, s')
     | [] \<Rightarrow> if rest s = [] then None else search r (advance 1 s))"
  by pat_completeness auto
termination
  by (relation "measure (\<lambda>(r, s). length (rest s))") (auto simp: advance_def)

declare search.simps [simp del]

subsection \<open>A match eats a piece of the rest\<close>

definition follows :: "rst \<Rightarrow> string \<Rightarrow> rst \<Rightarrow> bool" where
  "follows s w s' \<longleftrightarrow> rest s = w @ rest s' \<and> prior s' = rev w @ prior s \<and>
     length (caps s') = length (caps s)"

lemma follows_refl [simp]: "follows s [] s"
  by (simp add: follows_def)

lemma follows_caps [simp]:
  "length cs = length (caps s) \<Longrightarrow> follows s w (s\<lparr>caps := cs\<rparr>) \<longleftrightarrow> w = []"
  by (auto simp: follows_def)

lemma follows_trans: "follows s w t \<Longrightarrow> follows t v u \<Longrightarrow> follows s (w @ v) u"
  by (simp add: follows_def)

lemma follows_advance [simp]: "follows s (take k (rest s)) (advance k s)"
  by (simp add: follows_def advance_def)

lemma follows_set_caps:
  "length cs = length (caps s') \<Longrightarrow> follows s w (s'\<lparr>caps := cs\<rparr>) \<longleftrightarrow> follows s w s'"
  by (auto simp: follows_def)

lemma eaten_follows: "follows s w s' \<Longrightarrow> eaten s s' = w"
  by (simp add: follows_def eaten_def)

lemma length_reset_caps [simp]: "length (caps (reset_caps gs s)) = length (caps s)"
proof -
  have "length (fold (\<lambda>n cs. cs[n := None]) gs cs) = length cs" for cs :: "'a option list"
    by (induction gs arbitrary: cs) simp_all
  then show ?thesis by (simp add: reset_caps_def)
qed

lemma reset_caps_simps [simp]:
  "rest (reset_caps gs s) = rest s" "prior (reset_caps gs s) = prior s"
  by (simp_all add: reset_caps_def)

lemma follows_reset_caps [simp]: "follows (reset_caps gs s) w s' \<longleftrightarrow> follows s w s'"
  by (simp add: follows_def)

lemma follows_length: "follows s w s' \<Longrightarrow> length (rest s) = length w + length (rest s')"
  by (simp add: follows_def)

text \<open>The smallest number of characters a pattern eats.\<close>

primrec minlen :: "regex \<Rightarrow> nat" where
  "minlen Emp = 0"
| "minlen (Chs p) = 1"
| "minlen (Sq r s) = minlen r + minlen s"
| "minlen (Al r s) = min (minlen r) (minlen s)"
| "minlen (Rp mn mx g r) = (case mx of None \<Rightarrow> mn | Some k \<Rightarrow> min mn k) * minlen r"
| "minlen (Gp n r) = minlen r"
| "minlen (Bk n) = 0"
| "minlen (La r) = 0"
| "minlen (Bol m) = 0"
| "minlen (Eol m) = 0"

abbreviation rounds :: "nat \<Rightarrow> nat option \<Rightarrow> nat" where
  "rounds mn mx \<equiv> (case mx of None \<Rightarrow> mn | Some k \<Rightarrow> min mn k)"

lemma rounds_Suc: "rounds mn mx * l \<le> rounds (mn - 1) (map_option (\<lambda>k. k - 1) mx) * l + (l :: nat)"
proof -
  have "rounds mn mx \<le> Suc (rounds (mn - 1) (map_option (\<lambda>k. k - 1) mx))"
    by (auto split: option.split)
  then show ?thesis by (metis add.commute mult_Suc mult_le_mono1)
qed

lemma rep_follows:
  assumes "\<And>t t'. t' \<in> set (m t) \<Longrightarrow> \<exists>w. follows t w t' \<and> l \<le> length w"
    and "s' \<in> set (rep m gs mn mx gr s)"
  shows "\<exists>w. follows s w s' \<and> rounds mn mx * l \<le> length w"
  using assms
proof (induction m gs mn mx gr s rule: rep.induct)
  case (1 m gs mn mx gr s)
  consider (stop) "s' = s" "mx = Some 0 \<or> mn = 0" | (more) t where "mx \<noteq> Some 0"
      "t \<in> set (m (reset_caps gs s))" "\<not> (mn = 0 \<and> \<not> length (rest t) < length (rest s))"
      "s' \<in> set (rep m gs (mn - 1) (map_option (\<lambda>k. k - 1) mx) gr t)"
    using "1.prems"(2) by (subst (asm) rep.simps) (auto simp: Let_def split: if_splits)
  then show ?case
  proof cases
    case stop
    then show ?thesis by (intro exI [of _ "[]"]) (auto split: option.split)
  next
    case more
    obtain v where v: "follows t v s'"
      and lv: "rounds (mn - 1) (map_option (\<lambda>k. k - 1) mx) * l \<le> length v"
      using "1.IH" [OF more(1-3) "1.prems"(1) more(4)] by auto
    obtain w where w: "follows s w t" and lw: "l \<le> length w"
      using "1.prems"(1) [OF more(2)] by auto
    show ?thesis
      using follows_trans [OF w v] lv lw rounds_Suc [of mn mx l]
      by (intro exI [of _ "w @ v"]) (auto simp del: option.case_eq_if)
  qed
qed

lemma mtch_follows: "s' \<in> set (mtch r s) \<Longrightarrow> \<exists>w. follows s w s' \<and> minlen r \<le> length w"
proof (induction r arbitrary: s s')
  case (Sq q r)
  then obtain t where t: "t \<in> set (mtch q s)" and s': "s' \<in> set (mtch r t)" by auto
  obtain v where v: "follows s v t" "minlen q \<le> length v" using Sq.IH(1) [OF t] by auto
  obtain w where w: "follows t w s'" "minlen r \<le> length w" using Sq.IH(2) [OF s'] by auto
  show ?case using follows_trans [OF v(1) w(1)] v(2) w(2) by (intro exI [of _ "v @ w"]) simp
next
  case (Al q r)
  then show ?case by (fastforce simp: min_le_iff_disj)
next
  case (Rp mn mx g r)
  then show ?case using rep_follows [of "mtch r" "minlen r"] by simp
next
  case (Gp n r)
  then obtain t where "t \<in> set (mtch r s)" "s' = t\<lparr>caps := (caps t)[n := Some (eaten s t)]\<rparr>" by auto
  then show ?case using Gp.IH by (fastforce simp: follows_set_caps)
next
  case (Chs p)
  then show ?case
    by (intro exI [of _ "take 1 (rest s)"]) (cases "rest s"; auto simp: follows_def advance_def split: if_splits)
next
  case (Bk n)
  then have "s' = s \<or> (\<exists>k. s' = advance k s)"
    by (auto split: option.splits if_splits)
  then show ?case by (auto intro: follows_advance follows_refl)
next
  case (La r)
  then obtain t where "t \<in> set (mtch r s)" "s' = s\<lparr>caps := caps t\<rparr>"
    by (cases "mtch r s") auto
  then show ?case using La.IH by (fastforce simp: follows_def)
qed (auto intro!: exI [of _ "[]"] split: if_splits)

text \<open>A match leaves the groups of other parts of the pattern alone.\<close>

lemma nth_reset_caps: "n \<notin> set gs \<Longrightarrow> caps (reset_caps gs s) ! n = caps s ! n"
proof -
  have "n \<notin> set gs \<Longrightarrow> fold (\<lambda>n cs. cs[n := None]) gs cs ! n = cs ! n" for cs :: "string option list"
    by (induction gs arbitrary: cs) auto
  then show "n \<notin> set gs \<Longrightarrow> caps (reset_caps gs s) ! n = caps s ! n" by (simp add: reset_caps_def)
qed

lemma rep_caps:
  assumes "\<And>t t'. t' \<in> set (m t) \<Longrightarrow> caps t' ! n = caps t ! n" and "n \<notin> set gs"
    and "s' \<in> set (rep m gs mn mx gr s)"
  shows "caps s' ! n = caps s ! n"
  using assms
proof (induction m gs mn mx gr s rule: rep.induct)
  case (1 m gs mn mx gr s)
  consider (stop) "s' = s" | (more) t where "mx \<noteq> Some 0"
      "t \<in> set (m (reset_caps gs s))" "\<not> (mn = 0 \<and> \<not> length (rest t) < length (rest s))"
      "s' \<in> set (rep m gs (mn - 1) (map_option (\<lambda>k. k - 1) mx) gr t)"
    using "1.prems"(3) by (subst (asm) rep.simps) (auto simp: Let_def split: if_splits)
  then show ?case
  proof cases
    case more
    have "caps s' ! n = caps t ! n" using "1.IH" [OF more(1-3) "1.prems"(1,2) more(4)] by simp
    also have "\<dots> = caps s ! n" using "1.prems"(1) [OF more(2)] nth_reset_caps [OF "1.prems"(2)] by simp
    finally show ?thesis .
  qed simp
qed

lemma mtch_caps: "n \<notin> set (groups r) \<Longrightarrow> s' \<in> set (mtch r s) \<Longrightarrow> caps s' ! n = caps s ! n"
proof (induction r arbitrary: s s')
  case (Sq q r)
  then obtain t where t: "t \<in> set (mtch q s)" and s': "s' \<in> set (mtch r t)" by auto
  show ?case using Sq.IH(1) [OF _ t] Sq.IH(2) [OF _ s'] Sq.prems(1) by simp
next
  case (Rp mn mx g r)
  then show ?case using rep_caps [of "mtch r" n "groups r" s' mn mx g s] by simp
next
  case (Bk k)
  then show ?case by (auto simp: advance_def split: option.splits if_splits)
next
  case (Chs p)
  then show ?case by (cases "rest s") (auto simp: advance_def split: if_splits)
next
  case (La r)
  then show ?case by (cases "mtch r s") auto
next
  case (Gp k r)
  then show ?case by auto
qed (auto split: if_splits)

text \<open>A group captures what its pattern eats.\<close>

lemma mtch_group:
  assumes "e \<in> set (mtch (Gp n r) s)" and "n < length (caps s)"
  shows "\<exists>t w. t \<in> set (mtch r s) \<and> follows s w t \<and> minlen r \<le> length w \<and>
    e = t\<lparr>caps := (caps t)[n := Some w]\<rparr> \<and> follows s w e \<and> caps e ! n = Some w"
proof -
  obtain t where t: "t \<in> set (mtch r s)" and e: "e = t\<lparr>caps := (caps t)[n := Some (eaten s t)]\<rparr>"
    using assms(1) by auto
  obtain w where w: "follows s w t" "minlen r \<le> length w" using mtch_follows [OF t] by blast
  show ?thesis using t e w assms(2)
    by (intro exI [of _ t] exI [of _ w]) (auto simp: eaten_follows [OF w(1)] follows_def)
qed

lemma mtch_SqE:
  assumes "u \<in> set (mtch (Sq q r) s)"
  obtains t where "t \<in> set (mtch q s)" and "u \<in> set (mtch r t)"
  using assms by auto

lemma mtch_GpE:
  assumes "e \<in> set (mtch (Gp n r) s)"
  obtains t where "t \<in> set (mtch r s)" and "rest e = rest t" and "prior e = prior t"
    and "e = t\<lparr>caps := (caps t)[n := Some (eaten s t)]\<rparr>"
  using assms by auto

lemma mtch_ChsE:
  assumes "u \<in> set (mtch (Chs p) s)"
  obtains c where "rest s = c # rest u" and "p c" and "prior u = c # prior s" and "caps u = caps s"
  using assms by (cases "rest s") (auto simp: advance_def split: if_splits)

lemma mtch_Bol_Sq: "u \<in> set (mtch (Sq (Bol m) r) s) \<Longrightarrow> u \<in> set (mtch r s)"
  by (cases "prior s") (auto split: if_splits)

lemma mtch_chr_Sq:
  "u \<in> set (mtch (Sq (chr c) r) t) \<Longrightarrow> \<exists>x. rest t = c # x \<and> u \<in> set (mtch r (advance 1 t))"
  by (cases "rest t") (auto split: if_splits)

lemma search_follows:
  "search r s = Some (a, e) \<Longrightarrow>
     \<exists>v w. follows s v a \<and> follows a w e \<and> minlen r \<le> length w \<and> caps a = caps s \<and> e \<in> set (mtch r a)"
proof (induction r s rule: search.induct)
  case (1 r s)
  show ?case
  proof (cases "mtch r s")
    case Nil
    with "1.prems" have "rest s \<noteq> []" "search r (advance 1 s) = Some (a, e)"
      by (auto simp: search.simps [of r s] split: if_splits)
    with "1.IH" [OF Nil] obtain v w where "follows (advance 1 s) v a" "follows a w e"
      "minlen r \<le> length w" "caps a = caps s" "e \<in> set (mtch r a)"
      by (auto simp: advance_def)
    then show ?thesis using follows_trans [OF follows_advance [of s 1]] by blast
  next
    case (Cons t ts)
    with "1.prems" have "a = s" "e = t" by (simp_all add: search.simps [of r s])
    moreover from Cons have "t \<in> set (mtch r s)" by simp
    ultimately show ?thesis using mtch_follows follows_refl by metis
  qed
qed

lemma search_shorter:
  assumes "search r s = Some (a, e)"
  shows "length (rest e) \<le> length (rest s)" and "eaten a e \<noteq> [] \<Longrightarrow> length (rest e) < length (rest s)"
  using search_follows [OF assms] by (auto simp: follows_length eaten_follows)

section \<open>The methods of strings and patterns\<close>

text \<open>
  What \<open>exec\<close> returns: the text before the match, the match itself, the captures (\<open>None\<close> for
  \<open>undefined\<close>) and the text after it. \<open>m_grp m n\<close> is \<open>m[n]\<close> for \<open>n > 0\<close>.
\<close>

record jmatch =
  m_pre :: string
  m_all :: string
  m_caps :: "string option list"
  m_post :: string

abbreviation m_grp :: "jmatch \<Rightarrow> nat \<Rightarrow> string option" where
  "m_grp m n \<equiv> m_caps m ! n"

text \<open>A group of the pattern that takes part in every match.\<close>

definition m_str :: "jmatch \<Rightarrow> nat \<Rightarrow> string" where
  "m_str m n = (case m_caps m ! n of None \<Rightarrow> [] | Some w \<Rightarrow> w)"

definition start :: "regex \<Rightarrow> string \<Rightarrow> string \<Rightarrow> rst" where
  "start r b s = \<lparr>prior = b, rest = s, caps = replicate (Suc (foldr max (groups r) 0)) None\<rparr>"

definition mk_match :: "rst \<times> rst \<Rightarrow> jmatch" where
  "mk_match p = (case p of (s, s') \<Rightarrow>
     \<lparr>m_pre = rev (prior s), m_all = eaten s s', m_caps = caps s', m_post = rest s'\<rparr>)"

definition exec_at :: "regex \<Rightarrow> string \<Rightarrow> string \<Rightarrow> jmatch option" where
  "exec_at r b s = map_option mk_match (search r (start r b s))"

abbreviation exec :: "regex \<Rightarrow> string \<Rightarrow> jmatch option" where
  "exec r s \<equiv> exec_at r [] s"

definition test :: "regex \<Rightarrow> string \<Rightarrow> bool" where
  "test r s \<longleftrightarrow> exec r s \<noteq> None"

text \<open>\<open>s.replace(r, f)\<close>, for a pattern without and with the flag \<open>g\<close>.\<close>

definition replace1 :: "regex \<Rightarrow> (jmatch \<Rightarrow> string) \<Rightarrow> string \<Rightarrow> string" where
  "replace1 r f s = (case exec r s of None \<Rightarrow> s | Some m \<Rightarrow> m_pre m @ f m @ m_post m)"

function replace_from :: "regex \<Rightarrow> (jmatch \<Rightarrow> string) \<Rightarrow> rst \<Rightarrow> string" where
  "replace_from r f s = (case search r s of
       None \<Rightarrow> rest s
     | Some (a, e) \<Rightarrow>
         let e' = e\<lparr>caps := caps s\<rparr> in
         eaten s a @ f (mk_match (a, e)) @
         (if eaten a e \<noteq> [] then replace_from r f e'
          else case rest e of [] \<Rightarrow> [] | c # _ \<Rightarrow> c # replace_from r f (advance 1 e')))"
  by pat_completeness auto
termination
  by (relation "measure (\<lambda>(r, f, s). length (rest s))")
    (auto simp: advance_def dest: search_shorter)

declare replace_from.simps [simp del]

definition replace_all :: "regex \<Rightarrow> (jmatch \<Rightarrow> string) \<Rightarrow> string \<Rightarrow> string" where
  "replace_all r f s = replace_from r f (start r [] s)"

text \<open>\<open>s.split(r)\<close> for a pattern without groups.\<close>

function split_from :: "regex \<Rightarrow> string \<Rightarrow> rst \<Rightarrow> string list" where
  "split_from r acc s = (case rest s of
       [] \<Rightarrow> [rev acc]
     | c # _ \<Rightarrow>
         (case mtch r s of
            [] \<Rightarrow> split_from r (c # acc) (advance 1 s)
          | e # _ \<Rightarrow>
              if eaten s e = [] \<and> acc = [] then split_from r [c] (advance 1 s)
              else rev acc # split_from r [] (e\<lparr>caps := caps s\<rparr>)))"
  by pat_completeness auto
termination
proof (relation "measures [\<lambda>(r, acc, s). length (rest s), \<lambda>(r, acc, s). length acc]", goal_cases)
  case (4 r acc s c cs e es)
  then have "e \<in> set (mtch r s)" by simp
  then obtain w where w: "follows s w e" using mtch_follows by blast
  then show ?case using 4 follows_length [OF w] by (cases w) (auto simp: eaten_follows [OF w])
qed (auto simp: advance_def)

declare split_from.simps [simp del]

definition split_re :: "regex \<Rightarrow> string \<Rightarrow> string list" where
  "split_re r s =
     (if s = [] then (if mtch r (start r [] s) \<noteq> [] then [] else [s])
      else split_from r [] (start r [] s))"

subsection \<open>Facts about matches\<close>

lemma mk_match_follows:
  assumes "follows s v a" and "follows a w e"
  shows "mk_match (a, e) =
    \<lparr>m_pre = rev (prior s) @ v, m_all = w, m_caps = caps e, m_post = rest e\<rparr>"
  using assms by (simp add: mk_match_def eaten_follows) (simp add: follows_def)

text \<open>A match cuts the string in three; it is at least as long as its pattern requires.\<close>

lemma exec_at_Some:
  assumes "exec_at r b s = Some m"
  shows "rev b @ s = m_pre m @ m_all m @ m_post m" and "minlen r \<le> length (m_all m)"
    and "length (m_post m) + length (m_all m) \<le> length s"
    and "length (m_caps m) = Suc (foldr max (groups r) 0)"
proof -
  obtain a e where ae: "search r (start r b s) = Some (a, e)" and m: "m = mk_match (a, e)"
    using assms by (auto simp: exec_at_def)
  from search_follows [OF ae] obtain v w where v: "follows (start r b s) v a" and w: "follows a w e"
    and l: "minlen r \<le> length w" by blast
  from v w have "s = v @ w @ rest e" and "length (caps e) = Suc (foldr max (groups r) 0)"
    by (simp_all add: follows_def start_def)
  then show "rev b @ s = m_pre m @ m_all m @ m_post m" "minlen r \<le> length (m_all m)"
    "length (m_post m) + length (m_all m) \<le> length s"
    "length (m_caps m) = Suc (foldr max (groups r) 0)"
    using l by (simp_all add: m mk_match_follows [OF v w]) (simp_all add: start_def)
qed

lemma exec_Some:
  assumes "exec r s = Some m"
  shows "s = m_pre m @ m_all m @ m_post m" and "minlen r \<le> length (m_all m)"
  using exec_at_Some [OF assms] by simp_all

text \<open>A pattern that starts with the anchor only matches at the start.\<close>

primrec anchored :: "regex \<Rightarrow> bool" where
  "anchored Emp = False"
| "anchored (Chs p) = False"
| "anchored (Sq r s) = anchored r"
| "anchored (Al r s) = (anchored r \<and> anchored s)"
| "anchored (Rp mn mx g r) = False"
| "anchored (Gp n r) = anchored r"
| "anchored (Bk n) = False"
| "anchored (La r) = False"
| "anchored (Bol m) = (\<not> m)"
| "anchored (Eol m) = False"

lemma anchored_mtch: "anchored r \<Longrightarrow> prior s \<noteq> [] \<Longrightarrow> mtch r s = []"
  by (induction r arbitrary: s) (auto split: list.split)

lemma anchored_search:
  "anchored r \<Longrightarrow> prior s \<noteq> [] \<Longrightarrow> search r s = None"
proof (induction r s rule: search.induct)
  case (1 r s)
  then have "mtch r s = []" by (simp add: anchored_mtch)
  then show ?case
    using "1.IH" "1.prems" by (subst search.simps) (auto simp: advance_def)
qed

lemma exec_anchored:
  assumes "anchored r" and "exec r s = Some m"
  shows "m_pre m = []" and "s = m_all m @ m_post m"
proof -
  have "search r (start r [] s) = (case mtch r (start r [] s) of
      s' # _ \<Rightarrow> Some (start r [] s, s') | [] \<Rightarrow> None)"
    by (subst search.simps)
      (auto simp: anchored_search [OF assms(1)] advance_def start_def split: list.splits)
  then have "m_pre m = []"
    using assms(2) by (auto simp: exec_at_def mk_match_def start_def split: list.splits)
  then show "m_pre m = []" "s = m_all m @ m_post m" using exec_Some(1) [OF assms(2)] by simp_all
qed

text \<open>A pattern that matches at the position is found there.\<close>

lemma exec_at_here:
  assumes "mtch r (start r b s) = e # es"
  shows "exec_at r b s = Some (mk_match (start r b s, e))"
  by (simp add: exec_at_def search.simps [of r "start r b s"] assms)

text \<open>A repeated class eats the characters of the class; in which order is left open here.\<close>

lemma advance_0 [simp]: "advance 0 s = s"
  by (simp add: advance_def)

lemma advance_advance: "advance j (advance k s) = advance (k + j) s"
  by (simp add: advance_def take_add) (simp add: add.commute)

lemma reset_no_caps [simp]: "reset_caps [] s = s"
  by (simp add: reset_caps_def)

definition run_ok :: "(char \<Rightarrow> bool) \<Rightarrow> nat \<Rightarrow> nat option \<Rightarrow> rst \<Rightarrow> nat \<Rightarrow> bool" where
  "run_ok p mn mx s k \<longleftrightarrow> k \<le> length (rest s) \<and> (\<forall>c \<in> set (take k (rest s)). p c) \<and>
     (mn \<le> k \<or> mx \<noteq> None \<and> the mx = k) \<and> (\<forall>x. mx = Some x \<longrightarrow> k \<le> x)"

lemma class_rep_iff:
  "s' \<in> set (rep (mtch (Chs p)) [] mn mx gr s) \<longleftrightarrow> (\<exists>k. s' = advance k s \<and> run_ok p mn mx s k)"
proof (induction "mtch (Chs p)" "[] :: nat list" mn mx gr s rule: rep.induct)
  case (1 mn mx gr s)
  show ?case
  proof (cases "mx = Some 0")
    case True
    then show ?thesis by (auto simp: rep.simps [of _ _ mn] run_ok_def)
  next
    case mx: False
    let ?mx = "map_option (\<lambda>k. k - 1) mx"
    have stop: "s' \<in> set (rep (mtch (Chs p)) [] mn mx gr s) \<longleftrightarrow> mn = 0 \<and> s' = s \<or>
        (\<exists>c t. rest s = c # t \<and> p c \<and> s' \<in> set (rep (mtch (Chs p)) [] (mn - 1) ?mx gr (advance 1 s)))"
      using mx by (subst rep.simps) (cases "rest s"; auto simp: Let_def advance_def)
    have more: "s' \<in> set (rep (mtch (Chs p)) [] (mn - 1) ?mx gr (advance 1 s)) \<longleftrightarrow>
        (\<exists>k. s' = advance k (advance 1 s) \<and> run_ok p (mn - 1) ?mx (advance 1 s) k)"
      if "rest s = c # t" "p c" for c t
      using 1 [OF mx, of "advance 1 s"] that by (simp add: advance_def)
    have step: "run_ok p (mn - 1) ?mx (advance 1 s) k \<longleftrightarrow> run_ok p mn mx s (Suc k)"
      if "rest s = c # t" "p c" for c t k
      using that mx by (cases mx) (auto simp: run_ok_def advance_def)
    show ?thesis
    proof
      assume "s' \<in> set (rep (mtch (Chs p)) [] mn mx gr s)"
      then consider (none) "mn = 0" "s' = s" | (some) c t where "rest s = c # t" "p c"
          "s' \<in> set (rep (mtch (Chs p)) [] (mn - 1) ?mx gr (advance 1 s))"
        unfolding stop by blast
      then show "\<exists>k. s' = advance k s \<and> run_ok p mn mx s k"
      proof cases
        case none
        then show ?thesis by (intro exI [of _ 0]) (simp add: run_ok_def)
      next
        case some
        then obtain k where "s' = advance (Suc k) s" "run_ok p mn mx s (Suc k)"
          unfolding more [OF some(1,2)] step [OF some(1,2)] advance_advance by auto
        then show ?thesis by blast
      qed
    next
      assume "\<exists>k. s' = advance k s \<and> run_ok p mn mx s k"
      then obtain k where k: "s' = advance k s" "run_ok p mn mx s k" by blast
      show "s' \<in> set (rep (mtch (Chs p)) [] mn mx gr s)"
      proof (cases k)
        case 0
        then show ?thesis unfolding stop using k mx by (cases mx) (auto simp: run_ok_def)
      next
        case (Suc j)
        then obtain c t where ct: "rest s = c # t" "p c"
          using k by (cases "rest s") (auto simp: run_ok_def)
        then show ?thesis
          unfolding stop using more [OF ct] step [OF ct, of j] k Suc advance_advance [of j 1 s]
          by auto
      qed
    qed
  qed
qed

lemma class_rep_mtch [simp]:
  "s' \<in> set (mtch (Rp mn mx gr (Chs p)) s) \<longleftrightarrow> (\<exists>k. s' = advance k s \<and> run_ok p mn mx s k)"
  using class_rep_iff [of s' p mn mx gr s] by simp

text \<open>What a group captures lies in the text that has been read.\<close>

definition caps_read :: "rst \<Rightarrow> bool" where
  "caps_read s \<longleftrightarrow> (\<forall>w. Some w \<in> set (caps s) \<longrightarrow> sublist w (rev (prior s)))"

lemma caps_read_mono:
  "caps_read s \<Longrightarrow> prior t = v @ prior s \<Longrightarrow> set (caps t) \<subseteq> insert None (set (caps s)) \<Longrightarrow> caps_read t"
  unfolding caps_read_def by (metis insert_iff option.distinct(1) rev_append sublist_appendI sublist_order.order_trans
      append_Nil subset_iff)

lemma set_reset_caps: "set (caps (reset_caps gs s)) \<subseteq> insert None (set (caps s))"
proof -
  have "set (fold (\<lambda>n cs. cs[n := None]) gs cs) \<subseteq> insert None (set cs)" for cs :: "string option list"
  proof (induction gs arbitrary: cs)
    case (Cons g gs)
    have "set (fold (\<lambda>n cs. cs[n := None]) gs (cs[g := None])) \<subseteq> insert None (set (cs[g := None]))"
      by (rule Cons.IH)
    also have "\<dots> \<subseteq> insert None (set cs)" using set_update_subset_insert [of cs g None] by blast
    finally show ?case by simp
  qed auto
  then show ?thesis by (simp add: reset_caps_def)
qed

lemma caps_read_reset: "caps_read s \<Longrightarrow> caps_read (reset_caps gs s)"
  using caps_read_mono [of s "reset_caps gs s" "[]"] set_reset_caps by simp

lemma rep_caps_read:
  assumes "\<And>t t'. t' \<in> set (m t) \<Longrightarrow> caps_read t \<Longrightarrow> caps_read t'"
    and "s' \<in> set (rep m gs mn mx gr s)" and "caps_read s"
  shows "caps_read s'"
  using assms
proof (induction m gs mn mx gr s rule: rep.induct)
  case (1 m gs mn mx gr s)
  consider (stop) "s' = s" | (more) t where "mx \<noteq> Some 0"
      "t \<in> set (m (reset_caps gs s))" "\<not> (mn = 0 \<and> \<not> length (rest t) < length (rest s))"
      "s' \<in> set (rep m gs (mn - 1) (map_option (\<lambda>k. k - 1) mx) gr t)"
    using "1.prems"(2) by (subst (asm) rep.simps) (auto simp: Let_def split: if_splits)
  then show ?case
  proof cases
    case more
    have "caps_read t" by (rule "1.prems"(1) [OF more(2) caps_read_reset [OF "1.prems"(3)]])
    then show ?thesis using "1.IH" [OF more(1-3) _ more(4)] "1.prems"(1) by blast
  qed (use "1.prems" in simp)
qed

primrec no_la :: "regex \<Rightarrow> bool" where
  "no_la Emp = True"
| "no_la (Chs p) = True"
| "no_la (Sq r s) = (no_la r \<and> no_la s)"
| "no_la (Al r s) = (no_la r \<and> no_la s)"
| "no_la (Rp mn mx g r) = no_la r"
| "no_la (Gp n r) = no_la r"
| "no_la (Bk n) = True"
| "no_la (La r) = False"
| "no_la (Bol m) = True"
| "no_la (Eol m) = True"

lemma mtch_caps_read: "no_la r \<Longrightarrow> s' \<in> set (mtch r s) \<Longrightarrow> caps_read s \<Longrightarrow> caps_read s'"
proof (induction r arbitrary: s s')
  case (Sq q r)
  from Sq.prems(2) obtain t where "t \<in> set (mtch q s)" "s' \<in> set (mtch r t)" by (rule mtch_SqE)
  then show ?case using Sq by simp
next
  case (Rp mn mx g r)
  then show ?case using rep_caps_read [of "mtch r" s' "groups r" mn mx g s] by simp
next
  case (Gp n r)
  obtain t where t: "t \<in> set (mtch r s)" "prior s' = prior t"
    and s': "s' = t\<lparr>caps := (caps t)[n := Some (eaten s t)]\<rparr>"
    using Gp.prems(2) by (rule mtch_GpE)
  obtain w where "follows s w t" using mtch_follows [OF t(1)] by blast
  then have "sublist (eaten s t) (rev (prior t))"
    by (simp add: eaten_follows) (auto simp: follows_def sublist_def intro: exI [of _ "rev (prior s)"])
  moreover have "caps_read t" using Gp.IH [OF _ t(1)] Gp.prems by simp
  ultimately show ?case
    using set_update_subset_insert [of "caps t" n "Some (eaten s t)"]
    unfolding s' caps_read_def by auto
next
  case (Chs p)
  have "prior s' = hd (prior s') # prior s" "caps s' = caps s"
    using Chs.prems(2) by (metis list.sel(1) mtch_ChsE)+
  then show ?case using caps_read_mono [of s s' "[hd (prior s')]"] Chs.prems(3) by auto
next
  case (Bk n)
  obtain w where w: "follows s w s'" using mtch_follows [OF Bk.prems(2)] by blast
  have "caps s' = caps s"
    using Bk.prems(2) by (auto simp: advance_def split: option.splits if_splits)
  then show ?case using caps_read_mono [of s s' "rev w"] w Bk.prems(3) by (auto simp: follows_def)
qed (auto split: if_splits)

text \<open>Captures of a match at the start are at most as long as the match.\<close>

lemma exec_caps_length:
  assumes "no_la r" and "anchored r" and "exec r s = Some m" and that: "n < length (m_caps m)"
  shows "length (m_str m n) \<le> length (m_all m)"
proof -
  obtain a e where ae: "search r (start r [] s) = Some (a, e)" and m: "m = mk_match (a, e)"
    using assms(3) by (auto simp: exec_at_def)
  obtain v w where vw: "follows (start r [] s) v a" "follows a w e" "caps a = caps (start r [] s)"
    "e \<in> set (mtch r a)"
    using search_follows [OF ae] by blast
  have "caps_read a" by (simp add: caps_read_def vw(3)) (simp add: start_def)
  then have e: "caps_read e" by (rule mtch_caps_read [OF assms(1) vw(4)])
  have "v = []" using exec_anchored(1) [OF assms(2,3)] by (simp add: m mk_match_follows [OF vw(1,2)])
  then have "rev (prior e) = m_all m" using vw(1,2)
    by (simp add: m mk_match_follows [OF vw(1,2)]) (simp add: follows_def start_def)
  moreover have "m_caps m = caps e" by (simp add: m mk_match_follows [OF vw(1,2)])
  ultimately show ?thesis
    using e that sublist_length_le
    by (fastforce simp: caps_read_def m_str_def split: option.split dest: nth_mem)
qed

end
