(* ===== verification/JsValue.thy ===== *)
theory JsValue
  imports Main "HOL-Library.AList"
begin

text \<open>
  JavaScript values as the scripts under \<open>src/src/qt/res/js\<close> use them, exceptions as values of a sum
  type, and the string methods of the language that need no pattern. An object is the list of its own
  properties in insertion order; \<open>JF\<close> stands for an object of the run time that a program reaches by
  reading an inherited property (\<open>references["constructor"]\<close>): it is truthy and none of the
  properties that the scripts read from it exists.
\<close>

datatype jval =
    JU
  | JS string
  | JN int
  | JO "(string \<times> jval) list"
  | JA "jval list"
  | JF
  | JClose string nat

text \<open>\<open>JClose md n\<close> is an instance of the class \<open>CloseTag\<close> that belongs to the delimiter \<open>md\<close>.\<close>

datatype jserr = TypeErr | RefErr | Thrown string | NoFuel

section \<open>Computations that may throw\<close>

definition sbind :: "'e + 'a \<Rightarrow> ('a \<Rightarrow> 'e + 'b) \<Rightarrow> 'e + 'b" where
  "sbind m f = (case m of Inl e \<Rightarrow> Inl e | Inr x \<Rightarrow> f x)"

lemma sbind_simps [simp]: "sbind (Inl e) f = Inl e" "sbind (Inr x) f = f x"
  by (simp_all add: sbind_def)

lemma sbind_Inr_iff: "sbind m f = Inr y \<longleftrightarrow> (\<exists>x. m = Inr x \<and> f x = Inr y)"
  by (cases m) simp_all

lemma sbind_Inl_iff: "sbind m f = Inl e \<longleftrightarrow> m = Inl e \<or> (\<exists>x. m = Inr x \<and> f x = Inl e)"
  by (cases m) simp_all

lemma sbind_cong [fundef_cong]:
  "m = m' \<Longrightarrow> (\<And>x. m' = Inr x \<Longrightarrow> f x = f' x) \<Longrightarrow> sbind m f = sbind m' f'"
  by (cases m') simp_all

lemma sbind_assoc: "sbind (sbind m f) g = sbind m (\<lambda>x. sbind (f x) g)"
  by (cases m) simp_all

fun smap :: "('a \<Rightarrow> 'e + 'b) \<Rightarrow> 'a list \<Rightarrow> 'e + 'b list" where
  "smap f [] = Inr []"
| "smap f (x # xs) = sbind (f x) (\<lambda>y. sbind (smap f xs) (\<lambda>ys. Inr (y # ys)))"

lemma smap_cong [fundef_cong]:
  "xs = ys \<Longrightarrow> (\<And>x. x \<in> set ys \<Longrightarrow> f x = g x) \<Longrightarrow> smap f xs = smap g ys"
  by (induction ys arbitrary: xs) simp_all

lemma smap_Inr_iff: "smap f xs = Inr ys \<longleftrightarrow> list_all2 (\<lambda>x y. f x = Inr y) xs ys"
proof (induction xs arbitrary: ys)
  case (Cons x xs)
  then show ?case by (cases ys) (auto simp: sbind_Inr_iff)
qed auto

lemma smap_total: "(\<And>x. x \<in> set xs \<Longrightarrow> \<exists>y. f x = Inr y) \<Longrightarrow> \<exists>ys. smap f xs = Inr ys"
  by (induction xs) (auto simp: sbind_Inr_iff)

lemma smap_total_all:
  "\<forall>x \<in> set xs. \<exists>y. f x = Inr y \<and> P y \<Longrightarrow> \<exists>ys. smap f xs = Inr ys \<and> list_all P ys"
proof (induction xs)
  case (Cons x xs)
  then obtain y ys where "f x = Inr y" "P y" "smap f xs = Inr ys" "list_all P ys" by auto
  then show ?case by simp
qed simp

lemma smap_append:
  "smap f (xs @ ys) = sbind (smap f xs) (\<lambda>us. sbind (smap f ys) (\<lambda>vs. Inr (us @ vs)))"
proof (induction xs)
  case (Cons x xs)
  then show ?case by (cases "f x"; cases "smap f xs"; cases "smap f ys") simp_all
qed (cases "smap f ys"; simp)

section \<open>Values\<close>

fun is_array :: "jval \<Rightarrow> bool" where
  "is_array (JA xs) = True"
| "is_array _ = False"

fun is_str :: "jval \<Rightarrow> bool" where
  "is_str (JS s) = True"
| "is_str _ = False"

text \<open>\<open>typeof v === "object"\<close>, arrays included.\<close>

fun typeof_object :: "jval \<Rightarrow> bool" where
  "typeof_object (JO kvs) = True"
| "typeof_object (JA xs) = True"
| "typeof_object (JClose md n) = True"
| "typeof_object _ = False"

fun truthy :: "jval \<Rightarrow> bool" where
  "truthy JU = False"
| "truthy (JS s) = (s \<noteq> [])"
| "truthy (JN n) = (n \<noteq> 0)"
| "truthy _ = True"

definition object_proto :: "string list" where
  "object_proto = [''constructor'', ''__defineGetter__'', ''__defineSetter__'', ''hasOwnProperty'',
     ''__lookupGetter__'', ''__lookupSetter__'', ''isPrototypeOf'', ''propertyIsEnumerable'',
     ''toString'', ''valueOf'', ''__proto__'', ''toLocaleString'']"

definition oget :: "(string \<times> jval) list \<Rightarrow> string \<Rightarrow> jval" where
  "oget kvs k = (case map_of kvs k of Some v \<Rightarrow> v
     | None \<Rightarrow> if k \<in> set object_proto then JF else JU)"

abbreviation oset :: "(string \<times> jval) list \<Rightarrow> string \<Rightarrow> jval \<Rightarrow> (string \<times> jval) list" where
  "oset kvs k v \<equiv> AList.update k v kvs"

abbreviation odel :: "(string \<times> jval) list \<Rightarrow> string \<Rightarrow> (string \<times> jval) list" where
  "odel kvs k \<equiv> AList.delete k kvs"

lemma oget_oset [simp]: "oget (oset kvs k v) k' = (if k' = k then v else oget kvs k')"
  by (simp add: oget_def update_conv)

lemma oget_odel_other [simp]: "k' \<noteq> k \<Longrightarrow> oget (odel kvs k) k' = oget kvs k'"
  by (simp add: oget_def delete_conv)

text \<open>Reading a named property of any value.\<close>

fun jget :: "jval \<Rightarrow> string \<Rightarrow> jserr + jval" where
  "jget JU k = Inl TypeErr"
| "jget (JO kvs) k = Inr (oget kvs k)"
| "jget _ k = Inr JU"

text \<open>Decimal notation.\<close>

fun digits :: "nat \<Rightarrow> string" where
  "digits n = (if n < 10 then [char_of (48 + n)] else digits (n div 10) @ [char_of (48 + n mod 10)])"

declare digits.simps [simp del]

definition int_str :: "int \<Rightarrow> string" where
  "int_str n = (if n < 0 then CHR 0x2D # digits (nat (- n)) else digits (nat n))"

fun join_str :: "string \<Rightarrow> string list \<Rightarrow> string" where
  "join_str sep [] = []"
| "join_str sep [x] = x"
| "join_str sep (x # xs) = x @ sep @ join_str sep xs"

text \<open>
  \<open>String(v)\<close>; an array joins its elements, \<open>undefined\<close> ones as nothing. (The text of a built-in
  function is up to the run time; no script converts one.)
\<close>

fun jstr :: "jval \<Rightarrow> string" where
  "jstr JU = ''undefined''"
| "jstr (JS s) = s"
| "jstr (JN n) = int_str n"
| "jstr (JO kvs) = ''[object Object]''"
| "jstr (JA xs) = join_str '','' (map (\<lambda>x. if x = JU then [] else jstr x) xs)"
| "jstr JF = ''function''"
| "jstr (JClose md n) = ''[object Object]''"

section \<open>Strings\<close>

definition lower_char :: "char \<Rightarrow> char" where
  "lower_char c = (let n = of_char c :: nat in
     if n \<in> {65..90} \<or> n \<in> {192..222} \<and> n \<noteq> 215 then char_of (n + 32) else c)"

abbreviation lower :: "string \<Rightarrow> string" where "lower \<equiv> map lower_char"

text \<open>\<open>s.split(c)\<close> for a string of one character.\<close>

fun split_char :: "char \<Rightarrow> string \<Rightarrow> string list" where
  "split_char c [] = [[]]"
| "split_char c (x # xs) =
     (if x = c then [] # split_char c xs
      else case split_char c xs of [] \<Rightarrow> [[x]] | w # ws \<Rightarrow> (x # w) # ws)"

text \<open>\<open>s.indexOf(c)\<close>, \<open>s.charAt(i)\<close> and \<open>s.substr(i)\<close> for \<open>0 \<le> i\<close>.\<close>

definition char_at :: "string \<Rightarrow> nat \<Rightarrow> string" where
  "char_at s i = take 1 (drop i s)"

abbreviation substr :: "nat \<Rightarrow> string \<Rightarrow> string" where "substr i s \<equiv> drop i s"

text \<open>\<open>s.substring(a, b)\<close> clamps both ends and swaps them when they are out of order.\<close>

definition substring :: "nat \<Rightarrow> nat \<Rightarrow> string \<Rightarrow> string" where
  "substring a b s = (let lo = min (min a (length s)) (min b (length s));
                          hi = max (min a (length s)) (min b (length s))
                      in take (hi - lo) (drop lo s))"

lemma split_char_nonempty [simp]: "split_char c s \<noteq> []"
  by (induction s) (auto split: list.splits)

lemma join_split_char: "join_str [c] (split_char c s) = s"
proof (induction s)
  case (Cons x xs)
  obtain w ws where ws: "split_char c xs = w # ws" by (cases "split_char c xs") auto
  show ?case using Cons by (cases ws) (auto simp: ws)
qed simp

lemma length_join_str: "xs \<noteq> [] \<Longrightarrow>
  length (join_str sep xs) = sum_list (map length xs) + length sep * (length xs - 1)"
proof (induction sep xs rule: join_str.induct)
  case (3 sep x y ys)
  then show ?case by simp
qed simp_all

end
