(* ===== verification/MdCore.thy ===== *)
theory MdCore
  imports Regex JsValue
begin

text \<open>
  The core of \<open>src/src/qt/res/js/markdown.js\<close>: the helpers (\<open>MarkdownHelpers\<close>), the constructor
  \<open>Markdown\<close> and the split of the source into blocks. A block is a \<open>String\<close> object with the extra
  properties \<open>trailing\<close> and \<open>lineNumber\<close>; \<open>None\<close> stands for \<open>undefined\<close>, for a line number also for
  the \<open>NaN\<close> that arithmetic on \<open>undefined\<close> gives.
\<close>

abbreviation NL :: char where "NL \<equiv> CHR 0x0A"

section \<open>Helpers\<close>

record mdblock =
  btext :: string
  trailing :: "string option"
  lineNumber :: "int option"

text \<open>The outer option of \<open>trail\<close> tells whether the argument was given at all.\<close>

definition mk_block :: "string \<Rightarrow> string option option \<Rightarrow> int option \<Rightarrow> mdblock" where
  "mk_block block trail line =
     \<lparr>btext = block, trailing = (case trail of None \<Rightarrow> Some [NL, NL] | Some t \<Rightarrow> t), lineNumber = line\<rparr>"

definition isArray :: "jval \<Rightarrow> bool" where
  "isArray obj \<longleftrightarrow> is_array obj"

text \<open>\<open>forEach\<close> runs a callback that updates a state over the array, in order.\<close>

definition forEach :: "'a list \<Rightarrow> ('a \<Rightarrow> 's \<Rightarrow> 's) \<Rightarrow> 's \<Rightarrow> 's" where
  "forEach arr cb st = foldl (\<lambda>s x. cb x s) st arr"

definition isEmpty :: "(string \<times> jval) list \<Rightarrow> bool" where
  "isEmpty obj \<longleftrightarrow> (case obj of [] \<Rightarrow> True | _ \<Rightarrow> False)"

definition extract_attr :: "jval \<Rightarrow> jval" where
  "extract_attr jsonml = (case jsonml of
     JA (_ # a # _) \<Rightarrow> if typeof_object a \<and> \<not> isArray a then a else JU
   | _ \<Rightarrow> JU)"

section \<open>The object\<close>

datatype dialect = Gruber | Maruku

datatype dialect_arg = DUndef | DObj "dialect option" | DName string

text \<open>
  An object without the properties of a dialect, for instance an inherited method, is \<open>None\<close>: whatever is read of its
  rules throws. The
  record \<open>ist\<close> holds \<open>em_state\<close> and \<open>strong_state\<close>, the stacks of open emphasis.
\<close>

record ist =
  em_st :: "string list"
  strong_st :: "string list"

record mdst =
  dialect :: "dialect option"
  emph :: ist
  md_tree :: jval

definition Markdown :: "dialect_arg \<Rightarrow> jserr + mdst" where
  "Markdown d = sbind
     (case d of
        DUndef \<Rightarrow> Inr (Some Gruber)
      | DObj o' \<Rightarrow> Inr o'
      | DName n \<Rightarrow> if n = ''Gruber'' then Inr (Some Gruber) else if n = ''Maruku'' then Inr (Some Maruku)
                  else if n \<in> set object_proto then Inr None
                  else Inl (Thrown (''Unknown Markdown dialect '' @ [CHR 0x27] @ n @ [CHR 0x27])))
     (\<lambda>dl. Inr \<lparr>dialect = dl, emph = \<lparr>em_st = [], strong_st = []\<rparr>, md_tree = JU\<rparr>)"

section \<open>Splitting the source into blocks\<close>

fun count_lines :: "string \<Rightarrow> nat" where
  "count_lines [] = 0"
| "count_lines (c # t) = (if c = NL then Suc (count_lines t) else count_lines t)"

lemma count_lines_append [simp]: "count_lines (s @ t) = count_lines s + count_lines t"
  by (induction s) simp_all

definition newline_re :: regex where
  "newline_re = Gp 1 (al [lit [CHR 0x0D, NL], chr NL, chr (CHR 0x0D)])"

definition lead_re :: regex where
  "lead_re = sq [Bol False, Gp 1 (sq [star sp, chr NL])]"

definition block_re :: regex where
  "block_re = Sq (Gp 1 (plusl anych))
     (Gp 2 (al [Eol False, lit [NL, CHR 0x23],
                sq [chr NL, plus1 (al [sq [star sp, chr NL], Eol False])]]))"

definition normalize :: "string \<Rightarrow> string" where
  "normalize input = replace_all newline_re (\<lambda>m. [NL]) input"

text \<open>One step of the loop over the global pattern: the match and, behind a header, one character back.\<close>

definition block_step :: "string \<Rightarrow> string \<Rightarrow> (string \<times> string \<times> string \<times> string \<times> string) option" where
  "block_step b s = (case exec_at block_re b s of
     None \<Rightarrow> None
   | Some m \<Rightarrow>
       let done = rev (m_all m) @ rev (m_pre m) in
       Some (if m_str m 2 = [NL, CHR 0x23]
             then (m_str m 1, [NL], m_all m, tl done, hd done # m_post m)
             else (m_str m 1, m_str m 2, m_all m, done, m_post m)))"

subsection \<open>What one match of the block pattern is\<close>

definition tail_re :: regex where
  "tail_re = al [Eol False, lit [NL, CHR 0x23],
     sq [chr NL, plus1 (al [sq [star sp, chr NL], Eol False])]]"

lemma block_re_tail: "block_re = Sq (Gp 1 (plusl anych)) (Gp 2 tail_re)"
  by (simp add: block_re_def tail_re_def)

lemma tail_re_mtch:
  assumes "u \<in> set (mtch tail_re t)" and "follows t v u"
  shows "v = [] \<and> rest u = [] \<or> v \<noteq> [] \<and> hd v = NL"
proof -
  have tail: "tail_re = Al (Eol False) (Al (Sq (chr NL) (chr CHR 0x23))
      (Sq (chr NL) (plus1 (al [sq [star sp, chr NL], Eol False]))))"
    by (simp add: tail_re_def)
  consider "u \<in> set (mtch (Eol False) t)" | r where "u \<in> set (mtch (Sq (chr NL) r) t)"
    using assms(1) unfolding tail by (simp only: mtch.simps(4) set_append Un_iff) blast
  then consider "u = t" "rest t = []" | x r where "rest t = NL # x" "u \<in> set (mtch r (advance 1 t))"
  proof cases
    case 1
    then have "u = t" "rest t = []" by (auto split: list.splits if_splits)
    then show ?thesis by (rule that(1))
  next
    case (2 r)
    then show ?thesis using mtch_chr_Sq [OF 2] that(2) by blast
  qed
  then show ?thesis
  proof cases
    case 2
    obtain w where "follows (advance 1 t) w u" using mtch_follows [OF 2(2)] by blast
    then have "rest t = NL # w @ rest u" using 2(1) by (simp add: follows_def advance_def)
    then show ?thesis using assms(2) by (cases v) (auto simp: follows_def)
  qed (use assms(2) in \<open>auto simp: follows_def\<close>)
qed

lemma block_re_mtch:
  assumes "e \<in> set (mtch block_re s)" and "length (caps s) = 3"
  shows "\<exists>w v. w \<noteq> [] \<and> follows s (w @ v) e \<and> caps e ! 1 = Some w \<and> caps e ! 2 = Some v \<and>
    (v = [] \<and> rest e = [] \<or> v \<noteq> [] \<and> hd v = NL)"
proof -
  from assms(1) obtain t where t: "t \<in> set (mtch (Gp 1 (plusl anych)) s)"
    and e: "e \<in> set (mtch (Gp 2 tail_re) t)" unfolding block_re_tail by auto
  obtain w where w: "follows s w t" "1 \<le> length w" "caps t ! 1 = Some w"
    using mtch_group [OF t] assms(2) by auto
  have "length (caps t) = 3" using w(1) assms(2) by (simp add: follows_def)
  then obtain u v where v: "u \<in> set (mtch tail_re t)" "follows t v u" "follows t v e" "caps e ! 2 = Some v"
    "rest e = rest u"
    using mtch_group [OF e] by auto
  have "caps e ! 1 = Some w" using mtch_caps [OF _ e, of 1] w(3) by (simp add: tail_re_def)
  then show ?thesis
    using tail_re_mtch [OF v(1,2)] follows_trans [OF w(1) v(3)] w(2) v(4,5)
    by (intro exI [of _ w] exI [of _ v]) auto
qed

lemma block_re_here:
  assumes "rest s \<noteq> []"
  shows "mtch block_re s \<noteq> []"
proof -
  let ?t = "advance (length (rest s)) s"
  have "?t \<in> set (mtch (plusl anych) s)"
    using assms by (auto simp: run_ok_def Suc_le_eq simp del: mtch.simps)
  then have "?t\<lparr>caps := (caps ?t)[1 := Some (eaten s ?t)]\<rparr> \<in> set (mtch (Gp 1 (plusl anych)) s)"
    by (simp del: class_rep_mtch mtch.simps(5))
  moreover have "mtch (Gp 2 tail_re) (?t\<lparr>caps := cs\<rparr>) \<noteq> []" for cs
    by (simp add: tail_re_def advance_def)
  ultimately show ?thesis unfolding block_re_tail by (simp del: mtch.simps(5,6)) blast
qed

lemma minlen_block_re [simp]: "minlen block_re = 1"
  by (simp add: block_re_def)

lemma groups_block_re: "foldr max (groups block_re) 0 = 2"
  by (simp add: block_re_def)

lemma block_step_Nil [simp]: "block_step b [] = None"
proof -
  have "exec_at block_re b [] = None"
    using exec_at_Some(2,3) [of block_re b "[]"] by (cases "exec_at block_re b []") auto
  then show ?thesis by (simp add: block_step_def)
qed

lemma block_step_Some:
  assumes "s \<noteq> []"
  obtains w tr all' b' s' where "block_step b s = Some (w, tr, all', b', s')" and "w \<noteq> []"
    and "s = (w @ tr) @ s'" and "b' = rev (w @ tr) @ b" and "tr = [] \<and> s' = [] \<or> tr \<noteq> [] \<and> hd tr = NL"
    and "count_lines all' = count_lines (w @ tr)"
proof -
  let ?s = "start block_re b s"
  have s: "rest ?s = s" "prior ?s = b" "length (caps ?s) = 3"
    by (simp_all add: start_def groups_block_re)
  obtain e es where "mtch block_re ?s = e # es"
    using block_re_here [of ?s] assms s by (cases "mtch block_re ?s") auto
  then have ex: "exec_at block_re b s = Some (mk_match (?s, e))" and e: "e \<in> set (mtch block_re ?s)"
    by (simp_all add: exec_at_here)
  obtain w v where wv: "w \<noteq> []" "follows ?s (w @ v) e" "caps e ! 1 = Some w" "caps e ! 2 = Some v"
    "v = [] \<and> rest e = [] \<or> v \<noteq> [] \<and> hd v = NL"
    using block_re_mtch [OF e s(3)] by blast
  note m = mk_match_follows [OF follows_refl wv(2)]
  have src: "s = w @ v @ rest e" using wv(2) by (simp add: follows_def s)
  have st: "block_step b s = Some (if v = [NL, CHR 0x23]
      then (w, [NL], w @ v, tl (rev (w @ v) @ b), hd (rev (w @ v) @ b) # rest e)
      else (w, v, w @ v, rev (w @ v) @ b, rest e))"
    using wv by (simp add: block_step_def ex m m_str_def s)
  show ?thesis
  proof (cases "v = [NL, CHR 0x23]")
    case True
    show ?thesis
      by (rule that [of w "[NL]" "w @ v" "rev (w @ [NL]) @ b" "CHR 0x23 # rest e"])
        (use wv(1) True src st in simp_all)
  next
    case False
    show ?thesis
      by (rule that [of w v "w @ v" "rev (w @ v) @ b" "rest e"]) (use wv False src st in auto)
  qed
qed

function split_loop :: "string \<Rightarrow> string \<Rightarrow> int \<Rightarrow> mdblock list" where
  "split_loop b s line_no = (case block_step b s of
     None \<Rightarrow> []
   | Some (w, tr, all', b', s') \<Rightarrow>
       mk_block w (Some (Some tr)) (Some line_no) # split_loop b' s' (line_no + int (count_lines all')))"
  by pat_completeness auto
termination
proof (relation "measure (\<lambda>(b, s, line_no). length s)", goal_cases)
  case (2 b s line_no p w q tr r all' r' b' s')
  then have "s \<noteq> []" by auto
  then show ?case by (rule block_step_Some [of s b]) (use 2 in auto)
qed simp

declare split_loop.simps [simp del]

definition split_blocks :: "string \<Rightarrow> mdblock list" where
  "split_blocks source =
     (let input = normalize source in
      case exec lead_re input of
        Some m \<Rightarrow> split_loop (rev (m_all m)) (m_post m) (1 + int (count_lines (m_all m)))
      | None \<Rightarrow> split_loop [] input 1)"

subsection \<open>The split loses nothing\<close>

definition block_src :: "mdblock \<Rightarrow> string" where
  "block_src b = btext b @ (case trailing b of None \<Rightarrow> [] | Some t \<Rightarrow> t)"

fun lines_ok :: "int \<Rightarrow> mdblock list \<Rightarrow> bool" where
  "lines_ok n [] = True"
| "lines_ok n (b # bs) =
     (lineNumber b = Some n \<and> btext b \<noteq> [] \<and> lines_ok (n + int (count_lines (block_src b))) bs)"

lemma block_src_mk_block [simp]: "block_src (mk_block w (Some (Some tr)) n) = w @ tr"
  by (simp add: block_src_def mk_block_def)

lemma mk_block_sel [simp]:
  "btext (mk_block w tr n) = w" "trailing (mk_block w (Some t) n) = t" "lineNumber (mk_block w tr n) = n"
  by (simp_all add: mk_block_def)

lemma split_loop_spec:
  "concat (map block_src (split_loop b s n)) = s \<and> lines_ok n (split_loop b s n)"
proof (induction b s n rule: split_loop.induct)
  case (1 b s n)
  show ?case
  proof (cases "s = []")
    case True
    then show ?thesis by (subst (1 2) split_loop.simps) simp
  next
    case False
    obtain w tr all' b' s' where st: "block_step b s = Some (w, tr, all', b', s')" "w \<noteq> []"
      "s = (w @ tr) @ s'" "count_lines all' = count_lines (w @ tr)"
      by (rule block_step_Some [OF False, of b])
    show ?thesis
      using "1.IH" [OF st(1) refl refl refl refl] st
      by (subst (1 2) split_loop.simps) simp
  qed
qed

lemma lead_re_blank:
  assumes "exec lead_re s = Some m"
  shows "\<forall>c \<in> set (m_all m). is_space c" and "s = m_all m @ m_post m"
proof -
  have anch: "anchored lead_re" by (simp add: lead_re_def)
  show "s = m_all m @ m_post m" by (rule exec_anchored(2) [OF anch assms])
  obtain a e where ae: "search lead_re (start lead_re [] s) = Some (a, e)" and m: "m = mk_match (a, e)"
    using assms by (auto simp: exec_at_def)
  obtain v w where vw: "follows (start lead_re [] s) v a" "follows a w e" "e \<in> set (mtch lead_re a)"
    using search_follows [OF ae] by blast
  have lead: "lead_re = Sq (Bol False) (Gp 1 (Sq (star sp) (chr NL)))" by (simp add: lead_re_def)
  have "e \<in> set (mtch (Gp 1 (Sq (star sp) (chr NL))) a)"
    using vw(3) unfolding lead by (rule mtch_Bol_Sq)
  then obtain t where t: "t \<in> set (mtch (Sq (star sp) (chr NL)) a)" "rest e = rest t"
    by (rule mtch_GpE)
  from t(1) obtain k where k: "run_ok is_space 0 None a k" and tk: "t \<in> set (mtch (chr NL) (advance k a))"
    by (auto simp del: mtch.simps(2,5))
  from tk have "rest (advance k a) = NL # rest e"
    by (rule mtch_ChsE) (simp add: t(2))
  then have "rest a = take k (rest a) @ [NL] @ rest e"
    by (metis advance_def append_Cons append_Nil append_take_drop_id rst.select_convs(2) rst.update_convs(1,2) rst.surjective)
  then have "w = take k (rest a) @ [NL]"
    using vw(2) unfolding follows_def by (metis append_assoc append_same_eq)
  then show "\<forall>c \<in> set (m_all m). is_space c"
    using k by (auto simp: m mk_match_follows [OF vw(1,2)] run_ok_def is_space_def)
qed

lemma split_blocks_spec:
  "\<exists>lead. normalize source = lead @ concat (map block_src (split_blocks source)) \<and>
     (\<forall>c \<in> set lead. is_space c) \<and> lines_ok (1 + int (count_lines lead)) (split_blocks source)"
proof (cases "exec lead_re (normalize source)")
  case None
  then show ?thesis
    using split_loop_spec [of "[]" "normalize source" 1]
    by (intro exI [of _ "[]"]) (simp add: split_blocks_def)
next
  case (Some m)
  then show ?thesis
    using split_loop_spec [of "rev (m_all m)" "m_post m"] lead_re_blank [OF Some]
    by (intro exI [of _ "m_all m"]) (simp add: split_blocks_def)
qed

end
