(* ===== verification/MdMeta.thy ===== *)
theory MdMeta
  imports MdCore
begin

text \<open>
  The meta hashes of the Maruku dialect in \<open>src/src/qt/res/js/markdown.js\<close>: \<open>split_meta_hash\<close> and
  \<open>processMetaHash\<close>.
\<close>

definition push_letter :: "string list \<Rightarrow> string \<Rightarrow> string list" where
  "push_letter parts letter = butlast parts @ [last parts @ letter]"

text \<open>
  The loop over the letters. A backslash takes the next letter as it is; at the end of the string that
  letter is \<open>undefined\<close>, which is appended as text.
\<close>

fun split_meta_loop :: "string \<Rightarrow> string list \<Rightarrow> bool \<Rightarrow> string list" where
  "split_meta_loop [] parts in_quotes = parts"
| "split_meta_loop (letter # meta) parts in_quotes =
     (if letter = CHR 0x20 then
        split_meta_loop meta (if in_quotes then push_letter parts [letter] else parts @ [[]]) in_quotes
      else if letter = CHR 0x27 \<or> letter = CHR 0x22 then split_meta_loop meta parts (\<not> in_quotes)
      else if letter = CHR 0x5C then
        (case meta of
           [] \<Rightarrow> push_letter parts ''undefined''
         | l # meta' \<Rightarrow> split_meta_loop meta' (push_letter parts [l]) in_quotes)
      else split_meta_loop meta (push_letter parts [letter]) in_quotes)"

definition split_meta_hash :: "string \<Rightarrow> string list" where
  "split_meta_hash meta_string = split_meta_loop meta_string [[]] False"

definition meta_part :: "string \<Rightarrow> (string \<times> jval) list \<Rightarrow> (string \<times> jval) list" where
  "meta_part s attr =
     (if test (sq [Bol False, chr (CHR 0x23)]) s then oset attr ''id'' (JS (drop 1 s))
      else if test (sq [Bol False, chr (CHR 0x2E)]) s then
        (if truthy (oget attr ''class'')
         then oset attr ''class'' (JS (jstr (oget attr ''class'') @ replace1 dot (\<lambda>_. '' '') s))
         else oset attr ''class'' (JS (drop 1 s)))
      else if test (chr (CHR 0x3D)) s then
        (let p = split_re (chr (CHR 0x3D)) s in oset attr (p ! 0) (JS (p ! 1)))
      else attr)"

definition processMetaHash :: "string \<Rightarrow> (string \<times> jval) list" where
  "processMetaHash meta_string =
     foldl (\<lambda>attr s. meta_part s attr) [] (split_meta_hash meta_string)"

lemma meta_part_str: "list_all (\<lambda>(k, v). is_str v) attr \<Longrightarrow> list_all (\<lambda>(k, v). is_str v) (meta_part s attr)"
proof -
  have "list_all (\<lambda>(k, v). is_str v) kvs \<Longrightarrow> list_all (\<lambda>(k, v). is_str v) (oset kvs k (JS w))" for kvs k w
    by (induction kvs) auto
  then show "list_all (\<lambda>(k, v). is_str v) attr \<Longrightarrow> list_all (\<lambda>(k, v). is_str v) (meta_part s attr)"
    by (simp add: meta_part_def Let_def)
qed

lemma processMetaHash_str: "list_all (\<lambda>(k, v). is_str v) (processMetaHash s)"
proof -
  have "list_all (\<lambda>(k, v). is_str v) attr \<Longrightarrow>
      list_all (\<lambda>(k, v). is_str v) (foldl (\<lambda>attr s. meta_part s attr) attr ps)" for attr ps
    by (induction ps arbitrary: attr) (simp_all add: meta_part_str)
  then show ?thesis by (simp add: processMetaHash_def)
qed

text \<open>
  Quoting undoes splitting: parts written between quotes, with the quotes and backslashes inside them
  escaped, are read back as they are.
\<close>

definition quote_letter :: "char \<Rightarrow> string" where
  "quote_letter c = (if c \<in> {CHR 0x27, CHR 0x22, CHR 0x5C} then [CHR 0x5C, c] else [c])"

definition quote_part :: "string \<Rightarrow> string" where
  "quote_part s = [CHR 0x22] @ concat (map quote_letter s) @ [CHR 0x22]"

lemma push_letter_snoc [simp]: "push_letter (ps @ [p]) w = ps @ [p @ w]"
  by (simp add: push_letter_def)

lemma split_meta_quoted:
  "split_meta_loop (concat (map quote_letter s) @ t) (ps @ [p]) True = split_meta_loop t (ps @ [p @ s]) True"
  by (induction s arbitrary: p) (auto simp: quote_letter_def)

lemma split_meta_quote_part:
  "split_meta_loop (quote_part s @ t) (ps @ [p]) False = split_meta_loop t (ps @ [p @ s]) False"
  using split_meta_quoted [of s "CHR 0x22 # t" ps p] by (simp add: quote_part_def)

lemma split_meta_hash_quote:
  "split_meta_loop (join_str '' '' (map quote_part (s # ss))) (ps @ [[]]) False = ps @ s # ss"
proof (induction ss arbitrary: s ps)
  case Nil
  then show ?case using split_meta_quote_part [of s "[]" ps "[]"] by simp
next
  case (Cons s' ss)
  show ?case
    using split_meta_quote_part [of s "'' '' @ join_str '' '' (map quote_part (s' # ss))" ps "[]"]
      Cons.IH [of s' "ps @ [s]"]
    by simp
qed

end
