(* ===== verification/MdRender.thy ===== *)
theory MdRender
  imports MdCore
begin

text \<open>
  The back end of \<open>src/src/qt/res/js/markdown.js\<close>: the conversion of a Markdown tree to an HTML tree
  (\<open>convert_tree_to_html\<close>, \<open>merge_text_nodes\<close>) and its rendering as text (\<open>escapeHTML\<close>,
  \<open>render_tree\<close>, \<open>renderJsonML\<close>). The functions that change their argument in place return its new
  value; \<open>shift\<close> and \<open>push\<close> are the corresponding list operations.
\<close>

section \<open>Escaping\<close>

definition escapeHTML :: "string \<Rightarrow> string" where
  "escapeHTML text =
     replace_all (chr (CHR 0x27)) (\<lambda>_. ''&#39;'')
       (replace_all (chr (CHR 0x22)) (\<lambda>_. ''&quot;'')
         (replace_all (chr (CHR 0x3E)) (\<lambda>_. ''&gt;'')
           (replace_all (chr (CHR 0x3C)) (\<lambda>_. ''&lt;'')
             (replace_all (chr (CHR 0x26)) (\<lambda>_. ''&amp;'') text))))"

lemma replace_from_chr:
  "replace_from (chr c) (\<lambda>_. w) s = concat (map (\<lambda>x. if x = c then w else [x]) (rest s))"
proof -
  have skip: "rest s = u @ t \<Longrightarrow> c \<notin> set u \<Longrightarrow> search (chr c) s =
      (if t = [] then None else search (chr c) (advance (length u) s))" for u t s
  proof (induction u arbitrary: s)
    case Nil
    then show ?case by (cases t) (simp_all add: search.simps [of "chr c" s])
  next
    case (Cons x u)
    then have "search (chr c) s = search (chr c) (advance 1 s)"
      by (subst search.simps) auto
    then show ?case
      using Cons.IH [of "advance 1 s"] Cons.prems by (simp add: advance_def)
  qed
  show ?thesis
  proof (induction "length (rest s)" arbitrary: s rule: less_induct)
    case less
    define u where "u = takeWhile (\<lambda>x. x \<noteq> c) (rest s)"
    define t where "t = dropWhile (\<lambda>x. x \<noteq> c) (rest s)"
    have s: "rest s = u @ t" and u: "c \<notin> set u"
      by (auto simp: u_def t_def dest: set_takeWhileD)
    have cu: "concat (map (\<lambda>x. if x = c then w else [x]) u) = u"
      using u by (induction u) auto
    show ?case
    proof (cases t)
      case Nil
      then show ?thesis using skip [OF s u] cu s by (subst replace_from.simps) simp
    next
      case (Cons d r)
      then have d: "d = c" using hd_dropWhile [of "\<lambda>x. x \<noteq> c" "rest s"] by (simp add: t_def)
      let ?a = "advance (length u) s"
      have a: "rest ?a = c # r" by (simp add: advance_def s Cons d)
      have "search (chr c) ?a = Some (?a, advance 1 ?a)" by (subst search.simps) (simp add: a)
      then have sr: "search (chr c) s = Some (?a, advance 1 ?a)" using skip [OF s u] Cons by simp
      have eu: "eaten s ?a = u" using eaten_follows [OF follows_advance, of s "length u"] s by simp
      have ec: "eaten ?a (advance 1 ?a) = [c]"
        using eaten_follows [OF follows_advance, of ?a 1] a by simp
      have r: "rest (advance 1 ?a) = r" by (simp add: advance_def s Cons)
      have "replace_from (chr c) (\<lambda>_. w) s =
          u @ w @ replace_from (chr c) (\<lambda>_. w) ((advance 1 ?a)\<lparr>caps := caps s\<rparr>)"
        by (subst replace_from.simps) (simp add: sr eu ec [simplified] Let_def)
      also have "\<dots> = u @ w @ concat (map (\<lambda>x. if x = c then w else [x]) r)"
        using less [of "(advance 1 ?a)\<lparr>caps := caps s\<rparr>"] r s Cons by simp
      finally show ?thesis using cu by (simp add: s Cons d)
    qed
  qed
qed

lemma replace_all_chr:
  "replace_all (chr c) (\<lambda>_. w) s = concat (map (\<lambda>x. if x = c then w else [x]) s)"
  by (simp add: replace_all_def replace_from_chr start_def)

definition esc :: "char \<Rightarrow> string" where
  "esc c = (if c = CHR 0x26 then ''&amp;'' else if c = CHR 0x3C then ''&lt;''
     else if c = CHR 0x3E then ''&gt;'' else if c = CHR 0x22 then ''&quot;''
     else if c = CHR 0x27 then ''&#39;'' else [c])"

text \<open>The five replacements, one after the other, escape each character once.\<close>

lemma escapeHTML_esc: "escapeHTML s = concat (map esc s)"
  by (induction s) (simp_all add: escapeHTML_def replace_all_chr esc_def)

lemma escapeHTML_append: "escapeHTML (s @ t) = escapeHTML s @ escapeHTML t"
  by (simp add: escapeHTML_esc)

lemma escapeHTML_safe:
  "c \<in> set (escapeHTML s) \<Longrightarrow> c \<notin> {CHR 0x3C, CHR 0x3E, CHR 0x22, CHR 0x27}"
  by (auto simp: escapeHTML_esc esc_def split: if_splits)

text \<open>A reader of the five entities gives the text back.\<close>

definition entities :: "(string \<times> char) list" where
  "entities = [(''&amp;'', CHR 0x26), (''&lt;'', CHR 0x3C), (''&gt;'', CHR 0x3E),
     (''&quot;'', CHR 0x22), (''&#39;'', CHR 0x27)]"

fun unescape :: "string \<Rightarrow> string" where
  "unescape [] = []"
| "unescape (c # s) =
     (case filter (\<lambda>(e, d). take (length e) (c # s) = e \<and> e \<noteq> []) entities of
        (e, d) # _ \<Rightarrow> d # unescape (drop (length e - 1) s)
      | [] \<Rightarrow> c # unescape s)"

lemma unescape_esc: "unescape (esc c @ s) = c # unescape s"
  by (auto simp: esc_def entities_def)

lemma unescape_escapeHTML: "unescape (escapeHTML s) = s"
  by (induction s) (simp_all add: escapeHTML_esc unescape_esc)

section \<open>Rendering\<close>

text \<open>
  \<open>escapeHTML(v)\<close> on a value that is not a string throws, because it has no method \<open>replace\<close>. The
  object of attributes is \<open>attributes\<close>; for an instance of \<open>CloseTag\<close> its first property is a number.
\<close>

fun escape_value :: "jval \<Rightarrow> jserr + string" where
  "escape_value (JS s) = Inr (escapeHTML s)"
| "escape_value _ = Inl TypeErr"

fun own_props :: "jval \<Rightarrow> (string \<times> jval) list" where
  "own_props (JO kvs) = kvs"
| "own_props (JClose md n) = [(''len_after'', JN (int n)), (''name'', JS (''close_'' @ md))]"
| "own_props _ = []"

definition is_attr :: "jval \<Rightarrow> bool" where
  "is_attr v \<longleftrightarrow> typeof_object v \<and> \<not> is_array v"

definition split_attr :: "jval list \<Rightarrow> jval \<times> jval list" where
  "split_attr xs = (case xs of a # ys \<Rightarrow> if is_attr a then (a, ys) else (JO [], xs) | [] \<Rightarrow> (JO [], []))"

lemma split_attr_sub: "x \<in> set (snd (split_attr xs)) \<Longrightarrow> x \<in> set xs"
  by (auto simp: split_attr_def split: list.splits if_splits)

definition tag_attrs :: "jval \<Rightarrow> jserr + string" where
  "tag_attrs attributes = sbind
     (smap (\<lambda>(a, v). sbind (escape_value v) (\<lambda>e. Inr ('' '' @ a @ ''=\"'' @ e @ ''\"'')))
       (own_props attributes))
     (\<lambda>parts. Inr (concat parts))"

definition void_tags :: "jval list" where
  "void_tags = [JS ''img'', JS ''br'', JS ''hr'']"

definition finish_tag :: "jval \<Rightarrow> string \<Rightarrow> string list \<Rightarrow> string" where
  "finish_tag tag attrs content =
     (if tag \<in> set void_tags then ''<'' @ jstr tag @ attrs @ ''/>''
      else ''<'' @ jstr tag @ attrs @ ''>'' @ concat content @ ''</'' @ jstr tag @ ''>'')"

function render_tree :: "jval \<Rightarrow> jserr + string" where
  "render_tree jsonml = (case jsonml of
     JS s \<Rightarrow> Inr (escapeHTML s)
   | JA xs \<Rightarrow>
       let tag = (case xs of [] \<Rightarrow> JU | t # _ \<Rightarrow> t);
           (attributes, kids) = split_attr (tl xs)
       in sbind (smap render_tree kids) (\<lambda>content.
            sbind (tag_attrs attributes) (\<lambda>ta. Inr (finish_tag tag ta content)))
   | _ \<Rightarrow> Inl TypeErr)"
  by pat_completeness auto

lemma size_mem_JA: "x \<in> set xs \<Longrightarrow> size x < size (JA xs)"
  by (induction xs) auto

lemma set_tl: "x \<in> set (tl xs) \<Longrightarrow> x \<in> set xs"
  by (cases xs) auto

termination render_tree
proof (relation "measure size", goal_cases)
  case (2 jsonml xs tag p attributes kids x)
  then have "x \<in> set (snd (split_attr (tl xs)))" by (metis snd_conv)
  then have "x \<in> set xs" by (rule set_tl [OF split_attr_sub])
  then show ?case using size_mem_JA 2 by simp
qed simp

declare render_tree.simps [simp del]

definition renderJsonML :: "jval \<Rightarrow> bool \<Rightarrow> jserr + string" where
  "renderJsonML jsonml root = sbind
     (if root then sbind (render_tree jsonml) (\<lambda>s. Inr [s])
      else case jsonml of
             JA xs \<Rightarrow> smap render_tree (snd (split_attr (tl xs)))
           | _ \<Rightarrow> Inl TypeErr)
     (\<lambda>content. Inr (join_str [NL, NL] content))"

subsection \<open>The output is well formed\<close>

text \<open>
  The tokens of a rendered tree. \<open>balanced\<close> says that every opening tag is closed by its own closing
  tag, properly nested.
\<close>

datatype tok = TOpen string "(string \<times> string) list" | TVoid string "(string \<times> string) list"
  | TClose string | TText string

definition show_attrs :: "(string \<times> string) list \<Rightarrow> string" where
  "show_attrs kvs = concat (map (\<lambda>(k, v). '' '' @ k @ ''=\"'' @ escapeHTML v @ ''\"'') kvs)"

fun show_tok :: "tok \<Rightarrow> string" where
  "show_tok (TOpen t kvs) = ''<'' @ t @ show_attrs kvs @ ''>''"
| "show_tok (TVoid t kvs) = ''<'' @ t @ show_attrs kvs @ ''/>''"
| "show_tok (TClose t) = ''</'' @ t @ ''>''"
| "show_tok (TText s) = escapeHTML s"

fun balance :: "string list \<Rightarrow> tok list \<Rightarrow> string list option" where
  "balance st [] = Some st"
| "balance st (TOpen t kvs # ts) = balance (t # st) ts"
| "balance st (TClose t # ts) = (case st of [] \<Rightarrow> None | u # st' \<Rightarrow> if u = t then balance st' ts else None)"
| "balance st (_ # ts) = balance st ts"

lemma balance_append: "balance st (xs @ ys) = Option.bind (balance st xs) (\<lambda>st'. balance st' ys)"
  by (induction st xs rule: balance.induct) (auto split: list.split)

text \<open>An HTML tree: tags and attribute values are strings, children are trees.\<close>

fun wf_html :: "jval \<Rightarrow> bool" where
  "wf_html (JS s) = True"
| "wf_html (JA (JS tag # JO kvs # kids)) = (list_all (\<lambda>(k, v). is_str v) kvs \<and> list_all wf_html kids)"
| "wf_html (JA (JS tag # kids)) = list_all wf_html kids"
| "wf_html _ = False"

lemma tag_attrs_str:
  assumes "list_all (\<lambda>(k, v). is_str v) kvs"
  shows "tag_attrs (JO kvs) = Inr (show_attrs (map (\<lambda>(k, v). (k, jstr v)) kvs))"
proof -
  have "smap (\<lambda>(a, v). sbind (escape_value v) (\<lambda>e. Inr ('' '' @ a @ ''=\"'' @ e @ ''\"''))) kvs =
      (Inr (map (\<lambda>(k, v). '' '' @ k @ ''=\"'' @ escapeHTML (jstr v) @ ''\"'') kvs) :: jserr + string list)"
    using assms by (induction kvs) (auto elim: is_str.elims)
  then show ?thesis by (simp add: tag_attrs_def show_attrs_def comp_def case_prod_unfold)
qed

lemma wf_html_JA:
  assumes "wf_html (JA xs)"
  obtains tag kvs kids where "xs \<noteq> []" and "hd xs = JS tag" and "split_attr (tl xs) = (JO kvs, kids)"
    and "list_all (\<lambda>(k, v). is_str v) kvs" and "list_all wf_html kids"
proof -
  obtain tag ys where xs: "xs = JS tag # ys" using assms by (cases xs; cases "hd xs") auto
  show ?thesis
  proof (cases "\<exists>kvs kids. ys = JO kvs # kids")
    case True
    then show ?thesis using assms that by (auto simp: xs split_attr_def is_attr_def)
  next
    case False
    then have "list_all wf_html ys" using assms xs by (cases ys; cases "hd ys") auto
    moreover from this have "split_attr ys = (JO [], ys)"
      using False by (cases ys; cases "hd ys") (auto simp: split_attr_def is_attr_def)
    ultimately show ?thesis using that [of tag "[]" ys] xs by simp
  qed
qed

lemma concat_concat_map: "concat (concat (map f xs)) = concat (map (\<lambda>x. concat (f x)) xs)"
  by (induction xs) simp_all

lemma render_tree_tokens:
  "wf_html t \<Longrightarrow> \<exists>ts. render_tree t = Inr (concat (map show_tok ts)) \<and> (\<forall>st. balance st ts = Some st)"
proof (induction t rule: render_tree.induct)
  case (1 t)
  show ?case
  proof (cases t)
    case (JS s)
    then show ?thesis by (intro exI [of _ "[TText s]"]) (simp add: render_tree.simps)
  next
    case (JA xs)
    obtain tag kvs kids where x: "xs \<noteq> []" "hd xs = JS tag" "split_attr (tl xs) = (JO kvs, kids)"
      "list_all (\<lambda>(k, v). is_str v) kvs" "list_all wf_html kids"
      using "1.prems" unfolding JA by (rule wf_html_JA)
    have "\<forall>k \<in> set kids. \<exists>ts. render_tree k = Inr (concat (map show_tok ts)) \<and> (\<forall>st. balance st ts = Some st)"
      using "1.IH" [OF JA refl x(3) [symmetric] refl] x(5) by (simp add: list_all_iff)
    then obtain f where f: "\<And>k. k \<in> set kids \<Longrightarrow> render_tree k = Inr (concat (map show_tok (f k)))"
      "\<And>k st. k \<in> set kids \<Longrightarrow> balance st (f k) = Some st" by metis
    have kids: "smap render_tree kids = Inr (map (\<lambda>k. concat (map show_tok (f k))) kids)"
      using f(1) by (induction kids) auto
    have bal: "balance st (concat (map f kids)) = Some st" for st
      using f(2) by (induction kids arbitrary: st) (simp_all add: balance_append)
    have r: "render_tree t = Inr (finish_tag (JS tag) (show_attrs (map (\<lambda>(k, v). (k, jstr v)) kvs))
        (map (\<lambda>k. concat (map show_tok (f k))) kids))"
      using x by (subst render_tree.simps) (cases xs; simp add: JA kids tag_attrs_str)
    show ?thesis
    proof (cases "JS tag \<in> set void_tags")
      case True
      then show ?thesis
        by (intro exI [of _ "[TVoid tag (map (\<lambda>(k, v). (k, jstr v)) kvs)]"])
          (simp add: r finish_tag_def)
    next
      case False
      then show ?thesis
        by (intro exI [of _ "TOpen tag (map (\<lambda>(k, v). (k, jstr v)) kvs) # concat (map f kids) @ [TClose tag]"])
          (simp add: r finish_tag_def balance_append bal map_concat comp_def concat_concat_map)
    qed
  qed (use "1.prems" in auto)
qed

end
