(* ===== verification/MdConvert.thy ===== *)
theory MdConvert
  imports MdRender
begin

text \<open>
  \<open>convert_tree_to_html\<close>, \<open>merge_text_nodes\<close> and \<open>toHTMLTree\<close> of \<open>src/src/qt/res/js/markdown.js\<close>.
  The callback \<open>options.preprocessTreeNode\<close> is the parameter \<open>pp\<close>.
\<close>

section \<open>From the Markdown tree to the HTML tree\<close>

text \<open>\<open>tree.slice(0)\<close>: strings and arrays have the method, other values throw.\<close>

fun slice0 :: "jval \<Rightarrow> jserr + jval" where
  "slice0 (JS s) = Inr (JS s)"
| "slice0 (JA xs) = Inr (JA xs)"
| "slice0 _ = Inl TypeErr"

definition attrs_of :: "jval list \<Rightarrow> (string \<times> jval) list option \<times> jval list" where
  "attrs_of ys = (case ys of
     a # kids \<Rightarrow> if extract_attr (JA (JU # ys)) \<noteq> JU then (Some (own_props a), kids) else (None, ys)
   | [] \<Rightarrow> (None, []))"

text \<open>
  One node: the new tag, attributes and children, or a value that replaces the node. The properties of
  \<open>attrs\<close> are those of \<open>jsonml[1]\<close>; where the node has no attributes \<open>jsonml[1]\<close> is a child.
\<close>

type_synonym node_parts = "jval \<times> (string \<times> jval) list option \<times> jval list"

definition first_child :: "jval list \<Rightarrow> jval" where
  "first_child kids = (case kids of [] \<Rightarrow> JU | k # _ \<Rightarrow> k)"

definition convert_ref ::
  "jval \<Rightarrow> string \<Rightarrow> string \<Rightarrow> (string \<times> jval) list option \<Rightarrow> jval list \<Rightarrow> jserr + (jval + node_parts)" where
  "convert_ref references html slot attrs kids = (case attrs of
     None \<Rightarrow> Inl TypeErr
   | Some kvs \<Rightarrow>
       sbind (jget references (jstr (oget kvs ''ref''))) (\<lambda>ref.
         if truthy ref then
           sbind (jget ref ''href'') (\<lambda>href.
             sbind (jget ref ''title'') (\<lambda>title.
               let kvs = odel kvs ''ref'';
                   kvs = oset kvs slot href;
                   kvs = (if truthy title then oset kvs ''title'' title else kvs);
                   kvs = odel kvs ''original''
               in Inr (Inr (JS html, Some kvs, kids))))
         else Inr (Inl (oget kvs ''original''))))"

definition convert_node ::
  "jval \<Rightarrow> jval \<Rightarrow> (string \<times> jval) list option \<Rightarrow> jval list \<Rightarrow> jserr + (jval + node_parts)" where
  "convert_node references tag attrs kids =
     (if tag = JS ''header'' then
        (case attrs of
           Some kvs \<Rightarrow> Inr (Inr (JS (CHR 0x68 # jstr (oget kvs ''level'')), Some (odel kvs ''level''), kids))
         | None \<Rightarrow> sbind (jget (first_child kids) ''level'')
             (\<lambda>l. Inr (Inr (JS (CHR 0x68 # jstr l), None, kids))))
      else if tag = JS ''bulletlist'' then Inr (Inr (JS ''ul'', attrs, kids))
      else if tag = JS ''numberlist'' then Inr (Inr (JS ''ol'', attrs, kids))
      else if tag = JS ''listitem'' then Inr (Inr (JS ''li'', attrs, kids))
      else if tag = JS ''para'' then Inr (Inr (JS ''p'', attrs, kids))
      else if tag = JS ''markdown'' then
        Inr (Inr (JS ''html'', map_option (\<lambda>kvs. odel kvs ''references'') attrs, kids))
      else if tag = JS ''code_block'' then Inr (Inr (JS ''pre'', attrs, [JA (JS ''code'' # kids)]))
      else if tag = JS ''inlinecode'' then Inr (Inr (JS ''code'', attrs, kids))
      else if tag = JS ''img'' then
        (case attrs of
           Some kvs \<Rightarrow> Inr (Inr (tag, Some (odel (oset kvs ''src'' (oget kvs ''href'')) ''href''), kids))
         | None \<Rightarrow> sbind (jget (first_child kids) ''href'') (\<lambda>_. Inr (Inr (tag, None, kids))))
      else if tag = JS ''linebreak'' then Inr (Inr (JS ''br'', attrs, kids))
      else if tag = JS ''link'' then Inr (Inr (JS ''a'', attrs, kids))
      else if tag = JS ''link_ref'' then convert_ref references ''a'' ''href'' attrs kids
      else if tag = JS ''img_ref'' then convert_ref references ''img'' ''src'' attrs kids
      else Inr (Inr (tag, attrs, kids)))"

text \<open>An attribute object without keys is dropped.\<close>

definition attrs_node :: "(string \<times> jval) list option \<Rightarrow> jval list" where
  "attrs_node attrs = (case attrs of Some (kv # kvs) \<Rightarrow> [JO (kv # kvs)] | _ \<Rightarrow> [])"

fun convert_tree_to_html ::
  "nat \<Rightarrow> (jval \<Rightarrow> jval \<Rightarrow> jval) option \<Rightarrow> jval \<Rightarrow> jval \<Rightarrow> jserr + jval" where
  "convert_tree_to_html 0 pp references tree = Inl NoFuel"
| "convert_tree_to_html (Suc fuel) pp references tree =
     sbind (slice0 tree) (\<lambda>jsonml.
       let jsonml = (case pp of None \<Rightarrow> jsonml | Some g \<Rightarrow> g jsonml references) in
       case jsonml of
         JU \<Rightarrow> Inl TypeErr
       | JA [] \<Rightarrow> Inr (JA [])
       | JA (tag # ys) \<Rightarrow>
           let (attrs, kids) = attrs_of ys in
           sbind (convert_node references tag attrs kids) (\<lambda>r. case r of
             Inl v \<Rightarrow> Inr v
           | Inr (tag', attrs', kids') \<Rightarrow>
               sbind (smap (convert_tree_to_html fuel pp references) kids') (\<lambda>ks.
                 Inr (JA (tag' # attrs_node attrs' @ ks))))
       | v \<Rightarrow> Inr v)"

section \<open>Merging text nodes\<close>

text \<open>
  \<open>jsonml\<close> is an array, except at the root, where a string shows its first two characters as elements;
  a string of three or more throws, as strings have no \<open>splice\<close>.
\<close>

function (sequential) merge_text_nodes :: "jval \<Rightarrow> jserr + jval" and merge_kids :: "jval list \<Rightarrow> jserr + jval list"
where
  "merge_text_nodes JU = Inl TypeErr"
| "merge_text_nodes (JS s) = (if length s < 3 then Inr (JS s) else Inl TypeErr)"
| "merge_text_nodes (JA xs) =
     (let i = (if extract_attr (JA xs) \<noteq> JU then 2 else 1) in
      sbind (merge_kids (drop i xs)) (\<lambda>ys. Inr (JA (take i xs @ ys))))"
| "merge_text_nodes v = Inr v"
| "merge_kids [] = Inr []"
| "merge_kids (v # r) =
     (if is_str v \<and> r \<noteq> [] \<and> is_str (hd r) then merge_kids (JS (jstr v @ jstr (hd r)) # tl r)
      else sbind (if is_str v then Inr v else merge_text_nodes v) (\<lambda>v'.
             sbind (merge_kids r) (\<lambda>ys. Inr (v' # ys))))"
  by pat_completeness auto

lemma size_drop_JA: "size_list size (drop i xs) \<le> size_list size xs"
  for xs :: "jval list"
proof (induction xs arbitrary: i)
  case (Cons x xs)
  then show ?case by (cases i) (auto intro: le_SucI trans_le_add2)
qed simp

termination merge_text_nodes
  by (relation "measure (\<lambda>x. case x of Inl t \<Rightarrow> size t | Inr ts \<Rightarrow> size_list size ts)")
    (auto simp: le_imp_less_Suc size_drop_JA neq_Nil_conv elim!: is_str.elims)

declare merge_kids.simps(2) [simp del]

definition toHTMLTree_of ::
  "nat \<Rightarrow> (jval \<Rightarrow> jval \<Rightarrow> jval) option \<Rightarrow> jval \<Rightarrow> jserr + jval" where
  "toHTMLTree_of fuel pp input =
     (let attrs = extract_attr input;
          refs = (case attrs of
              JO kvs \<Rightarrow> if truthy (oget kvs ''references'') then oget kvs ''references'' else JO []
            | _ \<Rightarrow> JO [])
      in sbind (convert_tree_to_html fuel pp refs input) merge_text_nodes)"

section \<open>Merging keeps the text and leaves no neighbours\<close>

definition kids_from :: "jval list \<Rightarrow> nat" where
  "kids_from xs = (if extract_attr (JA xs) \<noteq> JU then 2 else 1)"

function flat_text :: "jval \<Rightarrow> string" where
  "flat_text v = (case v of JS s \<Rightarrow> s
     | JA xs \<Rightarrow> concat (map flat_text (drop (kids_from xs) xs)) | _ \<Rightarrow> [])"
  by pat_completeness auto
termination
proof (relation "measure size", goal_cases)
  case (2 v xs x)
  then have "x \<in> set xs" by (meson in_set_dropD)
  then show ?case using size_mem_JA 2 by simp
qed simp

declare flat_text.simps [simp del]

lemma flat_text_simps [simp]:
  "flat_text (JS s) = s" "flat_text JU = []" "flat_text (JO kvs) = []" "flat_text (JN n) = []"
  "flat_text JF = []" "flat_text (JClose md k) = []"
  "flat_text (JA xs) = concat (map flat_text (drop (kids_from xs) xs))"
  by (simp_all add: flat_text.simps)

fun no_neighbours :: "jval list \<Rightarrow> bool" where
  "no_neighbours (x # y # r) = (\<not> (is_str x \<and> is_str y) \<and> no_neighbours (y # r))"
| "no_neighbours _ = True"

function merged :: "jval \<Rightarrow> bool" where
  "merged v = (case v of JA xs \<Rightarrow> no_neighbours (drop (kids_from xs) xs) \<and>
     list_all merged (drop (kids_from xs) xs) | _ \<Rightarrow> True)"
  by pat_completeness auto
termination
proof (relation "measure size", goal_cases)
  case (2 v xs x)
  then have "x \<in> set xs" by (meson in_set_dropD)
  then show ?case using size_mem_JA 2 by simp
qed simp

declare merged.simps [simp del]

lemma merged_simps [simp]:
  "merged (JS s)" "merged JU" "merged (JO kvs)" "merged (JN n)" "merged JF" "merged (JClose md k)"
  "merged (JA xs) = (no_neighbours (drop (kids_from xs) xs) \<and> list_all merged (drop (kids_from xs) xs))"
  by (simp_all add: merged.simps)

text \<open>Elements keep their kind, so an array keeps its attributes.\<close>

definition same_kind :: "jval \<Rightarrow> jval \<Rightarrow> bool" where
  "same_kind v w \<longleftrightarrow> is_str v = is_str w \<and> (is_attr v \<or> is_attr w \<longrightarrow> v = w)"

lemma same_kind_refl [simp]: "same_kind v v"
  by (simp add: same_kind_def)

lemma extract_attr_is_attr: "extract_attr (JA (t # a # r)) = (if is_attr a then a else JU)"
  by (auto simp: extract_attr_def is_attr_def isArray_def)

lemma is_attr_not_JU [simp]: "is_attr JU = False" "is_attr (JS s) = False" "is_attr (JA xs) = False"
  by (simp_all add: is_attr_def)

lemma kids_from_cons:
  "kids_from [] = 1" "kids_from [t] = 1" "kids_from (t # a # r) = (if is_attr a then 2 else 1)"
  by (auto simp: kids_from_def extract_attr_is_attr) (simp_all add: extract_attr_def)

lemma str_no_attr: "is_str v \<Longrightarrow> \<not> is_attr v"
  by (cases v) (simp_all add: is_attr_def)

definition first_same :: "jval list \<Rightarrow> jval list \<Rightarrow> bool" where
  "first_same vs ws \<longleftrightarrow> (vs = [] \<longleftrightarrow> ws = []) \<and> (vs \<noteq> [] \<longrightarrow> same_kind (hd vs) (hd ws))"

lemma kids_from_merge:
  assumes "first_same (drop (kids_from xs) xs) ys"
  shows "kids_from (take (kids_from xs) xs @ ys) = kids_from xs"
proof -
  consider "xs = []" | t where "xs = [t]" | t a r where "xs = t # a # r" by (metis list.exhaust)
  then show ?thesis
  proof cases
    case 3
    show ?thesis
    proof (cases "is_attr a")
      case True
      then show ?thesis by (simp add: 3 kids_from_cons numeral_2_eq_2)
    next
      case False
      then show ?thesis
        using assms by (cases ys) (auto simp: 3 kids_from_cons same_kind_def first_same_def)
    qed
  qed (use assms in \<open>simp_all add: kids_from_cons first_same_def\<close>)
qed

lemma no_neighbours_Cons:
  "no_neighbours (x # ys) \<longleftrightarrow> no_neighbours ys \<and> \<not> (is_str x \<and> ys \<noteq> [] \<and> is_str (hd ys))"
  by (cases ys) auto

definition merge_rel :: "jval list \<Rightarrow> jval list \<Rightarrow> bool" where
  "merge_rel vs ws \<longleftrightarrow> concat (map flat_text ws) = concat (map flat_text vs) \<and> no_neighbours ws \<and>
     list_all merged ws \<and> first_same vs ws"

lemma merge_rel_Cons:
  assumes "merge_rel r ys" and "flat_text w = flat_text v" and "merged w" and "same_kind v w"
    and "\<not> (is_str v \<and> r \<noteq> [] \<and> is_str (hd r))"
  shows "merge_rel (v # r) (w # ys)"
proof -
  have "is_str w = is_str v" using assms(4) by (simp add: same_kind_def)
  moreover have "ys \<noteq> [] \<Longrightarrow> r \<noteq> [] \<and> is_str (hd ys) = is_str (hd r)"
    using assms(1) by (auto simp: merge_rel_def first_same_def same_kind_def)
  ultimately show ?thesis
    using assms by (auto simp: merge_rel_def no_neighbours_Cons first_same_def)
qed

lemma merge_spec:
  "merge_text_nodes v = Inr w \<Longrightarrow> flat_text w = flat_text v \<and> merged w \<and> same_kind v w"
  "merge_kids vs = Inr ws \<Longrightarrow> merge_rel vs ws"
proof (induction v and vs arbitrary: w and ws rule: merge_text_nodes_merge_kids.induct)
  case (3 xs)
  let ?i = "kids_from xs"
  from "3.prems" obtain ys where ys: "merge_kids (drop ?i xs) = Inr ys" and w: "w = JA (take ?i xs @ ys)"
    by (auto simp: Let_def sbind_Inr_iff kids_from_def)
  have IH: "merge_rel (drop ?i xs) ys"
    using "3.IH" [of ?i ys] ys by (simp add: kids_from_def)
  then have f: "first_same (drop ?i xs) ys" by (simp add: merge_rel_def)
  have k: "kids_from (take ?i xs @ ys) = ?i" by (rule kids_from_merge [OF f])
  have "drop ?i (take ?i xs @ ys) = ys"
    using f by (cases "length xs \<le> ?i") (auto simp: first_same_def)
  then show ?case using IH by (simp add: w k same_kind_def merge_rel_def)
next
  case (6 v r)
  show ?case
  proof (cases "is_str v \<and> r \<noteq> [] \<and> is_str (hd r)")
    case True
    then obtain a b r' where ab: "v = JS a" "r = JS b # r'"
      by (auto simp: neq_Nil_conv elim!: is_str.elims)
    have "merge_rel (JS (a @ b) # r') ws" using "6.IH"(1) [of ws] "6.prems"
      by (simp add: ab merge_kids.simps(2) [of "JS a"])
    then show ?thesis by (auto simp: ab merge_rel_def first_same_def same_kind_def dest: str_no_attr)
  next
    case False
    then obtain v' ys where ys: "(if is_str v then Inr v else merge_text_nodes v) = Inr v'"
      "merge_kids r = Inr ys" "ws = v' # ys"
      using "6.prems" unfolding merge_kids.simps(2) [of v r] if_not_P [OF False] sbind_Inr_iff by blast
    have "merge_rel r ys" using "6.IH"(3) [OF False] ys by simp
    moreover have "flat_text v' = flat_text v \<and> merged v' \<and> same_kind v v'"
      using "6.IH"(2) [OF False] ys(1) by (cases v) auto
    ultimately show ?thesis using merge_rel_Cons [of r ys v' v] False by (simp add: ys(3))
  qed
qed (auto simp: same_kind_def merge_rel_def first_same_def split: if_splits)

section \<open>Well-formed Markdown trees become well-formed HTML\<close>

lemma attrs_of_cons:
  "attrs_of [] = (None, [])"
  "attrs_of (a # ys) = (if is_attr a then (Some (own_props a), ys) else (None, a # ys))"
  by (auto simp: attrs_of_def extract_attr_is_attr)

lemma attrs_of_sub: "attrs_of ys = (attrs, kids) \<Longrightarrow> x \<in> set kids \<Longrightarrow> x \<in> set ys"
  by (cases ys) (auto simp: attrs_of_cons split: if_splits)

text \<open>
  \<open>wf_md P\<close>: a node has the attributes that its kind needs, and the reference keys satisfy \<open>P\<close>. The
  predicate for the conversion is \<open>ref_ok\<close>: a link resolves to a recorded definition, or to nothing, so that no inherited
  property has its name.
\<close>

definition ref_ok :: "jval \<Rightarrow> string \<Rightarrow> bool" where
  "ref_ok references k = (case references of
     JO rs \<Rightarrow> (case map_of rs k of
         Some (JO r) \<Rightarrow> is_str (oget r ''href'') \<and> (oget r ''title'' = JU \<or> is_str (oget r ''title''))
       | Some _ \<Rightarrow> False
       | None \<Rightarrow> k \<notin> set object_proto)
   | _ \<Rightarrow> False)"

definition str_attrs :: "string list \<Rightarrow> (string \<times> jval) list \<Rightarrow> bool" where
  "str_attrs ks kvs \<longleftrightarrow> list_all (\<lambda>(k, v). k \<in> set ks \<or> is_str v) kvs"

definition node_ok :: "(string \<Rightarrow> bool) \<Rightarrow> jval \<Rightarrow> (string \<times> jval) list option \<Rightarrow> bool" where
  "node_ok P tag attrs = (case attrs of
     None \<Rightarrow> tag \<notin> set (map JS [''header'', ''img'', ''link_ref'', ''img_ref''])
   | Some kvs \<Rightarrow>
       if tag = JS ''header'' then str_attrs [''level''] kvs
       else if tag = JS ''markdown'' then str_attrs [''references''] kvs
       else if tag = JS ''img'' then str_attrs [] kvs \<and> is_str (oget kvs ''href'')
       else if tag \<in> {JS ''link_ref'', JS ''img_ref''} then
         str_attrs [] kvs \<and> is_str (oget kvs ''original'') \<and> P (jstr (oget kvs ''ref''))
       else str_attrs [] kvs)"

function wf_md :: "(string \<Rightarrow> bool) \<Rightarrow> jval \<Rightarrow> bool" where
  "wf_md P v = (case v of
     JS s \<Rightarrow> True
   | JA (tag # ys) \<Rightarrow> (let (attrs, kids) = attrs_of ys in
       is_str tag \<and> node_ok P tag attrs \<and> list_all (wf_md P) kids)
   | _ \<Rightarrow> False)"
  by pat_completeness auto
termination
proof (relation "measure (\<lambda>(P, v). size v)", goal_cases)
  case (2 P v xs tag ys p attrs kids x)
  then have "x \<in> set ys" using attrs_of_sub by metis
  then show ?case using size_mem_JA [of x xs] 2 by simp
qed simp

declare wf_md.simps [simp del]

lemma wf_md_simps [simp]:
  "wf_md r (JS s)" "\<not> wf_md r JU" "\<not> wf_md r (JO kvs)" "\<not> wf_md r (JClose md n)" "\<not> wf_md r (JN i)"
  "\<not> wf_md r JF" "\<not> wf_md r (JA [])"
  "wf_md r (JA (tag # ys)) = (let (attrs, kids) = attrs_of ys in
     is_str tag \<and> node_ok r tag attrs \<and> list_all (wf_md r) kids)"
  by (simp_all add: wf_md.simps)

lemma wf_md_no_attr: "wf_md r v \<Longrightarrow> \<not> is_attr v"
  by (cases v) (auto simp: is_attr_def)

lemma str_attrs_odel: "str_attrs (k # ks) kvs \<Longrightarrow> str_attrs ks (odel kvs k)"
  by (induction kvs) (auto simp: str_attrs_def)

lemma str_attrs_odel': "str_attrs ks kvs \<Longrightarrow> str_attrs ks (odel kvs k)"
  by (induction kvs) (auto simp: str_attrs_def)

lemma str_attrs_oset: "str_attrs ks kvs \<Longrightarrow> is_str v \<Longrightarrow> str_attrs ks (oset kvs k v)"
  by (induction kvs) (auto simp: str_attrs_def)

lemma convert_ref_ok:
  assumes "str_attrs [] kvs" and "is_str (oget kvs ''original'')"
    and "ref_ok references (jstr (oget kvs ''ref''))"
  shows "\<exists>r. convert_ref references html slot (Some kvs) kids = Inr r \<and>
    (case r of Inl v \<Rightarrow> is_str v | Inr (tag, attrs, ks) \<Rightarrow> tag = JS html \<and> ks = kids \<and>
       (\<exists>kvs'. attrs = Some kvs' \<and> str_attrs [] kvs'))"
proof -
  from assms(3) obtain rs where rs: "references = JO rs"
    by (cases references) (auto simp: ref_ok_def)
  let ?k = "jstr (oget kvs ''ref'')"
  show ?thesis
  proof (cases "map_of rs ?k")
    case None
    then show ?thesis using assms by (auto simp: convert_ref_def rs oget_def [of rs] ref_ok_def)
  next
    case (Some v)
    then obtain r where v: "v = JO r" "is_str (oget r ''href'')"
      "oget r ''title'' = JU \<or> is_str (oget r ''title'')"
      using assms(3) by (cases v) (auto simp: ref_ok_def rs)
    have "str_attrs [] (odel (if truthy (oget r ''title'')
        then oset (oset (odel kvs ''ref'') slot (oget r ''href'')) ''title'' (oget r ''title'')
        else oset (odel kvs ''ref'') slot (oget r ''href'')) ''original'')"
      using v assms(1) by (auto intro!: str_attrs_odel' str_attrs_oset)
    then show ?thesis using v(1) Some by (simp add: convert_ref_def rs oget_def [of rs] Let_def)
  qed
qed

lemma convert_node_ok:
  assumes "node_ok (ref_ok references) tag attrs" and "is_str tag"
  shows "\<exists>r. convert_node references tag attrs kids = Inr r \<and>
    (case r of Inl v \<Rightarrow> is_str v | Inr (tag', attrs', ks) \<Rightarrow> is_str tag' \<and>
       (ks = kids \<or> tag = JS ''code_block'' \<and> ks = [JA (JS ''code'' # kids)]) \<and>
       (\<forall>kvs. attrs' = Some kvs \<longrightarrow> str_attrs [] kvs))"
proof (cases "tag \<in> {JS ''link_ref'', JS ''img_ref''}")
  case True
  then obtain kvs where kvs: "attrs = Some kvs" "str_attrs [] kvs" "is_str (oget kvs ''original'')"
    "ref_ok references (jstr (oget kvs ''ref''))"
    using assms by (cases attrs) (auto simp: node_ok_def)
  show ?thesis
    using True convert_ref_ok [OF kvs(2-4), of "''a''" "''href''" kids]
      convert_ref_ok [OF kvs(2-4), of "''img''" "''src''" kids]
    by (auto simp: convert_node_def kvs(1) split: sum.splits)
next
  case False
  then show ?thesis
    using assms by (auto simp: convert_node_def node_ok_def str_attrs_odel str_attrs_odel' str_attrs_oset
        split: option.splits if_splits)
qed

subsection \<open>The fuel: twice the depth of the tree\<close>

fun jdepth :: "jval \<Rightarrow> nat" where
  "jdepth (JA xs) = Suc (foldr max (map jdepth xs) 0)"
| "jdepth _ = 0"

lemma jdepth_mem: "x \<in> set xs \<Longrightarrow> jdepth x < jdepth (JA xs)"
  by (induction xs) (auto simp: less_Suc_eq_le le_max_iff_disj)

lemma jdepth_le: "(\<And>x. x \<in> set xs \<Longrightarrow> jdepth x < n) \<Longrightarrow> 0 < n \<Longrightarrow> jdepth (JA xs) \<le> n"
proof (induction xs)
  case (Cons x xs)
  then have "jdepth x < n" "jdepth (JA xs) \<le> n" by simp_all
  then show ?case by simp
qed simp

definition convert_cost :: "jval \<Rightarrow> nat" where
  "convert_cost v = 2 * jdepth v + (case v of JA (t # _) \<Rightarrow> if t = JS ''code_block'' then 1 else 0 | _ \<Rightarrow> 0)"

lemma convert_cost_kids:
  assumes "attrs_of ys = (attrs, kids)" and "k \<in> set kids"
  shows "convert_cost k < 2 * jdepth (JA (tag # ys))"
proof -
  have "k \<in> set (tag # ys)" using attrs_of_sub [OF assms] by simp
  then have "jdepth k < jdepth (JA (tag # ys))" by (rule jdepth_mem)
  then show ?thesis by (auto simp: convert_cost_def split: jval.splits list.splits)
qed

lemma convert_cost_code:
  assumes "attrs_of ys = (attrs, kids)"
  shows "convert_cost (JA (JS ''code'' # kids)) < convert_cost (JA (JS ''code_block'' # ys))"
proof -
  have "jdepth (JA (JS ''code'' # kids)) \<le> jdepth (JA (JS ''code_block'' # ys))"
    using attrs_of_sub [OF assms] jdepth_mem [of _ "JS ''code_block'' # ys"]
    by (intro jdepth_le) auto
  then show ?thesis by (simp add: convert_cost_def)
qed

lemma wf_html_node:
  assumes "is_str tag" and "\<forall>kvs. attrs = Some kvs \<longrightarrow> str_attrs [] kvs" and "list_all wf_html ks"
  shows "wf_html (JA (tag # attrs_node attrs @ ks))"
proof -
  obtain t where t: "tag = JS t" using assms(1) by (cases tag) auto
  have ks: "wf_html (JA (JS t # ks))" using assms(3) by (cases ks; cases "hd ks") auto
  show ?thesis
  proof (cases "\<exists>kv kvs. attrs = Some (kv # kvs)")
    case True
    then show ?thesis using assms by (auto simp: t attrs_node_def str_attrs_def)
  next
    case False
    then have "attrs_node attrs = []" by (auto simp: attrs_node_def split: option.splits list.splits)
    then show ?thesis using ks t by simp
  qed
qed

lemma convert_wf:
  "wf_md (ref_ok references) t \<Longrightarrow> convert_cost t < fuel \<Longrightarrow>
     \<exists>h. convert_tree_to_html fuel None references t = Inr h \<and> wf_html h"
proof (induction fuel arbitrary: t)
  case (Suc fuel)
  show ?case
  proof (cases "is_str t")
    case True
    then show ?thesis by (cases t) auto
  next
    case False
    then obtain tag ys where t: "t = JA (tag # ys)" using Suc.prems(1) by (cases t; cases "case t of JA xs \<Rightarrow> xs"; auto)
    obtain attrs kids where ak: "attrs_of ys = (attrs, kids)" by (cases "attrs_of ys")
    have w: "is_str tag" "node_ok (ref_ok references) tag attrs" "list_all (wf_md (ref_ok references)) kids"
      using Suc.prems(1) by (simp_all add: t ak)
    obtain r where r: "convert_node references tag attrs kids = Inr r"
      and ok: "case r of Inl v \<Rightarrow> is_str v | Inr (tag', attrs', ks) \<Rightarrow> is_str tag' \<and>
        (ks = kids \<or> tag = JS ''code_block'' \<and> ks = [JA (JS ''code'' # kids)]) \<and>
        (\<forall>kvs. attrs' = Some kvs \<longrightarrow> str_attrs [] kvs)"
      using convert_node_ok [OF w(2,1)] by blast
    show ?thesis
    proof (cases r)
      case (Inl v)
      then show ?thesis using ok r by (cases v) (auto simp: t ak)
    next
      case (Inr p)
      obtain tag' attrs' ks where p: "p = (tag', attrs', ks)" by (cases p)
      have ok': "is_str tag'" "\<forall>kvs. attrs' = Some kvs \<longrightarrow> str_attrs [] kvs"
        "ks = kids \<or> tag = JS ''code_block'' \<and> ks = [JA (JS ''code'' # kids)]"
        using ok by (simp_all add: Inr p)
      have "wf_md (ref_ok references) k \<and> convert_cost k < fuel" if k: "k \<in> set ks" for k
        using ok'(3)
      proof
        assume "ks = kids"
        then show ?thesis
          using w(3) k convert_cost_kids [OF ak, of k tag] Suc.prems(2) t
          by (auto simp: list_all_iff convert_cost_def)
      next
        assume c: "tag = JS ''code_block'' \<and> ks = [JA (JS ''code'' # kids)]"
        have "attrs_of kids = (None, kids)"
          using w(3) by (cases kids) (auto simp: attrs_of_cons dest: wf_md_no_attr)
        then have "wf_md (ref_ok references) k" using c k w(3) by (simp add: node_ok_def)
        then show ?thesis
          using c k convert_cost_code [OF ak] Suc.prems(2) t by simp
      qed
      then have "\<forall>k \<in> set ks. \<exists>h. convert_tree_to_html fuel None references k = Inr h \<and> wf_html h"
        using Suc.IH by blast
      then obtain hs where "smap (convert_tree_to_html fuel None references) ks = Inr hs" "list_all wf_html hs"
        using smap_total_all by blast
      then show ?thesis
        using r Inr p wf_html_node [OF ok'(1,2), of hs] by (simp add: t ak)
    qed
  qed
qed simp

subsection \<open>Merging keeps the tree well formed\<close>

lemma wf_html_JA_iff: "wf_html (JA xs) \<longleftrightarrow> xs \<noteq> [] \<and> is_str (hd xs) \<and>
    list_all wf_html (drop (kids_from xs) xs) \<and>
    (kids_from xs = 2 \<longrightarrow> (\<exists>kvs. xs ! 1 = JO kvs \<and> str_attrs [] kvs))"
proof -
  consider "xs = []" | t where "xs = [t]" | t a r where "xs = t # a # r" by (metis list.exhaust)
  then show ?thesis
  proof cases
    case 2
    then show ?thesis by (cases t) (auto simp: kids_from_cons)
  next
    case 3
    then show ?thesis
      by (cases t; cases a) (auto simp: kids_from_cons is_attr_def str_attrs_def numeral_2_eq_2)
  qed simp
qed

lemma merge_wf:
  "wf_html v \<Longrightarrow> \<not> is_str v \<Longrightarrow> \<exists>w. merge_text_nodes v = Inr w \<and> wf_html w"
  "list_all wf_html vs \<Longrightarrow> \<exists>ws. merge_kids vs = Inr ws \<and> list_all wf_html ws"
proof (induction v and vs rule: merge_text_nodes_merge_kids.induct)
  case (3 xs)
  let ?i = "kids_from xs"
  have wf: "xs \<noteq> []" "is_str (hd xs)" "list_all wf_html (drop ?i xs)"
    "?i = 2 \<longrightarrow> (\<exists>kvs. xs ! 1 = JO kvs \<and> str_attrs [] kvs)"
    using "3.prems"(1) by (simp_all add: wf_html_JA_iff)
  then obtain ys where ys: "merge_kids (drop ?i xs) = Inr ys" "list_all wf_html ys"
    using "3.IH" [of ?i] by (auto simp: kids_from_def)
  have f: "first_same (drop ?i xs) ys" using merge_spec(2) [OF ys(1)] by (simp add: merge_rel_def)
  have k: "kids_from (take ?i xs @ ys) = ?i" by (rule kids_from_merge [OF f])
  have d: "drop ?i (take ?i xs @ ys) = ys"
    using f by (cases "length xs \<le> ?i") (auto simp: first_same_def)
  have i: "?i = 1 \<or> ?i = 2" by (simp add: kids_from_def)
  have "1 < length xs" if "?i = 2"
    using that by (cases xs; cases "tl xs") (auto simp: kids_from_cons)
  then have "wf_html (JA (take ?i xs @ ys))"
    using wf ys(2) i unfolding wf_html_JA_iff k d
    by (auto simp: hd_append nth_append hd_take)
  moreover have "merge_text_nodes (JA xs) = Inr (JA (take ?i xs @ ys))"
    using ys(1) by (simp add: kids_from_def Let_def)
  ultimately show ?case by blast
next
  case (6 v r)
  show ?case
  proof (cases "is_str v \<and> r \<noteq> [] \<and> is_str (hd r)")
    case True
    then show ?thesis
      using "6.IH"(1) "6.prems" by (auto simp: merge_kids.simps(2) [of v r] neq_Nil_conv)
  next
    case False
    obtain v' where "(if is_str v then Inr v else merge_text_nodes v) = Inr v'" "wf_html v'"
      using "6.IH"(2) [OF False] "6.prems" by (cases "is_str v") auto
    moreover obtain ys where "merge_kids r = Inr ys" "list_all wf_html ys"
      using "6.IH"(3) [OF False] "6.prems" calculation(1) by auto
    ultimately show ?thesis
      by (intro exI [of _ "v' # ys"]) (simp add: merge_kids.simps(2) [of v r] if_not_P [OF False])
  qed
qed auto

subsection \<open>The conversion always returns\<close>

lemma jget_err: "jget v k = Inl e \<Longrightarrow> e = TypeErr"
  by (cases v) auto

lemma convert_ref_kids:
  "convert_ref references html slot attrs kids = Inl e \<Longrightarrow> e = TypeErr"
  "convert_ref references html slot attrs kids = Inr (Inr (tag', attrs', ks)) \<Longrightarrow> ks = kids"
  by (auto simp: convert_ref_def sbind_Inl_iff sbind_Inr_iff Let_def dest: jget_err
      split: option.splits if_splits)

lemma convert_node_kids:
  "convert_node references tag attrs kids = Inl e \<Longrightarrow> e = TypeErr"
  "convert_node references tag attrs kids = Inr (Inr (tag', attrs', ks)) \<Longrightarrow>
     ks = kids \<or> tag = JS ''code_block'' \<and> ks = [JA (JS ''code'' # kids)]"
  by (auto simp: convert_node_def sbind_Inl_iff sbind_Inr_iff dest: jget_err convert_ref_kids
      split: option.splits if_splits)

lemma smap_Inl: "smap f xs = Inl e \<Longrightarrow> \<exists>x \<in> set xs. f x = Inl e"
  by (induction xs) (auto simp: sbind_Inl_iff)

lemma convert_returns:
  "convert_cost t < fuel \<Longrightarrow> convert_tree_to_html fuel None references t \<noteq> Inl NoFuel"
proof (induction fuel arbitrary: t)
  case (Suc fuel)
  show ?case
  proof (cases "\<exists>tag ys. t = JA (tag # ys)")
    case True
    then obtain tag ys where t: "t = JA (tag # ys)" by blast
    obtain attrs kids where ak: "attrs_of ys = (attrs, kids)" by (cases "attrs_of ys")
    have False if err: "convert_tree_to_html (Suc fuel) None references t = Inl NoFuel"
    proof -
      from err obtain tag' attrs' ks where
        ks: "convert_node references tag attrs kids = Inr (Inr (tag', attrs', ks))"
        and sm: "smap (convert_tree_to_html fuel None references) ks = Inl NoFuel"
        by (cases "convert_node references tag attrs kids"; cases "projr (convert_node references tag attrs kids)")
          (auto simp: t ak sbind_Inl_iff dest: convert_node_kids(1))
      obtain k where k: "k \<in> set ks" "convert_tree_to_html fuel None references k = Inl NoFuel"
        using smap_Inl [OF sm] by blast
      have "convert_cost k < fuel"
        using convert_node_kids(2) [OF ks]
      proof
        assume "ks = kids"
        then show ?thesis
          using k(1) convert_cost_kids [OF ak, of k tag] Suc.prems t by (auto simp: convert_cost_def)
      next
        assume "tag = JS ''code_block'' \<and> ks = [JA (JS ''code'' # kids)]"
        then show ?thesis using k(1) convert_cost_code [OF ak] Suc.prems t by simp
      qed
      then show False using Suc.IH k(2) by blast
    qed
    then show ?thesis by blast
  qed (cases t; cases "case t of JA xs \<Rightarrow> xs"; auto)
qed simp

end
