(* ===== verification/MdInline.thy ===== *)
theory MdInline
  imports MdMeta MdConvert
begin

text \<open>
  The inline rules of the dialects of \<open>src/src/qt/res/js/markdown.js\<close>. A rule gets the rest of the
  text and returns how many characters it used and the nodes it produced; the two stacks of open
  emphasis are passed along. The rules call each other: \<open>one_element\<close> takes fuel, one unit per nested
  call, and each loop takes as much as the text has characters. Running out is \<open>Inl NoFuel\<close>; the last
  section shows that the fuel chosen here never runs out.
\<close>

type_synonym elem = "nat \<times> jval list"

abbreviation BS :: char where "BS \<equiv> CHR 0x5C"

section \<open>The patterns of a dialect\<close>

text \<open>The property names of the inline objects, in the order in which \<open>for in\<close> visits them.\<close>

definition gruber_inline :: "string list" where
  "gruber_inline = [''__oneElement__'', ''__call__'', '']'', ''}'', ''__escape__'', [BS], ''!['', ''['',
     ''<'', [CHR 0x60], [CHR 0x20, CHR 0x20, NL], ''**'', ''__'', ''*'', ''_'']"

definition maruku_inline :: "string list" where
  "maruku_inline = [''{:'', ''__escape__''] @ filter (\<lambda>i. i \<noteq> ''__escape__'') gruber_inline @ [''__patterns__'']"

text \<open>Names of the form \<open>__foo__\<close> are reserved.\<close>

definition reserved_re :: regex where
  "reserved_re = sq [Bol False, lit ''__'', star dot, lit ''__'', Eol False]"

text \<open>
  The source text that the code builds escapes every special character of a name, so that the pattern
  it compiles to matches the name literally.
\<close>

definition buildInlinePatterns :: "string list \<Rightarrow> regex" where
  "buildInlinePatterns d = al (map (\<lambda>i. lit i) (filter (\<lambda>i. \<not> test reserved_re i) d))"

definition inline_patterns :: "dialect \<Rightarrow> regex" where
  "inline_patterns d =
     buildInlinePatterns (case d of Maruku \<Rightarrow> maruku_inline | _ \<Rightarrow> gruber_inline)"

section \<open>Plain rules\<close>

definition escape_re :: "dialect \<Rightarrow> regex" where
  "escape_re d = (case d of
     Maruku \<Rightarrow> sq [Bol False, chr BS, oneof (BS # ''`*_{}[]()#+.!-|:''), chr (CHR 0x7E)]
   | _ \<Rightarrow> sq [Bol False, chr BS, oneof (BS # ''`*_{}[]()#+.!-'')])"

definition escaped :: "dialect \<Rightarrow> string \<Rightarrow> elem" where
  "escaped d txt =
     (if test (escape_re d) txt then (2, [JS (char_at txt 1)]) else (1, [JS [BS]]))"

definition autolink_re :: regex where
  "autolink_re = sq [Bol False, chr (CHR 0x3C),
     al [Gp 1 (sq [Gp 2 (al [sq [lit ''http'', opt (chr (CHR 0x73))], lit ''ftp'', lit ''mailto'']),
                   chr (CHR 0x3A), plus1 (noneof ''>'')]),
         Gp 3 (sq [starl dot, chr (CHR 0x40), starl dot, chr (CHR 0x2E),
                   plus1 (Chs (\<lambda>c. is_upper c \<or> is_lower c))])],
     chr (CHR 0x3E)]"

definition autoLink :: "string \<Rightarrow> elem" where
  "autoLink txt = (case exec autolink_re txt of
     Some m \<Rightarrow>
       if m_str m 3 \<noteq> [] then
         (length (m_all m), [JA [JS ''link'', JO [(''href'', JS (''mailto:'' @ m_str m 3))], JS (m_str m 3)]])
       else if m_grp m 2 = Some ''mailto'' then
         (length (m_all m), [JA [JS ''link'', JO [(''href'', JS (m_str m 1))],
            JS (drop (length ''mailto:'') (m_str m 1))]])
       else (length (m_all m), [JA [JS ''link'', JO [(''href'', JS (m_str m 1))], JS (m_str m 1)]])
   | None \<Rightarrow> (1, [JS ''<'']))"

definition code_re :: regex where
  "code_re = sq [Gp 1 (plus1 (chr (CHR 0x60))), Gp 2 (sq [Gp 3 (starl anych), Bk 1])]"

definition inlineCode :: "string \<Rightarrow> elem" where
  "inlineCode txt = (case exec code_re txt of
     Some m \<Rightarrow> if m_str m 2 \<noteq> [] then
         (length (m_str m 1) + length (m_str m 2), [JA [JS ''inlinecode'', JS (m_str m 3)]])
       else (1, [JS [CHR 0x60]])
   | None \<Rightarrow> (1, [JS [CHR 0x60]]))"

definition lineBreak :: elem where
  "lineBreak = (3, [JA [JS ''linebreak'']])"

section \<open>The loops\<close>

text \<open>Text behind text is appended to it.\<close>

definition add_node :: "jval list \<Rightarrow> jval \<Rightarrow> jval list" where
  "add_node out x =
     (if is_str x \<and> out \<noteq> [] \<and> is_str (last out) then butlast out @ [JS (jstr (last out) @ jstr x)]
      else out @ [x])"

type_synonym one_elem = "string \<Rightarrow> jval list \<Rightarrow> ist \<Rightarrow> jserr + elem \<times> jval list \<times> ist"

fun inline_loop :: "nat \<Rightarrow> one_elem \<Rightarrow> string \<Rightarrow> jval list \<Rightarrow> ist \<Rightarrow> jserr + jval list \<times> ist" where
  "inline_loop n oe txt out st =
     (if txt = [] then Inr (out, st)
      else case n of
        0 \<Rightarrow> Inl NoFuel
      | Suc n' \<Rightarrow> sbind (oe txt out st) (\<lambda>((k, nodes), out', st').
          inline_loop n' oe (drop k txt) (foldl add_node out' nodes) st'))"

declare inline_loop.simps [simp del]

definition inline_call :: "one_elem \<Rightarrow> string \<Rightarrow> ist \<Rightarrow> jserr + jval list \<times> ist" where
  "inline_call oe txt st = inline_loop (length txt) oe txt [] st"

text \<open>\<open>inline_until_char\<close>: up to the character \<open>want\<close>; \<open>None\<close> when the text ends before it.\<close>

fun until_loop ::
  "nat \<Rightarrow> one_elem \<Rightarrow> char \<Rightarrow> string \<Rightarrow> nat \<Rightarrow> jval list \<Rightarrow> ist \<Rightarrow> jserr + (nat \<times> jval list) option \<times> ist" where
  "until_loop n oe want txt consumed nodes st =
     (if char_at txt consumed = [want] then Inr (Some (consumed + 1, nodes), st)
      else if consumed \<ge> length txt then Inr (None, st)
      else case n of
        0 \<Rightarrow> Inl NoFuel
      | Suc n' \<Rightarrow> sbind (oe (drop consumed txt) [] st) (\<lambda>((k, ns), _, st').
          until_loop n' oe want txt (consumed + k) (nodes @ ns) st'))"

declare until_loop.simps [simp del]

definition inline_until_char ::
  "one_elem \<Rightarrow> string \<Rightarrow> char \<Rightarrow> ist \<Rightarrow> jserr + (nat \<times> jval list) option \<times> ist" where
  "inline_until_char oe txt want st = until_loop (length txt) oe want txt 0 [] st"

section \<open>Links and images\<close>

definition blanks :: regex where "blanks = star (oneof [CHR 0x20, CHR 0x09])"

definition quotes :: string where "quotes = [CHR 0x22, CHR 0x27]"

definition strip_angle :: "string \<Rightarrow> string" where
  "strip_angle s =
     (if s \<noteq> [] \<and> hd s = CHR 0x3C \<and> last s = CHR 0x3E then substring 1 (length s - 1) s else s)"

definition title_re :: "nat \<Rightarrow> nat \<Rightarrow> regex" where
  "title_re q t = opt (sq [plus1 (oneof [CHR 0x20, CHR 0x09]), Gp q (oneof quotes), Gp t (starl dot), Bk q])"

definition image_re :: regex where
  "image_re = sq [Bol False, lit ''!['', Gp 1 (starl dot), lit '']'', blanks, lit ''('', blanks,
     Gp 2 (starl (noneof [CHR 0x22, CHR 0x29])), title_re 3 4, blanks, lit '')'']"

definition image_ref_re :: regex where
  "image_ref_re = sq [Bol False, lit ''!['', Gp 1 (starl dot), lit '']'', blanks, lit ''['',
     Gp 2 (starl dot), lit '']'']"

definition link_re :: regex where
  "link_re = sq [Bol False, star sp, lit ''('', blanks, Gp 1 (star (noneof quotes)), title_re 2 3, blanks,
     lit '')'']"

definition link_ref_re :: regex where
  "link_ref_re = sq [Bol False, star sp, lit ''['', Gp 1 (starl dot), lit '']'']"

text \<open>\<open>__call__(url, /\\/)[0] || ""\<close>: only the escapes are processed. \<open>ec\<close> is that call.\<close>

definition first_or_empty :: "jval list \<Rightarrow> jval" where
  "first_or_empty out = (case out of v # _ \<Rightarrow> if truthy v then v else JS [] | [] \<Rightarrow> JS [])"

type_synonym escape_call = "string \<Rightarrow> ist \<Rightarrow> jserr + jval list \<times> ist"

definition image_rule :: "escape_call \<Rightarrow> string \<Rightarrow> ist \<Rightarrow> jserr + elem \<times> ist" where
  "image_rule ec txt st = (case exec image_re txt of
     Some m \<Rightarrow>
       sbind (ec (strip_angle (m_str m 2)) st) (\<lambda>(out, st').
         let attrs = [(''alt'', JS (m_str m 1)), (''href'', first_or_empty out)];
             attrs = (case m_grp m 4 of Some t \<Rightarrow> oset attrs ''title'' (JS t) | None \<Rightarrow> attrs)
         in Inr ((length (m_all m), [JA [JS ''img'', JO attrs]]), st'))
   | None \<Rightarrow>
       (case exec image_ref_re txt of
          Some m \<Rightarrow> Inr ((length (m_all m), [JA [JS ''img_ref'',
              JO [(''alt'', JS (m_str m 1)), (''ref'', JS (lower (m_str m 2))),
                  (''original'', JS (m_all m))]]]), st)
        | None \<Rightarrow> Inr ((2, [JS ''!['']), st)))"

text \<open>
  Where the parenthesis that opened the url is closed: \<open>len\<close> is the index of the character in the url
  and \<open>open\<close> the number of parentheses that are open.
\<close>

fun paren_scan :: "string \<Rightarrow> nat \<Rightarrow> nat \<Rightarrow> nat option" where
  "paren_scan [] len opn = None"
| "paren_scan (c # cs) len opn =
     (if c = CHR 0x28 then paren_scan cs (len + 1) (opn + 1)
      else if c = CHR 0x29 then (if opn - 1 = 0 then Some len else paren_scan cs (len + 1) (opn - 1))
      else paren_scan cs (len + 1) opn)"

definition balance_url :: "string \<Rightarrow> nat \<Rightarrow> string \<times> nat" where
  "balance_url url consumed = (case paren_scan url 0 1 of
     Some len \<Rightarrow> (take len url, consumed - (length url - len))
   | None \<Rightarrow> (url, consumed))"

definition link_rule :: "one_elem \<Rightarrow> escape_call \<Rightarrow> string \<Rightarrow> ist \<Rightarrow> jserr + elem \<times> ist" where
  "link_rule oe ec orig st =
     sbind (inline_until_char oe (drop 1 orig) (CHR 0x5D) st) (\<lambda>(res, st).
       case res of
         None \<Rightarrow> Inr ((1, [JS ''['']), st)
       | Some (n, children) \<Rightarrow>
           let consumed = 1 + n; txt = drop consumed orig in
           (case exec link_re txt of
              Some m \<Rightarrow>
                let consumed = consumed + length (m_all m);
                    url = strip_angle (m_str m 1);
                    (url, consumed) = (if m_str m 3 = [] then balance_url url consumed else (url, consumed))
                in sbind (ec url st) (\<lambda>(out, st).
                     let attrs = [(''href'', first_or_empty out)];
                         attrs = (case m_grp m 3 of Some t \<Rightarrow> oset attrs ''title'' (JS t) | None \<Rightarrow> attrs)
                     in Inr ((consumed, [JA (JS ''link'' # JO attrs # children)]), st))
            | None \<Rightarrow>
                (case exec link_ref_re txt of
                   Some m \<Rightarrow>
                     let consumed = consumed + length (m_all m);
                         ref = (if m_str m 1 \<noteq> [] then m_str m 1 else jstr (JA children))
                     in Inr ((consumed, [JA (JS ''link_ref'' #
                          JO [(''ref'', JS (lower ref)), (''original'', JS (take consumed orig))] # children)]), st)
                 | None \<Rightarrow>
                     (case children of
                        [JS c] \<Rightarrow> Inr ((consumed, [JA [JS ''link_ref'',
                          JO [(''ref'', JS (lower c)), (''original'', JS (take consumed orig))], JS c]]), st)
                      | _ \<Rightarrow> Inr ((1, [JS ''['']), st)))))"

section \<open>Emphasis\<close>

text \<open>
  \<open>strong_em(tag, md)\<close>: the two slots of the state are those of \<open>tag\<close> and the other one. The instance
  of \<open>CloseTag\<close> is \<open>JClose md n\<close>; \<open>n\<close> is what remains of the text behind the delimiter.
\<close>

definition slot :: "string \<Rightarrow> ist \<Rightarrow> string list" where
  "slot tag st = (if tag = ''strong'' then strong_st st else em_st st)"

definition set_slot :: "string \<Rightarrow> string list \<Rightarrow> ist \<Rightarrow> ist" where
  "set_slot tag xs st = (if tag = ''strong'' then st\<lparr>strong_st := xs\<rparr> else st\<lparr>em_st := xs\<rparr>)"

definition close_of :: "string \<Rightarrow> jval list \<Rightarrow> nat option" where
  "close_of md res = (if res = [] then None
     else case last res of JClose md' n \<Rightarrow> if md' = md then Some n else None | _ \<Rightarrow> None)"

definition strong_em ::
  "string \<Rightarrow> string \<Rightarrow> (string \<Rightarrow> ist \<Rightarrow> jserr + jval list \<times> ist) \<Rightarrow> string \<Rightarrow> ist \<Rightarrow> jserr + elem \<times> ist" where
  "strong_em tag md processInline txt st =
     (if slot tag st \<noteq> [] \<and> hd (slot tag st) = md then
        Inr ((length txt, [JClose md (length txt - length md)]), set_slot tag (tl (slot tag st)) st)
      else
        sbind (processInline (drop (length md) txt) (set_slot tag (md # slot tag st) st)) (\<lambda>(res, st').
          case close_of md res of
            Some len_after \<Rightarrow>
              Inr ((length txt - len_after, [JA (JS tag # butlast res)]), set_slot tag (tl (slot tag st')) st')
          | None \<Rightarrow> Inr ((length md, [JS md]), st)))"

section \<open>Meta data behind an element\<close>

text \<open>\<open>extract_attr(node)\<close>, made when it is missing, with the pairs of \<open>meta\<close> added.\<close>

definition add_attrs :: "jval \<Rightarrow> (string \<times> jval) list \<Rightarrow> jserr + jval" where
  "add_attrs node meta = (case node of
     JA xs \<Rightarrow>
       (case extract_attr node of
          JU \<Rightarrow> Inr (JA (take 1 xs @ [JO (foldl (\<lambda>kvs (k, v). oset kvs k v) [] meta)] @ drop 1 xs))
        | JO kvs \<Rightarrow> Inr (JA (xs[1 := JO (foldl (\<lambda>kvs (k, v). oset kvs k v) kvs meta)]))
        | _ \<Rightarrow> Inr node)
   | _ \<Rightarrow> Inl TypeErr)"

definition inline_meta_re :: regex where
  "inline_meta_re = sq [Bol False, lit ''{:'', star sp,
     Gp 1 (star (al [lit [BS, CHR 0x7D], noneof ''}''])), star sp, lit ''}'']"

definition inline_meta :: "string \<Rightarrow> jval list \<Rightarrow> jserr + elem \<times> jval list" where
  "inline_meta txt out =
     (if out = [] then Inr ((2, [JS ''{:'']), out)
      else if is_str (last out) then Inr ((2, [JS ''{:'']), out)
      else case exec inline_meta_re txt of
        None \<Rightarrow> Inr ((2, [JS ''{:'']), out)
      | Some m \<Rightarrow>
          sbind (add_attrs (last out) (processMetaHash (m_str m 1))) (\<lambda>v.
            Inr ((length (m_all m), [JS []]), butlast out @ [v])))"

section \<open>One element\<close>

text \<open>
  The rule for a delimiter; a delimiter without a rule, and a rule without a result (\<open>]\<close> and \<open>}\<close>),
  give the delimiter as text. \<open>oe\<close> and \<open>ec\<close> are the recursive calls.
\<close>

definition inline_rule ::
  "dialect \<Rightarrow> one_elem \<Rightarrow> escape_call \<Rightarrow> string \<Rightarrow> string \<Rightarrow> jval list \<Rightarrow> ist \<Rightarrow>
     jserr + elem \<times> jval list \<times> ist" where
  "inline_rule d oe ec key txt prev st =
     (let keep = (\<lambda>r. sbind r (\<lambda>(e, st'). Inr (e, prev, st')));
          call = inline_call oe in
      if key = [BS] then Inr (escaped d txt, prev, st)
      else if key = ''!['' then keep (image_rule ec txt st)
      else if key = ''['' then keep (link_rule oe ec txt st)
      else if key = ''<'' then Inr (autoLink txt, prev, st)
      else if key = [CHR 0x60] then Inr (inlineCode txt, prev, st)
      else if key = [CHR 0x20, CHR 0x20, NL] then Inr (lineBreak, prev, st)
      else if key = ''**'' then keep (strong_em ''strong'' key call txt st)
      else if key = ''__'' then keep (strong_em ''strong'' key call txt st)
      else if key = ''*'' then keep (strong_em ''em'' key call txt st)
      else if key = ''_'' then keep (strong_em ''em'' key call txt st)
      else if key = ''{:'' \<and> d = Maruku then sbind (inline_meta txt prev) (\<lambda>(e, prev'). Inr (e, prev', st))
      else Inr ((length key, [JS key]), prev, st))"

fun one_element :: "nat \<Rightarrow> dialect \<Rightarrow> regex option \<Rightarrow> one_elem" where
  "one_element 0 d patterns txt prev st = Inl NoFuel"
| "one_element (Suc fuel) d patterns txt prev st =
     (case exec (sq [Gp 1 (starl anych),
                     Gp 2 (case patterns of None \<Rightarrow> inline_patterns d | Some p \<Rightarrow> p)]) txt of
        None \<Rightarrow> Inr ((length txt, [JS txt]), prev, st)
      | Some m \<Rightarrow>
          if m_str m 1 \<noteq> [] then Inr ((length (m_str m 1), [JS (m_str m 1)]), prev, st)
          else inline_rule d (one_element fuel d None)
                 (inline_call (one_element fuel d (Some (chr BS))))
                 (m_str m 2) (drop (length (m_pre m)) txt) prev st)"

text \<open>\<open>processInline\<close>, with one unit of fuel more than the text has characters.\<close>

definition processInline :: "dialect \<Rightarrow> string \<Rightarrow> ist \<Rightarrow> jserr + jval list \<times> ist" where
  "processInline d txt st = inline_call (one_element (Suc (length txt)) d None) txt st"

end
