(* ===== verification/MdInlineSafe.thy ===== *)
theory MdInlineSafe
  imports MdInline
begin

text \<open>
  What the inline rules guarantee: every step uses at least one character, so that the loops end and
  the fuel suffices; the stacks of open emphasis only shrink; the nodes are well-formed JsonML, and a
  \<open>CloseTag\<close> only comes last, for a delimiter that is open.
\<close>

section \<open>Nodes and states\<close>

abbreviation wf_node :: "jval \<Rightarrow> bool" where "wf_node \<equiv> wf_md (\<lambda>_. True)"

definition wfs :: "jval list \<Rightarrow> bool" where "wfs vs \<longleftrightarrow> list_all wf_node vs"

lemma wfs_simps [simp]:
  "wfs []" "wfs (v # vs) \<longleftrightarrow> wf_node v \<and> wfs vs" "wfs (vs @ ws) \<longleftrightarrow> wfs vs \<and> wfs ws"
  by (simp_all add: wfs_def)

lemma wfs_attrs_of: "wfs vs \<Longrightarrow> attrs_of vs = (None, vs)"
  by (cases vs) (auto simp: attrs_of_cons dest: wf_md_no_attr)

lemma wfs_last: "wfs vs \<Longrightarrow> vs \<noteq> [] \<Longrightarrow> wf_node (last vs)"
  by (induction vs) auto

lemma wfs_butlast: "wfs vs \<Longrightarrow> wfs (butlast vs)"
  by (induction vs) auto

lemma wf_plain:
  assumes "wfs kids" and "tag \<notin> {''header'', ''img'', ''link_ref'', ''img_ref''}"
  shows "wf_node (JA (JS tag # kids))"
  using assms wfs_attrs_of [OF assms(1)] by (simp add: node_ok_def) (simp add: wfs_def)

lemma wf_attrs:
  assumes "wfs kids" and "node_ok (\<lambda>_. True) (JS tag) (Some kvs)"
  shows "wf_node (JA (JS tag # JO kvs # kids))"
  using assms by (simp add: attrs_of_cons is_attr_def) (simp add: wfs_def)

lemma wf_attrs_only: "node_ok (\<lambda>_. True) (JS tag) (Some kvs) \<Longrightarrow> wf_node (JA [JS tag, JO kvs])"
  by (rule wf_attrs) simp_all

definition state_le :: "ist \<Rightarrow> ist \<Rightarrow> bool" where
  "state_le s t \<longleftrightarrow> suffix (em_st s) (em_st t) \<and> suffix (strong_st s) (strong_st t)"

lemma state_le_refl [simp]: "state_le s s"
  by (simp add: state_le_def)

lemma state_le_trans: "state_le s t \<Longrightarrow> state_le t u \<Longrightarrow> state_le s u"
  by (auto simp: state_le_def intro: suffix_order.order_trans)

definition is_open :: "string \<Rightarrow> ist \<Rightarrow> bool" where
  "is_open md st \<longleftrightarrow> md \<in> set (em_st st) \<union> set (strong_st st)"

lemma is_open_mono: "state_le s t \<Longrightarrow> is_open md s \<Longrightarrow> is_open md t"
  by (auto simp: state_le_def is_open_def dest: set_mono_suffix)

text \<open>The result of a step or of a call: well-formed nodes, or such nodes and a closing tag behind them.\<close>

definition out_ok :: "nat \<Rightarrow> ist \<Rightarrow> jval list \<Rightarrow> bool" where
  "out_ok n st out \<longleftrightarrow> wfs out \<or> (\<exists>o' md r. out = o' @ [JClose md r] \<and> wfs o' \<and> is_open md st \<and> r < n)"

definition step_ok :: "string \<Rightarrow> ist \<Rightarrow> jserr + elem \<times> jval list \<times> ist \<Rightarrow> bool" where
  "step_ok t st r \<longleftrightarrow> (\<exists>k nodes prev st'. r = Inr ((k, nodes), prev, st') \<and> 0 < k \<and> state_le st' st \<and>
     wfs prev \<and> (wfs nodes \<or> (\<exists>md n. nodes = [JClose md n] \<and> k = length t \<and> is_open md st \<and> n < k)))"

definition oe_ok :: "nat \<Rightarrow> one_elem \<Rightarrow> bool" where
  "oe_ok n oe \<longleftrightarrow> (\<forall>t prev st. t \<noteq> [] \<longrightarrow> length t \<le> n \<longrightarrow> wfs prev \<longrightarrow> step_ok t st (oe t prev st))"

lemma oe_okD:
  assumes "oe_ok n oe" and "t \<noteq> []" and "length t \<le> n" and "wfs prev"
  obtains k nodes prev' st' where "oe t prev st = Inr ((k, nodes), prev', st')" and "0 < k"
    and "state_le st' st" and "wfs prev'"
    and "wfs nodes \<or> (\<exists>md n. nodes = [JClose md n] \<and> k = length t \<and> is_open md st \<and> n < k)"
proof -
  have "step_ok t st (oe t prev st)" using assms unfolding oe_ok_def by blast
  then show ?thesis unfolding step_ok_def using that by blast
qed

lemma step_okI:
  "0 < k \<Longrightarrow> state_le st' st \<Longrightarrow> wfs prev \<Longrightarrow> wfs nodes \<Longrightarrow> step_ok t st (Inr ((k, nodes), prev, st'))"
  by (auto simp: step_ok_def)

section \<open>The loops\<close>

lemma add_node_wf: "wfs out \<Longrightarrow> wf_node x \<Longrightarrow> wfs (add_node out x)"
  by (simp add: add_node_def wfs_butlast)

lemma add_nodes_wf: "wfs out \<Longrightarrow> wfs nodes \<Longrightarrow> wfs (foldl add_node out nodes)"
  by (induction nodes arbitrary: out) (simp_all add: add_node_wf)

lemma inline_loop_ok:
  assumes "oe_ok m oe"
  shows "length t \<le> n \<Longrightarrow> length t \<le> m \<Longrightarrow> wfs out \<Longrightarrow>
    \<exists>out' st'. inline_loop n oe t out st = Inr (out', st') \<and> state_le st' st \<and> out_ok (length t) st out'"
proof (induction n arbitrary: t out st)
  case 0
  then show ?case by (simp add: inline_loop.simps out_ok_def)
next
  case (Suc n)
  show ?case
  proof (cases "t = []")
    case True
    then show ?thesis using Suc.prems by (simp add: inline_loop.simps out_ok_def)
  next
    case False
    then obtain k nodes prev st' where s: "oe t out st = Inr ((k, nodes), prev, st')" "0 < k"
      "state_le st' st" "wfs prev"
      "wfs nodes \<or> (\<exists>md r. nodes = [JClose md r] \<and> k = length t \<and> is_open md st \<and> r < k)"
      using oe_okD [OF assms False Suc.prems(2,3), of st] by blast
    have step: "inline_loop (Suc n) oe t out st =
        inline_loop n oe (drop k t) (foldl add_node prev nodes) st'"
      using False by (subst inline_loop.simps) (simp add: s(1))
    from s(5) show ?thesis
    proof
      assume "wfs nodes"
      moreover have "length (drop k t) \<le> n" using s(2) Suc.prems(1) by simp
      ultimately obtain out' st'' where r: "inline_loop n oe (drop k t) (foldl add_node prev nodes) st' =
          Inr (out', st'')" "state_le st'' st'" "out_ok (length (drop k t)) st' out'"
        using Suc.IH [of "drop k t" "foldl add_node prev nodes" st'] Suc.prems(2)
          add_nodes_wf [OF s(4), of nodes]
        by (metis le_trans length_drop diff_le_self)
      have "out_ok (length t) st out'"
        using r(3) s(3) is_open_mono unfolding out_ok_def by fastforce
      then show ?thesis using step r(1) state_le_trans [OF r(2) s(3)] by simp
    next
      assume "\<exists>md r. nodes = [JClose md r] \<and> k = length t \<and> is_open md st \<and> r < k"
      then show ?thesis
        using step s by (auto simp: inline_loop.simps add_node_def out_ok_def)
    qed
  qed
qed

lemma inline_call_ok:
  assumes "oe_ok m oe" and "length t \<le> m"
  shows "\<exists>out' st'. inline_call oe t st = Inr (out', st') \<and> state_le st' st \<and> out_ok (length t) st out'"
  using inline_loop_ok [OF assms(1), of t "length t" "[]" st] assms(2) by (simp add: inline_call_def)

lemma until_loop_ok:
  assumes "oe_ok m oe" and "length t \<le> m"
  shows "length t \<le> consumed + n \<Longrightarrow> wfs nodes \<Longrightarrow>
    \<exists>r st'. until_loop n oe want t consumed nodes st = Inr (r, st') \<and> state_le st' st \<and>
      (\<forall>k ns. r = Some (k, ns) \<longrightarrow> 0 < k \<and> wfs ns)"
proof (induction n arbitrary: consumed nodes st)
  case 0
  then show ?case by (subst until_loop.simps) (auto simp: char_at_def)
next
  case (Suc n)
  consider (found) "char_at t consumed = [want]"
    | (ended) "char_at t consumed \<noteq> [want]" "consumed \<ge> length t"
    | (go) "char_at t consumed \<noteq> [want]" "consumed < length t" by linarith
  then show ?case
  proof cases
    case go
    then have ne: "drop consumed t \<noteq> []" by simp
    have len: "length (drop consumed t) \<le> m" using assms(2) by simp
    obtain k ns prev st' where s: "oe (drop consumed t) [] st = Inr ((k, ns), prev, st')" "0 < k"
      "state_le st' st" "wfs ns \<or> (\<exists>md r. ns = [JClose md r] \<and> k = length (drop consumed t))"
      by (rule oe_okD [OF assms(1) ne len wfs_simps(1), of st]) blast
    have step: "until_loop (Suc n) oe want t consumed nodes st =
        until_loop n oe want t (consumed + k) (nodes @ ns) st'"
      using go by (subst until_loop.simps) (simp add: s(1))
    from s(4) show ?thesis
    proof
      assume "wfs ns"
      then show ?thesis
        using Suc.IH [of "consumed + k" "nodes @ ns" st'] Suc.prems s(2) step state_le_trans [OF _ s(3)]
        by fastforce
    next
      assume "\<exists>md r. ns = [JClose md r] \<and> k = length (drop consumed t)"
      then have "consumed + k = length t" using go by auto
      then show ?thesis using step s(3) by (subst (asm) (2) until_loop.simps) (auto simp: char_at_def)
    qed
  qed (use Suc.prems in \<open>subst until_loop.simps; simp\<close>)+
qed

section \<open>The delimiter found\<close>

lemma minlen_al: "(\<And>r. r \<in> set rs \<Longrightarrow> n \<le> minlen r) \<Longrightarrow> n \<le> 1 \<Longrightarrow> n \<le> minlen (al rs)"
  by (induction rs rule: al.induct) auto

lemma sq_Cons: "sq [r] = r" "rs \<noteq> [] \<Longrightarrow> sq (r # rs) = Sq r (sq rs)"
  by (simp, cases rs) simp_all

lemma minlen_sq: "minlen (sq rs) = sum_list (map minlen rs)"
proof (induction rs)
  case (Cons r rs)
  then show ?case by (cases "rs = []") (simp_all add: sq_Cons del: sq.simps(2))
qed simp

lemma groups_sq [simp]: "groups (sq rs) = concat (map groups rs)"
proof (induction rs)
  case (Cons r rs)
  then show ?case by (cases "rs = []") (simp_all add: sq_Cons del: sq.simps(2))
qed simp

lemma groups_al [simp]: "groups (al rs) = concat (map groups rs)"
  by (induction rs rule: al.induct) auto

lemma minlen_inline_patterns: "1 \<le> minlen (inline_patterns d)"
  unfolding inline_patterns_def buildInlinePatterns_def
  by (rule minlen_al) (auto simp: minlen_sq sum_list_triv comp_def Suc_le_eq gruber_inline_def maruku_inline_def
      split: dialect.splits)

lemma groups_inline_patterns [simp]: "groups (inline_patterns d) = []"
  by (simp add: inline_patterns_def buildInlinePatterns_def)

lemma exec_split:
  assumes "exec (sq [Gp 1 A, Gp 2 R]) s = Some m" and "groups A = []" and "groups R = []"
  shows "\<exists>t e. e \<in> set (mtch R t) \<and> follows t (m_str m 2) e" and "minlen R \<le> length (m_str m 2)"
proof -
  let ?s = "start (sq [Gp 1 A, Gp 2 R]) [] s"
  obtain a e where ae: "search (sq [Gp 1 A, Gp 2 R]) ?s = Some (a, e)" and m: "m = mk_match (a, e)"
    using assms(1) by (auto simp: exec_at_def)
  obtain v w where vw: "follows ?s v a" "follows a w e" "caps a = caps ?s"
    "e \<in> set (mtch (sq [Gp 1 A, Gp 2 R]) a)"
    using search_follows [OF ae] by blast
  then obtain t where t: "t \<in> set (mtch (Gp 1 A) a)" "e \<in> set (mtch (Gp 2 R) t)" by auto
  obtain u where "follows a u t" using mtch_follows [OF t(1)] by blast
  then have "length (caps t) = 3" using vw(3) assms(2,3) by (simp add: follows_def start_def)
  then obtain x u' where x: "x \<in> set (mtch R t)" "follows t u' x" "minlen R \<le> length u'" "caps e ! 2 = Some u'"
    using mtch_group [OF t(2)] by auto
  have "m_str m 2 = u'" using x(4) by (simp add: m mk_match_follows [OF vw(1,2)] m_str_def)
  then show "\<exists>t e. e \<in> set (mtch R t) \<and> follows t (m_str m 2) e" "minlen R \<le> length (m_str m 2)"
    using x by auto
qed

lemma exec_split_chr:
  assumes "exec (sq [Gp 1 (starl anych), Gp 2 (chr c)]) s = Some m"
  shows "m_str m 2 = [c]"
proof -
  obtain t e where te: "e \<in> set (mtch (chr c) t)" "follows t (m_str m 2) e"
    using exec_split(1) [OF assms] by auto
  from te(1) show ?thesis
    by (rule mtch_ChsE) (use te(2) in \<open>auto simp: follows_def\<close>)
qed

text \<open>Patterns of characters, sequences and alternatives neither read nor set captures.\<close>

primrec plain_re :: "regex \<Rightarrow> bool" where
  "plain_re Emp = True"
| "plain_re (Chs p) = True"
| "plain_re (Sq r s) = (plain_re r \<and> plain_re s)"
| "plain_re (Al r s) = (plain_re r \<and> plain_re s)"
| "plain_re (Rp mn mx g r) = False"
| "plain_re (Gp n r) = False"
| "plain_re (Bk n) = False"
| "plain_re (La r) = False"
| "plain_re (Bol m) = True"
| "plain_re (Eol m) = True"

lemma mtch_plain: "plain_re r \<Longrightarrow> mtch r (s\<lparr>caps := cs\<rparr>) = map (\<lambda>t. t\<lparr>caps := cs\<rparr>) (mtch r s)"
proof (induction r arbitrary: s)
  case (Sq q r)
  have "mtch q (s\<lparr>caps := cs\<rparr>) = map (\<lambda>t. t\<lparr>caps := cs\<rparr>) (mtch q s)" using Sq by simp
  then show ?case using Sq by (simp add: comp_def map_concat)
qed (auto simp: advance_def split: list.split)

lemma plain_al: "(\<And>r. r \<in> set rs \<Longrightarrow> plain_re r) \<Longrightarrow> plain_re (al rs)"
  by (induction rs rule: al.induct) auto

lemma plain_sq: "(\<And>r. r \<in> set rs \<Longrightarrow> plain_re r) \<Longrightarrow> plain_re (sq rs)"
proof (induction rs)
  case (Cons r rs)
  then show ?case by (cases "rs = []") (simp_all add: sq_Cons del: sq.simps(2))
qed simp

text \<open>So the first match of \<open>([\s\S]*?)(R)\<close> starts at the beginning.\<close>

lemma exec_split_pre:
  assumes "exec (sq [Gp 1 (starl anych), Gp 2 R]) s = Some m" and "plain_re R"
  shows "m_pre m = []"
proof (rule ccontr)
  let ?re = "sq [Gp 1 (starl anych), Gp 2 R]"
  let ?s = "start ?re [] s"
  assume pre: "m_pre m \<noteq> []"
  obtain a e where ae: "search ?re ?s = Some (a, e)" and m: "m = mk_match (a, e)"
    using assms(1) by (auto simp: exec_at_def)
  obtain v w where vw: "follows ?s v a" "follows a w e" "caps a = caps ?s" "e \<in> set (mtch ?re a)"
    using search_follows [OF ae] by blast
  have "v \<noteq> []" using pre by (simp add: m mk_match_follows [OF vw(1,2)] start_def)
  then have "a \<noteq> ?s" using vw(1) by (auto simp: follows_def)
  then have none: "mtch ?re ?s = []"
    using ae by (subst (asm) search.simps) (auto split: list.splits)
  obtain t where t: "t \<in> set (mtch (Gp 1 (starl anych)) a)" "e \<in> set (mtch (Gp 2 R) t)" using vw(4) by auto
  obtain u where u: "follows a u t" using mtch_follows [OF t(1)] by blast
  obtain f where f: "f \<in> set (mtch R t)" using mtch_GpE [OF t(2)] by blast
  have rest: "rest ?s = (v @ u) @ rest t" "prior t = rev (v @ u) @ prior ?s"
    using follows_trans [OF vw(1) u] by (simp_all add: follows_def)
  let ?k = "length (v @ u)"
  have adv: "advance ?k ?s = t\<lparr>caps := caps ?s\<rparr>"
    using rest by (simp add: advance_def)
  have "advance ?k ?s \<in> set (mtch (starl anych) ?s)"
    using rest(1) by (auto simp: run_ok_def simp del: mtch.simps)
  then have "(advance ?k ?s)\<lparr>caps := (caps (advance ?k ?s))[1 := Some (eaten ?s (advance ?k ?s))]\<rparr>
      \<in> set (mtch (Gp 1 (starl anych)) ?s)"
    by (simp del: class_rep_mtch mtch.simps(5))
  then obtain cs where cs: "t\<lparr>caps := cs\<rparr> \<in> set (mtch (Gp 1 (starl anych)) ?s)"
    unfolding adv by auto
  have "mtch R (t\<lparr>caps := cs\<rparr>) \<noteq> []" using f mtch_plain [OF assms(2), where s = t and cs = cs] by auto
  then have "mtch (Gp 2 R) (t\<lparr>caps := cs\<rparr>) \<noteq> []" by simp
  then show False using none cs by (simp del: mtch.simps(5,6))
qed

lemma plain_inline_patterns [simp]: "plain_re (inline_patterns d)"
  unfolding inline_patterns_def buildInlinePatterns_def
  by (rule plain_al) (auto intro!: plain_sq)

section \<open>The rules without recursion\<close>

lemma escaped_ok: "\<exists>k s. escaped d t = (k, [JS s]) \<and> 0 < k"
  by (simp add: escaped_def)

lemma exec_pos: "exec r t = Some m \<Longrightarrow> 1 \<le> minlen r \<Longrightarrow> 0 < length (m_all m)"
  using exec_Some(2) [of r t m] by (cases "m_all m") auto

lemma wf_link: "wfs kids \<Longrightarrow> wf_node (JA (JS ''link'' # JO [(''href'', JS s)] # kids))"
  by (rule wf_attrs) (simp_all add: node_ok_def str_attrs_def)

lemma autoLink_ok: "\<exists>k ns. autoLink t = (k, ns) \<and> 0 < k \<and> wfs ns"
proof (cases "exec autolink_re t")
  case (Some m)
  then have "0 < length (m_all m)" by (rule exec_pos) (simp add: autolink_re_def)
  then show ?thesis using Some by (simp add: autoLink_def wf_link del: wf_md_simps(8))
qed (simp add: autoLink_def)

lemma inlineCode_ok: "\<exists>k ns. inlineCode t = (k, ns) \<and> 0 < k \<and> wfs ns"
  by (auto simp: inlineCode_def wf_plain simp del: wf_md_simps(8) split: option.split)

lemma lineBreak_ok: "\<exists>k ns. lineBreak = (k, ns) \<and> 0 < k \<and> wfs ns"
  by (simp add: lineBreak_def wf_plain del: wf_md_simps(8))

section \<open>Only escapes\<close>

definition esc_ok :: "nat \<Rightarrow> escape_call \<Rightarrow> bool" where
  "esc_ok n ec \<longleftrightarrow> (\<forall>t st. length t \<le> n \<longrightarrow> (\<exists>out. ec t st = Inr (out, st) \<and> list_all is_str out))"

lemma escape_element:
  "t \<noteq> [] \<Longrightarrow> \<exists>k s. one_element (Suc f) d (Some (chr BS)) t prev st = Inr ((k, [JS s]), prev, st) \<and> 0 < k"
  using escaped_ok [of d] exec_split_chr [of BS t]
  by (auto simp: inline_rule_def simp del: sq.simps split: option.split)

lemma escape_loop:
  "length t \<le> n \<Longrightarrow> list_all is_str out \<Longrightarrow>
     \<exists>out'. inline_loop n (one_element (Suc f) d (Some (chr BS))) t out st = Inr (out', st) \<and> list_all is_str out'"
proof (induction n arbitrary: t out)
  case (Suc n)
  show ?case
  proof (cases "t = []")
    case False
    obtain k s where e: "one_element (Suc f) d (Some (chr BS)) t out st = Inr ((k, [JS s]), out, st)" "0 < k"
      using escape_element [OF False, of f d out st] by blast
    have "length (drop k t) \<le> n" using e(2) Suc.prems(1) by simp
    moreover have "list_all is_str (add_node out (JS s))"
      using Suc.prems(2) by (auto simp: add_node_def list_all_iff dest: in_set_butlastD)
    ultimately show ?thesis
      using Suc.IH False by (subst inline_loop.simps) (simp add: e(1) del: one_element.simps)
  qed (use Suc.prems in \<open>simp add: inline_loop.simps\<close>)
qed (simp add: inline_loop.simps)

lemma escape_call_ok: "esc_ok n (inline_call (one_element (Suc f) d (Some (chr BS))))"
  by (simp add: esc_ok_def inline_call_def escape_loop del: one_element.simps)

lemma first_or_empty_str: "list_all is_str out \<Longrightarrow> is_str (first_or_empty out)"
  by (cases out) (auto simp: first_or_empty_def)

section \<open>Images and links\<close>

lemma str_attrs_Cons [simp]:
  "str_attrs ks []" "str_attrs ks ((k, v) # kvs) \<longleftrightarrow> (k \<in> set ks \<or> is_str v) \<and> str_attrs ks kvs"
  by (simp_all add: str_attrs_def)

lemma length_strip_angle: "length (strip_angle s) \<le> length s"
proof -
  have "length (substring a b s) \<le> length s" for a b
    unfolding substring_def Let_def length_take length_drop by (rule min.coboundedI1) simp
  then show ?thesis by (simp add: strip_angle_def)
qed

lemma re_groups:
  "no_la image_re" "no_la link_re" "anchored image_re" "anchored link_re"
  "foldr max (groups image_re) 0 = 4" "foldr max (groups link_re) 0 = 3"
  "2 \<le> minlen image_re" "2 \<le> minlen image_ref_re" "2 \<le> minlen link_re" "2 \<le> minlen link_ref_re"
  by (simp_all add: image_re_def link_re_def image_ref_re_def link_ref_re_def title_re_def blanks_def)

lemma m_str_le:
  assumes "exec r s = Some m" and "no_la r" and "anchored r" and "n \<le> foldr max (groups r) 0"
  shows "length (m_str m n) \<le> length (m_all m)"
  using exec_caps_length [OF assms(2,3,1)] exec_at_Some(4) [OF assms(1)] assms(4) by simp

lemma length_m_all: "exec r s = Some m \<Longrightarrow> length (m_all m) \<le> length s"
  using exec_Some(1) [of r s m] by (cases m) auto

lemma img_wf:
  assumes "list_all is_str out"
  shows "wf_node (JA [JS ''img'', JO ((case t of Some s \<Rightarrow> oset [(''alt'', JS a), (''href'', first_or_empty out)] ''title'' (JS s)
     | None \<Rightarrow> [(''alt'', JS a), (''href'', first_or_empty out)]))])"
  using first_or_empty_str [OF assms]
  by (intro wf_attrs_only) (auto simp: node_ok_def oget_def split: option.split)

lemma image_rule_ok:
  assumes "esc_ok n ec" and "length t \<le> n"
  shows "\<exists>k ns. image_rule ec t st = Inr ((k, ns), st) \<and> 0 < k \<and> wfs ns"
proof (cases "exec image_re t")
  case (Some m)
  have "0 < length (m_all m)" using exec_pos [OF Some] re_groups(7) by simp
  have "length (strip_angle (m_str m 2)) \<le> n"
    using length_strip_angle [of "m_str m 2"] m_str_le [OF Some re_groups(1,3), of 2] length_m_all [OF Some]
      assms(2) by (simp add: re_groups)
  then obtain out where "ec (strip_angle (m_str m 2)) st = Inr (out, st)" "list_all is_str out"
    using assms(1) by (auto simp: esc_ok_def)
  then show ?thesis
    using \<open>0 < length (m_all m)\<close> img_wf [of out]
    by (simp add: image_rule_def Some Let_def del: wf_md_simps(8))
next
  case None
  show ?thesis
  proof (cases "exec image_ref_re t")
    case (Some m)
    have "0 < length (m_all m)" using exec_pos [OF Some] re_groups(8) by simp
    moreover have "wf_node (JA [JS ''img_ref'', JO [(''alt'', JS (m_str m 1)),
        (''ref'', JS (lower (m_str m 2))), (''original'', JS (m_all m))]])"
      by (rule wf_attrs_only) (simp add: node_ok_def oget_def)
    ultimately show ?thesis using None Some by (simp add: image_rule_def del: wf_md_simps(8))
  qed (simp add: image_rule_def None)
qed

lemma paren_scan_bound: "paren_scan url len opn = Some l \<Longrightarrow> len \<le> l \<and> l < len + length url"
  by (induction url len opn rule: paren_scan.induct) (fastforce split: if_splits)+

lemma balance_url_ok:
  "length (fst (balance_url url c)) \<le> length url" "length url \<le> c \<Longrightarrow> c - length url \<le> snd (balance_url url c)"
  by (auto simp: balance_url_def split: option.split dest: paren_scan_bound)

lemma link_wf:
  assumes "list_all is_str out" and "wfs kids"
  shows "wf_node (JA (JS ''link'' # JO ((case t of Some s \<Rightarrow> oset [(''href'', first_or_empty out)] ''title'' (JS s)
     | None \<Rightarrow> [(''href'', first_or_empty out)])) # kids))"
  using first_or_empty_str [OF assms(1)] assms(2)
  by (intro wf_attrs) (auto simp: node_ok_def split: option.split)

lemma link_ref_wf:
  "wfs kids \<Longrightarrow> wf_node (JA (JS ''link_ref'' # JO [(''ref'', JS r), (''original'', JS w)] # kids))"
  by (rule wf_attrs) (simp_all add: node_ok_def oget_def)

lemma link_rule_ok:
  assumes oe: "oe_ok n oe" and ec: "esc_ok n ec" and len: "length t \<le> Suc n"
  shows "\<exists>k ns st'. link_rule oe ec t st = Inr ((k, ns), st') \<and> 0 < k \<and> wfs ns \<and> state_le st' st"
proof -
  have len1: "length (drop 1 t) \<le> n" using len by simp
  obtain r st' where u: "inline_until_char oe (drop 1 t) (CHR 0x5D) st = Inr (r, st')" "state_le st' st"
    "\<And>k ns. r = Some (k, ns) \<Longrightarrow> 0 < k \<and> wfs ns"
    using until_loop_ok [OF oe len1, of 0 "length (drop 1 t)" "[]" "CHR 0x5D" st]
    unfolding inline_until_char_def by auto
  show ?thesis
  proof (cases r)
    case None
    then show ?thesis using u(1,2) by (simp add: link_rule_def)
  next
    case (Some p)
    obtain c children where p: "p = (c, children)" by (cases p)
    have c: "0 < c" "wfs children" using u(3) by (simp_all add: Some p)
    let ?t = "drop (1 + c) t"
    show ?thesis
    proof (cases "exec link_re ?t")
      case m: (Some m)
      let ?u = "strip_angle (m_str m 1)"
      have ul: "length ?u \<le> length (m_all m)"
        using length_strip_angle [of "m_str m 1"] m_str_le [OF m re_groups(2,4), of 1] by (simp add: re_groups)
      obtain url c' where ub: "(if m_str m 3 = [] then balance_url ?u (1 + c + length (m_all m))
          else (?u, 1 + c + length (m_all m))) = (url, c')" by (metis surj_pair)
      have ub_le: "length url \<le> length ?u" "0 < c'"
        using balance_url_ok(1) [of ?u] balance_url_ok(2) [of ?u "1 + c + length (m_all m)"] ul ub
        by (auto split: if_splits simp: prod_eq_iff)
      have "length url \<le> n" using ub_le(1) ul length_m_all [OF m] len by simp
      then obtain out where out: "ec url st' = Inr (out, st')" "list_all is_str out"
        using ec by (auto simp: esc_ok_def)
      have "link_rule oe ec t st = Inr ((c', [JA (JS ''link'' # JO ((case m_grp m 3 of
          Some s \<Rightarrow> oset [(''href'', first_or_empty out)] ''title'' (JS s)
        | None \<Rightarrow> [(''href'', first_or_empty out)])) # children)]), st')"
        unfolding link_rule_def u(1) Some p sbind_simps prod.case option.case Let_def m ub out(1)
        by (simp split: option.split)
      then show ?thesis
        using ub_le(2) link_wf [OF out(2) c(2)] u(2) by (simp del: wf_md_simps(8))
    next
      case None
      show ?thesis
      proof (cases "exec link_ref_re ?t")
        case m: (Some m)
        have "link_rule oe ec t st = Inr ((1 + c + length (m_all m), [JA (JS ''link_ref'' #
            JO [(''ref'', JS (lower (if m_str m 1 \<noteq> [] then m_str m 1 else jstr (JA children)))),
                (''original'', JS (take (1 + c + length (m_all m)) t))] # children)]), st')"
          unfolding link_rule_def u(1) Some p sbind_simps prod.case option.case Let_def None m by (rule refl)
        then show ?thesis using u(2) link_ref_wf [OF c(2)] by (simp del: wf_md_simps(8))
      next
        case n2: None
        have e: "link_rule oe ec t st = (case children of
            [JS s] \<Rightarrow> Inr ((1 + c, [JA [JS ''link_ref'',
              JO [(''ref'', JS (lower s)), (''original'', JS (take (1 + c) t))], JS s]]), st')
          | _ \<Rightarrow> Inr ((1, [JS ''['']), st'))"
          unfolding link_rule_def u(1) Some p sbind_simps prod.case option.case Let_def None n2 by (rule refl)
        show ?thesis
        proof (cases "\<exists>s. children = [JS s]")
          case True
          then show ?thesis using u(2) by (auto simp: e link_ref_wf simp del: wf_md_simps(8))
        next
          case False
          then have "link_rule oe ec t st = Inr ((1, [JS ''['']), st')"
            unfolding e by (auto split: list.splits jval.splits)
          then show ?thesis using u(2) by simp
        qed
      qed
    qed
  qed
qed

section \<open>Emphasis and meta data\<close>

lemma suffix_tl_Cons: "suffix xs (y # ys) \<Longrightarrow> suffix (tl xs) ys"
  by (cases xs) (auto simp: suffix_Cons dest: suffix_ConsD)

lemma state_le_slot:
  assumes "state_le s (set_slot tag (md # slot tag st) st)"
  shows "state_le (set_slot tag (tl (slot tag s)) s) st"
  using assms suffix_tl_Cons by (auto simp: state_le_def set_slot_def slot_def)

lemma state_le_tl [simp]: "state_le (set_slot tag (tl (slot tag st)) st) st"
  by (simp add: state_le_def set_slot_def slot_def suffix_tl)

lemma slot_open: "slot tag st \<noteq> [] \<Longrightarrow> is_open (hd (slot tag st)) st"
  by (auto simp: is_open_def slot_def)

lemma close_of_Some:
  assumes "close_of md res = Some r" and "out_ok n st res"
  shows "wfs (butlast res)" and "r < n"
proof -
  have l: "res \<noteq> []" "last res = JClose md r"
    using assms(1) by (auto simp: close_of_def split: if_splits jval.splits)
  have "\<not> wfs res" using wfs_last [of res] l by auto
  then obtain o' md' r' where "res = o' @ [JClose md' r']" "wfs o'" "r' < n"
    using assms(2) by (auto simp: out_ok_def)
  then show "wfs (butlast res)" "r < n" using l by simp_all
qed

lemma strong_em_ok:
  assumes oe: "oe_ok n oe" and len: "length t \<le> Suc n" and ne: "t \<noteq> []" "md \<noteq> []"
    and tag: "tag \<in> {''strong'', ''em''}"
  shows "\<exists>k ns st'. strong_em tag md (inline_call oe) t st = Inr ((k, ns), st') \<and> 0 < k \<and> state_le st' st \<and>
    (wfs ns \<or> (\<exists>r. ns = [JClose md r] \<and> k = length t \<and> is_open md st \<and> r < k))"
proof (cases "slot tag st \<noteq> [] \<and> hd (slot tag st) = md")
  case True
  then have "is_open md st" using slot_open by blast
  then show ?thesis using True ne by (simp add: strong_em_def)
next
  case False
  let ?t = "drop (length md) t" and ?st = "set_slot tag (md # slot tag st) st"
  have "length ?t \<le> n" using len ne by (cases md) auto
  then obtain res st' where r: "inline_call oe ?t ?st = Inr (res, st')" "state_le st' ?st"
    "out_ok (length ?t) ?st res"
    using inline_call_ok [OF oe] by blast
  have e: "strong_em tag md (inline_call oe) t st = (case close_of md res of
      Some len_after \<Rightarrow> Inr ((length t - len_after, [JA (JS tag # butlast res)]), set_slot tag (tl (slot tag st')) st')
    | None \<Rightarrow> Inr ((length md, [JS md]), st))"
    unfolding strong_em_def if_not_P [OF False] r(1) sbind_simps prod.case by (rule refl)
  show ?thesis
  proof (cases "close_of md res")
    case None
    then show ?thesis using ne by (simp add: e)
  next
    case (Some q)
    have q: "wfs (butlast res)" "q < length ?t" using close_of_Some [OF Some r(3)] by simp_all
    then have "wf_node (JA (JS tag # butlast res))" using tag by (intro wf_plain) auto
    then show ?thesis using q(2) state_le_slot [OF r(2)] by (simp add: e Some del: wf_md_simps(8))
  qed
qed

lemma str_foldl_oset:
  "str_attrs ks kvs \<Longrightarrow> list_all (\<lambda>(k, v). is_str v) meta \<Longrightarrow> str_attrs ks (foldl (\<lambda>kvs (k, v). oset kvs k v) kvs meta)"
  by (induction meta arbitrary: kvs) (auto intro: str_attrs_oset)

lemma oget_foldl_oset:
  "is_str (oget kvs k) \<Longrightarrow> list_all (\<lambda>(k, v). is_str v) meta \<Longrightarrow>
     is_str (oget (foldl (\<lambda>kvs (k, v). oset kvs k v) kvs meta) k)"
  by (induction meta arbitrary: kvs) auto

lemma node_ok_foldl_oset:
  assumes "node_ok (\<lambda>_. True) tag (Some kvs)" and "list_all (\<lambda>(k, v). is_str v) meta"
  shows "node_ok (\<lambda>_. True) tag (Some (foldl (\<lambda>kvs (k, v). oset kvs k v) kvs meta))"
  using assms by (simp add: node_ok_def str_foldl_oset oget_foldl_oset split: if_splits)

lemma add_attrs_ok:
  assumes "wf_node v" and "\<not> is_str v" and "list_all (\<lambda>(k, v). is_str v) meta"
  shows "\<exists>w. add_attrs v meta = Inr w \<and> wf_node w \<and> \<not> is_str w"
proof -
  obtain tag ys where v: "v = JA (JS tag # ys)"
    using assms(1,2) by (cases v; cases "case v of JA xs \<Rightarrow> xs"; auto elim: is_str.elims)
  show ?thesis
  proof (cases "ys \<noteq> [] \<and> is_attr (hd ys)")
    case True
    then obtain a kids where ys: "ys = a # kids" "is_attr a" by (cases ys) auto
    obtain kvs where a: "a = JO kvs"
      using assms(1) ys by (cases a) (auto simp: v attrs_of_cons is_attr_def node_ok_def str_attrs_def split: if_splits)
    have "node_ok (\<lambda>_. True) (JS tag) (Some kvs)" "wfs kids"
      using assms(1) by (simp_all add: v ys a attrs_of_cons is_attr_def) (simp add: wfs_def)
    then show ?thesis
      using wf_attrs [OF _ node_ok_foldl_oset [OF _ assms(3)]] ys(2)
      by (simp add: add_attrs_def v ys a extract_attr_is_attr del: wf_md_simps(8))
  next
    case False
    then have ao: "attrs_of ys = (None, ys)" by (cases ys) (auto simp: attrs_of_cons)
    then have k: "wfs ys" "tag \<notin> {''header'', ''img'', ''link_ref'', ''img_ref''}"
      using assms(1) by (auto simp: v wfs_def node_ok_def)
    have "node_ok (\<lambda>_. True) (JS tag) (Some (foldl (\<lambda>kvs (k, v). oset kvs k v) [] meta))"
      using k(2) str_foldl_oset [OF _ assms(3), of _ "[]"] by (simp add: node_ok_def)
    then have "wf_node (JA (JS tag # JO (foldl (\<lambda>kvs (k, v). oset kvs k v) [] meta) # ys))"
      by (rule wf_attrs [OF k(1)])
    moreover have "extract_attr v = JU"
      using False by (cases ys) (auto simp: v extract_attr_def is_attr_def isArray_def)
    ultimately show ?thesis by (simp add: add_attrs_def v del: wf_md_simps(8))
  qed
qed

lemma inline_meta_ok:
  assumes "wfs prev"
  shows "\<exists>k ns prev'. inline_meta t prev = Inr ((k, ns), prev') \<and> 0 < k \<and> wfs ns \<and> wfs prev'"
proof (cases "prev = [] \<or> is_str (last prev) \<or> exec inline_meta_re t = None")
  case True
  then show ?thesis using assms by (auto simp: inline_meta_def)
next
  case False
  then obtain m where m: "exec inline_meta_re t = Some m" by auto
  have "0 < length (m_all m)" using exec_pos [OF m] by (simp add: inline_meta_re_def)
  moreover obtain w where "add_attrs (last prev) (processMetaHash (m_str m 1)) = Inr w" "wf_node w"
    using add_attrs_ok [OF wfs_last [OF assms] _ processMetaHash_str] False by blast
  ultimately show ?thesis
    using False assms by (simp add: inline_meta_def m wfs_butlast)
qed

section \<open>Every element\<close>

lemma inline_rule_ok:
  assumes oe: "oe_ok n oe" and ec: "\<And>n. esc_ok n ec" and len: "length t \<le> Suc n" and ne: "t \<noteq> []" "key \<noteq> []"
    and prev: "wfs prev"
  shows "step_ok t st (inline_rule d oe ec key t prev st)"
proof -
  have em: "step_ok t st (sbind (strong_em tag md (inline_call oe) t st) (\<lambda>(e, st'). Inr (e, prev, st')))"
    if "tag \<in> {''strong'', ''em''}" "md \<noteq> []" for tag md
    using strong_em_ok [OF oe len ne(1) that(2,1), of st] prev by (fastforce simp: step_ok_def)
  have im: "step_ok t st (sbind (image_rule ec t st) (\<lambda>(e, st'). Inr (e, prev, st')))"
    using image_rule_ok [OF ec [of "length t"] order_refl, of st] prev by (auto intro!: step_okI)
  have li: "step_ok t st (sbind (link_rule oe ec t st) (\<lambda>(e, st'). Inr (e, prev, st')))"
    using link_rule_ok [OF oe ec len, of st] prev by (auto intro!: step_okI)
  have me: "step_ok t st (sbind (inline_meta t prev) (\<lambda>(e, prev'). Inr (e, prev', st)))"
    using inline_meta_ok [OF prev, of t] by (auto intro!: step_okI)
  have plain: "step_ok t st (Inr (e, prev, st))" if "\<exists>k ns. e = (k, ns) \<and> 0 < k \<and> wfs ns" for e
    using that prev by (auto intro!: step_okI)
  have es: "\<exists>k ns. escaped d t = (k, ns) \<and> 0 < k \<and> wfs ns" using escaped_ok [of d t] by auto
  show ?thesis
    unfolding inline_rule_def Let_def
    using em im li me plain [OF autoLink_ok] plain [OF inlineCode_ok] plain [OF lineBreak_ok] plain [OF es]
      plain [of "(length key, [JS key])"] ne(2)
    by (simp del: wf_md_simps(8))
qed

lemma one_element_ok: "oe_ok n (one_element (Suc n) d None)"
proof (induction n)
  case 0
  then show ?case by (simp add: oe_ok_def)
next
  case (Suc n)
  show ?case unfolding oe_ok_def
  proof (intro allI impI)
    fix t :: string and prev st
    assume t: "t \<noteq> []" "length t \<le> Suc n" "wfs prev"
    let ?re = "sq [Gp 1 (starl anych), Gp 2 (inline_patterns d)]"
    show "step_ok t st (one_element (Suc (Suc n)) d None t prev st)"
    proof (cases "exec ?re t")
      case None
      then have "one_element (Suc (Suc n)) d None t prev st = Inr ((length t, [JS t]), prev, st)"
        by (simp only: one_element.simps option.case)
      then show ?thesis using t by (auto intro!: step_okI)
    next
      case (Some m)
      have key: "m_str m 2 \<noteq> []" using exec_split(2) [OF Some] minlen_inline_patterns [of d] by auto
      have pre: "m_pre m = []" by (rule exec_split_pre [OF Some plain_inline_patterns])
      have e: "one_element (Suc (Suc n)) d None t prev st =
          (if m_str m 1 \<noteq> [] then Inr ((length (m_str m 1), [JS (m_str m 1)]), prev, st)
           else inline_rule d (one_element (Suc n) d None) (inline_call (one_element (Suc n) d (Some (chr BS))))
             (m_str m 2) t prev st)"
        using Some pre by (simp only: one_element.simps option.case list.size(3) drop_0)
      show ?thesis
        unfolding e
        using inline_rule_ok [OF Suc.IH escape_call_ok t(2) t(1) key t(3)] t(3)
        by (auto intro!: step_okI simp del: one_element.simps)
    qed
  qed
qed

text \<open>\<open>processInline\<close> returns; with no emphasis open, it leaves none open and no closing tag behind.\<close>

lemma processInline_ok:
  "\<exists>out st'. processInline d t st = Inr (out, st') \<and> state_le st' st \<and>
     (em_st st = [] \<and> strong_st st = [] \<longrightarrow> wfs out \<and> st' = st)"
proof -
  obtain out st' where r: "processInline d t st = Inr (out, st')" "state_le st' st" "out_ok (length t) st out"
    using inline_call_ok [OF one_element_ok [of "length t" d] order_refl, of st]
    by (auto simp: processInline_def simp del: one_element.simps)
  have "wfs out \<and> st' = st" if "em_st st = []" "strong_st st = []"
    using r(2,3) that by (cases st; cases st') (auto simp: out_ok_def is_open_def state_le_def)
  then show ?thesis using r by blast
qed

end
