(* ===== verification/MdBlock.thy ===== *)
theory MdBlock
  imports MdInlineSafe
begin

text \<open>
  The block rules of the Gruber dialect in \<open>src/src/qt/res/js/markdown.js\<close>, without the lists. A rule
  gets the block, the blocks that follow (\<open>next\<close>) and the Markdown object, and returns \<open>undefined\<close>
  (\<open>None\<close>) or the nodes, with the changed \<open>next\<close> and object. The recursive calls are parameters:
  \<open>tt\<close> is \<open>toTree\<close> of a string with a fresh root, \<open>pb\<close> is \<open>processBlock\<close>.
\<close>

type_synonym bres = "jserr + jval list option \<times> mdblock list \<times> mdst"

type_synonym to_tree = "string \<Rightarrow> jval \<Rightarrow> mdst \<Rightarrow> jserr + jval \<times> mdst"

type_synonym proc_block = "mdblock \<Rightarrow> mdblock list \<Rightarrow> mdst \<Rightarrow> jserr + jval list \<times> mdblock list \<times> mdst"

definition md_inline :: "string \<Rightarrow> mdst \<Rightarrow> jserr + jval list \<times> mdst" where
  "md_inline txt md = (case dialect md of
     None \<Rightarrow> Inl TypeErr
   | Some d \<Rightarrow> sbind (processInline d txt (emph md)) (\<lambda>(out, e). Inr (out, md\<lparr>emph := e\<rparr>)))"

definition no_match :: "mdblock list \<Rightarrow> mdst \<Rightarrow> bres" where
  "no_match next md = Inr (None, next, md)"

text \<open>\<open>next.unshift(mk_block(block.substr(n), block.trailing, line))\<close>\<close>

definition unshift_rest :: "nat \<Rightarrow> mdblock \<Rightarrow> int option \<Rightarrow> mdblock list \<Rightarrow> mdblock list" where
  "unshift_rest n block line next = mk_block (drop n (btext block)) (Some (trailing block)) line # next"

section \<open>Headers\<close>

definition atx_re :: regex where
  "atx_re = sq [Bol False, Gp 1 (Rp 1 (Some 6) True (chr (CHR 0x23))), star sp, Gp 2 (starl dot), star sp,
     star (chr (CHR 0x23)), star sp, al [chr NL, Eol False]]"

definition atxHeader :: "mdblock \<Rightarrow> mdblock list \<Rightarrow> mdst \<Rightarrow> bres" where
  "atxHeader block next md = (case exec atx_re (btext block) of
     None \<Rightarrow> no_match next md
   | Some m \<Rightarrow>
       sbind (md_inline (m_str m 2) md) (\<lambda>(inl, md).
         let header = JA (JS ''header'' # JO [(''level'', JN (int (length (m_str m 1))))] # inl);
             next = (if length (m_all m) < length (btext block)
               then unshift_rest (length (m_all m)) block (map_option (\<lambda>l. l + 2) (lineNumber block)) next
               else next)
         in Inr (Some [header], next, md)))"

definition setext_re :: regex where
  "setext_re = sq [Bol False, Gp 1 (star dot), chr NL, Gp 2 (oneof ''-=''), Bk 2, plus1 (Bk 2),
     al [chr NL, Eol False]]"

definition setextHeader :: "mdblock \<Rightarrow> mdblock list \<Rightarrow> mdst \<Rightarrow> bres" where
  "setextHeader block next md = (case exec setext_re (btext block) of
     None \<Rightarrow> no_match next md
   | Some m \<Rightarrow>
       let level = (if m_str m 2 = ''='' then 1 else 2);
           header = JA [JS ''header'', JO [(''level'', JN level)], JS (m_str m 1)];
           next = (if length (m_all m) < length (btext block)
             then unshift_rest (length (m_all m)) block (map_option (\<lambda>l. l + 2) (lineNumber block)) next
             else next)
       in Inr (Some [header], next, md))"

section \<open>Loops of a pattern over a block\<close>

text \<open>The matches in order and what is left; a match that uses nothing repeats for ever.\<close>

fun loop_re :: "nat \<Rightarrow> regex \<Rightarrow> string \<Rightarrow> jserr + jmatch list \<times> string" where
  "loop_re n re b =
     (if b = [] then Inr ([], b)
      else case exec re b of
        None \<Rightarrow> Inr ([], b)
      | Some m \<Rightarrow> (case n of 0 \<Rightarrow> Inl NoFuel | Suc n' \<Rightarrow>
          sbind (loop_re n' re (drop (length (m_all m)) b)) (\<lambda>(ms, r). Inr (m # ms, r))))"

declare loop_re.simps [simp del]

definition loop_re_over_block :: "regex \<Rightarrow> string \<Rightarrow> jserr + jmatch list \<times> string" where
  "loop_re_over_block re b = loop_re (length b) re b"

section \<open>Code\<close>

definition indent_re :: regex where
  "indent_re = al [sq [Rp 0 (Some 3) True (chr (CHR 0x20)), chr (CHR 0x09)], Rp 4 (Some 4) True (chr (CHR 0x20))]"

definition codeline_re :: regex where
  "codeline_re = sq [Bol False, indent_re, Gp 1 (star dot), opt (chr NL)]"

text \<open>
  Adjacent code blocks are merged; between them goes what \<open>block.trailing\<close> has of newlines beyond two.
\<close>

fun code_search :: "mdblock \<Rightarrow> mdblock list \<Rightarrow> string list \<Rightarrow> jserr + string list \<times> mdblock list" where
  "code_search block next ret =
     sbind (loop_re_over_block codeline_re (btext block)) (\<lambda>(ms, b).
       let ret = ret @ map (\<lambda>m. m_str m 1) ms in
       if b \<noteq> [] then Inr (ret, mk_block b (Some (trailing block)) None # next)
       else case next of
         [] \<Rightarrow> Inr (ret, next)
       | n # next' \<Rightarrow>
           if \<not> test codeline_re (btext n) then Inr (ret, next)
           else case trailing block of
             None \<Rightarrow> Inl TypeErr
           | Some t \<Rightarrow> code_search n next' (ret @ [drop 2 (replace_all (noneof [NL]) (\<lambda>_. []) t)]))"

definition code_block :: "mdblock \<Rightarrow> mdblock list \<Rightarrow> mdst \<Rightarrow> bres" where
  "code_block block next md =
     (if \<not> test codeline_re (btext block) then no_match next md
      else sbind (code_search block next []) (\<lambda>(ret, next).
        Inr (Some [JA [JS ''code_block'', JS (join_str [NL] ret)]], next, md)))"

section \<open>Horizontal rules\<close>

definition hr_re :: regex where
  "hr_re = sq [Bol False, opt (sq [Gp 1 (starl anych), chr NL]), blanks, Gp 2 (oneof ''-_*''),
     Rp 2 None True (sq [blanks, Bk 2]), blanks, opt (sq [chr NL, Gp 3 (star anych)]), Eol False]"

text \<open>
  \<open>tt\<close> is \<open>this.toTree\<close>. (The rule for lists calls this rule as a method of the dialect, an object
  without \<open>toTree\<close>: there \<open>tt\<close> throws.)
\<close>

definition horizRule :: "to_tree \<Rightarrow> mdblock \<Rightarrow> mdblock list \<Rightarrow> mdst \<Rightarrow> bres" where
  "horizRule tt block next md = (case exec hr_re (btext block) of
     None \<Rightarrow> no_match next md
   | Some m \<Rightarrow>
       sbind (if m_str m 1 \<noteq> []
              then sbind (tt (m_str m 1) (JA []) md) (\<lambda>(t, md). Inr (case t of JA xs \<Rightarrow> xs | _ \<Rightarrow> [], md))
              else Inr ([], md)) (\<lambda>(contained, md).
         let jsonml = contained @ [JA [JS ''hr'']];
             next = (if m_str m 3 \<noteq> []
               then mk_block (m_str m 3) (Some (trailing block)) (map_option (\<lambda>l. l + 1) (lineNumber block)) # next
               else next)
         in Inr (Some jsonml, next, md)))"

section \<open>Quotes\<close>

definition quote_re :: regex where
  "quote_re = sq [Bol True, chr (CHR 0x3E), opt (chr (CHR 0x20))]"

definition starts_quote :: "string \<Rightarrow> bool" where
  "starts_quote s \<longleftrightarrow> char_at s 0 = ''>''"

text \<open>String concatenation with a property that may be \<open>undefined\<close>.\<close>

definition str_or_undefined :: "string option \<Rightarrow> string" where
  "str_or_undefined t = (case t of None \<Rightarrow> ''undefined'' | Some s \<Rightarrow> s)"

fun merge_quotes :: "mdblock \<Rightarrow> mdblock list \<Rightarrow> mdblock \<times> mdblock list" where
  "merge_quotes block [] = (block, [])"
| "merge_quotes block (b # next) =
     (if starts_quote (btext b)
      then merge_quotes (mk_block (btext block @ str_or_undefined (trailing block) @ btext b)
             (Some (trailing b)) (lineNumber block)) next
      else (block, b # next))"

definition drop_references :: "jval \<Rightarrow> jval" where
  "drop_references t = (case t of
     JA (tag # JO kvs # kids) \<Rightarrow>
       if truthy (oget kvs ''references'') then
         (let kvs = odel kvs ''references''
          in if isEmpty kvs then JA (tag # kids) else JA (tag # JO kvs # kids))
       else t
   | _ \<Rightarrow> t)"

definition blockquote :: "to_tree \<Rightarrow> proc_block \<Rightarrow> mdblock \<Rightarrow> mdblock list \<Rightarrow> mdst \<Rightarrow> bres" where
  "blockquote tt pb block next md =
     (if \<not> test (sq [Bol True, chr (CHR 0x3E)]) (btext block) then no_match next md
      else
        sbind (if \<not> starts_quote (btext block) then
                 let ls = split_re (chr NL) (btext block);
                     prev = takeWhile (\<lambda>l. \<not> starts_quote l) ls;
                     ls' = dropWhile (\<lambda>l. \<not> starts_quote l) ls;
                     line_no = map_option (\<lambda>l. l + int (length prev)) (lineNumber block);
                     abutting = mk_block (join_str [NL] prev) (Some (Some [NL])) (lineNumber block)
                 in sbind (pb abutting [] md) (\<lambda>(nodes, _, md).
                      Inr (nodes, mk_block (join_str [NL] ls') (Some (trailing block)) line_no, md))
               else Inr ([], block, md)) (\<lambda>(jsonml, block, md).
          let (block, next) = merge_quotes block next;
              input = replace_all quote_re (\<lambda>_. []) (btext block)
          in sbind (tt input (JA [JS ''blockquote'']) md) (\<lambda>(processed, md).
               Inr (Some (jsonml @ [drop_references processed]), next, md))))"

section \<open>Definitions of references\<close>

definition refdef_re :: regex where
  "refdef_re = sq [Bol False, star sp, lit ''['', Gp 1 (starl dot), lit '']:'', star sp,
     Gp 2 (plus1 (Chs (\<lambda>c. \<not> is_space c))),
     opt (sq [plus1 sp, al [sq [Gp 3 (oneof quotes), Gp 4 (starl dot), Bk 3],
                            sq [lit ''('', Gp 5 (starl dot), lit '')'']]]),
     opt (chr NL)]"

definition add_ref :: "jmatch \<Rightarrow> (string \<times> jval) list \<Rightarrow> (string \<times> jval) list" where
  "add_ref m refs =
     (let ref = [(''href'', JS (strip_angle (m_str m 2)))];
          ref = (case m_grp m 4 of Some t \<Rightarrow> oset ref ''title'' (JS t)
            | None \<Rightarrow> (case m_grp m 5 of Some t \<Rightarrow> oset ref ''title'' (JS t) | None \<Rightarrow> ref))
      in oset refs (lower (m_str m 1)) (JO ref))"

text \<open>
  \<open>extract_attr(this.tree)\<close> after \<open>this.tree.splice(1, 0, {})\<close> when it was missing: the tag, the
  attributes and the rest; a tree without a first element gets the object there, where
  \<open>extract_attr\<close> does not find it.
\<close>

definition tree_attrs :: "jval \<Rightarrow> jserr + jval \<times> (string \<times> jval) list \<times> jval list" where
  "tree_attrs t = (case t of
     JA (tag # JO kvs # kids) \<Rightarrow> Inr (tag, kvs, kids)
   | JA (tag # kids) \<Rightarrow> Inr (tag, [], kids)
   | _ \<Rightarrow> Inl TypeErr)"

definition referenceDefn :: "mdblock \<Rightarrow> mdblock list \<Rightarrow> mdst \<Rightarrow> bres" where
  "referenceDefn block next md =
     (if \<not> test refdef_re (btext block) then no_match next md
      else
        sbind (tree_attrs (md_tree md)) (\<lambda>(tag, kvs, kids).
          let kvs = (if oget kvs ''references'' = JU then oset kvs ''references'' (JO []) else kvs) in
          sbind (loop_re_over_block refdef_re (btext block)) (\<lambda>(ms, b).
            let refs = (case oget kvs ''references'' of
                    JO refs \<Rightarrow> JO (foldl (\<lambda>r m. add_ref m r) refs ms)
                  | v \<Rightarrow> v);
                kvs = oset kvs ''references'' refs;
                next = (if b \<noteq> [] then mk_block b (Some (trailing block)) None # next else next)
            in Inr (Some [], next, md\<lparr>md_tree := JA (tag # JO kvs # kids)\<rparr>))))"

definition para :: "mdblock \<Rightarrow> mdblock list \<Rightarrow> mdst \<Rightarrow> bres" where
  "para block next md =
     sbind (md_inline (btext block) md) (\<lambda>(inl, md). Inr (Some [JA (JS ''para'' # inl)], next, md))"

end
