(* ===== verification/MdList.thy ===== *)
theory MdList
  imports MdBlock
begin

text \<open>
  The rule for lists of \<open>src/src/qt/res/js/markdown.js\<close>. It builds nested arrays in place through
  several names for one array (\<open>list\<close>, \<open>last_li\<close> and the stack), so the model has a store: an array is
  an address, its elements are values or addresses. The result is read back from the store at the end.
\<close>

section \<open>The store of arrays\<close>

datatype hval = HV jval | HR nat

type_synonym heap = "hval list list"

definition alloc :: "hval list \<Rightarrow> heap \<Rightarrow> nat \<times> heap" where
  "alloc xs h = (length h, h @ [xs])"

definition arr :: "heap \<Rightarrow> nat \<Rightarrow> hval list" where
  "arr h a = (if a < length h then h ! a else [])"

definition hpush :: "nat \<Rightarrow> hval list \<Rightarrow> heap \<Rightarrow> heap" where
  "hpush a vs h = h[a := arr h a @ vs]"

text \<open>A node that becomes an element of an array that is changed later gets an address of its own.\<close>

fun hnode :: "jval \<Rightarrow> heap \<Rightarrow> hval \<times> heap" where
  "hnode (JA xs) h = (let (a, h) = alloc (map HV xs) h in (HR a, h))"
| "hnode v h = (HV v, h)"

fun hnodes :: "jval list \<Rightarrow> heap \<Rightarrow> hval list \<times> heap" where
  "hnodes [] h = ([], h)"
| "hnodes (v # vs) h = (let (x, h) = hnode v h; (xs, h) = hnodes vs h in (x # xs, h))"

fun read_heap :: "nat \<Rightarrow> heap \<Rightarrow> hval \<Rightarrow> jserr + jval" where
  "read_heap n h (HV v) = Inr v"
| "read_heap n h (HR a) = (case n of 0 \<Rightarrow> Inl NoFuel
     | Suc n' \<Rightarrow> sbind (smap (read_heap n' h) (arr h a)) (\<lambda>vs. Inr (JA vs)))"

definition is_para :: "heap \<Rightarrow> hval \<Rightarrow> bool" where
  "is_para h v = (case v of
     HR a \<Rightarrow> arr h a \<noteq> [] \<and> hd (arr h a) = HV (JS ''para'')
   | HV (JA xs) \<Rightarrow> xs \<noteq> [] \<and> hd xs = JS ''para''
   | _ \<Rightarrow> False)"

fun hstr :: "hval \<Rightarrow> string option" where
  "hstr (HV (JS s)) = Some s"
| "hstr _ = None"

section \<open>Patterns\<close>

definition any_list :: regex where
  "any_list = al [oneof ''*+-'', sq [plus1 (Chs is_digit), chr (CHR 0x2E)]]"

definition bullet_list :: regex where
  "bullet_list = oneof ''*+-''"

definition spaces03 :: regex where
  "spaces03 = Rp 0 (Some 3) True (chr (CHR 0x20))"

definition is_list_re :: regex where
  "is_list_re = sq [Bol False, Gp 1 spaces03, Gp 2 any_list, plus1 (oneof [CHR 0x20, CHR 0x09])]"

definition regex_for_depth :: "nat \<Rightarrow> regex" where
  "regex_for_depth depth = al
     [sq [Bol False, Gp 1 (sq [Rp 0 (Some depth) True indent_re, spaces03]), Gp 2 any_list, plus1 sp],
      Gp 3 (sq [Bol False, Rp 0 (Some (depth - 1)) True indent_re, Rp 0 (Some 4) True (chr (CHR 0x20))])]"

definition expand_tab :: "string \<Rightarrow> string" where
  "expand_tab input =
     replace_all (sq [spaces03, chr (CHR 0x09)]) (\<lambda>_. replicate 4 (CHR 0x20)) input"

section \<open>The state of the rule\<close>

text \<open>\<open>cur_list\<close> is the variable \<open>list\<close>, \<open>loose\<close> the flag; \<open>last_li\<close> is \<open>None\<close> before the first item.\<close>

record lst =
  heap :: heap
  stack :: "(nat \<times> string) list"
  cur_list :: nat
  last_li :: "nat option"
  loose :: bool

definition make_list :: "string \<Rightarrow> string \<Rightarrow> lst \<Rightarrow> lst" where
  "make_list indent marker s =
     (let (a, h) = alloc [HV (JS (if test bullet_list marker then ''bulletlist'' else ''numberlist''))] (heap s)
      in s\<lparr>heap := h, stack := stack s @ [(a, indent)], cur_list := a\<rparr>)"

text \<open>The loop that appends inline nodes; a string is appended to a string that is there.\<close>

fun add_inline :: "nat \<Rightarrow> jval list \<Rightarrow> heap \<Rightarrow> heap" where
  "add_inline a [] h = h"
| "add_inline a (what # inline) h =
     (let xs = arr h a;
          merge = is_str what \<and> length xs > 1 \<and> hstr (last xs) \<noteq> None;
          h' = (if merge then h[a := butlast xs @ [HV (JS (the (hstr (last xs)) @ jstr what))]]
                else let (v, h1) = hnode what h in hpush a [v] h1)
      in add_inline a inline h')"

definition add_li :: "nat option \<Rightarrow> bool \<Rightarrow> jval list \<Rightarrow> string \<Rightarrow> heap \<Rightarrow> jserr + heap" where
  "add_li li lse inline nl h = (case li of
     None \<Rightarrow> Inl TypeErr
   | Some a \<Rightarrow>
       if lse then
         (let (xs, h) = hnodes inline h;
              (p, h) = alloc (HV (JS ''para'') # xs) h
          in Inr (hpush a [HR p] h))
       else
         (let xs = arr h a;
              add_to = (case xs of [] \<Rightarrow> a | _ \<Rightarrow> (case last xs of HR p \<Rightarrow> if is_para h (HR p) then p else a | _ \<Rightarrow> a));
              inline = (if nl \<noteq> [] \<and> length xs > 1 then JS nl # inline else inline)
          in Inr (add_inline add_to inline h)))"

section \<open>Contained blocks\<close>

definition contained_re :: "nat \<Rightarrow> regex" where
  "contained_re depth = sq [Bol False,
     star (Gp 1 (sq [Rp depth (Some depth) True indent_re, starl dot, opt (chr NL)])), Eol False]"

definition contained_indent_re :: "nat \<Rightarrow> regex" where
  "contained_indent_re depth = sq [Bol True, Rp depth (Some depth) True indent_re]"

fun get_contained_blocks :: "nat \<Rightarrow> mdblock list \<Rightarrow> mdblock list \<times> mdblock list" where
  "get_contained_blocks depth [] = ([], [])"
| "get_contained_blocks depth (b # blocks) =
     (if test (contained_re depth) (btext b) then
        let x = replace_all (contained_indent_re depth) (\<lambda>_. []) (btext b);
            (ret, bs) = get_contained_blocks depth blocks
        in (mk_block x (Some (trailing b)) (lineNumber b) # ret, bs)
      else ([], b # blocks))"

lemma length_get_contained: "length (snd (get_contained_blocks depth blocks)) \<le> length blocks"
  by (induction depth blocks rule: get_contained_blocks.induct) (auto simp: Let_def case_prod_unfold)

section \<open>Paragraphs up the stack\<close>

text \<open>
  The last item of the list of a stack frame: its content becomes one paragraph; below the last frame
  the nested list, the last element, stays behind the paragraph.
\<close>

definition paragraphify :: "nat \<times> string \<Rightarrow> bool \<Rightarrow> heap \<Rightarrow> jserr + heap" where
  "paragraphify s is_last h =
     (let list = arr h (fst s) in
      case (if list = [] then HV JU else last list) of
        HR li \<Rightarrow>
          let xs = arr h li in
          if length xs > 1 \<and> is_para h (xs ! 1) then Inr h
          else if is_last then
            (let (p, h) = alloc (HV (JS ''para'') # drop 1 xs) h
             in Inr (h[li := take 1 xs @ [HR p]]))
          else
            (let sublist = (if xs = [] then HV JU else last xs);
                 ys = butlast xs;
                 (p, h) = alloc (HV (JS ''para'') # drop 1 ys) h
             in Inr (h[li := take 1 ys @ [HR p, sublist]]))
      | _ \<Rightarrow> Inl TypeErr)"

fun paragraphify_all :: "(nat \<times> string) list \<Rightarrow> heap \<Rightarrow> jserr + heap" where
  "paragraphify_all [] h = Inr h"
| "paragraphify_all (s # ss) h = sbind (paragraphify s (ss = []) h) (paragraphify_all ss)"

section \<open>One line\<close>

text \<open>The position of an item: a nested list, the list of the same indent, or the depth it deserves.\<close>

definition new_item :: "lst \<Rightarrow> jserr + lst" where
  "new_item s = (let (a, h) = alloc [HV (JS ''listitem'')] (heap s)
     in Inr (s\<lparr>heap := hpush (cur_list s) [HR a] h, last_li := Some a\<rparr>))"

definition push_list :: "string \<Rightarrow> string \<Rightarrow> lst \<Rightarrow> jserr + lst" where
  "push_list indent marker s =
     (let s = make_list indent marker s in
      case last_li s of
        None \<Rightarrow> Inl TypeErr
      | Some li \<Rightarrow> Inr (s\<lparr>heap := hpush li [HR (cur_list s)] (heap s)\<rparr>))"

fun find_indent :: "string \<Rightarrow> (nat \<times> string) list \<Rightarrow> nat \<Rightarrow> nat option" where
  "find_indent ind [] i = None"
| "find_indent ind (s # ss) i = (if snd s = ind then Some i else find_indent ind ss (i + 1))"

definition place_item :: "string \<Rightarrow> string \<Rightarrow> lst \<Rightarrow> jserr + lst" where
  "place_item indent marker s =
     (let wanted_depth = length indent div 4 + 1 in
      if wanted_depth > length (stack s) then sbind (push_list indent marker s) new_item
      else case find_indent indent (stack s) 0 of
        Some i \<Rightarrow> new_item (s\<lparr>cur_list := fst (stack s ! i), stack := take (i + 1) (stack s)\<rparr>)
      | None \<Rightarrow>
          let wanted_depth = wanted_depth + 1 in
          if wanted_depth \<le> length (stack s) then
            new_item (s\<lparr>cur_list := fst (stack s ! (wanted_depth - 1)), stack := take wanted_depth (stack s)\<rparr>)
          else sbind (push_list indent marker s) new_item)"

text \<open>Adding what has been collected to the current item; this ends the loose mode.\<close>

definition flush :: "string \<Rightarrow> string \<Rightarrow> lst \<Rightarrow> mdst \<Rightarrow> jserr + lst \<times> mdst" where
  "flush acc nl s md =
     (if acc = [] then Inr (s, md)
      else sbind (md_inline acc md) (\<lambda>(inline, md).
             sbind (add_li (last_li s) (loose s) inline nl (heap s)) (\<lambda>h.
               Inr (s\<lparr>heap := h, loose := False\<rparr>, md))))"

fun tight_search :: "string list \<Rightarrow> string \<Rightarrow> string \<Rightarrow> lst \<Rightarrow> mdst \<Rightarrow> jserr + string \<times> string \<times> lst \<times> mdst" where
  "tight_search [] acc nl s md = Inr (acc, nl, s, md)"
| "tight_search (line # ls) acc _ s md =
     (let nl = (if char_at line 0 = [NL] then [NL] else []);
          l = (if nl \<noteq> [] then drop 1 line else line)
      in case exec (regex_for_depth (length (stack s))) l of
           None \<Rightarrow> Inl TypeErr
         | Some m \<Rightarrow>
             sbind (case m_grp m 1 of
                 Some ind \<Rightarrow>
                   sbind (flush acc nl s md) (\<lambda>(s, md).
                     sbind (place_item (expand_tab ind) (m_str m 2) s) (\<lambda>s. Inr ([], [], s, md)))
               | None \<Rightarrow> Inr (acc, nl, s, md)) (\<lambda>(acc, nl, s, md).
             let acc = (if length l > length (m_all m) then acc @ nl @ drop (length (m_all m)) l else acc)
             in tight_search ls acc nl s md))"

section \<open>The rule\<close>

text \<open>
  One round of the outer loop: the lines of the block, then the blocks that belong to the last item.
  \<open>tb\<close> is \<open>toTree\<close> of a list of blocks.
\<close>

type_synonym to_tree_blocks = "mdblock list \<Rightarrow> jval \<Rightarrow> mdst \<Rightarrow> jserr + jval \<times> mdst"

definition list_round ::
  "to_tree_blocks \<Rightarrow> mdblock \<Rightarrow> mdblock list \<Rightarrow> lst \<Rightarrow> mdst \<Rightarrow> jserr + mdblock list \<times> lst \<times> mdst" where
  "list_round tb block next s md =
     sbind (tight_search (split_re (La (chr NL)) (btext block)) [] [] s md) (\<lambda>(acc, nl, s, md).
     sbind (flush acc nl s md) (\<lambda>(s, md).
       let (contained, next) = get_contained_blocks (length (stack s)) next in
       if contained = [] then Inr (next, s, md)
       else
         sbind (paragraphify_all (stack s) (heap s)) (\<lambda>h.
         sbind (tb contained (JA []) md) (\<lambda>(t, md).
           case last_li s of
             None \<Rightarrow> Inl TypeErr
           | Some li \<Rightarrow>
               let (vs, h) = hnodes (case t of JA xs \<Rightarrow> xs | _ \<Rightarrow> []) h
               in Inr (next, s\<lparr>heap := hpush li vs h\<rparr>, md)))))"

text \<open>
  The outer loop, as long as the next block continues the list. A horizontal rule ends it; the rule for
  it runs as a method of the dialect object, so \<open>this.toTree\<close> is not a function there.
\<close>

definition no_toTree :: to_tree where
  "no_toTree s root md = Inl TypeErr"

lemma list_round_next:
  "list_round tb block next s md = Inr (next', s', md') \<Longrightarrow> length next' \<le> length next"
  using length_get_contained
  by (auto simp: list_round_def sbind_Inr_iff Let_def case_prod_unfold split: if_splits option.splits)

function loose_search ::
  "to_tree_blocks \<Rightarrow> mdblock \<Rightarrow> mdblock list \<Rightarrow> lst \<Rightarrow> mdst \<Rightarrow> jserr + jval list \<times> mdblock list \<times> lst \<times> mdst" where
  "loose_search tb block next s md =
     sbind (list_round tb block next s md) (\<lambda>(next, s, md).
       case next of
         [] \<Rightarrow> Inr ([], next, s, md)
       | b # next' \<Rightarrow>
           if test is_list_re (btext b) \<or> test (sq [Bol False, chr (CHR 0x20)]) (btext b) then
             sbind (horizRule no_toTree b next' md) (\<lambda>(hr, next', md).
               case hr of
                 Some nodes \<Rightarrow> Inr (nodes, next', s, md)
               | None \<Rightarrow>
                   sbind (paragraphify_all (stack s) (heap s)) (\<lambda>h.
                     loose_search tb b next' (s\<lparr>heap := h, loose := True\<rparr>) md))
           else Inr ([], next, s, md))"
  by pat_completeness auto

lemma horizRule_None: "horizRule tt block next md = Inr (None, next', md') \<Longrightarrow> next' = next"
  by (auto simp: horizRule_def no_match_def sbind_Inr_iff Let_def split: option.splits)

termination loose_search
proof (relation "measure (\<lambda>(tb, block, next, s, md). length next)", goal_cases)
  case (2 tb block "next" s md p q n s2 md2 b next2 r hr u next3 md3 h)
  then show ?case by (auto dest!: list_round_next horizRule_None)
qed simp

declare loose_search.simps [simp del]

definition lists :: "to_tree_blocks \<Rightarrow> mdblock \<Rightarrow> mdblock list \<Rightarrow> mdst \<Rightarrow> bres" where
  "lists tb block next md = (case exec is_list_re (btext block) of
     None \<Rightarrow> no_match next md
   | Some m \<Rightarrow>
       let s = make_list (m_str m 1) (m_str m 2)
           \<lparr>heap = [], stack = [], cur_list = 0, last_li = None, loose = False\<rparr>;
           root = cur_list s
       in sbind (loose_search tb block next s md) (\<lambda>(hr, next, s, md).
            sbind (read_heap (Suc (length (heap s))) (heap s) (HR root)) (\<lambda>t.
              Inr (Some (t # hr), next, md))))"

end
