(* ===== verification/MdMaruku.thy ===== *)
theory MdMaruku
  imports MdList
begin

text \<open>
  The block rules that the Maruku dialect of \<open>src/src/qt/res/js/markdown.js\<close> adds: document and block
  meta data, definition lists and tables.
\<close>

section \<open>Meta data\<close>

definition wordch :: regex where "wordch = Chs is_word"

definition doc_meta_re :: regex where
  "doc_meta_re = sq [Bol False, star (sq [plus1 wordch, chr (CHR 0x3A), star dot, chr NL]),
     plus1 wordch, chr (CHR 0x3A), star dot, Eol False]"

definition pair_re :: regex where
  "pair_re = sq [Gp 1 (plus1 wordch), chr (CHR 0x3A), star sp, Gp 2 (star dot), Eol False]"

definition document_meta :: "mdblock \<Rightarrow> mdblock list \<Rightarrow> mdst \<Rightarrow> bres" where
  "document_meta block next md =
     (if (case lineNumber block of Some l \<Rightarrow> l > 1 | None \<Rightarrow> False) then no_match next md
      else if \<not> test doc_meta_re (btext block) then no_match next md
      else
        sbind (tree_attrs (md_tree md)) (\<lambda>(tag, kvs, kids).
        sbind (smap (\<lambda>p. case exec pair_re p of None \<Rightarrow> Inl TypeErr
                 | Some m \<Rightarrow> Inr (lower (m_str m 1), JS (m_str m 2)))
               (split_re (chr NL) (btext block))) (\<lambda>pairs.
          let kvs = foldl (\<lambda>kvs (k, v). oset kvs k v) kvs pairs
          in Inr (Some [], next, md\<lparr>md_tree := JA (tag # JO kvs # kids)\<rparr>))))"

definition block_meta_re :: regex where
  "block_meta_re = sq [Gp 1 (al [Bol False, chr NL]), spaces03, lit ''{:'', star sp,
     Gp 2 (star (al [lit [BS, CHR 0x7D], noneof ''}''])), star sp, lit ''}'', Eol False]"

definition block_meta :: "proc_block \<Rightarrow> mdblock \<Rightarrow> mdblock list \<Rightarrow> mdst \<Rightarrow> bres" where
  "block_meta pb block next md = (case exec block_meta_re (btext block) of
     None \<Rightarrow> no_match next md
   | Some m \<Rightarrow>
       let attr = processMetaHash (m_str m 2) in
       if m_str m 1 = [] then
         (case md_tree md of
            JA xs \<Rightarrow>
              let node = (if xs = [] then JU else last xs) in
              if is_str node then no_match next md
              else sbind (add_attrs node attr) (\<lambda>node'.
                     Inr (Some [], next, md\<lparr>md_tree := JA (butlast xs @ [node'])\<rparr>))
          | _ \<Rightarrow> Inl TypeErr)
       else
         let b = replace1 (sq [chr NL, star dot, Eol False]) (\<lambda>_. []) (btext block) in
         sbind (pb \<lparr>btext = b, trailing = None, lineNumber = None\<rparr> [] md) (\<lambda>(result, _, md).
           sbind (add_attrs (if result = [] then JU else hd result) attr) (\<lambda>v.
             Inr (Some (v # tl result), next, md))))"

section \<open>Definition lists\<close>

definition tight_re :: regex where
  "tight_re = sq [Bol False,
     Gp 1 (plus1 (sq [Chs (\<lambda>c. \<not> is_space c \<and> c \<noteq> CHR 0x3A), star dot, chr NL])),
     chr (CHR 0x3A), plus1 sp, Gp 2 (plus1 anych), Eol False]"

definition dl_terms :: "string \<Rightarrow> string list" where
  "dl_terms s = split_re (chr NL) (replace1 (sq [chr NL, Eol False]) (\<lambda>_. []) s)"

definition dl_defns :: "string \<Rightarrow> string list" where
  "dl_defns s = split_re (sq [chr NL, chr (CHR 0x3A), plus1 sp]) s"

fun dl_dds :: "string list \<Rightarrow> mdst \<Rightarrow> jserr + jval list \<times> mdst" where
  "dl_dds [] md = Inr ([], md)"
| "dl_dds (d # ds) md =
     sbind (md_inline (replace1 (sq [Gp 1 (chr NL), plus1 sp]) (\<lambda>m. m_str m 1) d) md) (\<lambda>(inline, md).
     sbind (dl_dds ds md) (\<lambda>(vs, md). Inr (JA (JS ''dd'' # inline) # vs, md)))"

fun dl_blocks :: "string list \<Rightarrow> mdst \<Rightarrow> jserr + jval list \<times> mdst" where
  "dl_blocks [] md = Inr ([], md)"
| "dl_blocks (b # bs) md = (case exec tight_re b of
     None \<Rightarrow> Inl TypeErr
   | Some m \<Rightarrow>
       sbind (dl_dds (dl_defns (m_str m 2)) md) (\<lambda>(dds, md).
       sbind (dl_blocks bs md) (\<lambda>(vs, md).
         Inr (map (\<lambda>t. JA [JS ''dt'', JS t]) (dl_terms (m_str m 1)) @ dds @ vs, md))))"

definition definition_list :: "mdblock \<Rightarrow> mdblock list \<Rightarrow> mdst \<Rightarrow> bres" where
  "definition_list block next md =
     (if \<not> test tight_re (btext block) then no_match next md
      else
        let more = takeWhile (\<lambda>b. test tight_re (btext b)) next;
            next = dropWhile (\<lambda>b. test tight_re (btext b)) next
        in sbind (dl_blocks (map btext (block # more)) md) (\<lambda>(vs, md).
             Inr (Some [JA (JS ''dl'' # vs)], next, md)))"

section \<open>Tables\<close>

text \<open>\<open>_split_on_unescaped(s, "|")\<close>\<close>

definition pipe :: regex where "pipe = chr (CHR 0x7C)"

definition unescaped_re :: regex where
  "unescaped_re = sq [Bol False, Gp 1 (star (al [sq [chr BS, dot], noneof [BS, CHR 0x7C]])), pipe, Gp 2 (star dot)]"

fun split_unescaped :: "nat \<Rightarrow> string \<Rightarrow> jserr + string list" where
  "split_unescaped n s = (case exec unescaped_re s of
     None \<Rightarrow> Inr [s]
   | Some m \<Rightarrow> (case n of 0 \<Rightarrow> Inl NoFuel
     | Suc n' \<Rightarrow> sbind (split_unescaped n' (m_str m 2)) (\<lambda>res. Inr (m_str m 1 # res))))"

declare split_unescaped.simps [simp del]

definition split_on_unescaped :: "string \<Rightarrow> jserr + string list" where
  "split_on_unescaped s = split_unescaped (length s) s"

definition leading_pipe :: regex where
  "leading_pipe = sq [Bol False, spaces03, pipe, Gp 1 (plus1 dot), chr NL, spaces03, pipe, star sp,
     Gp 2 (sq [plus1 (oneof ''-:''), star (oneof ''-| :'')]), chr NL,
     Gp 3 (star (sq [star sp, pipe, star dot, al [chr NL, Eol False]])), La (al [chr NL, Eol False])]"

definition no_leading_pipe :: regex where
  "no_leading_pipe = sq [Bol False, spaces03,
     Gp 1 (sq [Chs (\<lambda>c. \<not> is_space c), star (al [sq [chr BS, dot], noneof [BS, CHR 0x7C]]), pipe, star dot]),
     chr NL, spaces03,
     Gp 2 (sq [plus1 (oneof ''-:''), star sp, pipe, star (oneof ''-| :'')]), chr NL,
     Gp 3 (star (sq [star (al [sq [chr BS, dot], noneof [BS, CHR 0x7C]]), pipe, star dot, al [chr NL, Eol False]])),
     La (al [chr NL, Eol False])]"

definition trail_pipe :: "bool \<Rightarrow> regex" where
  "trail_pipe ml = sq [pipe, star sp, Eol ml]"

definition dash :: regex where "dash = chr (CHR 0x2D)"

definition column_attr :: "string \<Rightarrow> (string \<times> jval) list" where
  "column_attr s =
     (if test (sq [Bol False, star sp, plus1 dash, lit '':'', star sp, Eol False]) s
      then [(''align'', JS ''right'')]
      else if test (sq [Bol False, star sp, lit '':'', plus1 dash, star sp, Eol False]) s
      then [(''align'', JS ''left'')]
      else if test (sq [Bol False, star sp, lit '':'', plus1 dash, lit '':'', star sp, Eol False]) s
      then [(''align'', JS ''center'')]
      else [])"

definition trim :: "string \<Rightarrow> string" where
  "trim s = rev (dropWhile is_space (rev (dropWhile is_space s)))"

text \<open>The cells of a row, with the attributes of their columns as far as there are any.\<close>

fun table_cells :: "string \<Rightarrow> (string \<times> jval) list list \<Rightarrow> string list \<Rightarrow> mdst \<Rightarrow> jserr + jval list \<times> mdst" where
  "table_cells tag attrs [] md = Inr ([], md)"
| "table_cells tag attrs (c # cs) md =
     sbind (md_inline (trim c) md) (\<lambda>(inline, md).
     sbind (table_cells tag (tl attrs) cs md) (\<lambda>(vs, md).
       Inr (JA (JS tag # JO (case attrs of [] \<Rightarrow> [] | a # _ \<Rightarrow> a) # inline) # vs, md)))"

fun table_rows :: "(string \<times> jval) list list \<Rightarrow> string list \<Rightarrow> mdst \<Rightarrow> jserr + jval list \<times> mdst" where
  "table_rows attrs [] md = Inr ([], md)"
| "table_rows attrs (r # rs) md =
     sbind (split_on_unescaped r) (\<lambda>cells.
     sbind (table_cells ''td'' attrs cells md) (\<lambda>(vs, md).
     sbind (table_rows attrs rs md) (\<lambda>(ws, md). Inr (JA (JS ''tr'' # vs) # ws, md))))"

definition table_body :: "string \<Rightarrow> string \<Rightarrow> string \<Rightarrow> mdblock list \<Rightarrow> mdst \<Rightarrow> bres" where
  "table_body head rule body next md =
     (let attrs = map column_attr (split_char (CHR 0x7C) (replace1 (trail_pipe False) (\<lambda>_. []) rule)) in
      sbind (split_on_unescaped (replace1 (trail_pipe False) (\<lambda>_. []) head)) (\<lambda>heads.
      sbind (table_cells ''th'' attrs heads md) (\<lambda>(ths, md).
      sbind (table_rows attrs (split_char NL (replace_all (trail_pipe True) (\<lambda>_. []) body)) md) (\<lambda>(trs, md).
        Inr (Some [JA [JS ''table'', JA [JS ''thead'', JA (JS ''tr'' # ths)], JA (JS ''tbody'' # trs)]],
             next, md)))))"

definition table :: "mdblock \<Rightarrow> mdblock list \<Rightarrow> mdst \<Rightarrow> bres" where
  "table block next md = (case exec leading_pipe (btext block) of
     Some m \<Rightarrow> table_body (m_str m 1) (m_str m 2)
       (replace_all (sq [Bol True, star sp, pipe]) (\<lambda>_. []) (m_str m 3)) next md
   | None \<Rightarrow> (case exec no_leading_pipe (btext block) of
       Some m \<Rightarrow> table_body (m_str m 1) (m_str m 2) (m_str m 3) next md
     | None \<Rightarrow> no_match next md))"

end
