(* ===== verification/MdTop.thy ===== *)
theory MdTop
  imports MdMaruku
begin

text \<open>
  The dialects put together, in \<open>src/src/qt/res/js/markdown.js\<close>: \<open>buildBlockOrder\<close>, \<open>processBlock\<close>,
  \<open>toTree\<close>, \<open>parse\<close>, \<open>toHTMLTree\<close> and \<open>toHTML\<close>. The rules call \<open>processBlock\<close> and \<open>toTree\<close> again;
  the fuel bounds the depth of these calls.
\<close>

section \<open>The order of the rules\<close>

definition gruber_block :: "string list" where
  "gruber_block = [''atxHeader'', ''setextHeader'', ''code'', ''horizRule'', ''lists'', ''blockquote'',
     ''referenceDefn'', ''para'']"

definition maruku_block :: "string list" where
  "maruku_block = [''document_meta'', ''block_meta'', ''definition_list'', ''table''] @ gruber_block @ [''__order__'']"

definition buildBlockOrder :: "string list \<Rightarrow> string list" where
  "buildBlockOrder d = filter (\<lambda>i. \<not> (i = ''__order__'' \<or> i = ''__call__'')) d"

definition block_order :: "dialect option \<Rightarrow> jserr + string list" where
  "block_order d = (case d of
     Some Gruber \<Rightarrow> Inr (buildBlockOrder gruber_block)
   | Some Maruku \<Rightarrow> Inr (buildBlockOrder maruku_block)
   | None \<Rightarrow> Inl TypeErr)"

definition block_rule ::
  "to_tree \<Rightarrow> to_tree_blocks \<Rightarrow> proc_block \<Rightarrow> string \<Rightarrow> mdblock \<Rightarrow> mdblock list \<Rightarrow> mdst \<Rightarrow> bres" where
  "block_rule tt tb pb name =
     (if name = ''atxHeader'' then atxHeader
      else if name = ''setextHeader'' then setextHeader
      else if name = ''code'' then code_block
      else if name = ''horizRule'' then horizRule tt
      else if name = ''lists'' then lists tb
      else if name = ''blockquote'' then blockquote tt pb
      else if name = ''referenceDefn'' then referenceDefn
      else if name = ''para'' then para
      else if name = ''document_meta'' then document_meta
      else if name = ''block_meta'' then block_meta pb
      else if name = ''definition_list'' then definition_list
      else if name = ''table'' then table
      else (\<lambda>block next md. no_match next md))"

text \<open>The first rule that returns an array; no rule is no content.\<close>

fun try_rules ::
  "(string \<Rightarrow> mdblock \<Rightarrow> mdblock list \<Rightarrow> mdst \<Rightarrow> bres) \<Rightarrow> string list \<Rightarrow> proc_block" where
  "try_rules rule [] block next md = Inr ([], next, md)"
| "try_rules rule (o' # ord) block next md =
     sbind (rule o' block next md) (\<lambda>(res, next, md). case res of
       Some nodes \<Rightarrow> Inr (nodes, next, md)
     | None \<Rightarrow> try_rules rule ord block next md)"

section \<open>The tree\<close>

definition tree_push :: "jval \<Rightarrow> jval list \<Rightarrow> jval" where
  "tree_push t vs = (case t of JA xs \<Rightarrow> JA (xs @ vs) | _ \<Rightarrow> t)"

fun blocks_loop :: "nat \<Rightarrow> proc_block \<Rightarrow> mdblock list \<Rightarrow> mdst \<Rightarrow> jserr + mdst" where
  "blocks_loop n pb blocks md = (case blocks of
     [] \<Rightarrow> Inr md
   | b # bs \<Rightarrow> (case n of 0 \<Rightarrow> Inl NoFuel
     | Suc n' \<Rightarrow> sbind (pb b bs md) (\<lambda>(nodes, bs, md).
         blocks_loop n' pb bs (md\<lparr>md_tree := tree_push (md_tree md) nodes\<rparr>))))"

declare blocks_loop.simps [simp del]

text \<open>The characters of the blocks, and one more for each: every round of the loop leaves fewer.\<close>

definition block_size :: "mdblock \<Rightarrow> nat" where
  "block_size b = Suc (length (block_src b))"

definition blocks_size :: "mdblock list \<Rightarrow> nat" where
  "blocks_size bs = sum_list (map block_size bs)"

definition toTree_with :: "proc_block \<Rightarrow> mdblock list \<Rightarrow> jval option \<Rightarrow> mdst \<Rightarrow> jserr + jval \<times> mdst" where
  "toTree_with pb blocks custom_root md =
     (let old_tree = md_tree md;
          root = (case custom_root of Some r \<Rightarrow> r
            | None \<Rightarrow> if truthy old_tree then old_tree else JA [JS ''markdown''])
      in sbind (blocks_loop (blocks_size blocks) pb blocks (md\<lparr>md_tree := root\<rparr>)) (\<lambda>md.
           Inr (md_tree md, if custom_root = None then md else md\<lparr>md_tree := old_tree\<rparr>)))"

fun processBlock :: "nat \<Rightarrow> proc_block" where
  "processBlock 0 block next md = Inl NoFuel"
| "processBlock (Suc fuel) block next md =
     sbind (block_order (dialect md)) (\<lambda>ord.
       try_rules
         (block_rule (\<lambda>s root. toTree_with (processBlock fuel) (split_blocks s) (Some root))
                     (\<lambda>bs root. toTree_with (processBlock fuel) bs (Some root))
                     (processBlock fuel))
         ord block next md)"

definition toTree :: "string \<Rightarrow> mdst \<Rightarrow> jserr + jval \<times> mdst" where
  "toTree source md = toTree_with (processBlock (length source + 2)) (split_blocks source) None md"

definition parse :: "string \<Rightarrow> dialect_arg \<Rightarrow> jserr + jval" where
  "parse source d = sbind (Markdown d) (\<lambda>md. sbind (toTree source md) (\<lambda>(t, _). Inr t))"

section \<open>HTML\<close>

definition toHTMLTree ::
  "(jval \<Rightarrow> jval \<Rightarrow> jval) option \<Rightarrow> jval \<Rightarrow> dialect_arg \<Rightarrow> jserr + jval" where
  "toHTMLTree pp input d =
     sbind (case input of JS s \<Rightarrow> parse s d | t \<Rightarrow> Inr t) (\<lambda>input.
       toHTMLTree_of (Suc (convert_cost input)) pp input)"

definition toHTML :: "(jval \<Rightarrow> jval \<Rightarrow> jval) option \<Rightarrow> jval \<Rightarrow> dialect_arg \<Rightarrow> jserr + string" where
  "toHTML pp source d = sbind (toHTMLTree pp source d) (\<lambda>input. renderJsonML input False)"

end
