(* ===== verification/MdProps.thy ===== *)
theory MdProps
  imports MdTop
begin

text \<open>
  Properties of the Markdown parser as a whole: what the split into blocks keeps, what the inline rules
  return, and how a Markdown tree becomes text with balanced tags.
\<close>

section \<open>Splitting and escaping\<close>

text \<open>C8: \<open>split_blocks\<close> loses nothing: after the line ends have been normalised, the input is blank lines
  followed by the blocks with what trails them, no block is empty, and the line number of each block is one
  more than the number of line ends before it.\<close>

theorem split_blocks_lossless:
  "\<exists>lead. normalize source = lead @ concat (map block_src (split_blocks source)) \<and>
     list_all is_space lead \<and> lines_ok (1 + int (count_lines lead)) (split_blocks source)"
  using split_blocks_spec [of source] by (simp add: list_all_iff)

text \<open>C10: Text that has been escaped contains no character that is special to HTML except in the five
  entities, and replacing the entities gives the text back.\<close>

theorem escapeHTML_sound:
  "set (escapeHTML s) \<inter> {CHR 0x3C, CHR 0x3E, CHR 0x22, CHR 0x27} = {} \<and> unescape (escapeHTML s) = s"
  using escapeHTML_safe [of _ s] unescape_escapeHTML [of s] by blast

text \<open>C12: Meta data whose parts are quoted is split into exactly these parts, whatever characters they
  contain.\<close>

theorem split_meta_hash_quoted:
  "split_meta_hash (join_str '' '' (map quote_part (s # ss))) = s # ss"
  using split_meta_hash_quote [of s ss "[]"] by (simp add: split_meta_hash_def)

section \<open>Inline rules\<close>

text \<open>C7: Inline parsing always returns: it throws nothing, in either dialect and on every text. From a state
  without open emphasis it leaves no emphasis open, and no closing marker is left among the nodes.\<close>

theorem processInline_returns:
  "\<exists>out st'. processInline d t st = Inr (out, st') \<and> state_le st' st \<and>
     (em_st st = [] \<and> strong_st st = [] \<longrightarrow> wfs out \<and> st' = st)"
  by (rule processInline_ok)

definition no_emph :: ist where
  "no_emph = \<lparr>em_st = [], strong_st = []\<rparr>"

theorem processInline_returns_witness:
  "\<exists>out. processInline Gruber ''*a*'' no_emph = Inr (out, no_emph) \<and> wfs out"
  using processInline_returns [of Gruber "''*a*''" no_emph] by (auto simp: no_emph_def)

text \<open>Emphasis of one delimiter inside emphasis of the other loses the outer one: the rule drops the outer delimiter
  from its stack when the inner emphasis is complete, so the last \<open>*\<close> is text.\<close>

lemma nested_emphasis_lost:
  "toHTML None (JS ''*a _b_ c*'') DUndef = Inr ''<p>*a <em>b</em> c*</p>''"
  by code_simp

section \<open>From the tree to text\<close>

text \<open>C11: The conversion to HTML returns: with one more than the cost of a tree as fuel it does not run out of
  it, whatever the tree and the references are.\<close>

theorem convert_terminates:
  assumes "convert_cost t < fuel"
  shows "convert_tree_to_html fuel None references t \<noteq> Inl NoFuel"
  by (rule convert_returns [OF assms])

theorem convert_terminates_witness:
  "convert_tree_to_html 8 None (JO []) (JA [JS ''markdown'', JA [JS ''para'', JS ''x'']]) \<noteq> Inl NoFuel"
  using convert_terminates [of "JA [JS ''markdown'', JA [JS ''para'', JS ''x'']]" 8 "JO []"]
  by (simp add: convert_cost_def)

text \<open>C9: Merging text nodes changes no text, and leaves no two neighbouring text nodes anywhere in the
  tree.\<close>

theorem merge_text_nodes_merges:
  assumes "merge_text_nodes v = Inr w"
  shows "flat_text w = flat_text v \<and> merged w"
  using merge_spec(1) [OF assms] by simp

theorem merge_text_nodes_merges_witness:
  "flat_text (JA [JS ''p'', JS ''ab'', JA [JS ''br''], JS ''c'']) =
     flat_text (JA [JS ''p'', JS ''a'', JS ''b'', JA [JS ''br''], JS ''c'']) \<and>
   merged (JA [JS ''p'', JS ''ab'', JA [JS ''br''], JS ''c''])"
  by (rule merge_text_nodes_merges [of "JA [JS ''p'', JS ''a'', JS ''b'', JA [JS ''br''], JS ''c'']"])
    code_simp

text \<open>The references of a tree, as \<open>toHTMLTree\<close> finds them.\<close>

definition tree_refs :: "jval \<Rightarrow> jval" where
  "tree_refs t = (case extract_attr t of
     JO kvs \<Rightarrow> if truthy (oget kvs ''references'') then oget kvs ''references'' else JO []
   | _ \<Rightarrow> JO [])"

lemma convert_markdown:
  "convert_tree_to_html n None r (JA (JS ''markdown'' # ys)) = Inr h \<Longrightarrow> \<exists>zs. h = JA zs"
  by (cases n; cases "attrs_of ys") (auto simp: convert_node_def sbind_Inr_iff)

lemma toHTMLTree_wf:
  assumes "t = JA (JS ''markdown'' # ys)" and "wf_md (ref_ok (tree_refs t)) t"
  shows "\<exists>h. toHTMLTree None t d = Inr h \<and> wf_html h \<and> \<not> is_str h"
proof -
  obtain h where h: "convert_tree_to_html (Suc (convert_cost t)) None (tree_refs t) t = Inr h" "wf_html h"
    using convert_wf [OF assms(2), of "Suc (convert_cost t)"] by auto
  obtain zs where zs: "h = JA zs" using convert_markdown h(1) assms(1) by blast
  obtain w where w: "merge_text_nodes h = Inr w" "wf_html w" using merge_wf(1) [OF h(2)] zs by auto
  have "\<not> is_str w" using merge_spec(1) [OF w(1)] zs by (simp add: same_kind_def)
  then show ?thesis
    using w h(1) by (auto simp: assms(1) toHTMLTree_def toHTMLTree_of_def tree_refs_def Let_def)
qed

lemma render_kids:
  assumes "list_all wf_html kids"
  shows "\<exists>tss. smap render_tree kids = Inr (map (\<lambda>ts. concat (map show_tok ts)) tss) \<and>
    (\<forall>ts \<in> set tss. \<forall>st. balance st ts = Some st)"
  using assms
proof (induction kids)
  case (Cons k kids)
  obtain ts where ts: "render_tree k = Inr (concat (map show_tok ts))" "\<forall>st. balance st ts = Some st"
    using render_tree_tokens [of k] Cons.prems by auto
  from Cons obtain tss where "smap render_tree kids = Inr (map (\<lambda>ts. concat (map show_tok ts)) tss)"
    "\<forall>ts \<in> set tss. \<forall>st. balance st ts = Some st" by auto
  with ts show ?case by (intro exI [of _ "ts # tss"]) simp
qed simp

text \<open>C6: A well-formed Markdown tree is rendered: \<open>toHTML\<close> returns a text, and the parts of the text are
  sequences of escaped texts and of tags in which every tag that is opened is closed again, properly nested
  (\<open>wf_md\<close>: every node has the attributes its kind needs, and every reference is defined or unknown).\<close>

theorem toHTML_balanced:
  assumes "t = JA (JS ''markdown'' # ys)" and "wf_md (ref_ok (tree_refs t)) t"
  shows "\<exists>tss. toHTML None t d = Inr (join_str [NL, NL] (map (\<lambda>ts. concat (map show_tok ts)) tss)) \<and>
    (\<forall>ts \<in> set tss. \<forall>st. balance st ts = Some st)"
proof -
  obtain h where h: "toHTMLTree None t d = Inr h" "wf_html h" "\<not> is_str h"
    using toHTMLTree_wf [OF assms] by blast
  then obtain xs where xs: "h = JA xs" by (cases h) auto
  obtain tag kvs kids where k: "split_attr (tl xs) = (JO kvs, kids)" "list_all wf_html kids"
    using wf_html_JA h(2) xs by metis
  then show ?thesis
    using render_kids [OF k(2)] by (auto simp: toHTML_def h(1) renderJsonML_def xs)
qed

theorem toHTML_balanced_witness:
  "\<exists>tss. toHTML None (JA [JS ''markdown'', JA [JS ''para'', JS ''a<b'', JA [JS ''em'', JS ''c'']]]) DUndef =
     Inr (join_str [NL, NL] (map (\<lambda>ts. concat (map show_tok ts)) tss)) \<and>
     (\<forall>ts \<in> set tss. \<forall>st. balance st ts = Some st)"
  by (rule toHTML_balanced [OF refl]) code_simp

text \<open>A link whose text is the name of an inherited property of objects (\<open>[constructor]\<close>) finds that
  property among the references, and rendering throws a type error instead of returning the text.\<close>

lemma reference_constructor_throws:
  "toHTML None (JS ''[constructor]'') DUndef = Inl TypeErr"
  by code_simp

text \<open>A horizontal rule after a loose list throws: the rule for it is called as a method of the dialect,
  where \<open>toTree\<close> is not defined.\<close>

lemma list_then_rule_throws:
  "toHTML None (JS (''* a'' @ [NL, NL] @ ''* b'' @ [NL] @ ''* * *'')) DUndef = Inl TypeErr"
  by code_simp

text \<open>A paragraph between a reference definition and a quote is lost: what the rule for definitions pushes
  back is pushed to a list of blocks that the rule for quotes has made for the call and drops.\<close>

lemma paragraph_before_quote_lost:
  "toHTML None (JS (''[x]: u'' @ [NL] @ ''b'' @ [NL] @ ''> c'')) DUndef =
    Inr ''<blockquote><p>c</p></blockquote>''"
  by code_simp

end
