(* ===== verification/JqDom.thy ===== *)
theory JqDom
  imports Complex_Main JsValue "HOL-Library.Multiset"
begin

text \<open>
  What the FooTable scripts read and change of the page: the contents of cells, the classes and the
  visibility of elements, the values of \<open>data\<close> attributes, and the conversions of the language between
  strings and numbers. A number is exact here (no rounding to doubles); \<open>Infinity\<close> is not read.
\<close>

section \<open>Values of data attributes\<close>

datatype dval = DU | DB bool | DN rat | DS string

fun dtruthy :: "dval \<Rightarrow> bool" where
  "dtruthy DU = False"
| "dtruthy (DB b) = b"
| "dtruthy (DN n) = (n \<noteq> 0)"
| "dtruthy (DS s) = (s \<noteq> [])"

text \<open>\<open>a || b\<close>\<close>

definition dor :: "dval \<Rightarrow> dval \<Rightarrow> dval" where
  "dor a b = (if dtruthy a then a else b)"

text \<open>Decimal notation of a number, up to twenty places.\<close>

fun frac_digits :: "nat \<Rightarrow> rat \<Rightarrow> string" where
  "frac_digits 0 r = []"
| "frac_digits (Suc n) r =
     (if r = 0 then [] else digits (nat \<lfloor>10 * r\<rfloor>) @ frac_digits n (10 * r - of_int \<lfloor>10 * r\<rfloor>))"

definition num_str :: "rat \<Rightarrow> string" where
  "num_str r = (let a = \<bar>r\<bar>; i = \<lfloor>a\<rfloor> in
     (if r < 0 then ''-'' else []) @ digits (nat i) @
     (if a = of_int i then [] else ''.'' @ frac_digits 20 (a - of_int i)))"

fun dstr :: "dval \<Rightarrow> string" where
  "dstr DU = ''undefined''"
| "dstr (DB b) = (if b then ''true'' else ''false'')"
| "dstr (DN n) = num_str n"
| "dstr (DS s) = s"

type_synonym data = "(string \<times> dval) list"

definition dget :: "data \<Rightarrow> string \<Rightarrow> dval" where
  "dget d k = (case map_of d k of Some v \<Rightarrow> v | None \<Rightarrow> DU)"

lemma dget_simps [simp]:
  "dget (AList.update k v d) k' = (if k' = k then v else dget d k')"
  "dget (AList.delete k d) k' = (if k' = k then DU else dget d k')"
  by (simp_all add: dget_def update_conv delete_conv)

section \<open>Strings and numbers\<close>

definition is_ws :: "char \<Rightarrow> bool" where
  "is_ws c \<longleftrightarrow> c \<in> set [CHR 0x20, CHR 0x09, CHR 0x0A, CHR 0x0B, CHR 0x0C, CHR 0x0D, CHR 0xA0]"

definition js_trim :: "string \<Rightarrow> string" where
  "js_trim s = rev (dropWhile is_ws (rev (dropWhile is_ws s)))"

definition is_dig :: "char \<Rightarrow> bool" where
  "is_dig c \<longleftrightarrow> (of_char c :: nat) \<in> {48..57}"

definition dig_val :: "char \<Rightarrow> int" where
  "dig_val c = of_char c - 48"

definition dec_val :: "string \<Rightarrow> int" where
  "dec_val s = foldl (\<lambda>n c. 10 * n + dig_val c) 0 s"

definition split_sign :: "string \<Rightarrow> bool \<times> string" where
  "split_sign s = (case s of
     c # r \<Rightarrow> if c = CHR 0x2D then (True, r) else if c = CHR 0x2B then (False, r) else (False, s)
   | [] \<Rightarrow> (False, []))"

text \<open>\<open>parseInt(s, 10)\<close>; \<open>None\<close> is \<open>NaN\<close>.\<close>

definition parse_int :: "string \<Rightarrow> int option" where
  "parse_int s = (let (neg, r) = split_sign (dropWhile is_ws s); ds = takeWhile is_dig r in
     if ds = [] then None else Some ((if neg then -1 else 1) * dec_val ds))"

text \<open>The exponent of a decimal literal, 0 when there is none.\<close>

definition exponent :: "string \<Rightarrow> int" where
  "exponent s = (case s of
     c # r \<Rightarrow>
       if c \<in> {CHR 0x65, CHR 0x45} then
         (let (neg, r) = split_sign r; ds = takeWhile is_dig r
          in if ds = [] then 0 else (if neg then -1 else 1) * dec_val ds)
       else 0
   | [] \<Rightarrow> 0)"

definition scale10 :: "rat \<Rightarrow> int \<Rightarrow> rat" where
  "scale10 r e = (if 0 \<le> e then r * 10 ^ nat e else r / 10 ^ nat (- e))"

text \<open>The longest decimal literal at the start; the rest of the string is returned as well.\<close>

definition dec_literal :: "string \<Rightarrow> (rat \<times> string) option" where
  "dec_literal s =
     (let (neg, r) = split_sign s;
          ip = takeWhile is_dig r; r1 = dropWhile is_dig r;
          fp = (case r1 of c # t \<Rightarrow> if c = CHR 0x2E then takeWhile is_dig t else [] | [] \<Rightarrow> []);
          r2 = (case r1 of c # t \<Rightarrow> if c = CHR 0x2E then dropWhile is_dig t else r1 | [] \<Rightarrow> [])
      in if ip = [] \<and> fp = [] then None
         else let m = (of_int (dec_val (ip @ fp)) :: rat) / 10 ^ length fp
              in Some (scale10 (if neg then - m else m) (exponent r2), r2))"

definition parse_float :: "string \<Rightarrow> rat option" where
  "parse_float s = map_option fst (dec_literal (dropWhile is_ws s))"

text \<open>\<open>Number(s)\<close>: the empty string is 0, and nothing may follow the literal. (Hexadecimal literals are not read.)\<close>

definition exp_len :: "string \<Rightarrow> nat" where
  "exp_len s = (case s of
     c # r \<Rightarrow>
       if c \<in> {CHR 0x65, CHR 0x45} then
         (let r' = snd (split_sign r); ds = takeWhile is_dig r'
          in if ds = [] then 0 else 1 + (length r - length r') + length ds)
       else 0
   | [] \<Rightarrow> 0)"

definition str_num :: "string \<Rightarrow> rat option" where
  "str_num s = (let t = js_trim s in
     if t = [] then Some 0
     else case dec_literal t of
       None \<Rightarrow> None
     | Some (n, r) \<Rightarrow> if drop (exp_len r) r = [] then Some n else None)"

fun dnum :: "dval \<Rightarrow> rat option" where
  "dnum DU = None"
| "dnum (DB b) = Some (if b then 1 else 0)"
| "dnum (DN n) = Some n"
| "dnum (DS s) = str_num s"

text \<open>Order of strings by code units, and the operator \<open><\<close>.\<close>

fun str_less :: "string \<Rightarrow> string \<Rightarrow> bool" where
  "str_less _ [] = False"
| "str_less [] (_ # _) = True"
| "str_less (x # xs) (y # ys) =
     ((of_char x :: nat) < of_char y \<or> x = y \<and> str_less xs ys)"

fun js_less :: "dval \<Rightarrow> dval \<Rightarrow> bool" where
  "js_less (DS a) (DS b) = str_less a b"
| "js_less a b = (case (dnum a, dnum b) of (Some x, Some y) \<Rightarrow> x < y | _ \<Rightarrow> False)"

text \<open>\<open>s.toUpperCase()\<close>. The sharp s has two capitals; the two letters whose capitals are not Latin-1 are kept.\<close>

definition upper_char :: "char \<Rightarrow> string" where
  "upper_char c = (let n = of_char c :: nat in
     if n \<in> {97..122} \<or> n \<in> {224..254} \<and> n \<noteq> 247 then [char_of (n - 32)]
     else if n = 223 then ''SS'' else [c])"

definition upper :: "string \<Rightarrow> string" where
  "upper s = concat (map upper_char s)"

text \<open>\<open>s.indexOf(t) >= 0\<close>\<close>

fun is_prefix :: "string \<Rightarrow> string \<Rightarrow> bool" where
  "is_prefix [] s = True"
| "is_prefix (x # xs) [] = False"
| "is_prefix (x # xs) (y # ys) = (x = y \<and> is_prefix xs ys)"

fun contains :: "string \<Rightarrow> string \<Rightarrow> bool" where
  "contains [] t = (t = [])"
| "contains (x # xs) t = (is_prefix t (x # xs) \<or> contains xs t)"

lemma is_prefix_iff: "is_prefix t s \<longleftrightarrow> (\<exists>r. s = t @ r)"
  by (induction t s rule: is_prefix.induct) auto

lemma contains_iff: "contains s t \<longleftrightarrow> (\<exists>a b. s = a @ t @ b)"
proof (induction s)
  case (Cons x xs)
  have "(\<exists>a b. x # xs = a @ t @ b) \<longleftrightarrow> (\<exists>b. x # xs = t @ b) \<or> (\<exists>a b. xs = a @ t @ b)"
    by (metis Cons_eq_append_conv append_Cons append_Nil)
  then show ?case using Cons by (simp add: is_prefix_iff)
qed auto

section \<open>The order of properties\<close>

text \<open>
  \<open>for (k in obj)\<close> visits the keys that are array indices first, in ascending order, then the others as they
  were inserted.
\<close>

definition index_key :: "string \<Rightarrow> bool" where
  "index_key k \<longleftrightarrow> k \<noteq> [] \<and> list_all is_dig k \<and> (k = ''0'' \<or> hd k \<noteq> CHR 0x30) \<and> dec_val k < 2 ^ 32 - 1"

definition for_in :: "(string \<times> 'a) list \<Rightarrow> (string \<times> 'a) list" where
  "for_in kvs = sort_key (\<lambda>(k, _). dec_val k) (filter (\<lambda>(k, _). index_key k) kvs) @
     filter (\<lambda>(k, _). \<not> index_key k) kvs"

lemma set_for_in [simp]: "set (for_in kvs) = set kvs"
  by (auto simp: for_in_def)

section \<open>Elements\<close>

datatype node = Tx string | El string "node list"

fun node_text :: "node \<Rightarrow> string" where
  "node_text (Tx s) = s"
| "node_text (El t ns) = concat (map node_text ns)"

definition text_of :: "node list \<Rightarrow> string" where
  "text_of ns = concat (map node_text ns)"

text \<open>\<open>:input\<close>\<close>

fun has_input :: "node \<Rightarrow> bool" where
  "has_input (Tx s) = False"
| "has_input (El t ns) = (t \<in> set [''input'', ''select'', ''textarea'', ''button''] \<or> list_ex has_input ns)"

type_synonym classes = "string list"

definition has_class :: "string \<Rightarrow> classes \<Rightarrow> bool" where
  "has_class c cs \<longleftrightarrow> c \<in> set cs"

definition add_class :: "string \<Rightarrow> classes \<Rightarrow> classes" where
  "add_class c cs = (if c \<in> set cs then cs else cs @ [c])"

definition remove_class :: "string \<Rightarrow> classes \<Rightarrow> classes" where
  "remove_class c cs = filter (\<lambda>d. d \<noteq> c) cs"

text \<open>The class names of a string that may hold several.\<close>

definition class_names :: "string \<Rightarrow> classes" where
  "class_names s = filter (\<lambda>w. w \<noteq> []) (split_char (CHR 0x20) (map (\<lambda>c. if is_ws c then CHR 0x20 else c) s))"

definition add_classes :: "string \<Rightarrow> classes \<Rightarrow> classes" where
  "add_classes s cs = foldl (\<lambda>cs c. add_class c cs) cs (class_names s)"

definition remove_classes :: "string \<Rightarrow> classes \<Rightarrow> classes" where
  "remove_classes s cs = foldl (\<lambda>cs c. remove_class c cs) cs (class_names s)"

lemma has_class_simps [simp]:
  "has_class c (add_class d cs) \<longleftrightarrow> c = d \<or> has_class c cs"
  "has_class c (remove_class d cs) \<longleftrightarrow> c \<noteq> d \<and> has_class c cs"
  by (auto simp: has_class_def add_class_def remove_class_def)

section \<open>Sorting an array\<close>

text \<open>
  \<open>Array.prototype.sort(cmp)\<close>, the stable sort of the current standard: an element moves before the first
  one that \<open>cmp\<close> does not place before it.
\<close>

fun js_insert :: "('a \<Rightarrow> 'a \<Rightarrow> int) \<Rightarrow> 'a \<Rightarrow> 'a list \<Rightarrow> 'a list" where
  "js_insert cmp x [] = [x]"
| "js_insert cmp x (y # ys) = (if cmp x y \<le> 0 then x # y # ys else y # js_insert cmp x ys)"

definition js_sort :: "('a \<Rightarrow> 'a \<Rightarrow> int) \<Rightarrow> 'a list \<Rightarrow> 'a list" where
  "js_sort cmp xs = foldr (js_insert cmp) xs []"

lemma set_js_insert [simp]: "set (js_insert cmp x ys) = insert x (set ys)"
  by (induction ys) auto

lemma js_insert_perm: "mset (js_insert cmp x ys) = add_mset x (mset ys)"
  by (induction ys) simp_all

lemma js_sort_perm [simp]: "mset (js_sort cmp xs) = mset xs"
  by (induction xs) (simp_all add: js_sort_def js_insert_perm)

lemma set_js_sort [simp]: "set (js_sort cmp xs) = set xs"
  using js_sort_perm by (metis set_mset_mset)

definition cmp_order :: "'a set \<Rightarrow> ('a \<Rightarrow> 'a \<Rightarrow> int) \<Rightarrow> bool" where
  "cmp_order A cmp \<longleftrightarrow> (\<forall>x \<in> A. \<forall>y \<in> A. cmp x y \<le> 0 \<or> cmp y x \<le> 0) \<and>
     (\<forall>x \<in> A. \<forall>y \<in> A. \<forall>z \<in> A. cmp x y \<le> 0 \<and> cmp y z \<le> 0 \<longrightarrow> cmp x z \<le> 0)"

lemma js_insert_sorted:
  assumes "cmp_order A cmp" and "sorted_wrt (\<lambda>x y. cmp x y \<le> 0) ys" and "set ys \<subseteq> A" and "x \<in> A"
  shows "sorted_wrt (\<lambda>x y. cmp x y \<le> 0) (js_insert cmp x ys)"
  using assms(2,3)
proof (induction ys)
  case (Cons y ys)
  show ?case
  proof (cases "cmp x y \<le> 0")
    case True
    have "cmp x z \<le> 0" if "z \<in> set ys" for z
    proof -
      have "cmp y z \<le> 0" "y \<in> A" "z \<in> A" using Cons.prems that by auto
      then show ?thesis using True assms(1,4) unfolding cmp_order_def by blast
    qed
    then show ?thesis using True Cons.prems by simp
  next
    case False
    have "y \<in> A" using Cons.prems(2) by simp
    then have "cmp y x \<le> 0" using False assms(1,4) unfolding cmp_order_def by blast
    moreover have "sorted_wrt (\<lambda>x y. cmp x y \<le> 0) (js_insert cmp x ys)"
      using Cons by simp
    moreover have "\<forall>z \<in> set ys. cmp y z \<le> 0" using Cons.prems by simp
    ultimately show ?thesis by (simp add: False)
  qed
qed simp

lemma js_sort_sorted: "cmp_order (set xs) cmp \<Longrightarrow> sorted_wrt (\<lambda>x y. cmp x y \<le> 0) (js_sort cmp xs)"
proof -
  have "set ys \<subseteq> A \<Longrightarrow> cmp_order A cmp \<Longrightarrow> sorted_wrt (\<lambda>x y. cmp x y \<le> 0) (js_sort cmp ys)" for ys A
  proof (induction ys)
    case (Cons y ys)
    have "js_sort cmp (y # ys) = js_insert cmp y (js_sort cmp ys)" by (simp add: js_sort_def)
    then show ?case using Cons js_insert_sorted [of A cmp "js_sort cmp ys" y] by simp
  qed (simp add: js_sort_def)
  then show "cmp_order (set xs) cmp \<Longrightarrow> sorted_wrt (\<lambda>x y. cmp x y \<le> 0) (js_sort cmp xs)" by blast
qed

lemma str_less_irrefl [simp]: "\<not> str_less s s"
  by (induction s) auto

lemma str_less_trans: "str_less a b \<Longrightarrow> str_less b c \<Longrightarrow> str_less a c"
proof (induction a b arbitrary: c rule: str_less.induct)
  case (3 x xs y ys)
  then obtain z zs where "c = z # zs" by (cases c) auto
  then show ?case using 3 by auto
qed (auto elim: str_less.elims)

lemma str_less_linear: "str_less a b \<or> a = b \<or> str_less b a"
proof (induction a b rule: str_less.induct)
  case (3 x xs y ys)
  have "x = y" if "(of_char x :: nat) = of_char y" using that by (simp add: of_char_eq_iff)
  then show ?case using 3 by (cases "(of_char x :: nat) < of_char y"; cases "(of_char y :: nat) < of_char x") auto
qed (metis list.exhaust str_less.simps(2), simp)

end
