(* ===== verification/FtCore.thy ===== *)
theory FtCore
  imports JqDom Regex
begin

text \<open>
  The core of \<open>src/src/qt/res/js/footable.js\<close>: options, details, versions, plugins and timers; the table
  with its columns, breakpoints, rows and detail rows. A row or cell is a record of what the script reads
  and changes; selectors become list operations over the rows in document order.
\<close>

section \<open>Grouped details\<close>

text \<open>The values of a row: \<open>g_group\<close> is \<open>DU\<close> for \<open>null\<close>. A detail is a heading or a line.\<close>

record gitem =
  g_name :: dval
  g_value :: dval
  g_display :: "node list"
  g_group :: dval
  g_groupName :: dval
  g_bind :: "string option"

datatype ditem = DGroup string | DLine string "string option" "node list"

type_synonym groups = "(string \<times> dval \<times> gitem list) list"

definition push_group :: "string \<Rightarrow> gitem \<Rightarrow> groups \<Rightarrow> groups" where
  "push_group k d gs = (case map_of gs k of
     Some (nm, ds) \<Rightarrow> AList.update k (nm, ds @ [d]) gs
   | None \<Rightarrow> gs)"

text \<open>
  A group whose identifier names an inherited property is taken for a group that exists, and has no
  \<open>data\<close> to push to.
\<close>

definition group_item :: "groups \<Rightarrow> gitem \<Rightarrow> jserr + groups" where
  "group_item gs d =
     (if g_group d \<noteq> DU then
        let k = dstr (g_group d) in
        if k \<in> dom (map_of gs) then Inr (push_group k d gs)
        else if k \<in> set object_proto then Inl TypeErr
        else Inr (push_group k d (gs @ [(k, dor (g_groupName d) (g_group d), [])]))
      else Inr (push_group ''_none'' d gs))"

fun group_items :: "gitem list \<Rightarrow> groups \<Rightarrow> jserr + groups" where
  "group_items [] gs = Inr gs"
| "group_items (d # ds) gs = sbind (group_item gs d) (group_items ds)"

definition createGroupedDetail :: "gitem list \<Rightarrow> jserr + groups" where
  "createGroupedDetail data = group_items data [(''_none'', DU, [])]"

definition detail_line :: "string \<Rightarrow> gitem \<Rightarrow> ditem" where
  "detail_line separatorChar d =
     (let separator = (if dtruthy (g_name d) then separatorChar else [])
      in DLine (dstr (g_name d) @ separator) (g_bind d) (g_display d))"

definition group_detail :: "string \<Rightarrow> string \<times> dval \<times> gitem list \<Rightarrow> ditem list" where
  "group_detail separatorChar g = (case g of (k, nm, ds) \<Rightarrow>
     if ds = [] then []
     else (if k \<noteq> ''_none'' then [DGroup (dstr nm)] else []) @ map (detail_line separatorChar) ds)"

definition createDetail :: "string \<Rightarrow> gitem list \<Rightarrow> jserr + ditem list" where
  "createDetail separatorChar data =
     sbind (createGroupedDetail data) (\<lambda>gs.
       Inr (concat (map (group_detail separatorChar) (for_in gs))))"

section \<open>Versions\<close>

record version =
  major :: int
  minor :: int
  patch :: int

definition version_re :: regex where
  "version_re = sq [Gp 1 (plus1 (Chs is_digit)), opt (chr (CHR 0x2E)), opt (Gp 2 (plus1 (Chs is_digit))),
     opt (chr (CHR 0x2E)), opt (Gp 3 (plus1 (Chs is_digit)))]"

definition version_part :: "string option \<Rightarrow> int" where
  "version_part s = (case s of None \<Rightarrow> 0 | Some s \<Rightarrow> (case parse_int s of None \<Rightarrow> 0 | Some n \<Rightarrow> n))"

definition version_parse :: "string \<Rightarrow> jserr + version" where
  "version_parse str = (case exec version_re str of
     None \<Rightarrow> Inl TypeErr
   | Some m \<Rightarrow> Inr \<lparr>major = version_part (m_grp m 1), minor = version_part (m_grp m 2),
       patch = version_part (m_grp m 3)\<rparr>)"

definition version_toString :: "version \<Rightarrow> string" where
  "version_toString v = int_str (major v) @ ''.'' @ int_str (minor v)"

section \<open>Plugins\<close>

text \<open>
  A plugin: whether it is a function, what \<open>new plugin\<close> gives (its \<open>name\<close> and whether \<open>init\<close> is a function)
  and what \<open>init\<close> does to the state \<open>'s\<close> of the instance; constructors and \<open>init\<close> may throw, \<open>init\<close>
  after it has changed the state.
\<close>

record 's plugin_obj =
  pl_name :: dval
  pl_init :: "('s \<Rightarrow> 's \<times> jserr option) option"

record 's plugin =
  pl_fun :: bool
  pl_new :: "jserr + 's plugin_obj"

definition plugin_validate :: "'s plugin \<Rightarrow> jserr + bool" where
  "plugin_validate pl =
     (if \<not> pl_fun pl then Inr False
      else sbind (pl_new pl) (\<lambda>p.
        if (case pl_name p of DS _ \<Rightarrow> False | _ \<Rightarrow> True) then Inr False
        else if pl_init p = None then Inr False
        else Inr True))"

definition plugin_register :: "'s plugin \<Rightarrow> 's plugin list \<Rightarrow> jserr + 's plugin list" where
  "plugin_register pl registered =
     sbind (plugin_validate pl) (\<lambda>ok. Inr (if ok then registered @ [pl] else registered))"

fun plugin_load :: "'s plugin list \<Rightarrow> 's plugin_obj list" where
  "plugin_load [] = []"
| "plugin_load (r # rs) = (case pl_new r of Inl _ \<Rightarrow> plugin_load rs | Inr p \<Rightarrow> p # plugin_load rs)"

text \<open>What an \<open>init\<close> throws is caught and the loop goes on.\<close>

fun plugin_init :: "'s plugin_obj list \<Rightarrow> 's \<Rightarrow> 's" where
  "plugin_init [] s = s"
| "plugin_init (p # ps) s = plugin_init ps (case pl_init p of
     None \<Rightarrow> s
   | Some f \<Rightarrow> fst (f s))"

section \<open>Timers\<close>

text \<open>
  The timeouts of the run time: the identifiers that are pending, with the code that they run, and the
  next identifier. A timer has the identifier of its timeout.
\<close>

record timer =
  t_id :: "nat option"
  t_busy :: bool

record 'c timeouts =
  next_id :: nat
  pending :: "(nat \<times> 'c) list"

definition new_timer :: timer where
  "new_timer = \<lparr>t_id = None, t_busy = False\<rparr>"

definition clearTimeout :: "nat \<Rightarrow> 'c timeouts \<Rightarrow> 'c timeouts" where
  "clearTimeout i w = w\<lparr>pending := AList.delete i (pending w)\<rparr>"

definition setTimeout :: "'c \<Rightarrow> 'c timeouts \<Rightarrow> nat \<times> 'c timeouts" where
  "setTimeout code w = (next_id w, \<lparr>next_id = next_id w + 1, pending = pending w @ [(next_id w, code)]\<rparr>)"

definition timer_stop :: "timer \<times> 'c timeouts \<Rightarrow> timer \<times> 'c timeouts" where
  "timer_stop = (\<lambda>(t, w). case t_id t of
     None \<Rightarrow> (t, w)
   | Some i \<Rightarrow> (\<lparr>t_id = None, t_busy = False\<rparr>, clearTimeout i w))"

definition timer_start :: "'c \<Rightarrow> timer \<times> 'c timeouts \<Rightarrow> timer \<times> 'c timeouts" where
  "timer_start code = (\<lambda>(t, w).
     if t_busy t then (t, w)
     else let (t, w) = timer_stop (t, w); (i, w) = setTimeout code w
          in (\<lparr>t_id = Some i, t_busy = True\<rparr>, w))"

text \<open>
  The timeout \<open>i\<close> fires: its code runs, which may call the timer itself and may throw; then the timer is reset, unless
  the code has thrown.
\<close>

datatype 'c tcall = Tstart 'c | Tstop

definition timer_call :: "'c tcall \<Rightarrow> timer \<times> 'c timeouts \<Rightarrow> timer \<times> 'c timeouts" where
  "timer_call a s = (case a of Tstart c \<Rightarrow> timer_start c s | Tstop \<Rightarrow> timer_stop s)"

definition timer_calls :: "'c tcall list \<Rightarrow> timer \<times> 'c timeouts \<Rightarrow> timer \<times> 'c timeouts" where
  "timer_calls cs s = foldl (\<lambda>s a. timer_call a s) s cs"

definition timer_fire :: "'c tcall list \<Rightarrow> bool \<Rightarrow> nat \<Rightarrow> timer \<times> 'c timeouts \<Rightarrow> timer \<times> 'c timeouts" where
  "timer_fire cs throws i = (\<lambda>(t, w). case map_of (pending w) i of
     None \<Rightarrow> (t, w)
   | Some code \<Rightarrow>
       let (t, w) = timer_calls cs (t, clearTimeout i w)
       in (if throws then t else \<lparr>t_id = None, t_busy = False\<rparr>, w))"

end
