(* ===== verification/FtTable.thy ===== *)
theory FtTable
  imports FtCore
begin

text \<open>
  The table of \<open>src/src/qt/res/js/footable.js\<close>: its columns, breakpoints, rows and detail rows, with the
  operations of an instance of \<open>Footable\<close> on them.
\<close>

section \<open>State\<close>

text \<open>
  A cell of the body with its column classes and visibility; \<open>c_bind\<close> is the attribute \<open>data-bind-name\<close>,
  \<open>c_toggle\<close> whether it starts with a toggle element. A row is a normal row or a detail row, by its class;
  \<open>r_created\<close> is its data \<open>detail_created\<close>, \<open>r_items\<close> what a detail row shows.
\<close>

record cell =
  c_body :: "node list"
  c_data :: data
  c_bind :: "string option"
  c_show :: bool
  c_cls :: classes
  c_toggle :: bool

record row =
  r_id :: nat
  r_cls :: classes
  r_show :: bool
  r_cells :: "cell list"
  r_created :: "bool option"
  r_bound :: bool
  r_colspan :: nat
  r_items :: "ditem list"

record th =
  h_text :: string
  h_data :: data
  h_colspan :: "string option"
  h_cls :: classes
  h_show :: bool

record colsort =
  s_initial :: dval
  s_ignore :: dval
  s_selector :: dval
  s_match :: "nat option"

record coldata =
  k_index :: nat
  k_hide :: "(string \<times> bool) list"
  k_type :: dval
  k_name :: dval
  k_ignore :: dval
  k_toggle :: dval
  k_className :: dval
  k_matches :: "nat list"
  k_names :: "(nat \<times> string) list"
  k_group :: dval
  k_groupName :: dval
  k_isEditable :: dval
  k_hasBreakpoint :: bool
  k_sort :: colsort

record winfo =
  i_width :: int
  i_viewport :: int
  i_parent :: int

text \<open>
  The pages of the paginate plugin are lists of row identifiers; \<open>pi_control\<close> says whether the list of page
  links has been found. Of that list the model has the links in order.
\<close>

record pageinfo =
  pi_size :: rat
  pi_limitNav :: int
  pi_limit :: bool
  pi_current :: int
  pi_pages :: "nat list list"
  pi_control :: bool
  pi_manual :: bool

datatype npage = NFirst | NPrev | NNext | NLast | NLimitPrev | NLimitNext | NPage nat

record navitem =
  n_page :: npage
  n_active :: bool
  n_disabled :: bool
  n_show :: bool

text \<open>
  \<open>ths\<close> is the last row of the head, \<open>t_groups\<close> the cells of the group row (if there is one);
  \<open>t_events\<close> are the events raised so far. \<open>t_nav\<close> is the list of page links that the selector
  finds, if there is one; \<open>t_input\<close> is the text of the filter input.
\<close>

record table =
  t_cls :: classes
  t_data :: data
  t_info :: "winfo option"
  t_visible :: bool
  t_width :: int
  t_parent_width :: int
  viewport_width :: int
  ths :: "th list"
  t_groups :: "th list option"
  rows :: "row list"
  columns :: "coldata list"
  opt_breakpoints :: "(string \<times> int) list"
  breakpoints :: "(string \<times> int) list"
  breakpointNames :: string
  opt_addRowToggle :: bool
  opt_sort :: bool
  opt_filter :: bool
  opt_paginate :: bool
  pageInfo :: pageinfo
  t_nav :: "navitem list option"
  t_input :: string
  t_events :: "string list"

definition raise :: "string \<Rightarrow> table \<Rightarrow> table" where
  "raise e ft = ft\<lparr>t_events := t_events ft @ [e]\<rparr>"

definition is_detail :: "row \<Rightarrow> bool" where
  "is_detail r \<longleftrightarrow> has_class ''footable-row-detail'' (r_cls r)"

definition map_rows :: "(row \<Rightarrow> row) \<Rightarrow> table \<Rightarrow> table" where
  "map_rows f ft = ft\<lparr>rows := map f (rows ft)\<rparr>"

definition map_row :: "nat \<Rightarrow> (row \<Rightarrow> row) \<Rightarrow> table \<Rightarrow> table" where
  "map_row i f ft = map_rows (\<lambda>r. if r_id r = i then f r else r) ft"

text \<open>The cells at the indices of a set.\<close>

definition map_cells :: "nat set \<Rightarrow> (cell \<Rightarrow> cell) \<Rightarrow> row \<Rightarrow> row" where
  "map_cells I f r = r\<lparr>r_cells := map (\<lambda>(i, c). if i \<in> I then f c else c)
     (zip [0..<length (r_cells r)] (r_cells r))\<rparr>"

section \<open>Column data\<close>

definition parse_alpha :: "data \<Rightarrow> string \<Rightarrow> dval" where
  "parse_alpha d txt = dor (dget d ''value'') (DS (js_trim txt))"

definition parse_numeric :: "data \<Rightarrow> string \<Rightarrow> dval" where
  "parse_numeric d txt =
     (let val = dor (dget d ''value'') (DS (filter (\<lambda>c. is_dig c \<or> c = CHR 0x2E \<or> c = CHR 0x2D) txt))
      in case parse_float (dstr val) of None \<Rightarrow> DN 0 | Some n \<Rightarrow> DN n)"

definition ft_parse :: "cell \<Rightarrow> coldata \<Rightarrow> dval" where
  "ft_parse c col =
     (if k_type col = DS ''numeric'' then parse_numeric (c_data c) (text_of (c_body c))
      else parse_alpha (c_data c) (text_of (c_body c)))"

definition num_attr :: "string option \<Rightarrow> int option" where
  "num_attr a = (case a of None \<Rightarrow> Some 0 | Some s \<Rightarrow> if s = [] then Some 0 else parse_int s)"

definition over_one :: "int option \<Rightarrow> nat option" where
  "over_one n = (case n of None \<Rightarrow> None | Some k \<Rightarrow> if k > 1 then Some (nat k) else None)"

text \<open>The words of \<open>data-hide\<close>; a value that is not a string has no \<open>split\<close>.\<close>

definition hide_words :: "dval \<Rightarrow> jserr + string list" where
  "hide_words d = (case dor d (DS []) of
     DS s \<Rightarrow> Inr (map js_trim (split_char (CHR 0x2C) s))
   | _ \<Rightarrow> Inl TypeErr)"

definition col_matches :: "th \<Rightarrow> nat \<Rightarrow> jserr + nat list \<times> (nat \<times> string) list" where
  "col_matches h curindex = (case over_one (num_attr (h_colspan h)) of
     None \<Rightarrow> Inr ([curindex], [])
   | Some colspan \<Rightarrow> (case dor (dget (h_data h) ''names'') (DS []) of
       DS s \<Rightarrow> (let names = split_char (CHR 0x2C) s in
         Inr (map (\<lambda>i. i + curindex) [0..<colspan],
              map (\<lambda>i. (i + curindex, names ! i)) [0..<min colspan (length names)]))
     | _ \<Rightarrow> Inl TypeErr))"

definition group_name :: "th list option \<Rightarrow> dval \<Rightarrow> dval" where
  "group_name gs g =
     (if g = DU then DU
      else case filter (\<lambda>h. dget (h_data h) ''group'' \<noteq> DU \<and> dstr (dget (h_data h) ''group'') = dstr g)
             (case gs of None \<Rightarrow> [] | Some hs \<Rightarrow> hs) of
             [] \<Rightarrow> DS []
           | h # _ \<Rightarrow> parse_alpha (h_data h) (h_text h))"

definition col_hide :: "(string \<times> int) list \<Rightarrow> dval \<Rightarrow> string list \<Rightarrow> (string \<times> bool) list" where
  "col_hide brks hide words =
     foldl (\<lambda>hs (name, _). AList.update name (hide = DS ''all'' \<or> name \<in> set words) hs)
       [(''default'', hide = DS ''all'' \<or> ''default'' \<in> set words)] (for_in brks)"

text \<open>
  \<open>getColumnData\<close> of the cell \<open>h\<close> at the position \<open>index\<close>, after the cell \<open>prev\<close>; \<open>indexOffset\<close> is the variable of
  the instance that adds up the columns which earlier cells span. \<open>on_column\<close> stands for the handlers of
  the event that carries the data.
\<close>

definition getColumnData ::
  "(th \<Rightarrow> coldata \<Rightarrow> coldata) \<Rightarrow> table \<Rightarrow> th option \<Rightarrow> nat \<Rightarrow> th \<Rightarrow> nat \<Rightarrow> jserr + coldata \<times> nat" where
  "getColumnData on_column ft prev index h indexOffset =
     sbind (hide_words (dget (h_data h) ''hide'')) (\<lambda>words.
       let group = dor (dget (h_data h) ''group'') DU;
           pcolspan = over_one (num_attr (case prev of None \<Rightarrow> None | Some p \<Rightarrow> h_colspan p));
           indexOffset = indexOffset + (case pcolspan of None \<Rightarrow> 0 | Some n \<Rightarrow> n - 1)
       in sbind (col_matches h (index + indexOffset)) (\<lambda>(matches, names).
            let hide = col_hide (opt_breakpoints ft) (dget (h_data h) ''hide'') words;
                data = \<lparr>k_index = index, k_hide = hide,
                  k_type = dor (dget (h_data h) ''type'') (DS ''alpha''),
                  k_name = dor (dget (h_data h) ''name'') (DS (js_trim (h_text h))),
                  k_ignore = dor (dget (h_data h) ''ignore'') (DB False),
                  k_toggle = dor (dget (h_data h) ''toggle'') (DB False),
                  k_className = dor (dget (h_data h) ''class'') DU,
                  k_matches = matches, k_names = names, k_group = group,
                  k_groupName = group_name (t_groups ft) group,
                  k_isEditable = dget (h_data h) ''editable'',
                  k_hasBreakpoint = list_ex (\<lambda>(name, _). map_of hide name = Some True) (opt_breakpoints ft),
                  k_sort = \<lparr>s_initial = DU, s_ignore = DU, s_selector = DU, s_match = None\<rparr>\<rparr>
            in Inr (on_column h data, indexOffset)))"

fun columns_loop ::
  "(th \<Rightarrow> coldata \<Rightarrow> coldata) \<Rightarrow> table \<Rightarrow> th option \<Rightarrow> nat \<Rightarrow> nat \<Rightarrow> th list \<Rightarrow> jserr + coldata list" where
  "columns_loop on_column ft prev i off [] = Inr []"
| "columns_loop on_column ft prev i off (h # hs) =
     sbind (getColumnData on_column ft prev i h off) (\<lambda>(d, off).
       sbind (columns_loop on_column ft (Some h) (i + 1) off hs) (\<lambda>ds. Inr (d # ds)))"

section \<open>Breakpoints\<close>

definition sort_breakpoints :: "(string \<times> int) list \<Rightarrow> (string \<times> int) list" where
  "sort_breakpoints = js_sort (\<lambda>a b. snd a - snd b)"

definition calculateWidth :: "winfo \<Rightarrow> winfo" where
  "calculateWidth info =
     (let info = (if i_viewport info < i_width info then info\<lparr>i_width := i_viewport info\<rparr> else info)
      in if i_parent info < i_width info then info\<lparr>i_width := i_parent info\<rparr> else info)"

definition hasBreakpointColumn :: "string \<Rightarrow> table \<Rightarrow> bool" where
  "hasBreakpointColumn bp ft =
     list_ex (\<lambda>c. map_of (k_hide c) bp = Some True \<and> \<not> dtruthy (k_ignore c)) (columns ft)"

definition hasAnyBreakpointColumn :: "table \<Rightarrow> bool" where
  "hasAnyBreakpointColumn ft = list_ex k_hasBreakpoint (columns ft)"

text \<open>The first breakpoint that is at least as wide as the table.\<close>

fun current_breakpoint :: "int \<Rightarrow> (string \<times> int) list \<Rightarrow> (string \<times> int) option" where
  "current_breakpoint w [] = None"
| "current_breakpoint w (b # bs) =
     (if snd b \<noteq> 0 \<and> w \<le> snd b then Some b else current_breakpoint w bs)"

section \<open>Toggles and classes\<close>

definition plain_row :: "row \<Rightarrow> bool" where
  "plain_row r \<longleftrightarrow> \<not> is_detail r \<and> \<not> has_class ''footable-disabled'' (r_cls r)"

definition addRowToggle :: "table \<Rightarrow> table" where
  "addRowToggle ft =
     (if \<not> opt_addRowToggle ft then ft
      else
        let ft = map_rows (\<lambda>r. r\<lparr>r_cells := map (\<lambda>c. c\<lparr>c_toggle := False\<rparr>) (r_cells r)\<rparr>) ft;
            i = (case find (\<lambda>c. dtruthy (k_toggle c)) (columns ft) of None \<Rightarrow> 0 | Some c \<Rightarrow> k_index c)
        in map_rows (\<lambda>r. if plain_row r then map_cells {i} (\<lambda>c. c\<lparr>c_toggle := True\<rparr>) r else r) ft)"

definition setColumnClasses :: "table \<Rightarrow> table" where
  "setColumnClasses ft =
     foldl (\<lambda>ft col.
         if k_className col \<noteq> DU then
           map_rows (\<lambda>r. if is_detail r then r
             else map_cells (set (k_matches col))
               (\<lambda>c. c\<lparr>c_cls := add_classes (dstr (k_className col)) (c_cls c)\<rparr>) r) ft
         else ft)
       ft (columns ft)"

definition bindToggleSelectors :: "table \<Rightarrow> table" where
  "bindToggleSelectors ft =
     (if \<not> hasAnyBreakpointColumn ft then ft
      else map_rows (\<lambda>r. if is_detail r then r else r\<lparr>r_bound := True\<rparr>) ft)"

end
