(* ===== verification/FtRows.thy ===== *)
theory FtRows
  imports FtTable
begin

text \<open>
  Detail rows, redrawing and resizing of \<open>src/src/qt/res/js/footable.js\<close>. \<open>now\<close> is the value of the clock
  that names bindings; \<open>on_redrawn\<close> stands for the handlers of the event \<open>footable_redrawn\<close>.
\<close>

section \<open>Detail rows\<close>

text \<open>The lines with the binding \<open>b\<close>, of all detail rows in document order.\<close>

definition bound_line :: "string \<Rightarrow> ditem \<Rightarrow> bool" where
  "bound_line b d = (case d of DLine _ b' _ \<Rightarrow> b' = Some b | DGroup _ \<Rightarrow> False)"

fun line_body :: "ditem \<Rightarrow> node list" where
  "line_body (DLine nm b ns) = ns"
| "line_body (DGroup nm) = []"

fun set_line :: "node list \<Rightarrow> ditem \<Rightarrow> ditem" where
  "set_line ns (DLine nm b _) = DLine nm b ns"
| "set_line ns (DGroup nm) = DGroup nm"

definition bound_bodies :: "string \<Rightarrow> table \<Rightarrow> node list list" where
  "bound_bodies b ft = map line_body (filter (bound_line b) (concat (map r_items (rows ft))))"

definition set_bound :: "string \<Rightarrow> node list \<Rightarrow> table \<Rightarrow> table" where
  "set_bound b ns ft = map_rows (\<lambda>r. r\<lparr>r_items :=
     map (\<lambda>d. if bound_line b d then set_line ns d else d) (r_items r)\<rparr>) ft"

definition set_cell :: "nat \<Rightarrow> nat \<Rightarrow> (cell \<Rightarrow> cell) \<Rightarrow> table \<Rightarrow> table" where
  "set_cell i j f ft = map_row i (map_cells {j} f) ft"

definition getColumnFromTdIndex :: "table \<Rightarrow> nat \<Rightarrow> coldata option" where
  "getColumnFromTdIndex ft index = find (\<lambda>c. index \<in> set (k_matches c)) (columns ft)"

definition is_editable :: "coldata \<Rightarrow> cell \<Rightarrow> bool" where
  "is_editable col c \<longleftrightarrow>
     k_isEditable col \<noteq> DB False \<and> (dtruthy (k_isEditable col) \<or> list_ex has_input (c_body c))"

definition find_row :: "nat \<Rightarrow> table \<Rightarrow> row option" where
  "find_row i ft = find (\<lambda>r. r_id r = i) (rows ft)"

fun next_row :: "nat \<Rightarrow> row list \<Rightarrow> row option" where
  "next_row i [] = None"
| "next_row i (r # rs) = (if r_id r = i then (case rs of [] \<Rightarrow> None | s # _ \<Rightarrow> Some s) else next_row i rs)"

text \<open>One hidden cell \<open>j\<close> of the row \<open>i\<close>; the value, unless the column is ignored.\<close>

definition detail_cell :: "nat \<Rightarrow> nat \<Rightarrow> nat \<Rightarrow> table \<Rightarrow> jserr + gitem option \<times> table" where
  "detail_cell now i j ft = (case getColumnFromTdIndex ft j of
     None \<Rightarrow> Inl TypeErr
   | Some col \<Rightarrow>
       if k_ignore col = DB True then Inr (None, ft)
       else case find_row i ft of
         None \<Rightarrow> Inl TypeErr
       | Some r \<Rightarrow>
         let name = (case map_of (k_names col) j of Some s \<Rightarrow> DS s | None \<Rightarrow> k_name col);
             c0 = r_cells r ! j;
             ft1 = (case c_bind c0 of
                 Some b \<Rightarrow> if c_body c0 = [] then
                     set_cell i j (\<lambda>c. c\<lparr>c_body := concat (bound_bodies b ft)\<rparr>) (set_bound b [] ft)
                   else ft
               | None \<Rightarrow> ft);
             c1 = (case find_row i ft1 of Some r \<Rightarrow> r_cells r ! j | None \<Rightarrow> c0);
             edit = is_editable col c1;
             bind = (if edit \<and> c_bind c1 = None
               then Some (''bind-'' @ digits now @ ''-'' @ digits j) else c_bind c1);
             c2 = (if edit then c1\<lparr>c_bind := bind, c_body := []\<rparr> else c1);
             ft2 = set_cell i j (\<lambda>_. c2) ft1
         in Inr (Some \<lparr>g_name = name, g_value = ft_parse c2 col, g_display = c_body c1,
                   g_group = k_group col, g_groupName = k_groupName col, g_bind = bind\<rparr>, ft2))"

fun detail_cells :: "nat \<Rightarrow> nat \<Rightarrow> nat list \<Rightarrow> table \<Rightarrow> jserr + gitem list \<times> table" where
  "detail_cells now i [] ft = Inr ([], ft)"
| "detail_cells now i (j # js) ft =
     sbind (detail_cell now i j ft) (\<lambda>(v, ft).
     sbind (detail_cells now i js ft) (\<lambda>(vs, ft).
       Inr ((case v of None \<Rightarrow> vs | Some v \<Rightarrow> v # vs), ft)))"

definition fresh_id :: "table \<Rightarrow> nat" where
  "fresh_id ft = Suc (foldr max (map r_id (rows ft)) 0)"

definition new_detail :: "table \<Rightarrow> row" where
  "new_detail ft = \<lparr>r_id = fresh_id ft, r_cls = [''footable-row-detail''], r_show = True, r_cells = [],
     r_created = None, r_bound = False, r_colspan = 0, r_items = []\<rparr>"

fun insert_after :: "nat \<Rightarrow> row \<Rightarrow> row list \<Rightarrow> row list" where
  "insert_after i d [] = []"
| "insert_after i d (r # rs) = (if r_id r = i then r # d # rs else r # insert_after i d rs)"

fun map_next :: "nat \<Rightarrow> (row \<Rightarrow> row) \<Rightarrow> row list \<Rightarrow> row list" where
  "map_next i f (r # s # rs) = (if r_id r = i then r # f s # rs else r # map_next i f (s # rs))"
| "map_next i f rs = rs"

definition hidden_cells :: "row \<Rightarrow> nat list" where
  "hidden_cells r = filter (\<lambda>j. \<not> c_show (r_cells r ! j)) [0..<length (r_cells r)]"

definition has_detail_next :: "nat \<Rightarrow> table \<Rightarrow> bool" where
  "has_detail_next i ft = (case next_row i (rows ft) of None \<Rightarrow> False | Some s \<Rightarrow> is_detail s)"

definition createOrUpdateDetailRow :: "nat \<Rightarrow> nat \<Rightarrow> table \<Rightarrow> jserr + table" where
  "createOrUpdateDetailRow now i ft = (case find_row i ft of
     None \<Rightarrow> Inr ft
   | Some r \<Rightarrow>
       if r_created r = Some True then Inr ft
       else if \<not> (r_show r \<and> t_visible ft) then Inr ft
       else
         let ft = raise ''footable_row_detail_updating'' ft in
         sbind (detail_cells now i (hidden_cells r) ft) (\<lambda>(values, ft).
           if values = [] then Inr ft
           else
             let colspan = length (filter c_show (r_cells r));
                 ft = (if has_detail_next i ft then ft
                   else ft\<lparr>rows := insert_after i (new_detail ft) (rows ft)\<rparr>)
             in sbind (createDetail '':'' values) (\<lambda>items.
                  let ft = ft\<lparr>rows := map_next i (\<lambda>d. d\<lparr>r_colspan := colspan, r_items := items\<rparr>) (rows ft)\<rparr>;
                      ft = map_row i (\<lambda>r. r\<lparr>r_created := Some True\<rparr>) ft
                  in Inr (raise ''footable_row_detail_updated'' ft))))"

fun details_loop :: "nat \<Rightarrow> nat list \<Rightarrow> table \<Rightarrow> jserr + table" where
  "details_loop now [] ft = Inr ft"
| "details_loop now (i # is) ft = sbind (createOrUpdateDetailRow now i ft) (details_loop now is)"

section \<open>Expanding, removing and appending rows\<close>

definition show_row :: "bool \<Rightarrow> row \<Rightarrow> row" where
  "show_row b r = r\<lparr>r_show := b\<rparr>"

definition toggleDetail :: "nat \<Rightarrow> nat \<Rightarrow> table \<Rightarrow> jserr + table" where
  "toggleDetail now i ft = (case find_row i ft of
     None \<Rightarrow> Inr ft
   | Some r \<Rightarrow>
       if has_class ''footable-detail-show'' (r_cls r) then
         (let ft = map_row i (\<lambda>r. r\<lparr>r_cls := remove_class ''footable-detail-show'' (r_cls r)\<rparr>) ft;
              ft = (if has_detail_next i ft then ft\<lparr>rows := map_next i (show_row False) (rows ft)\<rparr> else ft)
          in Inr (raise ''footable_row_collapsed'' ft))
       else
         sbind (createOrUpdateDetailRow now i ft) (\<lambda>ft.
           let ft = map_row i (\<lambda>r. r\<lparr>r_cls := add_class ''footable-detail-show'' (r_cls r)\<rparr>) ft;
               ft = ft\<lparr>rows := map_next i (show_row True) (rows ft)\<rparr>
           in Inr (raise ''footable_row_expanded'' ft)))"

fun prev_row :: "nat \<Rightarrow> row list \<Rightarrow> row option" where
  "prev_row i (r # s # rs) = (if r_id s = i then Some r else prev_row i (s # rs))"
| "prev_row i rs = None"

definition remove_ids :: "nat set \<Rightarrow> table \<Rightarrow> table" where
  "remove_ids I ft = ft\<lparr>rows := filter (\<lambda>r. r_id r \<notin> I) (rows ft)\<rparr>"

definition removeRow :: "nat \<Rightarrow> table \<Rightarrow> table" where
  "removeRow i ft =
     (let r0 = find_row i ft;
          r = (case r0 of Some r \<Rightarrow> if is_detail r then prev_row i (rows ft) else r0 | None \<Rightarrow> None);
          ft = (case r of None \<Rightarrow> ft
            | Some r \<Rightarrow>
                let ids = (if r_created r = Some True
                      then (case next_row (r_id r) (rows ft) of Some s \<Rightarrow> {r_id s} | None \<Rightarrow> {}) else {})
                in remove_ids (insert (r_id r) ids) ft)
      in raise ''footable_row_removed'' ft)"

section \<open>Redrawing\<close>

text \<open>The cells of the columns: visible when the column is not hidden at the breakpoint.\<close>

definition show_cell :: "bool \<Rightarrow> cell \<Rightarrow> cell" where
  "show_cell b c = (if b then c\<lparr>c_cls := add_class ''footable-visible'' (c_cls c), c_show := True\<rparr>
     else c\<lparr>c_cls := remove_class ''footable-visible'' (c_cls c), c_show := False\<rparr>)"

definition show_th :: "bool \<Rightarrow> th \<Rightarrow> th" where
  "show_th b h = (if b then h\<lparr>h_cls := add_class ''footable-visible'' (h_cls h), h_show := True\<rparr>
     else h\<lparr>h_cls := remove_class ''footable-visible'' (h_cls h), h_show := False\<rparr>)"

definition group_span :: "table \<Rightarrow> dval \<Rightarrow> int option" where
  "group_span ft g =
     foldr (\<lambda>h n. case (n, case h_colspan h of None \<Rightarrow> Some 1 | Some s \<Rightarrow> if s = [] then Some 1 else parse_int s) of
         (Some a, Some b) \<Rightarrow> Some (a + b) | _ \<Rightarrow> None)
       (filter (\<lambda>h. dget (h_data h) ''group'' \<noteq> DU \<and> dstr (dget (h_data h) ''group'') = dstr g \<and> h_show h) (ths ft))
       (Some 0)"

definition span_groups :: "dval \<Rightarrow> table \<Rightarrow> table" where
  "span_groups g ft = (case t_groups ft of
     None \<Rightarrow> ft
   | Some gs \<Rightarrow>
       let n = group_span ft g;
           wide = (case n of Some k \<Rightarrow> k > 0 | None \<Rightarrow> False)
       in ft\<lparr>t_groups := Some (map (\<lambda>h.
            if dget (h_data h) ''group'' \<noteq> DU \<and> dstr (dget (h_data h) ''group'') = dstr g then
              (if wide then h\<lparr>h_colspan := Some (int_str (the n)), h_show := True\<rparr> else h\<lparr>h_show := False\<rparr>)
            else h) gs)\<rparr>)"

definition redraw_column :: "dval \<Rightarrow> coldata \<Rightarrow> table \<Rightarrow> table" where
  "redraw_column bp col ft =
     (let vis = map_of (k_hide col) (dstr bp) = Some False;
          ft = (if bp = DS [] then ft
            else (map_rows (\<lambda>r. if is_detail r then r else map_cells (set (k_matches col)) (show_cell vis) r) ft)
              \<lparr>ths := map (\<lambda>(i, h). if i = k_index col then show_th vis h else h)
                 (zip [0..<length (ths ft)] (ths ft))\<rparr>)
      in span_groups (if k_group col = DU then DS ''null'' else k_group col) ft)"

text \<open>\<open>toggleInput\<close>: contents move between a bound cell and the lines with its binding.\<close>

definition toggleInput :: "nat \<Rightarrow> nat \<Rightarrow> table \<Rightarrow> table" where
  "toggleInput i j ft = (case find_row i ft of
     None \<Rightarrow> ft
   | Some r \<Rightarrow> (case c_bind (r_cells r ! j) of
       None \<Rightarrow> ft
     | Some b \<Rightarrow>
         let c = r_cells r ! j in
         if c_show c \<and> r_show r \<and> t_visible ft then
           (if [] \<in> set (bound_bodies b ft) then ft
            else set_cell i j (\<lambda>c. c\<lparr>c_body := concat (bound_bodies b ft)\<rparr>) (set_bound b [] ft))
         else if c_body c = [] then ft
         else set_cell i j (\<lambda>c. c\<lparr>c_body := []\<rparr>) (set_bound b (c_body c) ft)))"

definition bound_cells :: "table \<Rightarrow> (nat \<times> nat) list" where
  "bound_cells ft = concat (map (\<lambda>r. map (\<lambda>j. (r_id r, j))
     (filter (\<lambda>j. c_bind (r_cells r ! j) \<noteq> None) [0..<length (r_cells r)])) (rows ft))"

text \<open>The detail rows behind expanded rows that are visible.\<close>

fun show_details :: "bool \<Rightarrow> bool \<Rightarrow> row list \<Rightarrow> row list" where
  "show_details vis fired (r # s # rs) =
     r # show_details vis fired
       ((if has_class ''footable-detail-show'' (r_cls r) \<and> r_show r \<and> vis \<and> is_detail s
         then show_row fired s else s) # rs)"
| "show_details vis fired rs = rs"

text \<open>The classes of the first and the last visible cell of a row.\<close>

definition mark_ends :: "classes list \<Rightarrow> classes list" where
  "mark_ends css =
     (let css = map (\<lambda>cs. remove_class ''footable-first-column'' (remove_class ''footable-last-column'' cs)) css;
          vis = filter (\<lambda>i. has_class ''footable-visible'' (css ! i)) [0..<length css]
      in if vis = [] then css
         else let css = css[last vis := add_class ''footable-last-column'' (css ! last vis)]
              in css[hd vis := add_class ''footable-first-column'' (css ! hd vis)])"

definition mark_row :: "row \<Rightarrow> row" where
  "mark_row r = r\<lparr>r_cells := map2 (\<lambda>c cs. c\<lparr>c_cls := cs\<rparr>) (r_cells r) (mark_ends (map c_cls (r_cells r)))\<rparr>"

definition redraw :: "(table \<Rightarrow> jserr + table) \<Rightarrow> nat \<Rightarrow> table \<Rightarrow> jserr + table" where
  "redraw on_redrawn now ft =
     (let ft = setColumnClasses (bindToggleSelectors (addRowToggle ft));
          bp = dget (t_data ft) ''breakpoint'';
          fired = hasBreakpointColumn (dstr bp) ft;
          ft = map_rows (\<lambda>r. if is_detail r then r else r\<lparr>r_created := Some False\<rparr>) ft;
          ft = foldl (\<lambda>ft col. redraw_column bp col ft) ft (columns ft)
      in sbind (details_loop now
             (map r_id (filter (\<lambda>r. has_class ''footable-detail-show'' (r_cls r)) (rows ft))) ft) (\<lambda>ft.
           let ft = foldl (\<lambda>ft (i, j). toggleInput i j ft) ft (bound_cells ft);
               ft = ft\<lparr>rows := map mark_row (show_details (t_visible ft) fired (rows ft)),
                 ths := map2 (\<lambda>h cs. h\<lparr>h_cls := cs\<rparr>) (ths ft) (mark_ends (map h_cls (ths ft)))\<rparr>
           in on_redrawn (raise ''footable_redrawn'' ft)))"

definition appendRow :: "(table \<Rightarrow> jserr + table) \<Rightarrow> nat \<Rightarrow> row \<Rightarrow> table \<Rightarrow> jserr + table" where
  "appendRow on_redrawn now r ft = redraw on_redrawn now (ft\<lparr>rows := rows ft @ [r]\<rparr>)"

section \<open>Resizing\<close>

definition set_breakpoint :: "string \<Rightarrow> bool \<Rightarrow> table \<Rightarrow> table" where
  "set_breakpoint nm fired ft =
     ft\<lparr>t_data := AList.update ''breakpoint'' (DS nm) (t_data ft),
        t_cls := add_classes (nm @ (if fired then '' breakpoint'' else []))
          (remove_classes (breakpointNames ft) (remove_classes ''default breakpoint'' (t_cls ft)))\<rparr>"

definition resize :: "(table \<Rightarrow> jserr + table) \<Rightarrow> nat \<Rightarrow> table \<Rightarrow> jserr + table" where
  "resize on_redrawn now ft =
     (if \<not> t_visible ft then Inr ft
      else if \<not> hasAnyBreakpointColumn ft then redraw on_redrawn now ft
      else
        let info = calculateWidth \<lparr>i_width = t_width ft, i_viewport = viewport_width ft, i_parent = t_parent_width ft\<rparr>;
            pinfo = t_info ft;
            ft = raise ''footable_resizing'' (ft\<lparr>t_info := Some info\<rparr>)
        in sbind
             (if (case pinfo of None \<Rightarrow> True | Some p \<Rightarrow> i_width p \<noteq> 0 \<and> i_width p \<noteq> i_width info) then
                let nm = (case current_breakpoint (i_width info) (breakpoints ft) of None \<Rightarrow> ''default'' | Some b \<Rightarrow> fst b);
                    fired = hasBreakpointColumn nm ft;
                    previous = dget (t_data ft) ''breakpoint'';
                    ft = set_breakpoint nm fired ft
                in if DS nm \<noteq> previous
                   then sbind (redraw on_redrawn now ft) (\<lambda>ft. Inr (raise ''footable_breakpoint'' ft))
                   else Inr ft
              else Inr ft)
             (\<lambda>ft. Inr (raise ''footable_resized'' ft)))"

section \<open>Initialising and resetting\<close>

definition initialize ::
  "(table \<Rightarrow> jserr + table) \<Rightarrow> (table \<Rightarrow> jserr + table) \<Rightarrow> nat \<Rightarrow> table \<Rightarrow> jserr + table" where
  "initialize on_redrawn on_initialized now ft =
     sbind (resize on_redrawn now
         (ft\<lparr>t_info := None, t_data := AList.update ''breakpoint'' (DS []) (t_data ft)\<rparr>)) (\<lambda>ft.
       on_initialized (raise ''footable_initialized''
         (ft\<lparr>t_cls := add_class ''footable'' (add_class ''footable-loaded''
              (remove_class ''footable-loading'' (t_cls ft)))\<rparr>)))"

definition ft_init ::
  "(th \<Rightarrow> coldata \<Rightarrow> coldata) \<Rightarrow> (table \<Rightarrow> jserr + table) \<Rightarrow> (table \<Rightarrow> jserr + table) \<Rightarrow> nat \<Rightarrow> table \<Rightarrow> jserr + table" where
  "ft_init on_column on_redrawn on_initialized now ft =
     (if has_class ''footable-loaded'' (t_cls ft) then Inr (raise ''footable_already_initialized'' ft)
      else
        let ft = raise ''footable_initializing'' ft;
            ft = ft\<lparr>t_cls := add_class ''footable-loading'' (t_cls ft)\<rparr>
        in sbind (columns_loop on_column ft None 0 0 (ths ft)) (\<lambda>cols.
             let brks = for_in (opt_breakpoints ft);
                 ft = ft\<lparr>columns := cols, breakpoints := sort_breakpoints (breakpoints ft @ brks),
                   breakpointNames := breakpointNames ft @ concat (map (\<lambda>(nm, _). nm @ '' '') brks)\<rparr>
             in initialize on_redrawn on_initialized now ft))"

definition ft_reset :: "table \<Rightarrow> table" where
  "ft_reset ft =
     (let ft = ft\<lparr>t_info := None, t_data := AList.update ''breakpoint'' (DS []) (t_data ft),
            t_cls := remove_class ''footable-loaded'' (remove_class ''footable-loading'' (t_cls ft))\<rparr>;
          ft = map_rows (\<lambda>r. if is_detail r then r else r\<lparr>r_bound := False\<rparr>) ft;
          ft = map_rows (\<lambda>r. r\<lparr>r_cls := remove_class ''footable-detail-show'' (r_cls r)\<rparr>) ft
      in raise ''footable_reset'' (ft\<lparr>rows := filter (\<lambda>r. \<not> is_detail r) (rows ft)\<rparr>))"

text \<open>\<open>footable_expand_first_row\<close>, \<open>footable_expand_all\<close> and \<open>footable_collapse_all\<close>: the rows that have a handler.\<close>

definition toggle_bound :: "nat \<Rightarrow> nat \<Rightarrow> table \<Rightarrow> jserr + table" where
  "toggle_bound now i ft = (case find_row i ft of
     Some r \<Rightarrow> if r_bound r then toggleDetail now i ft else Inr ft
   | None \<Rightarrow> Inr ft)"

fun toggle_all :: "nat \<Rightarrow> nat list \<Rightarrow> table \<Rightarrow> jserr + table" where
  "toggle_all now [] ft = Inr ft"
| "toggle_all now (i # is) ft = sbind (toggle_bound now i ft) (toggle_all now is)"

definition collapsed :: "row \<Rightarrow> bool" where
  "collapsed r \<longleftrightarrow> \<not> has_class ''footable-detail-show'' (r_cls r)"

definition expandFirstRow :: "nat \<Rightarrow> table \<Rightarrow> jserr + table" where
  "expandFirstRow now ft =
     toggle_all now (map r_id (filter collapsed (take 1 (filter (\<lambda>r. \<not> is_detail r) (rows ft))))) ft"

definition expandAll :: "nat \<Rightarrow> table \<Rightarrow> jserr + table" where
  "expandAll now ft = toggle_all now (map r_id (filter collapsed (filter (\<lambda>r. \<not> is_detail r) (rows ft)))) ft"

definition collapseAll :: "nat \<Rightarrow> table \<Rightarrow> jserr + table" where
  "collapseAll now ft = toggle_all now (map r_id (filter (\<lambda>r. \<not> collapsed r) (rows ft))) ft"

text \<open>
  A click on a row: on one of its cells or its toggle element (\<open>on_cell\<close>) it toggles the row, while the table
  is at a breakpoint. A change of the window's size restarts the timer that raises the resize event.
\<close>

definition row_click :: "nat \<Rightarrow> bool \<Rightarrow> nat \<Rightarrow> table \<Rightarrow> jserr + table" where
  "row_click now on_cell i ft =
     (if has_class ''breakpoint'' (t_cls ft) \<and> on_cell then toggle_bound now i ft else Inr ft)"

definition window_resize :: "timer \<times> unit timeouts \<Rightarrow> timer \<times> unit timeouts" where
  "window_resize tw = timer_start () (timer_stop tw)"

end
