(* ===== verification/FtSort.thy ===== *)
theory FtSort
  imports FtRows
begin

text \<open>
  \<open>src/src/qt/res/js/footable.sort.js\<close>. \<open>allow\<close> tells whether no handler of the event before sorting
  returns \<open>false\<close>; \<open>on_sorted\<close> stands for the handlers of the event after it.
\<close>

section \<open>Columns and sorters\<close>

definition nat_index :: "dval \<Rightarrow> nat option" where
  "nat_index d = (case d of DN r \<Rightarrow> if 0 \<le> r \<and> r = of_int \<lfloor>r\<rfloor> then Some (nat \<lfloor>r\<rfloor>) else None | _ \<Rightarrow> None)"

definition sort_column_data :: "th \<Rightarrow> coldata \<Rightarrow> coldata" where
  "sort_column_data h data =
     (let match = dor (dget (h_data h) ''sort-match'') (DN 0);
          big = (case dnum match of None \<Rightarrow> False | Some m \<Rightarrow> m \<ge> of_nat (length (k_matches data)));
          match = (if big then DN 0 else match)
      in data\<lparr>k_sort := \<lparr>s_initial = dor (dget (h_data h) ''sort-initial'') (DB False),
           s_ignore = dor (dget (h_data h) ''sort-ignore'') (DB False),
           s_selector = dor (dget (h_data h) ''sort-selector'') DU,
           s_match = (case nat_index match of
               Some i \<Rightarrow> if i < length (k_matches data) then Some (k_matches data ! i) else None
             | None \<Rightarrow> None)\<rparr>\<rparr>)"

definition lower_val :: "dval \<Rightarrow> dval" where
  "lower_val a = (case a of DS s \<Rightarrow> DS (lower s) | _ \<Rightarrow> a)"

definition sorter_alpha :: "dval \<Rightarrow> dval \<Rightarrow> int" where
  "sorter_alpha a b =
     (let a = lower_val a; b = lower_val b in if a = b then 0 else if js_less a b then -1 else 1)"

definition sorter_numeric :: "dval \<Rightarrow> dval \<Rightarrow> int" where
  "sorter_numeric a b = (case (dnum a, dnum b) of
     (Some x, Some y) \<Rightarrow> if x < y then -1 else if y < x then 1 else 0
   | _ \<Rightarrow> 0)"

definition sorter :: "coldata \<Rightarrow> dval \<Rightarrow> dval \<Rightarrow> int" where
  "sorter col = (if k_type col = DS ''numeric'' then sorter_numeric else sorter_alpha)"

section \<open>Sorting the rows\<close>

text \<open>A row, the detail row behind it and the value of its cell.\<close>

type_synonym srow = "row \<times> row option \<times> dval"

definition row_value :: "coldata \<Rightarrow> row \<Rightarrow> dval" where
  "row_value col r = (case s_match (k_sort col) of
     Some i \<Rightarrow> if i < length (r_cells r) then ft_parse (r_cells r ! i) col
       else if k_type col = DS ''numeric'' then DN 0 else DS []
   | None \<Rightarrow> if k_type col = DS ''numeric'' then DN 0 else DS [])"

fun sort_rows :: "coldata \<Rightarrow> row list \<Rightarrow> srow list" where
  "sort_rows col [] = []"
| "sort_rows col (r # rs) =
     (if is_detail r then sort_rows col rs
      else (r, (case rs of s # _ \<Rightarrow> if is_detail s then Some s else None | [] \<Rightarrow> None), row_value col r)
        # sort_rows col rs)"

definition srow_rows :: "srow \<Rightarrow> row list" where
  "srow_rows x = (case x of (r, d, v) \<Rightarrow> r # (case d of None \<Rightarrow> [] | Some s \<Rightarrow> [s]))"

definition sort_table :: "coldata \<Rightarrow> bool \<Rightarrow> table \<Rightarrow> table" where
  "sort_table col ascending ft =
     (let cmp = (\<lambda>(_, _, a) (_, _, b). if ascending then sorter col a b else sorter col b a)
      in ft\<lparr>rows := concat (map srow_rows (js_sort cmp (sort_rows col (rows ft))))\<rparr>)"

section \<open>The operation\<close>

datatype direction = Dundef | Dtoggle | Dasc bool

definition th_class :: "nat \<Rightarrow> string \<Rightarrow> table \<Rightarrow> bool" where
  "th_class i c ft \<longleftrightarrow> i < length (ths ft) \<and> has_class c (h_cls (ths ft ! i))"

definition set_sorted :: "nat \<Rightarrow> bool \<Rightarrow> table \<Rightarrow> table" where
  "set_sorted i ascending ft =
     ft\<lparr>ths := map (\<lambda>(j, h).
         if j \<noteq> i then h\<lparr>h_cls := remove_class ''footable-sorted-desc'' (remove_class ''footable-sorted'' (h_cls h))\<rparr>
         else if ascending then h\<lparr>h_cls := add_class ''footable-sorted'' (remove_class ''footable-sorted-desc'' (h_cls h))\<rparr>
         else h\<lparr>h_cls := add_class ''footable-sorted-desc'' (remove_class ''footable-sorted'' (h_cls h))\<rparr>)
       (zip [0..<length (ths ft)] (ths ft))\<rparr>"

definition doSort ::
  "(table \<Rightarrow> bool) \<Rightarrow> (table \<Rightarrow> jserr + table) \<Rightarrow> nat \<Rightarrow> direction \<Rightarrow> table \<Rightarrow> jserr + table" where
  "doSort allow on_sorted columnIndex d ft =
     (if dget (t_data ft) ''sort'' = DB False then Inr ft
      else if length (columns ft) \<le> columnIndex then Inl TypeErr
      else
        let col = columns ft ! columnIndex;
            ascending = (case d of Dundef \<Rightarrow> th_class columnIndex ''footable-sorted'' ft
              | Dtoggle \<Rightarrow> \<not> th_class columnIndex ''footable-sorted'' ft
              | Dasc b \<Rightarrow> b)
        in if s_ignore (k_sort col) = DB True then Inr ft
           else
             let ft = raise ''footable_sorting'' ft in
             if \<not> allow ft then Inr ft
             else
               let ft = ft\<lparr>t_data := AList.update ''sorted'' (DN (of_nat (k_index col))) (t_data ft)\<rparr>;
                   ft = set_sorted columnIndex ascending ft;
                   ft = sort_table col ascending ft
               in on_sorted (raise ''footable_sorted'' (bindToggleSelectors ft)))"

section \<open>Handlers\<close>

definition mark_sortable :: "table \<Rightarrow> table" where
  "mark_sortable ft = ft\<lparr>ths := map (\<lambda>(i, h).
       if i < length (columns ft) \<and> s_ignore (k_sort (columns ft ! i)) \<noteq> DB True
       then h\<lparr>h_cls := add_class ''footable-sortable'' (h_cls h)\<rparr> else h)
     (zip [0..<length (ths ft)] (ths ft))\<rparr>"

definition sort_initialized ::
  "(table \<Rightarrow> bool) \<Rightarrow> (table \<Rightarrow> jserr + table) \<Rightarrow> table \<Rightarrow> jserr + table" where
  "sort_initialized allow on_sorted ft =
     (if dget (t_data ft) ''sort'' = DB False then Inr ft
      else
        let ft = mark_sortable ft in
        case find (\<lambda>c. dtruthy (s_initial (k_sort c))) (columns ft) of
          None \<Rightarrow> Inr ft
        | Some c \<Rightarrow> doSort allow on_sorted (k_index c) (Dasc (s_initial (k_sort c) \<noteq> DS ''descending'')) ft)"

definition sort_click ::
  "(table \<Rightarrow> bool) \<Rightarrow> (table \<Rightarrow> jserr + table) \<Rightarrow> nat \<Rightarrow> table \<Rightarrow> jserr + table" where
  "sort_click allow on_sorted i ft =
     (if th_class i ''footable-sortable'' ft
      then doSort allow on_sorted i (Dasc (\<not> th_class i ''footable-sorted'' ft)) ft
      else Inr ft)"

fun resort_loop ::
  "(table \<Rightarrow> bool) \<Rightarrow> (table \<Rightarrow> jserr + table) \<Rightarrow> nat list \<Rightarrow> table \<Rightarrow> jserr + table" where
  "resort_loop allow on_sorted [] ft = Inr ft"
| "resort_loop allow on_sorted (i # is) ft =
     sbind (if th_class i ''footable-sorted'' ft \<or> th_class i ''footable-sorted-desc'' ft
            then doSort allow on_sorted i Dundef ft else Inr ft)
       (resort_loop allow on_sorted is)"

definition sort_redrawn ::
  "(table \<Rightarrow> bool) \<Rightarrow> (table \<Rightarrow> jserr + table) \<Rightarrow> table \<Rightarrow> jserr + table" where
  "sort_redrawn allow on_sorted ft =
     (case dnum (dget (t_data ft) ''sorted'') of
        Some n \<Rightarrow> if 0 \<le> n then resort_loop allow on_sorted [0..<length (ths ft)] ft else Inr ft
      | None \<Rightarrow> Inr ft)"

end
