(* ===== verification/FtFilter.thy ===== *)
theory FtFilter
  imports FtRows
begin

text \<open>
  \<open>src/src/qt/res/js/footable.filter.js\<close>. \<open>allow\<close> tells whether no handler of the event before filtering
  returns \<open>false\<close>; \<open>on_filtered\<close> stands for the handlers of the event after it.
\<close>

section \<open>Rows that match\<close>

definition row_text :: "table \<Rightarrow> row \<Rightarrow> string" where
  "row_text ft r =
     (let txt = concat (map (\<lambda>c. text_of (c_body c)) (r_cells r)) in
      if dtruthy (dget (t_data ft) ''filter-text-only'') then txt
      else txt @ concat (map (\<lambda>c. dstr (dget (c_data c) ''value''))
        (filter (\<lambda>c. ''value'' \<in> set (map fst (c_data c))) (r_cells r))))"

text \<open>\<open>filterFunction\<close> for the current filter \<open>f\<close>.\<close>

definition filterFunction :: "table \<Rightarrow> string \<Rightarrow> row \<Rightarrow> bool" where
  "filterFunction ft f r = contains (upper (row_text ft r)) (upper f)"

section \<open>Showing rows\<close>

definition show_with_detail :: "nat \<Rightarrow> nat \<Rightarrow> table \<Rightarrow> jserr + table" where
  "show_with_detail now i ft = (case find_row i ft of
     None \<Rightarrow> Inr ft
   | Some r \<Rightarrow>
       if has_class ''breakpoint'' (t_cls ft) \<and> has_class ''footable-detail-show'' (r_cls r) \<and> has_detail_next i ft
       then createOrUpdateDetailRow now i
         (map_row i (show_row True) (ft\<lparr>rows := map_next i (show_row True) (rows ft)\<rparr>))
       else Inr (map_row i (show_row True) ft))"

definition filter_showRow :: "nat \<Rightarrow> nat \<Rightarrow> table \<Rightarrow> jserr + table" where
  "filter_showRow now i ft = (case find_row i ft of
     None \<Rightarrow> Inr ft
   | Some r \<Rightarrow> if r_show r \<and> t_visible ft then Inr ft else show_with_detail now i ft)"

definition unmark :: "nat \<Rightarrow> table \<Rightarrow> table" where
  "unmark i ft = map_row i (\<lambda>r. r\<lparr>r_cls := remove_class ''footable-filtered'' (r_cls r)\<rparr>) ft"

fun show_filtered :: "nat \<Rightarrow> nat list \<Rightarrow> table \<Rightarrow> jserr + table" where
  "show_filtered now [] ft = Inr ft"
| "show_filtered now (i # is) ft =
     sbind (filter_showRow now i ft) (\<lambda>ft. show_filtered now is (unmark i ft))"

section \<open>The operations\<close>

definition clearFilter :: "(table \<Rightarrow> jserr + table) \<Rightarrow> nat \<Rightarrow> table \<Rightarrow> jserr + table" where
  "clearFilter on_filtered now ft =
     (let ids = map r_id (filter (\<lambda>r. \<not> is_detail r) (rows ft));
          ft = map_rows (\<lambda>r. if is_detail r then r
            else r\<lparr>r_cls := remove_class ''footable-filtered'' (r_cls r)\<rparr>) ft
      in sbind (show_filtered now ids ft) (\<lambda>ft.
           on_filtered (raise ''footable_filtered''
             (ft\<lparr>t_data := AList.delete ''filter-string'' (t_data ft)\<rparr>))))"

definition filter_minimum :: "table \<Rightarrow> rat" where
  "filter_minimum ft =
     (case dnum (dor (dget (t_data ft) ''filter-minimum'') (DN 2)) of Some n \<Rightarrow> n | None \<Rightarrow> 0)"

definition filter_words :: "string \<Rightarrow> string list" where
  "filter_words s = filter (\<lambda>w. w \<noteq> []) (split_char (CHR 0x20) s)"

definition matching_rows :: "table \<Rightarrow> string \<Rightarrow> row list" where
  "matching_rows ft s =
     foldl (\<lambda>rs f. filter (filterFunction ft f) rs) (filter (\<lambda>r. \<not> is_detail r) (rows ft)) (filter_words s)"

definition ft_filter ::
  "(table \<Rightarrow> bool) \<Rightarrow> (table \<Rightarrow> jserr + table) \<Rightarrow> nat \<Rightarrow> string \<Rightarrow> table \<Rightarrow> jserr + table" where
  "ft_filter allow on_filtered now filterString ft =
     (let ft = raise ''footable_filtering'' ft in
      if \<not> allow ft then Inr ft
      else if filterString \<noteq> [] \<and> of_nat (length filterString) < filter_minimum ft then Inr ft
      else if filterString = [] then clearFilter on_filtered now ft
      else
        let ft = map_rows (\<lambda>r. r\<lparr>r_show := False, r_cls := add_class ''footable-filtered'' (r_cls r)\<rparr>) ft;
            words = filter_words filterString;
            ids = map r_id (matching_rows ft filterString);
            ft = (if words = [] then ft
              else ft\<lparr>t_data := AList.update ''current-filter'' (DS (last words)) (t_data ft)\<rparr>)
        in sbind (show_filtered now ids ft) (\<lambda>ft.
             on_filtered (raise ''footable_filtered''
               (ft\<lparr>t_data := AList.update ''filter-string'' (DS filterString) (t_data ft)\<rparr>))))"

section \<open>Handlers\<close>

text \<open>A key in the input restarts the timer; escape empties the input.\<close>

definition filter_keyup :: "bool \<Rightarrow> table \<times> timer \<times> unit timeouts \<Rightarrow> table \<times> timer \<times> unit timeouts" where
  "filter_keyup escape = (\<lambda>(ft, tw).
     let tw = timer_stop tw;
         ft = (if escape then ft\<lparr>t_input := []\<rparr> else ft)
     in (ft, timer_start () tw))"

definition filter_timeout ::
  "(table \<Rightarrow> bool) \<Rightarrow> (table \<Rightarrow> jserr + table) \<Rightarrow> nat \<Rightarrow> table \<Rightarrow> jserr + table" where
  "filter_timeout allow on_filtered now ft = ft_filter allow on_filtered now (t_input ft) ft"

definition filter_clear_event :: "(table \<Rightarrow> jserr + table) \<Rightarrow> nat \<Rightarrow> table \<Rightarrow> jserr + table" where
  "filter_clear_event on_filtered now ft = clearFilter on_filtered now (ft\<lparr>t_input := []\<rparr>)"

definition filter_redrawn ::
  "(table \<Rightarrow> bool) \<Rightarrow> (table \<Rightarrow> jserr + table) \<Rightarrow> nat \<Rightarrow> table \<Rightarrow> jserr + table" where
  "filter_redrawn allow on_filtered now ft =
     (case dget (t_data ft) ''filter-string'' of
        DS s \<Rightarrow> if s \<noteq> [] then ft_filter allow on_filtered now s ft else Inr ft
      | _ \<Rightarrow> Inr ft)"

end
