(* ===== verification/FtPaginate.thy ===== *)
theory FtPaginate
  imports FtFilter
begin

text \<open>
  \<open>src/src/qt/res/js/footable.paginate.js\<close>: the pages of a table, the list of page links and the clicks on
  them. \<open>allow\<close> tells whether no handler of the event before paging returns \<open>false\<close>.
\<close>

section \<open>Page data\<close>

definition page_number :: "dval \<Rightarrow> int" where
  "page_number d = (case dnum d of Some r \<Rightarrow> \<lfloor>r\<rfloor> | None \<Rightarrow> 0)"

definition page_info :: "table \<Rightarrow> pageinfo" where
  "page_info ft =
     (let d = t_data ft;
          limitNav = (case parse_int (dstr (dor (dget d ''limitNavigation'') (DN 0))) of Some n \<Rightarrow> n | None \<Rightarrow> 0)
      in \<lparr>pi_size = (case dnum (dor (dget d ''pageSize'') (DN 10)) of Some n \<Rightarrow> n | None \<Rightarrow> 0),
          pi_limitNav = limitNav, pi_limit = limitNav > 0,
          pi_current = page_number (dor (dget d ''currentPage'') (DN 0)),
          pi_pages = [], pi_control = False, pi_manual = dtruthy (dget d ''manual'')\<rparr>)"

text \<open>\<open>a % b\<close>; \<open>None\<close> is \<open>NaN\<close>.\<close>

definition js_mod :: "rat \<Rightarrow> rat \<Rightarrow> rat option" where
  "js_mod a b = (if b = 0 then None
     else Some (a - b * (let q = a / b in if 0 \<le> q then of_int \<lfloor>q\<rfloor> else of_int \<lceil>q\<rceil>)))"

text \<open>The loop over the rows: \<open>n\<close> is their number, \<open>sz\<close> the size of a page.\<close>

fun pages_loop :: "nat \<Rightarrow> rat \<Rightarrow> nat \<Rightarrow> nat \<Rightarrow> nat list \<Rightarrow> nat list \<Rightarrow> nat list list \<Rightarrow> nat list \<Rightarrow> nat list list \<times> nat list" where
  "pages_loop n sz i pgs page lastPage pages [] = (pages, lastPage)"
| "pages_loop n sz i pgs page lastPage pages (r # rs) =
     (let page = page @ [r] in
      if of_nat i = of_nat pgs * sz - 1 then
        pages_loop n sz (i + 1) (pgs + 1) [] lastPage (pages @ [page]) rs
      else if (case js_mod (of_nat n) sz of None \<Rightarrow> False | Some m \<Rightarrow> of_nat i \<ge> of_nat n - m) then
        pages_loop n sz (i + 1) pgs page (lastPage @ [r]) pages rs
      else pages_loop n sz (i + 1) pgs page lastPage pages rs)"

definition make_pages :: "rat \<Rightarrow> nat list \<Rightarrow> nat list list" where
  "make_pages sz ids =
     (let (pages, lastPage) = pages_loop (length ids) sz 0 1 [] [] [] ids
      in if lastPage \<noteq> [] then pages @ [lastPage] else pages)"

definition page_rows :: "table \<Rightarrow> nat list" where
  "page_rows ft = map r_id (filter (\<lambda>r. \<not> has_class ''footable-filtered'' (r_cls r) \<and> \<not> is_detail r) (rows ft))"

definition clamp_page :: "int \<Rightarrow> nat \<Rightarrow> int" where
  "clamp_page c n = (let c = (if c \<ge> int n then int n - 1 else c) in if c < 0 then 0 else c)"

definition createPages :: "table \<Rightarrow> table" where
  "createPages ft =
     (let pages = make_pages (pi_size (pageInfo ft)) (page_rows ft);
          ft = raise ''footable_create_pages'' ft;
          info = pageInfo ft
      in ft\<lparr>pageInfo := info\<lparr>pi_pages := pages, pi_current := clamp_page (pi_current info) (length pages)\<rparr>,
            t_cls := (if length pages = 1 then add_class ''no-paging'' (t_cls ft)
              else remove_class ''no-paging'' (t_cls ft))\<rparr>)"

section \<open>The list of page links\<close>

definition mk_nav :: "npage \<Rightarrow> navitem" where
  "mk_nav p = \<lparr>n_page = p, n_active = False, n_disabled = False, n_show = True\<rparr>"

definition is_page :: "navitem \<Rightarrow> bool" where
  "is_page x = (case n_page x of NPage _ \<Rightarrow> True | _ \<Rightarrow> False)"

definition page_of :: "navitem \<Rightarrow> int" where
  "page_of x = (case n_page x of NPage i \<Rightarrow> int i | _ \<Rightarrow> 0)"

definition limited_pages :: "pageinfo \<Rightarrow> int \<Rightarrow> nat list" where
  "limited_pages info first =
     filter (\<lambda>i. first \<le> int i \<and> int i < first + pi_limitNav info \<and> pi_pages info ! i \<noteq> [])
       [0..<length (pi_pages info)]"

text \<open>Behind the link \<open>limit-prev\<close> go the pages from \<open>first\<close>; the links at the ends are hidden.\<close>

fun insert_pages :: "nat list \<Rightarrow> navitem list \<Rightarrow> navitem list" where
  "insert_pages is [] = []"
| "insert_pages is (x # xs) =
     (if n_page x = NLimitPrev then x # map (\<lambda>i. mk_nav (NPage i)) is @ xs else x # insert_pages is xs)"

definition createLimited :: "navitem list \<Rightarrow> pageinfo \<Rightarrow> int \<Rightarrow> navitem list" where
  "createLimited nav info first =
     map (\<lambda>x. if n_page x = NLimitPrev then x\<lparr>n_show := first \<noteq> 0\<rparr>
         else if n_page x = NLimitNext then x\<lparr>n_show := \<not> (first + pi_limitNav info \<ge> int (length (pi_pages info)))\<rparr>
         else x)
       (insert_pages (limited_pages info first) (filter (\<lambda>x. \<not> is_page x) nav))"

definition setPagingClasses :: "navitem list \<Rightarrow> int \<Rightarrow> int \<Rightarrow> navitem list" where
  "setPagingClasses nav currentPage pageCount =
     map (\<lambda>x. x\<lparr>n_active := n_active x \<or> is_page x \<and> page_of x = currentPage,
        n_disabled := n_disabled x
          \<or> currentPage \<ge> pageCount - 1 \<and> n_page x \<in> {NNext, NLast}
          \<or> currentPage < 1 \<and> n_page x \<in> {NFirst, NPrev}\<rparr>) nav"

definition nav_list :: "pageinfo \<Rightarrow> navitem list" where
  "nav_list info =
     (if pi_pages info = [] then []
      else
        let pages = filter (\<lambda>i. pi_pages info ! i \<noteq> []) [0..<length (pi_pages info)];
            nav = [mk_nav NFirst, mk_nav NPrev] @ (if pi_limit info then [mk_nav NLimitPrev] else []) @
              (if pi_limit info then [] else map (\<lambda>i. mk_nav (NPage i)) pages) @
              (if pi_limit info then [mk_nav NLimitNext] else [])
        in (if pi_limit info then createLimited nav info 0 else nav) @ [mk_nav NNext, mk_nav NLast])"

definition page_count :: "pageinfo \<Rightarrow> int" where
  "page_count info = int (length (pi_pages info))"

definition createNavigation :: "table \<Rightarrow> table" where
  "createNavigation ft = (case t_nav ft of
     None \<Rightarrow> ft
   | Some _ \<Rightarrow>
       let info = (pageInfo ft)\<lparr>pi_control := True\<rparr>
       in ft\<lparr>pageInfo := info,
            t_nav := Some (setPagingClasses (nav_list info) (pi_current info) (page_count info))\<rparr>)"

section \<open>Filling and changing pages\<close>

fun show_page :: "nat \<Rightarrow> nat list \<Rightarrow> table \<Rightarrow> jserr + table" where
  "show_page now [] ft = Inr ft"
| "show_page now (i # is) ft = sbind (show_with_detail now i ft) (show_page now is)"

definition page_at :: "table \<Rightarrow> int \<Rightarrow> nat list" where
  "page_at ft n = (if 0 \<le> n \<and> n < page_count (pageInfo ft) then pi_pages (pageInfo ft) ! nat n else [])"

definition fillPage :: "nat \<Rightarrow> int \<Rightarrow> table \<Rightarrow> jserr + table" where
  "fillPage now pageNumber ft =
     (let ft = ft\<lparr>pageInfo := (pageInfo ft)\<lparr>pi_current := pageNumber\<rparr>,
            t_data := AList.update ''currentPage'' (DN (of_int pageNumber)) (t_data ft)\<rparr>;
          ft = map_rows (show_row False) ft
      in sbind (show_page now (page_at ft pageNumber) ft) (\<lambda>ft. Inr (raise ''footable_page_filled'' ft)))"

text \<open>Without a list of links \<open>info.control\<close> is \<open>false\<close>, which has no method \<open>find\<close>.\<close>

definition paginate :: "(table \<Rightarrow> bool) \<Rightarrow> nat \<Rightarrow> int \<Rightarrow> table \<Rightarrow> jserr + table" where
  "paginate allow now newPage ft =
     (if pi_manual (pageInfo ft) \<or> pi_current (pageInfo ft) \<noteq> newPage \<or>
         \<not> list_ex (\<lambda>r. r_show r \<and> t_visible ft) (rows ft) then
        let ft = raise ''footable_paging'' ft in
        if \<not> allow ft then Inr ft
        else sbind (fillPage now newPage ft) (\<lambda>ft.
          if \<not> pi_control (pageInfo ft) then Inl TypeErr
          else Inr (ft\<lparr>t_nav := map_option (\<lambda>nav.
            setPagingClasses (map (\<lambda>x. x\<lparr>n_active := False, n_disabled := False\<rparr>) nav)
              (pi_current (pageInfo ft)) (page_count (pageInfo ft))) (t_nav ft)\<rparr>))
      else Inr ft)"

definition setupPaging :: "(table \<Rightarrow> bool) \<Rightarrow> nat \<Rightarrow> table \<Rightarrow> jserr + table" where
  "setupPaging allow now ft =
     (let ft = createNavigation (createPages (ft\<lparr>pageInfo := page_info ft\<rparr>))
      in sbind (paginate allow now (pi_current (pageInfo ft)) ft) (\<lambda>ft.
           fillPage now (pi_current (pageInfo ft)) ft))"

section \<open>Clicks\<close>

text \<open>\<open>while (first % limitNavigation !== 0) first -= 1\<close>, from a page down to a multiple.\<close>

function limit_start :: "int \<Rightarrow> int \<Rightarrow> int" where
  "limit_start limit first =
     (if limit \<le> 0 \<or> first \<le> 0 \<or> first mod limit = 0 then first else limit_start limit (first - 1))"
  by pat_completeness auto
termination
  by (relation "measure (\<lambda>(limit, first). nat first)") auto

declare limit_start.simps [simp del]

definition with_nav :: "(navitem list \<Rightarrow> navitem list) \<Rightarrow> table \<Rightarrow> table" where
  "with_nav f ft = ft\<lparr>t_nav := map_option f (t_nav ft)\<rparr>"

definition limit_click :: "int option \<Rightarrow> table \<Rightarrow> table" where
  "limit_click first ft =
     (let info = pageInfo ft in
      with_nav (\<lambda>nav. setPagingClasses (createLimited nav info (case first of None \<Rightarrow> 0 | Some s \<Rightarrow> s))
        (pi_current info) (page_count info)) ft)"

definition nav_pages :: "table \<Rightarrow> int list" where
  "nav_pages ft = map page_of (filter is_page (case t_nav ft of None \<Rightarrow> [] | Some nav \<Rightarrow> nav))"

definition goto_page :: "(table \<Rightarrow> bool) \<Rightarrow> nat \<Rightarrow> int \<Rightarrow> table \<Rightarrow> jserr + table" where
  "goto_page allow now newPage ft =
     (if newPage \<ge> 0 then
        let info = pageInfo ft;
            ft = (if pi_limit info \<and> pi_current info \<noteq> newPage
              then with_nav (\<lambda>nav. createLimited nav info (limit_start (pi_limitNav info) newPage)) ft
              else ft)
        in paginate allow now newPage ft
      else Inr ft)"

definition nav_click :: "(table \<Rightarrow> bool) \<Rightarrow> nat \<Rightarrow> npage \<Rightarrow> table \<Rightarrow> jserr + table" where
  "nav_click allow now page ft =
     (let info = pageInfo ft; cur = pi_current info in
      case page of
        NFirst \<Rightarrow> goto_page allow now 0 ft
      | NPrev \<Rightarrow> goto_page allow now (if cur > 0 then cur - 1 else cur) ft
      | NNext \<Rightarrow> goto_page allow now (if cur < page_count info - 1 then cur + 1 else cur) ft
      | NLast \<Rightarrow> goto_page allow now (page_count info - 1) ft
      | NLimitPrev \<Rightarrow> Inr (limit_click
          (case nav_pages ft of [] \<Rightarrow> None | p # _ \<Rightarrow> Some (p - pi_limitNav info)) ft)
      | NLimitNext \<Rightarrow> Inr (limit_click
          (case nav_pages ft of [] \<Rightarrow> None | ps \<Rightarrow> Some (last ps + 1)) ft)
      | NPage i \<Rightarrow> goto_page allow now (int i) ft)"

end
