(* ===== verification/FtTop.thy ===== *)
theory FtTop
  imports FtSort FtPaginate
begin

text \<open>
  The plugins of FooTable together: which of them handles which event of the table, in the order in
  which they are bound (sorting, filtering, paging). \<open>src/src/qt/res/js/footable.sort.js\<close>,
  \<open>footable.filter.js\<close> and \<open>footable.paginate.js\<close> bind these handlers in their \<open>init\<close>.
\<close>

text \<open>Whether the handlers of the page allow sorting, filtering and paging, and the clock.\<close>

record page_env =
  e_sorting :: "table \<Rightarrow> bool"
  e_filtering :: "table \<Rightarrow> bool"
  e_paging :: "table \<Rightarrow> bool"
  e_now :: nat

definition paging_bound :: "table \<Rightarrow> bool" where
  "paging_bound ft \<longleftrightarrow> opt_paginate ft \<and> dget (t_data ft) ''page'' \<noteq> DB False"

definition filter_bound :: "table \<Rightarrow> bool" where
  "filter_bound ft \<longleftrightarrow> opt_filter ft \<and> dget (t_data ft) ''filter'' \<noteq> DB False"

definition paging_handler :: "page_env \<Rightarrow> table \<Rightarrow> jserr + table" where
  "paging_handler e ft = (if paging_bound ft then setupPaging (e_paging e) (e_now e) ft else Inr ft)"

definition on_redrawn :: "page_env \<Rightarrow> table \<Rightarrow> jserr + table" where
  "on_redrawn e ft =
     sbind (if opt_sort ft then sort_redrawn (e_sorting e) (paging_handler e) ft else Inr ft) (\<lambda>ft.
     sbind (if filter_bound ft then filter_redrawn (e_filtering e) (paging_handler e) (e_now e) ft else Inr ft)
       (paging_handler e))"

definition on_initialized :: "page_env \<Rightarrow> table \<Rightarrow> jserr + table" where
  "on_initialized e ft =
     sbind (if opt_sort ft then sort_initialized (e_sorting e) (paging_handler e) ft else Inr ft) (paging_handler e)"

definition on_column_data :: "bool \<Rightarrow> th \<Rightarrow> coldata \<Rightarrow> coldata" where
  "on_column_data srt h d = (if srt then sort_column_data h d else d)"

text \<open>The operations of the table with these handlers.\<close>

definition table_init :: "page_env \<Rightarrow> table \<Rightarrow> jserr + table" where
  "table_init e ft = ft_init (on_column_data (opt_sort ft)) (on_redrawn e) (on_initialized e) (e_now e) ft"

definition table_redraw :: "page_env \<Rightarrow> table \<Rightarrow> jserr + table" where
  "table_redraw e ft = redraw (on_redrawn e) (e_now e) ft"

definition table_resize :: "page_env \<Rightarrow> table \<Rightarrow> jserr + table" where
  "table_resize e ft = resize (on_redrawn e) (e_now e) ft"

definition table_append :: "page_env \<Rightarrow> row \<Rightarrow> table \<Rightarrow> jserr + table" where
  "table_append e r ft = appendRow (on_redrawn e) (e_now e) r ft"

definition table_remove :: "page_env \<Rightarrow> nat \<Rightarrow> table \<Rightarrow> jserr + table" where
  "table_remove e i ft = paging_handler e (removeRow i ft)"

definition table_sort :: "page_env \<Rightarrow> nat \<Rightarrow> direction \<Rightarrow> table \<Rightarrow> jserr + table" where
  "table_sort e i d ft = doSort (e_sorting e) (paging_handler e) i d ft"

definition table_filter :: "page_env \<Rightarrow> string \<Rightarrow> table \<Rightarrow> jserr + table" where
  "table_filter e s ft = ft_filter (e_filtering e) (paging_handler e) (e_now e) s ft"

definition table_click :: "page_env \<Rightarrow> npage \<Rightarrow> table \<Rightarrow> jserr + table" where
  "table_click e p ft = nav_click (e_paging e) (e_now e) p ft"

end
