(* ===== verification/FtView.thy ===== *)
theory FtView
  imports FtTop
begin

text \<open>
  What a reader of a FooTable sees of its rows: identifier, classes and visibility of each row that is
  not a detail row (\<open>plain\<close>), and how showing, filling a page and filtering change it.
\<close>

section \<open>Pages as chunks\<close>

fun chunks :: "nat \<Rightarrow> 'a list \<Rightarrow> 'a list list" where
  "chunks k [] = []"
| "chunks k (x # xs) = take (max 1 k) (x # xs) # chunks k (drop (max 1 k) (x # xs))"

lemma js_mod_nat: "0 < k \<Longrightarrow> js_mod (of_nat n) (of_nat k) = Some (of_nat (n mod k))"
proof -
  assume k: "0 < k"
  have "\<lfloor>(of_nat n :: rat) / of_nat k\<rfloor> = int (n div k)"
    by (metis floor_divide_of_nat_eq)
  then have "js_mod (of_nat n) (of_nat k) = Some (of_nat n - of_nat k * of_nat (n div k))"
    using k by (simp add: js_mod_def Let_def)
  also have "(of_nat n :: rat) - of_nat k * of_nat (n div k) = of_nat (n mod k)"
    by (metis add_diff_cancel_left' mult_div_mod_eq of_nat_add of_nat_mult)
  finally show ?thesis .
qed

lemma chunks_full: "0 < k \<Longrightarrow> length p = k \<Longrightarrow> chunks k (p @ xs) = p # chunks k xs"
  by (cases p) (auto simp: max_def)

lemma chunks_short: "0 < k \<Longrightarrow> length p < k \<Longrightarrow> chunks k p = (if p = [] then [] else [p])"
  by (cases p) (auto simp: max_def)

lemma page_full_iff: "(of_nat i = of_nat (Suc d) * of_nat k - (1 :: rat)) \<longleftrightarrow> Suc i = Suc d * k"
proof -
  have "(of_nat i = of_nat (Suc d) * of_nat k - (1 :: rat)) \<longleftrightarrow> (of_nat (Suc i) = (of_nat (Suc d * k) :: rat))"
    by (simp add: algebra_simps)
  then show ?thesis by (simp only: of_nat_eq_iff)
qed

lemma page_last_iff:
  "((of_nat i :: rat) \<ge> of_nat n - of_nat (n mod k)) \<longleftrightarrow> n div k * k \<le> i"
proof -
  have "((of_nat i :: rat) \<ge> of_nat n - of_nat (n mod k)) \<longleftrightarrow> (of_nat n :: rat) \<le> of_nat (i + n mod k)"
    by (simp add: algebra_simps)
  also have "\<dots> \<longleftrightarrow> n \<le> i + n mod k" by (rule of_nat_le_iff)
  also have "\<dots> \<longleftrightarrow> n div k * k \<le> i" using div_mult_mod_eq [of n k] by linarith
  finally show ?thesis .
qed

lemma pages_loop_chunks:
  assumes "0 < k" and "i + length rs = n" and "i = d * k + length page" and "length page < k"
    and "lastPage = (if d = n div k then page else [])"
  shows "(let (ps, lp) = pages_loop n (of_nat k) i (Suc d) page lastPage pages rs
      in if lp \<noteq> [] then ps @ [lp] else ps) = pages @ chunks k (page @ rs)"
  using assms
proof (induction rs arbitrary: i d page lastPage pages)
  case Nil
  then have "n div k = d" by (auto simp: div_mult_self1)
  then show ?case using Nil by (simp add: chunks_short)
next
  case (Cons r rs)
  note k = \<open>0 < k\<close>
  show ?case
  proof (cases "Suc i = Suc d * k")
    case True
    then have "Suc d * k \<le> n" using Cons.prems by simp
    then have "Suc d \<le> n div k" using k by (simp add: less_eq_div_iff_mult_less_eq)
    then have d: "d \<noteq> n div k" by simp
    have len: "length (page @ [r]) = k" using True Cons.prems by simp
    have "(let (ps, lp) = pages_loop n (of_nat k) (i + 1) (Suc (Suc d)) [] [] (pages @ [page @ [r]]) rs
        in if lp \<noteq> [] then ps @ [lp] else ps) = (pages @ [page @ [r]]) @ chunks k ([] @ rs)"
      by (rule Cons.IH) (use True Cons.prems k in auto)
    then show ?thesis
      using page_full_iff [of i d k] True d Cons.prems(5) chunks_full [OF k len, of rs]
      by (simp del: chunks.simps of_nat_Suc add: Let_def)
  next
    case False
    have less: "length (page @ [r]) < k" using False Cons.prems by simp
    have i1: "i + 1 + length rs = n" "i + 1 = d * k + length (page @ [r])" using Cons.prems by simp_all
    show ?thesis
    proof (cases "n div k * k \<le> i")
      case True
      have "n div k \<le> d"
      proof (rule ccontr)
        assume "\<not> n div k \<le> d"
        then have "Suc d * k \<le> n div k * k" by (intro mult_le_mono1) simp
        then show False using True Cons.prems less by simp
      qed
      moreover have "d \<le> n div k" using Cons.prems k by (simp add: less_eq_div_iff_mult_less_eq)
      ultimately have d: "d = n div k" by simp
      show ?thesis
        using Cons.IH [OF k i1 less, of "lastPage @ [r]" pages] Cons.prems(5) d False True
          page_full_iff [of i d k] page_last_iff [where i = i and n = n and k = k]
        by (simp del: chunks.simps of_nat_Suc add: Let_def js_mod_nat k)
    next
      case notlast: False
      then have d: "d \<noteq> n div k" using Cons.prems by auto
      show ?thesis
        using Cons.IH [OF k i1 less, of lastPage pages] Cons.prems(5) d False notlast
          page_full_iff [of i d k] page_last_iff [where i = i and n = n and k = k]
        by (simp del: chunks.simps of_nat_Suc add: Let_def js_mod_nat k)
    qed
  qed
qed

lemma make_pages_chunks: "0 < k \<Longrightarrow> make_pages (of_nat k) ids = chunks k ids"
  using pages_loop_chunks [of k 0 ids "length ids" 0 "[]" "[]" "[]"] by (simp add: make_pages_def)

lemma concat_chunks: "concat (chunks k xs) = xs"
  by (induction k xs rule: chunks.induct) (simp_all del: take_Suc_Cons)

lemma chunks_sizes: "0 < k \<Longrightarrow> p \<in> set (chunks k xs) \<Longrightarrow> p \<noteq> [] \<and> length p \<le> k"
  by (induction k xs rule: chunks.induct) (auto simp: max_def)

lemma chunks_butlast: "0 < k \<Longrightarrow> p \<in> set (butlast (chunks k xs)) \<Longrightarrow> length p = k"
proof (induction k xs rule: chunks.induct)
  case (2 k x xs)
  show ?case
  proof (cases "drop (max 1 k) (x # xs) = []")
    case False
    then have "k < length (x # xs)" using 2 by (simp add: max_def split: if_splits)
    moreover have "chunks k (drop (max 1 k) (x # xs)) \<noteq> []" using False by (cases "drop (max 1 k) (x # xs)") auto
    ultimately show ?thesis using 2 by (auto simp: max_def)
  qed (use 2 in simp)
qed simp

section \<open>The view\<close>

definition row_sig :: "row \<Rightarrow> nat \<times> classes \<times> bool" where
  "row_sig r = (r_id r, r_cls r, r_show r)"

definition view :: "table \<Rightarrow> (nat \<times> classes \<times> bool) list" where
  "view ft = map row_sig (rows ft)"

lemma row_sig_eq: "row_sig r = row_sig s \<longleftrightarrow> r_id r = r_id s \<and> r_cls r = r_cls s \<and> r_show r = r_show s"
  by (simp add: row_sig_def)

lemma map_cells_simps [simp]:
  "r_id (map_cells I f r) = r_id r" "r_cls (map_cells I f r) = r_cls r" "r_show (map_cells I f r) = r_show r"
  "r_created (map_cells I f r) = r_created r" "length (r_cells (map_cells I f r)) = length (r_cells r)"
  by (simp_all add: map_cells_def)

lemma view_map_rows: "(\<And>r. row_sig (f r) = row_sig r) \<Longrightarrow> view (map_rows f ft) = view ft"
  by (simp add: view_def map_rows_def comp_def)

lemma view_map_row: "(\<And>r. row_sig (f r) = row_sig r) \<Longrightarrow> view (map_row i f ft) = view ft"
  by (simp add: map_row_def view_map_rows)

lemma view_simps [simp]:
  "view (raise e ft) = view ft" "view (set_cell i j g ft) = view ft" "view (set_bound b ns ft) = view ft"
  by (simp_all add: raise_def set_cell_def set_bound_def view_map_row view_map_rows row_sig_def)
    (simp add: view_def)

lemma view_detail_cell: "detail_cell now i j ft = Inr (v, ft') \<Longrightarrow> view ft' = view ft"
  by (auto simp: detail_cell_def Let_def split: option.splits if_splits)

lemma view_detail_cells: "detail_cells now i js ft = Inr (vs, ft') \<Longrightarrow> view ft' = view ft"
  by (induction js arbitrary: ft vs) (auto simp: sbind_Inr_iff dest!: view_detail_cell)

lemma next_row_view:
  "map row_sig rs = map row_sig rs' \<Longrightarrow>
     map_option row_sig (next_row i rs) = map_option row_sig (next_row i rs')"
proof (induction rs arbitrary: rs')
  case (Cons r rs)
  then obtain s ss where rs': "rs' = s # ss" "row_sig r = row_sig s" "map row_sig rs = map row_sig ss"
    by (cases rs') auto
  have id: "r_id r = r_id s" using rs'(2) by (simp add: row_sig_eq)
  show ?case
  proof (cases "r_id r = i")
    case True
    then show ?thesis using rs'(3) id by (cases rs; cases ss) (simp_all add: rs'(1))
  next
    case False
    then show ?thesis using Cons.IH [OF rs'(3)] id by (simp add: rs'(1))
  qed
qed simp

lemma has_detail_next_view:
  assumes "view ft = view ft'"
  shows "has_detail_next i ft = has_detail_next i ft'"
  using next_row_view [of "rows ft" "rows ft'" i] assms
  by (auto simp: has_detail_next_def view_def is_detail_def row_sig_def split: option.splits)

lemma map_next_sig: "(\<And>r. row_sig (f r) = row_sig r) \<Longrightarrow> map row_sig (map_next i f rs) = map row_sig rs"
  by (induction i f rs rule: map_next.induct) auto

lemma createOrUpdate_view:
  assumes "createOrUpdateDetailRow now i ft = Inr ft'" and "has_detail_next i ft"
  shows "view ft' = view ft"
proof -
  have sig: "row_sig (r\<lparr>r_colspan := n, r_items := ds\<rparr>) = row_sig r"
    "row_sig (r\<lparr>r_created := c\<rparr>) = row_sig r" for r n ds c by (simp_all add: row_sig_def)
  have next_view: "view (t\<lparr>rows := map_next i (\<lambda>d. d\<lparr>r_colspan := n, r_items := ds\<rparr>) (rows t)\<rparr>) = view t" for t n ds
    by (simp add: view_def map_next_sig sig)
  have "has_detail_next i t" if "view t = view ft" for t
    using has_detail_next_view [OF that] assms(2) by simp
  then show ?thesis
    using assms(1)
    by (auto simp: createOrUpdateDetailRow_def sbind_Inr_iff Let_def view_map_row sig next_view
        split: option.splits if_splits dest!: view_detail_cells)
qed

definition plain :: "table \<Rightarrow> (nat \<times> classes \<times> bool) list" where
  "plain ft = map row_sig (filter (\<lambda>r. \<not> is_detail r) (rows ft))"

lemma plain_view: "view ft = view ft' \<Longrightarrow> plain ft = plain ft'"
proof -
  have "plain t = filter (\<lambda>(i, cs, s). \<not> has_class ''footable-row-detail'' cs) (view t)" for t
    by (simp add: plain_def view_def filter_map comp_def is_detail_def row_sig_def)
  then show "view ft = view ft' \<Longrightarrow> plain ft = plain ft'" by simp
qed

lemma is_detail_show_row [simp]: "is_detail (show_row b r) = is_detail r" "r_id (show_row b r) = r_id r"
  "r_show (show_row b r) = b" "r_cls (show_row b r) = r_cls r"
  by (simp_all add: is_detail_def show_row_def)

lemma plain_map_rows:
  assumes "\<And>r. is_detail (f r) = is_detail r" and "\<And>r. row_sig (f r) = g (row_sig r)"
  shows "plain (map_rows f ft) = map g (plain ft)"
  by (simp add: plain_def map_rows_def filter_map comp_def assms)

lemma plain_show:
  "plain (map_row i (show_row b) ft) = map (\<lambda>(j, c, s). (j, c, if j = i then b else s)) (plain ft)"
  unfolding map_row_def by (rule plain_map_rows) (auto simp: row_sig_def)

lemma map_next_plain:
  "(case next_row i rs of None \<Rightarrow> False | Some s \<Rightarrow> is_detail s) \<Longrightarrow>
   filter (\<lambda>r. \<not> is_detail r) (map_next i (show_row b) rs) = filter (\<lambda>r. \<not> is_detail r) rs"
  by (induction i "show_row b" rs rule: map_next.induct) auto

lemma has_detail_map_next:
  "(case next_row i rs of None \<Rightarrow> False | Some s \<Rightarrow> is_detail s) \<Longrightarrow>
   (case next_row i (map_next i (show_row b) rs) of None \<Rightarrow> False | Some s \<Rightarrow> is_detail s)"
  by (induction i "show_row b" rs rule: map_next.induct) auto

lemma has_detail_map_row: "has_detail_next i (map_row k (show_row b) ft) = has_detail_next i ft"
proof -
  have "(case next_row i (map (\<lambda>r. if r_id r = k then show_row b r else r) rs) of None \<Rightarrow> False | Some s \<Rightarrow> is_detail s) =
    (case next_row i rs of None \<Rightarrow> False | Some s \<Rightarrow> is_detail s)" for rs
    by (induction rs) (auto split: list.splits)
  then show ?thesis by (simp add: has_detail_next_def map_row_def map_rows_def)
qed

text \<open>Showing a row changes its visibility only.\<close>

definition shown :: "nat set \<Rightarrow> (nat \<times> classes \<times> bool) list \<Rightarrow> (nat \<times> classes \<times> bool) list" where
  "shown I = map (\<lambda>(j, c, s). (j, c, s \<or> j \<in> I))"

lemma shown_simps [simp]: "shown {} ps = ps" "shown I (shown J ps) = shown (I \<union> J) ps"
  by (auto simp: shown_def intro!: map_idI)

lemma show_with_detail_plain:
  assumes "show_with_detail now i ft = Inr ft'"
  shows "plain ft' = shown {i} (plain ft)"
proof (cases "find_row i ft")
  case None
  then have "\<forall>r \<in> set (rows ft). r_id r \<noteq> i" by (simp add: find_row_def find_None_iff)
  then have "\<forall>(j, s) \<in> set (plain ft). j \<noteq> i" by (auto simp: plain_def row_sig_def)
  then show ?thesis using assms None by (auto simp: show_with_detail_def shown_def intro!: map_idI [symmetric])
next
  case (Some r)
  let ?t = "ft\<lparr>rows := map_next i (show_row True) (rows ft)\<rparr>"
  have upd: "map (\<lambda>(j, c, s). (j, c, if j = i then True else s)) ps = shown {i} ps" for ps
    by (auto simp: shown_def)
  show ?thesis
  proof (cases "has_class ''breakpoint'' (t_cls ft) \<and> has_class ''footable-detail-show'' (r_cls r) \<and> has_detail_next i ft")
    case True
    then have "has_detail_next i ?t" and p: "plain ?t = plain ft"
      using has_detail_map_next [of i "rows ft" True] map_next_plain [of i "rows ft" True]
      by (simp_all add: has_detail_next_def plain_def)
    then have "has_detail_next i (map_row i (show_row True) ?t)" by (simp add: has_detail_map_row)
    moreover have "createOrUpdateDetailRow now i (map_row i (show_row True) ?t) = Inr ft'"
      using assms Some True by (simp add: show_with_detail_def)
    ultimately have "plain ft' = plain (map_row i (show_row True) ?t)"
      using createOrUpdate_view plain_view by blast
    then show ?thesis by (simp add: plain_show p upd)
  next
    case False
    then have "ft' = map_row i (show_row True) ft" using assms Some by (auto simp: show_with_detail_def)
    then show ?thesis by (simp add: plain_show upd)
  qed
qed

lemma show_page_plain: "show_page now is ft = Inr ft' \<Longrightarrow> plain ft' = shown (set is) (plain ft)"
proof (induction "is" arbitrary: ft)
  case (Cons i js)
  then obtain t where t: "show_with_detail now i ft = Inr t" "show_page now js t = Inr ft'"
    by (auto simp: sbind_Inr_iff)
  show ?case using Cons.IH [OF t(2)] show_with_detail_plain [OF t(1)] by (simp add: Un_commute)
qed simp

lemma plain_hide: "plain (map_rows (show_row False) ft) = map (\<lambda>(j, c, s). (j, c, False)) (plain ft)"
  by (rule plain_map_rows) (auto simp: row_sig_def)

lemma fillPage_plain:
  assumes "fillPage now n ft = Inr ft'"
  shows "plain ft' = map (\<lambda>(j, c, s). (j, c, j \<in> set (page_at ft n))) (plain ft)"
proof -
  let ?u = "ft\<lparr>pageInfo := (pageInfo ft)\<lparr>pi_current := n\<rparr>,
    t_data := AList.update ''currentPage'' (DN (of_int n)) (t_data ft)\<rparr>"
  let ?t = "map_rows (show_row False) ?u"
  have pg: "page_at ?t n = page_at ft n" by (cases ft) (simp add: page_at_def page_count_def map_rows_def)
  have "sbind (show_page now (page_at ?t n) ?t) (\<lambda>ft. Inr (raise ''footable_page_filled'' ft)) = Inr ft'"
    using assms by (simp only: fillPage_def Let_def page_at_def page_count_def map_rows_def table.simps pageinfo.simps)
  then obtain t where t: "show_page now (page_at ft n) ?t = Inr t" "ft' = raise ''footable_page_filled'' t"
    by (auto simp only: pg sbind_Inr_iff sum.inject)
  have "plain ?u = plain ft" by (simp add: plain_def)
  then show ?thesis
    using show_page_plain [OF t(1)] plain_view [of ft' t] by (auto simp: t(2) plain_hide shown_def)
qed

text \<open>Filtering.\<close>

definition ids :: "table \<Rightarrow> nat list" where
  "ids ft = map r_id (rows ft)"

lemma ids_view: "view ft = view ft' \<Longrightarrow> ids ft = ids ft'"
proof -
  have "ids t = map fst (view t)" for t by (simp add: ids_def view_def row_sig_def)
  then show "view ft = view ft' \<Longrightarrow> ids ft = ids ft'" by simp
qed

lemma ids_map_rows: "(\<And>r. r_id (f r) = r_id r) \<Longrightarrow> ids (map_rows f ft) = ids ft"
  by (simp add: ids_def map_rows_def)

lemma ids_map_row: "(\<And>r. r_id (f r) = r_id r) \<Longrightarrow> ids (map_row i f ft) = ids ft"
  by (simp add: map_row_def ids_map_rows)

lemma map_next_ids: "map r_id (map_next i (show_row b) rs) = map r_id rs"
  by (induction i "show_row b" rs rule: map_next.induct) auto

lemma show_with_detail_ids: "show_with_detail now i ft = Inr ft' \<Longrightarrow> ids ft' = ids ft"
proof (cases "find_row i ft")
  case (Some r)
  let ?t = "ft\<lparr>rows := map_next i (show_row True) (rows ft)\<rparr>"
  let ?u = "map_row i (show_row True) ?t"
  assume a: "show_with_detail now i ft = Inr ft'"
  have "ids ?u = ids ?t" by (rule ids_map_row) simp
  also have "ids ?t = ids ft" by (simp add: ids_def map_next_ids)
  finally have u: "ids ?u = ids ft" .
  show ?thesis
  proof (cases "has_class ''breakpoint'' (t_cls ft) \<and> has_class ''footable-detail-show'' (r_cls r) \<and> has_detail_next i ft")
    case True
    then have "has_detail_next i ?t"
      using has_detail_map_next [of i "rows ft" True] by (simp add: has_detail_next_def)
    then have "has_detail_next i ?u" by (simp add: has_detail_map_row)
    then have "view ft' = view ?u" using a Some True createOrUpdate_view by (simp add: show_with_detail_def)
    then have "ids ft' = ids ?u" by (rule ids_view)
    then show ?thesis using u by simp
  qed (use a Some in \<open>auto simp: show_with_detail_def ids_map_row\<close>)
qed (auto simp: show_with_detail_def)

text \<open>Showing a row and taking the mark from it.\<close>

definition unfiltered :: "nat set \<Rightarrow> (nat \<times> classes \<times> bool) list \<Rightarrow> (nat \<times> classes \<times> bool) list" where
  "unfiltered I = map (\<lambda>(j, c, s). if j \<in> I then (j, remove_class ''footable-filtered'' c, True) else (j, c, s))"

lemma unfiltered_simps [simp]:
  "unfiltered {} ps = ps" "unfiltered I (unfiltered J ps) = unfiltered (I \<union> J) ps"
  by (auto simp: unfiltered_def remove_class_def intro!: map_idI)

lemma filter_showRow_plain:
  assumes "filter_showRow now i ft = Inr ft'" and "distinct (ids ft)"
  shows "plain ft' = shown {i} (plain ft) \<and> ids ft' = ids ft"
proof (cases "find_row i ft")
  case None
  then show ?thesis using assms show_with_detail_plain [of now i ft ft']
    by (simp add: filter_showRow_def show_with_detail_def)
next
  case (Some r)
  then have r: "r \<in> set (rows ft)" "r_id r = i" by (auto simp: find_row_def find_Some_iff)
  have same: "s = r" if "s \<in> set (rows ft)" "r_id s = i" for s
    using assms(2) r that by (auto simp: ids_def distinct_map dest: inj_onD)
  show ?thesis
  proof (cases "r_show r \<and> t_visible ft")
    case True
    then have "shown {i} (plain ft) = plain ft"
      by (auto simp: plain_def shown_def row_sig_def dest: same intro!: map_cong)
    then show ?thesis using assms Some True by (simp add: filter_showRow_def)
  next
    case False
    then show ?thesis using assms Some show_with_detail_plain show_with_detail_ids by (auto simp: filter_showRow_def)
  qed
qed

lemma plain_unmark:
  "plain (unmark i ft) = map (\<lambda>(j, c, s). if j = i then (j, remove_class ''footable-filtered'' c, s) else (j, c, s)) (plain ft)"
  unfolding unmark_def map_row_def by (rule plain_map_rows) (auto simp: row_sig_def is_detail_def)

lemma show_filtered_plain:
  "show_filtered now is ft = Inr ft' \<Longrightarrow> distinct (ids ft) \<Longrightarrow> plain ft' = unfiltered (set is) (plain ft)"
proof (induction "is" arbitrary: ft)
  case (Cons i js)
  then obtain t where t: "filter_showRow now i ft = Inr t" "show_filtered now js (unmark i t) = Inr ft'"
    by (auto simp: sbind_Inr_iff)
  have p: "plain t = shown {i} (plain ft)" "ids t = ids ft"
    using filter_showRow_plain [OF t(1) Cons.prems(2)] by simp_all
  then have "plain (unmark i t) = unfiltered {i} (plain ft)"
    by (auto simp: plain_unmark shown_def unfiltered_def)
  moreover have "distinct (ids (unmark i t))" using Cons.prems(2) p(2) by (simp add: unmark_def ids_map_row)
  ultimately show ?case using Cons.IH [OF t(2)] by (simp add: Un_commute)
qed simp

lemma plain_rows: "rows ft = rows ft' \<Longrightarrow> plain ft = plain ft'"
  by (simp add: plain_def)

lemma matching_rows_filter:
  "matching_rows ft s = filter (\<lambda>r. \<not> is_detail r \<and> (\<forall>w \<in> set (filter_words s). filterFunction ft w r)) (rows ft)"
proof -
  have "foldl (\<lambda>rs f. filter (filterFunction ft f) rs) rs ws = filter (\<lambda>r. \<forall>w \<in> set ws. filterFunction ft w r) rs" for rs ws
  proof (induction ws arbitrary: rs)
    case (Cons w ws)
    show ?case by (simp add: Cons conj_commute)
  qed simp
  then show ?thesis by (simp add: matching_rows_def conj_commute)
qed

definition matches :: "table \<Rightarrow> string \<Rightarrow> row \<Rightarrow> bool" where
  "matches ft s r \<longleftrightarrow> list_all (\<lambda>w. filterFunction ft w r) (filter_words s)"

lemma ft_filter_plain:
  assumes "ft_filter allow Inr now s ft = Inr ft'" and "allow (raise ''footable_filtering'' ft)"
    and "filter_minimum ft \<le> of_nat (length s)" and "s \<noteq> []" and "distinct (ids ft)"
  shows "plain ft' = map (\<lambda>r. (r_id r,
       (if matches ft s r then remove_class else add_class) ''footable-filtered'' (r_cls r), matches ft s r))
     (filter (\<lambda>r. \<not> is_detail r) (rows ft))"
proof -
  let ?hide = "\<lambda>r. r\<lparr>r_show := False, r_cls := add_class ''footable-filtered'' (r_cls r)\<rparr>"
  let ?u = "map_rows ?hide (raise ''footable_filtering'' ft)"
  have min: "filter_minimum (raise ''footable_filtering'' ft) = filter_minimum ft"
    by (simp add: filter_minimum_def raise_def)
  obtain t u where t: "show_filtered now (map r_id (matching_rows ?u s)) u = Inr t" "rows u = rows ?u" "plain ft' = plain t"
    using assms(1-4) min
    by (auto simp: ft_filter_def Let_def sbind_Inr_iff plain_def raise_def split: if_splits)
  have "distinct (ids u)" using assms(5) by (simp add: ids_def t(2) map_rows_def raise_def comp_def)
  then have p: "plain ft' = unfiltered (set (map r_id (matching_rows ?u s))) (plain ?u)"
    using show_filtered_plain [OF t(1)] plain_rows [OF t(2)] t(3) by simp
  have f: "filterFunction ?u w (?hide r) = filterFunction ft w r" for w r
    by (simp add: filterFunction_def row_text_def map_rows_def raise_def cong: if_cong)
  have d: "is_detail (?hide r) = is_detail r" for r by (auto simp: is_detail_def)
  have "rows ?u = map ?hide (rows ft)" by (simp add: map_rows_def raise_def)
  then have "matching_rows ?u s = map ?hide (filter (\<lambda>r. \<not> is_detail r \<and> matches ft s r) (rows ft))"
    by (simp only: matching_rows_filter filter_map comp_def f d matches_def list_all_iff)
  then have "set (map r_id (matching_rows ?u s)) = r_id ` {r \<in> set (rows ft). \<not> is_detail r \<and> matches ft s r}"
    by auto
  moreover have "r_id r \<in> r_id ` {r \<in> set (rows ft). \<not> is_detail r \<and> matches ft s r} \<longleftrightarrow> matches ft s r"
    if "r \<in> set (rows ft)" "\<not> is_detail r" for r
    using that assms(5) by (auto simp: ids_def distinct_map dest: inj_onD)
  moreover have "plain ?u = map (row_sig \<circ> ?hide) (filter (\<lambda>r. \<not> is_detail r) (rows ft))"
    by (simp add: plain_def map_rows_def raise_def filter_map comp_def d)
  ultimately show ?thesis
    by (auto simp: p unfiltered_def row_sig_def remove_class_def add_class_def)
qed

end
