(* ===== verification/FtFlow.thy ===== *)
theory FtFlow
  imports FtView
begin

text \<open>
  Paging and filtering of a FooTable together: what filling, paging and filtering keep of a table and which
  rows are shown in the end.
\<close>

section \<open>Paging\<close>

text \<open>A table without its rows and its events.\<close>

definition shell :: "table \<Rightarrow> table" where
  "shell ft = ft\<lparr>rows := [], t_events := []\<rparr>"

lemma shell_rows [simp]: "shell (ft\<lparr>rows := rs\<rparr>) = shell ft"
  by (simp add: shell_def)

lemma shell_simps [simp]:
  "shell (raise e ft) = shell ft" "shell (map_rows f ft) = shell ft" "shell (map_row i f ft) = shell ft"
  "shell (set_cell i j g ft) = shell ft" "shell (set_bound b ns ft) = shell ft"
  by (simp_all add: shell_def raise_def map_rows_def map_row_def set_cell_def set_bound_def)

lemma shell_detail_cells: "detail_cells now i js ft = Inr (vs, ft') \<Longrightarrow> shell ft' = shell ft"
proof (induction js arbitrary: ft vs)
  case (Cons j js)
  have "detail_cell now i j t = Inr (v, t') \<Longrightarrow> shell t' = shell t" for v t t'
    by (auto simp: detail_cell_def Let_def split: option.splits if_splits)
  then show ?case using Cons by (auto simp: sbind_Inr_iff)
qed simp

lemma shell_createOrUpdate: "createOrUpdateDetailRow now i ft = Inr ft' \<Longrightarrow> shell ft' = shell ft"
  by (auto simp: createOrUpdateDetailRow_def sbind_Inr_iff Let_def split: option.splits if_splits
      dest!: shell_detail_cells)

lemma shell_show_with_detail: "show_with_detail now i ft = Inr ft' \<Longrightarrow> shell ft' = shell ft"
  by (auto simp: show_with_detail_def split: option.splits if_splits dest!: shell_createOrUpdate)

lemma shell_show_page: "show_page now is ft = Inr ft' \<Longrightarrow> shell ft' = shell ft"
  by (induction "is" arbitrary: ft) (auto simp: sbind_Inr_iff dest: shell_show_with_detail)

lemma shell_eqD: "shell ft = shell ft' \<Longrightarrow> pageInfo ft = pageInfo ft' \<and> t_nav ft = t_nav ft' \<and> t_cls ft = t_cls ft'"
  by (cases ft; cases ft') (simp add: shell_def)

lemma fillPage_info:
  assumes "fillPage now n ft = Inr ft'"
  shows "pageInfo ft' = (pageInfo ft)\<lparr>pi_current := n\<rparr> \<and> t_nav ft' = t_nav ft"
proof -
  let ?u = "map_rows (show_row False) (ft\<lparr>pageInfo := (pageInfo ft)\<lparr>pi_current := n\<rparr>,
    t_data := AList.update ''currentPage'' (DN (of_int n)) (t_data ft)\<rparr>)"
  have u: "pageInfo ?u = (pageInfo ft)\<lparr>pi_current := n\<rparr>" "t_nav ?u = t_nav ft" by (simp_all add: map_rows_def)
  obtain t where t: "show_page now (page_at ?u n) ?u = Inr t" "ft' = raise ''footable_page_filled'' t"
    using assms by (auto simp only: fillPage_def Let_def sbind_Inr_iff sum.inject)
  show ?thesis using shell_eqD [OF shell_show_page [OF t(1)]] u by (simp add: t(2) raise_def)
qed

lemma setupPaging_cases:
  assumes "setupPaging allow now ft = Inr ft'"
  defines "ps \<equiv> make_pages (pi_size (page_info ft)) (page_rows ft)"
  defines "cur \<equiv> clamp_page (pi_current (page_info ft)) (length ps)"
  shows "pi_pages (pageInfo ft') = ps \<and> pi_current (pageInfo ft') = cur \<and>
    plain ft' = map (\<lambda>(j, c, s). (j, c, ps \<noteq> [] \<and> j \<in> set (ps ! nat cur))) (plain ft)"
proof -
  let ?u = "createNavigation (createPages (ft\<lparr>pageInfo := page_info ft\<rparr>))"
  have pg: "page_rows (ft\<lparr>pageInfo := page_info ft\<rparr>) = page_rows ft" by (simp add: page_rows_def)
  have u: "pi_pages (pageInfo ?u) = ps" "pi_current (pageInfo ?u) = cur" "plain ?u = plain ft"
    by (auto simp: createNavigation_def createPages_def Let_def raise_def pg ps_def cur_def plain_def split: option.split)
  obtain t where t: "paginate allow now cur ?u = Inr t" "fillPage now (pi_current (pageInfo t)) t = Inr ft'"
    using assms(1) u(2) by (auto simp: setupPaging_def Let_def sbind_Inr_iff)
  have p: "pi_pages (pageInfo t) = ps \<and> pi_current (pageInfo t) = cur \<and>
      (plain t = plain ?u \<or> plain t = map (\<lambda>(j, c, s). (j, c, j \<in> set (page_at ?u cur))) (plain ?u))"
  proof (cases "t = ?u \<or> t = raise ''footable_paging'' ?u")
    case True
    then show ?thesis using u plain_view [of "raise ''footable_paging'' ?u" ?u] by (auto simp: raise_def plain_def)
  next
    case False
    then obtain v where v: "fillPage now cur (raise ''footable_paging'' ?u) = Inr v"
      "pageInfo t = pageInfo v" "plain t = plain v"
      using t(1) by (auto simp: paginate_def Let_def sbind_Inr_iff plain_def split: if_splits)
    have "page_at (raise e ?u) n = page_at ?u n" "plain (raise e ?u) = plain ?u" "pageInfo (raise e ?u) = pageInfo ?u" for e n
      by (simp_all add: raise_def page_at_def plain_def)
    then show ?thesis using fillPage_info [OF v(1)] fillPage_plain [OF v(1)] v(2,3) u by simp
  qed
  have cur: "page_at t cur = (if ps = [] then [] else ps ! nat cur)"
    using p by (auto simp: page_at_def page_count_def cur_def clamp_page_def Let_def)
  have "plain ft' = map (\<lambda>(j, c, s). (j, c, j \<in> set (page_at t cur))) (plain ?u)"
    using fillPage_plain [OF t(2)] p by (auto simp: case_prod_unfold)
  moreover have "pageInfo ft' = pageInfo t" using fillPage_info [OF t(2)] p by simp
  ultimately show ?thesis using p u(3) cur by (auto simp: case_prod_unfold)
qed


section \<open>Filtering with paging\<close>

definition same_data :: "table \<Rightarrow> table \<Rightarrow> bool" where
  "same_data ft ft' \<longleftrightarrow> opt_paginate ft = opt_paginate ft' \<and>
     (\<forall>k. k \<noteq> ''current-filter'' \<and> k \<noteq> ''filter-string'' \<longrightarrow> dget (t_data ft) k = dget (t_data ft') k)"

lemma same_data_trans: "same_data a b \<Longrightarrow> same_data b c \<Longrightarrow> same_data a c"
  by (simp add: same_data_def)

lemma same_data_shell: "shell a = shell b \<Longrightarrow> same_data a b"
  by (cases a; cases b) (simp add: shell_def same_data_def)

lemma same_data_page:
  assumes "same_data a b"
  shows "page_info a = page_info b" and "paging_bound a = paging_bound b"
  using assms by (simp_all add: same_data_def page_info_def paging_bound_def Let_def)

lemma shell_filter_showRow: "filter_showRow now i ft = Inr ft' \<Longrightarrow> shell ft' = shell ft"
  by (auto simp: filter_showRow_def split: option.splits if_splits dest: shell_show_with_detail)

lemma shell_show_filtered: "show_filtered now is ft = Inr ft' \<Longrightarrow> shell ft' = shell ft"
  by (induction "is" arbitrary: ft) (auto simp: sbind_Inr_iff unmark_def dest: shell_filter_showRow)

lemma ft_filter_handler:
  assumes "allow (raise ''footable_filtering'' ft)" and "filter_minimum ft \<le> of_nat (length s)" and "s \<noteq> []"
  shows "ft_filter allow h now s ft = sbind (ft_filter allow Inr now s ft) h"
proof -
  have "filter_minimum (raise ''footable_filtering'' ft) = filter_minimum ft"
    by (simp add: filter_minimum_def raise_def)
  then show ?thesis
    using assms by (auto simp: ft_filter_def Let_def sbind_def split: sum.split)
qed

lemma ft_filter_same_data:
  assumes "ft_filter allow Inr now s ft = Inr ft'" and "s \<noteq> []"
  shows "same_data ft' ft"
proof -
  have d: "same_data (t\<lparr>t_data := AList.update k v (t_data t)\<rparr>) t" if "k = ''current-filter'' \<or> k = ''filter-string''" for t k v
    using that by (auto simp: same_data_def dget_simps)
  have r: "same_data (raise e t) t" "same_data (map_rows f t) t" "same_data (map_rows f (raise e t)) t" for e f t
    by (simp_all add: same_data_shell)
  show ?thesis
    using assms
    by (auto simp: ft_filter_def Let_def sbind_Inr_iff r split: if_splits dest!: shell_show_filtered [THEN same_data_shell]
        intro!: same_data_trans [OF r(1)] same_data_trans [OF d] r elim!: same_data_trans)
qed

lemma page_rows_plain: "page_rows ft = map fst (filter (\<lambda>(j, c, s). \<not> has_class ''footable-filtered'' c) (plain ft))"
  by (simp add: page_rows_def plain_def filter_map comp_def row_sig_def conj_commute)

lemma has_class_remove: "\<not> has_class c (remove_class c cs)" and has_class_add: "has_class c (add_class c cs)"
  by (simp_all add: has_class_def remove_class_def add_class_def)

lemma table_filter_plain:
  assumes "table_filter e s ft = Inr ft'" and "paging_bound ft" and "e_filtering e (raise ''footable_filtering'' ft)"
    and "filter_minimum ft \<le> of_nat (length s)" and "s \<noteq> []" and "distinct (ids ft)"
  defines "ps \<equiv> make_pages (pi_size (page_info ft))
    (map r_id (filter (\<lambda>r. \<not> is_detail r \<and> matches ft s r) (rows ft)))"
  shows "pi_pages (pageInfo ft') = ps \<and>
    pi_current (pageInfo ft') = clamp_page (pi_current (page_info ft)) (length ps) \<and>
    map (\<lambda>(j, c, s). (j, s)) (plain ft') =
      map (\<lambda>r. (r_id r, ps \<noteq> [] \<and> r_id r \<in> set (ps ! nat (pi_current (pageInfo ft')))))
        (filter (\<lambda>r. \<not> is_detail r) (rows ft))"
proof -
  obtain t where t: "ft_filter (e_filtering e) Inr (e_now e) s ft = Inr t" "paging_handler e t = Inr ft'"
    using assms(1) ft_filter_handler [of "e_filtering e" ft s "paging_handler e" "e_now e", OF assms(3-5)]
    by (auto simp: table_filter_def sbind_Inr_iff)
  have p: "plain t = map (\<lambda>r. (r_id r,
       (if matches ft s r then remove_class else add_class) ''footable-filtered'' (r_cls r), matches ft s r))
     (filter (\<lambda>r. \<not> is_detail r) (rows ft))"
    using ft_filter_plain [OF t(1) assms(3-6)] .
  have d: "page_info t = page_info ft" "paging_bound t"
    using same_data_page [OF ft_filter_same_data [OF t(1) assms(5)]] assms(2) by simp_all
  have "page_rows t = map r_id (filter (\<lambda>r. \<not> is_detail r \<and> matches ft s r) (rows ft))"
  proof -
    have "map fst (filter (\<lambda>(j, c, s). \<not> has_class ''footable-filtered'' c) (map (\<lambda>r. (r_id r,
       (if matches ft s r then remove_class else add_class) ''footable-filtered'' (r_cls r), matches ft s r))
      (filter (\<lambda>r. \<not> is_detail r) rs))) = map r_id (filter (\<lambda>r. \<not> is_detail r \<and> matches ft s r) rs)" for rs
      by (induction rs) (auto simp: has_class_remove has_class_add)
    then show ?thesis unfolding page_rows_plain p .
  qed
  moreover have "setupPaging (e_paging e) (e_now e) t = Inr ft'" using t(2) d(2) by (simp add: paging_handler_def)
  ultimately show ?thesis
    using setupPaging_cases [of "e_paging e" "e_now e" t ft'] d(1) p by (simp add: ps_def comp_def case_prod_unfold)
qed

section \<open>Going to a page\<close>

lemma paginate_nav:
  assumes "paginate allow now n ft = Inr ft'"
  shows "map_option (map n_page) (t_nav ft') = map_option (map n_page) (t_nav ft)"
proof (cases "ft' = ft \<or> ft' = raise ''footable_paging'' ft")
  case True
  then show ?thesis by (auto simp: raise_def)
next
  case False
  then obtain v where v: "fillPage now n (raise ''footable_paging'' ft) = Inr v"
    "t_nav ft' = map_option (\<lambda>nav. setPagingClasses (map (\<lambda>x. x\<lparr>n_active := False, n_disabled := False\<rparr>) nav)
      (pi_current (pageInfo v)) (page_count (pageInfo v))) (t_nav v)"
    using assms by (auto simp: paginate_def Let_def sbind_Inr_iff split: if_splits)
  have "t_nav v = t_nav ft" using fillPage_info [OF v(1)] by (simp add: raise_def)
  then show ?thesis using v(2) by (cases "t_nav ft") (simp_all add: setPagingClasses_def)
qed

lemma goto_page_nav:
  assumes "goto_page allow now p ft = Inr ft'" and "t_nav ft = Some nav" and "0 \<le> p"
    and "pi_limit (pageInfo ft)" and "pi_current (pageInfo ft) \<noteq> p"
  shows "\<exists>nav'. t_nav ft' = Some nav' \<and>
    map n_page nav' = map n_page (createLimited nav (pageInfo ft) (limit_start (pi_limitNav (pageInfo ft)) p))"
proof -
  let ?u = "with_nav (\<lambda>nav. createLimited nav (pageInfo ft) (limit_start (pi_limitNav (pageInfo ft)) p)) ft"
  have "paginate allow now p ?u = Inr ft'" using assms by (simp add: goto_page_def Let_def)
  from paginate_nav [OF this] show ?thesis using assms(2) by (auto simp: with_nav_def)
qed

text \<open>The page links of a list.\<close>

lemma links_of: "map n_page (filter is_page nav) = filter (\<lambda>p. case p of NPage _ \<Rightarrow> True | _ \<Rightarrow> False) (map n_page nav)"
  by (induction nav) (auto simp: is_page_def)

end
