(* ===== verification/FtOrder.thy ===== *)
theory FtOrder
  imports FtTop
begin

text \<open>
  Lemmas on the order and the structure of a FooTable: sorted rows keep their detail rows, the
  breakpoints and columns of a table, its timer, its page links and the groups of a detail row.
\<close>

section \<open>Sorting\<close>

text \<open>Every detail row is right behind its row.\<close>

fun paired :: "row list \<Rightarrow> bool" where
  "paired [] = True"
| "paired [r] = (\<not> is_detail r)"
| "paired (r # s # rs) = (\<not> is_detail r \<and> (if is_detail s then paired rs else paired (s # rs)))"

lemma sort_rows_paired: "paired rs \<Longrightarrow> concat (map srow_rows (sort_rows col rs)) = rs"
proof (induction rs rule: paired.induct)
  case (3 r s rs)
  then show ?case by (cases "is_detail s") (simp_all add: srow_rows_def)
qed (simp_all add: srow_rows_def)

definition srow_ok :: "coldata \<Rightarrow> srow \<Rightarrow> bool" where
  "srow_ok col x = (case x of (r, d, v) \<Rightarrow>
     \<not> is_detail r \<and> (case d of None \<Rightarrow> True | Some s \<Rightarrow> is_detail s) \<and> v = row_value col r)"

lemma sort_rows_ok: "list_all (srow_ok col) (sort_rows col rs)"
proof (induction rs)
  case (Cons r rs)
  then show ?case by (cases rs) (simp_all add: srow_ok_def)
qed simp

lemma paired_concat: "list_all (srow_ok col) xs \<Longrightarrow> paired (concat (map srow_rows xs))"
proof (induction xs)
  case (Cons x xs)
  obtain r d v where x: "x = (r, d, v)" by (cases x)
  have p: "paired (concat (map srow_rows xs))" using Cons by simp
  have add: "paired (r # zs)" "is_detail s \<Longrightarrow> paired (r # s # zs)"
    if "\<not> is_detail r" "paired zs" for s zs
    using that by (cases zs rule: paired.cases; simp)+
  have ok: "\<not> is_detail r" "\<And>s. d = Some s \<Longrightarrow> is_detail s" using Cons.prems by (auto simp: x srow_ok_def)
  have "concat (map srow_rows (x # xs)) = r # (case d of None \<Rightarrow> [] | Some s \<Rightarrow> [s]) @ concat (map srow_rows xs)"
    by (simp add: x srow_rows_def)
  then show ?case using add [OF ok(1) p] ok(2) by (cases d) simp_all
qed simp

lemma plain_values:
  "list_all (srow_ok col) xs \<Longrightarrow>
     map (row_value col) (filter (\<lambda>r. \<not> is_detail r) (concat (map srow_rows xs))) = map (\<lambda>(r, d, v). v) xs"
  by (induction xs) (auto simp: srow_ok_def srow_rows_def split: option.splits)

lemma mset_concat_map: "mset xs = mset ys \<Longrightarrow> mset (concat (map f xs)) = mset (concat (map f ys))"
proof -
  have "mset (concat (map f zs)) = \<Sum>\<^sub># (image_mset (\<lambda>z. mset (f z)) (mset zs))" for zs
    by (induction zs) simp_all
  then show "mset xs = mset ys \<Longrightarrow> mset (concat (map f xs)) = mset (concat (map f ys))" by simp
qed

lemma sort_table_rows:
  assumes "paired (rows ft)"
  shows "mset (rows (sort_table col ascending ft)) = mset (rows ft) \<and>
    paired (rows (sort_table col ascending ft))"
proof -
  let ?xs = "sort_rows col (rows ft)"
  let ?cmp = "\<lambda>(_, _, a) (_, _, b). if ascending then sorter col a b else sorter col b a"
  have r: "rows (sort_table col ascending ft) = concat (map srow_rows (js_sort ?cmp ?xs))"
    by (simp add: sort_table_def)
  have "list_all (srow_ok col) (js_sort ?cmp ?xs)"
    using sort_rows_ok [of col "rows ft"] by (simp add: list_all_iff)
  then show ?thesis
    using sort_rows_paired [OF assms, of col] mset_concat_map [of "js_sort ?cmp ?xs" ?xs srow_rows] paired_concat
    by (simp add: r)
qed

lemma cmp_orderI:
  assumes "\<And>x y. x \<in> A \<Longrightarrow> y \<in> A \<Longrightarrow> (cmp x y \<le> 0) = P x y"
    and "\<And>x y. x \<in> A \<Longrightarrow> y \<in> A \<Longrightarrow> P x y \<or> P y x"
    and "\<And>x y z. x \<in> A \<Longrightarrow> y \<in> A \<Longrightarrow> z \<in> A \<Longrightarrow> P x y \<Longrightarrow> P y z \<Longrightarrow> P x z"
  shows "cmp_order A cmp"
  unfolding cmp_order_def using assms by (metis (no_types, lifting))

lemma cmp_order_image: "cmp_order (f ` A) cmp \<Longrightarrow> cmp_order A (\<lambda>x y. cmp (f x) (f y))"
  unfolding cmp_order_def by blast

lemma cmp_order_rev: "cmp_order A cmp \<Longrightarrow> cmp_order A (\<lambda>x y. cmp y x)"
  unfolding cmp_order_def by blast

lemma cmp_order_mono: "cmp_order B cmp \<Longrightarrow> A \<subseteq> B \<Longrightarrow> cmp_order A cmp"
  unfolding cmp_order_def by blast

lemma sort_table_values:
  fixes ft col ascending
  defines "vals \<equiv> map (row_value col) (filter (\<lambda>r. \<not> is_detail r) (rows (sort_table col ascending ft)))"
  assumes "cmp_order (set (map (row_value col) (rows ft))) (sorter col)"
  shows "sorted_wrt (\<lambda>a b. (if ascending then sorter col a b else sorter col b a) \<le> 0) vals"
proof -
  let ?xs = "sort_rows col (rows ft)" and ?v = "\<lambda>x :: srow. snd (snd x)"
  let ?c = "\<lambda>a b. if ascending then sorter col a b else sorter col b a"
  let ?cmp = "\<lambda>x y. ?c (?v x) (?v y)"
  have sub: "(r, d, v) \<in> set (sort_rows col rs) \<Longrightarrow> v \<in> row_value col ` set rs" for r d v rs
    by (induction rs) (auto split: if_splits)
  have "cmp_order (set (map (row_value col) (rows ft))) ?c"
    using assms(2) cmp_order_rev by (cases ascending) auto
  then have "cmp_order (?v ` set ?xs) ?c" by (rule cmp_order_mono) (use sub in auto)
  then have "cmp_order (set ?xs) ?cmp" by (rule cmp_order_image)
  then have s: "sorted_wrt (\<lambda>x y. ?cmp x y \<le> 0) (js_sort ?cmp ?xs)" by (rule js_sort_sorted)
  have "list_all (srow_ok col) (js_sort ?cmp ?xs)"
    using sort_rows_ok [of col "rows ft"] by (simp add: list_all_iff)
  moreover have "(\<lambda>(r, d, v). v) = ?v" by auto
  moreover have "rows (sort_table col ascending ft) = concat (map srow_rows (js_sort ?cmp ?xs))"
    by (simp add: sort_table_def case_prod_unfold)
  ultimately have v: "vals = map ?v (js_sort ?cmp ?xs)"
    using plain_values [of col "js_sort ?cmp ?xs"] by (simp add: vals_def)
  show ?thesis unfolding v sorted_wrt_map by (rule s)
qed

lemma sorter_numeric_order:
  assumes "\<forall>a \<in> A. dnum a \<noteq> None"
  shows "cmp_order A sorter_numeric"
proof (rule cmp_orderI [where P = "\<lambda>a b. the (dnum a) \<le> the (dnum b)"])
  fix a b assume "a \<in> A" "b \<in> A"
  then obtain x y where "dnum a = Some x" "dnum b = Some y" using assms by blast
  then show "(sorter_numeric a b \<le> 0) = (the (dnum a) \<le> the (dnum b))" by (auto simp: sorter_numeric_def)
qed auto

definition str_key :: "dval \<Rightarrow> string" where
  "str_key a = (case a of DS s \<Rightarrow> lower s | _ \<Rightarrow> [])"

lemma sorter_alpha_order:
  assumes "\<forall>a \<in> A. \<exists>s. a = DS s"
  shows "cmp_order A sorter_alpha"
proof (rule cmp_orderI [where P = "\<lambda>a b. str_key a = str_key b \<or> str_less (str_key a) (str_key b)"])
  fix a b assume "a \<in> A" "b \<in> A"
  then obtain x y where "a = DS x" "b = DS y" using assms by blast
  then show "(sorter_alpha a b \<le> 0) = (str_key a = str_key b \<or> str_less (str_key a) (str_key b))"
    by (simp add: sorter_alpha_def lower_val_def Let_def str_key_def)
qed (use str_less_linear str_less_trans in \<open>metis+\<close>)

lemma row_value_numeric: "k_type col = DS ''numeric'' \<Longrightarrow> \<exists>n. row_value col r = DN n"
  by (auto simp: row_value_def ft_parse_def parse_numeric_def Let_def split: option.splits)

section \<open>Breakpoints\<close>

lemma current_breakpoint_Some:
  assumes "sorted_wrt (\<lambda>a b. snd a \<le> snd b) bs" and "current_breakpoint w bs = Some b"
  shows "b \<in> set bs \<and> w \<le> snd b \<and> snd b \<noteq> 0 \<and>
    (\<forall>b' \<in> set bs. snd b' \<noteq> 0 \<and> w \<le> snd b' \<longrightarrow> snd b \<le> snd b')"
  using assms by (induction bs) (auto split: if_splits)

lemma current_breakpoint_None:
  "current_breakpoint w bs = None \<longleftrightarrow> (\<forall>b \<in> set bs. snd b = 0 \<or> snd b < w)"
  by (induction bs) auto

lemma sort_breakpoints_sorted: "sorted_wrt (\<lambda>a b. snd a \<le> snd b) (sort_breakpoints brks)"
proof -
  have "cmp_order (set brks) (\<lambda>a b. snd a - snd b :: int)" unfolding cmp_order_def by auto
  then have "sorted_wrt (\<lambda>a b. snd a - snd b \<le> 0) (sort_breakpoints brks)"
    unfolding sort_breakpoints_def by (rule js_sort_sorted)
  then show ?thesis by simp
qed

lemma sort_breakpoints_set: "set (sort_breakpoints brks) = set brks"
  by (simp add: sort_breakpoints_def)

section \<open>Columns\<close>

definition span :: "th \<Rightarrow> nat" where
  "span h = (case over_one (num_attr (h_colspan h)) of None \<Rightarrow> 1 | Some n \<Rightarrow> n)"

lemma over_one_pos: "over_one n = Some k \<Longrightarrow> 1 < k"
  by (auto simp: over_one_def split: option.splits if_splits)

lemma col_matches_span:
  "col_matches h c = Inr (ms, ns) \<Longrightarrow> ms = [c..<c + span h]"
proof -
  have "map (\<lambda>i. i + c) [0..<n] = [c..<c + n]" for n
    by (induction n) (simp_all add: add.commute)
  then show "col_matches h c = Inr (ms, ns) \<Longrightarrow> ms = [c..<c + span h]"
    by (auto simp: col_matches_def span_def Let_def split: option.splits dval.splits)
qed

definition prev_span :: "th option \<Rightarrow> nat" where
  "prev_span p = (case p of None \<Rightarrow> 0 | Some h \<Rightarrow> span h - 1)"

lemma getColumnData_matches:
  assumes "getColumnData f ft prev i h off = Inr (d, off')" and "\<And>h d. k_matches (f h d) = k_matches d"
  shows "off' = off + prev_span prev \<and> k_matches d = [i + off'..<i + off' + span h]"
proof -
  have "(case over_one (num_attr (case prev of None \<Rightarrow> None | Some p \<Rightarrow> h_colspan p)) of None \<Rightarrow> 0 | Some n \<Rightarrow> n - 1)
      = prev_span prev"
    by (auto simp: prev_span_def span_def num_attr_def over_one_def split: option.splits)
  then show ?thesis
    using assms by (auto simp: getColumnData_def sbind_Inr_iff Let_def dest!: col_matches_span)
qed

lemma columns_loop_matches:
  assumes "\<And>h d. k_matches (f h d) = k_matches d"
  shows "columns_loop f ft prev i off hs = Inr cols \<Longrightarrow>
    concat (map k_matches cols) =
      [i + off + prev_span prev..<i + off + prev_span prev + sum_list (map span hs)]"
proof (induction hs arbitrary: prev i off cols)
  case (Cons h hs)
  then obtain d off' ds where d: "getColumnData f ft prev i h off = Inr (d, off')"
    and ds: "columns_loop f ft (Some h) (i + 1) off' hs = Inr ds" "cols = d # ds"
    by (auto simp: sbind_Inr_iff)
  have m: "off' = off + prev_span prev" "k_matches d = [i + off'..<i + off' + span h]"
    using getColumnData_matches [OF d assms] by simp_all
  have "1 \<le> span h" using over_one_pos by (auto simp: span_def split: option.splits dest: over_one_pos)
  then have p: "i + 1 + off' + prev_span (Some h) = i + off' + span h" by (simp add: prev_span_def)
  have "concat (map k_matches ds) = [i + off' + span h..<i + off' + span h + sum_list (map span hs)]"
    using Cons.IH [OF ds(1)] unfolding p .
  moreover have "[i + off'..<i + off' + span h] @ [i + off' + span h..<i + off' + span h + n] =
      [i + off'..<i + off' + (span h + n)]" for n
    by (metis add.assoc le_add1 upt_add_eq_append)
  ultimately show ?case by (simp add: ds(2) m(2)) (simp add: m(1) add.assoc)
qed simp

section \<open>Timers\<close>

text \<open>
  Runs of one timer: calls of the page, and timeouts whose code may call the timer and throw. \<open>may\<close> says which calls a code
  makes while it runs and whether it throws after them.
\<close>

inductive timer_run :: "('c tcall list \<Rightarrow> bool \<Rightarrow> bool) \<Rightarrow> timer \<times> 'c timeouts \<Rightarrow> bool" for may where
  init: "timer_run may (new_timer, \<lparr>next_id = n, pending = []\<rparr>)"
| call: "timer_run may s \<Longrightarrow> timer_run may (timer_call a s)"
| fire: "timer_run may s \<Longrightarrow> may cs throws \<Longrightarrow> timer_run may (timer_fire cs throws i s)"

text \<open>In every state: the identifiers are distinct and old, and the timer is busy while it has one.\<close>

definition timer_ok :: "timer \<times> 'c timeouts \<Rightarrow> bool" where
  "timer_ok = (\<lambda>(t, w). (t_busy t \<longleftrightarrow> t_id t \<noteq> None) \<and> distinct (map fst (pending w)) \<and>
     (\<forall>i\<in>fst ` set (pending w). i < next_id w) \<and> (case t_id t of Some i \<Rightarrow> i < next_id w | None \<Rightarrow> True))"

lemma timer_ok_call: "timer_ok s \<Longrightarrow> timer_ok (timer_call a s)"
  by (cases s; cases a)
    (auto simp: timer_ok_def timer_call_def timer_start_def timer_stop_def setTimeout_def clearTimeout_def Let_def delete_keys
      AList.delete_eq distinct_map_filter split: option.splits if_splits)

lemma timer_ok_calls: "timer_ok s \<Longrightarrow> timer_ok (timer_calls cs s)"
  by (induction cs arbitrary: s) (simp_all add: timer_calls_def timer_ok_call)

lemma timer_ok_clear: "timer_ok (t, w) \<Longrightarrow> timer_ok (t, clearTimeout i w)"
  by (auto simp: timer_ok_def clearTimeout_def AList.delete_eq distinct_map_filter)

lemma timer_ok_fire:
  assumes "timer_ok s"
  shows "timer_ok (timer_fire cs throws i s)"
proof -
  obtain t w where s: "s = (t, w)" by fastforce
  obtain t' w' where c: "timer_calls cs (t, clearTimeout i w) = (t', w')" by fastforce
  have "timer_ok (timer_calls cs (t, clearTimeout i w))" using assms s by (simp add: timer_ok_calls timer_ok_clear)
  then have "timer_ok (t', w')" "timer_ok (\<lparr>t_id = None, t_busy = False\<rparr>, w')" by (simp_all add: c timer_ok_def)
  then show ?thesis using assms by (simp add: timer_fire_def s c split: option.split)
qed

lemma timer_run_ok: "timer_run may s \<Longrightarrow> timer_ok s"
  by (induction s rule: timer_run.induct)
    (auto simp: timer_ok_call timer_ok_fire, simp add: timer_ok_def new_timer_def)

text \<open>When no code stops the timer while it runs, what is pending is the timeout of the timer.\<close>

definition timer_single :: "timer \<times> 'c timeouts \<Rightarrow> bool" where
  "timer_single = (\<lambda>(t, w). pending w = [] \<or> (\<exists>i c. t_id t = Some i \<and> pending w = [(i, c)]))"

lemma busy_calls: "t_busy (fst s) \<Longrightarrow> Tstop \<notin> set cs \<Longrightarrow> timer_calls cs s = s"
proof (induction cs arbitrary: s)
  case (Cons a cs)
  then have "timer_call a s = s" by (cases a; cases s) (auto simp: timer_call_def timer_start_def)
  then show ?case using Cons by (simp add: timer_calls_def)
qed (simp add: timer_calls_def)

lemma timer_single_call: "timer_ok s \<Longrightarrow> timer_single s \<Longrightarrow> timer_single (timer_call a s)"
  by (cases s; cases a)
    (auto simp: timer_ok_def timer_single_def timer_call_def timer_start_def timer_stop_def setTimeout_def clearTimeout_def
      Let_def split: option.splits if_splits)

lemma timer_single_fire:
  assumes "timer_ok s" "timer_single s" "Tstop \<notin> set cs"
  shows "timer_single (timer_fire cs throws i s)"
proof (cases "map_of (pending (snd s)) i")
  case None
  then show ?thesis using assms(2) by (cases s) (simp add: timer_fire_def)
next
  case (Some c)
  then obtain t w where s: "s = (t, w)" "t_id t = Some i" "pending w = [(i, c)]"
    using assms(2) by (cases s) (auto simp: timer_single_def split: if_splits)
  then have "t_busy t" using assms(1) by (simp add: timer_ok_def)
  then have "timer_calls cs (t, clearTimeout i w) = (t, clearTimeout i w)" using busy_calls [OF _ assms(3)] by simp
  then show ?thesis by (simp add: s timer_fire_def timer_single_def clearTimeout_def)
qed

lemma timer_run_single: "timer_run may s \<Longrightarrow> (\<And>cs throws. may cs throws \<Longrightarrow> Tstop \<notin> set cs) \<Longrightarrow> timer_single s"
proof (induction s rule: timer_run.induct)
  case (init n)
  show ?case by (simp add: timer_single_def)
next
  case (call s a)
  then show ?case by (simp add: timer_single_call timer_run_ok)
next
  case (fire s cs throws i)
  then show ?case by (simp add: timer_single_fire timer_run_ok)
qed

text \<open>When no code throws either, the timer is busy only while its timeout is pending.\<close>

lemma timer_run_busy:
  "timer_run may s \<Longrightarrow> (\<And>cs throws. may cs throws \<Longrightarrow> Tstop \<notin> set cs \<and> \<not> throws) \<Longrightarrow>
   t_busy (fst s) \<Longrightarrow> pending (snd s) \<noteq> []"
proof (induction s rule: timer_run.induct)
  case (call s a)
  have "timer_single s" by (rule timer_run_single [OF call.hyps]) (use call.prems in blast)
  then show ?case using call timer_run_ok [OF call.hyps]
    by (cases s; cases a) (auto simp: timer_call_def timer_start_def timer_stop_def setTimeout_def Let_def
        split: option.splits if_splits)
next
  case (fire s cs throws i)
  then have "\<not> throws" by blast
  then show ?case using fire by (cases s) (auto simp: timer_fire_def split: option.splits prod.splits)
qed (simp add: new_timer_def)

text \<open>Stopping and starting again: the new code is pending, beside what the timer does not know.\<close>

lemma timer_restart:
  "timer_ok s \<Longrightarrow> pending (snd (timer_start c (timer_stop s))) =
     filter (\<lambda>(i, _). t_id (fst s) \<noteq> Some i) (pending (snd s)) @ [(next_id (snd s), c)]"
  by (cases s) (auto simp: timer_ok_def timer_start_def timer_stop_def setTimeout_def clearTimeout_def Let_def AList.delete_eq
      case_prod_unfold split: option.splits intro!: filter_cong)

lemma timer_restart_single: "timer_single s \<Longrightarrow> filter (\<lambda>(i, _). t_id (fst s) \<noteq> Some i) (pending (snd s)) = []"
  by (cases s) (auto simp: timer_single_def)

text \<open>A code that stops and starts its own timer loses the new timeout: the timer can be started once more beside it.\<close>

lemma timer_leak:
  "pending (snd (timer_start 9 (timer_fire [Tstop, Tstart 8] False 0 (timer_start 7 (new_timer, \<lparr>next_id = 0, pending = []\<rparr>)))))
     = [(1, 8), (2, 9 :: nat)]"
  by (simp add: timer_start_def timer_stop_def timer_fire_def timer_calls_def timer_call_def setTimeout_def clearTimeout_def
      new_timer_def)

text \<open>A code that throws leaves its timer busy, so that it does not start until it is stopped.\<close>

lemma timer_stuck:
  "timer_start 9 (timer_fire [] True 0 (timer_start 7 (new_timer, \<lparr>next_id = 0, pending = []\<rparr>))) =
     (\<lparr>t_id = Some 0, t_busy = True\<rparr>, \<lparr>next_id = 1, pending = [] :: (nat \<times> nat) list\<rparr>)"
  by (simp add: timer_start_def timer_stop_def timer_fire_def timer_calls_def setTimeout_def clearTimeout_def new_timer_def)

section \<open>Page links\<close>

lemma limit_start_div: "0 < limit \<Longrightarrow> 0 \<le> p \<Longrightarrow> limit_start limit p = p div limit * limit"
proof (induction limit p rule: limit_start.induct)
  case (1 limit p)
  show ?case
  proof (cases "p mod limit = 0")
    case True
    then show ?thesis using 1 by (simp add: limit_start.simps) (metis True mult.commute mod_0_imp_dvd dvd_mult_div_cancel)
  next
    case False
    then have "p \<noteq> 0" by auto
    then have pos: "0 \<le> p - 1" "\<not> p \<le> 0" using 1 by auto
    have "0 < p mod limit" "p mod limit < limit" using False 1(2) pos_mod_sign [of limit p] pos_mod_bound [of limit p] by linarith+
    then have "(p - 1) div limit = p div limit"
      by (intro int_div_pos_eq [where r = "p mod limit - 1"]) (auto simp: algebra_simps)
    then show ?thesis using 1 False pos by (simp add: limit_start.simps [of limit p])
  qed
qed

lemma limited_pages_current:
  assumes "0 < pi_limitNav info" and "p < length (pi_pages info)" and "pi_pages info ! p \<noteq> []"
  shows "p \<in> set (limited_pages info (limit_start (pi_limitNav info) (int p)))"
proof -
  let ?L = "pi_limitNav info"
  have "int p = int p div ?L * ?L + int p mod ?L" by simp
  moreover have "0 \<le> int p mod ?L" "int p mod ?L < ?L" using assms(1) by simp_all
  ultimately have "int p div ?L * ?L \<le> int p" "int p < int p div ?L * ?L + ?L" by linarith+
  then show ?thesis using assms by (simp add: limited_pages_def limit_start_div)
qed

lemma limited_pages_length: "0 \<le> pi_limitNav info \<Longrightarrow> int (length (limited_pages info first)) \<le> pi_limitNav info"
proof -
  assume "0 \<le> pi_limitNav info"
  have "int ` set (limited_pages info first) \<subseteq> {first..<first + pi_limitNav info}"
    by (auto simp: limited_pages_def)
  then have "card (int ` set (limited_pages info first)) \<le> card {first..<first + pi_limitNav info}"
    by (rule card_mono [rotated]) simp
  moreover have "card (int ` set (limited_pages info first)) = length (limited_pages info first)"
  proof -
    have "distinct (limited_pages info first)" by (simp add: limited_pages_def)
    then show ?thesis by (simp add: card_image distinct_card)
  qed
  ultimately show ?thesis using \<open>0 \<le> pi_limitNav info\<close> by simp
qed

lemma insert_pages_links:
  "NLimitPrev \<in> n_page ` set nav \<Longrightarrow> filter is_page nav = [] \<Longrightarrow>
   map n_page (filter is_page (insert_pages is nav)) = map NPage is"
proof (induction "is" nav rule: insert_pages.induct)
  case (2 "is" x xs)
  have "filter is_page (map (\<lambda>i. mk_nav (NPage i)) is) = map (\<lambda>i. mk_nav (NPage i)) is"
    by (simp add: filter_id_conv is_page_def mk_nav_def)
  then show ?case using 2 by (auto simp: is_page_def mk_nav_def comp_def split: if_splits)
qed simp

text \<open>The page links of a limited list are those of its pages: the old ones are gone.\<close>

lemma createLimited_links:
  assumes "NLimitPrev \<in> n_page ` set nav"
  shows "map n_page (filter is_page (createLimited nav info first)) = map NPage (limited_pages info first)"
proof -
  let ?f = "\<lambda>x. if n_page x = NLimitPrev then x\<lparr>n_show := first \<noteq> 0\<rparr>
    else if n_page x = NLimitNext then x\<lparr>n_show := \<not> (first + pi_limitNav info \<ge> int (length (pi_pages info)))\<rparr> else x"
  have "filter is_page (map ?f xs) = map ?f (filter is_page xs)" for xs
    by (induction xs) (auto simp: is_page_def split: npage.splits)
  moreover have cong: "map n_page (map ?f xs) = map n_page xs" for xs by simp
  moreover have "NLimitPrev \<in> n_page ` set (filter (\<lambda>x. \<not> is_page x) nav)"
    using assms by (auto simp: image_iff is_page_def)
  then have "map n_page (filter is_page (insert_pages (limited_pages info first) (filter (\<lambda>x. \<not> is_page x) nav))) =
      map NPage (limited_pages info first)"
    by (intro insert_pages_links) (simp_all add: filter_empty_conv)
  ultimately show ?thesis by (simp only: createLimited_def) (simp only: cong)
qed

section \<open>Groups\<close>

definition group_key :: "gitem \<Rightarrow> string" where
  "group_key d = (if g_group d = DU then ''_none'' else dstr (g_group d))"

definition groups_of :: "gitem list \<Rightarrow> groups \<Rightarrow> bool" where
  "groups_of data gs \<longleftrightarrow> distinct (map fst gs) \<and> ''_none'' \<in> fst ` set gs \<and> group_key ` set data \<subseteq> fst ` set gs \<and>
     list_all (\<lambda>(k, nm, ds). ds = filter (\<lambda>d. group_key d = k) data) gs"

lemma push_group_of:
  assumes "groups_of data gs" and "group_key d \<in> fst ` set gs"
  shows "groups_of (data @ [d]) (push_group (group_key d) d gs)"
proof -
  let ?k = "group_key d"
  obtain nm ds where m: "map_of gs ?k = Some (nm, ds)"
    using assms(2) by (cases "map_of gs ?k") (auto simp: map_of_eq_None_iff)
  have dist: "distinct (map fst gs)" using assms(1) by (simp add: groups_of_def)
  have p: "push_group ?k d gs = AList.update ?k (nm, ds @ [d]) gs" by (simp add: push_group_def m)
  have keys: "fst ` set (AList.update ?k v gs) = fst ` set gs" for v
  proof -
    have "map fst (AList.update ?k v gs) = map fst gs" using assms(2) by (simp add: update_keys)
    then have "set (map fst (AList.update ?k v gs)) = set (map fst gs)" by (rule arg_cong)
    then show ?thesis by simp
  qed
  have "list_all (\<lambda>(k, nm, ds). ds = filter (\<lambda>d. group_key d = k) (data @ [d])) (AList.update ?k (nm, ds @ [d]) gs)"
  proof -
    have "xs = filter (\<lambda>d. group_key d = k) (data @ [d])" if "(k, n, xs) \<in> set (AList.update ?k (nm, ds @ [d]) gs)" for k n xs
    proof -
      have "distinct (map fst (AList.update ?k (nm, ds @ [d]) gs))" using dist by (rule distinct_update)
      then have "map_of (AList.update ?k (nm, ds @ [d]) gs) k = Some (n, xs)" using that by simp
      then show ?thesis
      proof (cases "k = ?k")
        case True
        then have "xs = ds @ [d]" using \<open>map_of _ k = Some (n, xs)\<close> by (simp add: update_conv)
        moreover have "ds = filter (\<lambda>d. group_key d = ?k) data"
          using assms(1) map_of_SomeD [OF m] by (auto simp: groups_of_def list_all_iff)
        ultimately show ?thesis by (simp add: True)
      next
        case False
        then have "(k, n, xs) \<in> set gs" using \<open>map_of _ k = Some (n, xs)\<close> by (auto simp: update_conv dest: map_of_SomeD)
        then show ?thesis using assms(1) False by (auto simp: groups_of_def list_all_iff)
      qed
    qed
    then show ?thesis by (auto simp: list_all_iff)
  qed
  then show ?thesis
    using assms dist by (simp add: groups_of_def p keys distinct_update)
qed

lemma group_item_of:
  assumes "groups_of data gs" and "group_item gs d = Inr gs'"
  shows "groups_of (data @ [d]) gs'"
proof (cases "group_key d \<in> fst ` set gs")
  case True
  then have "gs' = push_group (group_key d) d gs"
    using assms by (auto simp: group_item_def group_key_def Let_def dom_map_of_conv_image_fst split: if_splits)
  then show ?thesis using push_group_of [OF assms(1) True] by simp
next
  case False
  let ?e = "(group_key d, dor (g_groupName d) (g_group d), [])"
  have "''_none'' \<in> fst ` set gs" using assms(1) by (simp add: groups_of_def)
  then have "g_group d \<noteq> DU" using False by (metis group_key_def)
  then have gs': "gs' = push_group (group_key d) d (gs @ [?e])"
    using assms False by (auto simp: group_item_def group_key_def Let_def dom_map_of_conv_image_fst split: if_splits)
  have "filter (\<lambda>x. group_key x = group_key d) data = []"
  proof -
    have "group_key ` set data \<subseteq> fst ` set gs" using assms(1) by (simp add: groups_of_def)
    then show ?thesis using False by (force simp: filter_empty_conv)
  qed
  then have "groups_of data (gs @ [?e])" using False assms(1) by (auto simp: groups_of_def)
  then show ?thesis using push_group_of [of data "gs @ [?e]" d] gs' by simp
qed

lemma group_items_of:
  "groups_of data gs \<Longrightarrow> group_items ds gs = Inr gs' \<Longrightarrow> groups_of (data @ ds) gs'"
proof (induction ds arbitrary: data gs)
  case (Cons d ds)
  then obtain t where t: "group_item gs d = Inr t" "group_items ds t = Inr gs'" by (auto simp: sbind_Inr_iff)
  show ?case using Cons.IH [OF group_item_of [OF Cons.prems(1) t(1)] t(2)] by simp
qed simp

lemma groups_of_empty: "groups_of [] [(''_none'', DU, [])]"
  by (simp add: groups_of_def)

lemma createGroupedDetail_of: "createGroupedDetail data = Inr gs \<Longrightarrow> groups_of data gs"
  using group_items_of [OF groups_of_empty, of data] by (simp add: createGroupedDetail_def)

text \<open>The only failure.\<close>

lemma group_items_err:
  "group_items data gs = Inl e \<Longrightarrow> e = TypeErr \<and> list_ex (\<lambda>d. group_key d \<in> set object_proto) data"
proof (induction data arbitrary: gs)
  case (Cons d data)
  show ?case
  proof (cases "group_item gs d")
    case (Inl e')
    then show ?thesis using Cons.prems by (auto simp: group_item_def group_key_def Let_def sbind_def split: if_splits)
  next
    case (Inr t)
    then show ?thesis using Cons by (auto simp: sbind_def)
  qed
qed simp

end
