(* ===== verification/FtProps.thy ===== *)
theory FtProps
  imports FtFlow FtOrder
begin

text \<open>
  Properties of FooTable: paging, filtering, sorting, breakpoints, columns, details and timers.
\<close>

section \<open>Pages and filters\<close>

text \<open>C14: The loop that makes the pages, which counts rows and compares with the size of a page in two
  conditions, cuts the rows into consecutive chunks of the size of a page; only the last may be shorter.\<close>

theorem make_pages_are_chunks:
  assumes "0 < k"
  shows "make_pages (of_nat k) is = chunks k is \<and> concat (make_pages (of_nat k) is) = is \<and>
    list_all (\<lambda>p. length p = k) (butlast (make_pages (of_nat k) is))"
  using make_pages_chunks [OF assms, of "is"] concat_chunks [of k "is"] chunks_butlast [OF assms, of _ "is"]
  by (simp add: list_all_iff)

theorem make_pages_are_chunks_witness:
  "make_pages 2 [4, 7, 1, 9, 3] = chunks 2 [4, 7, 1, 9, 3] \<and> concat (make_pages 2 [4, 7, 1, 9, 3]) = [4, 7, 1, 9, 3]"
  using make_pages_are_chunks [of 2 "[4, 7, 1, 9, 3]"] by simp

text \<open>C13: Searching in a table that has pages: after the filter and the paging that it triggers, the pages
  consist of the rows that contain all words of the text, the current page is a page that exists, and the
  rows shown are those of this page.\<close>

theorem table_filter_shows_page:
  assumes "table_filter e s ft = Inr ft'" and "paging_bound ft"
    and "e_filtering e (raise ''footable_filtering'' ft)" and "filter_minimum ft \<le> of_nat (length s)"
    and "s \<noteq> []" and "distinct (ids ft)"
  shows "let ps = make_pages (pi_size (page_info ft))
      (map r_id (filter (\<lambda>r. \<not> is_detail r \<and> matches ft s r) (rows ft))); cur = pi_current (pageInfo ft')
    in pi_pages (pageInfo ft') = ps \<and> cur = clamp_page (pi_current (page_info ft)) (length ps) \<and>
      map (\<lambda>(j, c, s). (j, s)) (plain ft') =
        map (\<lambda>r. (r_id r, ps \<noteq> [] \<and> r_id r \<in> set (ps ! nat cur))) (filter (\<lambda>r. \<not> is_detail r) (rows ft))"
  using table_filter_plain [OF assms] by (simp add: Let_def)

definition sample_cell :: "string \<Rightarrow> cell" where
  "sample_cell s = \<lparr>c_body = [Tx s], c_data = [], c_bind = None, c_show = True, c_cls = [], c_toggle = False\<rparr>"

definition sample_row :: "nat \<Rightarrow> string list \<Rightarrow> row" where
  "sample_row i ss = \<lparr>r_id = i, r_cls = [], r_show = True, r_cells = map sample_cell ss, r_created = None,
     r_bound = False, r_colspan = 0, r_items = []\<rparr>"

definition sample_table :: table where
  "sample_table = \<lparr>t_cls = [], t_data = [(''pageSize'', DN 1)], t_info = None, t_visible = True, t_width = 400,
     t_parent_width = 1000, viewport_width = 1000, ths = [], t_groups = None,
     rows = [sample_row 1 [''bob''], sample_row 2 [''al''], sample_row 3 [''boa'']], columns = [],
     opt_breakpoints = [], breakpoints = [], breakpointNames = [], opt_addRowToggle = True, opt_sort = True,
     opt_filter = True, opt_paginate = True,
     pageInfo = \<lparr>pi_size = 1, pi_limitNav = 0, pi_limit = False, pi_current = 0, pi_pages = [], pi_control = False,
       pi_manual = False\<rparr>,
     t_nav = Some [], t_input = [], t_events = []\<rparr>"

definition sample_env :: page_env where
  "sample_env = \<lparr>e_sorting = (\<lambda>_. True), e_filtering = (\<lambda>_. True), e_paging = (\<lambda>_. True), e_now = 5\<rparr>"

theorem table_filter_shows_page_witness:
  "(case table_filter sample_env ''bo'' sample_table of
      Inl _ \<Rightarrow> False
    | Inr ft' \<Rightarrow> map (\<lambda>(j, c, s). (j, s)) (plain ft') = [(1, True), (2, False), (3, False)])"
proof -
  have "case table_filter sample_env ''bo'' sample_table of Inl _ \<Rightarrow> False | Inr _ \<Rightarrow> True" by code_simp
  then obtain ft' where r: "table_filter sample_env ''bo'' sample_table = Inr ft'" by (auto split: sum.splits)
  have h: "paging_bound sample_table" "e_filtering sample_env (raise ''footable_filtering'' sample_table)"
    "filter_minimum sample_table \<le> of_nat (length ''bo'')" "distinct (ids sample_table)" by code_simp+
  have p: "make_pages (pi_size (page_info sample_table))
      (map r_id (filter (\<lambda>r. \<not> is_detail r \<and> matches sample_table ''bo'' r) (rows sample_table))) = [[1], [3]]"
    "clamp_page (pi_current (page_info sample_table)) (length [[1 :: nat], [3]]) = 0"
    "map r_id (filter (\<lambda>r. \<not> is_detail r) (rows sample_table)) = [1, 2, 3]" by code_simp+
  have "map (\<lambda>(j, c, s). (j, s)) (plain ft') =
      map (\<lambda>i. (i, i = 1)) (map r_id (filter (\<lambda>r. \<not> is_detail r) (rows sample_table)))"
    using table_filter_shows_page [OF r h(1) h(2) h(3) _ h(4)] unfolding p(1) Let_def
    by (simp only: p(2)) simp
  then show ?thesis using r p(3) by simp
qed

text \<open>C21: Without an element for the page links, paging a table none of whose rows is visible or in a page
  throws: \<open>info.control\<close> is \<open>false\<close> then and has no \<open>find\<close>. A search without results gets there.\<close>

theorem setupPaging_without_links:
  assumes "t_nav ft = None" and "page_rows ft = []" and "\<not> list_ex (\<lambda>r. r_show r \<and> t_visible ft) (rows ft)"
    and "\<And>t. allow t"
  shows "setupPaging allow now ft = Inl TypeErr"
proof -
  let ?u = "createNavigation (createPages (ft\<lparr>pageInfo := page_info ft\<rparr>))"
  have u: "rows ?u = rows ft" "t_visible ?u = t_visible ft" "\<not> pi_control (pageInfo ?u)" "pi_pages (pageInfo ?u) = []"
    using assms(1,2) by (simp_all add: createNavigation_def createPages_def Let_def raise_def page_rows_def make_pages_def
        page_info_def)
  have "page_at (map_rows f (raise e ?u\<lparr>pageInfo := (pageInfo (raise e ?u))\<lparr>pi_current := n\<rparr>, t_data := d\<rparr>)) n = []" for e f n d
    using u(4) by (auto simp: page_at_def page_count_def raise_def map_rows_def)
  then obtain t where t: "fillPage now (pi_current (pageInfo ?u)) (raise ''footable_paging'' ?u) = Inr t"
    by (simp add: fillPage_def Let_def)
  then have "\<not> pi_control (pageInfo t)" using fillPage_info [OF t] u(3) by (simp add: raise_def)
  then have "paginate allow now (pi_current (pageInfo ?u)) ?u = Inl TypeErr"
    using assms(3,4) u(1,2) t by (simp add: paginate_def Let_def)
  then show ?thesis by (simp add: setupPaging_def Let_def)
qed

theorem setupPaging_without_links_witness:
  "setupPaging (\<lambda>_. True) 5 (sample_table\<lparr>t_nav := None, rows := []\<rparr>) = Inl TypeErr"
  by (rule setupPaging_without_links) (simp_all add: page_rows_def)

text \<open>C20: With limited page links, going to another page leaves a list whose page links are those of one stretch of
  pages: the link of the page itself is among them, none occurs twice, and there are at most as many as the limit.\<close>

theorem limited_links_have_page:
  assumes "goto_page allow now (int p) ft = Inr ft'" and "t_nav ft = Some nav" and "NLimitPrev \<in> n_page ` set nav"
    and "pi_limit (pageInfo ft)" and "0 < pi_limitNav (pageInfo ft)" and "pi_current (pageInfo ft) \<noteq> int p"
    and "p < length (pi_pages (pageInfo ft))" and "pi_pages (pageInfo ft) ! p \<noteq> []"
  shows "\<exists>nav'. t_nav ft' = Some nav' \<and> (let links = map n_page (filter is_page nav') in
    NPage p \<in> set links \<and> int (length links) \<le> pi_limitNav (pageInfo ft) \<and> distinct links)"
proof -
  let ?i = "pageInfo ft" and ?start = "limit_start (pi_limitNav (pageInfo ft)) (int p)"
  obtain nav' where n: "t_nav ft' = Some nav'" "map n_page nav' = map n_page (createLimited nav ?i ?start)"
    using goto_page_nav [OF assms(1,2) _ assms(4,6)] by auto
  have l: "map n_page (filter is_page nav') = map NPage (limited_pages ?i ?start)"
    using createLimited_links [OF assms(3), of ?i ?start] by (simp only: links_of n(2))
  have "distinct (limited_pages ?i ?start)" by (simp add: limited_pages_def)
  then have "distinct (map NPage (limited_pages ?i ?start))" by (simp add: distinct_map inj_on_def)
  then show ?thesis
    using limited_pages_current [OF assms(5,7,8)] limited_pages_length [of ?i ?start] assms(5) n(1)
    by (intro exI [of _ nav']) (simp only: l Let_def, simp)
qed

definition paged_table :: table where
  "paged_table = sample_table\<lparr>pageInfo := \<lparr>pi_size = 1, pi_limitNav = 2, pi_limit = True, pi_current = 0,
     pi_pages = [[1], [2], [3]], pi_control = True, pi_manual = False\<rparr>,
     t_nav := Some [mk_nav NFirst, mk_nav NPrev, mk_nav NLimitPrev, mk_nav (NPage 0), mk_nav (NPage 1), mk_nav NLimitNext,
       mk_nav NNext, mk_nav NLast]\<rparr>"

theorem limited_links_have_page_witness:
  "(case goto_page (\<lambda>_. True) 5 2 paged_table of
      Inl _ \<Rightarrow> False | Inr ft' \<Rightarrow> \<exists>nav'. t_nav ft' = Some nav' \<and> NPage 2 \<in> set (map n_page (filter is_page nav')))"
proof -
  have "case goto_page (\<lambda>_. True) 5 2 paged_table of Inl _ \<Rightarrow> False | Inr _ \<Rightarrow> True" by code_simp
  then obtain ft' where r: "goto_page (\<lambda>_. True) 5 (int 2) paged_table = Inr ft'" by (auto split: sum.splits)
  have h: "NLimitPrev \<in> n_page ` set [mk_nav NFirst, mk_nav NPrev, mk_nav NLimitPrev, mk_nav (NPage 0), mk_nav (NPage 1),
      mk_nav NLimitNext, mk_nav NNext, mk_nav NLast]" by (simp add: mk_nav_def)
  show ?thesis
    using limited_links_have_page [OF r _ h] r by (simp add: paged_table_def Let_def) blast
qed

section \<open>Sorting\<close>

text \<open>C15: Sorting by a numeric column, in either direction, keeps all rows, leaves every detail row behind its
  own row, and puts the values of the column in order.\<close>

theorem sort_table_numeric:
  assumes "paired (rows ft)" and "k_type col = DS ''numeric''"
  shows "let rs = rows (sort_table col ascending ft) in mset rs = mset (rows ft) \<and> paired rs \<and>
    sorted_wrt (\<lambda>a b. if ascending then a \<le> b else b \<le> a)
      (map (\<lambda>r. the (dnum (row_value col r))) (filter (\<lambda>r. \<not> is_detail r) rs))"
proof -
  have num: "\<exists>n. row_value col r = DN n" for r by (rule row_value_numeric [OF assms(2)])
  have "dnum (row_value col r) \<noteq> None" for r using num [of r] by auto
  then have "cmp_order (set (map (row_value col) (rows ft))) sorter_numeric"
    by (intro sorter_numeric_order) auto
  then have "cmp_order (set (map (row_value col) (rows ft))) (sorter col)" by (simp add: sorter_def assms(2))
  from sort_table_values [OF this, of ascending]
  have "sorted_wrt (\<lambda>a b. (if ascending then sorter_numeric a b else sorter_numeric b a) \<le> 0)
      (map (row_value col) (filter (\<lambda>r. \<not> is_detail r) (rows (sort_table col ascending ft))))"
    by (cases ascending) (simp_all add: sorter_def assms(2))
  moreover have "sorter_numeric (row_value col r) (row_value col s) \<le> 0 \<longleftrightarrow>
      the (dnum (row_value col r)) \<le> the (dnum (row_value col s))" for r s
    using num [of r] num [of s] by (auto simp: sorter_numeric_def split: if_splits)
  ultimately show ?thesis
    using sort_table_rows [OF assms(1), of col ascending]
    by (cases ascending) (simp_all add: Let_def sorted_wrt_map)
qed

definition amount_column :: coldata where
  "amount_column = \<lparr>k_index = 0, k_hide = [], k_type = DS ''numeric'', k_name = DU, k_ignore = DU, k_toggle = DU,
     k_className = DU, k_matches = [0], k_names = [], k_group = DU, k_groupName = DU, k_isEditable = DU,
     k_hasBreakpoint = False,
     k_sort = \<lparr>s_initial = DU, s_ignore = DU, s_selector = DU, s_match = Some 0\<rparr>\<rparr>"

theorem sort_table_numeric_witness:
  "mset (rows (sort_table amount_column True (sample_table\<lparr>rows := [sample_row 1 [''12.5 PRO''], sample_row 2 [''3'']]\<rparr>))) =
   {#sample_row 1 [''12.5 PRO''], sample_row 2 [''3'']#}"
proof -
  have "paired (rows (sample_table\<lparr>rows := [sample_row 1 [''12.5 PRO''], sample_row 2 [''3'']]\<rparr>))" by code_simp
  from sort_table_numeric [OF this, of amount_column True] show ?thesis by (simp add: amount_column_def Let_def)
qed

section \<open>Structure of a table\<close>

text \<open>C19: The breakpoint that is chosen for a width is the smallest one that the table fits in; none is
  chosen only if the table is wider than all of them.\<close>

theorem breakpoint_chosen:
  "case current_breakpoint w (sort_breakpoints brks) of
     None \<Rightarrow> list_all (\<lambda>b. snd b = 0 \<or> snd b < w) brks
   | Some b \<Rightarrow> b \<in> set brks \<and> w \<le> snd b \<and> list_all (\<lambda>b'. snd b' = 0 \<or> snd b' < w \<or> snd b \<le> snd b') brks"
proof (cases "current_breakpoint w (sort_breakpoints brks)")
  case None
  then show ?thesis using current_breakpoint_None [of w "sort_breakpoints brks"]
    by (simp add: sort_breakpoints_set list_all_iff)
next
  case (Some b)
  from current_breakpoint_Some [OF sort_breakpoints_sorted this] show ?thesis
    using Some by (auto simp: sort_breakpoints_set list_all_iff not_le)
qed

text \<open>C18: The columns of a table, with their spans, cover its cells: the cells that belong to the columns are
  consecutive from the first one on, and no cell belongs to two columns.\<close>

theorem columns_cover_cells:
  assumes "columns_loop (on_column_data srt) ft None 0 0 hs = Inr cols"
  shows "concat (map k_matches cols) = [0..<sum_list (map span hs)]"
proof -
  have "k_matches (on_column_data srt h d) = k_matches d" for h d
    by (simp add: on_column_data_def sort_column_data_def Let_def)
  from columns_loop_matches [OF this assms] show ?thesis by (simp add: prev_span_def)
qed

theorem columns_cover_cells_witness:
  "case columns_loop (on_column_data True) sample_table None 0 0
     [\<lparr>h_text = ''Name'', h_data = [], h_colspan = Some ''2'', h_cls = [], h_show = True\<rparr>,
      \<lparr>h_text = ''Amount'', h_data = [], h_colspan = None, h_cls = [], h_show = True\<rparr>] of
   Inl _ \<Rightarrow> False | Inr cols \<Rightarrow> concat (map k_matches cols) = [0, 1, 2]"
proof -
  let ?hs = "[\<lparr>h_text = ''Name'', h_data = [], h_colspan = Some ''2'', h_cls = [], h_show = True\<rparr>,
      \<lparr>h_text = ''Amount'', h_data = [], h_colspan = None, h_cls = [], h_show = True\<rparr>]"
  have "case columns_loop (on_column_data True) sample_table None 0 0 ?hs of Inl _ \<Rightarrow> False | Inr _ \<Rightarrow> True"
    by code_simp
  then obtain cols where r: "columns_loop (on_column_data True) sample_table None 0 0 ?hs = Inr cols"
    by (auto split: sum.splits)
  have "[0..<sum_list (map span ?hs)] = [0, 1, 2]" by code_simp
  then show ?thesis using r columns_cover_cells [OF r] by simp
qed

text \<open>C16: The items of a detail row are divided among its groups: each group holds the items that name it, in
  their order, every item is in a group, and items without a group are in \<open>_none\<close>. It fails only for a group
  that is named like a property which objects inherit.\<close>

theorem createGroupedDetail_partition:
  "case createGroupedDetail data of
     Inr gs \<Rightarrow> distinct (map fst gs) \<and> group_key ` set data \<subseteq> fst ` set gs \<and>
       list_all (\<lambda>(k, nm, ds). ds = filter (\<lambda>d. group_key d = k) data) gs
   | Inl e \<Rightarrow> e = TypeErr \<and> list_ex (\<lambda>d. group_key d \<in> set object_proto) data"
proof (cases "createGroupedDetail data")
  case (Inl e)
  then show ?thesis using group_items_err by (simp add: createGroupedDetail_def)
next
  case (Inr gs)
  then show ?thesis using createGroupedDetail_of [OF Inr] by (simp add: groups_of_def)
qed

section \<open>Timers\<close>

text \<open>C17: However the timer is started and stopped, by the page or by a code that it runs, and whatever codes throw, it is
  busy exactly while it has an identifier and no two timeouts have the same; stopping and starting it makes the new code
  pending. If no code stops the timer while it runs, one timeout at most is pending, the timer is busy then, and
  restarting leaves only the new code; if no code throws either, it is not busy otherwise.\<close>

theorem timer_single_timeout:
  assumes "timer_run may s"
  shows "(t_busy (fst s) \<longleftrightarrow> t_id (fst s) \<noteq> None) \<and> distinct (map fst (pending (snd s))) \<and>
    (next_id (snd s), c) \<in> set (pending (snd (timer_start c (timer_stop s)))) \<and>
    ((\<forall>cs throws. may cs throws \<longrightarrow> Tstop \<notin> set cs) \<longrightarrow>
      length (pending (snd s)) \<le> 1 \<and> (pending (snd s) \<noteq> [] \<longrightarrow> t_busy (fst s)) \<and>
      pending (snd (timer_start c (timer_stop s))) = [(next_id (snd s), c)]) \<and>
    ((\<forall>cs throws. may cs throws \<longrightarrow> Tstop \<notin> set cs \<and> \<not> throws) \<longrightarrow> (t_busy (fst s) \<longleftrightarrow> pending (snd s) \<noteq> []))"
proof -
  have ok: "timer_ok s" by (rule timer_run_ok [OF assms])
  note restart = timer_restart [OF ok, of c]
  have basic: "(t_busy (fst s) \<longleftrightarrow> t_id (fst s) \<noteq> None) \<and> distinct (map fst (pending (snd s)))"
    using ok by (auto simp: timer_ok_def split: prod.splits)
  have new: "(next_id (snd s), c) \<in> set (pending (snd (timer_start c (timer_stop s))))" by (simp only: restart) simp
  have single: "length (pending (snd s)) \<le> 1 \<and> (pending (snd s) \<noteq> [] \<longrightarrow> t_busy (fst s)) \<and>
      pending (snd (timer_start c (timer_stop s))) = [(next_id (snd s), c)]"
    if "\<forall>cs throws. may cs throws \<longrightarrow> Tstop \<notin> set cs"
  proof -
    have "timer_single s" using timer_run_single [OF assms] that by blast
    then show ?thesis using ok timer_restart_single [of s] unfolding restart
      by (auto simp: timer_ok_def timer_single_def split: prod.splits)
  qed
  have busy: "t_busy (fst s) \<longleftrightarrow> pending (snd s) \<noteq> []"
    if "\<forall>cs throws. may cs throws \<longrightarrow> Tstop \<notin> set cs \<and> \<not> throws"
    using timer_run_busy [OF assms] that single by blast
  show ?thesis using basic new single busy by blast
qed

theorem timer_single_timeout_witness:
  "pending (snd (timer_start (7 :: nat) (timer_stop
     (timer_fire [Tstart 4] True 0 (timer_call (Tstart 3) (new_timer, \<lparr>next_id = 0, pending = []\<rparr>)))))) = [(1, 7)]"
proof -
  let ?may = "\<lambda>(cs :: nat tcall list) throws. Tstop \<notin> set cs"
  let ?s = "timer_fire [Tstart (4 :: nat)] True 0 (timer_call (Tstart 3) (new_timer, \<lparr>next_id = 0, pending = []\<rparr>))"
  have r: "timer_run ?may ?s" by (intro timer_run.intros) simp
  have "next_id (snd ?s) = 1" by code_simp
  then show ?thesis using timer_single_timeout [OF r, of 7] by simp
qed

end
