(* ===== verification/JsDouble.thy ===== *)
theory JsDouble
  imports JsValue
begin

text \<open>
  Numbers of JavaScript where they are not exact: the double nearest to a quotient of integers, \<open>toFixed\<close>, the shortest
  decimals of a double and what \<open>parseInt\<close> reads of a number. A double is a fraction of integers, mostly \<open>m / 2 ^ k\<close>
  with a mantissa of 53 bits. Infinity, that is sizes of \<open>2 ^ 1024\<close> and more, and numbers so small that the mantissa has
  fewer bits do not occur.
\<close>

section \<open>Rounding to 53 bits\<close>

text \<open>The power of two that brings \<open>a / b\<close> to 53 bits before the point.\<close>

function scale53 :: "int \<Rightarrow> int \<Rightarrow> nat \<Rightarrow> nat" where
  "scale53 a b k = (if a \<le> 0 \<or> b * 2 ^ 52 \<le> a * 2 ^ k then k else scale53 a b (Suc k))"
  by auto
termination
proof (relation "measure (\<lambda>(a, b, k). nat (b * 2 ^ 52 - a * 2 ^ k))")
  show "wf (measure (\<lambda>(a, b, k). nat (b * 2 ^ 52 - a * 2 ^ k)))" by simp
next
  fix a b :: int and k :: nat
  assume "\<not> (a \<le> 0 \<or> b * 2 ^ 52 \<le> a * 2 ^ k)"
  then have "0 < a" "a * 2 ^ k < b * 2 ^ 52" by auto
  moreover from this have "a * 2 ^ k < a * 2 ^ Suc k" by simp
  ultimately show "((a, b, Suc k), (a, b, k)) \<in> measure (\<lambda>(a, b, k). nat (b * 2 ^ 52 - a * 2 ^ k))" by simp
qed

declare scale53.simps [simp del]

function shrink53 :: "int \<Rightarrow> int \<Rightarrow> nat \<Rightarrow> nat" where
  "shrink53 a b k = (if b \<le> 0 \<or> a < b * 2 ^ (53 + k) then k else shrink53 a b (Suc k))"
  by auto
termination
proof (relation "measure (\<lambda>(a, b, k). nat (a + 1 - b * 2 ^ (53 + k)))")
  show "wf (measure (\<lambda>(a, b, k). nat (a + 1 - b * 2 ^ (53 + k))))" by simp
next
  fix a b :: int and k :: nat
  assume "\<not> (b \<le> 0 \<or> a < b * 2 ^ (53 + k))"
  then have "0 < b" "b * 2 ^ (53 + k) \<le> a" by auto
  moreover from this have "b * 2 ^ (53 + k) < b * 2 ^ (53 + Suc k)" by simp
  ultimately show "((a, b, Suc k), (a, b, k)) \<in> measure (\<lambda>(a, b, k). nat (a + 1 - b * 2 ^ (53 + k)))" by simp
qed

declare shrink53.simps [simp del]

text \<open>The nearest integer, the even one of two.\<close>

definition div_even :: "int \<Rightarrow> int \<Rightarrow> int" where
  "div_even a b = (let q = a div b; r = 2 * (a mod b) in if r < b \<or> r = b \<and> even q then q else q + 1)"

text \<open>The double nearest to \<open>a / b\<close>, for \<open>0 \<le> a\<close> and \<open>0 < b\<close>: a pair \<open>(m, k)\<close> for \<open>m / 2 ^ k\<close>.\<close>

definition fl_div :: "int \<Rightarrow> int \<Rightarrow> int \<times> nat" where
  "fl_div a b =
     (if a < b * 2 ^ 53 then let k = scale53 a b 0 in (div_even (a * 2 ^ k) b, k)
      else let k = shrink53 a b 0 in (div_even a (b * 2 ^ k) * 2 ^ k, 0))"

definition fl_int :: "int \<Rightarrow> int" where
  "fl_int n = (if \<bar>n\<bar> \<le> 2 ^ 53 then n else sgn n * fst (fl_div \<bar>n\<bar> 1))"

section \<open>Decimals of a double\<close>

definition reads_as :: "int \<Rightarrow> int \<Rightarrow> int \<Rightarrow> int \<Rightarrow> bool" where
  "reads_as s e a b = (case (if 0 \<le> e then fl_div (s * 10 ^ nat e) 1 else fl_div s (10 ^ nat (- e))) of
     (m, k) \<Rightarrow> m * b = a * 2 ^ k)"

text \<open>
  The shortest decimals \<open>s * 10 ^ e\<close> that read as the positive double \<open>a / b\<close>, the nearest of two. The search starts above the
  number and ends at the latest at the smallest exponent of doubles.
\<close>

function short_from :: "int \<Rightarrow> int \<Rightarrow> int \<Rightarrow> int \<times> int" where
  "short_from a b e =
     (if e < -400 then (0, e)
      else
        let n = (if 0 \<le> e then a else a * 10 ^ nat (- e)); d = (if 0 \<le> e then b * 10 ^ nat e else b);
            s = n div d; r = 2 * (n mod d);
            lo = (0 < s \<and> reads_as s e a b); hi = reads_as (s + 1) e a b
        in if lo \<and> (\<not> hi \<or> r < d \<or> r = d \<and> even s) then (s, e)
           else if hi then (s + 1, e)
           else short_from a b (e - 1))"
  by auto
termination by (relation "measure (\<lambda>(a, b, e). nat (e + 401))") auto

declare short_from.simps [simp del]

definition shortest :: "int \<Rightarrow> int \<Rightarrow> int \<times> int" where
  "shortest a b = short_from a b (int (length (digits (nat (a div b)))))"

text \<open>\<open>String(n)\<close> of an integer: with an exponent from \<open>10 ^ 21\<close> on.\<close>

definition double_str :: "int \<Rightarrow> string" where
  "double_str n =
     (if \<bar>n\<bar> \<le> 2 ^ 53 then int_str n
      else case shortest \<bar>n\<bar> 1 of (s, e) \<Rightarrow>
        let ds = digits (nat s) in
        (if n < 0 then ''-'' else []) @
        (if int (length ds) + e \<le> 21 then ds @ replicate (nat e) CHR 0x30
         else hd ds # (if tl ds = [] then [] else CHR 0x2E # tl ds) @ ''e+'' @ digits (length ds + nat e - 1)))"

function lead_digit :: "int \<Rightarrow> int" where
  "lead_digit n = (if n < 10 then n else lead_digit (n div 10))"
  by auto
termination by (relation "measure nat") auto

declare lead_digit.simps [simp del]

text \<open>
  \<open>parseInt(x)\<close> of the double \<open>a / b\<close> reads the text of the number: where that has an exponent, only its first digit.
\<close>

definition parse_int_num :: "int \<Rightarrow> int \<Rightarrow> int" where
  "parse_int_num a b =
     (let c = \<bar>a\<bar> in
      if c = 0 then 0
      else sgn a * (if c * 10 ^ 6 < b \<or> b * 10 ^ 21 \<le> c then lead_digit (fst (shortest c b)) else c div b))"

section \<open>Fixed decimals\<close>

definition pad_digits :: "nat \<Rightarrow> nat \<Rightarrow> string" where
  "pad_digits m n = (let ds = digits n in replicate (m - length ds) CHR 0x30 @ ds)"

text \<open>
  \<open>(v / 10^m).toFixed(m)\<close>: the quotient is rounded to a double, and the exact value of that double to \<open>m\<close> decimals, up when two are
  equally near. From \<open>10 ^ 21\<close> on it is the text of the number.
\<close>

definition to_fixed :: "nat \<Rightarrow> int \<Rightarrow> string" where
  "to_fixed m v =
     (case fl_div \<bar>v\<bar> (10 ^ m) of (p, k) \<Rightarrow>
        (if v < 0 then ''-'' else []) @
        (if 10 ^ 21 * 2 ^ k \<le> p then double_str (p div 2 ^ k)
         else let a = nat ((2 * p * 10 ^ m + 2 ^ k) div 2 ^ Suc k) in
           digits (a div 10 ^ m) @ (if m = 0 then [] else CHR 0x2E # pad_digits m (a mod 10 ^ m))))"

section \<open>Where doubles are exact\<close>

lemma fl_int_exact [simp]: "\<bar>n\<bar> \<le> 2 ^ 53 \<Longrightarrow> fl_int n = n"
  by (simp add: fl_int_def)

lemma lead_digit_less: "lead_digit n < 10"
proof (induction n rule: lead_digit.induct)
  case (1 n)
  then show ?case by (cases "n < 10") (simp_all add: lead_digit.simps [of n])
qed

lemma scale53_spec: "0 < a \<Longrightarrow> b * 2 ^ 52 \<le> a * 2 ^ scale53 a b k"
proof (induction a b k rule: scale53.induct)
  case (1 a b k)
  show ?case
  proof (cases "b * 2 ^ 52 \<le> a * 2 ^ k")
    case True
    then show ?thesis by (subst scale53.simps) simp
  next
    case False
    have e: "scale53 a b k = scale53 a b (Suc k)" using False 1(2) by (subst scale53.simps) simp
    show ?thesis unfolding e using 1 False by simp
  qed
qed

lemma scale53_eq:
  assumes "b * 2 ^ 52 \<le> a * 2 ^ k" "0 < k \<Longrightarrow> a * 2 ^ (k - 1) < b * 2 ^ 52" "0 < a" "i \<le> k"
  shows "scale53 a b i = k"
  using assms(4)
proof (induction "k - i" arbitrary: i)
  case 0
  then show ?case using assms(1) by (subst scale53.simps) simp
next
  case (Suc n)
  then have "i \<le> k - 1" "0 < k" by simp_all
  then have "a * 2 ^ i \<le> a * 2 ^ (k - 1)" using assms(3) by (intro mult_left_mono power_increasing) simp_all
  then have "\<not> (a \<le> 0 \<or> b * 2 ^ 52 \<le> a * 2 ^ i)" using assms(2) [OF \<open>0 < k\<close>] assms(3) by linarith
  then have e: "scale53 a b i = scale53 a b (Suc i)" by (subst scale53.simps) simp
  show ?case unfolding e using Suc by (intro Suc.hyps(1)) simp_all
qed

lemma div_even_near: "0 < b \<Longrightarrow> \<bar>2 * (div_even a b * b - a)\<bar> \<le> b"
proof -
  assume b: "0 < b"
  have a: "a = a div b * b + a mod b" by simp
  have r: "0 \<le> a mod b" "a mod b < b" using b by simp_all
  define q m where "q = a div b" and "m = a mod b"
  have "a = q * b + m" "0 \<le> m" "m < b" using a r by (simp_all add: q_def m_def)
  then show ?thesis unfolding div_even_def Let_def q_def [symmetric] m_def [symmetric]
    by (auto simp: algebra_simps)
qed

text \<open>Below \<open>2 ^ 52\<close> the rounding of a quotient does not reach the last decimal.\<close>

lemma fixed_value:
  assumes "0 \<le> v" "v < 2 ^ 52" "fl_div v (10 ^ m) = (p, k)"
  shows "(2 * p * 10 ^ m + 2 ^ k) div 2 ^ Suc k = v \<and> \<not> 10 ^ 21 * 2 ^ k \<le> p"
proof -
  let ?b = "10 ^ m :: int"
  have b: "1 \<le> ?b" by simp
  have "v < 1 * 2 ^ 53" using assms(2) by simp
  also have "\<dots> \<le> ?b * 2 ^ 53" using b by (rule mult_right_mono) simp
  finally have "v < ?b * 2 ^ 53" .
  then have k: "k = scale53 v ?b 0" and p: "p = div_even (v * 2 ^ k) ?b"
    using assms(3) by (auto simp: fl_div_def Let_def)
  have near: "\<bar>2 * (p * ?b - v * 2 ^ k)\<bar> \<le> ?b" unfolding p by (rule div_even_near) simp
  show ?thesis
  proof (cases "v = 0")
    case True
    then have "k = 0" "p = 0" unfolding p k by (simp_all add: scale53.simps div_even_def)
    then show ?thesis using True by simp
  next
    case False
    then have "?b * 2 ^ 52 \<le> v * 2 ^ k" unfolding k using assms(1) by (intro scale53_spec) simp
    also have "\<dots> < 2 ^ 52 * 2 ^ k" using assms(2) by simp
    finally have bk: "?b < 2 ^ k" by simp
    have "2 * v * 2 ^ k \<le> 2 * p * ?b + 2 ^ k" "2 * p * ?b + 2 ^ k < 2 * v * 2 ^ k + 2 * 2 ^ k"
      using near bk by (auto simp: algebra_simps)
    then have d: "(2 * p * ?b + 2 ^ k) div 2 ^ Suc k = v"
      by (intro int_div_pos_eq [where r = "2 * p * ?b + 2 ^ k - v * 2 ^ Suc k"]) (auto simp: algebra_simps)
    have c: "0 < (2::int) ^ k" by simp
    have "2 * (p * ?b) < (2 * v + 1) * 2 ^ k" using near bk by (auto simp: algebra_simps)
    also have "\<dots> \<le> 2 ^ 53 * 2 ^ k" using assms(2) c by (intro mult_right_mono) auto
    also have "\<dots> < 2 * (10 ^ 21 * 2 ^ k)" using c by simp
    finally have "p * ?b < 10 ^ 21 * 2 ^ k" by simp
    moreover have "p \<le> p * ?b" if "0 \<le> p" using that b by (simp add: mult_le_cancel_left1)
    ultimately have "\<not> 10 ^ 21 * 2 ^ k \<le> p" using c by (smt (verit) mult_pos_pos zero_less_numeral zero_less_power)
    with d show ?thesis by simp
  qed
qed

lemma to_fixed_small:
  "0 \<le> v \<Longrightarrow> v < 2 ^ 52 \<Longrightarrow>
   to_fixed m v = digits (nat v div 10 ^ m) @ (if m = 0 then [] else CHR 0x2E # pad_digits m (nat v mod 10 ^ m))"
  using fixed_value [of v m] by (auto simp: to_fixed_def Let_def split: prod.split simp del: power_Suc)

lemma parse_int_num_small: "\<bar>n\<bar> < 10 ^ 21 \<Longrightarrow> parse_int_num n 1 = n"
  by (auto simp: parse_int_num_def Let_def sgn_if)

text \<open>A remainder of a division by ten is read as a digit.\<close>

lemma parse_int_num_digit: "0 < b \<Longrightarrow> parse_int_num (m mod (10 * b)) b \<le> 10"
proof -
  assume b: "0 < b"
  define x where "x = m mod (10 * b)"
  then have x: "0 \<le> x" "x < 10 * b" using b by simp_all
  moreover have "x div b < 10"
  proof (rule ccontr)
    assume "\<not> x div b < 10"
    then have "10 * b \<le> x div b * b" using b by (intro mult_right_mono) auto
    also have "\<dots> \<le> x" using b by (metis div_mult_mod_eq le_add_same_cancel1 mod_int_pos_iff not_less_iff_gr_or_eq order_less_imp_le)
    finally show False using x by simp
  qed
  ultimately show ?thesis
    using lead_digit_less [of "fst (shortest x b)"] b
    by (auto simp: parse_int_num_def Let_def sgn_if simp flip: x_def)
qed

end
