(* ===== verification/UiUnit.thy ===== *)
theory UiUnit
  imports JqDom JsDouble
begin

text \<open>
  \<open>unit\<close> and \<open>base58\<close> of \<open>src/src/qt/res/js/main.js\<close>: amounts as text and as numbers of the smallest unit,
  and the keys that an amount field takes. Amounts are doubles, all of them integers: every product, quotient and sum
  is rounded as the code rounds it. A selector string that is not an amount is taken to match nothing.
\<close>

section \<open>Amounts\<close>

text \<open>What \<open>parse\<close> returns: \<open>undefined\<close>, \<open>NaN\<close> or a number.\<close>

datatype amount = AUndef | ANaN | AInt int

fun amount_int :: "amount \<Rightarrow> int option" where
  "amount_int (AInt n) = Some n"
| "amount_int _ = None"

definition int_amount :: "int option \<Rightarrow> amount" where
  "int_amount v = (case v of Some n \<Rightarrow> AInt n | None \<Rightarrow> ANaN)"

text \<open>\<open>a + b\<close> and \<open>a == 0\<close>\<close>

definition amount_add :: "amount \<Rightarrow> amount \<Rightarrow> amount" where
  "amount_add a b = (case (a, b) of (AInt x, AInt y) \<Rightarrow> AInt (fl_int (x + y)) | _ \<Rightarrow> ANaN)"

definition amount_zero :: "amount \<Rightarrow> bool" where
  "amount_zero a \<longleftrightarrow> a = AInt 0"

text \<open>A field: its text, its \<open>data\<close> value and whether it is marked as wrong.\<close>

record ufield =
  f_text :: string
  f_data :: amount
  f_bad :: bool

text \<open>
  The unit: its number, and the names that the page shows. \<open>u_shown\<close>, \<open>u_select\<close> and \<open>u_input\<close> are the contents
  of the elements of the class \<open>unit\<close>.
\<close>

record unit_state =
  u_type :: int
  u_name :: string
  u_display :: string
  u_shown :: string
  u_select :: "int option"
  u_input :: string

definition is_numeric :: "string \<Rightarrow> bool" where
  "is_numeric s = (case (str_num s, parse_float s) of (Some a, Some b) \<Rightarrow> a - b \<ge> 0 | _ \<Rightarrow> False)"

text \<open>\<open>type == undefined ? this.type : parseInt(type)\<close>; the second \<open>None\<close> is \<open>NaN\<close>.\<close>

definition unit_of :: "unit_state \<Rightarrow> dval \<Rightarrow> int option" where
  "unit_of u t = (if t = DU then Some (u_type u) else parse_int (dstr t))"

definition mask_of :: "int option \<Rightarrow> nat" where
  "mask_of t = (if t = Some 1 then 5 else if t = Some 2 then 2 else if t = Some 3 then 0 else 8)"

definition unit_mask :: "unit_state \<Rightarrow> dval \<Rightarrow> nat" where
  "unit_mask u t = mask_of (unit_of u t)"

text \<open>\<open>setType\<close> up to the update of the balances, which the overview page does.\<close>

definition unit_setType :: "int option \<Rightarrow> unit_state \<Rightarrow> unit_state" where
  "unit_setType t u =
     (let u = u\<lparr>u_type := (case t of None \<Rightarrow> 0 | Some n \<Rightarrow> n)\<rparr>;
          u = (if t = Some 1 then u\<lparr>u_name := ''mPROC'', u_display := ''mPROC''\<rparr>
            else if t = Some 2 then u\<lparr>u_name := ''uPROC'', u_display := ''&micro;PROC''\<rparr>
            else if t = Some 3 then u\<lparr>u_name := ''sPROC'', u_display := ''PROCtoshi''\<rparr>
            else u\<lparr>u_name := ''PROC'', u_display := ''PROC''\<rparr>)
      in u\<lparr>u_shown := u_display u, u_select := t, u_input := u_name u\<rparr>)"

section \<open>Formatting\<close>

text \<open>What \<open>parseInt\<close> reads of a text, as a double.\<close>

definition parse_num :: "string \<Rightarrow> int option" where
  "parse_num s = map_option fl_int (parse_int s)"

text \<open>The text of a value that \<open>parseInt\<close> has read, and of a number that it still reads.\<close>

definition format_int :: "nat \<Rightarrow> int option \<Rightarrow> string" where
  "format_int m v = (case v of None \<Rightarrow> ''NaN'' | Some n \<Rightarrow> to_fixed m n)"

definition format_num :: "nat \<Rightarrow> int \<Rightarrow> string" where
  "format_num m n = to_fixed m (parse_int_num n 1)"

text \<open>\<open>unit.format(value)\<close> of a number; for \<open>undefined\<close> and \<open>NaN\<close> it returns nothing.\<close>

definition unit_format :: "unit_state \<Rightarrow> amount \<Rightarrow> dval \<Rightarrow> string option" where
  "unit_format u v t = (case v of AInt n \<Rightarrow> Some (format_num (unit_mask u t) n) | _ \<Rightarrow> None)"

definition format_field :: "unit_state \<Rightarrow> dval \<Rightarrow> ufield \<Rightarrow> ufield" where
  "format_field u t f =
     f\<lparr>f_text := (let m = unit_mask u t in
       case f_data f of AUndef \<Rightarrow> format_int m (parse_num (f_text f)) | AInt n \<Rightarrow> format_num m n | ANaN \<Rightarrow> ''NaN'')\<rparr>"

section \<open>Parsing\<close>

definition split_point :: "string \<Rightarrow> string list" where
  "split_point s = (case s of [] \<Rightarrow> [''0'', ''0'']
     | c # r \<Rightarrow> if c = CHR 0x2E then [''0'', r] else split_char (CHR 0x2E) s)"

text \<open>\<open>while (av.length > 1 && last == '0') av.pop()\<close>\<close>

fun strip_zeros :: "string \<Rightarrow> string" where
  "strip_zeros [] = []"
| "strip_zeros [c] = [c]"
| "strip_zeros (c # d # s) = (case strip_zeros (d # s) of
     [e] \<Rightarrow> if e = CHR 0x30 then [c] else [c, e]
   | t \<Rightarrow> c # t)"

definition parse_text :: "nat \<Rightarrow> string \<Rightarrow> int option" where
  "parse_text m s = (case split_point s of
     [] \<Rightarrow> None
   | ip # rest \<Rightarrow>
       let v = map_option (\<lambda>n. if 0 < m then fl_int (n * 10 ^ m) else n) (parse_num ip)
       in (case rest of
           [] \<Rightarrow> v
         | fp # _ \<Rightarrow>
             if m = 0 then v
             else
               let av = strip_zeros fp in
               (case parse_num av of
                  None \<Rightarrow> v
                | Some fract \<Rightarrow>
                    if fract > 0
                    then map_option (\<lambda>n. fl_int (n + (if length av < m then fl_int (fract * 10 ^ (m - length av)) else fract))) v
                    else v)))"

text \<open>\<open>unit.parse(value, type)\<close> of a string: one that is not numeric is a selector.\<close>

definition unit_parse :: "unit_state \<Rightarrow> string \<Rightarrow> dval \<Rightarrow> amount" where
  "unit_parse u s t = (if is_numeric s then int_amount (parse_text (unit_mask u t) s) else AUndef)"

definition parse_field :: "unit_state \<Rightarrow> dval \<Rightarrow> ufield \<Rightarrow> ufield" where
  "parse_field u t f =
     format_field u t (f\<lparr>f_data := int_amount (parse_text (unit_mask u t) (f_text f))\<rparr>)"

section \<open>Keys\<close>

text \<open>
  A key press in an amount field: its code and modifiers, the start and the end of the selection and whether it is a
  range. The handler prevents it, lets it pass, or changes the text itself.
\<close>

record keypress =
  kp_key :: nat
  kp_shift :: bool
  kp_ctrl :: bool
  kp_start :: nat
  kp_end :: nat
  kp_range :: bool

datatype keyact = Prevented | Passed | Dropped string

definition has_point :: "string \<Rightarrow> bool" where
  "has_point s \<longleftrightarrow> CHR 0x2E \<in> set s"

definition point_index :: "string \<Rightarrow> int" where
  "point_index s = (if has_point s then int (length (takeWhile (\<lambda>c. c \<noteq> CHR 0x2E) s)) else -1)"

definition unit_keydown :: "nat \<Rightarrow> keypress \<Rightarrow> string \<Rightarrow> keyact" where
  "unit_keydown m k s =
     (let key = kp_key k in
      if key = 190 \<or> key = 110 then (if has_point s \<or> m = 0 then Prevented else Passed)
      else if \<not> kp_shift k \<and> (96 \<le> key \<and> key \<le> 105 \<or> 48 \<le> key \<and> key \<le> 57) then
        (if \<not> kp_range k \<and> int (kp_start k) > point_index s \<and> has_point s \<and>
            int (length s) - 1 - point_index s \<ge> int m then
           (if last s = CHR 0x30 \<and> kp_start k < length s then Dropped (butlast s) else Prevented)
         else Passed)
      else if key \<in> {8, 9, 17, 46, 45} \<or> 35 \<le> key \<and> key \<le> 40 \<or> kp_ctrl k \<and> key \<in> {65, 67, 86, 88} then Passed
      else Prevented)"

definition unit_paste :: "bool \<Rightarrow> string \<Rightarrow> string \<Rightarrow> keyact" where
  "unit_paste rng pasted s = (if \<not> is_numeric pasted \<or> has_point s \<and> \<not> rng then Prevented else Passed)"

text \<open>
  What the browser then does with the key of the digit \<open>c\<close>: it puts it in the place of the selected text. Where the handler
  has changed the text itself, it has set both ends of the selection to its start.
\<close>

definition replace_at :: "nat \<Rightarrow> nat \<Rightarrow> char \<Rightarrow> string \<Rightarrow> string" where
  "replace_at i j c s = take i s @ c # drop (max i j) s"

definition type_digit :: "nat \<Rightarrow> keypress \<Rightarrow> char \<Rightarrow> string \<Rightarrow> string" where
  "type_digit m k c s = (case unit_keydown m k s of
     Prevented \<Rightarrow> s
   | Passed \<Rightarrow> replace_at (kp_start k) (kp_end k) c s
   | Dropped t \<Rightarrow> replace_at (kp_start k) (kp_start k) c t)"

section \<open>Addresses\<close>

definition base58Chars :: string where
  "base58Chars = ''123456789ABCDEFGHJKLMNPQRSTUVWXYZabcdefghijkmnopqrstuvwxyz''"

fun all_base58 :: "string \<Rightarrow> bool" where
  "all_base58 [] = True"
| "all_base58 (c # s) = (c \<in> set base58Chars \<and> all_base58 s)"

definition base58_check :: "ufield \<Rightarrow> ufield \<times> bool" where
  "base58_check f = (let ok = all_base58 (f_text f) in (f\<lparr>f_bad := \<not> ok\<rparr>, ok))"

text \<open>The text of the QR code.\<close>

definition amount_str :: "amount \<Rightarrow> string" where
  "amount_str a = (case a of AUndef \<Rightarrow> ''undefined'' | ANaN \<Rightarrow> ''NaN'' | AInt n \<Rightarrow> double_str n)"

record qr_form =
  q_address :: string
  q_label :: string
  q_narration :: string
  q_amount :: string
  q_unit :: dval

definition showQRCode :: "unit_state \<Rightarrow> string option \<Rightarrow> string option \<Rightarrow> qr_form \<Rightarrow> qr_form \<times> string" where
  "showQRCode u address label q =
     (let q = (case address of None \<Rightarrow> q | Some a \<Rightarrow> q\<lparr>q_address := a\<rparr>);
          q = (case label of None \<Rightarrow> q | Some l \<Rightarrow> q\<lparr>q_label := l\<rparr>)
      in (q, ''procurrency:'' @ q_address q @ ''?label='' @ q_label q @ ''&narration='' @ q_narration q
        @ ''&amount='' @ amount_str (unit_parse u (q_amount q) (q_unit q))))"

end
