(* ===== verification/UiAmounts.thy ===== *)
theory UiAmounts
  imports UiUnit
begin

text \<open>
  Lemmas on amounts as text: what \<open>parse\<close> reads of a decimal number, that it reads what \<open>format\<close> writes, and the
  number of decimals that the keys of an amount field leave.
\<close>

section \<open>Amounts\<close>

lemma dec_val_snoc: "dec_val (s @ [c]) = 10 * dec_val s + dig_val c"
  by (simp add: dec_val_def)

lemma dec_val_zeros: "dec_val (s @ replicate k CHR 0x30) = dec_val s * 10 ^ k"
proof (induction k)
  case (Suc k)
  have "dec_val (s @ replicate (Suc k) CHR 0x30) = dec_val ((s @ replicate k CHR 0x30) @ [CHR 0x30])"
    by (simp add: replicate_append_same)
  then show ?case using Suc by (simp only: dec_val_snoc) (simp add: dig_val_def)
qed simp

lemma dec_val_append: "dec_val (s @ t) = dec_val s * 10 ^ length t + dec_val t"
proof (induction t rule: rev_induct)
  case (snoc c t)
  then show ?case by (simp only: append_assoc [symmetric] dec_val_snoc) (simp add: algebra_simps)
qed (simp add: dec_val_def)

lemma dig_val_nat: "dig_val c = int (of_char c) - 48"
  by (cases c) (simp add: dig_val_def)

lemma digits_dig: "list_all is_dig (digits n) \<and> digits n \<noteq> [] \<and> dec_val (digits n) = int n"
proof (induction n rule: digits.induct)
  case (1 n)
  show ?case
  proof (cases "n < 10")
    case True
    then show ?thesis by (simp add: digits.simps [of n] is_dig_def dec_val_def dig_val_nat del: of_nat_of_char)
  next
    case False
    have c: "is_dig (char_of (48 + n mod 10))" "dig_val (char_of (48 + n mod 10)) = int (n mod 10)"
      by (auto simp: is_dig_def dig_val_nat simp del: of_nat_of_char)
    have "10 * int (n div 10) + int (n mod 10) = int n" by (metis mult_div_mod_eq of_nat_add of_nat_mult of_nat_numeral)
    then show ?thesis using 1 False c by (simp add: digits.simps [of n] dec_val_snoc)
  qed
qed

lemma is_dig_not: "is_dig c \<Longrightarrow> c \<noteq> CHR 0x2E \<and> c \<noteq> CHR 0x2D \<and> c \<noteq> CHR 0x2B \<and> \<not> is_ws c"
  by (auto simp: is_dig_def is_ws_def)

lemma parse_int_digits: "list_all is_dig s \<Longrightarrow> s \<noteq> [] \<Longrightarrow> parse_int s = Some (dec_val s)"
proof -
  assume d: "list_all is_dig s" and ne: "s \<noteq> []"
  have t: "takeWhile is_dig s = s" using d by (simp add: takeWhile_eq_all_conv list_all_iff)
  obtain c r where c: "s = c # r" "is_dig c" using d ne by (cases s) auto
  then have "dropWhile is_ws s = s" "split_sign s = (False, s)" using is_dig_not [of c] by (simp_all add: split_sign_def)
  then show ?thesis using t ne by (simp only: parse_int_def Let_def prod.case) simp
qed

lemma parse_int_empty: "parse_int [] = None"
  by (simp add: parse_int_def split_sign_def)

lemma strip_zeros_spec: "\<exists>k. s = strip_zeros s @ replicate k CHR 0x30"
proof (induction s rule: strip_zeros.induct)
  case (3 c d s)
  then obtain k where k: "d # s = strip_zeros (d # s) @ replicate k CHR 0x30" by blast
  show ?case
  proof (cases "strip_zeros (d # s) = [CHR 0x30]")
    case True
    then have "c # d # s = [c] @ replicate (Suc k) CHR 0x30" using k by (simp add: replicate_append_same)
    moreover have "strip_zeros (c # d # s) = [c]" using True by simp
    ultimately show ?thesis by metis
  next
    case False
    then have "strip_zeros (c # d # s) = c # strip_zeros (d # s)" by (auto split: list.splits simp del: strip_zeros.simps(2))
    then show ?thesis using k by (metis append_Cons)
  qed
qed simp_all

lemma strip_zeros_ne: "s \<noteq> [] \<Longrightarrow> strip_zeros s \<noteq> []"
  by (induction s rule: strip_zeros.induct) (auto split: list.splits)

lemma split_char_point:
  "list_all is_dig a \<Longrightarrow> list_all is_dig b \<Longrightarrow> split_char (CHR 0x2E) (a @ CHR 0x2E # b) = [a, b]"
proof -
  have n: "list_all is_dig s \<Longrightarrow> split_char (CHR 0x2E) s = [s]" for s
    by (induction s) (auto dest: is_dig_not)
  show "list_all is_dig a \<Longrightarrow> list_all is_dig b \<Longrightarrow> ?thesis"
    by (induction a) (auto dest: is_dig_not simp: n)
qed

lemma dec_val_pos: "list_all is_dig s \<Longrightarrow> 0 \<le> dec_val s"
proof (induction s rule: rev_induct)
  case (snoc x xs)
  then have "0 \<le> dig_val x" by (auto simp: is_dig_def dig_val_nat simp del: of_nat_of_char)
  then show ?case using snoc by (simp add: dec_val_snoc)
qed (simp add: dec_val_def)

text \<open>What \<open>parse\<close> reads of decimals: the amount in the smallest unit, up to the integers that all are doubles.\<close>

lemma parse_text_decimal:
  assumes "list_all is_dig a" "a \<noteq> []" "list_all is_dig b" "length b \<le> m"
    and small: "dec_val a * 10 ^ m + dec_val b * 10 ^ (m - length b) \<le> 2 ^ 53"
  shows "parse_text m (a @ CHR 0x2E # b) = Some (dec_val a * 10 ^ m + dec_val b * 10 ^ (m - length b))"
proof -
  obtain c a' where "a = c # a'" "c \<noteq> CHR 0x2E" using assms is_dig_not by (cases a) auto
  then have s: "split_point (a @ CHR 0x2E # b) = [a, b]" using split_char_point [OF assms(1,3)] by (simp add: split_point_def)
  have pos: "0 \<le> dec_val a" "0 \<le> dec_val b" using dec_val_pos assms(1,3) by blast+
  have "0 \<le> dec_val b * 10 ^ (m - length b)" using pos by simp
  then have am: "dec_val a * 10 ^ m \<le> 2 ^ 53" "0 \<le> dec_val a * 10 ^ m" using small pos by (linarith, simp)
  moreover have "dec_val a * 1 \<le> dec_val a * 10 ^ m" using pos by (intro mult_left_mono) simp_all
  ultimately have ip: "parse_num a = Some (dec_val a)" "fl_int (dec_val a * 10 ^ m) = dec_val a * 10 ^ m"
    using parse_int_digits [OF assms(1,2)] pos by (simp_all add: parse_num_def)
  show ?thesis
  proof (cases "m = 0 \<or> b = []")
    case True
    then show ?thesis using s ip assms(4) by (auto simp: parse_text_def parse_num_def parse_int_empty Let_def dec_val_def)
  next
    case False
    obtain k where k: "b = strip_zeros b @ replicate k CHR 0x30" using strip_zeros_spec by blast
    let ?t = "strip_zeros b"
    have len: "length b = length ?t + k" using arg_cong [OF k, of length] by simp
    have dig: "list_all is_dig ?t" using assms(3) k by (metis list_all_append)
    have t: "0 \<le> dec_val ?t" using dec_val_pos [OF dig] .
    have "dec_val b = dec_val ?t * 10 ^ k" using dec_val_zeros [of ?t k] k by simp
    then have v: "dec_val b * 10 ^ (m - length b) = dec_val ?t * 10 ^ (m - length ?t)"
      using assms(4) len by (simp add: mult.assoc flip: power_add)
    have le: "dec_val ?t * 1 \<le> dec_val ?t * 10 ^ (m - length ?t)" using t by (intro mult_left_mono) simp_all
    have sum: "dec_val a * 10 ^ m + dec_val ?t * 10 ^ (m - length ?t) \<le> 2 ^ 53" using small v by simp
    then have fr: "fl_int (dec_val ?t) = dec_val ?t" "fl_int (dec_val ?t * 10 ^ (m - length ?t)) = dec_val ?t * 10 ^ (m - length ?t)"
      "fl_int (dec_val a * 10 ^ m + dec_val ?t * 10 ^ (m - length ?t)) = dec_val a * 10 ^ m + dec_val ?t * 10 ^ (m - length ?t)"
      using am t le by (intro fl_int_exact, simp)+
    have p: "parse_num ?t = Some (dec_val ?t)"
      using parse_int_digits [OF dig] strip_zeros_ne False fr(1) by (simp add: parse_num_def)
    show ?thesis
    proof (cases "dec_val ?t = 0")
      case True
      then show ?thesis using s ip p v False by (simp add: parse_text_def Let_def)
    next
      case pos': False
      have "length ?t < m \<or> length ?t = m" using len assms(4) by auto
      then show ?thesis
        using s ip p v False fr pos' t by (auto simp: parse_text_def Let_def simp del: fl_int_exact)
    qed
  qed
qed

lemma dec_val_pad: "n < 10 ^ m \<Longrightarrow> 0 < m \<Longrightarrow>
  list_all is_dig (pad_digits m n) \<and> length (pad_digits m n) = m \<and> dec_val (pad_digits m n) = int n"
proof -
  assume n: "n < 10 ^ m" and m: "0 < m"
  have len: "length (digits n) \<le> m" if "n < 10 ^ m" "0 < m" for n m
    using that
  proof (induction n arbitrary: m rule: digits.induct)
    case (1 n)
    show ?case
    proof (cases "n < 10")
      case False
      then obtain m' where m': "m = Suc m'" "0 < m'" using 1(2,3) by (cases m; cases "m - 1") auto
      then have "n div 10 < 10 ^ m'" using 1(2) by auto
      then show ?thesis using 1(1) [OF False _ m'(2)] False m' by (simp add: digits.simps [of n])
    qed (use 1 in \<open>simp add: digits.simps [of n]\<close>)
  qed
  have z: "dec_val (replicate k CHR 0x30 @ s) = dec_val s" for k s
    using dec_val_append [of "replicate k CHR 0x30" s] dec_val_zeros [of "[]" k] by (simp add: dec_val_def)
  show ?thesis
    using digits_dig [of n] len [OF n m] z by (auto simp: pad_digits_def Let_def list_all_iff is_dig_def)
qed

lemma parse_to_fixed: "0 \<le> v \<Longrightarrow> v < 2 ^ 52 \<Longrightarrow> parse_text m (to_fixed m v) = Some v"
proof -
  assume v: "0 \<le> v" and small: "v < 2 ^ 52"
  note fixed = to_fixed_small [OF v small, of m]
  let ?q = "nat v div 10 ^ m" and ?r = "nat v mod 10 ^ m"
  show ?thesis
  proof (cases "m = 0")
    case True
    have d: "list_all is_dig (digits (nat v))" "digits (nat v) \<noteq> []" "dec_val (digits (nat v)) = v"
      using digits_dig [of "nat v"] v by simp_all
    obtain c s where c: "digits (nat v) = c # s" "c \<noteq> CHR 0x2E" using d is_dig_not by (cases "digits (nat v)") auto
    have "split_char (CHR 0x2E) s = [s]" if "list_all is_dig s" for s
      using that by (induction s) (auto dest: is_dig_not)
    then have "split_point (digits (nat v)) = [digits (nat v)]" using c d by (simp add: split_point_def)
    moreover have "to_fixed m v = digits (nat v)" using fixed True by simp
    ultimately show ?thesis using True small v d parse_int_digits by (simp add: parse_text_def parse_num_def Let_def)
  next
    case False
    have r: "list_all is_dig (pad_digits m ?r) \<and> length (pad_digits m ?r) = m \<and> dec_val (pad_digits m ?r) = int ?r"
      using dec_val_pad [of ?r m] False by simp
    have q: "int ?q * 10 ^ m + int ?r = v"
      using v div_mult_mod_eq [of "nat v" "10 ^ m"] by (metis int_nat_eq of_nat_add of_nat_mult of_nat_numeral of_nat_power)
    have "to_fixed m v = digits ?q @ CHR 0x2E # pad_digits m ?r" using False by (simp add: fixed)
    moreover have "parse_text m (digits ?q @ CHR 0x2E # pad_digits m ?r) =
        Some (dec_val (digits ?q) * 10 ^ m + dec_val (pad_digits m ?r) * 10 ^ (m - length (pad_digits m ?r)))"
      using digits_dig [of ?q] r q small by (intro parse_text_decimal) auto
    ultimately show ?thesis using digits_dig [of ?q] r q by simp
  qed
qed

text \<open>Above that an amount can lose its last decimal.\<close>

lemma fixed_lost: "to_fixed 8 8296288099342156 = ''82962880.99342155''"
proof -
  have k: "scale53 8296288099342156 100000000 0 = 26" by (rule scale53_eq) simp_all
  obtain p where f: "fl_div 8296288099342156 (10 ^ 8) = (p, 26)"
    and p: "(2 * p * 10 ^ 8 + 2 ^ 26) div 2 ^ Suc 26 = 8296288099342155" "p < 2 ^ 60"
    by (simp add: fl_div_def k div_even_def Let_def)
  then have "to_fixed 8 8296288099342156 = digits 82962880 @ CHR 0x2E # pad_digits 8 99342155"
    by (simp add: to_fixed_def)
  moreover have "digits 82962880 = ''82962880''" "digits 99342155 = ''99342155''"
    by (simp_all add: digits.simps char_of_def bit_Suc_0_iff)
  ultimately show ?thesis by (simp add: pad_digits_def)
qed

section \<open>Keys\<close>

text \<open>The number of decimals of a text.\<close>

definition decimals :: "string \<Rightarrow> nat" where
  "decimals s = (if has_point s then length s - 1 - nat (point_index s) else 0)"

lemma point_split:
  assumes "has_point s"
  shows "\<exists>a b. s = a @ CHR 0x2E # b \<and> CHR 0x2E \<notin> set a"
  using split_list_first [of "CHR 0x2E" s] assms by (auto simp: has_point_def)

lemma point_append [simp]:
  assumes "CHR 0x2E \<notin> set a"
  shows "has_point (a @ CHR 0x2E # b)" "point_index (a @ CHR 0x2E # b) = int (length a)"
    "decimals (a @ CHR 0x2E # b) = length b"
proof -
  have t: "takeWhile (\<lambda>c. c \<noteq> CHR 0x2E) (a @ CHR 0x2E # b) = a" using assms by (induction a) auto
  show p: "has_point (a @ CHR 0x2E # b)" by (simp add: has_point_def)
  show i: "point_index (a @ CHR 0x2E # b) = int (length a)" by (simp only: point_index_def p t if_True)
  show "decimals (a @ CHR 0x2E # b) = length b" by (simp only: decimals_def p i) simp
qed

text \<open>Without a point before it, the rest of a text bounds the number of decimals.\<close>

lemma decimals_rest: "CHR 0x2E \<notin> set x \<Longrightarrow> decimals (x @ y) \<le> length y"
proof (cases "has_point y")
  case True
  assume x: "CHR 0x2E \<notin> set x"
  obtain p q where y: "y = p @ CHR 0x2E # q" "CHR 0x2E \<notin> set p" using point_split [OF True] by blast
  then have "decimals ((x @ p) @ CHR 0x2E # q) = length q" using x by (intro point_append(3)) simp
  then show ?thesis using y by simp
qed (simp add: decimals_def has_point_def)

lemma set_replace_at: "set (replace_at i j c s) \<subseteq> insert c (set s)"
  by (auto simp: replace_at_def dest: in_set_takeD in_set_dropD)

lemma replace_no_point: "\<not> has_point s \<Longrightarrow> c \<noteq> CHR 0x2E \<Longrightarrow> decimals (replace_at i j c s) = 0"
  using set_replace_at [of i j c s] by (auto simp: decimals_def has_point_def)

lemma replace_at_point:
  "replace_at i j c (a @ d # b) =
     (if max i j \<le> length a then replace_at i j c a @ d # b
      else if i \<le> length a then take i a @ c # drop (max i j - length a - 1) b
      else a @ d # replace_at (i - length a - 1) (j - length a - 1) c b)"
  by (auto simp: replace_at_def take_Cons' drop_Cons' max_def diff_diff_left)

text \<open>A digit in the place of selected text leaves no more decimals, and one more at most when nothing is selected.\<close>

lemma decimals_replace:
  assumes s: "s = a @ CHR 0x2E # b" "CHR 0x2E \<notin> set a" and c: "c \<noteq> CHR 0x2E"
  shows "i < j \<Longrightarrow> j \<le> length s \<Longrightarrow> decimals (replace_at i j c s) \<le> length b"
    and "decimals (replace_at i i c s) \<le> (if i \<le> length a then length b else Suc (length b))"
proof -
  have pa: "CHR 0x2E \<notin> set (replace_at i j c a)" for i j using s(2) c set_replace_at [of i j c a] by blast
  show "decimals (replace_at i i c s) \<le> (if i \<le> length a then length b else Suc (length b))"
    using pa [of i i] s by (simp add: replace_at_point) (auto simp: replace_at_def min_def)
  assume ij: "i < j" "j \<le> length s"
  have "decimals (take i a @ c # drop (j - length a - 1) b) \<le> length b" if "length a < j" "i \<le> length a"
  proof -
    have "CHR 0x2E \<notin> set (take i a @ [c])" using s(2) c by (auto dest: in_set_takeD)
    from decimals_rest [OF this, of "drop (j - length a - 1) b"] show ?thesis by simp
  qed
  moreover have "length (replace_at (i - length a - 1) (j - length a - 1) c b) \<le> length b" if "length a < i"
    using that ij s by (auto simp: replace_at_def)
  ultimately show "decimals (replace_at i j c s) \<le> length b"
    using pa [of i j] s ij by (auto simp: replace_at_point max_def)
qed

lemma type_digit_decimals:
  assumes "decimals s \<le> m" and "kp_key k \<in> {48..57} \<union> {96..105}" and c: "c \<noteq> CHR 0x2E"
    and sel: "if kp_range k then kp_start k < kp_end k \<and> kp_end k \<le> length s else kp_end k = kp_start k"
  shows "decimals (type_digit m k c s) \<le> m"
proof (cases "has_point s")
  case False
  then have "unit_keydown m k s = Passed \<or> unit_keydown m k s = Prevented"
    using assms(2) by (auto simp: unit_keydown_def Let_def)
  then show ?thesis using assms(1) replace_no_point [OF False c] by (auto simp: type_digit_def)
next
  case True
  then obtain a b where s: "s = a @ CHR 0x2E # b" and a: "CHR 0x2E \<notin> set a" using point_split by blast
  then have b: "length b \<le> m" using assms(1) by simp
  note repl = decimals_replace [OF s a c]
  show ?thesis
  proof (cases "unit_keydown m k s")
    case Passed
    then have "kp_range k \<or> kp_start k \<le> length a \<or> length b < m"
      using assms(2) a by (auto simp: unit_keydown_def Let_def s split: if_splits)
    then show ?thesis using Passed b sel repl(1) [of "kp_start k" "kp_end k"] repl(2) [of "kp_start k"]
      by (auto simp: type_digit_def split: if_splits)
  next
    case (Dropped t)
    then have t: "t = butlast s" "last s = CHR 0x30" "int (kp_start k) > int (length a)" "kp_start k < length s"
      using a assms(2) by (auto simp: unit_keydown_def Let_def s split: if_splits)
    then obtain b' where b': "b = b' @ [CHR 0x30]" by (cases b rule: rev_cases) (auto simp: s)
    then have "t = a @ CHR 0x2E # b'" by (simp add: t(1) s butlast_append)
    from decimals_replace(2) [OF this a c, of "kp_start k"] show ?thesis using Dropped b b' t(3) by (simp add: type_digit_def)
  qed (use assms(1) in \<open>simp add: type_digit_def\<close>)
qed

end
