(* ===== verification/UiSend.thy ===== *)
theory UiSend
  imports UiUnit
begin

text \<open>
  The send page of \<open>src/src/qt/res/js/main.js\<close>: recipients, the ring size, coin control and sending. The wallet
  behind \<open>procbridge\<close> is the parameter \<open>br\<close>; the calls that change it are logged, and what it answers to a call
  may depend on the calls before.
\<close>

section \<open>The wallet\<close>

text \<open>\<open>BAdd\<close>: address, label, narration, amount, transaction type and ring size; \<open>DU\<close> is \<open>undefined\<close>.\<close>

datatype bcall =
    BClear
  | BAdd dval dval dval amount dval dval
  | BSend bool string
  | BAmount amount

text \<open>The outputs of the wallet that can be mixed.\<close>

record anon_output =
  owned_mature :: int
  system_mature :: int

text \<open>\<open>br_anon\<close> is the variable \<open>anonOutput\<close>; \<open>None\<close> when it is not declared.\<close>

record bridge =
  br_validate :: "dval \<Rightarrow> bool"
  br_label :: "string \<Rightarrow> string"
  br_add :: "bcall list \<Rightarrow> bcall \<Rightarrow> bool"
  br_send :: "bcall list \<Rightarrow> bool"
  opt_AutoRingSize :: bool
  opt_MinRingSize :: int
  opt_MaxRingSize :: int
  br_anon :: "anon_output option"

section \<open>Recipients\<close>

record recipient =
  rc_n :: nat
  rc_pay :: ufield
  rc_label :: string
  rc_narration :: string
  rc_amount :: ufield
  rc_unit :: dval

text \<open>The labels of coin control: text, red, shown.\<close>

type_synonym cc_label = "string \<times> bool \<times> bool"

record cc_info =
  cc_auto :: bool
  cc_labels :: bool
  cc_quantity :: string
  cc_amount :: string
  cc_fee :: string
  cc_afterfee :: string
  cc_bytes :: cc_label
  cc_priority :: cc_label
  cc_low :: cc_label
  cc_change :: cc_label

text \<open>
  \<open>sp_count\<close> is the variable \<open>recipients\<close>, \<open>sp_rows\<close> what is on the page. \<open>sp_cc\<close> tells whether coin control is enabled,
  \<open>sp_warnings\<close> are the warnings with the number of the recipient, the size and the coin value they name.
\<close>

record send_page =
  sp_rows :: "recipient list"
  sp_count :: nat
  sp_returnto :: string
  sp_cc :: bool
  sp_txn_type :: dval
  sp_ring_size :: dval
  sp_change_address :: string
  sp_show_ring :: bool
  sp_show_proc :: bool
  sp_show_token :: bool
  sp_info :: cc_info
  sp_warnings :: "(nat \<times> int \<times> string) list"

definition plain_field :: "string \<Rightarrow> ufield" where
  "plain_field s = \<lparr>f_text = s, f_data = AUndef, f_bad = False\<rparr>"

definition new_recipient :: "unit_state \<Rightarrow> nat \<Rightarrow> recipient" where
  "new_recipient u n = \<lparr>rc_n = n, rc_pay = plain_field [], rc_label = [], rc_narration = [],
     rc_amount = plain_field ''0.00000000'',
     rc_unit = (if u_type u \<in> {0, 1, 2, 3} then DS (int_str (u_type u)) else DS ''0'')\<rparr>"

definition addRecipient :: "unit_state \<Rightarrow> send_page \<times> bcall list \<Rightarrow> send_page \<times> bcall list" where
  "addRecipient u = (\<lambda>(sp, log).
     (sp\<lparr>sp_rows := sp_rows sp @ [new_recipient u (sp_count sp)], sp_count := sp_count sp + 1\<rparr>, log @ [BClear]))"

definition clearRecipients :: "unit_state \<Rightarrow> send_page \<times> bcall list \<Rightarrow> send_page \<times> bcall list" where
  "clearRecipients u = (\<lambda>(sp, log).
     let (sp, log) = addRecipient u (sp\<lparr>sp_rows := [], sp_count := 0\<rparr>, log) in (sp\<lparr>sp_returnto := []\<rparr>, log))"

text \<open>The button that removes a recipient: the last one is cleared.\<close>

definition removeRecipient :: "unit_state \<Rightarrow> nat \<Rightarrow> send_page \<times> bcall list \<Rightarrow> send_page \<times> bcall list" where
  "removeRecipient u n = (\<lambda>(sp, log).
     if length (sp_rows sp) = 1 then clearRecipients u (sp, log)
     else (sp\<lparr>sp_rows := filter (\<lambda>r. rc_n r \<noteq> n) (sp_rows sp)\<rparr>, log))"

definition recipient_at :: "send_page \<Rightarrow> nat \<Rightarrow> recipient option" where
  "recipient_at sp n = find (\<lambda>r. rc_n r = n) (sp_rows sp)"

definition map_recipient :: "nat \<Rightarrow> (recipient \<Rightarrow> recipient) \<Rightarrow> send_page \<Rightarrow> send_page" where
  "map_recipient n f sp = sp\<lparr>sp_rows := map (\<lambda>r. if rc_n r = n then f r else r) (sp_rows sp)\<rparr>"

definition invalid :: "bool \<Rightarrow> ufield \<Rightarrow> ufield" where
  "invalid valid f = f\<lparr>f_bad := \<not> valid\<rparr>"

text \<open>The value of a field of recipient \<open>n\<close>, \<open>undefined\<close> when it is not on the page; the amount in a unit.\<close>

definition rc_value :: "(recipient \<Rightarrow> string) \<Rightarrow> send_page \<Rightarrow> nat \<Rightarrow> dval" where
  "rc_value f sp n = (case recipient_at sp n of None \<Rightarrow> DU | Some r \<Rightarrow> DS (f r))"

definition rc_parse :: "unit_state \<Rightarrow> dval \<Rightarrow> send_page \<Rightarrow> nat \<Rightarrow> amount" where
  "rc_parse u t sp n = (case recipient_at sp n of None \<Rightarrow> AUndef | Some r \<Rightarrow> unit_parse u (f_text (rc_amount r)) t)"

text \<open>An object of jQuery given for a number.\<close>

definition jq_object :: dval where
  "jq_object = DS ''[object Object]''"

section \<open>Coin control\<close>

definition toggleCoinControl :: "bool option \<Rightarrow> send_page \<Rightarrow> send_page" where
  "toggleCoinControl enable sp =
     sp\<lparr>sp_cc := \<not> (enable = None \<and> sp_cc sp \<or> enable = Some False)\<rparr>"

definition updateCoinControl :: "unit_state \<Rightarrow> send_page \<times> bcall list \<Rightarrow> send_page \<times> bcall list" where
  "updateCoinControl u = (\<lambda>(sp, log).
     if \<not> sp_cc sp then (sp, log)
     else (sp, log @ [BAmount (foldl amount_add (AInt 0) (map (rc_parse u DU sp) [0..<sp_count sp]))]))"

text \<open>\<open>change == ""\<close>\<close>

definition no_change :: "dval \<Rightarrow> bool" where
  "no_change d \<longleftrightarrow> d = DS [] \<or> d = DN 0 \<or> d = DB False"

definition format_val :: "unit_state \<Rightarrow> dval \<Rightarrow> string \<Rightarrow> string" where
  "format_val u d old = (case d of
     DN r \<Rightarrow> (case quotient_of r of (a, b) \<Rightarrow> to_fixed (unit_mask u DU) (parse_int_num a b))
   | DS s \<Rightarrow> if is_numeric s then format_int (unit_mask u DU) (parse_num s) else old
   | _ \<Rightarrow> old)"

definition updateCoinControlInfo ::
  "unit_state \<Rightarrow> int \<Rightarrow> dval \<Rightarrow> dval \<Rightarrow> dval \<Rightarrow> int \<Rightarrow> string \<Rightarrow> string \<Rightarrow> dval \<Rightarrow> send_page \<Rightarrow> send_page" where
  "updateCoinControlInfo u quantity amount fee afterfee bytes priority low change sp =
     (if \<not> sp_cc sp then sp
      else
        let i = sp_info sp in
        if quantity > 0 then
          let enable = \<not> no_change change in
          sp\<lparr>sp_info := i\<lparr>cc_auto := False, cc_labels := True, cc_quantity := int_str quantity,
            cc_amount := format_val u amount (cc_amount i), cc_fee := format_val u fee (cc_fee i),
            cc_afterfee := format_val u afterfee (cc_afterfee i),
            cc_bytes := (CHR 0x7E # int_str bytes, bytes > 10000, snd (snd (cc_bytes i))),
            cc_priority := (priority, is_prefix ''low'' priority, snd (snd (cc_priority i))),
            cc_low := (low, low = ''yes'', enable),
            cc_change := (format_val u change (fst (cc_change i)), fst (snd (cc_change i)), enable)\<rparr>\<rparr>
        else
          sp\<lparr>sp_info := i\<lparr>cc_auto := True, cc_labels := False, cc_quantity := [], cc_amount := [], cc_fee := [],
            cc_afterfee := [], cc_bytes := ([], snd (cc_bytes i)), cc_priority := ([], snd (cc_priority i)),
            cc_low := ([], snd (cc_low i)), cc_change := ([], snd (cc_change i))\<rparr>\<rparr>)"

definition above_one :: "dval \<Rightarrow> bool" where
  "above_one d = (case dnum d of Some n \<Rightarrow> n > 1 | None \<Rightarrow> False)"

definition changeTxnType :: "bridge \<Rightarrow> send_page \<Rightarrow> send_page" where
  "changeTxnType br sp =
     (if above_one (sp_txn_type sp)
      then toggleCoinControl (Some False)
        (sp\<lparr>sp_show_ring := \<not> opt_AutoRingSize br, sp_show_proc := False, sp_show_token := True\<rparr>)
      else sp\<lparr>sp_show_ring := False, sp_show_token := False, sp_show_proc := True\<rparr>)"

text \<open>\<open>addRecipientDetail\<close>: each field in turn, with the handler of its change.\<close>

definition addRecipientDetail ::
  "unit_state \<Rightarrow> bridge \<Rightarrow> string \<Rightarrow> string \<Rightarrow> string \<Rightarrow> string \<Rightarrow> send_page \<times> bcall list \<Rightarrow> send_page \<times> bcall list" where
  "addRecipientDetail u br address label narration amount = (\<lambda>(sp, log).
     let n = sp_count sp - 1;
         sp = map_recipient n (\<lambda>r. r\<lparr>rc_pay := (rc_pay r)\<lparr>f_text := address\<rparr>, rc_label := br_label br address\<rparr>) sp;
         sp = map_recipient n (\<lambda>r. r\<lparr>rc_label := label\<rparr>) sp;
         sp = map_recipient n (\<lambda>r. r\<lparr>rc_narration := narration\<rparr>) sp;
         sp = map_recipient n (\<lambda>r. r\<lparr>rc_amount := parse_field u (rc_unit r) ((rc_amount r)\<lparr>f_text := amount\<rparr>)\<rparr>) sp
     in updateCoinControl u (sp, log))"

text \<open>A new display unit: every unit field takes it and reformats its amount.\<close>

definition send_setType :: "unit_state \<Rightarrow> int \<Rightarrow> send_page \<Rightarrow> send_page" where
  "send_setType u t sp = sp\<lparr>sp_rows := map (\<lambda>r. let v = DS (int_str t) in
     r\<lparr>rc_unit := v, rc_amount := format_field u v (rc_amount r)\<rparr>) (sp_rows sp)\<rparr>"

end
