(* ===== verification/UiRing.thy ===== *)
theory UiRing
  imports UiSend
begin

text \<open>
  \<open>suggestRingSize\<close> and \<open>sendCoins\<close> of \<open>src/src/qt/res/js/main.js\<close>. A computation that throws is \<open>None\<close>.
\<close>

section \<open>The ring size\<close>

text \<open>\<open>mature\<close>, which does not read its first argument; \<open>m\<close> is the variable \<open>maxsize\<close> of the function around it.\<close>

definition mature :: "bridge \<Rightarrow> int \<Rightarrow> int \<Rightarrow> int \<Rightarrow> int option" where
  "mature br minsize m min_owned = (case br_anon br of
     None \<Rightarrow> None
   | Some a \<Rightarrow> Some (min (if owned_mature a \<ge> min_owned \<and> system_mature a \<ge> minsize then system_mature a else 0) m))"

text \<open>\<open>a || b\<close> on sizes\<close>

definition size_or :: "int option \<Rightarrow> int option \<Rightarrow> int option" where
  "size_or a b = (case a of None \<Rightarrow> None | Some n \<Rightarrow> if n \<noteq> 0 then a else b)"

definition size_min :: "int option \<Rightarrow> int option \<Rightarrow> int option" where
  "size_min a b = (case (a, b) of (Some x, Some y) \<Rightarrow> Some (min x y) | _ \<Rightarrow> None)"

definition size_max :: "int option \<Rightarrow> int option \<Rightarrow> int option" where
  "size_max a b = (case (a, b) of (Some x, Some y) \<Rightarrow> Some (max x y) | _ \<Rightarrow> None)"

text \<open>
  \<open>getOutputRingSize\<close> for the digit \<open>output\<close>; the parameter \<open>maxsize\<close> of the call is \<open>p\<close>. A number above ten, which is not a
  digit and does not occur, has no case that ends the recursion.
\<close>

function getOutputRingSize :: "bridge \<Rightarrow> int \<Rightarrow> int \<Rightarrow> nat \<Rightarrow> int \<Rightarrow> int option" where
  "getOutputRingSize br minsize m output p =
     (let ma = mature br minsize m in
      if output > 10 then None
      else if output = 0 then Some p
      else if output = 2 then size_or (ma 2) (getOutputRingSize br minsize m 3 p)
      else if output \<in> {6, 7, 8, 9} then size_or (size_min (ma 1) (ma 1)) (getOutputRingSize br minsize m (output + 1) p)
      else if output = 10 then ma 2
      else size_or (size_max (ma 1) (ma (int output))) 
        (getOutputRingSize br minsize m (if output = 1 then 3 else output + 1) p))"
  by pat_completeness auto
termination
  by (relation "measure (\<lambda>(br, minsize, m, output, p). 11 - output)") auto

declare getOutputRingSize.simps [simp del]

text \<open>
  The loop over the digits of an amount: \<open>test\<close> is \<open>10 ^ k\<close>, which doubles have up to \<open>10 ^ 22\<close>. A digit is
  \<open>parseInt((amount / test) % 10)\<close>, where a remainder below \<open>10 ^ -6\<close> has an exponent in its text. An exception in \<open>try\<close> leaves \<open>maxsize\<close> as it was; the
  \<open>finally\<close> part may throw itself. The result has \<open>maxsize\<close>, \<open>output\<close> and \<open>k\<close>.
\<close>

definition digit_at :: "int \<Rightarrow> nat \<Rightarrow> nat" where
  "digit_at amount k = (case fl_div amount (10 ^ k) of (m, j) \<Rightarrow> nat (parse_int_num (m mod (10 * 2 ^ j)) (2 ^ j)))"

definition ring_step :: "bridge \<Rightarrow> int \<Rightarrow> int \<Rightarrow> nat \<Rightarrow> int option" where
  "ring_step br minsize m output =
     (let m = (case getOutputRingSize br minsize m output m of None \<Rightarrow> m | Some n \<Rightarrow> n)
      in if m = 0 then mature br minsize m 1 else Some m)"

function ring_loop :: "bridge \<Rightarrow> int \<Rightarrow> int \<Rightarrow> nat \<Rightarrow> nat \<Rightarrow> int \<Rightarrow> (int \<times> nat \<times> nat) option" where
  "ring_loop br minsize amount k output m =
     (if amount \<ge> 10 ^ k \<and> m \<ge> minsize then
        let output = digit_at amount k in
        (case ring_step br minsize m output of
           None \<Rightarrow> None
         | Some m \<Rightarrow> ring_loop br minsize amount (k + 1) output m)
      else Some (m, output, k))"
  by pat_completeness auto
termination
  by (relation "measure (\<lambda>(br, minsize, amount, k, output, m). nat (amount + 1 - 10 ^ k))")
    (auto simp: nat_less_eq_zless)

declare ring_loop.simps [simp del]

datatype ring_result = RThrows | RShort nat int string | RSize int

definition ring_amount :: "unit_state \<Rightarrow> bridge \<Rightarrow> int \<Rightarrow> amount \<Rightarrow> int \<Rightarrow> (int \<times> nat \<times> nat) option" where
  "ring_amount u br minsize a m =
     (case a of AInt n \<Rightarrow> ring_loop br minsize n 0 0 m | _ \<Rightarrow> Some (m, 0, 0))"

text \<open>The recipients from \<open>i\<close> on: the warning of a recipient names the last coin value looked at.\<close>

fun ring_sizes :: "unit_state \<Rightarrow> bridge \<Rightarrow> int \<Rightarrow> send_page \<Rightarrow> nat list \<Rightarrow> int \<Rightarrow> ring_result" where
  "ring_sizes u br minsize sp [] m = RSize m"
| "ring_sizes u br minsize sp (i # is) m =
     (case ring_amount u br minsize (rc_parse u jq_object sp i) m of
        None \<Rightarrow> RThrows
      | Some (m, output, k) \<Rightarrow>
          if m < minsize
          then RShort i m (format_num (unit_mask u jq_object) (if k = 0 then 0 else fl_int (int output * 10 ^ (k - 1))))
          else ring_sizes u br minsize sp is m)"

definition suggestRingSize :: "unit_state \<Rightarrow> bridge \<Rightarrow> send_page \<Rightarrow> send_page option" where
  "suggestRingSize u br sp =
     (let minsize = (if opt_MinRingSize br = 0 then 3 else opt_MinRingSize br);
          maxsize = (if opt_MaxRingSize br = 0 then 50 else opt_MaxRingSize br)
      in case ring_sizes u br minsize sp [0..<sp_count sp] maxsize of
           RThrows \<Rightarrow> None
         | RSize m \<Rightarrow> Some (sp\<lparr>sp_ring_size := DS (int_str m), sp_warnings := filter (\<lambda>(i, _). sp_count sp \<le> i) (sp_warnings sp)\<rparr>)
         | RShort i m s \<Rightarrow> Some (map_recipient i (\<lambda>r. r\<lparr>rc_amount := invalid False (rc_amount r)\<rparr>)
             (sp\<lparr>sp_show_ring := True, sp_warnings := filter (\<lambda>(j, _). i < j) (sp_warnings sp) @ [(i, m, s)]\<rparr>)))"

section \<open>Sending\<close>

definition add_call :: "unit_state \<Rightarrow> send_page \<Rightarrow> nat \<Rightarrow> bcall" where
  "add_call u sp i = BAdd (rc_value (\<lambda>r. f_text (rc_pay r)) sp i) (rc_value rc_label sp i) (rc_value rc_narration sp i)
     (rc_parse u jq_object sp i) (sp_txn_type sp) (sp_ring_size sp)"

text \<open>One turn of the loop: the page, the log and whether the loop goes on.\<close>

definition send_one :: "unit_state \<Rightarrow> bridge \<Rightarrow> nat \<Rightarrow> send_page \<times> bcall list \<Rightarrow> (send_page \<times> bcall list) \<times> bool" where
  "send_one u br i = (\<lambda>(sp, log).
     let valid = br_validate br (rc_value (\<lambda>r. f_text (rc_pay r)) sp i);
         sp = map_recipient i (\<lambda>r. r\<lparr>rc_pay := invalid valid (rc_pay r)\<rparr>) sp;
         zero = amount_zero (rc_parse u DU sp i);
         sp = (if zero then map_recipient i (\<lambda>r. r\<lparr>rc_amount := invalid False (rc_amount r)\<rparr>) sp else sp)
     in if \<not> valid \<or> zero then ((sp, log), False)
        else ((sp, log @ [add_call u sp i]), br_add br log (add_call u sp i)))"

fun send_loop :: "unit_state \<Rightarrow> bridge \<Rightarrow> nat list \<Rightarrow> send_page \<times> bcall list \<Rightarrow> (send_page \<times> bcall list) \<times> bool" where
  "send_loop u br [] s = (s, True)"
| "send_loop u br (i # is) s =
     (let (s, go_on) = send_one u br i s in if go_on then send_loop u br is s else (s, False))"

definition sendCoins :: "unit_state \<Rightarrow> bridge \<Rightarrow> send_page \<times> bcall list \<Rightarrow> (send_page \<times> bcall list) option" where
  "sendCoins u br = (\<lambda>(sp, log).
     let log = log @ [BClear] in
     case (if opt_AutoRingSize br \<and> above_one (sp_txn_type sp) then suggestRingSize u br sp else Some sp) of
       None \<Rightarrow> None
     | Some sp \<Rightarrow>
         let ((sp, log), ok) = send_loop u br [0..<sp_count sp] (sp, log) in
         if \<not> ok then Some (sp, log)
         else
           let log' = log @ [BSend (sp_cc sp) (sp_change_address sp)] in
           Some (if br_send br log then clearRecipients u (sp, log') else (sp, log')))"

end
