(* ===== verification/UiSending.thy ===== *)
theory UiSending
  imports UiRing
begin

text \<open>
  Lemmas on the send page: what a loop over the recipients logs, and the bounds of the ring size.
\<close>

section \<open>Sending\<close>

text \<open>What the calls of a recipient depend on.\<close>

definition rc_sig :: "recipient \<Rightarrow> nat \<times> string \<times> string \<times> string \<times> string" where
  "rc_sig r = (rc_n r, f_text (rc_pay r), rc_label r, rc_narration r, f_text (rc_amount r))"

definition sp_sig :: "send_page \<Rightarrow> (nat \<times> string \<times> string \<times> string \<times> string) list \<times> nat \<times> dval \<times> dval \<times> bool \<times> string" where
  "sp_sig pg = (map rc_sig (sp_rows pg), sp_count pg, sp_txn_type pg, sp_ring_size pg, sp_cc pg, sp_change_address pg)"

lemma find_map_sig:
  "map rc_sig rs = map rc_sig rs' \<Longrightarrow>
     map_option rc_sig (find (\<lambda>r. rc_n r = n) rs) = map_option rc_sig (find (\<lambda>r. rc_n r = n) rs')"
proof (induction rs arbitrary: rs')
  case (Cons r rs)
  then obtain r' t where "rs' = r' # t" "rc_sig r = rc_sig r'" "map rc_sig rs = map rc_sig t" by (cases rs') auto
  moreover from this have "rc_n r = rc_n r'" by (simp add: rc_sig_def)
  ultimately show ?case using Cons.IH by simp
qed simp

lemma recipient_at_sig:
  "sp_sig pg = sp_sig pg' \<Longrightarrow> map_option rc_sig (recipient_at pg n) = map_option rc_sig (recipient_at pg' n)"
  using find_map_sig [of "sp_rows pg" "sp_rows pg'" n] by (simp add: sp_sig_def recipient_at_def)

lemma sig_values:
  assumes "sp_sig pg = sp_sig pg'"
  shows "rc_value (\<lambda>r. f_text (rc_pay r)) pg n = rc_value (\<lambda>r. f_text (rc_pay r)) pg' n"
    and "rc_parse u t pg n = rc_parse u t pg' n" and "add_call u pg n = add_call u pg' n"
proof -
  consider "recipient_at pg n = None" "recipient_at pg' n = None"
    | r r' where "recipient_at pg n = Some r" "recipient_at pg' n = Some r'" "rc_sig r = rc_sig r'"
    using recipient_at_sig [OF assms, of n] by (cases "recipient_at pg n"; cases "recipient_at pg' n") auto
  note c = this
  show "rc_value (\<lambda>r. f_text (rc_pay r)) pg n = rc_value (\<lambda>r. f_text (rc_pay r)) pg' n"
    using c by cases (simp_all add: rc_value_def rc_sig_def)
  show "rc_parse u t pg n = rc_parse u t pg' n" using c by cases (simp_all add: rc_parse_def rc_sig_def)
  have e: "sp_txn_type pg = sp_txn_type pg'" "sp_ring_size pg = sp_ring_size pg'" using assms by (simp_all add: sp_sig_def)
  from c show "add_call u pg n = add_call u pg' n"
    by cases (simp_all add: e add_call_def rc_value_def rc_parse_def rc_sig_def)
qed

lemma map_recipient_sig: "(\<And>r. rc_sig (f r) = rc_sig r) \<Longrightarrow> sp_sig (map_recipient n f pg) = sp_sig pg"
  by (simp add: sp_sig_def map_recipient_def comp_def)

lemma sig_invalid [simp]: "rc_sig (r\<lparr>rc_pay := invalid b (rc_pay r)\<rparr>) = rc_sig r"
  "rc_sig (r\<lparr>rc_amount := invalid b (rc_amount r)\<rparr>) = rc_sig r"
  by (simp_all add: rc_sig_def invalid_def)

text \<open>A recipient that can be sent to, and calls that the wallet accepts in order.\<close>

definition sendable :: "unit_state \<Rightarrow> bridge \<Rightarrow> send_page \<Rightarrow> nat \<Rightarrow> bool" where
  "sendable u br pg i \<longleftrightarrow> br_validate br (rc_value (\<lambda>r. f_text (rc_pay r)) pg i) \<and> \<not> amount_zero (rc_parse u DU pg i)"

fun accepted :: "bridge \<Rightarrow> bcall list \<Rightarrow> bcall list \<Rightarrow> bool" where
  "accepted br tr [] = True"
| "accepted br tr (c # cs) = (br_add br tr c \<and> accepted br (tr @ [c]) cs)"

lemma send_one_sig: "send_one u br i (pg, tr) = ((pg', tr'), ok) \<Longrightarrow> sp_sig pg' = sp_sig pg"
  by (auto simp: send_one_def Let_def map_recipient_sig split: if_splits)

lemma send_one_log:
  assumes "send_one u br i (pg, tr) = ((pg', tr'), ok)"
  shows "(if ok then sendable u br pg i \<and> br_add br tr (add_call u pg i) \<and> tr' = tr @ [add_call u pg i]
    else tr' = tr \<or> tr' = tr @ [add_call u pg i])"
proof -
  let ?f = "\<lambda>v r. r\<lparr>rc_pay := invalid v (rc_pay r)\<rparr>"
  have v: "sp_sig (map_recipient i (?f v) pg) = sp_sig pg" for v by (rule map_recipient_sig) simp
  show ?thesis
    using assms sig_values [OF v]
    by (auto simp: send_one_def Let_def sendable_def split: if_splits)
qed

lemma send_loop_sig: "send_loop u br is (pg, tr) = ((pg', tr'), ok) \<Longrightarrow> sp_sig pg' = sp_sig pg"
proof (induction "is" arbitrary: pg tr)
  case (Cons i js)
  obtain t lg b where t: "send_one u br i (pg, tr) = ((t, lg), b)" by (metis prod.exhaust)
  show ?case using Cons.prems Cons.IH [of t lg] send_one_sig [OF t] by (auto simp: t Let_def split: if_splits)
qed simp

lemma send_loop_log:
  "send_loop u br is (pg, tr) = ((pg', tr'), ok) \<Longrightarrow>
     (if ok then list_all (sendable u br pg) is \<and> accepted br tr (map (add_call u pg) is) \<and>
        tr' = tr @ map (add_call u pg) is
      else (\<exists>k. tr' = tr @ map (add_call u pg) (take k is)))"
proof (induction "is" arbitrary: pg tr)
  case (Cons i js)
  obtain t lg b where t: "send_one u br i (pg, tr) = ((t, lg), b)" by (metis prod.exhaust)
  have eq: "add_call u t = add_call u pg" "sendable u br t = sendable u br pg"
    using sig_values [OF send_one_sig [OF t]] by (auto simp: sendable_def fun_eq_iff)
  show ?case
  proof (cases b)
    case True
    then have l: "sendable u br pg i" "br_add br tr (add_call u pg i)" "lg = tr @ [add_call u pg i]"
      using send_one_log [OF t] by auto
    have r: "send_loop u br js (t, lg) = ((pg', tr'), ok)" using Cons.prems True by (simp add: t)
    show ?thesis
    proof (cases ok)
      case True
      then show ?thesis using Cons.IH [OF r] l by (simp add: eq)
    next
      case False
      then obtain k where "tr' = lg @ map (add_call u pg) (take k js)" using Cons.IH [OF r] eq by auto
      then have "tr' = tr @ map (add_call u pg) (take (Suc k) (i # js))" by (simp add: l)
      then show ?thesis using False by metis
    qed
  next
    case False
    then have e: "\<not> ok" "tr' = lg" using Cons.prems by (simp_all add: t)
    have "lg = tr @ map (add_call u pg) (take 0 (i # js)) \<or> lg = tr @ map (add_call u pg) (take 1 (i # js))"
      using send_one_log [OF t] False by auto
    then show ?thesis using e by metis
  qed
qed simp

lemma add_call_not_send: "BSend x y \<notin> set (map (add_call u pg) is)"
  by (auto simp: add_call_def)

definition ringed :: "unit_state \<Rightarrow> bridge \<Rightarrow> send_page \<Rightarrow> send_page option" where
  "ringed u br pg = (if opt_AutoRingSize br \<and> above_one (sp_txn_type pg) then suggestRingSize u br pg else Some pg)"

lemma sendCoins_log:
  assumes "sendCoins u br (pg, tr) = Some (pg', tr')" and "BSend x y \<in> set (drop (length tr) tr')"
  shows "\<exists>t. ringed u br pg = Some t \<and> list_all (sendable u br t) [0..<sp_count t] \<and>
    accepted br (tr @ [BClear]) (map (add_call u t) [0..<sp_count t]) \<and>
    take (length tr + 2 + sp_count t) tr' =
      tr @ [BClear] @ map (add_call u t) [0..<sp_count t] @ [BSend (sp_cc t) (sp_change_address t)]"
proof -
  obtain t where t: "ringed u br pg = Some t" using assms(1) by (auto simp: sendCoins_def ringed_def split: option.splits)
  obtain v lg ok where l: "send_loop u br [0..<sp_count t] (t, tr @ [BClear]) = ((v, lg), ok)" by (metis prod.exhaust)
  have s: "sp_sig v = sp_sig t" using send_loop_sig [OF l] .
  have r: "Some (pg', tr') = (if \<not> ok then Some (v, lg)
      else let tr' = lg @ [BSend (sp_cc v) (sp_change_address v)] in
        Some (if br_send br lg then clearRecipients u (v, tr') else (v, tr')))"
    using assms(1) t l by (simp add: sendCoins_def ringed_def)
  show ?thesis
  proof (cases ok)
    case False
    then obtain k where "lg = (tr @ [BClear]) @ map (add_call u t) (take k [0..<sp_count t])"
      using send_loop_log [OF l] by auto
    moreover have "tr' = lg" using r False by simp
    ultimately have "BSend x y \<in> set (BClear # map (add_call u t) (take k [0..<sp_count t]))" using assms(2) by simp
    then show ?thesis using add_call_not_send by auto
  next
    case True
    then have g: "list_all (sendable u br t) [0..<sp_count t]" "accepted br (tr @ [BClear]) (map (add_call u t) [0..<sp_count t])"
      "lg = (tr @ [BClear]) @ map (add_call u t) [0..<sp_count t]"
      using send_loop_log [OF l] by auto
    have "\<exists>r. tr' = lg @ [BSend (sp_cc v) (sp_change_address v)] @ r"
      using r True by (auto simp: Let_def clearRecipients_def addRecipient_def split: if_splits)
    then obtain r where "tr' = lg @ [BSend (sp_cc v) (sp_change_address v)] @ r" by blast
    then have "take (length tr + 2 + sp_count t) tr' = lg @ [BSend (sp_cc v) (sp_change_address v)]"
      by (simp add: g(3))
    then show ?thesis using g s t by (simp add: sp_sig_def)
  qed
qed

section \<open>Ring sizes\<close>

lemma mature_bound: "mature br lo m k = Some n \<Longrightarrow> n \<le> m"
  by (auto simp: mature_def split: option.splits)

lemma mature_declared: "br_anon br \<noteq> None \<Longrightarrow> \<exists>n. mature br lo m k = Some n"
  by (auto simp: mature_def)

lemma size_ops_bound:
  "size_or a b = Some n \<Longrightarrow> (\<And>x. a = Some x \<Longrightarrow> x \<le> m) \<Longrightarrow> (\<And>x. b = Some x \<Longrightarrow> x \<le> m) \<Longrightarrow> n \<le> (m :: int)"
  "size_min a b = Some n \<Longrightarrow> (\<And>x. a = Some x \<Longrightarrow> x \<le> m) \<Longrightarrow> (\<And>x. b = Some x \<Longrightarrow> x \<le> m) \<Longrightarrow> n \<le> m"
  "size_max a b = Some n \<Longrightarrow> (\<And>x. a = Some x \<Longrightarrow> x \<le> m) \<Longrightarrow> (\<And>x. b = Some x \<Longrightarrow> x \<le> m) \<Longrightarrow> n \<le> m"
  by (auto simp: size_or_def size_min_def size_max_def split: option.splits if_splits)

lemma getOutputRingSize_bound:
  "getOutputRingSize br lo m d p = Some n \<Longrightarrow> p \<le> m \<Longrightarrow> n \<le> m"
proof (induction br lo m d p arbitrary: n rule: getOutputRingSize.induct)
  case (1 br lo m d p)
  note b = mature_bound [of br lo m]
  show ?case
  proof (cases "d > 10 \<or> d = 0 \<or> d = 10")
    case True
    then show ?thesis using 1(4,5) b by (subst (asm) getOutputRingSize.simps) (auto split: if_splits)
  next
    case False
    then consider "d = 2" | "d \<in> {6, 7, 8, 9}" | "d \<notin> {2, 6, 7, 8, 9}" by blast
    then show ?thesis
    proof cases
      case 1
      then show ?thesis using "1.prems" "1.IH"(1) False b
        by (subst (asm) getOutputRingSize.simps) (auto simp: Let_def elim!: size_ops_bound(1))
    next
      case 2
      then show ?thesis using "1.prems" "1.IH"(2) False b
        by (subst (asm) getOutputRingSize.simps) (auto simp: Let_def elim!: size_ops_bound(1,2))
    next
      case 3
      then show ?thesis using "1.prems" "1.IH"(3) False b
        by (subst (asm) getOutputRingSize.simps) (auto simp: Let_def elim!: size_ops_bound(1,3))
    qed
  qed
qed

lemma size_ops_total:
  "\<exists>x. a = Some x \<Longrightarrow> \<exists>x. b = Some x \<Longrightarrow> \<exists>x. size_or a b = Some x"
  "\<exists>x. a = Some x \<Longrightarrow> \<exists>x. b = Some x \<Longrightarrow> \<exists>x. size_min a b = Some x"
  "\<exists>x. a = Some x \<Longrightarrow> \<exists>x. b = Some x \<Longrightarrow> \<exists>x. size_max a b = Some x"
  by (auto simp: size_or_def size_min_def size_max_def)

lemma getOutputRingSize_total:
  assumes "br_anon br \<noteq> None"
  shows "d \<le> 10 \<Longrightarrow> \<exists>n. getOutputRingSize br lo m d p = Some n"
proof (induction "10 - d" arbitrary: d rule: less_induct)
  case less
  note ma = mature_declared [OF assms]
  have up: "\<exists>n. getOutputRingSize br lo m e p = Some n" if "d < e" "e \<le> 10" for e
    using less(1) [of e] that by simp
  note ops = size_ops_total
  have n: "\<not> d > 10" using less(2) by simp
  consider "d = 0" | "d = 10" | "d = 2" | "d \<in> {6, 7, 8, 9}" | "d \<notin> {0, 2, 6, 7, 8, 9, 10}" by blast
  then show ?case
  proof cases
    case 3
    have "\<exists>x. size_or (mature br lo m 2) (getOutputRingSize br lo m 3 p) = Some x"
      using 3 by (intro ops ma up) simp_all
    then show ?thesis using 3 by (subst getOutputRingSize.simps) (simp add: Let_def)
  next
    case 4
    have "\<exists>x. size_or (size_min (mature br lo m 1) (mature br lo m 1)) (getOutputRingSize br lo m (d + 1) p) = Some x"
      using 4 by (intro ops ma up) auto
    moreover have "d \<noteq> 0" "d \<noteq> 2" using 4 by auto
    ultimately show ?thesis using 4 n by (subst getOutputRingSize.simps) (simp only: Let_def if_False if_True)
  next
    case 5
    have "\<exists>x. size_or (size_max (mature br lo m 1) (mature br lo m (int d)))
        (getOutputRingSize br lo m (if d = 1 then 3 else d + 1) p) = Some x"
      using 5 n by (intro ops ma up) auto
    moreover have "d \<noteq> 0" "d \<noteq> 2" "d \<notin> {6, 7, 8, 9}" "d \<noteq> 10" using 5 by auto
    ultimately show ?thesis using n by (subst getOutputRingSize.simps) (simp only: Let_def if_False)
  qed (use ma in \<open>subst getOutputRingSize.simps, simp add: Let_def\<close>)+
qed

lemma digit_at_bound: "digit_at a k \<le> 10"
proof -
  obtain m j where f: "fl_div a (10 ^ k) = (m, j)" by fastforce
  show ?thesis using parse_int_num_digit [of "2 ^ j" m] by (simp add: digit_at_def f)
qed

lemma ring_step_bound: "ring_step br lo m d = Some n \<Longrightarrow> n \<le> m"
proof -
  assume a: "ring_step br lo m d = Some n"
  let ?x = "case getOutputRingSize br lo m d m of None \<Rightarrow> m | Some n \<Rightarrow> n"
  have "?x \<le> m" using getOutputRingSize_bound [of br lo m d m] by (auto split: option.splits)
  then show ?thesis using a mature_bound [of br lo ?x 1] by (auto simp: ring_step_def Let_def split: if_splits)
qed

lemma ring_loop_bound: "ring_loop br lo a k d m = Some (n, d', k') \<Longrightarrow> n \<le> m"
proof (induction br lo a k d m rule: ring_loop.induct)
  case (1 br lo a k d m)
  show ?case
  proof (cases "10 ^ k \<le> a \<and> lo \<le> m")
    case True
    then obtain x where x: "ring_step br lo m (digit_at a k) = Some x" "ring_loop br lo a (k + 1) (digit_at a k) x = Some (n, d', k')"
      using 1(2) by (subst (asm) ring_loop.simps) (auto simp: Let_def split: option.splits)
    show ?thesis using 1(1) [OF True refl x] ring_step_bound [OF x(1)] by simp
  qed (use 1(2) in \<open>subst (asm) ring_loop.simps, auto\<close>)
qed

lemma ring_loop_total:
  "br_anon br \<noteq> None \<Longrightarrow> \<exists>r. ring_loop br lo a k d m = Some r"
proof (induction br lo a k d m rule: ring_loop.induct)
  case (1 br lo a k d m)
  have "\<exists>x. ring_step br lo m (digit_at a k) = Some x"
    using mature_declared [OF 1(2)] by (auto simp: ring_step_def Let_def)
  then show ?case using 1 by (subst ring_loop.simps) (auto simp: Let_def)
qed

lemma ring_amount_bound: "ring_amount u br lo a m = Some (n, d, k) \<Longrightarrow> n \<le> m"
  using ring_loop_bound by (auto simp: ring_amount_def split: amount.splits)

lemma ring_sizes_bounds:
  "br_anon br \<noteq> None \<Longrightarrow> lo \<le> m \<Longrightarrow> (case ring_sizes u br lo pg is m of
     RThrows \<Rightarrow> False | RShort i n s \<Rightarrow> i \<in> set is \<and> n < lo | RSize n \<Rightarrow> lo \<le> n \<and> n \<le> m)"
proof (induction "is" arbitrary: m)
  case (Cons i js)
  have "\<exists>r. ring_amount u br lo (rc_parse u jq_object pg i) m = Some r"
    using ring_loop_total [OF Cons.prems(1)] by (auto simp: ring_amount_def split: amount.split)
  then obtain n d k where r: "ring_amount u br lo (rc_parse u jq_object pg i) m = Some (n, d, k)" by auto
  show ?case
  proof (cases "n < lo")
    case False
    then show ?thesis using Cons.IH [of n] Cons.prems ring_amount_bound [OF r] r
      by (auto split: ring_result.splits)
  qed (simp add: r)
qed simp

text \<open>Without the variable every digit but zero ends in an exception that is caught.\<close>

lemma ring_undeclared_step: "br_anon br = None \<Longrightarrow> 0 < m \<Longrightarrow> ring_step br lo m d = Some m"
proof -
  assume a: "br_anon br = None" "0 < m"
  then have "mature br lo m k = None" for k by (simp add: mature_def)
  then have "getOutputRingSize br lo m d m = None \<or> getOutputRingSize br lo m d m = Some m"
    by (subst (1 2) getOutputRingSize.simps) (auto simp: Let_def size_or_def size_min_def size_max_def)
  then show ?thesis using a(2) by (auto simp: ring_step_def Let_def)
qed

lemma ring_undeclared_loop:
  "br_anon br = None \<Longrightarrow> 0 < m \<Longrightarrow> lo \<le> m \<Longrightarrow> \<exists>d' k'. ring_loop br lo a k d m = Some (m, d', k')"
proof (induction br lo a k d m rule: ring_loop.induct)
  case (1 br lo a k d m)
  then show ?case using ring_undeclared_step [OF 1(2,3), of lo "digit_at a k"]
    by (subst ring_loop.simps) (auto simp: Let_def)
qed

lemma ring_undeclared:
  "br_anon br = None \<Longrightarrow> 0 < m \<Longrightarrow> lo \<le> m \<Longrightarrow> ring_sizes u br lo pg is m = RSize m"
proof (induction "is")
  case (Cons i js)
  have "\<exists>d k. ring_amount u br lo (rc_parse u jq_object pg i) m = Some (m, d, k)"
    using ring_undeclared_loop [OF Cons.prems] by (auto simp: ring_amount_def split: amount.split)
  then show ?case using Cons by auto
qed simp

end
