(* ===== verification/UiOverview.thy ===== *)
theory UiOverview
  imports UiUnit
begin

text \<open>
  Menus, pages and the overview page of \<open>src/src/qt/res/js/main.js\<close>: which context menu is open, which page is
  shown, the balances and the list of recent transactions.
\<close>

section \<open>Context menus\<close>

text \<open>
  \<open>cm_list\<close> is \<open>contextMenus\<close>, \<open>cm_open\<close> the menus whose \<open>isOpen\<close> is 1, \<open>cm_closed\<close> the menus whose method \<open>close\<close>
  has been called, in this order. A menu is a number.
\<close>

record menus =
  cm_list :: "nat list"
  cm_open :: "nat list"
  cm_closed :: "nat list"

definition openContextMenu :: "bool \<Rightarrow> nat \<Rightarrow> menus \<Rightarrow> menus" where
  "openContextMenu has_close el s =
     (let s = (if el \<in> set (cm_list s) then s else s\<lparr>cm_list := cm_list s @ [el]\<rparr>);
          s = (if el \<in> set (cm_open s)
            then s\<lparr>cm_open := removeAll el (cm_open s),
                cm_closed := (if has_close then cm_closed s @ [el] else cm_closed s)\<rparr>
            else s)
      in s\<lparr>cm_open := filter (\<lambda>m. m \<notin> set (cm_list s)) (cm_open s) @ [el]\<rparr>)"

definition onClose :: "nat \<Rightarrow> menus \<Rightarrow> menus" where
  "onClose el s = s\<lparr>cm_open := removeAll el (cm_open s)\<rparr>"

section \<open>Pages\<close>

text \<open>The links of the navigation and the articles, with the flags selected and shown.\<close>

record pages =
  pg_nav :: "(string \<times> bool) list"
  pg_articles :: "(string \<times> bool) list"
  pg_prev :: "string list"

definition changePage :: "string \<Rightarrow> pages \<Rightarrow> pages" where
  "changePage href p =
     (let p = p\<lparr>pg_prev := map fst (filter snd (pg_nav p)), pg_nav := map (\<lambda>(h, _). (h, h = href)) (pg_nav p)\<rparr>
      in if length (filter (\<lambda>(a, _). CHR 0x23 # a = href) (pg_articles p)) = 1
         then p\<lparr>pg_articles := map (\<lambda>(a, _). (a, CHR 0x23 # a = href)) (pg_articles p)\<rparr>
         else p)"

definition networkAlert :: "string \<Rightarrow> string \<times> bool" where
  "networkAlert alert = (alert, alert \<noteq> [])"

text \<open>\<open>copy\<close>: \<open>txt\<close> is the text of the element, \<open>None\<close> when the selector throws; \<open>attr\<close> looks up an attribute.\<close>

definition copy_value :: "string \<Rightarrow> string option \<Rightarrow> string option \<Rightarrow> (string \<Rightarrow> dval) \<Rightarrow> dval" where
  "copy_value field txt attribute attr =
     (case attribute of
        Some a \<Rightarrow> if a = ''copy'' then DS field else attr a
      | None \<Rightarrow> (case txt of Some s \<Rightarrow> DS s | None \<Rightarrow> DS []))"

section \<open>Balances\<close>

datatype ovname = Fbalance | FtokenBal | Freserved | Fstake | Funconfirmed | Fimmature | Ftotal

record ovfield =
  ov_text :: string
  ov_shown :: bool

text \<open>\<open>ov_orig\<close> are the values kept in the elements: balance, tokens, stake, unconfirmed and immature.\<close>

record overview =
  ov_orig :: "amount \<times> amount \<times> amount \<times> amount \<times> amount"
  ov_fields :: "(ovname \<times> ovfield) list"
  total_big :: "string \<times> string"
  staking_big :: "string \<times> string"
  not_staking :: bool

text \<open>The two parts of a large amount; without a point the second part stays as it was.\<close>

definition set_big :: "string \<Rightarrow> string \<times> string \<Rightarrow> string \<times> string" where
  "set_big s old = (case split_char (CHR 0x2E) s of
     a # b # _ \<Rightarrow> (a, b) | [a] \<Rightarrow> (a, snd old) | [] \<Rightarrow> old)"

definition ov_get :: "ovname \<Rightarrow> overview \<Rightarrow> ovfield" where
  "ov_get k ov = (case map_of (ov_fields ov) k of Some f \<Rightarrow> f | None \<Rightarrow> \<lparr>ov_text = [], ov_shown = True\<rparr>)"

definition formatValue :: "unit_state \<Rightarrow> ovname \<Rightarrow> amount \<Rightarrow> overview \<Rightarrow> overview" where
  "formatValue u k v ov =
     (let txt = unit_format u v DU;
          ov = (case (k, v, txt) of
              (Ftotal, AInt n, Some s) \<Rightarrow> ov\<lparr>total_big := set_big s (total_big ov)\<rparr>
            | _ \<Rightarrow> ov);
          ov = (case (k, v, txt) of
              (Fstake, AInt n, Some s) \<Rightarrow> ov\<lparr>not_staking := (n = 0), staking_big := set_big s (staking_big ov)\<rparr>
            | _ \<Rightarrow> ov);
          f = ov_get k ov;
          f = (if amount_zero v then \<lparr>ov_text = [], ov_shown = False\<rparr>
            else \<lparr>ov_text = (case txt of Some s \<Rightarrow> s | None \<Rightarrow> ov_text f), ov_shown = True\<rparr>)
      in ov\<lparr>ov_fields := AList.update k f (ov_fields ov)\<rparr>)"

definition updateBalance :: "unit_state \<Rightarrow> (int \<times> int \<times> int \<times> int \<times> int) option \<Rightarrow> overview \<Rightarrow> overview" where
  "updateBalance u args ov =
     (let ov = (case args of None \<Rightarrow> ov
          | Some (b, t, s, un, im) \<Rightarrow> ov\<lparr>ov_orig := (AInt b, AInt t, AInt s, AInt un, AInt im)\<rparr>)
      in case ov_orig ov of (b, t, s, un, im) \<Rightarrow>
           formatValue u Ftotal (amount_add (amount_add (amount_add b s) un) im)
             (formatValue u Fimmature im (formatValue u Funconfirmed un (formatValue u Fstake s
               (formatValue u FtokenBal t (formatValue u Fbalance b ov))))))"

definition updateReserved :: "unit_state \<Rightarrow> int \<Rightarrow> overview \<Rightarrow> overview" where
  "updateReserved u r = formatValue u Freserved (AInt r)"

text \<open>A change of the display unit with the update of the balances.\<close>

definition setType :: "int option \<Rightarrow> unit_state \<times> overview \<Rightarrow> unit_state \<times> overview" where
  "setType t = (\<lambda>(u, ov). let u = unit_setType t u in (u, updateBalance u None ov))"

section \<open>Recent transactions\<close>

text \<open>A transaction is the object that the wallet sends; an entry of the list has what is shown of it.\<close>

record rentry =
  re_sid :: string
  re_id :: string
  re_title :: string
  re_class :: string
  re_icon :: string
  re_amount :: string
  re_unit :: string
  re_date :: string
  re_shown :: string

definition recent_entry :: "unit_state \<Rightarrow> data \<Rightarrow> rentry" where
  "recent_entry u tx =
     (let t = dget tx ''t'' in
      \<lparr>re_sid = take 17 (dstr (dget tx ''id'')), re_id = dstr (dget tx ''id''), re_title = dstr (dget tx ''tt''),
       re_class = (if t = DS ''input'' then ''received'' else if t = DS ''output'' then ''sent''
         else if t = DS ''inout'' then ''self'' else ''stake''),
       re_icon = (if t = DS ''input'' then ''angle-left'' else if t = DS ''output'' then ''angle-right''
         else if t = DS ''inout'' then ''angle-down'' else ''money''),
       re_amount = (case parse_num (dstr (dget tx ''am'')) of
           Some n \<Rightarrow> to_fixed (unit_mask u DU) n | None \<Rightarrow> ''undefined''),
       re_unit = u_display u, re_date = dstr (dget tx ''d''), re_shown = dstr (dget tx ''d_s'')\<rparr>)"

definition later :: "rentry \<Rightarrow> rentry \<Rightarrow> bool" where
  "later a b = (case (parse_int (re_date a), parse_int (re_date b)) of
     (Some x, Some y) \<Rightarrow> x > y | _ \<Rightarrow> False)"

text \<open>Before the first entry that is older, or at the end.\<close>

fun insert_recent :: "rentry \<Rightarrow> rentry list \<Rightarrow> rentry list" where
  "insert_recent e [] = [e]"
| "insert_recent e (x # xs) = (if later e x then e # x # xs else x # insert_recent e xs)"

text \<open>An entry with the identifier only gets the new title; the list keeps its first seven entries.\<close>

definition updateTransaction :: "unit_state \<Rightarrow> data \<Rightarrow> rentry list \<Rightarrow> rentry list" where
  "updateTransaction u tx es =
     (let e = recent_entry u tx in
      if re_sid e \<in> set (map re_sid es)
      then map (\<lambda>x. if re_sid x = re_sid e then x\<lparr>re_title := re_title e\<rparr> else x) es
      else take 7 (insert_recent e es))"

definition recent :: "unit_state \<Rightarrow> data list \<Rightarrow> rentry list \<Rightarrow> rentry list" where
  "recent u txs es = foldl (\<lambda>es tx. updateTransaction u tx es) es txs"

text \<open>\<open>build.replace(/\-[\w\d]*$/, '')\<close>: the version without what follows its last hyphen.\<close>

definition word_char :: "char \<Rightarrow> bool" where
  "word_char c \<longleftrightarrow> is_dig c \<or> c = CHR 0x5F \<or> (of_char c :: nat) \<in> {65..90} \<or> (of_char c :: nat) \<in> {97..122}"

definition version_text :: "string \<Rightarrow> string" where
  "version_text s = (case dropWhile word_char (rev s) of
     c # r \<Rightarrow> if c = CHR 0x2D then rev r else s
   | [] \<Rightarrow> s)"

end
