(* ===== verification/UiOptions.thy ===== *)
theory UiOptions
  imports UiUnit
begin

text \<open>
  \<open>optionsPage\<close> of \<open>src/src/qt/res/js/main.js\<close>: the options of the wallet are put into the elements of the page and
  read back. An element is found by the name of its option; a value of an option is a number, a string, a
  truth value, absent, or an array of strings.
\<close>

section \<open>Elements\<close>

text \<open>A box with the elements linked to it, a list that allows several choices, a list, or an input.\<close>

datatype opt_elem =
    Checkbox bool "string list"
  | Multi "(string \<times> bool) list"
  | Choice "string list" "string option"
  | Input string

text \<open>The choices that the wallet offers for an option: a property is a choice or a group of choices.\<close>

datatype opt_choice = OText string | OGroup "string list"

text \<open>\<open>op_disabled\<close> are the identifiers that are disabled, \<open>op_clean\<close> tells whether the buttons are.\<close>

record opt_page =
  op_elems :: "(string \<times> opt_elem) list"
  op_disabled :: "string list"
  op_clean :: bool

type_synonym opt_choices = "(string \<times> (string \<times> opt_choice) list) list"

text \<open>The values of the options in the list: a choice under a name that is no number has the name as its value.\<close>

definition choice_values :: "string \<times> opt_choice \<Rightarrow> string list" where
  "choice_values c = (case c of
     (p, OText s) \<Rightarrow> [if is_numeric p then s else p]
   | (p, OGroup ss) \<Rightarrow> if is_numeric p then [join_str '','' ss] else ss)"

definition fill_choices :: "(string \<times> opt_choice) list \<Rightarrow> opt_elem \<Rightarrow> opt_elem" where
  "fill_choices cs e =
     (let vs = concat (map choice_values cs) in
      case e of
        Multi _ \<Rightarrow> Multi (map (\<lambda>v. (v, False)) vs)
      | Choice _ _ \<Rightarrow> Choice vs (case vs of [] \<Rightarrow> None | v # _ \<Rightarrow> Some v)
      | _ \<Rightarrow> e)"

text \<open>A value of an option, and what an element gives: \<open>NNull\<close> is the value of a list without a choice.\<close>

datatype nval = NVal dval | NArr "string list" | NNull

type_synonym opt_values = "(string \<times> nval) list"

text \<open>What is compared with \<open>==\<close>: an array as its text, \<open>null\<close> as \<open>undefined\<close>.\<close>

definition prim :: "nval \<Rightarrow> dval" where
  "prim v = (case v of NVal d \<Rightarrow> d | NArr ss \<Rightarrow> DS (join_str '','' ss) | NNull \<Rightarrow> DU)"

text \<open>\<open>value == true || value == "true"\<close>\<close>

definition is_on :: "dval \<Rightarrow> bool" where
  "is_on v \<longleftrightarrow> dnum v = Some 1 \<or> v = DS ''true''"

text \<open>The values that \<open>val(value)\<close> looks for in a list, from its last choice to the first.\<close>

definition select_key :: "dval \<Rightarrow> string option" where
  "select_key v = (case v of DU \<Rightarrow> Some [] | DB _ \<Rightarrow> None | DN n \<Rightarrow> Some (num_str n) | DS s \<Rightarrow> Some s)"

definition keys_of :: "nval \<Rightarrow> string list" where
  "keys_of v = (case v of NArr ss \<Rightarrow> ss | _ \<Rightarrow> (case select_key (prim v) of Some k \<Rightarrow> [k] | None \<Rightarrow> []))"

definition set_value :: "nval \<Rightarrow> opt_elem \<Rightarrow> opt_elem" where
  "set_value v e = (case e of
     Checkbox _ linked \<Rightarrow> Checkbox (is_on (prim v)) linked
   | Multi opts \<Rightarrow> Multi (map (\<lambda>(o', _). (o', prim v = DS ''*'' \<or> o' \<in> set (keys_of v))) opts)
   | Choice opts _ \<Rightarrow> Choice opts (List.find (\<lambda>o'. o' \<in> set (keys_of v)) opts)
   | Input _ \<Rightarrow> Input (if prim v = DU then [] else dstr (prim v)))"

definition toggleLinked :: "opt_elem \<Rightarrow> string list \<Rightarrow> string list" where
  "toggleLinked e disabled = (case e of
     Checkbox on linked \<Rightarrow>
       if on then filter (\<lambda>i. i \<notin> set linked) disabled
       else disabled @ filter (\<lambda>i. i \<notin> set disabled) linked
   | _ \<Rightarrow> disabled)"

section \<open>Update\<close>

definition update_option :: "opt_choices \<Rightarrow> string \<times> nval \<Rightarrow> opt_page \<Rightarrow> opt_page" where
  "update_option choices o' p = (case map_of (op_elems p) (fst o') of
     None \<Rightarrow> p
   | Some e \<Rightarrow>
       let e = (case map_of choices (fst o') of None \<Rightarrow> e | Some cs \<Rightarrow> fill_choices cs e);
           e = set_value (snd o') e
       in p\<lparr>op_elems := AList.update (fst o') e (op_elems p), op_disabled := toggleLinked e (op_disabled p)\<rparr>)"

definition opt_update :: "opt_choices \<Rightarrow> opt_values \<Rightarrow> opt_page \<Rightarrow> opt_page" where
  "opt_update choices options p =
     foldl (\<lambda>p o'. update_option choices o' p) (p\<lparr>op_clean := True\<rparr>) options"

section \<open>Save\<close>

definition read_value :: "opt_elem \<Rightarrow> nval" where
  "read_value e = (case e of
     Checkbox b _ \<Rightarrow> NVal (DB b)
   | Multi opts \<Rightarrow> if list_all snd opts then NVal (DS ''*'')
       else if list_ex snd opts then NArr (map fst (filter snd opts)) else NNull
   | Choice _ (Some s) \<Rightarrow> NVal (DS s)
   | Choice _ None \<Rightarrow> NNull
   | Input s \<Rightarrow> NVal (DS s))"

text \<open>\<open>a == b\<close>\<close>

fun js_eq :: "dval \<Rightarrow> dval \<Rightarrow> bool" where
  "js_eq DU b = (b = DU)"
| "js_eq a DU = False"
| "js_eq (DS a) (DS b) = (a = b)"
| "js_eq a b = (case (dnum a, dnum b) of (Some x, Some y) \<Rightarrow> x = y | _ \<Rightarrow> False)"

definition old_value :: "dval \<Rightarrow> dval" where
  "old_value v = (if v = DU \<or> v = DS ''false'' then DB False else v)"

text \<open>
  Whether a value has changed: no value has no \<open>toString\<close>. Two arrays are never equal, but their texts may be.
\<close>

definition value_changed :: "dval \<Rightarrow> nval \<Rightarrow> jserr + bool" where
  "value_changed v n = (case n of
     NNull \<Rightarrow> Inl TypeErr
   | NArr ss \<Rightarrow> Inr (let s = DS (join_str '','' ss) in \<not> js_eq (old_value v) s \<and> dstr (old_value v) \<noteq> dstr s)
   | NVal d \<Rightarrow> Inr (\<not> js_eq (old_value v) d \<and> dstr (old_value v) \<noteq> dstr d))"

fun changed_options :: "opt_page \<Rightarrow> opt_values \<Rightarrow> jserr + (string \<times> nval) list" where
  "changed_options p [] = Inr []"
| "changed_options p ((k, v) # os) = (case map_of (op_elems p) k of
     None \<Rightarrow> changed_options p os
   | Some e \<Rightarrow> sbind (value_changed (prim v) (read_value e)) (\<lambda>c.
       sbind (changed_options p os) (\<lambda>cs. Inr (if c then (k, read_value e) # cs else cs))))"

text \<open>
  \<open>save\<close>: the changes that are sent, the page after them and whether the transaction type is looked at again;
  \<open>accept\<close> stands for the wallet, whose options may change.
\<close>

definition opt_save ::
  "opt_choices \<Rightarrow> (opt_values \<Rightarrow> opt_values) \<Rightarrow> opt_values \<Rightarrow> opt_page \<Rightarrow> jserr + opt_values \<times> opt_page \<times> bool" where
  "opt_save choices accept options p =
     sbind (changed_options p options) (\<lambda>changed.
       if changed = [] then Inr ([], p, False)
       else Inr (changed, opt_update choices (accept changed) p, ''AutoRingSize'' \<in> set (map fst changed)))"

end
