(* ===== verification/UiTx.thy ===== *)
theory UiTx
  imports UiOverview UiOptions FtPaginate FtSort
begin

text \<open>
  The transactions page of \<open>src/src/qt/res/js/main.js\<close>: the transactions of the wallet, the ones that match the
  filter, their order and their pages in the table. A transaction is an object without \<open>null\<close>
  properties; what \<open>NaN\<close> is as a date is written as a text.
\<close>

section \<open>State\<close>

text \<open>
  \<open>tx_all\<close> is \<open>Transactions\<close>, \<open>tx_filtered\<close> is \<open>filteredTransactions\<close>, and \<open>tx_shared\<close> tells whether both are the same
  array. \<open>tx_filter\<close> is the text of the filter input, \<open>tx_body\<close> the rows of the table.
\<close>

record tx_page =
  tx_all :: "data list"
  tx_filtered :: "data list"
  tx_shared :: bool
  tx_filter :: string
  tx_body :: "string list"
  tx_recent :: "rentry list"

definition tx_str :: "data \<Rightarrow> string \<Rightarrow> string" where
  "tx_str tx k = dstr (dget tx k)"

definition quoted :: "string \<Rightarrow> string" where
  "quoted s = [CHR 0x27] @ s @ [CHR 0x27]"

definition spaces :: "nat \<Rightarrow> string" where
  "spaces n = replicate n CHR 0x20"

definition formatTransaction :: "data \<Rightarrow> string" where
  "formatTransaction tx =
     (let g = tx_str tx in
      ''<tr id='' @ quoted (g ''id'') @ '' data-title='' @ quoted (g ''tt'') @ ''>'' @ spaces 20 @
      ''<td data-value='' @ quoted (g ''c'') @ ''><i class='' @ quoted (''fa fa-lg '' @ g ''s'' @ '' margin-right-10'') @ ''></td>'' @ spaces 20 @
      ''<td data-value='' @ quoted (g ''d'') @ ''>'' @ g ''d_s'' @ ''</td>'' @ spaces 20 @
      ''<td>'' @ g ''t_l'' @ ''</td>'' @ spaces 20 @
      ''<td class='' @ quoted ''address'' @ '' style='' @ quoted (''color:'' @ g ''a_c'' @ '';'') @ '' data-value='' @ quoted (g ''ad'') @
      '' data-label='' @ quoted (g ''ad_l'') @ ''><img src='' @ quoted (''qrc:///icons/tx_'' @ g ''t'') @ '' /><span class='' @ quoted ''editable'' @ ''>'' @
      g ''ad_d'' @ ''</span></td>'' @ spaces 20 @
      ''<td>'' @ g ''n'' @ ''</td>'' @ spaces 20 @
      ''<td class='' @ quoted ''amount'' @ '' style='' @ quoted (''color:'' @ g ''am_c'' @ '';'') @ '' data-value='' @ quoted (g ''am'') @ ''>'' @
      g ''am_d'' @ ''</td>'' @ spaces 17 @ ''</tr>'')"

section \<open>Filter\<close>

definition tx_matches :: "string \<Rightarrow> data \<Rightarrow> bool" where
  "tx_matches f tx = list_ex (\<lambda>(k, v). contains (lower (dstr v)) (lower f)) tx"

text \<open>The handler of the event before filtering.\<close>

definition tx_filtering :: "bool \<Rightarrow> string \<Rightarrow> tx_page \<Rightarrow> tx_page" where
  "tx_filtering clear f t =
     (if clear then t else t\<lparr>tx_filtered := filter (tx_matches f) (tx_all t), tx_shared := False\<rparr>)"

definition visibleTransactions :: "string list \<Rightarrow> tx_page \<Rightarrow> tx_page" where
  "visibleTransactions visible t =
     (if (case visible of v # _ \<Rightarrow> v = ''*'' | [] \<Rightarrow> False) then t
      else t\<lparr>tx_all := filter (\<lambda>tx. dget tx ''t_l'' \<in> DS ` set visible) (tx_all t), tx_shared := False\<rparr>)"

section \<open>Order and pages\<close>

text \<open>The property and the sorter for the column that the table is sorted by.\<close>

definition sort_key :: "dval \<Rightarrow> string \<times> (dval \<Rightarrow> dval \<Rightarrow> int)" where
  "sort_key d =
     (if d = DN 0 then (''c'', sorter_numeric)
      else if d = DN 2 then (''t_l'', sorter_alpha)
      else if d = DN 3 then (''ad'', sorter_alpha)
      else if d = DN 4 then (''n'', sorter_alpha)
      else if d = DN 5 then (''am'', sorter_numeric)
      else (''d'', sorter_numeric))"

definition sort_transactions :: "dval \<Rightarrow> bool \<Rightarrow> data list \<Rightarrow> data list" where
  "sort_transactions sorted_col asc txs =
     (case sort_key sorted_col of (k, cmp) \<Rightarrow>
        js_sort (\<lambda>a b. if asc then cmp (dget a k) (dget b k) else cmp (dget b k) (dget a k)) txs)"

text \<open>How many pages the handler makes: \<open>Math.ceil(length / pageSize)\<close>, each a list of \<open>pageSize\<close> empty lists.\<close>

definition add_pages :: "nat \<Rightarrow> nat \<Rightarrow> nat" where
  "add_pages n sz = (if sz = 0 then 0 else (n + sz - 1) div sz)"

definition tx_create_pages :: "dval \<Rightarrow> bool \<Rightarrow> nat \<Rightarrow> tx_page \<Rightarrow> tx_page \<times> nat" where
  "tx_create_pages sorted_col asc sz t =
     (let t = (if tx_filter t = [] then t\<lparr>tx_filtered := tx_all t, tx_shared := True\<rparr> else t);
          txs = sort_transactions sorted_col asc (tx_filtered t);
          t = t\<lparr>tx_filtered := txs, tx_all := (if tx_shared t then txs else tx_all t)\<rparr>
      in (t, add_pages (length txs) sz))"

text \<open>
  \<open>createPages\<close> of the paginate plugin with this handler: the pages of the rows on display are thrown away but for the
  last one, which is pushed after the event. An empty page stands for a page of the handler.
\<close>

definition tx_pages :: "dval \<Rightarrow> bool \<Rightarrow> nat \<Rightarrow> tx_page \<Rightarrow> tx_page \<times> nat list list" where
  "tx_pages sorted_col asc sz t =
     (let n = length (tx_body t);
          last_page = snd (pages_loop n (of_nat sz) 0 1 [] [] [] [0..<n]);
          (t, k) = tx_create_pages sorted_col asc sz t
      in (t, replicate k [] @ (if last_page \<noteq> [] then [last_page] else [])))"

text \<open>The handler of the event before paging: the slice of the page, whose transactions keep their row as a property.\<close>

definition page_slice :: "nat \<Rightarrow> nat \<Rightarrow> 'a list \<Rightarrow> 'a list" where
  "page_slice page sz xs = take sz (drop (page * sz) xs)"

definition with_html :: "data \<Rightarrow> data" where
  "with_html tx = AList.update ''html'' (DS (formatTransaction tx)) tx"

definition tx_paging :: "nat \<Rightarrow> nat \<Rightarrow> tx_page \<Rightarrow> tx_page" where
  "tx_paging page sz t =
     (let txs = page_slice page sz (tx_filtered t);
          ids = set (map (\<lambda>tx. tx_str tx ''id'') txs);
          mark = map (\<lambda>tx. if tx_str tx ''id'' \<in> ids then with_html tx else tx)
      in t\<lparr>tx_body := map (\<lambda>tx. tx_str tx ''id'') txs, tx_all := mark (tx_all t), tx_filtered := mark (tx_filtered t)\<rparr>)"

section \<open>New transactions\<close>

text \<open>\<open>transactions.replace(/,\]$/, "]")\<close>\<close>

definition fix_json :: "string \<Rightarrow> string" where
  "fix_json s = (case rev s of
     c # d # r \<Rightarrow> if c = CHR 0x5D \<and> d = CHR 0x2C then rev r @ [CHR 0x5D] else s
   | _ \<Rightarrow> s)"

text \<open>The dates become numbers while the comparison function runs, which it does for two transactions or more.\<close>

definition date_num :: "data \<Rightarrow> data" where
  "date_num tx = AList.update ''d'' (case parse_int (tx_str tx ''d'') of
     Some n \<Rightarrow> DN (of_int n) | None \<Rightarrow> DS ''NaN'') tx"

definition by_date :: "data \<Rightarrow> data \<Rightarrow> int" where
  "by_date a b = (case (dnum (dget a ''d''), dnum (dget b ''d'')) of
     (Some x, Some y) \<Rightarrow> if y < x then -1 else if x < y then 1 else 0
   | _ \<Rightarrow> 0)"

definition sort_by_date :: "data list \<Rightarrow> data list" where
  "sort_by_date txs = (if length txs \<le> 1 then txs else js_sort by_date (map date_num txs))"

definition same_id :: "data \<Rightarrow> data \<Rightarrow> bool" where
  "same_id a b = js_eq (dget a ''id'') (dget b ''id'')"

definition add_transactions :: "unit_state \<Rightarrow> data list \<Rightarrow> tx_page \<Rightarrow> tx_page" where
  "add_transactions u txs t =
     (if length txs = 1 \<and> js_eq (dget (hd txs) ''id'') (DN (-1)) then t
      else
        let txs = sort_by_date txs in
        t\<lparr>tx_all := filter (\<lambda>tx. \<not> list_ex (\<lambda>n. same_id n tx) txs) (tx_all t) @ txs, tx_shared := False,
          tx_recent := recent u (take 7 txs) (tx_recent t)\<rparr>)"

text \<open>\<open>parse\<close> is \<open>JSON.parse\<close>.\<close>

definition appendTransactions ::
  "(string \<Rightarrow> jserr + data list) \<Rightarrow> unit_state \<Rightarrow> string + data list \<Rightarrow> tx_page \<Rightarrow> jserr + tx_page" where
  "appendTransactions parse u transactions t = (case transactions of
     Inl s \<Rightarrow> if s = ''[]'' then Inr t
       else sbind (parse (fix_json s)) (\<lambda>txs. Inr (add_transactions u txs t))
   | Inr txs \<Rightarrow> Inr (add_transactions u txs t))"

end
