(* ===== verification/UiMsg.thy ===== *)
theory UiMsg
  imports JqDom
begin

text \<open>
  Contacts and messages of \<open>src/src/qt/res/js/main.js\<close>. The wallet's answers to \<open>markMessageAsRead\<close>,
  \<open>deleteMessage\<close> and \<open>sendMessage\<close> are parameters; scrolling and the text of a message as HTML are not
  represented.
\<close>

section \<open>State\<close>

record message =
  m_id :: string
  m_them :: string
  m_self :: string
  m_text :: string
  m_type :: string
  m_sent :: int
  m_received :: int
  m_read :: bool

record contact =
  ct_label :: string
  ct_messages :: "message list"

text \<open>An entry of the list of contacts: its key and the number it shows.\<close>

record centry =
  ce_key :: string
  ce_label :: string
  ce_address :: string
  ce_unread :: int
  ce_selected :: bool

text \<open>
  \<open>ms_count\<close> and \<open>ms_count_shown\<close> are the element \<open>message-count\<close>, \<open>ms_discussion\<close> the messages on display,
  \<open>ms_from\<close> and \<open>ms_to\<close> the addresses of the next message.
\<close>

record msgs =
  ms_contacts :: "(string \<times> contact) list"
  ms_list :: "centry list"
  ms_in_conversation :: bool
  ms_notifications :: bool
  ms_count :: int
  ms_count_shown :: bool
  ms_discussion :: "string list"
  ms_from :: string
  ms_to :: string
  ms_text :: string

definition unread :: "message \<Rightarrow> bool" where
  "unread m \<longleftrightarrow> m_type m = ''R'' \<and> \<not> m_read m"

definition unread_count :: "contact \<Rightarrow> int" where
  "unread_count c = int (length (filter unread (ct_messages c)))"

text \<open>One message less to read; the element hides at zero.\<close>

definition count_down :: "msgs \<Rightarrow> msgs" where
  "count_down s = s\<lparr>ms_count := ms_count s - 1, ms_count_shown := ms_count s - 1 \<noteq> 0\<rparr>"

section \<open>The list of contacts\<close>

fun mark_loop :: "(string \<Rightarrow> bool) \<Rightarrow> message list \<Rightarrow> msgs \<Rightarrow> msgs" where
  "mark_loop mark [] s = s"
| "mark_loop mark (m # mm) s = mark_loop mark mm (if \<not> m_read m \<and> mark (m_id m) then count_down s else s)"

text \<open>A click on a contact: the messages in the order of their arrival; without one, the last is \<open>undefined\<close>.\<close>

definition click_contact :: "(string \<Rightarrow> bool) \<Rightarrow> string \<Rightarrow> msgs \<Rightarrow> jserr + msgs" where
  "click_contact mark key s = (case map_of (ms_contacts s) key of
     None \<Rightarrow> Inl TypeErr
   | Some c \<Rightarrow>
       let mm = js_sort (\<lambda>a b. m_received a - m_received b) (ct_messages c);
           s = s\<lparr>ms_contacts := AList.update key (c\<lparr>ct_messages := mm\<rparr>) (ms_contacts s),
               ms_list := map (\<lambda>e. e\<lparr>ce_selected := ce_key e = key\<rparr>) (ms_list s), ms_in_conversation := True\<rparr>;
           s = mark_loop mark mm s;
           s = s\<lparr>ms_discussion := map m_id mm\<rparr>
       in if mm = [] then Inl TypeErr
          else Inr (s\<lparr>ms_from := m_self (last mm), ms_to := m_them (last mm)\<rparr>))"

definition appendContact :: "(string \<Rightarrow> bool) \<Rightarrow> string \<Rightarrow> bool \<Rightarrow> msgs \<Rightarrow> jserr + msgs" where
  "appendContact mark key newcontact s = (case map_of (ms_contacts s) key of
     None \<Rightarrow> Inl TypeErr
   | Some c \<Rightarrow>
       if ct_messages c = [] then Inl TypeErr
       else
         let n = unread_count c;
             s = (if key \<notin> set (map ce_key (ms_list s))
               then s\<lparr>ms_list := ms_list s @ [\<lparr>ce_key = key, ce_label = ct_label c,
                   ce_address = m_them (hd (ct_messages c)), ce_unread = n, ce_selected = False\<rparr>]\<rparr>
               else if unread (last (ct_messages c))
               then s\<lparr>ms_list := map (\<lambda>e. if ce_key e = key then e\<lparr>ce_unread := n\<rparr> else e) (ms_list s)\<rparr>
               else s)
         in if newcontact \<or> list_ex (\<lambda>e. ce_key e = key \<and> ce_selected e) (ms_list s)
            then click_contact mark key s else Inr s)"

section \<open>New messages\<close>

text \<open>The arguments of \<open>appendMessage\<close>.\<close>

record new_message =
  nm_id :: string
  nm_type :: string
  nm_sent :: int
  nm_received :: int
  nm_label_value :: string
  nm_label :: string
  nm_to :: string
  nm_from :: string
  nm_read :: bool
  nm_text :: string

definition contact_key :: "new_message \<Rightarrow> string" where
  "contact_key m =
     (let them = (if nm_type m = ''S'' then nm_to m else nm_from m)
      in filter (\<lambda>c. \<not> is_ws c) (if nm_label_value m = [] then them else nm_label_value m))"

definition the_message :: "new_message \<Rightarrow> message" where
  "the_message m =
     \<lparr>m_id = nm_id m, m_them = (if nm_type m = ''S'' then nm_to m else nm_from m),
      m_self = (if nm_type m = ''S'' then nm_from m else nm_to m), m_text = nm_text m, m_type = nm_type m,
      m_sent = nm_sent m, m_received = nm_received m, m_read = nm_read m\<rparr>"

text \<open>A key that objects inherit gives a contact without messages.\<close>

definition appendMessage :: "(string \<Rightarrow> bool) \<Rightarrow> bool \<Rightarrow> new_message \<Rightarrow> msgs \<Rightarrow> jserr + msgs" where
  "appendMessage mark initial m s =
     (let s = (if nm_type m = ''R'' \<and> \<not> nm_read m
            then s\<lparr>ms_notifications := True, ms_count := ms_count s + 1\<rparr> else s);
          key = contact_key m
      in if key \<notin> dom (map_of (ms_contacts s)) \<and> key \<in> set object_proto then Inl TypeErr
         else
           let c = (case map_of (ms_contacts s) key of Some c \<Rightarrow> c | None \<Rightarrow> \<lparr>ct_label = nm_label m, ct_messages = []\<rparr>);
               known = nm_id m \<in> set (map m_id (ct_messages c));
               c = (if known then c else c\<lparr>ct_messages := ct_messages c @ [the_message m]\<rparr>);
               s = s\<lparr>ms_contacts := AList.update key c (ms_contacts s)\<rparr>
           in if known \<or> initial then Inr s else appendContact mark key True s)"

definition reset_messages :: "msgs \<Rightarrow> msgs" where
  "reset_messages s = s\<lparr>ms_contacts := [], ms_list := [], ms_in_conversation := False, ms_discussion := [],
     ms_notifications := False, ms_count := 0\<rparr>"

fun append_all :: "(string \<Rightarrow> bool) \<Rightarrow> new_message list \<Rightarrow> msgs \<Rightarrow> jserr + msgs" where
  "append_all mark [] s = Inr s"
| "append_all mark (m # mm) s = sbind (appendMessage mark True m s) (append_all mark mm)"

fun contacts_all :: "(string \<Rightarrow> bool) \<Rightarrow> string list \<Rightarrow> msgs \<Rightarrow> jserr + msgs" where
  "contacts_all mark [] s = Inr s"
| "contacts_all mark (k # ks) s = sbind (appendContact mark k False s) (contacts_all mark ks)"

text \<open>\<open>appendMessages\<close> with the parsed messages; \<open>None\<close> stands for the text of an empty list. The first contact is clicked.\<close>

definition appendMessages :: "(string \<Rightarrow> bool) \<Rightarrow> new_message list option \<Rightarrow> bool \<Rightarrow> msgs \<Rightarrow> jserr + msgs" where
  "appendMessages mark messages reset s =
     (let s = (if reset then reset_messages s else s) in
      case messages of
        None \<Rightarrow> Inr s
      | Some mm \<Rightarrow>
          sbind (append_all mark mm s) (\<lambda>s.
          sbind (contacts_all mark (map fst (for_in (ms_contacts s))) s) (\<lambda>s.
            case ms_list s of [] \<Rightarrow> Inr s | e # _ \<Rightarrow> click_contact mark (ce_key e) s)))"

section \<open>Conversations\<close>

definition newConversation :: "string \<Rightarrow> msgs \<Rightarrow> msgs" where
  "newConversation address s = s\<lparr>ms_to := address, ms_discussion := [''remove-on-send''],
     ms_list := map (\<lambda>e. e\<lparr>ce_selected := False\<rparr>) (ms_list s), ms_in_conversation := True\<rparr>"

definition sendMessage :: "(string \<Rightarrow> string \<Rightarrow> string \<Rightarrow> bool) \<Rightarrow> msgs \<Rightarrow> msgs" where
  "sendMessage send s =
     (let s = s\<lparr>ms_discussion := removeAll ''remove-on-send'' (ms_discussion s)\<rparr>
      in if send (ms_to s) (ms_text s) (ms_from s) then s\<lparr>ms_text := []\<rparr> else s)"

section \<open>Deleting\<close>

text \<open>One message is taken away: from the page, the contact and, when it was to be read, the count.\<close>

definition drop_message :: "message \<Rightarrow> msgs \<Rightarrow> msgs" where
  "drop_message m s =
     (let s = s\<lparr>ms_discussion := removeAll (m_id m) (ms_discussion s)\<rparr>
      in if unread m then count_down s else s)"

text \<open>All messages, until the wallet refuses one: the messages left, the state and whether all are gone.\<close>

fun delete_all :: "(string \<Rightarrow> bool) \<Rightarrow> message list \<Rightarrow> msgs \<Rightarrow> message list \<times> msgs \<times> bool" where
  "delete_all del [] s = ([], s, True)"
| "delete_all del (m # mm) s =
     (if del (m_id m) then delete_all del mm (drop_message m s) else (m # mm, s, False))"

fun delete_one :: "(string \<Rightarrow> bool) \<Rightarrow> string \<Rightarrow> message list \<Rightarrow> msgs \<Rightarrow> message list \<times> msgs \<times> bool" where
  "delete_one del i [] s = ([], s, True)"
| "delete_one del i (m # mm) s =
     (if m_id m = i then
        (if del i then (mm, drop_message m s, True) else (m # mm, s, False))
      else (case delete_one del i mm s of (rest, s, ok) \<Rightarrow> (m # rest, s, ok)))"

text \<open>The number that an entry shows goes down whenever one message is deleted.\<close>

definition entry_down :: "string \<Rightarrow> msgs \<Rightarrow> msgs" where
  "entry_down key s = s\<lparr>ms_list := map (\<lambda>e. if ce_key e = key then e\<lparr>ce_unread := ce_unread e - 1\<rparr> else e) (ms_list s)\<rparr>"

definition deleteMessages :: "(string \<Rightarrow> bool) \<Rightarrow> bool \<Rightarrow> string \<Rightarrow> string option \<Rightarrow> msgs \<Rightarrow> jserr + msgs" where
  "deleteMessages del confirmed key i s = (case map_of (ms_contacts s) key of
     None \<Rightarrow> if confirmed then Inl TypeErr else Inr s
   | Some c \<Rightarrow>
       if \<not> confirmed then Inr s
       else
         let mm = ct_messages c;
             (left, s, ok) = (case i of None \<Rightarrow> delete_all del mm s | Some i \<Rightarrow> delete_one del i mm s);
             s = (case i of Some _ \<Rightarrow> if length left < length mm then entry_down key s else s | None \<Rightarrow> s);
             s = s\<lparr>ms_contacts := AList.update key (c\<lparr>ct_messages := left\<rparr>) (ms_contacts s)\<rparr>
         in if ok \<and> left = []
            then Inr (s\<lparr>ms_list := filter (\<lambda>e. ce_key e \<noteq> key) (ms_list s), ms_in_conversation := False\<rparr>)
            else Inr s)"

end
