(* ===== verification/UiWizard.thy ===== *)
theory UiWizard
  imports JqDom
begin

text \<open>
  The wizards and the key management of \<open>src/src/qt/res/js/main.js\<close>. Code that the page hands to \<open>eval\<close> is a
  parameter, as are the answers of the wallet.
\<close>

section \<open>Wizards\<close>

text \<open>A step: the code that checks it, the code of its start and that of the forward button at the end.\<close>

record wstep =
  ws_validate :: "string option"
  ws_start :: "string option"
  ws_end :: "string option"

text \<open>What a button does: leave the wizards, go to a step of a wizard (running code or not), or run code.\<close>

datatype waction = WLeave | WGoto string int bool | WCode string

record wizard =
  wz_steps :: "wstep list"
  wz_back :: waction
  wz_fwd :: waction
  wz_shown :: bool
  wz_step_shown :: "nat list"

text \<open>The wizards of the page by their section; \<open>wp_evals\<close> is the code that has run.\<close>

record wizard_page =
  wp_wizards :: "(string \<times> wizard) list"
  wp_evals :: "string list"

text \<open>\<open>setupWizard\<close>: the forward button of every wizard goes to the wizard of new keys.\<close>

definition setup_wizard :: "wstep list \<Rightarrow> wizard" where
  "setup_wizard steps = \<lparr>wz_steps = steps, wz_back = WLeave, wz_fwd = WGoto ''new-key-wizard'' 1 False,
     wz_shown = False, wz_step_shown = []\<rparr>"

definition step_of :: "wizard \<Rightarrow> int \<Rightarrow> wstep option" where
  "step_of w n = (if 0 \<le> n \<and> nat n < length (wz_steps w) then Some (wz_steps w ! nat n) else None)"

definition step_attr :: "(wstep \<Rightarrow> string option) \<Rightarrow> wizard \<Rightarrow> int \<Rightarrow> string option" where
  "step_attr f w n = (case step_of w n of None \<Rightarrow> None | Some s \<Rightarrow> f s)"

text \<open>The buttons at a step.\<close>

definition back_action :: "string \<Rightarrow> int \<Rightarrow> waction" where
  "back_action section n = (if n = 0 then WLeave else WGoto section (n - 1) False)"

definition fwd_action :: "string \<Rightarrow> wizard \<Rightarrow> int \<Rightarrow> waction" where
  "fwd_action section w n = (case step_attr ws_end w n of
     Some code \<Rightarrow> if code \<noteq> [] then WCode code else WGoto section (n + 1) True
   | None \<Rightarrow> WGoto section (n + 1) True)"

text \<open>\<open>gotoWizard\<close>; \<open>valid\<close> is what \<open>eval\<close> gives for the check of the step before, as a truth value.\<close>

definition gotoWizard :: "(string \<Rightarrow> bool) \<Rightarrow> string \<Rightarrow> int \<Rightarrow> bool \<Rightarrow> wizard_page \<Rightarrow> wizard_page" where
  "gotoWizard valid section n run p = (case map_of (wp_wizards p) section of
     None \<Rightarrow> p\<lparr>wp_wizards := map (\<lambda>(k, v). (k, v\<lparr>wz_shown := False\<rparr>)) (wp_wizards p)\<rparr>
   | Some w \<Rightarrow>
       let check = (if run then step_attr ws_validate w (n - 1) else None);
           p = (case check of Some code \<Rightarrow> p\<lparr>wp_evals := wp_evals p @ [code]\<rparr> | None \<Rightarrow> p)
       in if (case check of Some code \<Rightarrow> \<not> valid code | None \<Rightarrow> False) then p
          else
            let w = w\<lparr>wz_back := back_action section n, wz_fwd := fwd_action section w n, wz_shown := True,
                  wz_step_shown := (if step_of w n = None then [] else [nat n])\<rparr>;
                p = p\<lparr>wp_wizards := map (\<lambda>(k, v). (k, if k = section then w else v\<lparr>wz_shown := False\<rparr>)) (wp_wizards p)\<rparr>
            in (case step_attr ws_start w n of
                 Some code \<Rightarrow> if run then p\<lparr>wp_evals := wp_evals p @ [code]\<rparr> else p
               | None \<Rightarrow> p))"

text \<open>A press of a button of the wizard.\<close>

definition press :: "(string \<Rightarrow> bool) \<Rightarrow> waction \<Rightarrow> wizard_page \<Rightarrow> wizard_page" where
  "press valid a p = (case a of
     WLeave \<Rightarrow> p
   | WGoto section n run \<Rightarrow> gotoWizard valid section n run p
   | WCode code \<Rightarrow> p\<lparr>wp_evals := wp_evals p @ [code]\<rparr>)"

section \<open>Mnemonics\<close>

text \<open>A result of the wallet: the message of an error, empty when there is none, and a text.\<close>

type_synonym answer = "string \<times> string"

record key_form =
  kf_mnemonic :: string
  kf_typed :: string
  kf_red :: bool
  kf_alerts :: "string list"

definition newMnemonic :: "answer \<Rightarrow> key_form \<Rightarrow> key_form" where
  "newMnemonic result k = (case result of (err, mnemonic) \<Rightarrow>
     if err \<noteq> [] then k\<lparr>kf_alerts := kf_alerts k @ [err]\<rparr> else k\<lparr>kf_mnemonic := mnemonic\<rparr>)"

definition mismatch :: string where
  "mismatch = ''The mnemonic you provided does not match the mnemonic that was generated eariler - please go back and check to make sure you''
     @ [CHR 0x27] @ ''ve copied it down correctly.''"

definition compareMnemonics :: "key_form \<Rightarrow> key_form \<times> bool" where
  "compareMnemonics k =
     (if js_trim (kf_mnemonic k) = js_trim (kf_typed k) then (k\<lparr>kf_red := False, kf_typed := []\<rparr>, True)
      else (k\<lparr>kf_red := True, kf_alerts := kf_alerts k @ [mismatch]\<rparr>, False))"

text \<open>\<open>newKey\<close> returns nothing when it succeeds, \<open>recoverKey\<close> returns \<open>true\<close>.\<close>

definition newKey :: "string \<Rightarrow> key_form \<Rightarrow> key_form \<times> dval" where
  "newKey err k = (if err \<noteq> [] then (k\<lparr>kf_alerts := kf_alerts k @ [err]\<rparr>, DB False) else (k, DU))"

definition recoverKey :: "string \<Rightarrow> key_form \<Rightarrow> key_form \<times> dval" where
  "recoverKey err k = (if err \<noteq> [] then (k\<lparr>kf_alerts := kf_alerts k @ [err]\<rparr>, DB False) else (k, DB True))"

section \<open>Keys and accounts\<close>

text \<open>A row of one of the two tables: identifier, whether it is active, and whether it is selected.\<close>

record key_row =
  kr_id :: string
  kr_active :: string
  kr_selected :: bool

record key_page =
  kp_accounts :: "key_row list"
  kp_keys :: "key_row list"
  kp_alerts :: "string list"

text \<open>What the wallet is asked for and then lists.\<close>

record key_wallet =
  kw_setMaster :: "string \<Rightarrow> string"
  kw_setDefault :: "string \<Rightarrow> string"
  kw_setActive :: "string \<Rightarrow> string \<Rightarrow> string"
  kw_accounts :: "(string \<times> string) list"
  kw_keys :: "(string \<times> string) list"

definition key_rows :: "(string \<times> string) list \<Rightarrow> key_row list" where
  "key_rows xs = map (\<lambda>(i, a). \<lparr>kr_id = i, kr_active = a, kr_selected = False\<rparr>) xs"

definition updateAccountList :: "key_wallet \<Rightarrow> key_page \<Rightarrow> key_page" where
  "updateAccountList w p = p\<lparr>kp_accounts := key_rows (kw_accounts w)\<rparr>"

definition updateKeyList :: "key_wallet \<Rightarrow> key_page \<Rightarrow> key_page" where
  "updateKeyList w p = p\<lparr>kp_keys := key_rows (kw_keys w)\<rparr>"

text \<open>A click selects a row of one table and no other row of both.\<close>

definition select_row :: "string \<Rightarrow> key_row list \<Rightarrow> key_row list" where
  "select_row i = map (\<lambda>r. r\<lparr>kr_selected := kr_id r = i\<rparr>)"

definition click_account :: "string \<Rightarrow> key_page \<Rightarrow> key_page" where
  "click_account i p = p\<lparr>kp_accounts := select_row i (kp_accounts p),
     kp_keys := map (\<lambda>r. r\<lparr>kr_selected := False\<rparr>) (kp_keys p)\<rparr>"

definition click_key :: "string \<Rightarrow> key_page \<Rightarrow> key_page" where
  "click_key i p = p\<lparr>kp_keys := select_row i (kp_keys p),
     kp_accounts := map (\<lambda>r. r\<lparr>kr_selected := False\<rparr>) (kp_accounts p)\<rparr>"

definition selected_row :: "key_row list \<Rightarrow> key_row option" where
  "selected_row rs = find kr_selected rs"

definition alert_with :: "string \<Rightarrow> key_page \<Rightarrow> key_page" where
  "alert_with s p = p\<lparr>kp_alerts := kp_alerts p @ [s]\<rparr>"

definition setMaster :: "key_wallet \<Rightarrow> key_page \<Rightarrow> key_page" where
  "setMaster w p = (case selected_row (kp_keys p) of
     None \<Rightarrow> alert_with ''Please select a key to set it as master.'' p
   | Some r \<Rightarrow>
       let i = js_trim (kr_id r) in
       if i = [] then alert_with ''Select a key from the table to set a Master.'' p
       else if kw_setMaster w i \<noteq> [] then alert_with (kw_setMaster w i) p
       else updateKeyList w p)"

definition setDefault :: "key_wallet \<Rightarrow> key_page \<Rightarrow> key_page" where
  "setDefault w p = (case selected_row (kp_accounts p) of
     None \<Rightarrow> alert_with ''Please select an account to set it as default.'' p
   | Some r \<Rightarrow>
       let i = js_trim (kr_id r) in
       if i = [] then alert_with ''Select an account from the table to set a default.'' p
       else if kw_setDefault w i \<noteq> [] then alert_with (kw_setDefault w i) p
       else updateAccountList w p)"

definition changeActiveFlag :: "key_wallet \<Rightarrow> key_page \<Rightarrow> key_page" where
  "changeActiveFlag w p =
     (let acc = selected_row (kp_accounts p); key = selected_row (kp_keys p) in
      case (case acc of Some r \<Rightarrow> Some r | None \<Rightarrow> key) of
        None \<Rightarrow> alert_with ''Please select an account or key to change the active status.'' p
      | Some r \<Rightarrow>
          let i = js_trim (kr_id r); a = js_trim (kr_active r) in
          if i = [] then alert_with ''Please select an account or key to change the active status.'' p
          else if kw_setActive w i a \<noteq> [] then alert_with (kw_setActive w i a) p
          else if acc \<noteq> None then updateAccountList w p else updateKeyList w p)"

section \<open>Signing\<close>

text \<open>The result shown, whether it is green, and the signature.\<close>

record sign_form =
  sg_result :: string
  sg_green :: bool
  sg_signature :: string

definition signMessage :: "(string \<Rightarrow> string \<Rightarrow> answer) \<Rightarrow> string \<Rightarrow> string \<Rightarrow> sign_form \<Rightarrow> sign_form \<times> dval" where
  "signMessage sign address message f =
     (case sign (js_trim address) (js_trim message) of (err, sg) \<Rightarrow>
        if err \<noteq> [] then (\<lparr>sg_result = err, sg_green = False, sg_signature = []\<rparr>, DB False)
        else (\<lparr>sg_result = ''Message signed successfully'', sg_green = True, sg_signature = sg\<rparr>, DU))"

definition verifyMessage ::
  "(string \<Rightarrow> string \<Rightarrow> string \<Rightarrow> string) \<Rightarrow> string \<Rightarrow> string \<Rightarrow> sign_form \<Rightarrow> sign_form \<times> dval" where
  "verifyMessage check address message f =
     (case check (js_trim address) (js_trim message) (js_trim (sg_signature f)) of err \<Rightarrow>
        if err \<noteq> [] then (f\<lparr>sg_result := err, sg_green := False\<rparr>, DB False)
        else (f\<lparr>sg_result := ''Message verified successfully'', sg_green := True\<rparr>, DU))"

section \<open>The editor of messages\<close>

text \<open>
  \<open>editorCommand\<close> for an editor with a selection: the text, the start and the end of the selection. Without an
  end text nothing is kept of what is selected.
\<close>

definition editorCommand :: "string \<Rightarrow> string option \<Rightarrow> string \<times> nat \<times> nat \<Rightarrow> string \<times> nat \<times> nat" where
  "editorCommand txt end_txt = (\<lambda>(v, s, e).
     let fin = (case end_txt of Some t \<Rightarrow> t | None \<Rightarrow> []);
         txt = (if fin \<noteq> [] then txt @ take (e - s) (drop s v) @ fin else txt);
         pos = s + length txt - length fin
     in (take s v @ txt @ drop e v, pos, pos))"

end
