(* ===== verification/UiState.thy ===== *)
theory UiState
  imports UiTx UiMsg UiWizard
begin

text \<open>
  Lemmas on the state of the pages: menus, recent transactions, options, the transactions and their pages,
  wizards and messages.
\<close>

section \<open>Menus\<close>

datatype menu_event = Mopen bool nat | Mclose nat

inductive menu_reach :: "menus \<Rightarrow> bool" where
  none: "menu_reach \<lparr>cm_list = [], cm_open = [], cm_closed = []\<rparr>"
| opened: "menu_reach s \<Longrightarrow> menu_reach (openContextMenu c el s)"
| closed: "menu_reach s \<Longrightarrow> menu_reach (onClose el s)"

lemma menu_reach_one: "menu_reach s \<Longrightarrow> set (cm_open s) \<subseteq> set (cm_list s) \<and> length (cm_open s) \<le> 1"
proof (induction rule: menu_reach.induct)
  case (opened s c el)
  have "set (removeAll el (cm_open s)) \<subseteq> set (cm_list s)" using opened by auto
  then show ?case using opened by (auto simp: openContextMenu_def Let_def filter_empty_conv)
next
  case (closed s el)
  then show ?case by (auto simp: onClose_def intro: order_trans [OF length_removeAll_less_eq])
qed simp

section \<open>Recent transactions\<close>

definition dated :: "rentry \<Rightarrow> bool" where
  "dated e \<longleftrightarrow> parse_int (re_date e) \<noteq> None"

definition date_of :: "rentry \<Rightarrow> int" where
  "date_of e = the (parse_int (re_date e))"

definition recent_ok :: "rentry list \<Rightarrow> bool" where
  "recent_ok es \<longleftrightarrow> list_all dated es \<and> sorted_wrt (\<lambda>a b. date_of b \<le> date_of a) es \<and>
     distinct (map re_sid es) \<and> length es \<le> 7"

lemma later_date: "dated a \<Longrightarrow> dated b \<Longrightarrow> later a b \<longleftrightarrow> date_of b < date_of a"
  by (auto simp: later_def dated_def date_of_def)

lemma set_insert_recent [simp]: "set (insert_recent e xs) = insert e (set xs)"
  by (induction xs) auto

lemma insert_recent_sorted:
  "dated e \<Longrightarrow> list_all dated xs \<Longrightarrow> sorted_wrt (\<lambda>a b. date_of b \<le> date_of a) xs \<Longrightarrow>
     sorted_wrt (\<lambda>a b. date_of b \<le> date_of a) (insert_recent e xs)"
  by (induction xs) (auto simp: later_date)

lemma insert_recent_ids: "mset (map re_sid (insert_recent e xs)) = add_mset (re_sid e) (mset (map re_sid xs))"
  by (induction xs) auto

lemma updateTransaction_ok:
  assumes "recent_ok es" and "parse_int (dstr (dget tx ''d'')) \<noteq> None"
  shows "recent_ok (updateTransaction u tx es)"
proof -
  let ?e = "recent_entry u tx"
  have d: "dated ?e" using assms(2) by (simp add: dated_def recent_entry_def Let_def)
  show ?thesis
  proof (cases "re_sid ?e \<in> set (map re_sid es)")
    case True
    let ?f = "\<lambda>x. if re_sid x = re_sid ?e then x\<lparr>re_title := re_title ?e\<rparr> else x"
    have f: "dated (?f x) = dated x" "date_of (?f x) = date_of x" "re_sid (?f x) = re_sid x" for x
      by (simp_all add: dated_def date_of_def)
    have "recent_ok (map ?f es)"
      using assms(1) by (simp only: recent_ok_def sorted_wrt_map list.pred_map comp_def map_map f length_map)
    then show ?thesis using True by (simp only: updateTransaction_def Let_def if_True)
  next
    case False
    have "distinct (map re_sid (insert_recent ?e es))"
      using insert_recent_ids [of ?e es] assms(1) False
      by (metis (no_types, lifting) distinct.simps(2) mset.simps(2) mset_eq_imp_distinct_iff recent_ok_def)
    moreover have "list_all dated (take 7 (insert_recent ?e es))"
      using assms(1) d set_take_subset [of 7 "insert_recent ?e es"] by (auto simp: recent_ok_def list_all_iff)
    ultimately have "recent_ok (take 7 (insert_recent ?e es))"
      using insert_recent_sorted [OF d, of es] assms(1)
      by (simp add: recent_ok_def take_map [symmetric] sorted_wrt_take)
    then show ?thesis using False by (simp only: updateTransaction_def Let_def if_False)
  qed
qed

lemma recent_keeps:
  "recent_ok es \<Longrightarrow> list_all (\<lambda>tx. parse_int (dstr (dget tx ''d'')) \<noteq> None) txs \<Longrightarrow> recent_ok (recent u txs es)"
proof (induction txs arbitrary: es)
  case (Cons tx txs)
  then show ?case using updateTransaction_ok [of es tx u] by (simp add: recent_def)
qed (simp add: recent_def)

section \<open>Options\<close>

text \<open>Values that an element can show.\<close>

definition fits :: "opt_elem \<Rightarrow> nval \<Rightarrow> bool" where
  "fits e v = (case e of
     Checkbox _ _ \<Rightarrow> prim v \<in> {DU, DS ''true'', DS ''false''} \<or> dnum (prim v) \<in> {Some 0, Some 1}
   | Multi opts \<Rightarrow> prim v = DS ''*'' \<or>
       (case v of
          NVal (DS s) \<Rightarrow> distinct (map fst opts) \<and> s \<in> set (map fst opts) \<and> 2 \<le> length opts
        | NArr ss \<Rightarrow> ss \<noteq> [] \<and> filter (\<lambda>o'. o' \<in> set ss) (map fst opts) = ss \<and> \<not> set (map fst opts) \<subseteq> set ss
        | _ \<Rightarrow> False)
   | Choice opts _ \<Rightarrow> (case keys_of v of [k] \<Rightarrow> k \<in> set opts | _ \<Rightarrow> False)
   | Input _ \<Rightarrow> True)"

lemma js_eq_refl_str: "js_eq (DS a) (DS a)" by simp

lemma js_eq_false: "js_eq (DB False) (DS [])"
  by (simp add: str_num_def js_trim_def)

lemma js_eq_num: "dnum v = Some x \<Longrightarrow> v \<noteq> DU \<Longrightarrow> js_eq v (DB b) \<longleftrightarrow> x = (if b then 1 else 0)"
  by (cases v) auto

lemma str_num_words: "str_num ''true'' = None" "str_num ''false'' = None"
  by (code_simp, code_simp)

lemma value_kept_box: "fits (Checkbox b l) v \<Longrightarrow> value_changed (prim v) (NVal (DB (is_on (prim v)))) = Inr False"
  using str_num_words js_eq_num [of "prim v"]
  by (auto simp: fits_def value_changed_def old_value_def is_on_def split: if_splits)

lemma filter_one: "distinct xs \<Longrightarrow> s \<in> set xs \<Longrightarrow> filter (\<lambda>x. x = s) xs = [s]"
  by (induction xs) (auto simp: filter_empty_conv)

text \<open>A list of several choices gives those that have been set, unless these are all or none.\<close>

lemma read_chosen:
  assumes "filter P (map fst opts) \<noteq> []" and "\<exists>o' \<in> set (map fst opts). \<not> P o'"
  shows "read_value (Multi (map (\<lambda>(o', _). (o', P o')) opts)) = NArr (filter P (map fst opts))"
proof -
  let ?os = "map (\<lambda>(o', _). (o', P o')) opts"
  have "map fst (filter snd ?os) = filter P (map fst opts)" by (induction opts) auto
  moreover have "list_all snd ?os \<longleftrightarrow> list_all P (map fst opts)" "list_ex snd ?os \<longleftrightarrow> list_ex P (map fst opts)"
    by (induction opts) auto
  moreover have "\<not> list_all P (map fst opts)" "list_ex P (map fst opts)"
    using assms by (auto simp: list_all_iff list_ex_iff filter_empty_conv)
  ultimately show ?thesis by (simp only: read_value_def opt_elem.simps if_True if_False)
qed

lemma value_kept_multi:
  assumes "fits (Multi opts) v"
  shows "value_changed (prim v) (read_value (set_value v (Multi opts))) = Inr False"
proof (cases "prim v = DS ''*''")
  case True
  then show ?thesis by (simp add: set_value_def read_value_def list_all_iff case_prod_unfold value_changed_def old_value_def)
next
  case False
  let ?P = "\<lambda>o'. o' \<in> set (keys_of v)"
  have s: "set_value v (Multi opts) = Multi (map (\<lambda>(o', _). (o', ?P o')) opts)" using False by (simp add: set_value_def)
  have c: "value_changed (DS t) (NArr ss) = Inr False" if "t = join_str '','' ss" for t ss
    using that by (simp add: value_changed_def old_value_def)
  consider t where "v = NVal (DS t)" "distinct (map fst opts)" "t \<in> set (map fst opts)" "2 \<le> length opts"
    | ss where "v = NArr ss" "ss \<noteq> []" "filter (\<lambda>o'. o' \<in> set ss) (map fst opts) = ss" "\<not> set (map fst opts) \<subseteq> set ss"
    using assms False by (auto simp: fits_def split: nval.splits dval.splits)
  then show ?thesis
  proof cases
    case 1
    have f: "filter (\<lambda>o'. o' = t) (map fst opts) = [t]" by (rule filter_one [OF 1(2,3)])
    have "\<exists>o' \<in> set (map fst opts). o' \<noteq> t"
    proof (rule ccontr)
      assume "\<not> ?thesis"
      then have "filter (\<lambda>o'. o' = t) (map fst opts) = map fst opts" by (intro filter_True) blast
      then have "map fst opts = [t]" using f by simp
      from arg_cong [OF this, of length] show False using 1(4) by simp
    qed
    from read_chosen [OF _ this] f show ?thesis unfolding s using c [of t "[t]"] by (simp add: 1(1) prim_def keys_of_def select_key_def)
  next
    case 2
    have "\<exists>o' \<in> set (map fst opts). o' \<notin> set ss" using 2(4) by blast
    from read_chosen [OF _ this] 2(2,3) show ?thesis unfolding s using c [OF refl, of ss] by (simp add: 2(1) prim_def keys_of_def)
  qed
qed

lemma find_key: "k \<in> set opts \<Longrightarrow> List.find (\<lambda>o'. o' = k) opts = Some k"
  by (induction opts) auto

lemma value_kept: "fits e v \<Longrightarrow> value_changed (prim v) (read_value (set_value v e)) = Inr False"
proof (cases e)
  case (Checkbox b l)
  then show "fits e v \<Longrightarrow> ?thesis" using value_kept_box [of b l v] by (simp add: set_value_def read_value_def)
next
  case (Multi opts)
  then show "fits e v \<Longrightarrow> ?thesis" using value_kept_multi [of opts v] by simp
next
  case (Choice opts x)
  assume "fits e v"
  then obtain k where k: "keys_of v = [k]" "k \<in> set opts" using Choice by (auto simp: fits_def split: list.splits)
  then have "read_value (set_value v e) = NVal (DS k)" using find_key [of k opts] by (simp add: Choice set_value_def read_value_def)
  moreover have "prim v = DU \<and> k = [] \<or> prim v \<noteq> DU \<and> dstr (prim v) = k"
    using k(1) by (auto simp: keys_of_def prim_def select_key_def split: nval.splits dval.splits)
  ultimately show ?thesis using js_eq_false by (auto simp: value_changed_def old_value_def)
next
  case (Input s)
  then show "fits e v \<Longrightarrow> ?thesis" using js_eq_false
    by (cases "prim v") (auto simp: set_value_def read_value_def value_changed_def old_value_def)
qed

definition filled :: "opt_choices \<Rightarrow> string \<Rightarrow> opt_elem \<Rightarrow> opt_elem" where
  "filled choices k e = (case map_of choices k of None \<Rightarrow> e | Some cs \<Rightarrow> fill_choices cs e)"

lemma update_option_elems:
  "map_of (op_elems (update_option choices (k, v) p)) j =
     (if j = k then map_option (\<lambda>e. set_value v (filled choices k e)) (map_of (op_elems p) k) else map_of (op_elems p) j)"
  by (auto simp: update_option_def filled_def Let_def update_conv split: option.split)

lemma opt_update_elems:
  "distinct (map fst options) \<Longrightarrow>
   map_of (op_elems (foldl (\<lambda>p o'. update_option choices o' p) p options)) j =
     (case map_of options j of None \<Rightarrow> map_of (op_elems p) j
      | Some v \<Rightarrow> map_option (\<lambda>e. set_value v (filled choices j e)) (map_of (op_elems p) j))"
proof (induction options arbitrary: p)
  case (Cons o' os)
  obtain k v where o': "o' = (k, v)" by (cases o')
  have "map_of os k = None" using Cons.prems by (simp add: o' map_of_eq_None_iff)
  then show ?case using Cons by (auto simp: o' update_option_elems split: option.split)
qed simp

definition all_fit :: "opt_choices \<Rightarrow> opt_page \<Rightarrow> opt_values \<Rightarrow> bool" where
  "all_fit choices p options \<longleftrightarrow> list_all (\<lambda>(k, v). case map_of (op_elems p) k of
     None \<Rightarrow> True | Some e \<Rightarrow> fits (filled choices k e) v) options"

lemma changed_none:
  "list_all (\<lambda>(k, v). case map_of (op_elems p) k of None \<Rightarrow> True
     | Some e \<Rightarrow> value_changed (prim v) (read_value e) = Inr False) options \<Longrightarrow> changed_options p options = Inr []"
proof (induction options)
  case (Cons o' os)
  obtain k v where "o' = (k, v)" by (cases o')
  then show ?case using Cons by (cases "map_of (op_elems p) k") auto
qed simp

lemma save_after_update:
  assumes "all_fit choices p options" and "distinct (map fst options)"
  shows "changed_options (opt_update choices options p) options = Inr []"
proof (rule changed_none, unfold list_all_iff, safe)
  fix k v assume kv: "(k, v) \<in> set options"
  then have m: "map_of options k = Some v" using assms(2) by simp
  let ?p = "opt_update choices options p"
  have e: "map_of (op_elems ?p) k = map_option (\<lambda>e. set_value v (filled choices k e)) (map_of (op_elems p) k)"
    using opt_update_elems [OF assms(2), of choices "p\<lparr>op_clean := True\<rparr>" k] m by (simp add: opt_update_def)
  have "case map_of (op_elems p) k of None \<Rightarrow> True | Some e \<Rightarrow> fits (filled choices k e) v"
    using assms(1) kv by (auto simp: all_fit_def list_all_iff)
  then show "case map_of (op_elems ?p) k of None \<Rightarrow> True | Some e \<Rightarrow> value_changed (prim v) (read_value e) = Inr False"
    using e value_kept by (auto split: option.splits)
qed

section \<open>Transactions\<close>

lemma page_slices:
  assumes "0 < sz"
  shows "concat (map (\<lambda>i. page_slice i sz xs) [0..<add_pages (length xs) sz]) = xs"
proof -
  have pre: "concat (map (\<lambda>i. page_slice i sz xs) [0..<k]) = take (k * sz) xs" for k
  proof (induction k)
    case (Suc k)
    then show ?case by (simp add: page_slice_def) (metis add.commute take_add)
  qed simp
  have "length xs \<le> add_pages (length xs) sz * sz"
  proof -
    let ?n = "length xs"
    have a: "add_pages ?n sz = (?n + sz - 1) div sz" using assms by (simp add: add_pages_def)
    have "(?n + sz - 1) div sz * sz + (?n + sz - 1) mod sz = ?n + sz - 1" by (rule div_mult_mod_eq)
    moreover have "(?n + sz - 1) mod sz < sz" using assms by simp
    ultimately show ?thesis unfolding a using assms by linarith
  qed
  then show ?thesis by (simp add: pre)
qed

definition str_ids :: "data list \<Rightarrow> bool" where
  "str_ids txs \<longleftrightarrow> list_all (\<lambda>tx. case dget tx ''id'' of DS _ \<Rightarrow> True | _ \<Rightarrow> False) txs"

definition tx_ids :: "data list \<Rightarrow> dval list" where
  "tx_ids txs = map (\<lambda>tx. dget tx ''id'') txs"

lemma dget_date_num: "k \<noteq> ''d'' \<Longrightarrow> dget (date_num tx) k = dget tx k"
  by (simp add: date_num_def)

lemma sort_by_date_ids: "mset (tx_ids (sort_by_date txs)) = mset (tx_ids txs)"
proof -
  have "mset (map (\<lambda>tx. dget tx ''id'') (js_sort by_date (map date_num txs))) =
      image_mset (\<lambda>tx. dget tx ''id'') (mset (map date_num txs))" by (simp only: mset_map js_sort_perm)
  also have "\<dots> = mset (map (\<lambda>tx. dget tx ''id'') txs)"
    by (simp only: mset_map [symmetric] map_map comp_def) (simp add: dget_date_num)
  finally show ?thesis by (auto simp: sort_by_date_def tx_ids_def)
qed

lemma str_ids_set: "str_ids txs \<longleftrightarrow> (\<forall>d \<in> set (tx_ids txs). case d of DS _ \<Rightarrow> True | _ \<Rightarrow> False)"
  by (simp add: str_ids_def tx_ids_def list_all_iff)

lemma same_id_str: "str_ids [a] \<Longrightarrow> str_ids [b] \<Longrightarrow> same_id a b \<longleftrightarrow> dget a ''id'' = dget b ''id''"
  by (auto simp: same_id_def str_ids_def split: dval.splits)

lemma add_transactions_spec:
  assumes "str_ids (tx_all t)" "str_ids txs" "distinct (tx_ids (tx_all t))" "distinct (tx_ids txs)"
    and "length txs \<noteq> 1 \<or> \<not> js_eq (dget (hd txs) ''id'') (DN (-1))"
  shows "tx_all (add_transactions u txs t) =
      filter (\<lambda>tx. dget tx ''id'' \<notin> set (tx_ids txs)) (tx_all t) @ sort_by_date txs"
    and "distinct (tx_ids (tx_all (add_transactions u txs t)))"
    and "set (tx_ids (tx_all (add_transactions u txs t))) = set (tx_ids (tx_all t)) \<union> set (tx_ids txs)"
proof -
  let ?s = "sort_by_date txs"
  have ids: "set (tx_ids ?s) = set (tx_ids txs)" "distinct (tx_ids ?s)"
    using sort_by_date_ids [of txs] assms(4) mset_eq_setD mset_eq_imp_distinct_iff by blast+
  have str: "str_ids ?s" using assms(2) ids by (simp add: str_ids_set)
  have "list_ex (\<lambda>n. same_id n tx) ?s \<longleftrightarrow> dget tx ''id'' \<in> set (tx_ids ?s)" if "tx \<in> set (tx_all t)" for tx
  proof -
    have one: "str_ids [tx]" using that assms(1) by (simp add: str_ids_def list_all_iff)
    have "same_id n tx \<longleftrightarrow> dget n ''id'' = dget tx ''id''" if "n \<in> set ?s" for n
      using same_id_str [of n tx] one that str by (simp add: str_ids_def list_all_iff)
    then show ?thesis by (auto simp: list_ex_iff tx_ids_def image_iff) metis
  qed
  then have f: "filter (\<lambda>tx. \<not> list_ex (\<lambda>n. same_id n tx) ?s) (tx_all t) =
      filter (\<lambda>tx. dget tx ''id'' \<notin> set (tx_ids txs)) (tx_all t)"
    unfolding ids(1) [symmetric] by (intro filter_cong) simp_all
  have "\<not> (length txs = 1 \<and> js_eq (dget (hd txs) ''id'') (DN (-1)))" using assms(5) by blast
  then show all: "tx_all (add_transactions u txs t) =
      filter (\<lambda>tx. dget tx ''id'' \<notin> set (tx_ids txs)) (tx_all t) @ ?s"
    by (simp only: add_transactions_def if_False Let_def f) simp
  show "set (tx_ids (tx_all (add_transactions u txs t))) = set (tx_ids (tx_all t)) \<union> set (tx_ids txs)"
    unfolding all using ids(1) by (auto simp: tx_ids_def)
  show "distinct (tx_ids (tx_all (add_transactions u txs t)))"
    unfolding all using ids assms(3) by (auto simp: tx_ids_def distinct_map inj_on_def)
qed

section \<open>Wizards\<close>

definition at_step :: "string \<Rightarrow> int \<Rightarrow> wizard_page \<Rightarrow> bool" where
  "at_step section n p = (case map_of (wp_wizards p) section of
     None \<Rightarrow> False
   | Some w \<Rightarrow> wz_shown w \<and> wz_step_shown w = [nat n] \<and> wz_back w = back_action section n \<and>
       wz_fwd w = fwd_action section w n)"

lemma map_of_others:
  "map_of (map (\<lambda>(k, v). (k, if k = s then w else f v)) xs) k =
     map_option (\<lambda>v. if k = s then w else f v) (map_of xs k)"
  by (induction xs) auto

lemma gotoWizard_at:
  assumes "map_of (wp_wizards p) s = Some w" and "step_of w n \<noteq> None"
    and "\<not> run \<or> (case step_attr ws_validate w (n - 1) of None \<Rightarrow> True | Some c \<Rightarrow> valid c)"
  shows "at_step s n (gotoWizard valid s n run p) \<and>
    (\<exists>w'. map_of (wp_wizards (gotoWizard valid s n run p)) s = Some w' \<and> wz_steps w' = wz_steps w)"
proof -
  have st: "step_attr f (w\<lparr>wz_back := a, wz_fwd := b, wz_shown := c, wz_step_shown := d\<rparr>) i = step_attr f w i" for f a b c d i
    by (simp add: step_attr_def step_of_def)
  have f: "fwd_action s (w\<lparr>wz_back := a, wz_fwd := b, wz_shown := c, wz_step_shown := d\<rparr>) i = fwd_action s w i" for a b c d i
    by (simp add: fwd_action_def st)
  show ?thesis
    using assms
    by (auto simp: gotoWizard_def Let_def at_step_def map_of_others f split: option.splits)
qed

text \<open>Forward to the next step, and back again.\<close>

lemma wizard_forward_back:
  assumes "map_of (wp_wizards p) s = Some w" and "at_step s n p" and "0 \<le> n" and "nat (n + 1) < length (wz_steps w)"
    and "step_attr ws_end w n = None" and "case step_attr ws_validate w n of None \<Rightarrow> True | Some c \<Rightarrow> valid c"
  shows "at_step s (n + 1) (press valid (wz_fwd w) p) \<and>
    (case map_of (wp_wizards (press valid (wz_fwd w) p)) s of None \<Rightarrow> False
     | Some w' \<Rightarrow> at_step s n (press valid (wz_back w') (press valid (wz_fwd w) p)))"
proof -
  have "wz_fwd w = WGoto s (n + 1) True" using assms(1,2,5) by (simp add: at_step_def fwd_action_def)
  then have f: "press valid (wz_fwd w) p = gotoWizard valid s (n + 1) True p" by (simp add: press_def)
  have st: "step_of w (n + 1) \<noteq> None" "step_of w n \<noteq> None" using assms(3,4) by (auto simp: step_of_def)
  obtain w' where w': "at_step s (n + 1) (gotoWizard valid s (n + 1) True p)"
    "map_of (wp_wizards (gotoWizard valid s (n + 1) True p)) s = Some w'" "wz_steps w' = wz_steps w"
    using gotoWizard_at [OF assms(1) st(1), of True valid] assms(6) by auto
  have "wz_back w' = WGoto s n False" using w'(1,2) assms(3) by (simp add: at_step_def back_action_def)
  then have b: "press valid (wz_back w') q = gotoWizard valid s n False q" for q by (simp add: press_def)
  have "step_of w' n \<noteq> None" using st(2) w'(3) by (auto simp: step_of_def split: if_splits)
  from gotoWizard_at [OF w'(2) this, of False valid] show ?thesis using w' by (simp add: f b)
qed

section \<open>Messages\<close>

lemma count_down_simps [simp]:
  "ms_contacts (count_down s) = ms_contacts s" "ms_list (count_down s) = ms_list s" "ms_count (count_down s) = ms_count s - 1"
  by (simp_all add: count_down_def)

lemma drop_message_simps [simp]:
  "ms_contacts (drop_message m s) = ms_contacts s" "ms_list (drop_message m s) = ms_list s"
  "ms_count (drop_message m s) = ms_count s - (if unread m then 1 else 0)"
  by (simp_all add: drop_message_def Let_def)

lemma delete_all_spec:
  "delete_all del mm s = (left, s', ok) \<Longrightarrow> \<exists>gone. mm = gone @ left \<and> list_all (\<lambda>m. del (m_id m)) gone \<and>
     ms_contacts s' = ms_contacts s \<and> ms_list s' = ms_list s \<and>
     ms_count s' = ms_count s - int (length (filter unread gone)) \<and> (ok \<longleftrightarrow> left = []) \<and>
     (case left of [] \<Rightarrow> True | m # _ \<Rightarrow> \<not> del (m_id m))"
proof (induction mm arbitrary: s)
  case (Cons m mm)
  show ?case
  proof (cases "del (m_id m)")
    case True
    then obtain gone where g: "mm = gone @ left" "list_all (\<lambda>m. del (m_id m)) gone" "ms_contacts s' = ms_contacts s"
      "ms_list s' = ms_list s" "ms_count s' = ms_count (drop_message m s) - int (length (filter unread gone))"
      "ok \<longleftrightarrow> left = []" "case left of [] \<Rightarrow> True | m # _ \<Rightarrow> \<not> del (m_id m)"
      using Cons.IH [of "drop_message m s"] Cons.prems by auto
    then show ?thesis using True by (intro exI [of _ "m # gone"]) simp
  next
    case False
    then show ?thesis using Cons.prems by (intro exI [of _ "[]"]) auto
  qed
qed auto

end
