(* ===== verification/UiAddress.thy ===== *)
theory UiAddress
  imports UiUnit FtTop
begin

text \<open>
  Addresses of \<open>src/src/qt/res/js/main.js\<close>: the rows of the address book and of the receiving addresses, the
  lookup of an address and the filters of the two tables, which are tables of FooTable.
\<close>

section \<open>State\<close>

record address =
  ad_address :: string
  ad_label :: string
  ad_label_value :: string
  ad_pubkey :: string
  ad_type :: string
  ad_at :: int

text \<open>A row: \<open>ar_lbl\<close> is its attribute, \<open>ar_label\<close> the text of its cell and \<open>ar_value\<close> the data of the cell.\<close>

record arow =
  ar_id :: string
  ar_lbl :: string
  ar_label :: string
  ar_value :: string
  ar_pubkey :: string
  ar_kind :: string

text \<open>\<open>ap_from\<close> are the addresses that a message can come from, value and text.\<close>

record addr_page =
  ap_book :: "arow list"
  ap_receive :: "arow list"
  ap_from :: "(string \<times> string) list"
  ap_initial :: bool
  ap_user_address :: string

definition kind_text :: "int \<Rightarrow> string" where
  "kind_text n = (if n = 3 then ''BIP32'' else if n = 2 then ''Stealth'' else ''Normal'')"

definition new_arow :: "address \<Rightarrow> arow" where
  "new_arow a = \<lparr>ar_id = ad_address a, ar_lbl = ad_label a, ar_label = ad_label a, ar_value = ad_label_value a,
     ar_pubkey = ad_pubkey a, ar_kind = kind_text (ad_at a)\<rparr>"

text \<open>The row of an address that is known gets its label and key, but keeps the attribute.\<close>

definition update_arow :: "address \<Rightarrow> arow \<Rightarrow> arow" where
  "update_arow a r = (if ar_id r = ad_address a
     then r\<lparr>ar_value := ad_label_value a, ar_label := ad_label a, ar_pubkey := ad_pubkey a\<rparr> else r)"

definition all_rows :: "addr_page \<Rightarrow> arow list" where
  "all_rows p = ap_book p @ ap_receive p"

section \<open>New addresses\<close>

definition add_from :: "address \<Rightarrow> bool \<Rightarrow> addr_page \<Rightarrow> addr_page" where
  "add_from a known p =
     (if ad_type a = ''R'' \<and> length (ad_address a) < 75 then
        let p = (if \<not> known then p\<lparr>ap_from := ap_from p @ [(ad_address a, ad_label a)]\<rparr>
            else p\<lparr>ap_from := map (\<lambda>(v, l). (v, if v = ad_address a then ad_label a else l)) (ap_from p)\<rparr>)
        in if ap_initial p
           then p\<lparr>ap_from := (''anon'', ''Anonymous'') # ap_from p, ap_user_address := ad_address a, ap_initial := False\<rparr>
           else p
      else p)"

definition appendAddress :: "address \<Rightarrow> addr_page \<Rightarrow> addr_page" where
  "appendAddress a p =
     (let known = ad_address a \<in> set (map ar_id (all_rows p)); p = add_from a known p in
      if known then p\<lparr>ap_book := map (update_arow a) (ap_book p), ap_receive := map (update_arow a) (ap_receive p)\<rparr>
      else if ad_type a = ''S'' then p\<lparr>ap_book := ap_book p @ [new_arow a]\<rparr>
      else p\<lparr>ap_receive := ap_receive p @ [new_arow a]\<rparr>)"

definition appendAddresses :: "address list \<Rightarrow> addr_page \<Rightarrow> addr_page" where
  "appendAddresses as p = foldl (\<lambda>p a. appendAddress a p) p as"

text \<open>Deleting an address of the address book, when the wallet has deleted it.\<close>

definition delete_address :: "(string \<Rightarrow> bool) \<Rightarrow> string \<Rightarrow> addr_page \<Rightarrow> addr_page" where
  "delete_address del i p = (if del i then p\<lparr>ap_book := filter (\<lambda>r. ar_id r \<noteq> i) (ap_book p)\<rparr> else p)"

text \<open>The form for a new address to send to: its error and whether the dialog closes.\<close>

record send_form =
  sf_label :: string
  sf_address :: string
  sf_error :: string
  sf_marked :: bool
  sf_closed :: bool

definition clearSendAddress :: "send_form \<Rightarrow> send_form" where
  "clearSendAddress f = f\<lparr>sf_label := [], sf_address := [], sf_error := [], sf_marked := False\<rparr>"

definition addSendAddress :: "(string \<Rightarrow> string \<Rightarrow> string) \<Rightarrow> string \<Rightarrow> send_form \<Rightarrow> send_form" where
  "addSendAddress new_address last_error f =
     (if new_address (sf_label f) (sf_address f) = []
      then f\<lparr>sf_error := ''Error: '' @ last_error, sf_marked := True\<rparr>
      else f\<lparr>sf_closed := True\<rparr>)"

section \<open>Lookup\<close>

text \<open>
  A double click on a row of the lookup table: the fields named by \<open>returnto\<close>, up to two, get the address and
  the label of the attribute.
\<close>

definition lookup_return :: "string \<Rightarrow> arow \<Rightarrow> (string \<times> string) list" where
  "lookup_return returnto r = (case split_char (CHR 0x2C) returnto of
     [] \<Rightarrow> []
   | [f] \<Rightarrow> [(f, js_trim (ar_id r))]
   | f # g # _ \<Rightarrow> [(f, js_trim (ar_id r)), (g, js_trim (ar_lbl r))])"

definition lookup_rows :: "bool \<Rightarrow> addr_page \<Rightarrow> arow list" where
  "lookup_rows receiving p = (if receiving then ap_receive p else ap_book p)"

section \<open>Filters\<close>

text \<open>
  The input of an address filter and the choice of a type: the table is searched for both, and the filter is
  cleared first when the value \<open>cleared\<close> that the handler looks at is empty.
\<close>

definition table_clear :: "page_env \<Rightarrow> table \<Rightarrow> jserr + table" where
  "table_clear e ft = clearFilter (paging_handler e) (e_now e) ft"

definition filter_addresses :: "page_env \<Rightarrow> string \<Rightarrow> string \<Rightarrow> string \<Rightarrow> table \<Rightarrow> jserr + table" where
  "filter_addresses e cleared txt kind ft =
     sbind (if cleared = [] then table_clear e ft else Inr ft) (\<lambda>ft.
       table_filter e (txt @ '' '' @ kind) (ft\<lparr>t_input := txt @ '' '' @ kind\<rparr>))"

text \<open>A new number of rows per page: every table starts again with it.\<close>

definition updateRowsPerPage :: "page_env \<Rightarrow> dval \<Rightarrow> table list \<Rightarrow> jserr + table list" where
  "updateRowsPerPage e n tables = smap (\<lambda>ft. initialize (on_redrawn e) (on_initialized e) (e_now e)
     (ft\<lparr>t_data := AList.update ''pageSize'' n (t_data ft)\<rparr>)) tables"

end
