(* ===== verification/UiProps.thy ===== *)
theory UiProps
  imports UiAmounts UiSending UiState UiAddress
begin

text \<open>
  Properties of the wallet's pages: amounts, sending, options, transactions, menus, messages and wizards.
\<close>

definition proc_unit :: unit_state where
  "proc_unit = \<lparr>u_type = 0, u_name = ''PROC'', u_display = ''PROC'', u_shown = ''PROC'', u_select = Some 0, u_input = ''PROC''\<rparr>"

section \<open>Amounts\<close>

text \<open>C23: A field that shows an amount is read back as this amount, in every unit: parsing the text that
  \<open>format\<close> writes gives the number of smallest units, and leaves the text as it is. The amounts are doubles; this holds below
  \<open>2 ^ 52\<close>, which is 45 million PROC, where the rounding of a quotient does not reach the last decimal.\<close>

theorem amount_field_stable:
  assumes "0 \<le> v" and "v < 2 ^ 52"
  shows "parse_field u t \<lparr>f_text = to_fixed (unit_mask u t) v, f_data = d, f_bad = b\<rparr> =
    \<lparr>f_text = to_fixed (unit_mask u t) v, f_data = AInt v, f_bad = b\<rparr>"
  using assms by (simp add: parse_field_def format_field_def parse_to_fixed int_amount_def format_num_def parse_int_num_small Let_def)

theorem amount_field_stable_witness:
  "f_data (parse_field proc_unit (DS ''2'') \<lparr>f_text = ''1.50'', f_data = AUndef, f_bad = False\<rparr>) = AInt 150"
proof -
  have "to_fixed (unit_mask proc_unit (DS ''2'')) 150 = ''1.50''" by code_simp
  then show ?thesis using amount_field_stable [of 150 proc_unit "DS ''2''" AUndef False] by simp
qed

text \<open>Above that the last decimal can be lost: this amount, of 83 million PROC, is shown and read with one unit less.\<close>

lemma amount_field_shifts:
  "f_data (parse_field proc_unit DU \<lparr>f_text = to_fixed 8 8296288099342156, f_data = AUndef, f_bad = False\<rparr>) =
   AInt 8296288099342155"
proof -
  have m: "unit_mask proc_unit DU = 8" by code_simp
  have "parse_text 8 ''82962880.99342155'' = Some 8296288099342155" by code_simp
  then show ?thesis by (simp add: parse_field_def format_field_def m fixed_lost int_amount_def)
qed

text \<open>C24: Typing digits keeps the decimals of an amount within those of its unit, with and without selected text: a digit
  that would be one too many is stopped, or takes the place of a last zero.\<close>

theorem digits_keep_decimals:
  assumes "decimals s \<le> m" and "kp_key k \<in> {48..57} \<union> {96..105}" and "c \<noteq> CHR 0x2E"
    and "if kp_range k then kp_start k < kp_end k \<and> kp_end k \<le> length s else kp_end k = kp_start k"
  shows "decimals (type_digit m k c s) \<le> m"
  by (rule type_digit_decimals [OF assms])

theorem digits_keep_decimals_witness:
  "type_digit 2 \<lparr>kp_key = 53, kp_shift = False, kp_ctrl = False, kp_start = 2, kp_end = 2, kp_range = False\<rparr> CHR 0x35 ''1.20'' =
     ''1.52'' \<and> decimals ''1.52'' \<le> 2"
proof -
  let ?k = "\<lparr>kp_key = 53, kp_shift = False, kp_ctrl = False, kp_start = 2, kp_end = 2, kp_range = False\<rparr>"
  have t: "type_digit 2 ?k CHR 0x35 ''1.20'' = ''1.52''" by code_simp
  have "decimals ''1.20'' \<le> 2" by code_simp
  from digits_keep_decimals [OF this, of ?k "CHR 0x35"] show ?thesis using t by simp
qed

text \<open>Text with more decimals than the unit has, and a negative amount, are read as other amounts.\<close>

lemma parse_excess_decimals: "parse_text 8 ''0.123456789'' = Some 123456789"
  by code_simp

lemma parse_negative: "parse_text 8 ''-1.5'' = Some (-50000000)"
  by code_simp

section \<open>Sending\<close>

text \<open>C1: Coins are sent only after every recipient has been checked: the log of calls to the wallet then consists of
  one call per recipient, in order, each for a valid address and an amount that is not zero, each accepted by
  the wallet, and the call that sends.\<close>

theorem sendCoins_checks_all:
  assumes "sendCoins u br (pg, tr) = Some (pg', tr')" and "BSend x y \<in> set (drop (length tr) tr')"
  shows "\<exists>t. ringed u br pg = Some t \<and> list_all (sendable u br t) [0..<sp_count t] \<and>
    accepted br (tr @ [BClear]) (map (add_call u t) [0..<sp_count t]) \<and>
    take (length tr + 2 + sp_count t) tr' =
      tr @ [BClear] @ map (add_call u t) [0..<sp_count t] @ [BSend (sp_cc t) (sp_change_address t)]"
  by (rule sendCoins_log [OF assms])

definition sample_bridge :: bridge where
  "sample_bridge = \<lparr>br_validate = (\<lambda>d. d = DS ''PSF2''), br_label = (\<lambda>_. []), br_add = (\<lambda>_ _. True), br_send = (\<lambda>_. True),
     opt_AutoRingSize = False, opt_MinRingSize = 3, opt_MaxRingSize = 200, br_anon = None\<rparr>"

definition sample_recipient :: recipient where
  "sample_recipient = \<lparr>rc_n = 0, rc_pay = plain_field ''PSF2'', rc_label = [], rc_narration = [],
     rc_amount = plain_field ''1.50000'', rc_unit = DS ''1''\<rparr>"

definition sample_send :: send_page where
  "sample_send = \<lparr>sp_rows = [sample_recipient], sp_count = 1, sp_returnto = [], sp_cc = False, sp_txn_type = DS ''0'',
     sp_ring_size = DU, sp_change_address = [], sp_show_ring = False, sp_show_proc = True, sp_show_token = False,
     sp_info = \<lparr>cc_auto = True, cc_labels = False, cc_quantity = [], cc_amount = [], cc_fee = [], cc_afterfee = [],
       cc_bytes = ([], False, True), cc_priority = ([], False, True), cc_low = ([], False, True), cc_change = ([], False, True)\<rparr>,
     sp_warnings = []\<rparr>"

theorem sendCoins_checks_all_witness:
  "\<exists>t. ringed proc_unit sample_bridge sample_send = Some t \<and> list_all (sendable proc_unit sample_bridge t) [0..<sp_count t]"
proof -
  have "(case sendCoins proc_unit sample_bridge (sample_send, []) of
     None \<Rightarrow> False | Some (_, tr') \<Rightarrow> BSend False [] \<in> set (drop (length ([] :: bcall list)) tr'))" by code_simp
  then obtain pg' tr' where s: "sendCoins proc_unit sample_bridge (sample_send, []) = Some (pg', tr')"
    "BSend False [] \<in> set (drop (length ([] :: bcall list)) tr')" by (auto split: option.splits)
  show ?thesis using sendCoins_checks_all [OF s] by blast
qed

text \<open>C22: The unit chosen for a recipient is not sent: \<open>sendCoins\<close> hands the element of the unit, not its value, to
  \<open>parse\<close>, which then takes the text of the amount in PROC, while the field holds the amount in the chosen unit.\<close>

theorem sendCoins_ignores_unit:
  assumes "recipient_at pg i = Some r" and "is_numeric (f_text (rc_amount r))"
  shows "add_call u pg i = BAdd (DS (f_text (rc_pay r))) (DS (rc_label r)) (DS (rc_narration r))
      (int_amount (parse_text 8 (f_text (rc_amount r)))) (sp_txn_type pg) (sp_ring_size pg) \<and>
    f_data (parse_field u (rc_unit r) (rc_amount r)) =
      int_amount (parse_text (unit_mask u (rc_unit r)) (f_text (rc_amount r)))"
proof -
  have "unit_mask u jq_object = 8" by (simp add: unit_mask_def unit_of_def jq_object_def mask_of_def parse_int_def
        split_sign_def is_ws_def is_dig_def)
  then show ?thesis
    using assms by (simp add: add_call_def rc_value_def rc_parse_def unit_parse_def parse_field_def format_field_def)
qed

theorem sendCoins_ignores_unit_witness:
  "add_call proc_unit sample_send 0 = BAdd (DS ''PSF2'') (DS []) (DS []) (AInt 150000000) (DS ''0'') DU \<and>
   f_data (parse_field proc_unit (DS ''1'') (rc_amount sample_recipient)) = AInt 150000"
proof -
  have r: "recipient_at sample_send 0 = Some sample_recipient" "is_numeric (f_text (rc_amount sample_recipient))"
    by code_simp+
  have v: "parse_text 8 (f_text (rc_amount sample_recipient)) = Some 150000000"
    "parse_text (unit_mask proc_unit (DS ''1'')) (f_text (rc_amount sample_recipient)) = Some 150000" by code_simp+
  have f: "f_text (rc_pay sample_recipient) = ''PSF2''" "rc_label sample_recipient = []" "rc_narration sample_recipient = []"
    "rc_unit sample_recipient = DS ''1''" "sp_txn_type sample_send = DS ''0''" "sp_ring_size sample_send = DU"
    by (simp_all add: sample_recipient_def sample_send_def plain_field_def)
  show ?thesis using sendCoins_ignores_unit [OF r, of proc_unit] by (simp only: f v) (simp add: int_amount_def)
qed

text \<open>C25: The ring size that is suggested stays between the minimum and the maximum of the options, unless a
  recipient's amount is reported as one for which there are not enough outputs.\<close>

theorem ring_size_in_bounds:
  assumes "br_anon br \<noteq> None" and "lo \<le> m"
  shows "case ring_sizes u br lo pg is m of
     RThrows \<Rightarrow> False | RShort i n s \<Rightarrow> i \<in> set is \<and> n < lo | RSize n \<Rightarrow> lo \<le> n \<and> n \<le> m"
  by (rule ring_sizes_bounds [OF assms])

theorem ring_size_in_bounds_witness:
  "case ring_sizes proc_unit (sample_bridge\<lparr>br_anon := Some \<lparr>owned_mature = 5, system_mature = 40\<rparr>\<rparr>) 3 sample_send [0] 200 of
     RThrows \<Rightarrow> False | RShort i n s \<Rightarrow> i \<in> set [0] \<and> n < 3 | RSize n \<Rightarrow> 3 \<le> n \<and> n \<le> 200"
  by (rule ring_size_in_bounds) simp_all

text \<open>C26: The variable \<open>anonOutput\<close> is not declared on the page; the exception that reading it raises is caught, and the
  suggestion is the maximum, whatever the amounts and the outputs of the wallet are.\<close>

theorem ring_size_unchecked:
  assumes "br_anon br = None" and "0 < opt_MaxRingSize br" and "opt_MinRingSize br \<le> opt_MaxRingSize br"
    and "opt_MinRingSize br \<noteq> 0"
  shows "\<exists>pg'. suggestRingSize u br pg = Some pg' \<and> sp_ring_size pg' = DS (int_str (opt_MaxRingSize br))"
  using ring_undeclared [OF assms(1-3), of u pg "[0..<sp_count pg]"] assms
  by (simp add: suggestRingSize_def Let_def)

theorem ring_size_unchecked_witness:
  "\<exists>pg'. suggestRingSize proc_unit sample_bridge sample_send = Some pg' \<and> sp_ring_size pg' = DS (int_str 200)"
  using ring_size_unchecked [of sample_bridge proc_unit sample_send] by (simp add: sample_bridge_def)

section \<open>Lists of the pages\<close>

text \<open>C29: The list of recent transactions has at most seven entries, none twice, the latest first, however
  transactions arrive.\<close>

theorem recent_sorted_bounded:
  assumes "recent_ok es" and "list_all (\<lambda>tx. parse_int (dstr (dget tx ''d'')) \<noteq> None) txs"
  shows "recent_ok (recent u txs es)"
  by (rule recent_keeps [OF assms])

theorem recent_sorted_bounded_witness:
  "recent_ok (recent proc_unit [[(''id'', DS ''a''), (''d'', DS ''5'')], [(''id'', DS ''b''), (''d'', DS ''9'')]] [])"
  by (rule recent_sorted_bounded) (simp add: recent_ok_def, code_simp)

text \<open>C28: The pages of the transactions are slices that together are the transactions of the filter, in order.\<close>

theorem transaction_pages_complete:
  assumes "0 < sz"
  shows "(case tx_create_pages col asc sz t of (t', n) \<Rightarrow>
    concat (map (\<lambda>i. page_slice i sz (tx_filtered t')) [0..<n]) = tx_filtered t' \<and>
    mset (tx_filtered t') = mset (if tx_filter t = [] then tx_all t else tx_filtered t))"
  using page_slices [OF assms]
  by (auto simp: tx_create_pages_def Let_def sort_transactions_def split: prod.splits)

theorem transaction_pages_complete_witness:
  "(case tx_create_pages DU True 2 \<lparr>tx_all = [[(''d'', DN 3)], [(''d'', DN 1)], [(''d'', DN 2)]], tx_filtered = [],
       tx_shared = False, tx_filter = [], tx_body = [], tx_recent = []\<rparr> of (t', n) \<Rightarrow>
     concat (map (\<lambda>i. page_slice i 2 (tx_filtered t')) [0..<n]) = tx_filtered t')"
  using transaction_pages_complete [where sz = 2 and col = DU and asc = True and t = "\<lparr>tx_all = [[(''d'', DN 3)], [(''d'', DN 1)], [(''d'', DN 2)]],
       tx_filtered = [], tx_shared = False, tx_filter = [], tx_body = [], tx_recent = []\<rparr>"]
  by (auto split: prod.splits)

text \<open>The rows on display that do not fill a page are pushed as one more page, which has no transactions; and
  the row that a transaction has been shown in is searched with its other properties.\<close>

definition shown_tx :: tx_page where
  "shown_tx = \<lparr>tx_all = [[(''id'', DS ''a''), (''d'', DN 3)]], tx_filtered = [[(''id'', DS ''a''), (''d'', DN 3)]],
     tx_shared = True, tx_filter = [], tx_body = [], tx_recent = []\<rparr>"

lemma transaction_extra_page:
  "snd (tx_pages DU True 2 shown_tx) = [[]] \<and> snd (tx_pages DU True 2 (tx_paging 0 2 shown_tx)) = [[], [0]]"
  by code_simp

lemma transaction_html_searched:
  "tx_matches ''<tr'' (with_html tx)"
proof -
  have "map_of (with_html tx) ''html'' = Some (DS (formatTransaction tx))" by (simp add: with_html_def update_conv)
  then have "(''html'', DS (formatTransaction tx)) \<in> set (with_html tx)" by (rule map_of_SomeD)
  moreover have "contains (lower (dstr (DS (formatTransaction tx)))) (lower ''<tr'')"
    by (simp add: formatTransaction_def Let_def)
  ultimately show ?thesis unfolding tx_matches_def list_ex_iff by blast
qed

text \<open>C27: When transactions arrive, each identifier still occurs once: a transaction that is known is replaced, the
  others stay, and none is lost.\<close>

theorem transactions_replaced:
  assumes "str_ids (tx_all t)" "str_ids txs" "distinct (tx_ids (tx_all t))" "distinct (tx_ids txs)"
    and "length txs \<noteq> 1 \<or> \<not> js_eq (dget (hd txs) ''id'') (DN (-1))"
  shows "let new = tx_all (add_transactions u txs t) in
    new = filter (\<lambda>tx. dget tx ''id'' \<notin> set (tx_ids txs)) (tx_all t) @ sort_by_date txs \<and>
    distinct (tx_ids new) \<and> set (tx_ids new) = set (tx_ids (tx_all t)) \<union> set (tx_ids txs)"
  using add_transactions_spec [OF assms, of u] by (simp only: Let_def)

theorem transactions_replaced_witness:
  "distinct (tx_ids (tx_all (add_transactions proc_unit
     [[(''id'', DS ''b''), (''d'', DS ''4'')], [(''id'', DS ''a''), (''d'', DS ''7'')]] shown_tx)))"
proof -
  let ?txs = "[[(''id'', DS ''b''), (''d'', DS ''4'')], [(''id'', DS ''a''), (''d'', DS ''7'')]]"
  have h: "str_ids (tx_all shown_tx)" "str_ids ?txs" "distinct (tx_ids (tx_all shown_tx))" "distinct (tx_ids ?txs)"
    by code_simp+
  have "length ?txs \<noteq> 1 \<or> \<not> js_eq (dget (hd ?txs) ''id'') (DN (-1))" by simp
  from transactions_replaced [OF h this, of proc_unit] show ?thesis unfolding Let_def by (elim conjE)
qed

section \<open>Options, menus, wizards and messages\<close>

text \<open>C30: Options that the page shows are not sent back: after \<open>update\<close> has put values into elements that can
  show them, \<open>save\<close> finds no change, throws nothing and leaves the page as it is.\<close>

theorem options_save_nothing:
  assumes "all_fit choices p options" and "distinct (map fst options)"
  shows "opt_save choices acc options (opt_update choices options p) = Inr ([], opt_update choices options p, False)"
  using save_after_update [OF assms] by (simp add: opt_save_def)

definition sample_options :: opt_values where
  "sample_options = [(''Staking'', NVal (DS ''true'')), (''MinRingSize'', NVal (DN 3)), (''Notifications'', NArr [''input'', ''other''])]"

definition sample_page :: opt_page where
  "sample_page = \<lparr>op_elems = [(''Staking'', Checkbox False [''optReserveBalance'']), (''MinRingSize'', Input []),
     (''Notifications'', Multi [(''input'', False), (''output'', False), (''other'', True)])], op_disabled = [], op_clean = False\<rparr>"

theorem options_save_nothing_witness:
  "opt_save [] (\<lambda>_. []) sample_options (opt_update [] sample_options sample_page) =
   Inr ([], opt_update [] sample_options sample_page, False)"
  by (rule options_save_nothing) (simp_all add: sample_options_def sample_page_def all_fit_def filled_def fits_def prim_def)

text \<open>A list of several choices without one stops the saving of all options: it has no value.\<close>

lemma no_choice_raises:
  "map_of (op_elems p) k = Some (Multi opts) \<Longrightarrow> opts \<noteq> [] \<Longrightarrow> \<not> list_ex snd opts \<Longrightarrow>
   opt_save choices acc ((k, v) # os) p = Inl TypeErr"
  by (cases opts) (auto simp: opt_save_def read_value_def value_changed_def)

text \<open>An array of all choices is taken for a change: it is read as a star.\<close>

lemma all_choices_changed:
  "opt_save [] (\<lambda>os. os) [(''Notifications'', NArr [''a'', ''b''])]
     (opt_update [] [(''Notifications'', NArr [''a'', ''b''])]
       \<lparr>op_elems = [(''Notifications'', Multi [(''a'', False), (''b'', False)])], op_disabled = [], op_clean = False\<rparr>) =
   Inr ([(''Notifications'', NVal (DS ''*''))],
     \<lparr>op_elems = [(''Notifications'', Multi [(''a'', True), (''b'', True)])], op_disabled = [], op_clean = True\<rparr>, False)"
  by code_simp

text \<open>C33: However menus are opened and closed, at most one is open, and it is one that has been opened.\<close>

theorem one_menu_open:
  assumes "menu_reach s"
  shows "length (cm_open s) \<le> 1 \<and> set (cm_open s) \<subseteq> set (cm_list s)"
  using menu_reach_one [OF assms] by simp

theorem one_menu_open_witness:
  "length (cm_open (openContextMenu True 2 (openContextMenu True 1 \<lparr>cm_list = [], cm_open = [], cm_closed = []\<rparr>))) \<le> 1"
  using one_menu_open [OF menu_reach.opened [OF menu_reach.opened [OF menu_reach.none]]] by blast

text \<open>C32: In a wizard the forward button of a step whose check succeeds leads to the next step, and the back button
  there leads back: each time the step is the only one shown and the buttons are those of the step.\<close>

theorem wizard_there_and_back:
  assumes "map_of (wp_wizards p) s = Some w" and "at_step s n p" and "0 \<le> n" and "nat (n + 1) < length (wz_steps w)"
    and "step_attr ws_end w n = None" and "case step_attr ws_validate w n of None \<Rightarrow> True | Some c \<Rightarrow> valid c"
  shows "at_step s (n + 1) (press valid (wz_fwd w) p) \<and>
    (case map_of (wp_wizards (press valid (wz_fwd w) p)) s of None \<Rightarrow> False
     | Some w' \<Rightarrow> at_step s n (press valid (wz_back w') (press valid (wz_fwd w) p)))"
  by (rule wizard_forward_back [OF assms])

definition sample_wizard :: wizard where
  "sample_wizard = \<lparr>wz_steps = [\<lparr>ws_validate = Some ''check'', ws_start = None, ws_end = None\<rparr>,
       \<lparr>ws_validate = None, ws_start = Some ''go'', ws_end = Some ''leave''\<rparr>],
     wz_back = WLeave, wz_fwd = WGoto ''w'' 1 True, wz_shown = True, wz_step_shown = [0]\<rparr>"

theorem wizard_there_and_back_witness:
  "at_step ''w'' 1 (press (\<lambda>_. True) (WGoto ''w'' 1 True) \<lparr>wp_wizards = [(''w'', sample_wizard)], wp_evals = []\<rparr>)"
proof -
  let ?p = "\<lparr>wp_wizards = [(''w'', sample_wizard)], wp_evals = []\<rparr>"
  have h: "map_of (wp_wizards ?p) ''w'' = Some sample_wizard" "at_step ''w'' 0 ?p" "(0 :: int) \<le> 0"
    "nat (0 + 1) < length (wz_steps sample_wizard)" "step_attr ws_end sample_wizard 0 = None"
    "case step_attr ws_validate sample_wizard 0 of None \<Rightarrow> True | Some c \<Rightarrow> (\<lambda>_. True) c"
    by (simp_all add: sample_wizard_def at_step_def back_action_def fwd_action_def step_attr_def step_of_def)
  show ?thesis using wizard_there_and_back [OF h] by (simp add: sample_wizard_def)
qed

text \<open>C31: Deleting the messages of a contact stops at the first one that the wallet refuses; those before it are gone,
  the count of messages to read goes down by the unread ones among them, and the contact leaves the list
  exactly when none is left.\<close>

theorem delete_messages_counts:
  assumes "map_of (ms_contacts s) key = Some c"
  shows "\<exists>gone left s'. deleteMessages del True key None s = Inr s' \<and> ct_messages c = gone @ left \<and>
    list_all (\<lambda>m. del (m_id m)) gone \<and> (case left of [] \<Rightarrow> True | m # _ \<Rightarrow> \<not> del (m_id m)) \<and>
    map_of (ms_contacts s') key = Some (c\<lparr>ct_messages := left\<rparr>) \<and>
    ms_count s' = ms_count s - int (length (filter unread gone)) \<and>
    ms_list s' = (if left = [] then filter (\<lambda>e. ce_key e \<noteq> key) (ms_list s) else ms_list s)"
proof -
  obtain left t ok where d: "delete_all del (ct_messages c) s = (left, t, ok)" by (metis prod.exhaust)
  obtain gone where g: "ct_messages c = gone @ left" "list_all (\<lambda>m. del (m_id m)) gone" "ms_contacts t = ms_contacts s"
    "ms_list t = ms_list s" "ms_count t = ms_count s - int (length (filter unread gone))" "ok \<longleftrightarrow> left = []"
    "case left of [] \<Rightarrow> True | m # _ \<Rightarrow> \<not> del (m_id m)" using delete_all_spec [OF d] by blast
  show ?thesis using assms d g by (auto simp: deleteMessages_def Let_def update_conv)
qed

definition sample_msgs :: msgs where
  "sample_msgs = \<lparr>ms_contacts = [(''bob'', \<lparr>ct_label = ''bob'', ct_messages = [\<lparr>m_id = ''1'', m_them = ''b'', m_self = ''a'',
       m_text = [], m_type = ''R'', m_sent = 1, m_received = 1, m_read = False\<rparr>]\<rparr>)],
     ms_list = [\<lparr>ce_key = ''bob'', ce_label = ''bob'', ce_address = ''b'', ce_unread = 1, ce_selected = False\<rparr>],
     ms_in_conversation = False, ms_notifications = True, ms_count = 1, ms_count_shown = True, ms_discussion = [],
     ms_from = [], ms_to = [], ms_text = []\<rparr>"

theorem delete_messages_counts_witness:
  "\<exists>s'. deleteMessages (\<lambda>_. True) True ''bob'' None sample_msgs = Inr s'"
proof -
  have "map_of (ms_contacts sample_msgs) ''bob'' = Some (snd (hd (ms_contacts sample_msgs)))" by (simp add: sample_msgs_def)
  from delete_messages_counts [OF this, of "\<lambda>_. True"] show ?thesis by blast
qed

text \<open>Reading a contact twice counts its messages down twice: they are not marked as read on the page.\<close>

lemma click_twice_counts_twice:
  "(case sbind (click_contact (\<lambda>_. True) ''bob'' sample_msgs) (click_contact (\<lambda>_. True) ''bob'') of
     Inl _ \<Rightarrow> False | Inr s \<Rightarrow> ms_count s = -1)"
  by code_simp

text \<open>With a unit that has no decimals the cents of the large total stay as they were.\<close>

lemma big_total_stale:
  "total_big (snd (setType (Some 3) (unit_setType (Some 2) proc_unit, updateBalance (unit_setType (Some 2) proc_unit) (Some (150, 0, 0, 0, 0))
     \<lparr>ov_orig = (AUndef, AUndef, AUndef, AUndef, AUndef), ov_fields = [], total_big = ([], []), staking_big = ([], []),
      not_staking = False\<rparr>))) = (''150'', ''50'')"
  by code_simp

end
