(* ===== verification/UiTips.thy ===== *)
theory UiTips
  imports JqDom Regex
begin

text \<open>
  Small parts of all pages of \<open>src/src/qt/res/js/main.js\<close>: the texts and places of tooltips, editing a label in place, and the
  footer. Lengths are rational; what the browser measures is an argument.
\<close>

section \<open>Tooltips\<close>

text \<open>
  \<open>header\<close> is the heading of the column of the element, and \<open>child_attr\<close> and \<open>child_text\<close> look into its children; an attribute that is
  missing is written as \<open>undefined\<close>.
\<close>

definition mark_re :: regex where
  "mark_re = Chs (\<lambda>c. c = CHR 0x2E \<or> is_word c \<or> c = CHR 0x2D)"

definition break_re :: regex where
  "break_re = al [lit ''&#013;'', chr (CHR 0x0A), chr (CHR 0x0A)]"

definition column_re :: regex where
  "column_re = lit ''%column%''"

definition attr_re :: regex where
  "attr_re = sq [chr (CHR 0x25), Gp 1 (plus1 mark_re), chr (CHR 0x2C), Gp 2 (plus1 mark_re), chr (CHR 0x25)]"

definition text_re :: regex where
  "text_re = sq [chr (CHR 0x25), Gp 1 (plus1 mark_re), chr (CHR 0x25)]"

definition tip_html :: "string \<Rightarrow> (string \<Rightarrow> string \<Rightarrow> dval) \<Rightarrow> (string \<Rightarrow> string) \<Rightarrow> string \<Rightarrow> string" where
  "tip_html header child_attr child_text tip =
     replace_all text_re (\<lambda>m. child_text (m_str m 1))
       (replace_all attr_re (\<lambda>m. dstr (child_attr (m_str m 1) (m_str m 2)))
         (replace_all column_re (\<lambda>_. header)
           (replace_all break_re (\<lambda>_. ''<br />'') tip)))"

text \<open>No tooltip appears while an input has the focus or a context menu is open, or without a text.\<close>

definition tooltip :: "bool \<Rightarrow> bool \<Rightarrow> (string \<Rightarrow> string) \<Rightarrow> dval \<Rightarrow> string option" where
  "tooltip focus menu expand tip = (if focus \<or> menu \<or> \<not> dtruthy tip then None else Some (expand (dstr tip)))"

text \<open>The place: offset and outer size of the element, the size of the tooltip before and after its largest width is set.\<close>

record tip_geo =
  tg_left :: rat
  tg_top :: rat
  tg_width :: rat
  tg_height :: rat
  tg_tip_before :: rat
  tg_tip :: "rat \<Rightarrow> rat"
  tg_tip_height :: "rat \<Rightarrow> rat"
  tg_window :: rat
  tg_document :: rat
  tg_pageX :: rat

definition tip_max :: "tip_geo \<Rightarrow> rat" where
  "tip_max g = (if tg_window g < tg_tip_before g * (3 / 2) then tg_window g / 2 else 340)"

text \<open>The left edge, the top edge before it slides down by ten, and the classes.\<close>

definition init_tooltip :: "tip_geo \<Rightarrow> classes \<Rightarrow> rat \<times> rat \<times> classes" where
  "init_tooltip g cs =
     (let w = tg_tip g (tip_max g); h = tg_tip_height g (tip_max g);
          l = tg_left g + tg_width g / 2 - w / 2;
          t = tg_top g - h - 20;
          (l, cs) = (if l < 0 then (tg_left g + tg_width g / 2 - 20, add_class ''left'' cs) else (l, remove_class ''left'' cs));
          (l, cs) = (if l + w > tg_document g then (tg_left g - w + tg_width g / 2 + 13, add_class ''right'' cs)
            else (l, remove_class ''right'' cs));
          (l, cs) = (if l + tg_width g > tg_document g then (tg_pageX g, remove_class ''left'' (remove_class ''right'' cs)) else (l, cs));
          (t, cs) = (if t < 0 then (tg_top g + tg_height g, add_class ''top'' cs) else (t, remove_class ''top'' cs))
      in (l, t, cs))"

text \<open>A tooltip that fits between the borders of the document is centred above or below its element and has no side class.\<close>

lemma tooltip_centred:
  assumes "tg_tip g (tip_max g) / 2 \<le> tg_left g + tg_width g / 2"
    and "tg_left g + tg_width g / 2 + tg_tip g (tip_max g) / 2 \<le> tg_document g"
    and "tg_width g \<le> tg_tip g (tip_max g)"
  shows "fst (init_tooltip g cs) + tg_tip g (tip_max g) / 2 = tg_left g + tg_width g / 2 \<and>
    \<not> has_class ''left'' (snd (snd (init_tooltip g cs))) \<and> \<not> has_class ''right'' (snd (snd (init_tooltip g cs)))"
  using assms by (auto simp: init_tooltip_def Let_def)

section \<open>Replacing a text\<close>

text \<open>
  \<open>s.replace(p, r)\<close> with a text as pattern: the first place where it occurs, and the marks of \<open>r\<close> that begin with a dollar.
\<close>

fun find_sub :: "string \<Rightarrow> string \<Rightarrow> (string \<times> string) option" where
  "find_sub p s = (if is_prefix p s then Some ([], drop (length p) s)
     else case s of [] \<Rightarrow> None | c # cs \<Rightarrow> map_option (\<lambda>(a, b). (c # a, b)) (find_sub p cs))"

declare find_sub.simps [simp del]

fun dollars :: "string \<Rightarrow> string \<Rightarrow> string \<Rightarrow> string \<Rightarrow> string" where
  "dollars pre all post [] = []"
| "dollars pre all post [c] = [c]"
| "dollars pre all post (c # d # r) =
     (if c \<noteq> CHR 0x24 then c # dollars pre all post (d # r)
      else if d = CHR 0x24 then c # dollars pre all post r
      else if d = CHR 0x26 then all @ dollars pre all post r
      else if d = CHR 0x60 then pre @ dollars pre all post r
      else if d = CHR 0x27 then post @ dollars pre all post r
      else c # dollars pre all post (d # r))"

definition replace_text :: "string \<Rightarrow> string \<Rightarrow> string \<Rightarrow> string" where
  "replace_text s p r = (case find_sub p s of None \<Rightarrow> s | Some (a, b) \<Rightarrow> a @ dollars a p b r @ b)"

lemma find_sub_parts: "find_sub p s = Some (a, b) \<Longrightarrow> s = a @ p @ b"
proof (induction p s arbitrary: a rule: find_sub.induct)
  case (1 p s)
  show ?case
  proof (cases "is_prefix p s")
    case True
    then obtain t where "s = p @ t" by (auto simp: is_prefix_iff)
    then show ?thesis using 1(2) True by (subst (asm) find_sub.simps) simp
  next
    case False
    then obtain c cs a' where "s = c # cs" "find_sub p cs = Some (a', b)" "a = c # a'"
      using 1(2) by (subst (asm) find_sub.simps) (auto split: list.splits)
    with 1(1) [OF False] show ?thesis by simp
  qed
qed

lemma dollars_plain: "CHR 0x24 \<notin> set r \<Longrightarrow> dollars a p b r = r"
  by (induction a p b r rule: dollars.induct) auto

lemma replace_same: "CHR 0x24 \<notin> set p \<Longrightarrow> replace_text s p p = s"
  by (auto simp: replace_text_def dollars_plain dest: find_sub_parts split: option.split)

section \<open>Editing in place\<close>

text \<open>
  \<open>es_html\<close> is the HTML of the elements that can be edited, \<open>es_inputs\<close> the inputs that are open with what is typed, in the order of the
  page; \<open>es_keys\<close> are the handlers of the key on an input, \<open>es_clicks\<close> those of the next click anywhere, and \<open>es_saved\<close> what has been sent
  to the wallet. A double click into an input that is open is not represented.
\<close>

type_synonym edit = "nat \<times> string \<times> string"

record edits =
  es_html :: "(nat \<times> string) list"
  es_inputs :: "(nat \<times> string) list"
  es_keys :: "(nat \<times> edit) list"
  es_clicks :: "edit list"
  es_saved :: "(string \<times> string) list"

definition html_of :: "nat \<Rightarrow> edits \<Rightarrow> string" where
  "html_of n s = (case map_of (es_html s) n of Some h \<Rightarrow> h | None \<Rightarrow> [])"

text \<open>The first of the data that is there, else the text of the element.\<close>

definition edit_value :: "data \<Rightarrow> data \<Rightarrow> string \<Rightarrow> string" where
  "edit_value td el txt =
     (if dget td ''label'' \<noteq> DU then dstr (dget td ''label'') else if dget td ''value'' \<noteq> DU then dstr (dget td ''value'')
      else if dget el ''label'' \<noteq> DU then dstr (dget el ''label'') else if dget el ''value'' \<noteq> DU then dstr (dget el ''value'')
      else txt)"

definition edit_address :: "data \<Rightarrow> string \<Rightarrow> string" where
  "edit_address d txt = (if dtruthy (dget d ''value'') then dstr (dget d ''value'') else txt)"

definition quote_mark :: string where
  "quote_mark = [CHR 0x22]"

definition input_html :: "string \<Rightarrow> string \<Rightarrow> string" where
  "input_html address v = ''<input class='' @ quote_mark @ ''newval'' @ quote_mark @ '' type='' @ quote_mark @ ''text'' @ quote_mark @
     '' onchange='' @ quote_mark @ ''procbridge.updateAddressLabel('' @ [CHR 0x27] @ address @ [CHR 0x27] @ '', this.value);'' @ quote_mark @
     '' value='' @ quote_mark @ v @ quote_mark @ '' size=60 />''"

text \<open>The input gets the value up to its first quotation mark, which ends the attribute; entities in the value are not represented.\<close>

definition attr_part :: "string \<Rightarrow> string" where
  "attr_part v = takeWhile (\<lambda>c. c \<noteq> CHR 0x22) v"

definition updateValue :: "nat \<Rightarrow> string \<Rightarrow> string \<Rightarrow> edits \<Rightarrow> edits" where
  "updateValue n address v s =
     (let cur = html_of n s;
          inputs = insort_key fst (n, attr_part v) (filter (\<lambda>(k, _). k \<noteq> n) (es_inputs s))
      in s\<lparr>es_html := AList.update n (input_html address v) (es_html s), es_inputs := inputs,
           es_keys := filter (\<lambda>(k, _). k \<noteq> n) (es_keys s) @ map (\<lambda>(k, _). (k, n, cur, v)) inputs,
           es_clicks := es_clicks s @ [(n, cur, v)]\<rparr>)"

text \<open>The value is read from the first input of the page; without one the method \<open>trim\<close> of \<open>undefined\<close> is called.\<close>

definition finish_edit :: "edit \<Rightarrow> edits \<Rightarrow> (jserr \<times> edits) + edits" where
  "finish_edit d s = (case d of (n, cur, v) \<Rightarrow> (case es_inputs s of
     [] \<Rightarrow> Inl (TypeErr, s)
   | (_, t) # _ \<Rightarrow> Inr (s\<lparr>es_html := AList.update n (replace_text cur v (js_trim t)) (es_html s),
       es_inputs := filter (\<lambda>(k, _). k \<noteq> n) (es_inputs s), es_keys := filter (\<lambda>(k, _). k \<noteq> n) (es_keys s)\<rparr>)))"

fun finish_edits :: "edit list \<Rightarrow> edits \<Rightarrow> (jserr \<times> edits) + edits" where
  "finish_edits [] s = Inr s"
| "finish_edits (d # ds) s = sbind (finish_edit d s) (finish_edits ds)"

definition edit_keyup :: "nat \<Rightarrow> int \<Rightarrow> edits \<Rightarrow> (jserr \<times> edits) + edits" where
  "edit_keyup n code s =
     (if code = 13 then finish_edits (map snd (filter (\<lambda>(k, _). k = n) (es_keys s))) s else Inr s)"

text \<open>A handler of one click is removed before it runs; an error keeps the rest.\<close>

fun run_clicks :: "edit list \<Rightarrow> edits \<Rightarrow> (jserr \<times> edits) + edits" where
  "run_clicks [] s = Inr s"
| "run_clicks (d # ds) s = sbind (finish_edit d (s\<lparr>es_clicks := ds\<rparr>)) (run_clicks ds)"

definition document_click :: "edits \<Rightarrow> (jserr \<times> edits) + edits" where
  "document_click s = run_clicks (es_clicks s) s"

definition type_value :: "nat \<Rightarrow> string \<Rightarrow> edits \<Rightarrow> edits" where
  "type_value n t s = s\<lparr>es_inputs := map (\<lambda>(k, x). (k, if k = n then t else x)) (es_inputs s)\<rparr>"

definition value_change :: "string \<Rightarrow> string \<Rightarrow> edits \<Rightarrow> edits" where
  "value_change address t s = s\<lparr>es_saved := es_saved s @ [(address, t)]\<rparr>"

subsection \<open>What editing does\<close>

text \<open>Confirming a value without a change gives back the HTML, if the value is trimmed and has no quotation mark and no dollar.\<close>

lemma edit_unchanged:
  assumes "es_inputs s = []" and "es_keys s = []" and "js_trim v = v" and "CHR 0x22 \<notin> set v" and "CHR 0x24 \<notin> set v"
  obtains s' where "edit_keyup n 13 (updateValue n a v s) = Inr s'" and "html_of n s' = html_of n s" and "es_inputs s' = []"
proof -
  have "attr_part v = v" using assms(4) by (induction v) (auto simp: attr_part_def)
  then show ?thesis
    using that assms by (simp add: edit_keyup_def updateValue_def finish_edit_def replace_same html_of_def update_conv' Let_def)
qed

text \<open>After the key has closed the only input, the next click anywhere raises an error: its handler is still there.\<close>

lemma click_after_enter:
  assumes "es_inputs s = []" and "es_keys s = []" and "es_clicks s = []"
  shows "case edit_keyup n 13 (updateValue n a v s) of Inl _ \<Rightarrow> False
    | Inr s' \<Rightarrow> (case document_click s' of Inl (e, _) \<Rightarrow> e = TypeErr | Inr _ \<Rightarrow> False)"
  using assms by (simp add: edit_keyup_def updateValue_def finish_edit_def document_click_def Let_def sbind_def)

definition one_label :: "string \<Rightarrow> edits" where
  "one_label h = \<lparr>es_html = [(1, h)], es_inputs = [], es_keys = [], es_clicks = [], es_saved = []\<rparr>"

definition one_edit :: "string \<Rightarrow> string \<Rightarrow> string option" where
  "one_edit old new = (case edit_keyup 1 13 (type_value 1 new (updateValue 1 ''addr'' old (one_label old))) of
     Inl _ \<Rightarrow> None | Inr s \<Rightarrow> Some (html_of 1 s))"

text \<open>Marks in a new label are taken for parts of the old one.\<close>

lemma dollar_label: "one_edit ''Bob'' ''a$&b'' = Some ''aBobb''"
  by code_simp

text \<open>The input for a label with a quotation mark holds only what is before the mark.\<close>

lemma quote_label: "es_inputs (updateValue 1 ''addr'' (''a'' @ quote_mark @ ''b'') (one_label [])) = [(1, ''a'')]"
  by code_simp

section \<open>Footer and menu\<close>

text \<open>A row of buttons: the height of the page and the offset, height and margin of the row give its margin; then the footer.\<close>

definition button_margin :: "rat \<Rightarrow> rat \<Rightarrow> rat \<Rightarrow> rat \<Rightarrow> rat" where
  "button_margin body offset height margin = max (body - (offset + height) - 65 + margin) 10"

definition footer_height :: "rat \<Rightarrow> rat \<Rightarrow> rat" where
  "footer_height body offset = max (body - offset) 35"

definition breakpoint :: rat where
  "breakpoint = 906"

definition on_resize :: "rat \<Rightarrow> bool \<Rightarrow> bool" where
  "on_resize width active = (if width > breakpoint then False else active)"

end
