(* ===== verification/UiExplorer.thy ===== *)
theory UiExplorer
  imports UiOptions
begin

text \<open>
  The block explorer and the page of anonymous outputs of \<open>src/src/qt/res/js/main.js\<close>. The wallet behind \<open>procbridge\<close> is the
  parameter \<open>explorer_bridge\<close>; an object that it answers is a list of properties, and an entry that is a text has none. What
  jQuery puts into an element is kept as text; \<open>html(undefined)\<close> changes nothing.
\<close>

section \<open>Tables and dialogs\<close>

text \<open>
  A row: \<open>er_key\<close> is its \<open>data-value\<close>, a text without white space inside, and \<open>er_lists\<close> tells whether a click on a block lists
  its transactions or only selects it.
\<close>

record ex_row =
  er_key :: string
  er_cells :: "string list"
  er_selected :: bool
  er_lists :: bool

text \<open>\<open>ex_of\<close> is the block whose transactions are listed; \<open>ex_txn\<close> and \<open>ex_block\<close> are the elements of the two dialogs, \<open>ex_modals\<close> the
  dialogs that have been opened and \<open>ex_alerts\<close> the alerts.\<close>

record explorer =
  ex_blocks :: "ex_row list"
  ex_txns :: "ex_row list"
  ex_of :: string
  ex_shown :: bool
  ex_alerts :: "string list"
  ex_txn :: "(string \<times> string) list"
  ex_inputs :: "ex_row list"
  ex_outputs :: "ex_row list"
  ex_block :: "(string \<times> string) list"
  ex_modals :: "string list"

record txn_details =
  td_data :: data
  td_inputs :: "(string \<times> data) list"
  td_outputs :: "(string \<times> data) list"

record explorer_bridge =
  br_findBlock :: "string \<Rightarrow> data"
  br_listLatestBlocks :: "(string \<times> data) list"
  br_listTransactionsForBlock :: "string \<Rightarrow> (string \<times> data) list"
  br_txnDetails :: "string \<Rightarrow> string \<Rightarrow> txn_details"
  br_blockDetails :: "string \<Rightarrow> data option"

definition entry_row :: "string \<Rightarrow> string list \<Rightarrow> data \<Rightarrow> ex_row" where
  "entry_row k ks d = \<lparr>er_key = js_trim (dstr (dget d k)), er_cells = map (\<lambda>k. dstr (dget d k)) ks, er_selected = False,
     er_lists = True\<rparr>"

definition block_row :: "data \<Rightarrow> ex_row" where
  "block_row = entry_row ''block_hash'' [''block_hash'', ''block_height'', ''block_timestamp'', ''block_transactions'']"

definition txn_row :: "data \<Rightarrow> ex_row" where
  "txn_row = entry_row ''transaction_hash'' [''transaction_hash'', ''transaction_value'']"

definition input_row :: "data \<Rightarrow> ex_row" where
  "input_row = entry_row ''input_source_address'' [''input_source_address'', ''input_value'']"

text \<open>The key of the row of an output is a property that the wallet does not set, as is its first cell.\<close>

definition output_row :: "data \<Rightarrow> ex_row" where
  "output_row = entry_row ''output_source_address'' [''output_source_address'', ''output_value'']"

text \<open>A click selects a row and no other row of the table.\<close>

definition pick_row :: "nat \<Rightarrow> ex_row list \<Rightarrow> ex_row list" where
  "pick_row i rs = map (\<lambda>(j, r). r\<lparr>er_selected := (j = i)\<rparr>) (enumerate 0 rs)"

definition html_field :: "string \<Rightarrow> dval \<Rightarrow> (string \<times> string) list \<Rightarrow> (string \<times> string) list" where
  "html_field k v fs = (case v of DU \<Rightarrow> fs | _ \<Rightarrow> AList.update k (dstr v) fs)"

definition html_fields :: "(string \<times> string) list \<Rightarrow> data \<Rightarrow> (string \<times> string) list \<Rightarrow> (string \<times> string) list" where
  "html_fields ks d fs = foldl (\<lambda>fs (k, p). html_field k (dget d p) fs) fs ks"

section \<open>Blocks\<close>

definition clear_txns :: "explorer \<Rightarrow> explorer" where
  "clear_txns x = x\<lparr>ex_txns := [], ex_shown := False\<rparr>"

definition updateLatestBlocks :: "explorer_bridge \<Rightarrow> explorer \<Rightarrow> explorer" where
  "updateLatestBlocks e x = (clear_txns x)\<lparr>ex_blocks := map (\<lambda>(_, d). block_row d) (for_in (br_listLatestBlocks e))\<rparr>"

definition findBlock :: "explorer_bridge \<Rightarrow> string \<Rightarrow> explorer \<Rightarrow> explorer" where
  "findBlock e searchID x =
     (if searchID = [] then updateLatestBlocks e x
      else let d = br_findBlock e searchID
           in if \<not> js_eq (dget d ''error_msg'') (DS [])
              then (clear_txns x)\<lparr>ex_blocks := [], ex_alerts := ex_alerts x @ [dstr (dget d ''error_msg'')]\<rparr>
              else (clear_txns x)\<lparr>ex_blocks := [block_row d]\<rparr>)"

definition list_txns :: "explorer_bridge \<Rightarrow> string \<Rightarrow> explorer \<Rightarrow> explorer" where
  "list_txns e h x = x\<lparr>ex_txns := map (\<lambda>(_, d). txn_row d) (for_in (br_listTransactionsForBlock e h)), ex_of := h, ex_shown := True\<rparr>"

text \<open>The handlers of a row that exists; \<open>leanModal\<close> opens its dialog at the click that the double click triggers.\<close>

definition block_click :: "explorer_bridge \<Rightarrow> nat \<Rightarrow> explorer \<Rightarrow> explorer" where
  "block_click e i x =
     (let r = ex_blocks x ! i; x = x\<lparr>ex_blocks := pick_row i (ex_blocks x)\<rparr>
      in if er_lists r then list_txns e (er_key r) x else x)"

definition block_fields :: "(string \<times> string) list" where
  "block_fields = [(''blk-hash'', ''block_hash''), (''blk-numtx'', ''block_transactions''), (''blk-height'', ''block_height''),
     (''blk-type'', ''block_type''), (''blk-reward'', ''block_reward''), (''blk-timestamp'', ''block_timestamp''),
     (''blk-merkleroot'', ''block_merkle_root''), (''blk-prevblock'', ''block_prev_block''),
     (''blk-nextblock'', ''block_next_block''), (''blk-difficulty'', ''block_difficulty''), (''blk-bits'', ''block_bits''),
     (''blk-size'', ''block_size''), (''blk-version'', ''block_version''), (''blk-nonce'', ''block_nonce'')]"

text \<open>After the click the handlers of clicks are removed, and one that only selects takes their place.\<close>

definition block_dblclick :: "explorer_bridge \<Rightarrow> nat \<Rightarrow> explorer \<Rightarrow> explorer" where
  "block_dblclick e i x =
     (let r = ex_blocks x ! i;
          x = (case br_blockDetails e (er_key r) of
              Some d \<Rightarrow> x\<lparr>ex_block := html_fields block_fields d (ex_block x)\<rparr> | None \<Rightarrow> x);
          x = block_click e i x;
          x = x\<lparr>ex_modals := ex_modals x @ [''#block-info-modal'']\<rparr>
      in x\<lparr>ex_blocks := (ex_blocks x)[i := (ex_blocks x ! i)\<lparr>er_lists := False\<rparr>]\<rparr>)"

section \<open>Transactions\<close>

definition txn_click :: "nat \<Rightarrow> explorer \<Rightarrow> explorer" where
  "txn_click i x = x\<lparr>ex_txns := pick_row i (ex_txns x)\<rparr>"

definition txn_fields :: "(string \<times> string) list" where
  "txn_fields = [(''txn-hash'', ''transaction_hash''), (''txn-size'', ''transaction_size''),
     (''txn-rcvtime'', ''transaction_rcv_time''), (''txn-minetime'', ''transaction_mined_time''),
     (''txn-blkhash'', ''transaction_block_hash''), (''txn-reward'', ''transaction_reward''),
     (''txn-confirmations'', ''transaction_confirmations''), (''txn-value'', ''transaction_value''), (''error-msg'', ''error_msg'')]"

text \<open>A reward that is not positive is a fee, shown with the opposite sign.\<close>

definition reward_fields :: "data \<Rightarrow> (string \<times> string) list \<Rightarrow> (string \<times> string) list" where
  "reward_fields d fs =
     (let v = dget d ''transaction_reward'' in
      case dnum v of
        Some n \<Rightarrow> if 0 < n then html_field ''txn-reward'' v (AList.update ''lbl-reward-or-fee'' ''<strong>Reward</strong>'' fs)
          else AList.update ''txn-reward'' (num_str (- n)) (AList.update ''lbl-reward-or-fee'' ''<strong>Fee</strong>'' fs)
      | None \<Rightarrow> AList.update ''txn-reward'' ''NaN'' (AList.update ''lbl-reward-or-fee'' ''<strong>Fee</strong>'' fs))"

definition txn_dblclick :: "explorer_bridge \<Rightarrow> nat \<Rightarrow> explorer \<Rightarrow> explorer" where
  "txn_dblclick e i x =
     (let t = br_txnDetails e (ex_of x) (er_key (ex_txns x ! i));
          x = (if js_eq (dget (td_data t) ''error_msg'') (DS [])
            then x\<lparr>ex_txn := reward_fields (td_data t) (html_fields txn_fields (td_data t) (ex_txn x))\<rparr> else x);
          x = x\<lparr>ex_inputs := map (\<lambda>(_, d). input_row d) (for_in (td_inputs t)),
                ex_outputs := map (\<lambda>(_, d). output_row d) (for_in (td_outputs t))\<rparr>;
          x = txn_click i x
      in x\<lparr>ex_modals := ex_modals x @ [''#blkexp-txn-modal'']\<rparr>)"

section \<open>Anonymous outputs\<close>

text \<open>A row and whether it is hidden, and whether the two links are shown.\<close>

record anon_row =
  an_value :: string
  an_cells :: "node list list"
  an_hidden :: bool

record chain_page =
  cd_rows :: "anon_row list"
  cd_own :: bool
  cd_all :: bool

definition owned_cell :: "data \<Rightarrow> node list" where
  "owned_cell d = Tx (dstr (dget d ''owned_outputs'')) #
     (if js_eq (dget d ''owned_outputs'') (dget d ''owned_mature'') then []
      else [Tx '' ('', El ''b'' [Tx (dstr (dget d ''owned_mature''))], Tx '')''])"

definition anon_row_of :: "string \<times> data \<Rightarrow> anon_row" where
  "anon_row_of kd = (case kd of (k, d) \<Rightarrow> let g = (\<lambda>p. dstr (dget d p)) in
     \<lparr>an_value = k, an_cells = [[Tx (g ''value_s'')], owned_cell d,
        [Tx (g ''system_outputs'' @ '' ('' @ g ''system_mature'' @ '')'')], [Tx (g ''system_spends'')], [Tx (g ''least_depth'')]],
      an_hidden = False\<rparr>)"

definition updateAnonOutputs :: "(string \<times> data) list \<Rightarrow> chain_page \<Rightarrow> chain_page" where
  "updateAnonOutputs outs p = p\<lparr>cd_rows := map anon_row_of (for_in outs)\<rparr>"

text \<open>A click on a link hides it and shows the other one.\<close>

definition show_own_outputs :: "chain_page \<Rightarrow> chain_page" where
  "show_own_outputs p = p\<lparr>cd_own := False, cd_all := True,
     cd_rows := map (\<lambda>r. if str_num (text_of (an_cells r ! 1)) = Some 0 then r\<lparr>an_hidden := True\<rparr> else r) (cd_rows p)\<rparr>"

definition show_all_outputs :: "chain_page \<Rightarrow> chain_page" where
  "show_all_outputs p = p\<lparr>cd_own := True, cd_all := False, cd_rows := map (\<lambda>r. r\<lparr>an_hidden := False\<rparr>) (cd_rows p)\<rparr>"

section \<open>Properties\<close>

text \<open>Whatever row is clicked, it is the only one that is selected, and no row is lost.\<close>

lemma pick_row_nth: "j < length rs \<Longrightarrow> pick_row i rs ! j = (rs ! j)\<lparr>er_selected := (j = i)\<rparr>"
  by (simp add: pick_row_def nth_enumerate_eq)

lemma pick_row_length [simp]: "length (pick_row i rs) = length rs"
  by (simp add: pick_row_def)

lemma one_row_selected:
  "i < length rs \<Longrightarrow> j < length rs \<Longrightarrow> er_selected (pick_row i rs ! j) \<longleftrightarrow> j = i"
  by (simp add: pick_row_nth)

text \<open>A block that has been opened by a double click does not list its transactions any more.\<close>

lemma opened_block_click:
  assumes "i < length (ex_blocks x)"
  shows "ex_txns (block_click e i (block_dblclick e i x)) = ex_txns (block_dblclick e i x) \<and>
    (\<forall>y. ex_blocks y = ex_blocks (block_dblclick e i x) \<longrightarrow> ex_txns (block_click e i y) = ex_txns y)"
  using assms by (simp add: block_click_def block_dblclick_def list_txns_def Let_def split: option.splits)

text \<open>When the wallet reports an error for a transaction, its dialog opens with the fields of the transaction before.\<close>

lemma txn_error_stale:
  "\<not> js_eq (dget (td_data (br_txnDetails e (ex_of x) (er_key (ex_txns x ! i)))) ''error_msg'') (DS []) \<Longrightarrow>
   ex_txn (txn_dblclick e i x) = ex_txn x \<and> last (ex_modals (txn_dblclick e i x)) = ''#blkexp-txn-modal''"
  by (simp add: txn_dblclick_def txn_click_def Let_def)

text \<open>An error of the list of blocks is an entry without properties, and becomes a row of undefined texts.\<close>

lemma latest_error_row:
  "br_listLatestBlocks e = [(''error_msg'', [])] \<Longrightarrow>
   map er_cells (ex_blocks (updateLatestBlocks e x)) = [replicate 4 ''undefined'']"
  by (simp add: updateLatestBlocks_def for_in_def index_key_def is_dig_def block_row_def entry_row_def dget_def numeral_eq_Suc)

text \<open>Showing all outputs after showing the own ones hides nothing.\<close>

lemma all_after_own: "cd_rows (show_all_outputs (show_own_outputs p)) = map (\<lambda>r. r\<lparr>an_hidden := False\<rparr>) (cd_rows p)"
  by (simp add: show_all_outputs_def show_own_outputs_def)

end
