(* ===== verification/UiMenus.thy ===== *)
theory UiMenus
  imports UiAddress UiMsg UiSend UiTx
begin

text \<open>
  The items of the context menus of \<open>src/src/qt/res/js/main.js\<close> with what they do, and the small handlers of the pages that
  install them: the filters of the tables of addresses, the form of a new address and the rows of transactions. An item is its
  name, without its icon, and its action; \<open>userAction\<close> of \<open>src/src/qt/procbridge.cpp\<close> is what the actions of the wallet reach.
\<close>

section \<open>Items\<close>

text \<open>
  \<open>User\<close> is a call of \<open>userAction\<close> with a list of one text, \<open>User_text\<close> one with an object whose only value is the text of an element;
  the last five are functions of their own below.
\<close>

datatype action =
    User string
  | User_text string string
  | Click string
  | Dblclick string
  | Focus string
  | Copy string "string option"
  | Delete_row
  | Pay_contact
  | Copy_message
  | Copy_selected
  | Paste_text

type_synonym item = "string \<times> action"

definition file_menu :: "item list" where
  "file_menu = [(''Backup&nbsp;Wallet...'', User ''backupWallet''),
     (''Sign&nbsp;Message...'', Click ''#sign-message-button''),
     (''Verify&nbsp;Message...'', Click ''#verify-message-button''),
     (''Multisig'', User ''multisig''),
     (''Exit'', User ''close'')]"

definition settings_menu :: "item list" where
  "settings_menu = [(''Encrypt&nbsp;Wallet...'', User ''encryptWallet''),
     (''Change&nbsp;Passphrase...'', User ''changePassphrase''),
     (''Toggle&nbsp;Lock...'', User ''toggleLock''),
     (''Key Management'', Click ''#navitems [href=#keymanagement]''),
     (''Configuration'', Click ''#navitems [href=#options]''),
     (''Options'', User ''options2''),
     (''Show AutoBackups'', User ''showBackups'')]"

definition help_menu :: "item list" where
  "help_menu = [(''Debug&nbsp;Window...'', User ''debugClicked''),
     ('' About&nbsp;ProCurrency...'', User ''aboutClicked''),
     (''About&nbsp;Qt...'', User ''aboutQtClicked'')]"

definition receive_menu :: "item list" where
  "receive_menu = [(''Copy&nbsp;Address'', Copy ''#receive .footable .selected .address'' None),
     (''Copy&nbsp;Label'', Copy ''#receive .footable .selected .label'' None),
     (''Copy&nbsp;Public&nbsp;Key'', Copy ''#receive .footable .selected .pubkey'' None),
     (''Edit'', Dblclick ''#receive .footable .selected .label.editable''),
     (''Show&nbsp;QR&nbsp;Code'', Click (''#receive [href='' @ quoted ''#qrcode-modal'' @ '']''))]"

definition book_menu :: "item list" where
  "book_menu = [(''Copy&nbsp;Address'', Copy ''#addressbook .footable .selected .address'' None),
     (''Copy&nbsp;Public&nbsp;Key'', Copy ''#addressbook .footable .selected .pubkey'' None),
     (''Copy&nbsp;Label'', Copy ''#addressbook .footable .selected .label'' None),
     (''Edit'', Dblclick ''#addressbook .footable .selected .label.editable''),
     (''Delete'', Delete_row),
     (''Show&nbsp;QR&nbsp;Code'', Click (''#addressbook [href='' @ quoted ''#qrcode-modal'' @ '']'')),
     (''Verify&nbsp;Message'', User_text ''verifyMessage'' ''#addressbook .footable .selected .address'')]"

definition transaction_menu :: "item list" where
  "transaction_menu = [(''Copy&nbsp;Address'', Copy ''#transactions .footable .selected .address'' (Some ''data-value'')),
     (''Copy&nbsp;Label'', Copy ''#transactions .footable .selected .address'' (Some ''data-label'')),
     (''Copy&nbsp;Amount'', Copy ''#transactions .footable .selected .amount'' None),
     (''Copy&nbsp;transaction&nbsp;ID'', Copy ''#transactions .footable .selected'' (Some ''id'')),
     (''Edit&nbsp;label'', Dblclick ''#transactions .footable .selected .address .editable''),
     (''Show&nbsp;transaction&nbsp;details'', Dblclick ''#transactions .footable .selected'')]"

text \<open>The menus of \<open>chatInit\<close>, a function that the pages do not call.\<close>

definition contact_menu :: "item list" where
  "contact_menu = [(''Send&nbsp;ProCurrency'', Pay_contact),
     (''Copy&nbsp;Address'', Copy ''#contact-list .selected .contact-address'' None),
     (''Private&nbsp;Message'', Focus ''#message-text'')]"

definition discussion_menu :: "item list" where
  "discussion_menu = [(''Copy&nbsp;Message'', Copy_message),
     (''Delete&nbsp;Message'', Click ''.contact-discussion li.selected .delete'')]"

definition text_menu :: "item list" where
  "text_menu = [(''Copy&nbsp;Selected'', Copy_selected), (''Paste'', Paste_text)]"

definition all_menus :: "item list list" where
  "all_menus = [file_menu, settings_menu, help_menu, receive_menu, book_menu, transaction_menu, contact_menu, discussion_menu,
     text_menu]"

section \<open>Running an item\<close>

text \<open>The text and the attributes of what a selector finds; a call of the wallet gets a list as an object with the key 0.\<close>

record elements =
  vw_text :: "string \<Rightarrow> string option"
  vw_attr :: "string \<Rightarrow> string \<Rightarrow> dval"

datatype effect = Wallet string dval | To_clipboard dval | Clicked string | Dblclicked string | Focused string

definition run_action :: "elements \<Rightarrow> action \<Rightarrow> effect option" where
  "run_action v a = (case a of
     User k \<Rightarrow> Some (Wallet ''0'' (DS k))
   | User_text k sel \<Rightarrow> Some (Wallet k (DS (case vw_text v sel of Some t \<Rightarrow> t | None \<Rightarrow> [])))
   | Click sel \<Rightarrow> Some (Clicked sel)
   | Dblclick sel \<Rightarrow> Some (Dblclicked sel)
   | Focus sel \<Rightarrow> Some (Focused sel)
   | Copy sel a \<Rightarrow> Some (To_clipboard (copy_value sel (vw_text v sel) a (vw_attr v sel)))
   | _ \<Rightarrow> None)"

text \<open>
  \<open>userAction\<close> of the wallet: a key that is a number gives way to its value, and each name has its method. The keys are the
  indices of a list or names; the last method also writes the options that the value names.
\<close>

definition action_key :: "string \<Rightarrow> dval \<Rightarrow> string" where
  "action_key k v = (if index_key k then dstr v else k)"

definition window_methods :: "(string \<times> string) list" where
  "window_methods = [(''backupWallet'', ''backupWallet''), (''close'', ''close''), (''encryptWallet'', ''encryptWallet''),
     (''changePassphrase'', ''changePassphrase''), (''toggleLock'', ''toggleLock''), (''aboutClicked'', ''aboutClicked''),
     (''aboutQtClicked'', ''aboutQtAction.trigger''), (''showBackups'', ''showBackupsAction.trigger''),
     (''multisig'', ''multisigAction.trigger''), (''options2'', ''options2Action.trigger''), (''debugClicked'', ''rpcConsole.show''),
     (''clearRecipients'', ''clearRecipients''), (''optionsChanged'', ''populateOptions'')]"

definition userAction :: "string \<Rightarrow> dval \<Rightarrow> string option" where
  "userAction k v = map_of window_methods (action_key k v)"

text \<open>Every action of the menus of the overview page has its method in the wallet.\<close>

lemma menu_actions_known:
  "list_all (\<lambda>(_, a). case a of User k \<Rightarrow> userAction ''0'' (DS k) \<noteq> None | User_text _ _ \<Rightarrow> False | _ \<Rightarrow> True)
     (file_menu @ settings_menu @ help_menu)"
  by code_simp

lemma menu_names_distinct: "list_all (\<lambda>m. distinct (map fst m)) all_menus"
  by code_simp

text \<open>The address book asks for an action that the wallet does not have: the item does nothing.\<close>

lemma verify_item_unknown:
  "map_of book_menu ''Verify&nbsp;Message'' = Some (User_text k sel) \<Longrightarrow> userAction k v = None"
proof -
  have *: "map_of book_menu ''Verify&nbsp;Message'' = Some (User_text ''verifyMessage'' ''#addressbook .footable .selected .address'')"
    by code_simp
  have "\<not> index_key ''verifyMessage''" "map_of window_methods ''verifyMessage'' = None" by code_simp+
  then show "map_of book_menu ''Verify&nbsp;Message'' = Some (User_text k sel) \<Longrightarrow> userAction k v = None"
    unfolding * by (auto simp: userAction_def action_key_def)
qed

text \<open>A click of the right button on a row selects it first; \<open>s\<close> is the address of the row that is selected.\<close>

definition delete_item :: "(string \<Rightarrow> bool) \<Rightarrow> string option \<Rightarrow> addr_page \<Rightarrow> addr_page" where
  "delete_item del s p = (case s of None \<Rightarrow> p | Some i \<Rightarrow> delete_address del i p)"

text \<open>The form to send is cleared, its only recipient gets the address, and the page is listed; no handler of a change runs.\<close>

definition pay_item :: "unit_state \<Rightarrow> string \<Rightarrow> send_page \<times> bcall list \<Rightarrow> send_page \<times> bcall list \<times> effect" where
  "pay_item u a st = (case clearRecipients u st of (pg, lg) \<Rightarrow>
     (map_recipient 0 (\<lambda>r. r\<lparr>rc_pay := (rc_pay r)\<lparr>f_text := a\<rparr>\<rparr>) pg, lg, Clicked ''#navpanel [href=#send]''))"

lemma pay_item_one:
  "map (f_text \<circ> rc_pay) (sp_rows (fst (pay_item u a st))) = [a] \<and> sp_count (fst (pay_item u a st)) = 1"
  by (cases st) (simp add: pay_item_def clearRecipients_def addRecipient_def new_recipient_def map_recipient_def)

section \<open>Messages\<close>

text \<open>A message on display: its number, the key of its contact and whether it is selected. The right button selects and never deselects.\<close>

type_synonym listed = "string \<times> string \<times> bool"

definition right_click :: "string \<Rightarrow> listed list \<Rightarrow> listed list" where
  "right_click i ms = map (\<lambda>(j, k, s). (j, k, s \<or> j = i)) ms"

text \<open>The texts that are copied: of the first message that is selected; without one the key is \<open>undefined\<close>.\<close>

definition copy_message :: "listed list \<Rightarrow> msgs \<Rightarrow> jserr + string list" where
  "copy_message ms s = (case find (\<lambda>(_, _, sel). sel) ms of
     None \<Rightarrow> (if map_of (ms_contacts s) ''undefined'' = None then Inl TypeErr else Inr [])
   | Some (i, k, _) \<Rightarrow> (case map_of (ms_contacts s) k of
       None \<Rightarrow> Inl TypeErr
     | Some c \<Rightarrow> Inr (map m_text (filter (\<lambda>m. m_id m = i) (ct_messages c)))))"

lemma first_message_copied:
  assumes "find (\<lambda>(_, _, sel). sel) ms = Some m"
    and "\<And>n. n < length ms \<Longrightarrow> fst (ms ! n) = i \<Longrightarrow> \<exists>l<n. snd (snd (ms ! l))"
  shows "copy_message (right_click i ms) s = copy_message ms s"
proof -
  obtain a k b where m: "m = (a, k, b)" by (cases m)
  obtain n where n: "n < length ms" "snd (snd (ms ! n))" "ms ! n = m" "\<forall>l<n. \<not> snd (snd (ms ! l))"
    using assms(1) unfolding find_Some_iff by (auto simp: case_prod_unfold)
  have "\<forall>l<n. \<not> snd (snd (right_click i ms ! l))"
  proof (intro allI impI)
    fix l assume "l < n"
    moreover have "fst (ms ! l) \<noteq> i" using assms(2) [of l] n(1,4) \<open>l < n\<close> by (meson dual_order.strict_trans)
    ultimately show "\<not> snd (snd (right_click i ms ! l))"
      using n(1,4) by (simp add: right_click_def case_prod_unfold)
  qed
  moreover have "right_click i ms ! n = m" using n m by (simp add: right_click_def)
  ultimately have "find (\<lambda>(_, _, sel). sel) (right_click i ms) = Some m"
    unfolding find_Some_iff using n m by (intro exI [of _ n]) (auto simp: case_prod_unfold right_click_def)
  then show ?thesis using assms(1) by (simp add: copy_message_def)
qed

text \<open>The text of a message in the making: the selection is from \<open>ed_start\<close> to \<open>ed_end\<close>, when the browser has one.\<close>

record editor =
  ed_value :: string
  ed_range :: "(nat \<times> nat) option"

definition copy_selected :: "editor \<Rightarrow> string option" where
  "copy_selected ed = map_option (\<lambda>(a, b). substring a b (ed_value ed)) (ed_range ed)"

text \<open>\<open>p\<close> is the value of the element \<open>pasteTo\<close> after the wallet has been asked; setting the value moves the selection, which is not represented.\<close>

definition paste_text :: "string \<Rightarrow> editor \<Rightarrow> string" where
  "paste_text p ed = (case ed_range ed of
     Some (a, _) \<Rightarrow> substring a 0 (ed_value ed) @ p @ drop a (ed_value ed)
   | None \<Rightarrow> ed_value ed @ p)"

text \<open>Pasting inserts at the start of the selection, and never replaces what is selected.\<close>

lemma paste_inserts:
  "ed_range ed = Some (a, b) \<Longrightarrow> paste_text p ed = take a (ed_value ed) @ p @ drop a (ed_value ed)"
  by (cases "a \<le> length (ed_value ed)") (simp_all add: paste_text_def substring_def)

lemma paste_keeps_selected:
  assumes "ed_range ed = Some (a, b)" and "a \<le> b" and "b \<le> length (ed_value ed)"
  shows "substring (a + length p) (b + length p) (paste_text p ed) = substring a b (ed_value ed)"
  using assms by (simp add: paste_inserts substring_def)

section \<open>The filters of the tables of addresses\<close>

text \<open>
  What the inputs and the choices of the three tables hold. The choice of the lookup looks at the choice of the receiving addresses,
  and so does that of the address book.
\<close>

record filters =
  fl_receive :: string
  fl_receive_type :: string
  fl_book :: string
  fl_book_type :: string
  fl_lookup :: string
  fl_lookup_type :: string

definition receive_input :: "page_env \<Rightarrow> filters \<Rightarrow> table \<Rightarrow> jserr + table" where
  "receive_input e f = filter_addresses e (fl_receive f) (fl_receive f) (fl_receive_type f)"

definition receive_change :: "page_env \<Rightarrow> filters \<Rightarrow> table \<Rightarrow> jserr + table" where
  "receive_change e f = filter_addresses e (fl_receive_type f) (fl_receive f) (fl_receive_type f)"

definition book_input :: "page_env \<Rightarrow> filters \<Rightarrow> table \<Rightarrow> jserr + table" where
  "book_input e f = filter_addresses e (fl_book f) (fl_book f) (fl_book_type f)"

definition book_change :: "page_env \<Rightarrow> filters \<Rightarrow> table \<Rightarrow> jserr + table" where
  "book_change e f = filter_addresses e (fl_receive_type f) (fl_book f) (fl_book_type f)"

definition lookup_input :: "page_env \<Rightarrow> filters \<Rightarrow> table \<Rightarrow> jserr + table" where
  "lookup_input e f = filter_addresses e (fl_lookup f) (fl_lookup f) (fl_lookup_type f)"

definition lookup_change :: "page_env \<Rightarrow> filters \<Rightarrow> table \<Rightarrow> jserr + table" where
  "lookup_change e f = filter_addresses e (fl_receive_type f) (fl_lookup f) (fl_lookup_type f)"

section \<open>Forms and rows\<close>

record recv_form =
  rf_label :: string
  rf_type :: string
  rf_closed :: bool

definition clearRecvAddress :: "recv_form \<Rightarrow> recv_form" where
  "clearRecvAddress f = f\<lparr>rf_label := [], rf_type := ''1''\<rparr>"

text \<open>The call of \<open>newAddress\<close>, whatever its answer, and the form.\<close>

definition addAddress :: "recv_form \<Rightarrow> (string \<times> string) \<times> recv_form" where
  "addAddress f = ((rf_label f, rf_type f), f\<lparr>rf_closed := True\<rparr>)"

definition sendPageInit :: "unit_state \<Rightarrow> bridge \<Rightarrow> send_page \<times> bcall list \<Rightarrow> send_page \<times> bcall list" where
  "sendPageInit u br = (\<lambda>(pg, lg). case addRecipient u (toggleCoinControl None pg, lg) of (pg, lg) \<Rightarrow> (changeTxnType br pg, lg))"

lemma sendPageInit_rows: "length (sp_rows (fst (sendPageInit u br (pg, lg)))) = length (sp_rows pg) + 1"
  by (simp add: sendPageInit_def addRecipient_def toggleCoinControl_def changeTxnType_def)

text \<open>The rows of transactions: number and whether selected; a double click opens the dialog with what the wallet tells of the row.\<close>

record tx_dialog =
  tz_rows :: "(string \<times> bool) list"
  tz_info :: string
  tz_opened :: nat

definition tx_click :: "string \<Rightarrow> tx_dialog \<Rightarrow> tx_dialog" where
  "tx_click i d = d\<lparr>tz_rows := map (\<lambda>(j, _). (j, j = i)) (tz_rows d)\<rparr>"

definition tx_dblclick :: "(string \<Rightarrow> string) \<Rightarrow> string \<Rightarrow> tx_dialog \<Rightarrow> tx_dialog" where
  "tx_dblclick details i d = (tx_click i (d\<lparr>tz_info := details i\<rparr>))\<lparr>tz_opened := tz_opened d + 1\<rparr>"

lemma tx_dblclick_shows:
  "tz_info (tx_dblclick details i d) = details i \<and> {j. (j, True) \<in> set (tz_rows (tx_dblclick details i d))} \<subseteq> {i}"
  by (auto simp: tx_dblclick_def tx_click_def)

end
