(* ===== verification/IsState.thy ===== *)
theory IsState
  imports JsValue Complex_Main
begin

text \<open>
  The state of a scroller of \<open>src/src/qt/res/js/iscroll.js\<close>: its options, positions and boundaries, pending
  animation frames, snap pages and scrollbars. Lengths and times are rational. The clock does not advance within
  one call of a handler; it is the argument \<open>now\<close>. Times that are options are natural numbers.
\<close>

section \<open>Options\<close>

datatype easing = Quadratic | Circular | Back | Bounce | Elastic

datatype shrink = NoShrink | Clip | Scale

datatype passthrough = PNone | PTrue | PVertical | PHorizontal

text \<open>An element to snap to: its offset and size.\<close>

record snap_el =
  se_left :: rat
  se_top :: rat
  se_w :: rat
  se_h :: rat

datatype snap = NoSnap | SnapGrid | SnapElems "snap_el list"

text \<open>The codes of the keys.\<close>

record key_bindings =
  k_pageUp :: int
  k_pageDown :: int
  k_end :: int
  k_home :: int
  k_left :: int
  k_up :: int
  k_right :: int
  k_down :: int

text \<open>
  \<open>o_easing\<close> is the name that is given for the easing, \<open>o_bounceEasing\<close> the easing that it stands for. A step, a snap
  speed or a deceleration that is not given is \<open>0\<close> or \<open>None\<close>; \<open>o_flick\<close> says whether the page listens to flicks.
\<close>

record is_opts =
  o_scrollX :: bool
  o_scrollY :: bool
  o_free :: bool
  o_pass :: passthrough
  o_lock :: rat
  o_momentum :: bool
  o_bounce :: bool
  o_bounceTime :: nat
  o_easing :: string
  o_bounceEasing :: easing
  o_prevent :: bool
  o_transition :: bool
  o_transform :: bool
  o_polling :: "nat option"
  o_snap :: snap
  o_snapThreshold :: rat
  o_snapSpeed :: nat
  o_stepX :: rat
  o_stepY :: rat
  o_deceleration :: "rat option"
  o_wheelSpeed :: rat
  o_invert :: bool
  o_scrollbars :: bool
  o_interactive :: bool
  o_resizeBars :: bool
  o_shrink :: shrink
  o_keys :: key_bindings
  o_startX :: rat
  o_startY :: rat
  o_tap :: bool
  o_click :: bool
  o_flick :: bool

definition ease_of :: "string \<Rightarrow> easing" where
  "ease_of s =
     (if s = ''quadratic'' then Quadratic else if s = ''back'' then Back else if s = ''bounce'' then Bounce
      else if s = ''elastic'' then Elastic else Circular)"

text \<open>What the constructor makes of the options; the browser has transitions and transforms or not.\<close>

definition normalize_opts :: "bool \<Rightarrow> bool \<Rightarrow> is_opts \<Rightarrow> is_opts" where
  "normalize_opts has_transition has_transform o' =
     (let o' = o'\<lparr>o_transition := has_transition \<and> o_transition o', o_transform := has_transform \<and> o_transform o',
            o_pass := (if o_pass o' = PTrue then PVertical else o_pass o')\<rparr>;
          through = (o_pass o' \<noteq> PNone)
      in o'\<lparr>o_prevent := \<not> through \<and> o_prevent o',
           o_scrollY := (if o_pass o' = PVertical then False else o_scrollY o'),
           o_scrollX := (if o_pass o' = PHorizontal then False else o_scrollX o'),
           o_free := o_free o' \<and> \<not> through,
           o_lock := (if through then 0 else o_lock o'),
           o_bounceEasing := ease_of (o_easing o'),
           o_polling := (if o_polling o' = None then Some 60 else o_polling o'),
           o_transition := (if o_shrink o' = Scale then False else o_transition o')\<rparr>)"

section \<open>Numbers\<close>

definition js_round :: "rat \<Rightarrow> rat" where
  "js_round x = of_int \<lfloor>x + 1 / 2\<rfloor>"

text \<open>\<open>Math.sqrt\<close> and the wave of the elastic easing, whose results are rounded.\<close>

record math =
  m_sqrt :: "rat \<Rightarrow> rat"
  m_wave :: "rat \<Rightarrow> rat"

fun ease_fn :: "math \<Rightarrow> easing \<Rightarrow> rat \<Rightarrow> rat" where
  "ease_fn m Quadratic k = k * (2 - k)"
| "ease_fn m Circular k = m_sqrt m (1 - (k - 1) * (k - 1))"
| "ease_fn m Back k = (k - 1) * (k - 1) * (5 * (k - 1) + 4) + 1"
| "ease_fn m Bounce k =
     (if k < 1 / (11 / 4) then (121 / 16) * k * k
      else if k < 2 / (11 / 4) then (121 / 16) * (k - (3 / 2) / (11 / 4)) * (k - (3 / 2) / (11 / 4)) + 3 / 4
      else if k < (5 / 2) / (11 / 4) then (121 / 16) * (k - (9 / 4) / (11 / 4)) * (k - (9 / 4) / (11 / 4)) + 15 / 16
      else (121 / 16) * (k - (21 / 8) / (11 / 4)) * (k - (21 / 8) / (11 / 4)) + 63 / 64)"
| "ease_fn m Elastic k = (if k = 0 then 0 else if k = 1 then 1 else (2 / 5) * m_wave m k + 1)"

text \<open>A division whose result is a finite number.\<close>

definition fin_div :: "rat \<Rightarrow> rat \<Rightarrow> rat option" where
  "fin_div a b = (if b = 0 then None else Some (a / b))"

text \<open>
  \<open>utils.momentum\<close>: the destination and the duration; \<open>None\<close> when one of them is not a finite number. A speed that is
  infinite (\<open>None\<close>) or no deceleration put the destination behind a boundary, from where it is taken back.
\<close>

definition momentum_low :: "rat \<Rightarrow> rat \<Rightarrow> rat \<Rightarrow> rat option \<Rightarrow> (rat \<times> rat) option" where
  "momentum_low margin wrapper current speed = (case speed of
     None \<Rightarrow> if wrapper \<noteq> 0 then None else Some (js_round margin, 0)
   | Some v \<Rightarrow>
       let dest = (if wrapper \<noteq> 0 then margin - wrapper / (5 / 2) * (v / 8) else margin)
       in map_option (\<lambda>dur. (js_round dest, dur)) (fin_div \<bar>dest - current\<bar> v))"

definition momentum_high :: "rat \<Rightarrow> rat \<Rightarrow> rat option \<Rightarrow> (rat \<times> rat) option" where
  "momentum_high wrapper current speed = (case speed of
     None \<Rightarrow> if wrapper \<noteq> 0 then None else Some (0, 0)
   | Some v \<Rightarrow>
       let dest = (if wrapper \<noteq> 0 then wrapper / (5 / 2) * (v / 8) else 0)
       in map_option (\<lambda>dur. (js_round dest, dur)) (fin_div (\<bar>current\<bar> + dest) v))"

definition momentum :: "rat \<Rightarrow> rat \<Rightarrow> rat \<Rightarrow> rat \<Rightarrow> rat \<Rightarrow> rat option \<Rightarrow> (rat \<times> rat) option" where
  "momentum current start time margin wrapper deceleration =
     (let dist = current - start;
          dec = (case deceleration of None \<Rightarrow> 6 / 10000 | Some d \<Rightarrow> d);
          speed = fin_div \<bar>dist\<bar> time
      in if dist = 0 \<and> (time = 0 \<or> dec = 0) then None
         else if time = 0 \<or> dec = 0 then
           (if (dist < 0) = (0 \<le> dec) then momentum_low margin wrapper current speed
            else momentum_high wrapper current speed)
         else
           let v = \<bar>dist\<bar> / time;
               dest = current + (v * v) / (2 * dec) * (if dist < 0 then -1 else 1)
           in if dest < margin then momentum_low margin wrapper current speed
              else if dest > 0 then momentum_high wrapper current speed
              else Some (js_round dest, v / dec))"

section \<open>Scrollbars\<close>

text \<open>
  One axis of an indicator: the size of its wrapper and of itself, its range, the ratio to the scroller, the size that
  is set (\<open>ia_width\<close>) and the position. Before the first refresh the sizes and boundaries are \<open>None\<close>.
\<close>

record iaxis =
  ia_wrapper :: "rat option"
  ia_size :: "rat option"
  ia_maxPos :: rat
  ia_bounds :: "(rat \<times> rat) option"
  ia_ratio :: rat
  ia_width :: "rat option"
  ia_pos :: rat

text \<open>
  \<open>id_client\<close> are the sizes that the browser reports for the wrapper and the indicator in one axis; \<open>id_speed\<close> is an own
  ratio, \<open>0\<close> if there is none.
\<close>

record indicator =
  id_listenX :: bool
  id_listenY :: bool
  id_interactive :: bool
  id_default :: bool
  id_resize :: bool
  id_shrink :: shrink
  id_ignore :: bool
  id_speedX :: rat
  id_speedY :: rat
  id_snapSpeed :: nat
  id_clientX :: "rat \<times> rat"
  id_clientY :: "rat \<times> rat"
  id_X :: iaxis
  id_Y :: iaxis
  id_shown :: bool
  id_both :: bool
  id_initiated :: bool
  id_moved :: bool
  id_lastX :: rat
  id_lastY :: rat

definition new_axis :: iaxis where
  "new_axis = \<lparr>ia_wrapper = None, ia_size = None, ia_maxPos = 0, ia_bounds = None, ia_ratio = 1, ia_width = None, ia_pos = 0\<rparr>"

section \<open>The scroller\<close>

record spage =
  p_x :: rat
  p_y :: rat
  p_w :: rat
  p_h :: rat
  p_cx :: rat
  p_cy :: rat

record cur_page =
  c_x :: rat
  c_y :: rat
  c_pageX :: int
  c_pageY :: int

text \<open>A step of an animation that waits for the next frame.\<close>

record frame =
  fr_destX :: rat
  fr_destY :: rat
  fr_startX :: rat
  fr_startY :: rat
  fr_start :: rat
  fr_duration :: rat
  fr_easing :: easing

datatype lock = Unlocked | LockH | LockV | LockN

text \<open>
  \<open>s_initiated\<close> is the type of the events of the gesture, \<open>0\<close> after it and \<open>None\<close> before the first one; \<open>s_absStart\<close> is not set before the first. \<open>s_pages\<close> has holes where the code leaves an
  array element undefined. \<open>s_wheel\<close> says whether the timeout of the wheel is pending, \<open>s_resize\<close> the time that the timeout
  of a resize has been set. \<open>s_log\<close> are the events that have been executed.
\<close>

record scr =
  s_opts :: is_opts
  s_x :: rat
  s_y :: rat
  s_dirX :: int
  s_dirY :: int
  s_enabled :: bool
  s_initiated :: "int option"
  s_moved :: bool
  s_distX :: rat
  s_distY :: rat
  s_locked :: lock
  s_startX :: rat
  s_startY :: rat
  s_absStart :: "(rat \<times> rat) option"
  s_pointX :: rat
  s_pointY :: rat
  s_startTime :: rat
  s_endTime :: rat
  s_inTransition :: bool
  s_animating :: bool
  s_frames :: "frame list"
  s_wrapperW :: rat
  s_wrapperH :: rat
  s_scrollerW :: rat
  s_scrollerH :: rat
  s_maxX :: rat
  s_maxY :: rat
  s_hasH :: bool
  s_hasV :: bool
  s_offset :: "rat \<times> rat"
  s_inds :: "indicator list"
  s_wheel :: bool
  s_resize :: "rat option"
  s_pages :: "spage option list list"
  s_page :: "cur_page option"
  s_thrX :: rat
  s_thrY :: rat
  s_keyAcc :: rat
  s_keyTime :: rat
  s_log :: "string list"

definition emit :: "string \<Rightarrow> scr \<Rightarrow> scr" where
  "emit ev s = s\<lparr>s_log := s_log s @ [ev]\<rparr>"

end
