(* ===== verification/IsCore.thy ===== *)
theory IsCore
  imports IsState
begin

text \<open>
  Moving a scroller of \<open>src/src/qt/res/js/iscroll.js\<close>: scrollbars, positions, animations, the boundaries and the snap
  pages. The easings of the script have no style, so that a transition with a duration is always an animation.
  Fading scrollbars and the styles of the elements other than the position are not represented.
\<close>

section \<open>Scrollbars\<close>

text \<open>\<open>updatePosition\<close> in one axis: the size of a bar that is pushed over an end shrinks \<open>f\<close> times as fast as it moves.\<close>

definition axis_position :: "rat \<Rightarrow> bool \<Rightarrow> bool \<Rightarrow> bool \<Rightarrow> rat \<Rightarrow> iaxis \<Rightarrow> iaxis" where
  "axis_position f scale ignore listen pos a =
     (let x = (if listen then js_round (ia_ratio a * pos) else 0) in
      case (if ignore then None else ia_bounds a, ia_size a) of
        (Some (lo, hi), Some sz) \<Rightarrow>
          if x < lo then
            a\<lparr>ia_width := (if scale then Some (max (sz + x * f) 8) else ia_width a), ia_pos := lo\<rparr>
          else if x > hi then
            (if scale then
               let w = max (sz - (x - ia_maxPos a) * f) 8
               in a\<lparr>ia_width := Some w, ia_pos := ia_maxPos a + sz - w\<rparr>
             else a\<lparr>ia_pos := hi\<rparr>)
          else a\<lparr>ia_width := (if scale then Some sz else ia_width a), ia_pos := x\<rparr>
      | _ \<Rightarrow> a\<lparr>ia_pos := x\<rparr>)"

definition updatePosition :: "rat \<Rightarrow> rat \<Rightarrow> indicator \<Rightarrow> indicator" where
  "updatePosition x y i =
     i\<lparr>id_X := axis_position 1 (id_shrink i = Scale) (id_ignore i) (id_listenX i) x (id_X i),
       id_Y := axis_position 3 (id_shrink i = Scale) (id_ignore i) (id_listenY i) y (id_Y i)\<rparr>"

text \<open>\<open>refresh\<close> in one axis, for a wrapper of the size \<open>cw\<close> and an indicator of the size \<open>ci\<close>.\<close>

definition axis_refresh :: "bool \<Rightarrow> bool \<Rightarrow> rat \<Rightarrow> rat \<times> rat \<Rightarrow> rat \<Rightarrow> rat \<Rightarrow> iaxis \<Rightarrow> iaxis" where
  "axis_refresh resize clip speed = (\<lambda>(cw, ci) scroller_size max_scroll a.
     let n = (if scroller_size \<noteq> 0 then scroller_size else if cw \<noteq> 0 then cw else 1);
         sz = (if resize then max (js_round (cw * cw / n)) 8 else ci);
         max_pos = cw - sz
     in a\<lparr>ia_wrapper := Some cw, ia_size := Some sz, ia_maxPos := max_pos,
          ia_bounds := Some (if clip then (8 - sz, cw - 8) else (0, max_pos)),
          ia_ratio := (if speed \<noteq> 0 then speed else if max_scroll = 0 then 0 else max_pos / max_scroll)\<rparr>)"

definition ind_refresh :: "scr \<Rightarrow> indicator \<Rightarrow> indicator" where
  "ind_refresh s i =
     (let i = i\<lparr>id_shown := (if id_listenX i \<and> \<not> id_listenY i then s_hasH s
                else if id_listenY i \<and> \<not> id_listenX i then s_hasV s else s_hasH s \<or> s_hasV s),
              id_both := s_hasH s \<and> s_hasV s\<rparr>;
          i = (if id_listenX i then i\<lparr>id_X := axis_refresh (id_resize i) (id_shrink i = Clip) (id_speedX i)
                 (id_clientX i) (s_scrollerW s) (s_maxX s) (id_X i)\<rparr> else i);
          i = (if id_listenY i then i\<lparr>id_Y := axis_refresh (id_resize i) (id_shrink i = Clip) (id_speedY i)
                 (id_clientY i) (s_scrollerH s) (s_maxY s) (id_Y i)\<rparr> else i)
      in updatePosition (s_x s) (s_y s) i)"

section \<open>Positions\<close>

definition translate :: "rat \<Rightarrow> rat \<Rightarrow> scr \<Rightarrow> scr" where
  "translate x y s =
     (let (x, y) = (if o_transform (s_opts s) then (x, y) else (js_round x, js_round y))
      in s\<lparr>s_x := x, s_y := y, s_inds := map (updatePosition x y) (s_inds s)\<rparr>)"

definition reset_target :: "scr \<Rightarrow> rat \<times> rat" where
  "reset_target s =
     (if \<not> s_hasH s \<or> s_x s > 0 then 0 else if s_x s < s_maxX s then s_maxX s else s_x s,
      if \<not> s_hasV s \<or> s_y s > 0 then 0 else if s_y s < s_maxY s then s_maxY s else s_y s)"

section \<open>Animations\<close>

text \<open>A step before the end of the animation: it waits for the next frame as long as the scroller is animated.\<close>

definition anim_run :: "math \<Rightarrow> rat \<Rightarrow> frame \<Rightarrow> scr \<Rightarrow> scr" where
  "anim_run m now fr s =
     (let e = ease_fn m (fr_easing fr) ((now - fr_start fr) / fr_duration fr);
          s = translate ((fr_destX fr - fr_startX fr) * e + fr_startX fr) ((fr_destY fr - fr_startY fr) * e + fr_startY fr) s
      in if s_animating s then s\<lparr>s_frames := s_frames s @ [fr]\<rparr> else s)"

definition new_frame :: "rat \<Rightarrow> rat \<Rightarrow> rat \<Rightarrow> rat \<Rightarrow> easing \<Rightarrow> scr \<Rightarrow> frame" where
  "new_frame now x y time e s = \<lparr>fr_destX = x, fr_destY = y, fr_startX = s_x s, fr_startY = s_y s, fr_start = now,
     fr_duration = time, fr_easing = e\<rparr>"

text \<open>\<open>scrollTo\<close> with a time that is not negative, as \<open>resetPosition\<close> uses it: its first step is not the last one.\<close>

definition scroll_back :: "math \<Rightarrow> rat \<Rightarrow> rat \<Rightarrow> rat \<Rightarrow> nat \<Rightarrow> scr \<Rightarrow> scr" where
  "scroll_back m now x y time s =
     (let s = s\<lparr>s_inTransition := o_transition (s_opts s) \<and> time > 0\<rparr>
      in if time = 0 then translate x y s
         else anim_run m now (new_frame now x y (of_nat time) (o_bounceEasing (s_opts s)) s) (s\<lparr>s_animating := True\<rparr>))"

definition resetPosition :: "math \<Rightarrow> rat \<Rightarrow> nat \<Rightarrow> scr \<Rightarrow> scr \<times> bool" where
  "resetPosition m now time s = (case reset_target s of (x, y) \<Rightarrow>
     if x = s_x s \<and> y = s_y s then (s, False) else (scroll_back m now x y time s, True))"

definition anim_finish :: "math \<Rightarrow> rat \<Rightarrow> frame \<Rightarrow> scr \<Rightarrow> scr" where
  "anim_finish m now fr s =
     (let s = translate (fr_destX fr) (fr_destY fr) (s\<lparr>s_animating := False\<rparr>);
          (s, back) = resetPosition m now (o_bounceTime (s_opts s)) s
      in if back then s else emit ''scrollEnd'' s)"

definition anim_step :: "math \<Rightarrow> rat \<Rightarrow> frame \<Rightarrow> scr \<Rightarrow> scr" where
  "anim_step m now fr s = (if now \<ge> fr_start fr + fr_duration fr then anim_finish m now fr s else anim_run m now fr s)"

definition animate :: "math \<Rightarrow> rat \<Rightarrow> rat \<Rightarrow> rat \<Rightarrow> rat \<Rightarrow> easing \<Rightarrow> scr \<Rightarrow> scr" where
  "animate m now x y time e s = anim_step m now (new_frame now x y time e s) (s\<lparr>s_animating := True\<rparr>)"

text \<open>The browser runs the steps that wait for a frame.\<close>

definition run_frames :: "math \<Rightarrow> rat \<Rightarrow> scr \<Rightarrow> scr" where
  "run_frames m now s = foldl (\<lambda>s fr. anim_step m now fr s) (s\<lparr>s_frames := []\<rparr>) (s_frames s)"

definition scrollTo :: "math \<Rightarrow> rat \<Rightarrow> rat \<Rightarrow> rat \<Rightarrow> rat \<Rightarrow> easing \<Rightarrow> scr \<Rightarrow> scr" where
  "scrollTo m now x y time e s =
     (let s = s\<lparr>s_inTransition := o_transition (s_opts s) \<and> time > 0\<rparr>
      in if time = 0 then translate x y s else animate m now x y time e s)"

definition scrollBy :: "math \<Rightarrow> rat \<Rightarrow> rat \<Rightarrow> rat \<Rightarrow> rat \<Rightarrow> easing \<Rightarrow> scr \<Rightarrow> scr" where
  "scrollBy m now x y time e s = scrollTo m now (s_x s + x) (s_y s + y) time e s"

text \<open>An element: its offset from the wrapper and its size; a time of \<open>None\<close> is the distance.\<close>

datatype el_offset = Centre | Offset rat

definition centre_off :: "rat \<Rightarrow> rat \<Rightarrow> el_offset \<Rightarrow> rat" where
  "centre_off sz wrapper off = (case off of Centre \<Rightarrow> js_round (sz / 2 - wrapper / 2) | Offset n \<Rightarrow> n)"

definition take_back :: "rat \<Rightarrow> rat \<Rightarrow> rat" where
  "take_back mx x = (if x > 0 then 0 else if x < mx then mx else x)"

definition scrollToElement ::
  "math \<Rightarrow> rat \<Rightarrow> rat \<times> rat \<Rightarrow> snap_el option \<Rightarrow> rat option \<Rightarrow> el_offset \<Rightarrow> el_offset \<Rightarrow> easing \<Rightarrow> scr \<Rightarrow> scr" where
  "scrollToElement m now wrapper el time offX offY e s = (case el of
     None \<Rightarrow> s
   | Some el \<Rightarrow>
       let x = take_back (s_maxX s) (- se_left el - fst (s_offset s) - centre_off (se_w el) (fst wrapper) offX);
           y = take_back (s_maxY s) (- se_top el - snd (s_offset s) - centre_off (se_h el) (snd wrapper) offY)
       in scrollTo m now x y (case time of None \<Rightarrow> max \<bar>s_x s - x\<bar> \<bar>s_y s - y\<bar> | Some t \<Rightarrow> t) e s)"

section \<open>Snap pages\<close>

definition js_nth :: "'a list \<Rightarrow> int \<Rightarrow> jserr + 'a" where
  "js_nth xs i = (if 0 \<le> i \<and> nat i < length xs then Inr (xs ! nat i) else Inl TypeErr)"

text \<open>The page in column \<open>i\<close> and row \<open>j\<close>; a hole has no properties.\<close>

definition page_in :: "spage option list list \<Rightarrow> int \<Rightarrow> int \<Rightarrow> jserr + spage" where
  "page_in ps i j = sbind (js_nth ps i) (\<lambda>col. sbind (js_nth col j) (\<lambda>p.
     case p of None \<Rightarrow> Inl TypeErr | Some p \<Rightarrow> Inr p))"

definition snap_time :: "nat \<Rightarrow> rat \<Rightarrow> rat \<Rightarrow> rat" where
  "snap_time speed dx dy = (if speed \<noteq> 0 then of_nat speed else max (max (min \<bar>dx\<bar> 1000) (min \<bar>dy\<bar> 1000)) 300)"

text \<open>An index that is taken back into a list of the length \<open>n\<close>.\<close>

definition page_index :: "nat \<Rightarrow> int \<Rightarrow> int" where
  "page_index n i = (if i \<ge> int n then int n - 1 else if i < 0 then 0 else i)"

definition goToPage :: "math \<Rightarrow> rat \<Rightarrow> int \<Rightarrow> int \<Rightarrow> rat option \<Rightarrow> scr \<Rightarrow> jserr + scr" where
  "goToPage m now x y time s =
     (let x = page_index (length (s_pages s)) x in
      sbind (js_nth (s_pages s) x) (\<lambda>col.
      let y = page_index (length col) y in
      sbind (page_in (s_pages s) x y) (\<lambda>p.
      let t = (case time of Some t \<Rightarrow> t
            | None \<Rightarrow> snap_time (o_snapSpeed (s_opts s)) (p_x p - s_x s) (p_y p - s_y s))
      in Inr (scrollTo m now (p_x p) (p_y p) t (o_bounceEasing (s_opts s))
           (s\<lparr>s_page := Some \<lparr>c_x = p_x p, c_y = p_y p, c_pageX = x, c_pageY = y\<rparr>\<rparr>)))))"

definition next_page :: "math \<Rightarrow> rat \<Rightarrow> rat option \<Rightarrow> scr \<Rightarrow> jserr + scr" where
  "next_page m now time s = (case s_page s of
     None \<Rightarrow> Inl TypeErr
   | Some c \<Rightarrow>
       if c_pageX c + 1 \<ge> int (length (s_pages s)) \<and> s_hasV s then goToPage m now 0 (c_pageY c + 1) time s
       else goToPage m now (c_pageX c + 1) (c_pageY c) time s)"

definition prev_page :: "math \<Rightarrow> rat \<Rightarrow> rat option \<Rightarrow> scr \<Rightarrow> jserr + scr" where
  "prev_page m now time s = (case s_page s of
     None \<Rightarrow> Inl TypeErr
   | Some c \<Rightarrow>
       if c_pageX c - 1 < 0 \<and> s_hasV s then goToPage m now 0 (c_pageY c - 1) time s
       else goToPage m now (c_pageX c - 1) (c_pageY c) time s)"

text \<open>The starts of the pages of a grid; a step that is not positive never ends the loop.\<close>

function snap_steps :: "rat \<Rightarrow> rat \<Rightarrow> rat \<Rightarrow> jserr + rat list" where
  "snap_steps step sz x =
     (if \<not> x > - sz then Inr []
      else if step \<le> 0 then Inl NoFuel
      else sbind (snap_steps step sz (x - step)) (\<lambda>xs. Inr (x # xs)))"
  by pat_completeness auto
termination
proof (relation "measure (\<lambda>(step, sz, x). nat \<lceil>(x + sz) / step\<rceil>)")
  fix step sz x :: rat
  assume x: "\<not> \<not> x > - sz" and s: "\<not> step \<le> 0"
  then have "(x - step + sz) / step = (x + sz) / step - 1" by (simp add: field_simps)
  moreover have "0 < (x + sz) / step" using x s by simp
  then have "0 < \<lceil>(x + sz) / step\<rceil>" by (simp only: zero_less_ceiling)
  ultimately show "((step, sz, x - step), (step, sz, x)) \<in> measure (\<lambda>(step, sz, x). nat \<lceil>(x + sz) / step\<rceil>)"
    by simp
qed simp

declare snap_steps.simps [simp del]

definition grid_page :: "scr \<Rightarrow> rat \<Rightarrow> rat \<Rightarrow> rat \<Rightarrow> rat \<Rightarrow> spage" where
  "grid_page s stepX stepY x y = \<lparr>p_x = max x (s_maxX s), p_y = max y (s_maxY s), p_w = stepX, p_h = stepY,
     p_cx = x - js_round (stepX / 2), p_cy = y - js_round (stepY / 2)\<rparr>"

definition grid_pages :: "rat \<Rightarrow> rat \<Rightarrow> scr \<Rightarrow> jserr + spage option list list" where
  "grid_pages stepX stepY s =
     sbind (snap_steps stepX (s_scrollerW s) 0) (\<lambda>xs.
     if xs = [] then Inr []
     else sbind (snap_steps stepY (s_scrollerH s) 0) (\<lambda>ys.
       Inr (map (\<lambda>x. map (\<lambda>y. Some (grid_page s stepX stepY x y)) ys) xs)))"

text \<open>An array element is set; the elements before it that do not exist are holes.\<close>

definition set_at :: "nat \<Rightarrow> 'a \<Rightarrow> 'a option list \<Rightarrow> 'a option list" where
  "set_at n v xs = (if n < length xs then xs[n := Some v] else xs @ replicate (n - length xs) None @ [Some v])"

text \<open>The pages of elements: column \<open>m\<close>, row \<open>n\<close> (counted from one); \<open>prev\<close> is the offset of the element before.\<close>

fun element_pages :: "scr \<Rightarrow> snap_el list \<Rightarrow> rat option \<Rightarrow> nat \<Rightarrow> nat \<Rightarrow> spage option list list \<Rightarrow> spage option list list" where
  "element_pages s [] prev m n ps = ps"
| "element_pages s (el # els) prev m n ps =
     (let new_row = (case prev of None \<Rightarrow> True | Some l \<Rightarrow> se_left el \<le> l);
          m = (if new_row then 0 else m);
          n = (if new_row then n + 1 else n);
          ps = (if m < length ps then ps else ps @ [[]]);
          x = max (- se_left el) (s_maxX s);
          y = max (- se_top el) (s_maxY s);
          p = \<lparr>p_x = x, p_y = y, p_w = se_w el, p_h = se_h el, p_cx = x - js_round (se_w el / 2),
            p_cy = y - js_round (se_h el / 2)\<rparr>
      in element_pages s els (Some (se_left el)) (if x > s_maxX s then m + 1 else m) n (ps[m := set_at (n - 1) p (ps ! m)]))"

definition snap_pages :: "scr \<Rightarrow> jserr + spage option list list" where
  "snap_pages s =
     (let o' = s_opts s;
          stepX = (if o_stepX o' \<noteq> 0 then o_stepX o' else s_wrapperW s);
          stepY = (if o_stepY o' \<noteq> 0 then o_stepY o' else s_wrapperH s)
      in case o_snap o' of
           NoSnap \<Rightarrow> Inr []
         | SnapGrid \<Rightarrow> grid_pages stepX stepY s
         | SnapElems els \<Rightarrow> Inr (element_pages s els None 0 0 []))"

text \<open>The threshold: a whole number is a distance, another one a part of the page.\<close>

definition snap_thresholds :: "scr \<Rightarrow> jserr + scr" where
  "snap_thresholds s =
     (let t = o_snapThreshold (s_opts s) in
      if of_int \<lfloor>t\<rfloor> = t then Inr (s\<lparr>s_thrX := t, s_thrY := t\<rparr>)
      else case s_page s of
          None \<Rightarrow> Inl TypeErr
        | Some c \<Rightarrow> sbind (page_in (s_pages s) (c_pageX c) (c_pageY c)) (\<lambda>p.
            Inr (s\<lparr>s_thrX := js_round (p_w p * t), s_thrY := js_round (p_h p * t)\<rparr>)))"

text \<open>The handler of the event of a refresh.\<close>

definition snap_refresh :: "math \<Rightarrow> rat \<Rightarrow> scr \<Rightarrow> jserr + scr" where
  "snap_refresh m now s =
     (let s = s\<lparr>s_pages := []\<rparr> in
      if s_wrapperW s = 0 \<or> s_wrapperH s = 0 \<or> s_scrollerW s = 0 \<or> s_scrollerH s = 0 then Inr s
      else sbind (snap_pages s) (\<lambda>ps.
        let (px, py) = (case s_page s of None \<Rightarrow> (0, 0) | Some c \<Rightarrow> (c_pageX c, c_pageY c))
        in sbind (goToPage m now px py (Some 0) (s\<lparr>s_pages := ps\<rparr>)) snap_thresholds))"

text \<open>\<open>_nearestSnap\<close>: the first column and row whose centre the position has not passed.\<close>

fun snap_col :: "spage option list list \<Rightarrow> rat \<Rightarrow> nat \<Rightarrow> jserr + nat \<times> rat" where
  "snap_col [] x i = Inl TypeErr"
| "snap_col (col # cols) x i = (case col of
     Some p # _ \<Rightarrow> if x \<ge> p_cx p then Inr (i, p_x p) else snap_col cols x (i + 1)
   | _ \<Rightarrow> Inl TypeErr)"

fun snap_row :: "spage option list \<Rightarrow> nat \<Rightarrow> rat \<Rightarrow> nat \<Rightarrow> jserr + nat \<times> rat" where
  "snap_row col 0 y j = Inr (j, y)"
| "snap_row (Some p # col) (Suc n) y j = (if y \<ge> p_cy p then Inr (j, p_y p) else snap_row col n y (j + 1))"
| "snap_row _ (Suc n) y j = Inl TypeErr"

definition nearestSnap :: "rat \<Rightarrow> rat \<Rightarrow> scr \<Rightarrow> jserr + cur_page" where
  "nearestSnap x y s =
     (if s_pages s = [] then Inr \<lparr>c_x = 0, c_y = 0, c_pageX = 0, c_pageY = 0\<rparr>
      else case (case s_absStart s of
          Some (ax, ay) \<Rightarrow> if \<bar>x - ax\<bar> < s_thrX s \<and> \<bar>y - ay\<bar> < s_thrY s then s_page s else None
        | None \<Rightarrow> None) of
          Some c \<Rightarrow> Inr c
        | None \<Rightarrow>
          sbind (snap_col (s_pages s) (take_back (s_maxX s) x) 0) (\<lambda>(i, x).
          sbind (snap_row (s_pages s ! 0) (length (s_pages s ! i)) (take_back (s_maxY s) y) 0) (\<lambda>(j, y).
          sbind (case s_page s of
              Some c \<Rightarrow> if int i = c_pageX c then
                  let i = page_index (length (s_pages s)) (int i + s_dirX s)
                  in sbind (page_in (s_pages s) i 0) (\<lambda>p. Inr (i, p_x p))
                else Inr (int i, x)
            | None \<Rightarrow> Inr (int i, x)) (\<lambda>(i, x).
          sbind (case s_page s of
              Some c \<Rightarrow> if int j = c_pageY c then
                  let j = page_index (length (s_pages s ! 0)) (int j + s_dirY s)
                  in sbind (page_in (s_pages s) 0 j) (\<lambda>p. Inr (j, p_y p))
                else Inr (int j, y)
            | None \<Rightarrow> Inr (int j, y)) (\<lambda>(j, y).
          Inr \<lparr>c_x = x, c_y = y, c_pageX = i, c_pageY = j\<rparr>)))))"

end
