(* ===== verification/IsEvents.thy ===== *)
theory IsEvents
  imports IsCore
begin

text \<open>
  The handlers of \<open>src/src/qt/res/js/iscroll.js\<close>: refreshing, touching and dragging, the wheel, keys and the
  scrollbars. What the browser reports of the page is an argument. A handler that would give a position or a
  duration that is not a finite number is \<open>None\<close>.
\<close>

section \<open>Refreshing\<close>

text \<open>The sizes of the wrapper and the scroller, the height of the last message and the offset of the wrapper.\<close>

record dom =
  d_wrapperW :: rat
  d_wrapperH :: rat
  d_scrollerW :: rat
  d_scrollerH :: rat
  d_last :: "rat option"
  d_offset :: "rat \<times> rat"

definition measure_sizes :: "dom \<Rightarrow> scr \<Rightarrow> scr" where
  "measure_sizes d s =
     (let h = d_scrollerH d + (case d_last d of None \<Rightarrow> 0 | Some n \<Rightarrow> n + 40);
          mx = d_wrapperW d - d_scrollerW d;
          my = d_wrapperH d - h;
          has_h = o_scrollX (s_opts s) \<and> mx < 0;
          has_v = o_scrollY (s_opts s) \<and> my < 0
      in s\<lparr>s_wrapperW := d_wrapperW d, s_wrapperH := d_wrapperH d, s_hasH := has_h, s_hasV := has_v,
           s_maxX := (if has_h then mx else 0), s_maxY := (if has_v then my else 0),
           s_scrollerW := (if has_h then d_scrollerW d else d_wrapperW d),
           s_scrollerH := (if has_v then h else d_wrapperH d),
           s_endTime := 0, s_dirX := 0, s_dirY := 0, s_offset := d_offset d\<rparr>)"

text \<open>The event of a refresh goes to the scrollbars and to the snap pages; then the position is taken back.\<close>

definition refresh :: "math \<Rightarrow> rat \<Rightarrow> dom \<Rightarrow> scr \<Rightarrow> jserr + scr" where
  "refresh m now d s =
     (let s = emit ''refresh'' (measure_sizes d s);
          s = s\<lparr>s_inds := map (ind_refresh s) (s_inds s)\<rparr>
      in sbind (if o_snap (s_opts s) = NoSnap then Inr s else snap_refresh m now s) (\<lambda>s.
           Inr (fst (resetPosition m now 0 s))))"

text \<open>A resize waits for the time of the option; a later one starts it again.\<close>

definition resize_later :: "rat \<Rightarrow> scr \<Rightarrow> scr" where
  "resize_later now s = s\<lparr>s_resize := Some (now + (case o_polling (s_opts s) of None \<Rightarrow> 0 | Some n \<Rightarrow> of_nat n))\<rparr>"

definition resize_timeout :: "math \<Rightarrow> rat \<Rightarrow> dom \<Rightarrow> scr \<Rightarrow> jserr + scr" where
  "resize_timeout m now d s = (if s_resize s = None then Inr s else refresh m now d (s\<lparr>s_resize := None\<rparr>))"

definition transitionEnd :: "math \<Rightarrow> rat \<Rightarrow> bool \<Rightarrow> scr \<Rightarrow> scr" where
  "transitionEnd m now own s =
     (if \<not> own \<or> \<not> s_inTransition s then s
      else let (s, back) = resetPosition m now (o_bounceTime (s_opts s)) s
        in if back then s else emit ''scrollEnd'' (s\<lparr>s_inTransition := False\<rparr>))"

section \<open>Touching and dragging\<close>

text \<open>
  An event: its name, the button, the point, whether its target is an exception to preventing, whether it is the
  scroller, whether the script has made it, the movement of the wheel and the key. The wheel tells its movement in one of four ways.
\<close>

datatype wheel = WDelta rat rat | WWheelXY rat rat | WWheel rat | WDetail rat | WNothing

record is_event =
  ev_name :: string
  ev_button :: int
  ev_x :: rat
  ev_y :: rat
  ev_exempt :: bool
  ev_own :: bool
  ev_constructed :: bool
  ev_wheel :: wheel
  ev_key :: int

definition eventType :: "string \<Rightarrow> int option" where
  "eventType n =
     (if n \<in> {''touchstart'', ''touchmove'', ''touchend''} then Some 1
      else if n \<in> {''mousedown'', ''mousemove'', ''mouseup''} then Some 2
      else if n \<in> {''pointerdown'', ''pointermove'', ''pointerup'', ''MSPointerDown'', ''MSPointerMove'', ''MSPointerUp''} then Some 3
      else None)"

definition prevent :: "bool \<Rightarrow> scr \<Rightarrow> scr" where
  "prevent c s = (if c then emit ''preventDefault'' s else s)"

text \<open>\<open>pos\<close> is the position that the browser has computed.\<close>

definition touch_start :: "rat \<Rightarrow> rat \<times> rat \<Rightarrow> is_event \<Rightarrow> scr \<Rightarrow> scr" where
  "touch_start now pos e s =
     (let t = eventType (ev_name e) in
      if t \<noteq> Some 1 \<and> ev_button e \<noteq> 0 then s
      else if \<not> s_enabled s \<or> s_initiated s \<notin> {None, Some 0} \<and> t \<noteq> s_initiated s then s
      else
        let s = prevent (o_prevent (s_opts s) \<and> \<not> ev_exempt e) s;
            s = s\<lparr>s_initiated := t, s_moved := False, s_distX := 0, s_distY := 0, s_dirX := 0, s_dirY := 0,
                  s_locked := Unlocked, s_startTime := now\<rparr>;
            s = (if o_transition (s_opts s) \<and> s_inTransition s then
                   emit ''scrollEnd'' (translate (js_round (fst pos)) (js_round (snd pos)) (s\<lparr>s_inTransition := False\<rparr>))
                 else if \<not> o_transition (s_opts s) \<and> s_animating s then emit ''scrollEnd'' (s\<lparr>s_animating := False\<rparr>)
                 else s)
        in emit ''beforeScrollStart'' (s\<lparr>s_startX := s_x s, s_startY := s_y s, s_absStart := Some (s_x s, s_y s),
             s_pointX := ev_x e, s_pointY := ev_y e\<rparr>))"

definition lock_direction :: "scr \<Rightarrow> scr" where
  "lock_direction s =
     (if s_locked s = Unlocked \<and> \<not> o_free (s_opts s) then
        s\<lparr>s_locked := (if \<bar>s_distX s\<bar> > \<bar>s_distY s\<bar> + o_lock (s_opts s) then LockH
            else if \<bar>s_distY s\<bar> \<ge> \<bar>s_distX s\<bar> + o_lock (s_opts s) then LockV else LockN)\<rparr>
      else s)"

text \<open>Outside of the boundaries the scroller follows at a third, or not at all.\<close>

definition drag_to :: "bool \<Rightarrow> rat \<Rightarrow> rat \<Rightarrow> rat \<Rightarrow> rat" where
  "drag_to bounce mx x d =
     (if x + d > 0 \<or> x + d < mx then (if bounce then x + d / 3 else if x + d > 0 then 0 else mx) else x + d)"

definition toward :: "rat \<Rightarrow> int" where
  "toward d = (if d > 0 then -1 else if d < 0 then 1 else 0)"

definition drag :: "rat \<Rightarrow> rat \<Rightarrow> rat \<Rightarrow> scr \<Rightarrow> scr" where
  "drag now dx dy s =
     (let dx = (if s_hasH s then dx else 0);
          dy = (if s_hasV s then dy else 0);
          x = drag_to (o_bounce (s_opts s)) (s_maxX s) (s_x s) dx;
          y = drag_to (o_bounce (s_opts s)) (s_maxY s) (s_y s) dy;
          s = s\<lparr>s_dirX := toward dx, s_dirY := toward dy\<rparr>;
          s = (if s_moved s then s else emit ''scrollStart'' s);
          s = translate x y (s\<lparr>s_moved := True\<rparr>)
      in if now - s_startTime s > 300 then s\<lparr>s_startTime := now, s_startX := s_x s, s_startY := s_y s\<rparr> else s)"

definition touch_move :: "rat \<Rightarrow> is_event \<Rightarrow> scr \<Rightarrow> scr" where
  "touch_move now e s =
     (if \<not> s_enabled s \<or> eventType (ev_name e) \<noteq> s_initiated s then s
      else
        let s = prevent (o_prevent (s_opts s)) s;
            dx = ev_x e - s_pointX s;
            dy = ev_y e - s_pointY s;
            s = s\<lparr>s_pointX := ev_x e, s_pointY := ev_y e, s_distX := s_distX s + dx, s_distY := s_distY s + dy\<rparr>
        in if now - s_endTime s > 300 \<and> \<bar>s_distX s\<bar> < 10 \<and> \<bar>s_distY s\<bar> < 10 then s
           else
             let s = lock_direction s; through = o_pass (s_opts s) in
             if s_locked s = LockH then
               (if through = PHorizontal then s\<lparr>s_initiated := Some 0\<rparr> else drag now dx 0 (prevent (through = PVertical) s))
             else if s_locked s = LockV then
               (if through = PVertical then s\<lparr>s_initiated := Some 0\<rparr> else drag now 0 dy (prevent (through = PHorizontal) s))
             else drag now dx dy s)"

text \<open>The end of a drag: where the scroller is to go, in what time and how.\<close>

definition fling :: "rat \<Rightarrow> rat \<Rightarrow> rat \<Rightarrow> scr \<Rightarrow> (rat \<times> rat \<times> rat) option" where
  "fling duration x y s =
     (let o' = s_opts s;
          go = (\<lambda>has p start mx w d. if has then momentum p start duration mx (if o_bounce o' then w else 0) (o_deceleration o')
            else Some (d, 0))
      in case (go (s_hasH s) (s_x s) (s_startX s) (s_maxX s) (s_wrapperW s) x,
               go (s_hasV s) (s_y s) (s_startY s) (s_maxY s) (s_wrapperH s) y) of
           (Some (x, tx), Some (y, ty)) \<Rightarrow> Some (x, y, max tx ty)
         | _ \<Rightarrow> None)"

definition outside :: "scr \<Rightarrow> rat \<Rightarrow> rat \<Rightarrow> bool" where
  "outside s x y \<longleftrightarrow> x > 0 \<or> x < s_maxX s \<or> y > 0 \<or> y < s_maxY s"

text \<open>The last part of \<open>_end\<close>: the snap page next to the destination, and the way there.\<close>

definition settle :: "math \<Rightarrow> rat \<Rightarrow> rat \<Rightarrow> rat \<Rightarrow> rat \<Rightarrow> scr \<Rightarrow> jserr + scr" where
  "settle m now x y time s =
     sbind (if o_snap (s_opts s) = NoSnap then Inr (x, y, time, Circular, s)
        else sbind (nearestSnap x y s) (\<lambda>c.
          Inr (c_x c, c_y c, snap_time (o_snapSpeed (s_opts s)) (x - c_x c) (y - c_y c), o_bounceEasing (s_opts s),
            s\<lparr>s_page := Some c, s_dirX := 0, s_dirY := 0\<rparr>))) (\<lambda>(x, y, time, easing, s).
     Inr (if x \<noteq> s_x s \<or> y \<noteq> s_y s
       then scrollTo m now x y time (if outside s x y then Quadratic else easing) s
       else emit ''scrollEnd'' s))"

text \<open>The event \<open>flick\<close>, to which the snap pages listen.\<close>

definition flick :: "math \<Rightarrow> rat \<Rightarrow> scr \<Rightarrow> jserr + scr" where
  "flick m now s =
     (let s = emit ''flick'' s in
      if o_snap (s_opts s) = NoSnap then Inr s
      else case s_page s of
          None \<Rightarrow> Inl TypeErr
        | Some c \<Rightarrow> goToPage m now (c_pageX c + s_dirX s) (c_pageY c + s_dirY s)
            (Some (snap_time (o_snapSpeed (s_opts s)) (s_x s - s_startX s) (s_y s - s_startY s))) s)"

definition touch_end :: "math \<Rightarrow> rat \<Rightarrow> is_event \<Rightarrow> scr \<Rightarrow> (jserr + scr) option" where
  "touch_end m now e s =
     (if \<not> s_enabled s \<or> eventType (ev_name e) \<noteq> s_initiated s then Some (Inr s)
      else
        let s = prevent (o_prevent (s_opts s) \<and> \<not> ev_exempt e) s;
            duration = now - s_startTime s;
            x = js_round (s_x s);
            y = js_round (s_y s);
            near = \<bar>x - s_startX s\<bar> < 100 \<and> \<bar>y - s_startY s\<bar> < 100;
            s = s\<lparr>s_inTransition := False, s_initiated := Some 0, s_endTime := now\<rparr>;
            (s, back) = resetPosition m now (o_bounceTime (s_opts s)) s
        in if back then Some (Inr s)
           else
             let s = scrollTo m now x y 0 Circular s in
             if \<not> s_moved s then
               Some (Inr (emit ''scrollCancel''
                 (let s = (if o_tap (s_opts s) then emit ''tap'' s else s)
                  in if o_click (s_opts s) then emit ''click'' s else s)))
             else if (o_flick (s_opts s) \<or> o_snap (s_opts s) \<noteq> NoSnap) \<and> duration < 200 \<and> near then Some (flick m now s)
             else if o_momentum (s_opts s) \<and> duration < 300 then
               (case fling duration x y s of
                  None \<Rightarrow> None
                | Some (x, y, time) \<Rightarrow> Some (settle m now x y time (s\<lparr>s_inTransition := True\<rparr>)))
             else Some (settle m now x y 0 s))"

section \<open>The wheel\<close>

definition wheel_delta :: "is_opts \<Rightarrow> wheel \<Rightarrow> (rat \<times> rat) option" where
  "wheel_delta o' w =
     map_option (\<lambda>(x, y). if o_invert o' then (-x, -y) else (x, y)) (case w of
       WDelta x y \<Rightarrow> Some (-x, -y)
     | WWheelXY x y \<Rightarrow> Some (x / 120 * o_wheelSpeed o', y / 120 * o_wheelSpeed o')
     | WWheel d \<Rightarrow> Some (d / 120 * o_wheelSpeed o', d / 120 * o_wheelSpeed o')
     | WDetail d \<Rightarrow> Some (-d / 3 * o_wheelSpeed o', -d / 3 * o_wheelSpeed o')
     | WNothing \<Rightarrow> None)"

definition wheel_scroll :: "math \<Rightarrow> rat \<Rightarrow> wheel \<Rightarrow> scr \<Rightarrow> jserr + scr" where
  "wheel_scroll m now w s =
     (if \<not> s_enabled s then Inr s
      else
        let s = (if s_wheel s then s else emit ''scrollStart'' s)\<lparr>s_wheel := True\<rparr> in
        case wheel_delta (s_opts s) w of
          None \<Rightarrow> Inr s
        | Some (dx, dy) \<Rightarrow>
            let (dx, dy) = (if s_hasV s then (dx, dy) else (dy, 0)) in
            if o_snap (s_opts s) \<noteq> NoSnap then
              (case s_page s of
                 None \<Rightarrow> Inl TypeErr
               | Some c \<Rightarrow> goToPage m now (c_pageX c + toward dx) (c_pageY c + toward dy) None s)
            else Inr (scrollTo m now
              (take_back (s_maxX s) (s_x s + js_round (if s_hasH s then dx else 0)))
              (take_back (s_maxY s) (s_y s + js_round (if s_hasV s then dy else 0))) 0 Circular s))"

text \<open>The timeout of the wheel.\<close>

definition wheel_timeout :: "scr \<Rightarrow> scr" where
  "wheel_timeout s = (if s_wheel s then (emit ''scrollEnd'' s)\<lparr>s_wheel := False\<rparr> else s)"

section \<open>Keys\<close>

text \<open>The position or page that a key leads to; \<open>None\<close> for a key that is not bound.\<close>

definition key_target :: "int \<Rightarrow> rat \<Rightarrow> rat \<Rightarrow> scr \<Rightarrow> (rat \<times> rat) option" where
  "key_target key x y s =
     (let k = o_keys (s_opts s);
          snapped = (o_snap (s_opts s) \<noteq> NoSnap);
          step = of_int \<lfloor>5 + s_keyAcc s\<rfloor>;
          across = (s_hasH s \<and> \<not> s_hasV s);
          page_w = (if snapped then 1 else s_wrapperW s);
          page_h = (if snapped then 1 else s_wrapperH s)
      in if key = k_pageUp k then Some (if across then (x + page_w, y) else (x, y + page_h))
         else if key = k_pageDown k then Some (if across then (x - page_w, y) else (x, y - page_h))
         else if key = k_end k then
           Some (if snapped then (of_nat (length (s_pages s)) - 1, case s_pages s of [] \<Rightarrow> 0 | col # _ \<Rightarrow> of_nat (length col) - 1) else (s_maxX s, s_maxY s))
         else if key = k_home k then Some (0, 0)
         else if key = k_left k then Some (x + (if snapped then -1 else step), y)
         else if key = k_up k then Some (x, y + (if snapped then 1 else step))
         else if key = k_right k then Some (x - (if snapped then -1 else step), y)
         else if key = k_down k then Some (x, y - (if snapped then 1 else step))
         else None)"

definition key_down :: "math \<Rightarrow> rat \<Rightarrow> rat \<times> rat \<Rightarrow> int \<Rightarrow> scr \<Rightarrow> jserr + scr" where
  "key_down m now pos key s =
     (if \<not> s_enabled s then Inr s
      else
        let (x, y) = (s_x s, s_y s);
            s = (if o_transition (s_opts s) \<and> s_inTransition s
              then (translate (js_round (fst pos)) (js_round (snd pos)) s)\<lparr>s_inTransition := False\<rparr> else s);
            s = s\<lparr>s_keyAcc := (if now - s_keyTime s < 200 then min (s_keyAcc s + 1 / 4) 50 else 0)\<rparr>
        in if o_snap (s_opts s) \<noteq> NoSnap then
             let (px, py) = (case s_page s of None \<Rightarrow> (0, 0) | Some c \<Rightarrow> (of_int (c_pageX c), of_int (c_pageY c))) in
             (case key_target key px py s of
                None \<Rightarrow> Inr s
              | Some (px, py) \<Rightarrow> if s_page s = None then Inl TypeErr else goToPage m now \<lfloor>px\<rfloor> \<lfloor>py\<rfloor> None s)
           else (case key_target key x y s of
               None \<Rightarrow> Inr s
             | Some (nx, ny) \<Rightarrow>
                 let x = take_back (s_maxX s) nx; y = take_back (s_maxY s) ny;
                     s = (if x \<noteq> nx \<or> y \<noteq> ny then s\<lparr>s_keyAcc := 0\<rparr> else s)
                 in Inr ((scrollTo m now x y 0 Circular s)\<lparr>s_keyTime := now\<rparr>)))"

section \<open>Dragging a scrollbar\<close>

definition ind_start :: "nat \<Rightarrow> rat \<Rightarrow> rat \<Rightarrow> scr \<Rightarrow> scr" where
  "ind_start j x y s = emit ''beforeScrollStart''
     (s\<lparr>s_inds := (s_inds s)[j := (s_inds s ! j)\<lparr>id_initiated := True, id_moved := False, id_lastX := x, id_lastY := y\<rparr>]\<rparr>)"

definition ind_clamp :: "rat \<Rightarrow> rat \<Rightarrow> rat" where
  "ind_clamp mx x = (if x < 0 then 0 else if x > mx then mx else x)"

text \<open>\<open>_pos\<close>: where the scroller has to be for a position of the bar; \<open>None\<close> for a ratio of zero.\<close>

definition ind_pos :: "math \<Rightarrow> rat \<Rightarrow> indicator \<Rightarrow> rat \<Rightarrow> rat \<Rightarrow> scr \<Rightarrow> scr option" where
  "ind_pos m now i x y s =
     (let go = (\<lambda>listen a p old. if listen then map_option js_round (fin_div (ind_clamp (ia_maxPos a) p) (ia_ratio a)) else Some old)
      in case (go (id_listenX i) (id_X i) x (s_x s), go (id_listenY i) (id_Y i) y (s_y s)) of
           (Some x, Some y) \<Rightarrow> Some (scrollTo m now x y 0 Circular s)
         | _ \<Rightarrow> None)"

definition ind_move :: "math \<Rightarrow> rat \<Rightarrow> nat \<Rightarrow> rat \<Rightarrow> rat \<Rightarrow> scr \<Rightarrow> scr option" where
  "ind_move m now j x y s =
     (let i = s_inds s ! j;
          s = (if id_moved i then s else emit ''scrollStart'' s);
          nx = ia_pos (id_X i) + (x - id_lastX i);
          ny = ia_pos (id_Y i) + (y - id_lastY i);
          i = i\<lparr>id_moved := True, id_lastX := x, id_lastY := y\<rparr>
      in ind_pos m now i nx ny (s\<lparr>s_inds := (s_inds s)[j := i]\<rparr>))"

definition ind_end :: "math \<Rightarrow> rat \<Rightarrow> nat \<Rightarrow> scr \<Rightarrow> jserr + scr" where
  "ind_end m now j s =
     (let i = s_inds s ! j in
      if \<not> id_initiated i then Inr s
      else
        let s = s\<lparr>s_inds := (s_inds s)[j := i\<lparr>id_initiated := False\<rparr>]\<rparr> in
        sbind (if o_snap (s_opts s) = NoSnap then Inr s
          else sbind (nearestSnap (s_x s) (s_y s) s) (\<lambda>c.
            Inr (if s_x s \<noteq> c_x c \<or> s_y s \<noteq> c_y c
              then scrollTo m now (c_x c) (c_y c) (snap_time (id_snapSpeed i) (s_x s - c_x c) (s_y s - c_y c))
                (o_bounceEasing (s_opts s)) (s\<lparr>s_dirX := 0, s_dirY := 0, s_page := Some c\<rparr>)
              else s))) (\<lambda>s.
          Inr (if id_moved i then emit ''scrollEnd'' s else s)))"

section \<open>Events\<close>

datatype is_handler = HStart | HMove | HEnd | HResize | HTransition | HWheel | HKey | HClick

definition handler_of :: "string \<Rightarrow> is_handler option" where
  "handler_of n =
     (if n \<in> {''touchstart'', ''pointerdown'', ''MSPointerDown'', ''mousedown''} then Some HStart
      else if n \<in> {''touchmove'', ''pointermove'', ''MSPointerMove'', ''mousemove''} then Some HMove
      else if n \<in> {''touchend'', ''pointerup'', ''MSPointerUp'', ''mouseup'', ''touchcancel'', ''pointercancel'',
          ''MSPointerCancel'', ''mousecancel''} then Some HEnd
      else if n \<in> {''orientationchange'', ''resize''} then Some HResize
      else if n \<in> {''transitionend'', ''webkitTransitionEnd'', ''oTransitionEnd'', ''MSTransitionEnd''} then Some HTransition
      else if n \<in> {''wheel'', ''DOMMouseScroll'', ''mousewheel''} then Some HWheel
      else if n = ''keydown'' then Some HKey
      else if n = ''click'' then Some HClick
      else None)"

definition handleEvent :: "math \<Rightarrow> rat \<Rightarrow> rat \<times> rat \<Rightarrow> is_event \<Rightarrow> scr \<Rightarrow> (jserr + scr) option" where
  "handleEvent m now pos e s = (case handler_of (ev_name e) of
     Some HStart \<Rightarrow> Some (Inr (touch_start now pos e s))
   | Some HMove \<Rightarrow> Some (Inr (touch_move now e s))
   | Some HEnd \<Rightarrow> touch_end m now e s
   | Some HResize \<Rightarrow> Some (Inr (resize_later now s))
   | Some HTransition \<Rightarrow> Some (Inr (transitionEnd m now (ev_own e) s))
   | Some HWheel \<Rightarrow> Some (wheel_scroll m now (ev_wheel e) s)
   | Some HKey \<Rightarrow> Some (key_down m now pos (ev_key e) s)
   | Some HClick \<Rightarrow> Some (Inr (prevent (\<not> ev_constructed e) s))
   | None \<Rightarrow> Some (Inr s))"

section \<open>A new scroller\<close>

text \<open>The scrollbars that the options ask for, with what the browser reports of their sizes.\<close>

definition new_indicator :: "is_opts \<Rightarrow> bool \<Rightarrow> bool \<Rightarrow> rat \<times> rat \<Rightarrow> indicator" where
  "new_indicator o' x y client = \<lparr>id_listenX = x, id_listenY = y, id_interactive = o_interactive o', id_default = True,
     id_resize = o_resizeBars o', id_shrink = o_shrink o', id_ignore = False, id_speedX = 0, id_speedY = 0, id_snapSpeed = 0,
     id_clientX = client, id_clientY = client, id_X = new_axis, id_Y = new_axis, id_shown = True, id_both = False,
     id_initiated = False, id_moved = False, id_lastX = 0, id_lastY = 0\<rparr>"

definition init_indicators :: "is_opts \<Rightarrow> rat \<times> rat \<Rightarrow> rat \<times> rat \<Rightarrow> indicator list \<Rightarrow> indicator list" where
  "init_indicators o' v h own =
     (let bars = (if o_scrollbars o' then
          (if o_scrollY o' then [new_indicator o' False True v] else []) @
          (if o_scrollX o' then [new_indicator o' True False h] else []) else [])
      in rev (bars @ own))"

definition blank :: "is_opts \<Rightarrow> indicator list \<Rightarrow> scr" where
  "blank o' inds = \<lparr>s_opts = o', s_x = 0, s_y = 0, s_dirX = 0, s_dirY = 0, s_enabled = False, s_initiated = None, s_moved = False,
     s_distX = 0, s_distY = 0, s_locked = Unlocked, s_startX = 0, s_startY = 0, s_absStart = None, s_pointX = 0, s_pointY = 0,
     s_startTime = 0, s_endTime = 0, s_inTransition = False, s_animating = False, s_frames = [], s_wrapperW = 0, s_wrapperH = 0,
     s_scrollerW = 0, s_scrollerH = 0, s_maxX = 0, s_maxY = 0, s_hasH = False, s_hasV = False, s_offset = (0, 0), s_inds = inds,
     s_wheel = False, s_resize = None, s_pages = [], s_page = None, s_thrX = 0, s_thrY = 0, s_keyAcc = 0, s_keyTime = 0, s_log = []\<rparr>"

definition IScroll :: "math \<Rightarrow> rat \<Rightarrow> bool \<Rightarrow> bool \<Rightarrow> is_opts \<Rightarrow> rat \<times> rat \<Rightarrow> rat \<times> rat \<Rightarrow> indicator list \<Rightarrow> dom \<Rightarrow> jserr + scr" where
  "IScroll m now has_transition has_transform o' v h own d =
     (let o' = normalize_opts has_transition has_transform o'
      in sbind (refresh m now d (blank o' (init_indicators o' v h own))) (\<lambda>s.
           Inr ((scrollTo m now (o_startX o') (o_startY o') 0 Circular s)\<lparr>s_enabled := True\<rparr>)))"

end
