(* ===== verification/IsInside.thy ===== *)
theory IsInside
  imports IsEvents
begin

text \<open>
  Lemmas on scrollers: a scroller that does not bounce and does not snap never leaves its boundaries (\<open>inside\<close>), whatever
  events, frames and refreshes come. A frame that is pending while a refresh makes the page smaller still goes to where the
  page was: so \<open>lo\<close>, the lowest position, is that of the largest page that a frame may remember. \<open>geo\<close> has what the
  boundaries depend on; most operations keep it.
\<close>

section \<open>Boundaries\<close>

definition ind_geo :: "indicator \<Rightarrow> bool \<times> bool \<times> rat \<times> rat \<times> rat \<times> rat \<times> rat \<times> rat" where
  "ind_geo i = (id_listenX i, id_listenY i, id_speedX i, id_speedY i, ia_ratio (id_X i), ia_maxPos (id_X i), ia_ratio (id_Y i), ia_maxPos (id_Y i))"

definition geo :: "scr \<Rightarrow> is_opts \<times> rat \<times> rat \<times> bool \<times> bool \<times> (bool \<times> bool \<times> rat \<times> rat \<times> rat \<times> rat \<times> rat \<times> rat) list" where
  "geo s = (s_opts s, s_maxX s, s_maxY s, s_hasH s, s_hasV s, map ind_geo (s_inds s))"

definition box :: "rat \<times> rat \<Rightarrow> rat \<Rightarrow> rat \<Rightarrow> bool" where
  "box lo x y \<longleftrightarrow> fst lo \<le> x \<and> x \<le> 0 \<and> snd lo \<le> y \<and> y \<le> 0"

definition max_of :: "scr \<Rightarrow> rat \<times> rat" where
  "max_of s = (s_maxX s, s_maxY s)"

definition ratio_ok :: "rat \<Rightarrow> iaxis \<Rightarrow> bool" where
  "ratio_ok mx a \<longleftrightarrow> ia_ratio a = (if mx = 0 then 0 else ia_maxPos a / mx)"

text \<open>A scrollbar without a ratio of its own follows the scroller.\<close>

definition own_ratio :: "indicator \<Rightarrow> bool" where
  "own_ratio i \<longleftrightarrow> id_speedX i = 0 \<and> id_speedY i = 0"

definition ind_ok :: "scr \<Rightarrow> indicator \<Rightarrow> bool" where
  "ind_ok s i \<longleftrightarrow> own_ratio i \<and> (id_listenX i \<longrightarrow> ratio_ok (s_maxX s) (id_X i)) \<and> (id_listenY i \<longrightarrow> ratio_ok (s_maxY s) (id_Y i))"

text \<open>A scroller that neither bounces nor snaps, with whole boundaries.\<close>

definition edges :: "scr \<Rightarrow> bool" where
  "edges s \<longleftrightarrow> s_maxX s \<le> 0 \<and> s_maxY s \<le> 0 \<and> s_maxX s \<in> \<int> \<and> s_maxY s \<in> \<int> \<and>
     (\<not> s_hasH s \<longrightarrow> s_maxX s = 0) \<and> (\<not> s_hasV s \<longrightarrow> s_maxY s = 0)"

definition solid :: "is_opts \<Rightarrow> bool" where
  "solid o' \<longleftrightarrow> \<not> o_bounce o' \<and> o_snap o' = NoSnap"

definition shape :: "scr \<Rightarrow> bool" where
  "shape s \<longleftrightarrow> edges s \<and> solid (s_opts s) \<and> list_all (ind_ok s) (s_inds s)"

text \<open>Easings that do not swing over.\<close>

definition firm :: "easing \<Rightarrow> bool" where
  "firm e \<longleftrightarrow> e = Quadratic \<or> e = Circular"

definition frame_ok :: "rat \<times> rat \<Rightarrow> rat \<Rightarrow> frame \<Rightarrow> bool" where
  "frame_ok lo now fr \<longleftrightarrow> box lo (fr_destX fr) (fr_destY fr) \<and> box lo (fr_startX fr) (fr_startY fr) \<and>
     firm (fr_easing fr) \<and> fr_duration fr > 0 \<and> fr_start fr \<le> now"

text \<open>
  The lowest position is that of the page now if no refresh comes while a frame is pending (\<open>q\<close>). Otherwise the scroller may
  have to come back, and the easing of that must not swing over.
\<close>

definition low :: "bool \<Rightarrow> rat \<times> rat \<Rightarrow> scr \<Rightarrow> bool" where
  "low q lo s \<longleftrightarrow> fst lo \<in> \<int> \<and> snd lo \<in> \<int> \<and> fst lo \<le> s_maxX s \<and> snd lo \<le> s_maxY s \<and>
     (if q then lo = max_of s else firm (o_bounceEasing (s_opts s)))"

definition inside :: "bool \<Rightarrow> rat \<times> rat \<Rightarrow> rat \<Rightarrow> scr \<Rightarrow> bool" where
  "inside q lo now s \<longleftrightarrow> shape s \<and> low q lo s \<and> box lo (s_x s) (s_y s) \<and> list_all (frame_ok lo now) (s_frames s)"

lemma low_geo: "geo s = geo t \<Longrightarrow> low q lo s = low q lo t"
  by (auto simp: low_def geo_def max_of_def)

lemma ind_ok_geo: "s_maxX s = s_maxX t \<Longrightarrow> s_maxY s = s_maxY t \<Longrightarrow> ind_geo i = ind_geo j \<Longrightarrow> ind_ok s i = ind_ok t j"
  by (simp add: ind_ok_def ratio_ok_def ind_geo_def own_ratio_def)

lemma inds_ok_geo:
  "s_maxX s = s_maxX t \<Longrightarrow> s_maxY s = s_maxY t \<Longrightarrow> map ind_geo is = map ind_geo js \<Longrightarrow> list_all (ind_ok s) is = list_all (ind_ok t) js"
proof (induction "is" arbitrary: js)
  case (Cons i "is")
  then obtain j js' where "js = j # js'" by (cases js) auto
  then show ?case using Cons ind_ok_geo [of s t i j] by simp
qed simp

lemma shape_geo: "geo s = geo t \<Longrightarrow> shape s = shape t"
  using inds_ok_geo [of s t "s_inds s" "s_inds t"] by (simp add: shape_def edges_def geo_def)

text \<open>A change that keeps the boundaries, the position and the frames keeps a scroller inside.\<close>

lemma inside_same:
  "geo s = geo t \<Longrightarrow> s_x s = s_x t \<Longrightarrow> s_y s = s_y t \<Longrightarrow> s_frames s = s_frames t \<Longrightarrow> inside q lo now s = inside q lo now t"
  by (simp add: inside_def shape_geo [of s t] low_geo [of s t])

lemma inside_later: "inside q lo now s \<Longrightarrow> now \<le> later \<Longrightarrow> inside q lo later s"
  by (auto simp: inside_def frame_ok_def list_all_iff)

lemma inside_box: "inside q lo now s \<Longrightarrow> box lo (s_x s) (s_y s)"
  and inside_shape: "inside q lo now s \<Longrightarrow> shape s"
  and inside_low: "inside q lo now s \<Longrightarrow> low q lo s"
  by (simp_all add: inside_def)

text \<open>What is within the page now is within the lowest position.\<close>

lemma low_box: "low q lo s \<Longrightarrow> box (max_of s) x y \<Longrightarrow> box lo x y"
  by (auto simp: low_def box_def max_of_def)

section \<open>Numbers\<close>

lemma js_round_mono: "a \<le> b \<Longrightarrow> js_round a \<le> js_round b"
  unfolding js_round_def of_int_le_iff by (rule floor_mono) simp

lemma js_round_int: "a \<in> \<int> \<Longrightarrow> js_round a = a"
  by (elim Ints_cases) (simp add: js_round_def floor_unique)

lemma js_round_box: "mx \<in> \<int> \<Longrightarrow> mx \<le> x \<Longrightarrow> x \<le> 0 \<Longrightarrow> mx \<le> js_round x \<and> js_round x \<le> 0"
  using js_round_mono [of mx x] js_round_mono [of x 0] by (simp add: js_round_int)

lemma between_points:
  fixes a b e mx :: rat
  assumes "mx \<le> a" "a \<le> 0" "mx \<le> b" "b \<le> 0" "0 \<le> e" "e \<le> 1"
  shows "mx \<le> (b - a) * e + a \<and> (b - a) * e + a \<le> 0"
proof -
  have "(b - a) * e + a = b * e + a * (1 - e)" by (simp add: algebra_simps)
  moreover have "mx * e \<le> b * e" "mx * (1 - e) \<le> a * (1 - e)" "b * e \<le> 0" "a * (1 - e) \<le> 0"
    using assms by (simp_all add: mult_right_mono mult_nonpos_nonneg)
  moreover have "mx * e + mx * (1 - e) = mx" by (simp add: algebra_simps)
  ultimately show ?thesis by linarith
qed

lemma take_back_box: "mx \<le> 0 \<Longrightarrow> mx \<le> take_back mx x \<and> take_back mx x \<le> 0"
  by (simp add: take_back_def)

text \<open>What the square root of the language keeps.\<close>

definition sqrt_ok :: "math \<Rightarrow> bool" where
  "sqrt_ok m \<longleftrightarrow> (\<forall>x. 0 \<le> x \<longrightarrow> x \<le> 1 \<longrightarrow> 0 \<le> m_sqrt m x \<and> m_sqrt m x \<le> 1)"

lemma ease_range:
  assumes "sqrt_ok m" "0 \<le> k" "k \<le> 1" "firm e"
  shows "0 \<le> ease_fn m e k \<and> ease_fn m e k \<le> 1"
proof -
  define d where "d = (1 - k) * (1 - k)"
  have d: "0 \<le> d" "d \<le> 1" using assms(2,3) by (simp_all add: d_def mult_le_one)
  have "k * (2 - k) = 1 - d" "(k - 1) * (k - 1) = d" by (simp_all add: d_def algebra_simps)
  then have "ease_fn m Quadratic k = 1 - d" "ease_fn m Circular k = m_sqrt m (1 - d)" by (simp_all only: ease_fn.simps)
  moreover have "0 \<le> m_sqrt m (1 - d) \<and> m_sqrt m (1 - d) \<le> 1" using assms(1) d by (simp add: sqrt_ok_def)
  moreover have "e = Quadratic \<or> e = Circular" using assms(4) by (simp add: firm_def)
  ultimately show ?thesis using d by (elim disjE) simp_all
qed

section \<open>Moving\<close>

lemma ind_geo_position [simp]: "ind_geo (updatePosition x y i) = ind_geo i"
  by (simp add: ind_geo_def updatePosition_def axis_position_def Let_def split: option.splits prod.splits)

lemma emit_simps [simp]: "geo (emit ev s) = geo s" "s_x (emit ev s) = s_x s" "s_y (emit ev s) = s_y s"
  "s_frames (emit ev s) = s_frames s" "s_opts (emit ev s) = s_opts s" "s_animating (emit ev s) = s_animating s"
  by (simp_all add: emit_def geo_def)

lemma translate_geo [simp]: "geo (translate x y s) = geo s"
  by (simp add: translate_def geo_def Let_def o_def split: prod.split)

lemma translate_frames [simp]: "s_frames (translate x y s) = s_frames s" "s_animating (translate x y s) = s_animating s"
  "s_opts (translate x y s) = s_opts s"
  by (simp_all add: translate_def Let_def split: prod.split)

lemma translate_pos: "o_transform (s_opts s) \<Longrightarrow> s_x (translate x y s) = x \<and> s_y (translate x y s) = y"
  by (simp add: translate_def)

lemma translate_box:
  assumes "low q lo s" "box lo x y"
  shows "box lo (s_x (translate x y s)) (s_y (translate x y s))"
  using assms js_round_box [of "fst lo" x] js_round_box [of "snd lo" y] by (simp add: translate_def low_def box_def)

lemma inside_emit [simp]: "inside q lo now (emit ev s) = inside q lo now s"
  by (rule inside_same) simp_all

lemma inside_translate: "inside q lo now s \<Longrightarrow> box lo x y \<Longrightarrow> inside q lo now (translate x y s)"
  using translate_box [of q lo s x y] shape_geo [OF translate_geo [of x y s]] low_geo [OF translate_geo [of x y s]]
  by (simp add: inside_def)

lemma inside_frames:
  "inside q lo now s \<Longrightarrow> list_all (frame_ok lo now) fs \<Longrightarrow> inside q lo now (s\<lparr>s_frames := fs\<rparr>)"
  using shape_geo [of "s\<lparr>s_frames := fs\<rparr>" s] low_geo [of "s\<lparr>s_frames := fs\<rparr>" s] by (simp add: inside_def geo_def)

lemma inside_moving: "inside q lo now s \<Longrightarrow> inside q lo now (s\<lparr>s_animating := b\<rparr>)"
  by (subst inside_same [of _ s]) (simp_all add: geo_def)

lemma inside_gliding: "inside q lo now s \<Longrightarrow> inside q lo now (s\<lparr>s_inTransition := b\<rparr>)"
  by (subst inside_same [of _ s]) (simp_all add: geo_def)

lemma anim_run_inside:
  assumes i: "inside q lo now s" and f: "frame_ok lo now fr" and m: "sqrt_ok m" and t: "now < fr_start fr + fr_duration fr"
  shows "inside q lo now (anim_run m now fr s)"
proof -
  define k where "k = (now - fr_start fr) / fr_duration fr"
  define e where "e = ease_fn m (fr_easing fr) k"
  have "0 < fr_duration fr" "fr_start fr \<le> now" using f by (simp_all add: frame_ok_def)
  then have "0 \<le> k" "k \<le> 1" using t by (simp_all add: k_def divide_simps)
  then have e: "0 \<le> e" "e \<le> 1" using ease_range [OF m, of k "fr_easing fr"] f by (simp_all add: e_def frame_ok_def)
  let ?x = "(fr_destX fr - fr_startX fr) * e + fr_startX fr" and ?y = "(fr_destY fr - fr_startY fr) * e + fr_startY fr"
  have b: "box lo ?x ?y"
    using f between_points [OF _ _ _ _ e, of "fst lo" "fr_startX fr" "fr_destX fr"]
      between_points [OF _ _ _ _ e, of "snd lo" "fr_startY fr" "fr_destY fr"]
    by (simp add: frame_ok_def box_def)
  have it: "inside q lo now (translate ?x ?y s)" by (rule inside_translate [OF i b])
  then have "inside q lo now ((translate ?x ?y s)\<lparr>s_frames := s_frames (translate ?x ?y s) @ [fr]\<rparr>)"
    using f by (intro inside_frames) (simp_all add: inside_def)
  then show ?thesis using it by (simp add: anim_run_def Let_def e_def k_def)
qed

text \<open>The way back to the boundaries.\<close>

lemma inside_target:
  assumes "inside True lo now s"
  shows "reset_target s = (s_x s, s_y s)"
  using assms by (auto simp: inside_def shape_def edges_def low_def max_of_def box_def reset_target_def)

lemma target_box: "edges s \<Longrightarrow> reset_target s = (x, y) \<Longrightarrow> box (max_of s) x y"
  by (auto simp: edges_def reset_target_def box_def max_of_def split: if_splits)

lemma scroll_back_inside:
  assumes i: "inside q lo now s" and b: "box lo x y" and e: "firm (o_bounceEasing (s_opts s))" and m: "sqrt_ok m"
  shows "inside q lo now (scroll_back m now x y n s)"
proof -
  define u where "u = s\<lparr>s_inTransition := o_transition (s_opts s) \<and> n > 0\<rparr>"
  have u: "inside q lo now u" "s_opts u = s_opts s" using inside_gliding [OF i] by (simp_all add: u_def)
  have "inside q lo now (anim_run m now (new_frame now x y (of_nat n) (o_bounceEasing (s_opts u)) u) (u\<lparr>s_animating := True\<rparr>))"
    if "n \<noteq> 0"
    using inside_box [OF u(1)] that b e
    by (intro anim_run_inside inside_moving u m) (simp_all add: frame_ok_def new_frame_def u)
  then show ?thesis using inside_translate [OF u(1) b] unfolding scroll_back_def Let_def u_def [symmetric] by simp
qed

lemma reset_inside:
  assumes i: "inside q lo now s" and m: "sqrt_ok m"
  shows "inside q lo now (fst (resetPosition m now n s))"
proof (cases q)
  case True
  then show ?thesis using i inside_target by (simp add: resetPosition_def)
next
  case False
  obtain x y where xy: "reset_target s = (x, y)" by (cases "reset_target s")
  have "box lo x y" using inside_shape [OF i] by (intro low_box [OF inside_low [OF i]] target_box [OF _ xy]) (simp add: shape_def)
  moreover have "firm (o_bounceEasing (s_opts s))" using inside_low [OF i] False by (simp add: low_def)
  ultimately show ?thesis using i scroll_back_inside [OF i _ _ m] by (simp add: resetPosition_def xy)
qed

lemma anim_finish_inside:
  assumes "inside q lo now s" "box lo (fr_destX fr) (fr_destY fr)" "sqrt_ok m"
  shows "inside q lo now (anim_finish m now fr s)"
proof -
  have "inside q lo now (translate (fr_destX fr) (fr_destY fr) (s\<lparr>s_animating := False\<rparr>))"
    by (rule inside_translate [OF inside_moving [OF assms(1)] assms(2)])
  from reset_inside [OF this assms(3)] show ?thesis by (simp add: anim_finish_def Let_def split_beta)
qed

lemma anim_step_inside:
  "inside q lo now s \<Longrightarrow> frame_ok lo now fr \<Longrightarrow> sqrt_ok m \<Longrightarrow> inside q lo now (anim_step m now fr s)"
  using anim_run_inside [of q lo now s fr m] anim_finish_inside [of q lo now s fr m] by (simp add: anim_step_def frame_ok_def)

lemma anim_step_geo [simp]: "geo (anim_step m now fr s) = geo s"
proof -
  have g: "geo (s\<lparr>s_animating := b, s_inTransition := c\<rparr>) = geo s" "geo (s\<lparr>s_animating := b\<rparr>) = geo s"
    "geo (s\<lparr>s_inTransition := c\<rparr>) = geo s" "geo (s\<lparr>s_frames := fs\<rparr>) = geo s" for b c fs and s :: scr
    by (simp_all add: geo_def)
  have r: "geo (anim_run m now fr s) = geo s" for fr s by (simp add: anim_run_def Let_def g)
  then have "geo (scroll_back m now x y n s) = geo s" for x y n s by (simp add: scroll_back_def Let_def g)
  then have "geo (fst (resetPosition m now n s)) = geo s" for n s
    by (simp add: resetPosition_def split: prod.split)
  then have "geo (anim_finish m now fr s) = geo s"
    by (simp add: anim_finish_def Let_def split_beta g)
  then show ?thesis using r by (simp add: anim_step_def)
qed

lemma run_frames_inside:
  assumes "inside q lo now s" "sqrt_ok m"
  shows "inside q lo now (run_frames m now s)"
proof -
  have "inside q lo now (foldl (\<lambda>s fr. anim_step m now fr s) t fs)" if "inside q lo now t" "list_all (frame_ok lo now) fs" for t fs
    using that
  proof (induction fs arbitrary: t)
    case (Cons fr fs)
    then show ?case using anim_step_inside [of q lo now t fr m] assms(2) by simp
  qed simp
  then show ?thesis using assms(1) inside_frames [of q lo now s "[]"] by (simp add: run_frames_def inside_def)
qed

lemma scrollTo_inside:
  assumes i: "inside q lo now s" and b: "box lo x y" and m: "sqrt_ok m" and e: "firm e"
  shows "inside q lo now (scrollTo m now x y time e s)"
proof -
  define u where "u = s\<lparr>s_inTransition := o_transition (s_opts s) \<and> time > 0\<rparr>"
  have u: "inside q lo now u" using inside_gliding [OF i] by (simp add: u_def)
  let ?fr = "new_frame now x y time e u" and ?t = "u\<lparr>s_animating := True\<rparr>"
  have t: "inside q lo now ?t" by (rule inside_moving [OF u])
  have "inside q lo now (anim_step m now ?fr ?t)"
  proof (cases "time > 0")
    case True
    have "frame_ok lo now ?fr" using b inside_box [OF u] e True by (simp add: frame_ok_def new_frame_def)
    then show ?thesis by (rule anim_step_inside [OF t _ m])
  next
    case False
    then have "anim_step m now ?fr ?t = anim_finish m now ?fr ?t" by (simp add: anim_step_def new_frame_def)
    then show ?thesis using anim_finish_inside [OF t _ m, of ?fr] b by (simp add: new_frame_def)
  qed
  then show ?thesis using inside_translate [OF u b] unfolding scrollTo_def animate_def Let_def u_def [symmetric] by simp
qed

end
