(* ===== verification/IsRuns.thy ===== *)
theory IsRuns
  imports IsInside
begin

text \<open>
  Runs of a scroller: the handlers keep a scroller inside its boundaries, and so do all sequences of events, frames,
  timeouts, scrollbar drags and refreshes.
\<close>

section \<open>Changes that do not move\<close>

lemma prevent_simps [simp]: "geo (prevent c s) = geo s" "s_x (prevent c s) = s_x s" "s_y (prevent c s) = s_y s"
  "s_frames (prevent c s) = s_frames s" "s_opts (prevent c s) = s_opts s"
  by (simp_all add: prevent_def)

lemma inside_prevent [simp]: "inside q lo now (prevent c s) = inside q lo now s"
  by (rule inside_same) simp_all

lemma geo_updates [simp]:
  "geo (s\<lparr>s_dirX := a\<rparr>) = geo s" "geo (s\<lparr>s_dirY := a\<rparr>) = geo s" "geo (s\<lparr>s_moved := c\<rparr>) = geo s"
  "geo (s\<lparr>s_locked := l\<rparr>) = geo s" "geo (s\<lparr>s_initiated := n\<rparr>) = geo s" "geo (s\<lparr>s_distX := r\<rparr>) = geo s"
  "geo (s\<lparr>s_distY := r\<rparr>) = geo s" "geo (s\<lparr>s_startTime := r\<rparr>) = geo s" "geo (s\<lparr>s_startX := r\<rparr>) = geo s"
  "geo (s\<lparr>s_startY := r\<rparr>) = geo s" "geo (s\<lparr>s_absStart := p\<rparr>) = geo s" "geo (s\<lparr>s_pointX := r\<rparr>) = geo s"
  "geo (s\<lparr>s_pointY := r\<rparr>) = geo s" "geo (s\<lparr>s_endTime := r\<rparr>) = geo s" "geo (s\<lparr>s_inTransition := c\<rparr>) = geo s"
  "geo (s\<lparr>s_animating := c\<rparr>) = geo s" "geo (s\<lparr>s_wheel := c\<rparr>) = geo s" "geo (s\<lparr>s_resize := rz\<rparr>) = geo s"
  "geo (s\<lparr>s_keyAcc := r\<rparr>) = geo s" "geo (s\<lparr>s_keyTime := r\<rparr>) = geo s" "geo (s\<lparr>s_frames := fs\<rparr>) = geo s"
  "geo (s\<lparr>s_log := es\<rparr>) = geo s" "geo (s\<lparr>s_enabled := c\<rparr>) = geo s"
  by (simp_all add: geo_def)

lemma inside_updates [simp]:
  "inside q lo now (s\<lparr>s_dirX := a\<rparr>) = inside q lo now s" "inside q lo now (s\<lparr>s_dirY := a\<rparr>) = inside q lo now s"
  "inside q lo now (s\<lparr>s_moved := c\<rparr>) = inside q lo now s" "inside q lo now (s\<lparr>s_locked := l\<rparr>) = inside q lo now s"
  "inside q lo now (s\<lparr>s_initiated := n\<rparr>) = inside q lo now s" "inside q lo now (s\<lparr>s_distX := r\<rparr>) = inside q lo now s"
  "inside q lo now (s\<lparr>s_distY := r\<rparr>) = inside q lo now s" "inside q lo now (s\<lparr>s_startTime := r\<rparr>) = inside q lo now s"
  "inside q lo now (s\<lparr>s_startX := r\<rparr>) = inside q lo now s" "inside q lo now (s\<lparr>s_startY := r\<rparr>) = inside q lo now s"
  "inside q lo now (s\<lparr>s_absStart := p\<rparr>) = inside q lo now s" "inside q lo now (s\<lparr>s_pointX := r\<rparr>) = inside q lo now s"
  "inside q lo now (s\<lparr>s_pointY := r\<rparr>) = inside q lo now s" "inside q lo now (s\<lparr>s_endTime := r\<rparr>) = inside q lo now s"
  "inside q lo now (s\<lparr>s_inTransition := c\<rparr>) = inside q lo now s" "inside q lo now (s\<lparr>s_animating := c\<rparr>) = inside q lo now s"
  "inside q lo now (s\<lparr>s_wheel := c\<rparr>) = inside q lo now s" "inside q lo now (s\<lparr>s_resize := rz\<rparr>) = inside q lo now s"
  "inside q lo now (s\<lparr>s_keyAcc := r\<rparr>) = inside q lo now s" "inside q lo now (s\<lparr>s_keyTime := r\<rparr>) = inside q lo now s"
  "inside q lo now (s\<lparr>s_enabled := c\<rparr>) = inside q lo now s"
  by (rule inside_same; simp)+

lemma edges_inside: "inside q lo now s \<Longrightarrow> edges s"
  by (simp add: inside_def shape_def)

lemma round_box: "inside q lo now s \<Longrightarrow> box lo (js_round (s_x s)) (js_round (s_y s))"
  using js_round_box [of "fst lo" "s_x s"] js_round_box [of "snd lo" "s_y s"] by (simp add: inside_def low_def box_def)

lemma inside_max: "inside q lo now s \<Longrightarrow> box (max_of s) x y \<Longrightarrow> box lo x y"
  using low_box inside_low by blast

lemma max_geo: "geo s = geo t \<Longrightarrow> max_of s = max_of t"
  by (simp add: geo_def max_of_def)

section \<open>Touching and dragging\<close>

lemma touch_start_inside:
  assumes "inside q lo now s"
  shows "inside q lo now (touch_start now (s_x s, s_y s) e s)"
  using assms round_box [OF assms] by (auto simp: touch_start_def Let_def intro!: inside_translate)

lemma drag_to_box: "mx \<le> 0 \<Longrightarrow> mx \<le> drag_to False mx x d \<and> drag_to False mx x d \<le> 0"
  by (simp add: drag_to_def)

lemma drag_inside:
  assumes "inside q lo now s"
  shows "inside q lo now (drag t dx dy s)"
proof -
  have bounce: "\<not> o_bounce (s_opts s)" using assms by (simp add: inside_def shape_def solid_def)
  define x where "x = drag_to False (s_maxX s) (s_x s) (if s_hasH s then dx else 0)"
  define y where "y = drag_to False (s_maxY s) (s_y s) (if s_hasV s then dy else 0)"
  have "box (max_of s) x y" using edges_inside [OF assms] drag_to_box by (simp add: box_def max_of_def edges_def x_def y_def)
  then have "box lo x y" by (rule inside_max [OF assms])
  then have "inside q lo now (translate x y u)" if "inside q lo now u" for u by (rule inside_translate [OF that])
  then show ?thesis using assms bounce by (simp add: drag_def Let_def x_def [symmetric] y_def [symmetric])
qed

lemma lock_direction_inside [simp]: "inside q lo now (lock_direction s) = inside q lo now s"
  by (simp add: lock_direction_def)

lemma touch_move_inside: "inside q lo now s \<Longrightarrow> inside q lo now (touch_move t e s)"
  by (simp add: touch_move_def Let_def drag_inside)

lemma momentum_inside:
  assumes "momentum x st t mx 0 d = Some (x', t')" "mx \<le> 0" "mx \<in> \<int>"
  shows "mx \<le> x' \<and> x' \<le> 0"
proof -
  have low: "u = mx" if "momentum_low mx 0 x v = Some (u, w)" for v u w
    using that assms(3) by (auto simp: momentum_low_def js_round_int Let_def split: option.splits)
  have high: "u = 0" if "momentum_high 0 x v = Some (u, w)" for v u w
    using that by (auto simp: momentum_high_def js_round_int Let_def split: option.splits)
  define v where "v = fin_div \<bar>x - st\<bar> t"
  define dest where "dest = x + (\<bar>x - st\<bar> / t * (\<bar>x - st\<bar> / t)) / (2 * (case d of None \<Rightarrow> 6 / 10000 | Some d \<Rightarrow> d)) *
    (if x - st < 0 then -1 else 1)"
  consider "momentum_low mx 0 x v = Some (x', t')" | "momentum_high 0 x v = Some (x', t')"
    | "mx \<le> dest" "dest \<le> 0" "x' = js_round dest"
    using assms(1) unfolding momentum_def Let_def dest_def [symmetric] v_def [symmetric]
    by (simp only: split: if_splits) (simp_all add: not_less)
  then show ?thesis
    by cases (use low [of v x' t'] high [of v x' t'] assms(2) js_round_box [OF assms(3), of dest] in simp_all)
qed

lemma fling_inside:
  assumes "inside q lo now s" "fling dur x y s = Some (x', y', t)" "box lo x y"
  shows "box lo x' y'"
proof -
  let ?o = "s_opts s"
  have bounce: "\<not> o_bounce ?o" using assms(1) by (simp add: inside_def shape_def solid_def)
  obtain tx ty where h:
    "(if s_hasH s then momentum (s_x s) (s_startX s) dur (s_maxX s) 0 (o_deceleration ?o) else Some (x, 0)) = Some (x', tx)"
    "(if s_hasV s then momentum (s_y s) (s_startY s) dur (s_maxY s) 0 (o_deceleration ?o) else Some (y, 0)) = Some (y', ty)"
    using assms(2) by (auto simp: fling_def Let_def bounce split: option.splits if_splits)
  have e: "s_maxX s \<le> 0" "s_maxX s \<in> \<int>" "s_maxY s \<le> 0" "s_maxY s \<in> \<int>" "fst lo \<le> s_maxX s" "snd lo \<le> s_maxY s"
    using edges_inside [OF assms(1)] inside_low [OF assms(1)] by (simp_all add: edges_def low_def)
  have "fst lo \<le> x' \<and> x' \<le> 0"
    using h(1) momentum_inside [OF _ e(1,2), of "s_x s" "s_startX s" dur] assms(3) e(5) by (fastforce simp: box_def split: if_splits)
  moreover have "snd lo \<le> y' \<and> y' \<le> 0"
    using h(2) momentum_inside [OF _ e(3,4), of "s_y s" "s_startY s" dur] assms(3) e(6) by (fastforce simp: box_def split: if_splits)
  ultimately show ?thesis by (simp add: box_def)
qed

lemma settle_inside:
  assumes "inside q lo now s" "box lo x y" "sqrt_ok m" "settle m now x y t s = Inr s'"
  shows "inside q lo now s'"
proof -
  have snap: "o_snap (s_opts s) = NoSnap" using assms(1) by (simp add: inside_def shape_def solid_def)
  have "inside q lo now (scrollTo m now x y t e s)" if "firm e" for e
    by (rule scrollTo_inside [OF assms(1-3) that])
  then show ?thesis using assms(1,4) snap by (auto simp: settle_def firm_def split: if_splits)
qed

lemma touch_end_inside:
  assumes i: "inside q lo now s" and m: "sqrt_ok m" and e: "touch_end m now e s = Some (Inr s')"
  shows "inside q lo now s'"
proof (cases "\<not> s_enabled s \<or> eventType (ev_name e) \<noteq> s_initiated s")
  case True
  then show ?thesis using e i by (auto simp: touch_end_def)
next
  case False
  define s1 where "s1 = (prevent (o_prevent (s_opts s) \<and> \<not> ev_exempt e) s)\<lparr>s_inTransition := False, s_initiated := Some 0,
    s_endTime := now\<rparr>"
  define s2 where "s2 = fst (resetPosition m now (o_bounceTime (s_opts s1)) s1)"
  define x where "x = js_round (s_x s)"
  define y where "y = js_round (s_y s)"
  define s3 where "s3 = scrollTo m now x y 0 Circular s2"
  have i1: "inside q lo now s1" using i by (simp add: s1_def)
  have b: "box lo x y" using round_box [OF i] by (simp add: x_def y_def)
  have i2: "inside q lo now s2" using reset_inside [OF i1 m] by (simp add: s2_def)
  have i3: "inside q lo now s3" unfolding s3_def by (rule scrollTo_inside [OF i2 b m]) (simp add: firm_def)
  have snap: "o_snap (s_opts s3) = NoSnap" using i3 by (simp add: inside_def shape_def solid_def)
  obtain bk where r: "resetPosition m now (o_bounceTime (s_opts s1)) s1 = (s2, bk)"
    by (cases "resetPosition m now (o_bounceTime (s_opts s1)) s1") (simp add: s2_def)
  have st: "inside q lo now s'" if "settle m now u v t s4 = Inr s'" "box lo u v" "inside q lo now s4" for u v t s4
    by (rule settle_inside [OF that(3,2) m that(1)])
  have fl: "box lo u v" if "fling d x y s3 = Some (u, v, t)" for d u v t
    by (rule fling_inside [OF i3 that b])
  show ?thesis
    using e False i2 i3 snap st fl b
    unfolding touch_end_def Let_def s1_def [symmetric] r prod.case s3_def x_def y_def
    by (auto simp: flick_def Let_def split: if_splits option.splits)
qed

section \<open>Wheel, keys and scrollbars\<close>

lemma scroll_taken_back:
  assumes "inside q lo now s" "s_maxX t = s_maxX s" "s_maxY t = s_maxY s" "inside q lo now t" "sqrt_ok m"
  shows "inside q lo now (scrollTo m now (take_back (s_maxX s) x) (take_back (s_maxY s) y) 0 Circular t)"
proof (rule scrollTo_inside [OF assms(4) _ assms(5)])
  show "box lo (take_back (s_maxX s) x) (take_back (s_maxY s) y)"
    using edges_inside [OF assms(1)] take_back_box [of "s_maxX s" x] take_back_box [of "s_maxY s" y]
    by (intro inside_max [OF assms(1)]) (simp add: box_def max_of_def edges_def)
qed (simp add: firm_def)

lemma wheel_scroll_inside:
  assumes "inside q lo now s" "sqrt_ok m" "wheel_scroll m now w s = Inr s'"
  shows "inside q lo now s'"
proof (cases "s_enabled s")
  case True
  define t where "t = (if s_wheel s then s else emit ''scrollStart'' s)\<lparr>s_wheel := True\<rparr>"
  have t: "inside q lo now t" using assms(1) by (simp add: t_def)
  have "o_snap (s_opts t) = NoSnap" using t by (simp add: inside_def shape_def solid_def)
  then show ?thesis
    using assms(3) True t scroll_taken_back [OF t refl refl t assms(2)]
    unfolding wheel_scroll_def Let_def t_def [symmetric]
    by (auto split: option.splits prod.splits)
next
  case False
  then show ?thesis using assms by (simp add: wheel_scroll_def)
qed

lemma key_down_inside:
  assumes i: "inside q lo now s" and m: "sqrt_ok m" and k: "key_down m now (s_x s, s_y s) key s = Inr s'"
  shows "inside q lo now s'"
proof (cases "s_enabled s")
  case True
  define t where "t = (if o_transition (s_opts s) \<and> s_inTransition s
    then (translate (js_round (s_x s)) (js_round (s_y s)) s)\<lparr>s_inTransition := False\<rparr> else s)"
  define u where "u = t\<lparr>s_keyAcc := (if now - s_keyTime t < 200 then min (s_keyAcc t + 1 / 4) 50 else 0)\<rparr>"
  have t: "inside q lo now t" using i inside_translate [OF i round_box [OF i]] by (simp add: t_def)
  then have u: "inside q lo now u" by (simp add: u_def)
  have snap: "o_snap (s_opts u) = NoSnap" using u by (simp add: inside_def shape_def solid_def)
  have "inside q lo now (scrollTo m now (take_back (s_maxX u) x) (take_back (s_maxY u) y) 0 Circular v)"
    if "v = u \<or> v = u\<lparr>s_keyAcc := 0\<rparr>" for x y v
    by (rule scroll_taken_back [OF u _ _ _ m]) (use that u in auto)
  then have w: "inside q lo now ((scrollTo m now (take_back (s_maxX u) x) (take_back (s_maxY u) y) 0 Circular
      (if c then u\<lparr>s_keyAcc := 0\<rparr> else u))\<lparr>s_keyTime := now\<rparr>)" for x y c by simp
  have "key_down m now (s_x s, s_y s) key s = (case key_target key (s_x s) (s_y s) u of
      None \<Rightarrow> Inr u
    | Some (nx, ny) \<Rightarrow> Inr ((scrollTo m now (take_back (s_maxX u) nx) (take_back (s_maxY u) ny) 0 Circular
        (if take_back (s_maxX u) nx \<noteq> nx \<or> take_back (s_maxY u) ny \<noteq> ny then u\<lparr>s_keyAcc := 0\<rparr> else u))\<lparr>s_keyTime := now\<rparr>))"
    by (simp only: key_down_def Let_def prod.case fst_conv snd_conv t_def [symmetric])
      (simp only: u_def [symmetric] True snap simp_thms if_True if_False)
  then show ?thesis using k u w by (auto split: option.splits)
next
  case False
  then show ?thesis using i k by (simp add: key_down_def)
qed

lemma transitionEnd_inside:
  assumes "inside q lo now s" "sqrt_ok m"
  shows "inside q lo now (transitionEnd m now own s)"
  using assms(1) reset_inside [OF assms] by (simp add: transitionEnd_def Let_def split_beta)

text \<open>Where a scrollbar is dragged to.\<close>

lemma bar_target:
  assumes "fin_div (ind_clamp (ia_maxPos a) p) (ia_ratio a) = Some q" "ratio_ok mx a" "mx \<le> 0" "mx \<in> \<int>"
  shows "mx \<le> js_round q \<and> js_round q \<le> 0"
proof -
  let ?c = "ind_clamp (ia_maxPos a) p"
  have q: "ia_ratio a \<noteq> 0" "q = ?c / ia_ratio a" using assms(1) by (simp_all add: fin_div_def split: if_splits)
  then have r: "ia_ratio a = ia_maxPos a / mx" "mx < 0" "ia_maxPos a \<noteq> 0"
    using assms(2,3) by (auto simp: ratio_ok_def split: if_splits)
  have "?c = 0 \<or> ?c = ia_maxPos a \<or> 0 \<le> ?c \<and> ?c \<le> ia_maxPos a" by (auto simp: ind_clamp_def)
  moreover have "q = ?c / ia_maxPos a * mx" using q r by simp
  moreover have "mx \<le> c / ia_maxPos a * mx \<and> c / ia_maxPos a * mx \<le> 0" if "0 \<le> c" "c \<le> ia_maxPos a" for c
  proof -
    have "0 \<le> c / ia_maxPos a" "c / ia_maxPos a \<le> 1" using that r(3) by (simp_all add: divide_le_eq)
    then show ?thesis using between_points [of mx 0 mx "c / ia_maxPos a"] r(2) by (simp add: mult.commute)
  qed
  ultimately have "mx \<le> q \<and> q \<le> 0" using r by auto
  then show ?thesis using js_round_box [OF assms(4)] by simp
qed

lemma ind_pos_inside:
  assumes i: "inside q lo now s" and j: "ind_ok s ind" and m: "sqrt_ok m" and p: "ind_pos m now ind x y s = Some s'"
  shows "inside q lo now s'"
proof -
  obtain u v where uv: "s' = scrollTo m now u v 0 Circular s"
    "(if id_listenX ind then map_option js_round (fin_div (ind_clamp (ia_maxPos (id_X ind)) x) (ia_ratio (id_X ind)))
      else Some (s_x s)) = Some u"
    "(if id_listenY ind then map_option js_round (fin_div (ind_clamp (ia_maxPos (id_Y ind)) y) (ia_ratio (id_Y ind)))
      else Some (s_y s)) = Some v"
    using p by (auto simp: ind_pos_def Let_def split: option.splits)
  have lo: "fst lo \<le> s_maxX s" "snd lo \<le> s_maxY s" using inside_low [OF i] by (simp_all add: low_def)
  have "fst lo \<le> u \<and> u \<le> 0"
    using uv(2) bar_target [of "id_X ind" x _ "s_maxX s"] j edges_inside [OF i] inside_box [OF i] lo(1)
    by (fastforce simp: ind_ok_def box_def edges_def split: if_splits)
  moreover have "snd lo \<le> v \<and> v \<le> 0"
    using uv(3) bar_target [of "id_Y ind" y _ "s_maxY s"] j edges_inside [OF i] inside_box [OF i] lo(2)
    by (fastforce simp: ind_ok_def box_def edges_def split: if_splits)
  ultimately have "box lo u v" by (simp add: box_def)
  then show ?thesis unfolding uv(1) by (rule scrollTo_inside [OF i _ m]) (simp add: firm_def)
qed

text \<open>Changes of an indicator that keep its range.\<close>

lemma bar_update_geo: "j < length (s_inds s) \<Longrightarrow> ind_geo i = ind_geo (s_inds s ! j) \<Longrightarrow> geo (s\<lparr>s_inds := (s_inds s)[j := i]\<rparr>) = geo s"
  by (simp add: geo_def map_update list_update_same_conv)

lemma bar_update_inside:
  "inside q lo now s \<Longrightarrow> j < length (s_inds s) \<Longrightarrow> ind_geo i = ind_geo (s_inds s ! j) \<Longrightarrow> inside q lo now (s\<lparr>s_inds := (s_inds s)[j := i]\<rparr>)"
  by (subst inside_same [of _ s]) (simp_all add: bar_update_geo)

lemma ind_start_inside: "inside q lo now s \<Longrightarrow> j < length (s_inds s) \<Longrightarrow> inside q lo now (ind_start j x y s)"
  unfolding ind_start_def by (simp add: bar_update_inside ind_geo_def)

lemma ind_move_inside:
  assumes i: "inside q lo now s" and j: "j < length (s_inds s)" and m: "sqrt_ok m" and p: "ind_move m now j x y s = Some s'"
  shows "inside q lo now s'"
proof -
  let ?i = "(s_inds s ! j)\<lparr>id_moved := True, id_lastX := x, id_lastY := y\<rparr>"
  define t where "t = (if id_moved (s_inds s ! j) then s else emit ''scrollStart'' s)"
  have inds: "s_inds t = s_inds s" by (simp add: t_def emit_def)
  have t: "inside q lo now t" "geo t = geo s" using i by (simp_all add: t_def)
  have g: "ind_geo ?i = ind_geo (s_inds t ! j)" by (simp add: ind_geo_def inds)
  have u: "inside q lo now (t\<lparr>s_inds := (s_inds t)[j := ?i]\<rparr>)" by (rule bar_update_inside [OF t(1) _ g]) (simp add: j inds)
  have "ind_ok s (s_inds s ! j)" using i j by (auto simp: inside_def shape_def list_all_length)
  then have "ind_ok (t\<lparr>s_inds := (s_inds t)[j := ?i]\<rparr>) ?i"
    using t(2) ind_ok_geo [of "t\<lparr>s_inds := (s_inds t)[j := ?i]\<rparr>" s ?i "s_inds s ! j"] g by (simp add: geo_def inds)
  then show ?thesis
    using p ind_pos_inside [OF u _ m] unfolding ind_move_def Let_def t_def [symmetric] by blast
qed

lemma ind_end_inside:
  assumes "inside q lo now s" "j < length (s_inds s)" "ind_end m now j s = Inr s'"
  shows "inside q lo now s'"
proof -
  have "o_snap (s_opts s) = NoSnap" using assms(1) by (simp add: inside_def shape_def solid_def)
  moreover have "inside q lo now (s\<lparr>s_inds := (s_inds s)[j := (s_inds s ! j)\<lparr>id_initiated := False\<rparr>]\<rparr>)"
    by (rule bar_update_inside [OF assms(1,2)]) (simp add: ind_geo_def)
  ultimately show ?thesis using assms(1,3) by (auto simp: ind_end_def Let_def split: if_splits)
qed

section \<open>Refreshing\<close>

text \<open>Sizes in whole pixels.\<close>

definition whole :: "dom \<Rightarrow> bool" where
  "whole d \<longleftrightarrow> d_wrapperW d \<in> \<int> \<and> d_wrapperH d \<in> \<int> \<and> d_scrollerW d \<in> \<int> \<and> d_scrollerH d \<in> \<int> \<and>
     (case d_last d of None \<Rightarrow> True | Some n \<Rightarrow> n \<in> \<int>)"

lemma measure_edges: "whole d \<Longrightarrow> edges (measure_sizes d s)"
  by (auto simp: edges_def measure_sizes_def Let_def whole_def split: option.splits)

lemma measure_keeps [simp]: "s_opts (measure_sizes d s) = s_opts s" "s_frames (measure_sizes d s) = s_frames s"
  "s_inds (measure_sizes d s) = s_inds s" "s_x (measure_sizes d s) = s_x s" "s_y (measure_sizes d s) = s_y s"
  by (simp_all add: measure_sizes_def Let_def)

lemma ind_refresh_ok:
  assumes "own_ratio i" "s_maxX t = s_maxX s" "s_maxY t = s_maxY s"
  shows "ind_ok t (ind_refresh s i)"
proof -
  have r: "ratio_ok mx (axis_refresh b c 0 cl n mx a)" for mx b c cl n a
    by (simp add: ratio_ok_def axis_refresh_def Let_def split: prod.split)
  have p: "ia_ratio (axis_position f sc ig l pos a) = ia_ratio a" "ia_maxPos (axis_position f sc ig l pos a) = ia_maxPos a" for f sc ig l pos a
    by (simp_all add: axis_position_def Let_def split: option.splits prod.splits)
  have q: "ratio_ok mx (axis_position f sc ig l pos a) = ratio_ok mx a" for mx f sc ig l pos a
    by (simp add: ratio_ok_def p)
  show ?thesis using assms by (simp add: ind_ok_def ind_refresh_def Let_def updatePosition_def own_ratio_def q r)
qed

text \<open>The lowest position after a refresh.\<close>

definition lowest :: "rat \<times> rat \<Rightarrow> scr \<Rightarrow> scr \<Rightarrow> rat \<times> rat" where
  "lowest lo s s' = (if s_frames s = [] then max_of s' else (min (fst lo) (s_maxX s'), min (snd lo) (s_maxY s')))"

lemma min_Ints: "a \<in> \<int> \<Longrightarrow> b \<in> \<int> \<Longrightarrow> min a b \<in> (\<int> :: rat set)"
  by (simp add: min_def)

lemma frame_ok_lower: "frame_ok lo now fr \<Longrightarrow> fst lo' \<le> fst lo \<Longrightarrow> snd lo' \<le> snd lo \<Longrightarrow> frame_ok lo' now fr"
  by (auto simp: frame_ok_def box_def)

text \<open>What stays of a scroller while a refresh has not taken the position back yet.\<close>

definition movable :: "bool \<Rightarrow> rat \<times> rat \<Rightarrow> rat \<Rightarrow> scr \<Rightarrow> bool" where
  "movable q lo now s \<longleftrightarrow> solid (s_opts s) \<and> list_all own_ratio (s_inds s) \<and> list_all (frame_ok lo now) (s_frames s) \<and>
     fst lo \<in> \<int> \<and> snd lo \<in> \<int> \<and> (q \<or> firm (o_bounceEasing (s_opts s)))"

lemma inside_movable: "inside q lo now s \<Longrightarrow> movable q lo now s"
  by (auto simp: inside_def movable_def shape_def ind_ok_def low_def list_all_iff split: if_splits)

lemma refresh_inside:
  assumes s: "movable q lo now s" and q: "q \<longrightarrow> s_frames s = []" and d: "whole d" and r: "refresh m now d s = Inr s'"
  shows "inside q (lowest lo s s') now s'"
proof -
  define t where "t = emit ''refresh'' (measure_sizes d s)"
  define u where "u = t\<lparr>s_inds := map (ind_refresh t) (s_inds t)\<rparr>"
  have t: "s_inds t = s_inds s" "s_opts t = s_opts s" "s_frames t = s_frames s" by (simp_all add: t_def emit_def)
  have e: "edges u" using measure_edges [OF d, of s] by (simp add: edges_def u_def t_def emit_def)
  have "list_all (ind_ok u) (s_inds u)"
    using s ind_refresh_ok [of _ u t] by (auto simp: u_def movable_def list_all_iff t)
  then have sh: "shape u" using e s by (simp add: shape_def u_def t movable_def)
  have fr: "s_frames u = s_frames s" "s_opts u = s_opts s" by (simp_all add: u_def t)
  have s': "s' = fst (resetPosition m now 0 u)"
    using s r unfolding refresh_def Let_def t_def [symmetric] u_def [symmetric] by (simp add: movable_def solid_def u_def t)
  obtain x y where xy: "reset_target u = (x, y)" by (cases "reset_target u")
  define lo' where "lo' = lowest lo s u"
  have lo: "low q lo' u" "list_all (frame_ok lo' now) (s_frames u)"
    using e s q frame_ok_lower [of lo now _ lo']
    by (auto simp: lo'_def lowest_def low_def edges_def movable_def max_of_def fr min_Ints list_all_iff)
  have b: "box lo' x y" using target_box [OF e xy] by (rule low_box [OF lo(1)])
  have "inside q lo' now s' \<and> max_of s' = max_of u"
  proof (cases "x = s_x u \<and> y = s_y u")
    case True
    then show ?thesis using s' xy sh b lo by (simp add: resetPosition_def inside_def)
  next
    case False
    define v where "v = u\<lparr>s_inTransition := False\<rparr>"
    have v: "geo v = geo u" "s_frames v = s_frames u" by (simp_all add: v_def)
    have "s' = translate x y v" using s' xy False by (auto simp: resetPosition_def scroll_back_def v_def)
    moreover have "geo (translate x y v) = geo u" using v by simp
    ultimately show ?thesis
      using sh lo b translate_box [of q lo' v x y] low_geo [of v u] shape_geo [of s' u] low_geo [of s' u] max_geo [of s' u] v
      by (simp add: inside_def)
  qed
  then show ?thesis by (auto simp: lo'_def lowest_def max_of_def split: if_splits)
qed

section \<open>Runs\<close>

text \<open>
  What happens to a scroller on its page, with the clock: events, frames, the timeout of the wheel, drags of its scrollbars,
  calls of \<open>scrollTo\<close> to a place on the page, and refreshes, also by the timeout of a resize. The browser's computed position is
  the position of the scroller. \<open>lo\<close> is the lowest position of the page, or of a larger page that a frame which is pending at a
  refresh may remember. In a run with \<open>q\<close> all refreshes come while no frame is pending; in others the easing of the way back
  must not swing over. The scroller does not bounce, has no snap pages, starts within its boundaries and has no scrollbars
  with a ratio of their own.
\<close>

inductive is_run :: "math \<Rightarrow> bool \<Rightarrow> rat \<Rightarrow> rat \<times> rat \<Rightarrow> scr \<Rightarrow> bool" for m q where
  created: "IScroll m now tr tf o' v h [] d = Inr s \<Longrightarrow> \<not> o_bounce o' \<Longrightarrow> o_snap o' = NoSnap \<Longrightarrow>
    q \<or> firm (ease_of (o_easing o')) \<Longrightarrow> box (max_of s) (o_startX o') (o_startY o') \<Longrightarrow> whole d \<Longrightarrow> is_run m q now (max_of s) s"
| handled: "is_run m q now lo s \<Longrightarrow> now \<le> later \<Longrightarrow> handleEvent m later (s_x s, s_y s) e s = Some (Inr s') \<Longrightarrow>
    is_run m q later lo s'"
| framed: "is_run m q now lo s \<Longrightarrow> now \<le> later \<Longrightarrow> is_run m q later lo (run_frames m later s)"
| wheel_stopped: "is_run m q now lo s \<Longrightarrow> is_run m q now lo (wheel_timeout s)"
| bar_start: "is_run m q now lo s \<Longrightarrow> j < length (s_inds s) \<Longrightarrow> is_run m q now lo (ind_start j x y s)"
| bar_move: "is_run m q now lo s \<Longrightarrow> j < length (s_inds s) \<Longrightarrow> ind_move m now j x y s = Some s' \<Longrightarrow> is_run m q now lo s'"
| bar_end: "is_run m q now lo s \<Longrightarrow> j < length (s_inds s) \<Longrightarrow> ind_end m now j s = Inr s' \<Longrightarrow> is_run m q now lo s'"
| scrolled: "is_run m q now lo s \<Longrightarrow> box (max_of s) x y \<Longrightarrow> firm e \<Longrightarrow> is_run m q now lo (scrollTo m now x y t e s)"
| refreshed: "is_run m q now lo s \<Longrightarrow> q \<longrightarrow> s_frames s = [] \<Longrightarrow> whole d \<Longrightarrow> refresh m now d s = Inr s' \<Longrightarrow>
    is_run m q now (lowest lo s s') s'"
| resized: "is_run m q now lo s \<Longrightarrow> q \<longrightarrow> s_frames s = [] \<Longrightarrow> whole d \<Longrightarrow> s_resize s \<noteq> None \<Longrightarrow>
    resize_timeout m now d s = Inr s' \<Longrightarrow> is_run m q now (lowest lo s s') s'"

lemma created_inside:
  assumes c: "IScroll m now tr tf o' v h [] d = Inr s" and o: "\<not> o_bounce o'" "o_snap o' = NoSnap"
    "q \<or> firm (ease_of (o_easing o'))" and b: "box (max_of s) 0 0 \<longrightarrow> box (max_of s) (o_startX o') (o_startY o')"
    and d: "whole d" and m: "sqrt_ok m"
  shows "inside q (max_of s) now s"
proof -
  let ?o = "normalize_opts tr tf o'"
  have n: "solid ?o" "o_startX ?o = o_startX o'" "o_startY ?o = o_startY o'" "o_bounceEasing ?o = ease_of (o_easing o')"
    using o by (simp_all add: normalize_opts_def Let_def solid_def)
  let ?s0 = "blank ?o (init_indicators ?o v h [])"
  have "list_all own_ratio (init_indicators ?o v h [])"
    by (simp add: init_indicators_def Let_def new_indicator_def own_ratio_def)
  then have mv: "movable q (0, 0) now ?s0" using n o(3) by (simp add: movable_def blank_def)
  obtain t where t: "refresh m now d ?s0 = Inr t" "s = (scrollTo m now (o_startX ?o) (o_startY ?o) 0 Circular t)\<lparr>s_enabled := True\<rparr>"
    using c by (auto simp: IScroll_def Let_def sbind_Inr_iff)
  have g: "max_of s = max_of t" using n by (simp add: t(2) max_of_def scrollTo_def translate_def Let_def split: prod.split)
  have "inside q (lowest (0, 0) ?s0 t) now t" using refresh_inside [OF mv _ d t(1)] by (simp add: blank_def)
  then have i: "inside q (max_of s) now t" by (simp add: lowest_def blank_def g)
  have "box (max_of s) 0 0" using edges_inside [OF i] g by (simp add: box_def max_of_def edges_def)
  then have "inside q (max_of s) now (scrollTo m now (o_startX ?o) (o_startY ?o) 0 Circular t)"
    using b by (intro scrollTo_inside [OF i _ m]) (simp_all add: n firm_def)
  then show ?thesis by (simp add: t(2))
qed

text \<open>A scroller that starts at its end of zero starts within its boundaries.\<close>

lemma created_from_zero:
  "IScroll m now tr tf o' v h [] d = Inr s \<Longrightarrow> \<not> o_bounce o' \<Longrightarrow> o_snap o' = NoSnap \<Longrightarrow> o_startX o' = 0 \<Longrightarrow> o_startY o' = 0 \<Longrightarrow>
   whole d \<Longrightarrow> sqrt_ok m \<Longrightarrow> inside True (max_of s) now s"
  by (rule created_inside) (auto simp: box_def)

lemma handled_inside:
  assumes "inside q lo now s" "sqrt_ok m" "handleEvent m now (s_x s, s_y s) e s = Some (Inr s')"
  shows "inside q lo now s'"
  using assms(3) assms(1) touch_start_inside [OF assms(1), of e] touch_move_inside [OF assms(1), of now e]
    touch_end_inside [OF assms(1,2)] transitionEnd_inside [OF assms(1,2), of "ev_own e"] wheel_scroll_inside [OF assms(1,2)]
    key_down_inside [OF assms(1,2)]
  by (auto simp: handleEvent_def resize_later_def split: option.splits is_handler.splits)

lemma wheel_timeout_inside: "inside q lo now s \<Longrightarrow> inside q lo now (wheel_timeout s)"
  by (simp add: wheel_timeout_def)

lemma run_inside:
  assumes "is_run m q now lo s" "sqrt_ok m"
  shows "inside q lo now s"
  using assms(1)
proof induction
  case (created now tr tf o' v h d s)
  then show ?case using created_inside assms(2) by blast
next
  case (handled now lo s later e s')
  from handled.IH handled.hyps(2) have "inside q lo later s" by (rule inside_later)
  from handled_inside [OF this assms(2) handled.hyps(3)] show ?case .
next
  case (framed now lo s later)
  from framed.IH framed.hyps(2) have "inside q lo later s" by (rule inside_later)
  then show ?case using assms(2) by (rule run_frames_inside)
next
  case (wheel_stopped now lo s)
  then show ?case by (intro wheel_timeout_inside)
next
  case (bar_start now lo s j x y)
  then show ?case by (intro ind_start_inside)
next
  case (bar_move now lo s j x y s')
  from ind_move_inside [OF bar_move.IH bar_move.hyps(2) assms(2) bar_move.hyps(3)] show ?case .
next
  case (bar_end now lo s j s')
  from ind_end_inside [OF bar_end.IH bar_end.hyps(2,3)] show ?case .
next
  case (scrolled now lo s x y e t)
  then show ?case using scrollTo_inside [OF scrolled.IH inside_max [OF scrolled.IH] assms(2)] by blast
next
  case (refreshed now lo s d s')
  from refresh_inside [OF inside_movable [OF refreshed.IH] refreshed.hyps(2-4)] show ?case .
next
  case (resized now lo s d s')
  let ?s = "s\<lparr>s_resize := None\<rparr>"
  have r: "refresh m now d ?s = Inr s'" using resized.hyps(4,5) by (auto simp: resize_timeout_def)
  have "inside q lo now ?s" using resized.IH by simp
  from refresh_inside [OF inside_movable [OF this] _ resized.hyps(3) r] show ?case using resized.hyps(2) by (simp add: lowest_def)
qed

end
