(* ===== verification/UiScroll.thy ===== *)
theory UiScroll
  imports IsRuns UiMsg
begin

text \<open>
  The two scrollers of the pages in \<open>src/src/qt/res/js/main.js\<close>, and how opening a contact brings its conversation to
  its end while the messages on the page still change their height.
\<close>

section \<open>The scrollers\<close>

text \<open>The options that the constructor of a scroller starts from, with the default keys.\<close>

definition default_keys :: key_bindings where
  "default_keys = \<lparr>k_pageUp = 33, k_pageDown = 34, k_end = 35, k_home = 36, k_left = 37, k_up = 38, k_right = 39, k_down = 40\<rparr>"

definition default_opts :: is_opts where
  "default_opts = \<lparr>o_scrollX = False, o_scrollY = True, o_free = False, o_pass = PNone, o_lock = 5, o_momentum = True,
     o_bounce = True, o_bounceTime = 600, o_easing = [], o_bounceEasing = Circular, o_prevent = True, o_transition = True,
     o_transform = True, o_polling = None, o_snap = NoSnap, o_snapThreshold = 334 / 1000, o_snapSpeed = 0, o_stepX = 0, o_stepY = 0,
     o_deceleration = None, o_wheelSpeed = 20, o_invert = False, o_scrollbars = False, o_interactive = False, o_resizeBars = True,
     o_shrink = NoShrink, o_keys = default_keys, o_startX = 0, o_startY = 0, o_tap = False, o_click = False, o_flick = False\<rparr>"

definition page_scroller :: is_opts where
  "page_scroller = default_opts\<lparr>o_scrollbars := True, o_interactive := True, o_scrollY := True, o_scrollX := False\<rparr>"

definition iscrollReload :: "math \<Rightarrow> rat \<Rightarrow> dom \<Rightarrow> dom \<Rightarrow> bool \<Rightarrow> scr \<times> scr \<Rightarrow> jserr + scr \<times> scr" where
  "iscrollReload m now dc dm scroll = (\<lambda>(contacts, messages).
     sbind (refresh m now dc contacts) (\<lambda>contacts.
     sbind (refresh m now dm messages) (\<lambda>messages.
       Inr (contacts, if scroll then scrollTo m now 0 (s_maxY messages) 0 Circular messages else messages))))"

section \<open>Opening a contact\<close>

definition show_conversation :: "math \<Rightarrow> rat \<Rightarrow> dom \<Rightarrow> scr \<Rightarrow> jserr + scr" where
  "show_conversation m now d s =
     sbind (refresh m now d s) (\<lambda>s. Inr (scrollTo m now 0 (s_maxY s) 600 Circular s))"

definition scrollerBottom :: "math \<Rightarrow> rat \<Rightarrow> dom \<Rightarrow> scr \<Rightarrow> jserr + scr" where
  "scrollerBottom m now d s =
     (let mx = s_maxY s in
      sbind (refresh m now d s) (\<lambda>s. Inr (if mx \<noteq> s_maxY s then scrollTo m now 0 (s_maxY s) 100 Circular s else s)))"

definition bottom_times :: "rat list" where
  "bottom_times = [700, 1000, 1300, 1600, 1900, 2200, 2500, 5000]"

text \<open>The timeouts after a click at \<open>start\<close>, with the frame before each; \<open>page t\<close> is what the browser reports then.\<close>

fun bottom_run :: "math \<Rightarrow> rat \<Rightarrow> (rat \<Rightarrow> dom) \<Rightarrow> rat list \<Rightarrow> scr \<Rightarrow> jserr + scr" where
  "bottom_run m start page [] s = Inr s"
| "bottom_run m start page (t # ts) s =
     sbind (scrollerBottom m (start + t) (page t) (run_frames m (start + t) s)) (bottom_run m start page ts)"

text \<open>A click on a contact: its messages come to the page, \<open>look\<close> tells the sizes that they give it.\<close>

definition open_contact ::
  "(string \<Rightarrow> bool) \<Rightarrow> string \<Rightarrow> math \<Rightarrow> rat \<Rightarrow> (string list \<Rightarrow> dom) \<Rightarrow> msgs \<times> scr \<Rightarrow> jserr + msgs \<times> scr" where
  "open_contact mark key m now look = (\<lambda>(st, s).
     sbind (click_contact mark key st) (\<lambda>st.
     sbind (show_conversation m now (look (ms_discussion st)) s) (\<lambda>s. Inr (st, s))))"

section \<open>The end of a conversation\<close>

text \<open>A scroller that scrolls in one direction only.\<close>

definition upright :: "is_opts \<Rightarrow> bool" where
  "upright o' \<longleftrightarrow> o_transform o' \<and> o_snap o' = NoSnap \<and> \<not> o_scrollX o'"

text \<open>The lowest position on a page.\<close>

definition end_of :: "is_opts \<Rightarrow> dom \<Rightarrow> rat" where
  "end_of o' d = (let n = d_wrapperH d - (d_scrollerH d + (case d_last d of None \<Rightarrow> 0 | Some n \<Rightarrow> n + 40))
     in if o_scrollY o' \<and> n < 0 then n else 0)"

definition at_end :: "is_opts \<Rightarrow> rat \<Rightarrow> scr \<Rightarrow> bool" where
  "at_end o' n s \<longleftrightarrow> s_opts s = o' \<and> s_frames s = [] \<and> s_x s = 0 \<and> s_y s = n \<and> s_maxY s = n \<and> n \<le> 0 \<and>
     \<not> s_hasH s \<and> (\<not> s_hasV s \<longrightarrow> n = 0)"

lemma refresh_upright:
  assumes u: "upright (s_opts s)" and f: "s_frames s = []"
  shows "\<exists>s'. refresh m now d s = Inr s' \<and> s_opts s' = s_opts s \<and> s_frames s' = [] \<and> s_x s' = 0 \<and>
    s_maxY s' = end_of (s_opts s) d \<and> \<not> s_hasH s' \<and> (\<not> s_hasV s' \<longrightarrow> s_maxY s' = 0) \<and> s_maxY s' \<le> 0 \<and>
    (s_y s = s_maxY s' \<longrightarrow> s_y s' = s_maxY s')"
proof -
  define t where "t = emit ''refresh'' (measure_sizes d s)"
  define v where "v = t\<lparr>s_inds := map (ind_refresh t) (s_inds t)\<rparr>"
  have v: "s_opts v = s_opts s" "s_frames v = []" "\<not> s_hasH v" "s_maxY v = end_of (s_opts s) d" "s_y v = s_y s"
    "s_maxY v \<le> 0" "\<not> s_hasV v \<longrightarrow> s_maxY v = 0"
    using u f by (simp_all add: v_def t_def emit_def measure_sizes_def Let_def end_of_def upright_def)
  have r: "refresh m now d s = Inr (fst (resetPosition m now 0 v))"
    using u unfolding refresh_def Let_def t_def [symmetric] v_def [symmetric] by (simp add: v upright_def)
  have tr: "s_hasH (translate x y w) = s_hasH w" "s_hasV (translate x y w) = s_hasV w" "s_maxY (translate x y w) = s_maxY w"
    for x y and w :: scr by (simp_all add: translate_def Let_def split: prod.split)
  obtain x y where xy: "reset_target v = (x, y)" by (cases "reset_target v")
  then have "x = 0" "s_y s = s_maxY v \<longrightarrow> y = s_maxY v" using v by (auto simp: reset_target_def split: if_splits)
  moreover have "o_transform (s_opts v)" using u v by (simp add: upright_def)
  ultimately show ?thesis
    using r v xy translate_pos [of "v\<lparr>s_inTransition := False\<rparr>" x y]
    by (cases "x = s_x v \<and> y = s_y v") (auto simp: resetPosition_def scroll_back_def tr)
qed

lemma animate_frame:
  assumes "0 < time"
  shows "s_frames (scrollTo m now x y time e s) = s_frames s @ [new_frame now x y time e s]"
    "s_opts (scrollTo m now x y time e s) = s_opts s" "s_maxY (scrollTo m now x y time e s) = s_maxY s"
    "s_hasH (scrollTo m now x y time e s) = s_hasH s" "s_hasV (scrollTo m now x y time e s) = s_hasV s"
proof -
  have k: "s_maxY (translate x y w) = s_maxY w" "s_hasH (translate x y w) = s_hasH w" "s_hasV (translate x y w) = s_hasV w"
    for x y and w :: scr by (simp_all add: translate_def Let_def split: prod.split)
  have "scrollTo m now x y time e s = anim_run m now (new_frame now x y time e s)
      (s\<lparr>s_inTransition := o_transition (s_opts s) \<and> time > 0, s_animating := True\<rparr>)"
    using assms by (simp add: scrollTo_def animate_def anim_step_def new_frame_def)
  then show "s_frames (scrollTo m now x y time e s) = s_frames s @ [new_frame now x y time e s]"
    "s_opts (scrollTo m now x y time e s) = s_opts s" "s_maxY (scrollTo m now x y time e s) = s_maxY s"
    "s_hasH (scrollTo m now x y time e s) = s_hasH s" "s_hasV (scrollTo m now x y time e s) = s_hasV s"
    by (simp_all add: anim_run_def Let_def k)
qed

lemma to_the_end:
  assumes "upright (s_opts s)" "s_frames s = []" "\<not> s_hasH s" "\<not> s_hasV s \<longrightarrow> s_maxY s = 0" "s_maxY s \<le> 0" "0 < time"
    "now + time \<le> later"
  shows "at_end (s_opts s) (s_maxY s) (run_frames m later (scrollTo m now 0 (s_maxY s) time Circular s))"
proof -
  define t where "t = scrollTo m now 0 (s_maxY s) time Circular s"
  define fr where "fr = new_frame now 0 (s_maxY s) time Circular s"
  have t: "s_frames t = [fr]" "s_opts t = s_opts s" "s_maxY t = s_maxY s" "s_hasH t = s_hasH s" "s_hasV t = s_hasV s"
    using animate_frame [OF assms(6)] assms(2) by (simp_all add: t_def fr_def)
  define w where "w = translate 0 (s_maxY s) (t\<lparr>s_frames := [], s_animating := False\<rparr>)"
  have w: "s_x w = 0" "s_y w = s_maxY s" "s_opts w = s_opts s" "s_maxY w = s_maxY s" "s_hasH w = s_hasH s" "s_hasV w = s_hasV s"
    "s_frames w = []"
    using assms(1) t by (simp_all add: w_def upright_def translate_def)
  have "reset_target w = (s_x w, s_y w)" using assms w by (auto simp: reset_target_def)
  then have "run_frames m later t = emit ''scrollEnd'' w"
    using assms(7) t by (simp add: run_frames_def anim_step_def fr_def new_frame_def anim_finish_def w_def resetPosition_def)
  then show ?thesis using w assms by (simp add: at_end_def t_def [symmetric]) (simp add: emit_def)
qed

lemma at_end_frames: "at_end o' n s \<Longrightarrow> run_frames m later s = s"
  by (simp add: at_end_def run_frames_def)

lemma bottom_again:
  assumes "upright o'" "at_end o' n (run_frames m now s)" "now + 100 \<le> later"
  shows "\<exists>s'. scrollerBottom m now d (run_frames m now s) = Inr s' \<and> at_end o' (end_of o' d) (run_frames m later s')"
proof -
  let ?s = "run_frames m now s"
  have e: "s_opts ?s = o'" "s_frames ?s = []" "s_y ?s = n" "s_maxY ?s = n" using assms(2) by (simp_all add: at_end_def)
  then obtain u where u: "refresh m now d ?s = Inr u" "s_opts u = o'" "s_frames u = []" "s_x u = 0"
    "s_maxY u = end_of o' d" "\<not> s_hasH u" "\<not> s_hasV u \<longrightarrow> s_maxY u = 0" "s_maxY u \<le> 0" "n = s_maxY u \<longrightarrow> s_y u = s_maxY u"
    using refresh_upright [of ?s m now d] assms(1) by auto
  show ?thesis
  proof (cases "n = s_maxY u")
    case True
    then have "at_end o' (end_of o' d) u" using u by (simp add: at_end_def)
    then show ?thesis using u e True by (simp add: scrollerBottom_def at_end_frames)
  next
    case False
    have "at_end o' (end_of o' d) (run_frames m later (scrollTo m now 0 (s_maxY u) 100 Circular u))"
      using to_the_end [of u 100 now later m] u assms by simp
    then show ?thesis using u e False by (simp add: scrollerBottom_def)
  qed
qed

lemma bottom_run_end:
  assumes "upright o'" "at_end o' n (run_frames m (start + t) s)" "sorted_wrt (\<lambda>a b. a + 100 \<le> b) (t # ts)"
    "start + last (t # ts) + 100 \<le> later"
  shows "\<exists>s'. bottom_run m start page (t # ts) s = Inr s' \<and> at_end o' (end_of o' (page (last (t # ts)))) (run_frames m later s')"
  using assms(2-4)
proof (induction ts arbitrary: t s n)
  case Nil
  then show ?case using bottom_again [OF assms(1) Nil(1), of later "page t"] by auto
next
  case (Cons b ts)
  then have "start + t + 100 \<le> start + b" by simp
  from bottom_again [OF assms(1) Cons.prems(1) this, of "page t"] obtain u
    where u: "scrollerBottom m (start + t) (page t) (run_frames m (start + t) s) = Inr u"
      "at_end o' (end_of o' (page t)) (run_frames m (start + b) u)" by blast
  show ?case using Cons.IH [OF u(2)] Cons.prems(2,3) u(1) by simp
qed

end
