(* ===== verification/IsProps.thy ===== *)
theory IsProps
  imports UiScroll
begin

text \<open>
  Properties of the scrollers: the boundaries, and the way to the end of a conversation.
\<close>

definition plain_math :: math where
  "plain_math = \<lparr>m_sqrt = (\<lambda>x. x), m_wave = (\<lambda>_. 0)\<rparr>"

definition small_dom :: dom where
  "small_dom = \<lparr>d_wrapperW = 10, d_wrapperH = 20, d_scrollerW = 10, d_scrollerH = 30, d_last = None, d_offset = (0, 0)\<rparr>"

definition firm_opts :: is_opts where
  "firm_opts = default_opts\<lparr>o_bounce := False\<rparr>"




text \<open>C35: After a click on a contact, when no animation of the conversation is pending at the click, the conversation comes to
  its end and stays there: however often the messages change their height until the last timeout, when the frames after it
  have run the scroller rests at the lowest position of the page, and no animation is pending. (A second click while the first
  animation runs adds another one, and the scroller may rest elsewhere.)\<close>

theorem conversation_reaches_end:
  assumes "open_contact mark key m now look (st, s) = Inr (st', s')" and "upright (s_opts s)" and "s_frames s = []"
    and "now + 5100 \<le> later"
  shows "\<exists>t. bottom_run m now page bottom_times s' = Inr t \<and>
    at_end (s_opts s) (end_of (s_opts s) (page 5000)) (run_frames m later t)"
proof -
  obtain u where u: "refresh m now (look (ms_discussion st')) s = Inr u" "s' = scrollTo m now 0 (s_maxY u) 600 Circular u"
    using assms(1) by (auto simp: open_contact_def show_conversation_def sbind_Inr_iff)
  have f: "upright (s_opts u)" "s_opts u = s_opts s" "s_frames u = []" "\<not> s_hasH u" "\<not> s_hasV u \<longrightarrow> s_maxY u = 0" "s_maxY u \<le> 0"
    using refresh_upright [OF assms(2,3), of m now "look (ms_discussion st')"] assms(2) u(1) by auto
  have "at_end (s_opts s) (s_maxY u) (run_frames m (now + 700) s')"
    using to_the_end [OF f(1,3-6), of 600 now "now + 700" m] f(2) u(2) by simp
  from bottom_run_end [OF assms(2) this, of "tl bottom_times" later page] assms(4)
  show ?thesis by (simp add: bottom_times_def)
qed

definition one_message :: msgs where
  "one_message = \<lparr>ms_contacts = [(''bob'', \<lparr>ct_label = ''bob'', ct_messages = [\<lparr>m_id = ''1'', m_them = ''b'', m_self = ''a'',
      m_text = [], m_type = ''S'', m_sent = 1, m_received = 1, m_read = True\<rparr>]\<rparr>)],
     ms_list = [], ms_in_conversation = False, ms_notifications = True, ms_count = 0, ms_count_shown = True, ms_discussion = [],
     ms_from = [], ms_to = [], ms_text = []\<rparr>"

theorem conversation_reaches_end_witness:
  "\<exists>s'. \<exists>t. bottom_run plain_math 1000 (\<lambda>t. small_dom\<lparr>d_scrollerH := 30 + t\<rparr>) bottom_times s' = Inr t \<and>
    at_end page_scroller (-5010) (run_frames plain_math 7000 t)"
proof -
  let ?s = "blank page_scroller []"
  have "case open_contact (\<lambda>_. True) ''bob'' plain_math 1000 (\<lambda>_. small_dom) (one_message, ?s) of
    Inl _ \<Rightarrow> False | Inr _ \<Rightarrow> True" by code_simp
  then obtain st' s' where o': "open_contact (\<lambda>_. True) ''bob'' plain_math 1000 (\<lambda>_. small_dom) (one_message, ?s) = Inr (st', s')"
    by (auto split: sum.splits)
  have h: "upright (s_opts ?s)" "s_frames ?s = []" "(1000 :: rat) + 5100 \<le> 7000"
    by (simp_all add: blank_def upright_def page_scroller_def default_opts_def)
  have "end_of (s_opts ?s) (small_dom\<lparr>d_scrollerH := 30 + 5000\<rparr>) = -5010" "s_opts ?s = page_scroller"
    by (simp_all add: blank_def end_of_def page_scroller_def default_opts_def small_dom_def)
  then show ?thesis
    using conversation_reaches_end [OF o' h, of "\<lambda>t. small_dom\<lparr>d_scrollerH := 30 + t\<rparr>"] by auto
qed

section \<open>Behaviour that surprises\<close>

text \<open>An animation does not take the place of one that is pending: both move the scroller in every frame.\<close>

lemma animations_add_up:
  assumes "0 < time"
  shows "\<exists>fr. s_frames (scrollTo m now x y time e s) = s_frames s @ [fr]"
  using assms by (simp add: scrollTo_def animate_def anim_step_def anim_run_def new_frame_def Let_def)

text \<open>A frame that is pending while a refresh makes the page smaller takes a scroller that does not bounce out of the page.\<close>

lemma frame_after_refresh:
  "case IScroll plain_math 1000 True True firm_opts (20, 5) (10, 5) [] small_dom of
     Inl _ \<Rightarrow> False | Inr s \<Rightarrow>
       (case refresh plain_math 1100 (small_dom\<lparr>d_scrollerH := 22\<rparr>) (scrollTo plain_math 1000 0 (-10) 600 Circular s) of
          Inl _ \<Rightarrow> False | Inr t \<Rightarrow> s_maxY t = -2 \<and> s_y (run_frames plain_math 1300 t) < -2)"
  by code_simp

text \<open>
  While transitions are in use a touch does not stop an animation, although it takes the scroller for stopped: the
  frame that is pending moves it on under the finger.
\<close>

lemma touch_does_not_stop:
  assumes "o_transition (s_opts s)"
  shows "s_frames (touch_start now pos e s) = s_frames s \<and> s_animating (touch_start now pos e s) = s_animating s"
  using assms by (simp add: touch_start_def Let_def prevent_def emit_def translate_def split: prod.split)

text \<open>With snap pages the key for up goes to the page below, the one for down to the page above.\<close>

lemma up_key_goes_down:
  assumes "o_snap (s_opts s) \<noteq> NoSnap" "o_keys (s_opts s) = default_keys"
  shows "key_target 38 x y s = Some (x, y + 1) \<and> key_target 40 x y s = Some (x, y - 1)"
  using assms by (simp add: key_target_def Let_def default_keys_def)

text \<open>The start position of the options is not taken back into the boundaries.\<close>

lemma start_outside:
  "case IScroll plain_math 1000 True True (default_opts\<lparr>o_startY := 5\<rparr>) (20, 5) (10, 5) [] small_dom of
     Inl _ \<Rightarrow> False | Inr s \<Rightarrow> s_y s = 5"
  by code_simp

end
