(* ===== verification/TsState.thy ===== *)
theory TsState
  imports JsDouble Complex_Main
begin

text \<open>
  The touch gestures of \<open>src/src/qt/res/js/jquery.touchSwipe.js\<close>, which the pages load beside their own scripts: its
  constants and options, what it knows of the fingers, its arithmetic and the tests of gestures. Coordinates are
  integers, numbers of pixels; the clock does not advance within one handler, it is the argument \<open>now\<close>.
\<close>

section \<open>Constants and options\<close>

datatype direction = LEFT | RIGHT | UP | DOWN | IN | OUT

datatype phase = PHASE_START | PHASE_MOVE | PHASE_END | PHASE_CANCEL

datatype gesture = SWIPE | PINCH | TAP | DOUBLE_TAP | LONG_TAP

datatype page_scroll = NONE | AUTO | HORIZONTAL | VERTICAL

definition DOUBLE_TAP_THRESHOLD :: int where
  "DOUBLE_TAP_THRESHOLD = 10"

text \<open>What the browser supports: touch events, pointer events and whether these have the prefix of Internet Explorer 10.\<close>

record support =
  SUPPORTS_TOUCH :: bool
  SUPPORTS_POINTER_IE10 :: bool
  SUPPORTS_POINTER :: bool

record point =
  px :: int
  py :: int

record finger =
  f_start :: point
  f_end :: point
  f_identifier :: int

text \<open>A factor of a pinch is the text of a number with two decimals, kept here in hundredths, or \<open>NaN\<close> or \<open>Infinity\<close>.\<close>

datatype zoom = Hundredths int | ZNaN | ZInfinity

text \<open>The arguments of the events and handlers after the original event.\<close>

datatype payload =
    PStatus phase "direction option" int int nat "finger list"
  | PSwipe "direction option" int int nat "finger list"
  | PPinchStatus phase "direction option" int int nat zoom "finger list"
  | PPinch "direction option" int int nat zoom "finger list"
  | PTarget nat

text \<open>
  A handler of the page is a function of its arguments; its result is all that the plugin looks at, namely whether it
  is exactly \<open>false\<close>.
\<close>

datatype reply = RFalse | ROther

type_synonym handler = "payload \<Rightarrow> reply"

text \<open>
  \<open>None\<close> for \<open>fingers\<close> is \<open>"all"\<close>, for a threshold \<open>null\<close>, for a handler \<open>null\<close> or another value that is not true. A value of
  \<open>allowPageScroll\<close> other than the four constants is \<open>None\<close>.
\<close>

record ts_opts =
  t_fingers :: "int option"
  t_threshold :: "int option"
  t_cancelThreshold :: "int option"
  t_pinchThreshold :: "int option"
  t_maxTimeThreshold :: "int option"
  t_fingerReleaseThreshold :: int
  t_longTapThreshold :: int
  t_doubleTapThreshold :: int
  t_swipe :: "handler option"
  t_swipeLeft :: "handler option"
  t_swipeRight :: "handler option"
  t_swipeUp :: "handler option"
  t_swipeDown :: "handler option"
  t_swipeStatus :: "handler option"
  t_pinchIn :: "handler option"
  t_pinchOut :: "handler option"
  t_pinchStatus :: "handler option"
  t_tap :: "handler option"
  t_doubleTap :: "handler option"
  t_longTap :: "handler option"
  t_hold :: "handler option"
  t_triggerOnTouchEnd :: bool
  t_triggerOnTouchLeave :: bool
  t_allowPageScroll :: "page_scroll option"
  t_fallbackToMouseEvents :: bool
  t_excludedElements :: string

section \<open>The state of one element\<close>

text \<open>
  What an element is waiting for: the timeouts of \<open>hold\<close> and of a single tap, with the target of the event that set them,
  if there was an event.
\<close>

datatype waiting = WHold nat | WSingleTap "nat option"

record timeout =
  to_id :: nat
  to_due :: int
  to_what :: waiting

text \<open>What happens outside of the plugin: an event on the element, a call of a handler, and \<open>preventDefault\<close>.\<close>

datatype ts_out = Fired string payload | Called string payload | Prevented

text \<open>
  \<open>maximumsMap\<close> and \<open>fingerData\<close> are empty before the first touch, where the code has \<open>null\<close>. The last fields stand for the
  browser: how often each handler is bound to the element, the data \<open>TouchSwipe_intouch\<close>, the timeouts and the log.
\<close>

record swipe =
  distance :: int
  direction :: "direction option"
  duration :: int
  startTouchesDistance :: int
  endTouchesDistance :: int
  pinchZoom :: zoom
  pinchDistance :: int
  pinchDirection :: "direction option"
  maximumsMap :: "(direction \<times> int) list"
  phase :: phase
  fingerCount :: nat
  fingerData :: "finger list"
  startTime :: int
  endTime :: int
  previousTouchEndTime :: int
  previousTouchFingerCount :: nat
  doubleTapStartTime :: "int option"
  singleTapTimeout :: "nat option"
  holdTimeout :: "nat option"
  b_start :: nat
  b_cancel :: nat
  b_move :: nat
  b_end :: nat
  b_leave :: nat
  intouch :: bool
  timeouts :: "timeout list"
  next_id :: nat
  ts_log :: "ts_out list"

definition out :: "ts_out \<Rightarrow> swipe \<Rightarrow> swipe" where
  "out e w = w\<lparr>ts_log := ts_log w @ [e]\<rparr>"

section \<open>Fingers\<close>

text \<open>A touch, or a mouse event: its position on the page and in the window, and its identifier if it has one.\<close>

record touch =
  tc_identifier :: "int option"
  tc_pageX :: int
  tc_pageY :: int
  tc_clientX :: int
  tc_clientY :: int

definition touch_id :: "touch \<Rightarrow> int" where
  "touch_id evt = (case tc_identifier evt of Some i \<Rightarrow> i | None \<Rightarrow> 0)"

definition touch_point :: "touch \<Rightarrow> point" where
  "touch_point evt = \<lparr>px = (if tc_pageX evt \<noteq> 0 then tc_pageX evt else tc_clientX evt),
     py = (if tc_pageY evt \<noteq> 0 then tc_pageY evt else tc_clientY evt)\<rparr>"

text \<open>An index behind the end of the data raises an error: the code sets a property of \<open>undefined\<close>.\<close>

definition createFingerData :: "nat \<Rightarrow> touch \<Rightarrow> swipe \<Rightarrow> (jserr \<times> swipe) + swipe" where
  "createFingerData index evt w =
     (if index < length (fingerData w)
      then Inr (w\<lparr>fingerData := (fingerData w)[index :=
        \<lparr>f_start = touch_point evt, f_end = touch_point evt, f_identifier = touch_id evt\<rparr>]\<rparr>)
      else Inl (TypeErr, w))"

definition finger_of :: "nat \<Rightarrow> swipe \<Rightarrow> (jserr \<times> swipe) + finger" where
  "finger_of i w = (if i < length (fingerData w) then Inr (fingerData w ! i) else Inl (TypeErr, w))"

definition no_finger :: finger where
  "no_finger = \<lparr>f_start = \<lparr>px = 0, py = 0\<rparr>, f_end = \<lparr>px = 0, py = 0\<rparr>, f_identifier = 0\<rparr>"

definition createAllFingerData :: "finger list" where
  "createAllFingerData = replicate 6 no_finger"

fun getFingerData_from :: "nat \<Rightarrow> int \<Rightarrow> finger list \<Rightarrow> nat option" where
  "getFingerData_from i n [] = None"
| "getFingerData_from i n (f # fs) = (if f_identifier f = n then Some i else getFingerData_from (Suc i) n fs)"

definition getFingerData :: "int \<Rightarrow> swipe \<Rightarrow> nat option" where
  "getFingerData n w = getFingerData_from 0 n (fingerData w)"

text \<open>A touch whose identifier is not known raises an error: the code reads a property of \<open>undefined\<close>.\<close>

definition updateFingerData :: "touch \<Rightarrow> swipe \<Rightarrow> (jserr \<times> swipe) + (nat \<times> swipe)" where
  "updateFingerData evt w = (case getFingerData (touch_id evt) w of
     None \<Rightarrow> Inl (TypeErr, w)
   | Some i \<Rightarrow> Inr (i, w\<lparr>fingerData := (fingerData w)[i := (fingerData w ! i)\<lparr>f_end := touch_point evt\<rparr>]\<rparr>))"

section \<open>The largest distances\<close>

definition createMaximumVO :: "direction \<Rightarrow> direction \<times> int" where
  "createMaximumVO dir = (dir, 0)"

definition createMaximumsData :: "(direction \<times> int) list" where
  "createMaximumsData = [createMaximumVO LEFT, createMaximumVO RIGHT, createMaximumVO UP, createMaximumVO DOWN]"

definition getMaxDistance :: "direction \<Rightarrow> swipe \<Rightarrow> int option" where
  "getMaxDistance d w = map_of (maximumsMap w) d"

text \<open>
  The direction is one of the four of the map. The maximum of a number and \<open>undefined\<close> is not a number and there is
  no entry to keep it: without an entry the code raises an error, which does not happen after a touch has started.
\<close>

definition setMaxDistance :: "direction \<Rightarrow> int \<Rightarrow> swipe \<Rightarrow> (jserr \<times> swipe) + swipe" where
  "setMaxDistance d n w = (case getMaxDistance d w of
     None \<Rightarrow> Inl (TypeErr, w)
   | Some m \<Rightarrow> Inr (w\<lparr>maximumsMap := map (\<lambda>(k, v). (k, if k = d then max n m else v)) (maximumsMap w)\<rparr>))"

section \<open>Arithmetic\<close>

function isqrt :: "int \<Rightarrow> int" where
  "isqrt n = (if n \<le> 0 then 0 else let r = 2 * isqrt (n div 4) in if (r + 1) * (r + 1) \<le> n then r + 1 else r)"
  by auto
termination by (relation "measure nat") auto

declare isqrt.simps [simp del]

text \<open>\<open>Math.round (Math.sqrt n)\<close> of a sum of squares.\<close>

definition round_root :: "int \<Rightarrow> int" where
  "round_root n = (let r = isqrt n in if r * r + r < n then r + 1 else r)"

definition calculateDuration :: "swipe \<Rightarrow> int" where
  "calculateDuration w = endTime w - startTime w"

definition calculateTouchesDistance :: "point \<Rightarrow> point \<Rightarrow> int" where
  "calculateTouchesDistance startPoint endPoint =
     (let diffX = \<bar>px startPoint - px endPoint\<bar>; diffY = \<bar>py startPoint - py endPoint\<bar>
      in round_root (diffX * diffX + diffY * diffY))"

definition calculateDistance :: "point \<Rightarrow> point \<Rightarrow> int" where
  "calculateDistance startPoint endPoint = round_root ((px endPoint - px startPoint)\<^sup>2 + (py endPoint - py startPoint)\<^sup>2)"

text \<open>
  The quotient of two distances is a double \<open>m / 2 ^ k\<close>. \<open>toFixed(2)\<close> rounds the exact value of that double, to the larger of
  two hundredths that are equally near. Distances on a screen are far below \<open>10 ^ 21\<close>.
\<close>

definition calculatePinchZoom :: "int \<Rightarrow> int \<Rightarrow> zoom" where
  "calculatePinchZoom startDistance endDistance =
     (if startDistance = 0 then if endDistance = 0 then ZNaN else ZInfinity
      else case fl_div endDistance startDistance of (m, k) \<Rightarrow> Hundredths ((200 * m + 2 ^ k) div 2 ^ Suc k))"

definition zoom_less_1 :: "zoom \<Rightarrow> bool" where
  "zoom_less_1 z = (case z of Hundredths n \<Rightarrow> n < 100 | _ \<Rightarrow> False)"

definition calculatePinchDirection :: "swipe \<Rightarrow> direction" where
  "calculatePinchDirection w = (if zoom_less_1 (pinchZoom w) then OUT else IN)"

text \<open>\<open>Math.atan2\<close> of finite numbers; the zeros of differences are not negative.\<close>

definition js_atan2 :: "real \<Rightarrow> real \<Rightarrow> real" where
  "js_atan2 y x =
     (if 0 < x then arctan (y / x)
      else if x < 0 then if 0 \<le> y then arctan (y / x) + pi else arctan (y / x) - pi
      else if 0 < y then pi / 2 else if y < 0 then - (pi / 2) else 0)"

definition calculateAngle :: "point \<Rightarrow> point \<Rightarrow> int" where
  "calculateAngle startPoint endPoint =
     (let x = px startPoint - px endPoint; y = py endPoint - py startPoint; r = js_atan2 (of_int y) (of_int x);
          angle = round (r * 180 / pi)
      in if angle < 0 then 360 - \<bar>angle\<bar> else angle)"

definition calculateDirection :: "point \<Rightarrow> point \<Rightarrow> direction" where
  "calculateDirection startPoint endPoint =
     (let angle = calculateAngle startPoint endPoint
      in if angle \<le> 45 \<and> 0 \<le> angle then LEFT
         else if angle \<le> 360 \<and> 315 \<le> angle then LEFT
         else if 135 \<le> angle \<and> angle \<le> 225 then RIGHT
         else if 45 < angle \<and> angle < 135 then DOWN
         else UP)"

section \<open>Bounds\<close>

text \<open>The offset and the outer size of the element are arguments.\<close>

record bounds =
  bd_left :: int
  bd_right :: int
  bd_top :: int
  bd_bottom :: int

definition getbounds :: "int \<times> int \<Rightarrow> int \<times> int \<Rightarrow> bounds" where
  "getbounds offset extent = \<lparr>bd_left = fst offset, bd_right = fst offset + fst extent, bd_top = snd offset,
     bd_bottom = snd offset + snd extent\<rparr>"

definition isInBounds :: "point \<Rightarrow> bounds \<Rightarrow> bool" where
  "isInBounds p b = (bd_left b < px p \<and> px p < bd_right b \<and> bd_top b < py p \<and> py p < bd_bottom b)"

section \<open>Tests of gestures\<close>

definition validateSwipeDistance :: "ts_opts \<Rightarrow> swipe \<Rightarrow> bool" where
  "validateSwipeDistance q w = (case t_threshold q of Some t \<Rightarrow> t \<le> distance w | None \<Rightarrow> True)"

text \<open>\<open>undefined\<close> minus a number is not a number, and no number is smaller than it.\<close>

definition didSwipeBackToCancel :: "ts_opts \<Rightarrow> swipe \<Rightarrow> bool" where
  "didSwipeBackToCancel q w = (case (t_cancelThreshold q, direction w) of
     (Some t, Some d) \<Rightarrow> (case getMaxDistance d w of Some m \<Rightarrow> t \<le> m - distance w | None \<Rightarrow> False)
   | _ \<Rightarrow> False)"

definition validatePinchDistance :: "ts_opts \<Rightarrow> swipe \<Rightarrow> bool" where
  "validatePinchDistance q w = (case t_pinchThreshold q of Some t \<Rightarrow> t \<le> pinchDistance w | None \<Rightarrow> True)"

definition validateSwipeTime :: "ts_opts \<Rightarrow> swipe \<Rightarrow> bool" where
  "validateSwipeTime q w = (case t_maxTimeThreshold q of
     Some t \<Rightarrow> if t \<noteq> 0 then \<not> t \<le> duration w else True | None \<Rightarrow> True)"

definition hasPinches :: "ts_opts \<Rightarrow> bool" where
  "hasPinches q = (t_pinchStatus q \<noteq> None \<or> t_pinchIn q \<noteq> None \<or> t_pinchOut q \<noteq> None)"

definition hasSwipes :: "ts_opts \<Rightarrow> bool" where
  "hasSwipes q = (t_swipe q \<noteq> None \<or> t_swipeStatus q \<noteq> None \<or> t_swipeLeft q \<noteq> None \<or> t_swipeRight q \<noteq> None \<or>
     t_swipeUp q \<noteq> None \<or> t_swipeDown q \<noteq> None)"

definition validateFingers :: "support \<Rightarrow> ts_opts \<Rightarrow> swipe \<Rightarrow> bool" where
  "validateFingers c q w = (t_fingers q = Some (int (fingerCount w)) \<or> t_fingers q = None \<or> \<not> SUPPORTS_TOUCH c)"

text \<open>Before the first touch there is no finger to look at; the tests run only after it.\<close>

definition validateEndPoint :: "swipe \<Rightarrow> bool" where
  "validateEndPoint w = (case fingerData w of f # _ \<Rightarrow> px (f_end f) \<noteq> 0 | [] \<Rightarrow> False)"

definition validatePinch :: "support \<Rightarrow> ts_opts \<Rightarrow> swipe \<Rightarrow> bool" where
  "validatePinch c q w = (validateFingers c q w \<and> validateEndPoint w \<and> validatePinchDistance q w)"

definition didPinch :: "support \<Rightarrow> ts_opts \<Rightarrow> swipe \<Rightarrow> bool" where
  "didPinch c q w = (validatePinch c q w \<and> hasPinches q)"

definition validateSwipe :: "support \<Rightarrow> ts_opts \<Rightarrow> swipe \<Rightarrow> bool" where
  "validateSwipe c q w = (\<not> didSwipeBackToCancel q w \<and> validateEndPoint w \<and> validateFingers c q w \<and>
     validateSwipeDistance q w \<and> validateSwipeTime q w)"

definition didSwipe :: "support \<Rightarrow> ts_opts \<Rightarrow> swipe \<Rightarrow> bool" where
  "didSwipe c q w = (validateSwipe c q w \<and> hasSwipes q)"

definition hasTap :: "ts_opts \<Rightarrow> bool" where
  "hasTap q = (t_tap q \<noteq> None)"

definition hasDoubleTap :: "ts_opts \<Rightarrow> bool" where
  "hasDoubleTap q = (t_doubleTap q \<noteq> None)"

definition hasLongTap :: "ts_opts \<Rightarrow> bool" where
  "hasLongTap q = (t_longTap q \<noteq> None)"

definition validateDoubleTap :: "int \<Rightarrow> ts_opts \<Rightarrow> swipe \<Rightarrow> bool" where
  "validateDoubleTap now q w = (case doubleTapStartTime w of
     None \<Rightarrow> False | Some t \<Rightarrow> hasDoubleTap q \<and> now - t \<le> t_doubleTapThreshold q)"

definition inDoubleTap :: "int \<Rightarrow> ts_opts \<Rightarrow> swipe \<Rightarrow> bool" where
  "inDoubleTap = validateDoubleTap"

text \<open>A threshold that is \<open>null\<close> counts as zero in a comparison.\<close>

definition validateTap :: "support \<Rightarrow> ts_opts \<Rightarrow> swipe \<Rightarrow> bool" where
  "validateTap c q w = ((fingerCount w = 1 \<or> \<not> SUPPORTS_TOUCH c) \<and>
     distance w < (case t_threshold q of Some t \<Rightarrow> t | None \<Rightarrow> 0))"

definition validateLongTap :: "ts_opts \<Rightarrow> swipe \<Rightarrow> bool" where
  "validateLongTap q w = (t_longTapThreshold q < duration w \<and> distance w < DOUBLE_TAP_THRESHOLD)"

definition didTap :: "support \<Rightarrow> ts_opts \<Rightarrow> swipe \<Rightarrow> bool" where
  "didTap c q w = (validateTap c q w \<and> hasTap q)"

definition didDoubleTap :: "int \<Rightarrow> ts_opts \<Rightarrow> swipe \<Rightarrow> bool" where
  "didDoubleTap now q w = (validateDoubleTap now q w \<and> hasDoubleTap q)"

definition didLongTap :: "ts_opts \<Rightarrow> swipe \<Rightarrow> bool" where
  "didLongTap q w = (validateLongTap q w \<and> hasLongTap q)"

text \<open>
  The number of touches comes from the global variable \<open>event\<close>, not from the event of the handler: it is \<open>None\<close> where
  the browser has no such variable.
\<close>

definition startMultiFingerRelease :: "int \<Rightarrow> nat option \<Rightarrow> swipe \<Rightarrow> (jserr \<times> swipe) + swipe" where
  "startMultiFingerRelease now touches w =
     (let w = w\<lparr>previousTouchEndTime := now\<rparr>
      in case touches of None \<Rightarrow> Inl (RefErr, w) | Some n \<Rightarrow> Inr (w\<lparr>previousTouchFingerCount := n + 1\<rparr>))"

definition cancelMultiFingerRelease :: "swipe \<Rightarrow> swipe" where
  "cancelMultiFingerRelease w = w\<lparr>previousTouchEndTime := 0, previousTouchFingerCount := 0\<rparr>"

definition inMultiFingerRelease :: "int \<Rightarrow> ts_opts \<Rightarrow> swipe \<Rightarrow> bool" where
  "inMultiFingerRelease now q w = (previousTouchEndTime w \<noteq> 0 \<and> now - previousTouchEndTime w \<le> t_fingerReleaseThreshold q)"

end
