(* ===== verification/TsFlow.thy ===== *)
theory TsFlow
  imports TsState
begin

text \<open>
  The handlers of \<open>src/src/qt/res/js/jquery.touchSwipe.js\<close>: touches and mouse events that start, move, end and leave, the
  events and callbacks of the gestures, timeouts, and the methods of the plugin. A handler returns the state after
  it, or the error and the state in which it was raised. The \<open>nat\<close> arguments of an event are nodes of the page.
\<close>

section \<open>Events and results\<close>

text \<open>
  \<open>ev_touches\<close> is \<open>None\<close> where the event has no list of touches. A handler of the page gives its \<open>reply\<close> and may not call
  the plugin.
\<close>

record ts_event =
  ev_touches :: "touch list option"
  ev_point :: touch
  ev_target :: nat

text \<open>
  What jQuery passes to a handler: the event of the browser, if there is one, else its own event counts. Then: whether
  the target is an excluded element or inside of one, the offset and size of the element, and whether the browser keeps
  the event it is handling in the global variable \<open>event\<close>.
\<close>

record jq_event =
  jq_original :: "ts_event option"
  jq_own :: ts_event
  jq_excluded :: bool
  jq_offset :: "int \<times> int"
  jq_size :: "int \<times> int"
  jq_global :: bool

definition event_of :: "jq_event \<Rightarrow> ts_event" where
  "event_of j = (case jq_original j of Some e \<Rightarrow> e | None \<Rightarrow> jq_own j)"

type_synonym 'a outcome = "(jserr \<times> swipe) + 'a"

text \<open>The target of the original event; reading it from \<open>undefined\<close> raises an error.\<close>

definition target_of :: "ts_event option \<Rightarrow> swipe \<Rightarrow> nat outcome" where
  "target_of event w = (case event of Some e \<Rightarrow> Inr (ev_target e) | None \<Rightarrow> Inl (TypeErr, w))"

definition touches_of :: "ts_event option \<Rightarrow> swipe \<Rightarrow> touch list outcome" where
  "touches_of event w = (case event of
     Some e \<Rightarrow> (case ev_touches e of Some ts \<Rightarrow> Inr ts | None \<Rightarrow> Inl (TypeErr, w))
   | None \<Rightarrow> Inl (TypeErr, w))"

text \<open>An element of a list of touches: a property of \<open>undefined\<close> raises an error behind its end.\<close>

definition touch_at :: "nat \<Rightarrow> touch list \<Rightarrow> swipe \<Rightarrow> touch outcome" where
  "touch_at i ts w = (if i < length ts then Inr (ts ! i) else Inl (TypeErr, w))"

section \<open>Timeouts and bindings\<close>

definition ts_setTimeout :: "waiting \<Rightarrow> int \<Rightarrow> swipe \<Rightarrow> nat \<times> swipe" where
  "ts_setTimeout what due w = (next_id w,
     w\<lparr>timeouts := timeouts w @ [\<lparr>to_id = next_id w, to_due = due, to_what = what\<rparr>], next_id := Suc (next_id w)\<rparr>)"

definition ts_clearTimeout :: "nat option \<Rightarrow> swipe \<Rightarrow> swipe" where
  "ts_clearTimeout i w = (case i of
     Some n \<Rightarrow> w\<lparr>timeouts := filter (\<lambda>t. to_id t \<noteq> n) (timeouts w)\<rparr> | None \<Rightarrow> w)"

definition START_EV :: "support \<Rightarrow> ts_opts \<Rightarrow> string" where
  "START_EV c q = (if SUPPORTS_TOUCH c \<or> SUPPORTS_POINTER c \<or> \<not> t_fallbackToMouseEvents q
     then if SUPPORTS_POINTER c then if SUPPORTS_POINTER_IE10 c then ''MSPointerDown'' else ''pointerdown'' else ''touchstart''
     else ''mousedown'')"

definition MOVE_EV :: "support \<Rightarrow> ts_opts \<Rightarrow> string" where
  "MOVE_EV c q = (if SUPPORTS_TOUCH c \<or> SUPPORTS_POINTER c \<or> \<not> t_fallbackToMouseEvents q
     then if SUPPORTS_POINTER c then if SUPPORTS_POINTER_IE10 c then ''MSPointerMove'' else ''pointermove'' else ''touchmove''
     else ''mousemove'')"

definition END_EV :: "support \<Rightarrow> ts_opts \<Rightarrow> string" where
  "END_EV c q = (if SUPPORTS_TOUCH c \<or> SUPPORTS_POINTER c \<or> \<not> t_fallbackToMouseEvents q
     then if SUPPORTS_POINTER c then if SUPPORTS_POINTER_IE10 c then ''MSPointerUp'' else ''pointerup'' else ''touchend''
     else ''mouseup'')"

definition LEAVE_EV :: "support \<Rightarrow> ts_opts \<Rightarrow> string option" where
  "LEAVE_EV c q = (if SUPPORTS_TOUCH c \<or> SUPPORTS_POINTER c \<or> \<not> t_fallbackToMouseEvents q then None else Some ''mouseleave'')"

definition CANCEL_EV :: "support \<Rightarrow> string" where
  "CANCEL_EV c = (if SUPPORTS_POINTER c then if SUPPORTS_POINTER_IE10 c then ''MSPointerCancel'' else ''pointercancel''
     else ''touchcancel'')"

definition getTouchInProgress :: "swipe \<Rightarrow> bool" where
  "getTouchInProgress w = intouch w"

text \<open>
  Binding adds a handler once more, unbinding removes all bindings of a handler. \<open>leaves\<close> says whether there is an event
  of leaving to listen to.
\<close>

definition setTouchInProgress :: "bool \<Rightarrow> bool \<Rightarrow> swipe \<Rightarrow> swipe" where
  "setTouchInProgress leaves val w =
     (if val then w\<lparr>b_move := Suc (b_move w), b_end := Suc (b_end w), b_leave := (if leaves then Suc (b_leave w) else b_leave w),
        intouch := True\<rparr>
      else w\<lparr>b_move := 0, b_end := 0, b_leave := (if leaves then 0 else b_leave w), intouch := False\<rparr>)"

definition removeListeners :: "bool \<Rightarrow> swipe \<Rightarrow> swipe" where
  "removeListeners leaves w = setTouchInProgress leaves False
     (w\<lparr>b_start := 0, b_cancel := 0, b_move := 0, b_end := 0, b_leave := (if leaves then 0 else b_leave w)\<rparr>)"

section \<open>Gestures\<close>

text \<open>An event is fired, and the handler of the page is called if there is one.\<close>

definition fire_call :: "string \<Rightarrow> handler option \<Rightarrow> payload \<Rightarrow> swipe \<Rightarrow> reply \<times> swipe" where
  "fire_call name h p w = (case h of
     None \<Rightarrow> (ROther, out (Fired name p) w)
   | Some f \<Rightarrow> (f p, out (Called name p) (out (Fired name p) w)))"

definition swipe_args :: "swipe \<Rightarrow> payload" where
  "swipe_args w = PSwipe (direction w) (distance w) (duration w) (fingerCount w) (fingerData w)"

definition direction_handler :: "ts_opts \<Rightarrow> direction option \<Rightarrow> (string \<times> handler option) option" where
  "direction_handler q d = (case d of
     Some LEFT \<Rightarrow> Some (''swipeLeft'', t_swipeLeft q)
   | Some RIGHT \<Rightarrow> Some (''swipeRight'', t_swipeRight q)
   | Some UP \<Rightarrow> Some (''swipeUp'', t_swipeUp q)
   | Some DOWN \<Rightarrow> Some (''swipeDown'', t_swipeDown q)
   | _ \<Rightarrow> None)"

definition gesture_swipe :: "support \<Rightarrow> ts_opts \<Rightarrow> phase \<Rightarrow> swipe \<Rightarrow> reply \<times> swipe" where
  "gesture_swipe c q ph w =
     (let (ret, w) = fire_call ''swipeStatus'' (t_swipeStatus q)
        (PStatus ph (direction w) (distance w) (duration w) (fingerCount w) (fingerData w)) w
      in if ret = RFalse then (RFalse, w)
         else if ph = PHASE_END \<and> validateSwipe c q w then
           let (ret, w) = fire_call ''swipe'' (t_swipe q) (swipe_args w) w
           in if ret = RFalse then (RFalse, w)
              else (case direction_handler q (direction w) of
                Some (name, h) \<Rightarrow> fire_call name h (swipe_args w) w | None \<Rightarrow> (ret, w))
         else (ret, w))"

definition pinch_args :: "swipe \<Rightarrow> payload" where
  "pinch_args w = PPinch (pinchDirection w) (pinchDistance w) (duration w) (fingerCount w) (pinchZoom w) (fingerData w)"

definition gesture_pinch :: "support \<Rightarrow> ts_opts \<Rightarrow> phase \<Rightarrow> swipe \<Rightarrow> reply \<times> swipe" where
  "gesture_pinch c q ph w =
     (let (ret, w) = fire_call ''pinchStatus'' (t_pinchStatus q)
        (PPinchStatus ph (pinchDirection w) (pinchDistance w) (duration w) (fingerCount w) (pinchZoom w) (fingerData w)) w
      in if ret = RFalse then (RFalse, w)
         else if ph = PHASE_END \<and> validatePinch c q w then
           (case pinchDirection w of
              Some IN \<Rightarrow> fire_call ''pinchIn'' (t_pinchIn q) (pinch_args w) w
            | Some OUT \<Rightarrow> fire_call ''pinchOut'' (t_pinchOut q) (pinch_args w) w
            | _ \<Rightarrow> (ret, w))
         else (ret, w))"

definition gesture_tap :: "int \<Rightarrow> ts_opts \<Rightarrow> ts_event option \<Rightarrow> swipe \<Rightarrow> (reply \<times> swipe) outcome" where
  "gesture_tap now q event w =
     (let w = ts_clearTimeout (holdTimeout w) (ts_clearTimeout (singleTapTimeout w) w)
      in if hasDoubleTap q \<and> \<not> inDoubleTap now q w then
           let w = w\<lparr>doubleTapStartTime := Some now\<rparr>;
               (i, w) = ts_setTimeout (WSingleTap (map_option ev_target event)) (now + t_doubleTapThreshold q) w
           in Inr (ROther, w\<lparr>singleTapTimeout := Some i\<rparr>)
         else let w = w\<lparr>doubleTapStartTime := None\<rparr>
              in sbind (target_of event w) (\<lambda>n. Inr (fire_call ''tap'' (t_tap q) (PTarget n) w)))"

definition gesture_other_tap ::
  "string \<Rightarrow> handler option \<Rightarrow> ts_event option \<Rightarrow> swipe \<Rightarrow> (reply \<times> swipe) outcome" where
  "gesture_other_tap name h event w =
     (let w = (ts_clearTimeout (singleTapTimeout w) w)\<lparr>doubleTapStartTime := None\<rparr>
      in sbind (target_of event w) (\<lambda>n. Inr (fire_call name h (PTarget n) w)))"

definition triggerHandlerForGesture ::
  "support \<Rightarrow> int \<Rightarrow> ts_opts \<Rightarrow> ts_event option \<Rightarrow> phase \<Rightarrow> gesture \<Rightarrow> swipe \<Rightarrow> (reply \<times> swipe) outcome" where
  "triggerHandlerForGesture c now q event ph g w = (case g of
     SWIPE \<Rightarrow> Inr (gesture_swipe c q ph w)
   | PINCH \<Rightarrow> Inr (gesture_pinch c q ph w)
   | TAP \<Rightarrow> if ph = PHASE_CANCEL \<or> ph = PHASE_END then gesture_tap now q event w else Inr (ROther, w)
   | DOUBLE_TAP \<Rightarrow> if ph = PHASE_CANCEL \<or> ph = PHASE_END
       then gesture_other_tap ''doubletap'' (t_doubleTap q) event w else Inr (ROther, w)
   | LONG_TAP \<Rightarrow> if ph = PHASE_CANCEL \<or> ph = PHASE_END
       then gesture_other_tap ''longtap'' (t_longTap q) event w else Inr (ROther, w))"

definition touchCancel :: "bool \<Rightarrow> swipe \<Rightarrow> swipe" where
  "touchCancel leaves w = setTouchInProgress leaves False (cancelMultiFingerRelease
     (w\<lparr>fingerCount := 0, endTime := 0, startTime := 0, startTouchesDistance := 0, endTouchesDistance := 0,
        pinchZoom := Hundredths 100\<rparr>))"

definition trigger_swipe_or_pinch ::
  "support \<Rightarrow> int \<Rightarrow> ts_opts \<Rightarrow> ts_event option \<Rightarrow> phase \<Rightarrow> swipe \<Rightarrow> (reply \<times> swipe) outcome" where
  "trigger_swipe_or_pinch c now q event ph w =
     (if didSwipe c q w \<or> hasSwipes q then triggerHandlerForGesture c now q event ph SWIPE w
      else if didPinch c q w \<or> hasPinches q then triggerHandlerForGesture c now q event ph PINCH w
      else Inr (ROther, w))"

definition trigger_taps ::
  "support \<Rightarrow> int \<Rightarrow> ts_opts \<Rightarrow> ts_event option \<Rightarrow> phase \<Rightarrow> reply \<times> swipe \<Rightarrow> (reply \<times> swipe) outcome" where
  "trigger_taps c now q event ph rw = (case rw of (ret, w) \<Rightarrow>
     if didDoubleTap now q w \<and> ret \<noteq> RFalse then triggerHandlerForGesture c now q event ph DOUBLE_TAP w
     else if didLongTap q w \<and> ret \<noteq> RFalse then triggerHandlerForGesture c now q event ph LONG_TAP w
     else if didTap c q w \<and> ret \<noteq> RFalse then triggerHandlerForGesture c now q event ph TAP w
     else Inr (ret, w))"

definition trigger_reset ::
  "support \<Rightarrow> bool \<Rightarrow> ts_event option \<Rightarrow> phase \<Rightarrow> reply \<times> swipe \<Rightarrow> (reply \<times> swipe) outcome" where
  "trigger_reset c leaves event ph rw = (case rw of (ret, w) \<Rightarrow>
     if ph = PHASE_CANCEL then Inr (ret, touchCancel leaves w)
     else if ph = PHASE_END then
       if SUPPORTS_TOUCH c then sbind (touches_of event w) (\<lambda>ts. Inr (ret, if ts = [] then touchCancel leaves w else w))
       else Inr (ret, touchCancel leaves w)
     else Inr (ret, w))"

definition triggerHandler ::
  "support \<Rightarrow> bool \<Rightarrow> int \<Rightarrow> ts_opts \<Rightarrow> ts_event option \<Rightarrow> phase \<Rightarrow> swipe \<Rightarrow> (reply \<times> swipe) outcome" where
  "triggerHandler c leaves now q event ph w =
     sbind (sbind (trigger_swipe_or_pinch c now q event ph w) (trigger_taps c now q event ph)) (trigger_reset c leaves event ph)"

section \<open>Touches\<close>

definition getNextPhase :: "ts_opts \<Rightarrow> phase \<Rightarrow> swipe \<Rightarrow> phase" where
  "getNextPhase q currentPhase w =
     (if \<not> validateSwipeTime q w \<or> didSwipeBackToCancel q w then PHASE_CANCEL
      else if validateSwipeDistance q w \<and> currentPhase = PHASE_MOVE \<and> (\<not> t_triggerOnTouchEnd q \<or> t_triggerOnTouchLeave q)
      then PHASE_END
      else if \<not> validateSwipeDistance q w \<and> currentPhase = PHASE_END \<and> t_triggerOnTouchLeave q then PHASE_CANCEL
      else currentPhase)"

definition validateDefaultEvent :: "ts_opts \<Rightarrow> direction \<Rightarrow> bool" where
  "validateDefaultEvent q d =
     (if t_allowPageScroll q = Some NONE \<or> hasPinches q then True
      else let auto = t_allowPageScroll q = Some AUTO
           in (case d of
              LEFT \<Rightarrow> t_swipeLeft q \<noteq> None \<and> auto \<or> \<not> auto \<and> t_allowPageScroll q \<noteq> Some HORIZONTAL
            | RIGHT \<Rightarrow> t_swipeRight q \<noteq> None \<and> auto \<or> \<not> auto \<and> t_allowPageScroll q \<noteq> Some HORIZONTAL
            | UP \<Rightarrow> t_swipeUp q \<noteq> None \<and> auto \<or> \<not> auto \<and> t_allowPageScroll q \<noteq> Some VERTICAL
            | DOWN \<Rightarrow> t_swipeDown q \<noteq> None \<and> auto \<or> \<not> auto \<and> t_allowPageScroll q \<noteq> Some VERTICAL
            | _ \<Rightarrow> False))"

text \<open>The touch that the handlers follow: the first one, or the event itself.\<close>

definition main_touch :: "support \<Rightarrow> ts_event \<Rightarrow> swipe \<Rightarrow> touch outcome" where
  "main_touch c e w =
     (if SUPPORTS_TOUCH c then sbind (touches_of (Some e) w) (\<lambda>ts. touch_at 0 ts w) else Inr (ev_point e))"

definition clear_vars :: "swipe \<Rightarrow> swipe" where
  "clear_vars w = cancelMultiFingerRelease (w\<lparr>distance := 0, direction := None, pinchDirection := None, duration := 0,
     startTouchesDistance := 0, endTouchesDistance := 0, pinchZoom := Hundredths 100, pinchDistance := 0,
     fingerData := createAllFingerData, maximumsMap := createMaximumsData\<rparr>)"

definition second_finger_start :: "ts_event \<Rightarrow> swipe \<Rightarrow> swipe outcome" where
  "second_finger_start e w =
     sbind (touches_of (Some e) w) (\<lambda>ts. sbind (touch_at 1 ts w) (\<lambda>evt. sbind (createFingerData 1 evt w) (\<lambda>w.
       sbind (finger_of 0 w) (\<lambda>f. sbind (finger_of 1 w) (\<lambda>g.
         let d = calculateTouchesDistance (f_start f) (f_start g)
         in Inr (w\<lparr>startTouchesDistance := d, endTouchesDistance := d\<rparr>))))))"

definition start_fingers :: "int \<Rightarrow> ts_event \<Rightarrow> touch outcome \<Rightarrow> swipe \<Rightarrow> swipe outcome" where
  "start_fingers now e evt w =
     sbind (case evt of Inl _ \<Rightarrow> Inl (TypeErr, w) | Inr t \<Rightarrow> Inr t) (\<lambda>t.
       sbind (createFingerData 0 t w) (\<lambda>w.
         let w = w\<lparr>startTime := now\<rparr>
         in if fingerCount w = 2 then second_finger_start e w else Inr w))"

definition start_hold :: "int \<Rightarrow> ts_opts \<Rightarrow> nat \<Rightarrow> swipe \<Rightarrow> swipe" where
  "start_hold now q n w =
     (if t_hold q = None then w
      else let (i, w) = ts_setTimeout (WHold n) (now + t_longTapThreshold q) w in w\<lparr>holdTimeout := Some i\<rparr>)"

text \<open>The end of \<open>touchStart\<close>: a handler that returns \<open>false\<close>, or a wrong number of fingers, cancels the gesture.\<close>

definition finish_start ::
  "support \<Rightarrow> bool \<Rightarrow> int \<Rightarrow> ts_opts \<Rightarrow> ts_event \<Rightarrow> reply \<times> swipe \<Rightarrow> (reply \<times> swipe) outcome" where
  "finish_start c leaves now q e rw = (case rw of (ret, w) \<Rightarrow>
     if ret = RFalse then
       sbind (triggerHandler c leaves now q (Some e) PHASE_CANCEL (w\<lparr>phase := PHASE_CANCEL\<rparr>)) (\<lambda>(_, w). Inr (RFalse, w))
     else Inr (ROther, setTouchInProgress leaves True (start_hold now q (ev_target e) w)))"

definition start_gesture ::
  "support \<Rightarrow> bool \<Rightarrow> int \<Rightarrow> ts_opts \<Rightarrow> ts_event \<Rightarrow> touch outcome \<Rightarrow> swipe \<Rightarrow> (reply \<times> swipe) outcome" where
  "start_gesture c leaves now q e evt w =
     (if \<not> SUPPORTS_TOUCH c \<or> t_fingers q = Some (int (fingerCount w)) \<or> t_fingers q = None \<or> hasPinches q
      then sbind (start_fingers now e evt w) (\<lambda>w.
             if t_swipeStatus q \<noteq> None \<or> t_pinchStatus q \<noteq> None
             then triggerHandler c leaves now q (Some e) PHASE_START w
             else Inr (ROther, w))
      else Inr (RFalse, w))"

text \<open>
  Reading the first touch of an event without a list of touches raises an error at once; the first touch of an empty
  list is \<open>undefined\<close>, which is an error only when it is used.
\<close>

definition touchStart ::
  "support \<Rightarrow> bool \<Rightarrow> int \<Rightarrow> ts_opts \<Rightarrow> jq_event \<Rightarrow> swipe \<Rightarrow> (reply \<times> swipe) outcome" where
  "touchStart c leaves now q j w =
     (if getTouchInProgress w then Inr (ROther, w)
      else if jq_excluded j then Inr (ROther, w)
      else let e = event_of j in
        sbind (if SUPPORTS_TOUCH c then touches_of (Some e) w else Inr []) (\<lambda>ts.
          let evt = main_touch c e w;
              w = w\<lparr>phase := PHASE_START\<rparr>;
              w = (if SUPPORTS_TOUCH c then w\<lparr>fingerCount := length ts\<rparr> else out Prevented w)
          in sbind (start_gesture c leaves now q e evt (clear_vars w)) (finish_start c leaves now q e)))"

definition move_pinch :: "ts_event \<Rightarrow> swipe \<Rightarrow> swipe outcome" where
  "move_pinch e w =
     (if fingerCount w = 2 then
        sbind (if startTouchesDistance w = 0 then second_finger_start e w
               else sbind (touches_of (Some e) w) (\<lambda>ts. sbind (touch_at 1 ts w) (\<lambda>evt.
                 sbind (updateFingerData evt w) (\<lambda>(_, w). sbind (finger_of 0 w) (\<lambda>f. sbind (finger_of 1 w) (\<lambda>g.
                   let w = w\<lparr>endTouchesDistance := calculateTouchesDistance (f_end f) (f_end g)\<rparr>
                   in Inr (w\<lparr>pinchDirection := Some (calculatePinchDirection w)\<rparr>)))))))
          (\<lambda>w. Inr (w\<lparr>pinchZoom := calculatePinchZoom (startTouchesDistance w) (endTouchesDistance w),
             pinchDistance := \<bar>startTouchesDistance w - endTouchesDistance w\<bar>\<rparr>))
      else Inr w)"

definition move_fingers :: "support \<Rightarrow> int \<Rightarrow> ts_opts \<Rightarrow> ts_event \<Rightarrow> swipe \<Rightarrow> (nat \<times> swipe) outcome" where
  "move_fingers c now q e w =
     sbind (main_touch c e w) (\<lambda>evt. sbind (updateFingerData evt w) (\<lambda>(i, w).
       let w = w\<lparr>endTime := now\<rparr> in
       sbind (if SUPPORTS_TOUCH c then sbind (touches_of (Some e) w) (\<lambda>ts. Inr (w\<lparr>fingerCount := length ts\<rparr>)) else Inr w) (\<lambda>w.
         let w = (if t_hold q \<noteq> None then ts_clearTimeout (holdTimeout w) w else w);
             w = w\<lparr>phase := PHASE_MOVE\<rparr>
         in sbind (move_pinch e w) (\<lambda>w. Inr (i, w)))))"

definition move_measure :: "ts_opts \<Rightarrow> nat \<Rightarrow> swipe \<Rightarrow> swipe outcome" where
  "move_measure q i w =
     (let f = fingerData w ! i;
          w = w\<lparr>direction := Some (calculateDirection (f_start f) (f_end f))\<rparr>;
          d = the (direction w);
          w = (if validateDefaultEvent q d then out Prevented w else w);
          w = w\<lparr>distance := calculateDistance (f_start f) (f_end f)\<rparr>;
          w = w\<lparr>duration := calculateDuration w\<rparr>
      in setMaxDistance d (distance w) w)"

definition move_bounds ::
  "support \<Rightarrow> bool \<Rightarrow> int \<Rightarrow> ts_opts \<Rightarrow> jq_event \<Rightarrow> nat \<Rightarrow> swipe \<Rightarrow> swipe outcome" where
  "move_bounds c leaves now q j i w =
     (if \<not> t_triggerOnTouchEnd q \<or> t_triggerOnTouchLeave q then
        let inBounds = (if t_triggerOnTouchLeave q
              then isInBounds (f_end (fingerData w ! i)) (getbounds (jq_offset j) (jq_size j)) else True);
            w = (if \<not> t_triggerOnTouchEnd q \<and> inBounds then w\<lparr>phase := getNextPhase q PHASE_MOVE w\<rparr>
                 else if t_triggerOnTouchLeave q \<and> \<not> inBounds then w\<lparr>phase := getNextPhase q PHASE_END w\<rparr>
                 else w)
        in if phase w = PHASE_CANCEL \<or> phase w = PHASE_END
           then sbind (triggerHandler c leaves now q (Some (event_of j)) (phase w) w) (\<lambda>(_, w). Inr w)
           else Inr w
      else Inr w)"

definition cancel_now :: "support \<Rightarrow> bool \<Rightarrow> int \<Rightarrow> ts_opts \<Rightarrow> ts_event option \<Rightarrow> swipe \<Rightarrow> swipe outcome" where
  "cancel_now c leaves now q event w =
     sbind (triggerHandler c leaves now q event PHASE_CANCEL (w\<lparr>phase := PHASE_CANCEL\<rparr>)) (\<lambda>(_, w). Inr w)"

definition move_handlers ::
  "support \<Rightarrow> bool \<Rightarrow> int \<Rightarrow> ts_opts \<Rightarrow> jq_event \<Rightarrow> nat \<Rightarrow> swipe \<Rightarrow> (reply \<times> swipe) outcome" where
  "move_handlers c leaves now q j i w =
     sbind (if t_swipeStatus q \<noteq> None \<or> t_pinchStatus q \<noteq> None
            then triggerHandler c leaves now q (Some (event_of j)) (phase w) w else Inr (ROther, w))
       (\<lambda>(ret, w). sbind (move_bounds c leaves now q j i w) (\<lambda>w. Inr (ret, w)))"

definition move_gesture ::
  "support \<Rightarrow> bool \<Rightarrow> int \<Rightarrow> ts_opts \<Rightarrow> jq_event \<Rightarrow> nat \<times> swipe \<Rightarrow> (reply \<times> swipe) outcome" where
  "move_gesture c leaves now q j iw = (case iw of (i, w) \<Rightarrow>
     if t_fingers q = Some (int (fingerCount w)) \<or> t_fingers q = None \<or> \<not> SUPPORTS_TOUCH c \<or> hasPinches q then
       sbind (move_measure q i w) (move_handlers c leaves now q j i)
     else sbind (cancel_now c leaves now q (Some (event_of j)) w) (\<lambda>w. Inr (ROther, w)))"

definition touchMove ::
  "support \<Rightarrow> bool \<Rightarrow> int \<Rightarrow> ts_opts \<Rightarrow> jq_event \<Rightarrow> swipe \<Rightarrow> swipe outcome" where
  "touchMove c leaves now q j w =
     (if phase w = PHASE_END \<or> phase w = PHASE_CANCEL \<or> inMultiFingerRelease now q w then Inr w
      else sbind (sbind (move_fingers c now q (event_of j) w) (move_gesture c leaves now q j))
        (\<lambda>(ret, w). if ret = RFalse then cancel_now c leaves now q (Some (event_of j)) w else Inr w))"

definition end_gesture ::
  "support \<Rightarrow> bool \<Rightarrow> int \<Rightarrow> ts_opts \<Rightarrow> ts_event option \<Rightarrow> swipe \<Rightarrow> swipe outcome" where
  "end_gesture c leaves now q event w =
     (if didSwipeBackToCancel q w \<or> \<not> validateSwipeDistance q w then cancel_now c leaves now q event w
      else if t_triggerOnTouchEnd q \<or> \<not> t_triggerOnTouchEnd q \<and> phase w = PHASE_MOVE then
        sbind (triggerHandler c leaves now q event PHASE_END ((out Prevented w)\<lparr>phase := PHASE_END\<rparr>)) (\<lambda>(_, w). Inr w)
      else if \<not> t_triggerOnTouchEnd q \<and> hasTap q then
        sbind (triggerHandlerForGesture c now q event PHASE_END TAP (w\<lparr>phase := PHASE_END\<rparr>)) (\<lambda>(_, w). Inr w)
      else if phase w = PHASE_MOVE then cancel_now c leaves now q event w
      else Inr w)"

definition touchEnd ::
  "support \<Rightarrow> bool \<Rightarrow> int \<Rightarrow> ts_opts \<Rightarrow> jq_event \<Rightarrow> swipe \<Rightarrow> swipe outcome" where
  "touchEnd c leaves now q j w =
     (let event = jq_original j in
      sbind (if SUPPORTS_TOUCH c then touches_of event w else Inr []) (\<lambda>ts.
        if ts \<noteq> [] then startMultiFingerRelease now (if jq_global j then Some (length ts) else None) w
        else let w = (if inMultiFingerRelease now q w then w\<lparr>fingerCount := previousTouchFingerCount w\<rparr> else w);
                 w = w\<lparr>endTime := now\<rparr>;
                 w = w\<lparr>duration := calculateDuration w\<rparr>
             in sbind (end_gesture c leaves now q event w) (\<lambda>w. Inr (setTouchInProgress leaves False w))))"

definition touchLeave ::
  "support \<Rightarrow> bool \<Rightarrow> int \<Rightarrow> ts_opts \<Rightarrow> jq_event \<Rightarrow> swipe \<Rightarrow> swipe outcome" where
  "touchLeave c leaves now q j w =
     (if t_triggerOnTouchLeave q then
        let w = w\<lparr>phase := getNextPhase q PHASE_END w\<rparr>
        in sbind (triggerHandler c leaves now q (jq_original j) (phase w) w) (\<lambda>(_, w). Inr w)
      else Inr w)"

section \<open>Timeouts and dispatch\<close>

definition run_waiting :: "ts_opts \<Rightarrow> waiting \<Rightarrow> swipe \<Rightarrow> swipe outcome" where
  "run_waiting q a w = (case a of
     WHold n \<Rightarrow> Inr (snd (fire_call ''hold'' (t_hold q) (PTarget n) w))
   | WSingleTap None \<Rightarrow> Inl (TypeErr, w\<lparr>doubleTapStartTime := None\<rparr>)
   | WSingleTap (Some n) \<Rightarrow> Inr (snd (fire_call ''tap'' (t_tap q) (PTarget n) (w\<lparr>doubleTapStartTime := None\<rparr>))))"

definition ts_fire :: "ts_opts \<Rightarrow> int \<Rightarrow> nat \<Rightarrow> swipe \<Rightarrow> swipe outcome" where
  "ts_fire q now i w = (case filter (\<lambda>t. to_id t = i \<and> to_due t \<le> now) (timeouts w) of
     [] \<Rightarrow> Inr w
   | t # _ \<Rightarrow> run_waiting q (to_what t) (ts_clearTimeout (Some i) w))"

text \<open>An event of the browser runs a handler as often as it is bound; a handler that returns \<open>false\<close> prevents the default.\<close>

fun dispatch :: "nat \<Rightarrow> (swipe \<Rightarrow> (reply \<times> swipe) outcome) \<Rightarrow> swipe \<Rightarrow> swipe outcome" where
  "dispatch 0 h w = Inr w"
| "dispatch (Suc n) h w = sbind (h w) (\<lambda>(ret, w). dispatch n h (if ret = RFalse then out Prevented w else w))"

datatype ts_input = InStart jq_event | InMove jq_event | InEnd jq_event | InLeave jq_event | InCancel | InTimeout nat

definition quiet :: "swipe outcome \<Rightarrow> (reply \<times> swipe) outcome" where
  "quiet r = sbind r (\<lambda>w. Inr (ROther, w))"

definition ts_step :: "support \<Rightarrow> bool \<Rightarrow> ts_opts \<Rightarrow> int \<Rightarrow> ts_input \<Rightarrow> swipe \<Rightarrow> swipe outcome" where
  "ts_step c leaves q now a w = (case a of
     InStart j \<Rightarrow> dispatch (b_start w) (touchStart c leaves now q j) w
   | InMove j \<Rightarrow> dispatch (b_move w) (\<lambda>w. quiet (touchMove c leaves now q j w)) w
   | InEnd j \<Rightarrow> dispatch (b_end w) (\<lambda>w. quiet (touchEnd c leaves now q j w)) w
   | InLeave j \<Rightarrow> dispatch (b_leave w) (\<lambda>w. quiet (touchLeave c leaves now q j w)) w
   | InCancel \<Rightarrow> dispatch (b_cancel w) (\<lambda>w. Inr (ROther, touchCancel leaves w)) w
   | InTimeout i \<Rightarrow> ts_fire q now i w)"

definition new_swipe :: swipe where
  "new_swipe = \<lparr>distance = 0, direction = None, duration = 0, startTouchesDistance = 0, endTouchesDistance = 0,
     pinchZoom = Hundredths 100, pinchDistance = 0, pinchDirection = None, maximumsMap = [], phase = PHASE_START,
     fingerCount = 0, fingerData = [], startTime = 0, endTime = 0, previousTouchEndTime = 0, previousTouchFingerCount = 0,
     doubleTapStartTime = Some 0, singleTapTimeout = None, holdTimeout = None, b_start = 1, b_cancel = 1, b_move = 0,
     b_end = 0, b_leave = 0, intouch = False, timeouts = [], next_id = 1, ts_log = []\<rparr>"

definition ts_enable :: "swipe \<Rightarrow> swipe" where
  "ts_enable w = w\<lparr>b_start := Suc (b_start w), b_cancel := Suc (b_cancel w)\<rparr>"

definition ts_disable :: "bool \<Rightarrow> swipe \<Rightarrow> swipe" where
  "ts_disable leaves w = removeListeners leaves w"

end
