(* ===== verification/TsPage.thy ===== *)
theory TsPage
  imports TsFlow
begin

text \<open>
  The plugin \<open>$.fn.swipe\<close> of \<open>src/src/qt/res/js/jquery.touchSwipe.js\<close>: options by name, the creation of an instance for
  each element, and the methods that are called by name. All elements of one call share one object of options, which
  therefore has an address here.
\<close>

section \<open>Options by name\<close>

datatype oval = is_undef: OUndef | ONull | ONum int | OBool bool | OStr string | OFun handler

type_synonym settings = "string \<Rightarrow> oval"

definition defaults :: settings where
  "defaults = (\<lambda>_. OUndef)(''fingers'' := ONum 1, ''threshold'' := ONum 75, ''cancelThreshold'' := ONull,
     ''pinchThreshold'' := ONum 20, ''maxTimeThreshold'' := ONull, ''fingerReleaseThreshold'' := ONum 250,
     ''longTapThreshold'' := ONum 500, ''doubleTapThreshold'' := ONum 200, ''swipe'' := ONull, ''swipeLeft'' := ONull,
     ''swipeRight'' := ONull, ''swipeUp'' := ONull, ''swipeDown'' := ONull, ''swipeStatus'' := ONull, ''pinchIn'' := ONull,
     ''pinchOut'' := ONull, ''pinchStatus'' := ONull, ''click'' := ONull, ''tap'' := ONull, ''doubleTap'' := ONull,
     ''longTap'' := ONull, ''hold'' := ONull, ''triggerOnTouchEnd'' := OBool True, ''triggerOnTouchLeave'' := OBool False,
     ''allowPageScroll'' := OStr ''auto'', ''fallbackToMouseEvents'' := OBool True,
     ''excludedElements'' := OStr ''label, button, input, select, textarea, a, .noSwipe'')"

text \<open>\<open>$.extend ({}, m, m')\<close>: values that are undefined are left out.\<close>

definition extend_opts :: "settings \<Rightarrow> settings \<Rightarrow> settings" where
  "extend_opts m m' = (\<lambda>k. if \<not> is_undef (m' k) then m' k else m k)"

text \<open>
  The options as the handlers read them, for values of the documented types: a number or \<open>null\<close>, a function or \<open>null\<close>, a
  boolean, a text. A number of fingers that is neither a number nor \<open>"all"\<close> equals no number of fingers.
\<close>

definition num_opt :: "oval \<Rightarrow> int option" where
  "num_opt v = (case v of ONum n \<Rightarrow> Some n | _ \<Rightarrow> None)"

definition fun_opt :: "oval \<Rightarrow> handler option" where
  "fun_opt v = (case v of OFun f \<Rightarrow> Some f | _ \<Rightarrow> None)"

definition flag_opt :: "oval \<Rightarrow> bool" where
  "flag_opt v = (case v of OBool b \<Rightarrow> b | ONum n \<Rightarrow> n \<noteq> 0 | OStr s \<Rightarrow> s \<noteq> [] | OFun _ \<Rightarrow> True | _ \<Rightarrow> False)"

definition fingers_opt :: "oval \<Rightarrow> int option" where
  "fingers_opt v = (case v of ONum n \<Rightarrow> Some n | OStr s \<Rightarrow> if s = ''all'' then None else Some (- 1) | _ \<Rightarrow> Some (- 1))"

definition scroll_opt :: "oval \<Rightarrow> page_scroll option" where
  "scroll_opt v = (case v of OStr s \<Rightarrow>
       if s = ''none'' then Some NONE else if s = ''auto'' then Some AUTO else if s = ''horizontal'' then Some HORIZONTAL
       else if s = ''vertical'' then Some VERTICAL else None
     | _ \<Rightarrow> None)"

definition read_opts :: "settings \<Rightarrow> ts_opts" where
  "read_opts m = \<lparr>t_fingers = fingers_opt (m ''fingers''), t_threshold = num_opt (m ''threshold''),
     t_cancelThreshold = num_opt (m ''cancelThreshold''), t_pinchThreshold = num_opt (m ''pinchThreshold''),
     t_maxTimeThreshold = num_opt (m ''maxTimeThreshold''),
     t_fingerReleaseThreshold = (case num_opt (m ''fingerReleaseThreshold'') of Some n \<Rightarrow> n | None \<Rightarrow> 0),
     t_longTapThreshold = (case num_opt (m ''longTapThreshold'') of Some n \<Rightarrow> n | None \<Rightarrow> 0),
     t_doubleTapThreshold = (case num_opt (m ''doubleTapThreshold'') of Some n \<Rightarrow> n | None \<Rightarrow> 0),
     t_swipe = fun_opt (m ''swipe''), t_swipeLeft = fun_opt (m ''swipeLeft''), t_swipeRight = fun_opt (m ''swipeRight''),
     t_swipeUp = fun_opt (m ''swipeUp''), t_swipeDown = fun_opt (m ''swipeDown''),
     t_swipeStatus = fun_opt (m ''swipeStatus''), t_pinchIn = fun_opt (m ''pinchIn''), t_pinchOut = fun_opt (m ''pinchOut''),
     t_pinchStatus = fun_opt (m ''pinchStatus''), t_tap = fun_opt (m ''tap''), t_doubleTap = fun_opt (m ''doubleTap''),
     t_longTap = fun_opt (m ''longTap''), t_hold = fun_opt (m ''hold''),
     t_triggerOnTouchEnd = flag_opt (m ''triggerOnTouchEnd''), t_triggerOnTouchLeave = flag_opt (m ''triggerOnTouchLeave''),
     t_allowPageScroll = scroll_opt (m ''allowPageScroll''), t_fallbackToMouseEvents = flag_opt (m ''fallbackToMouseEvents''),
     t_excludedElements = (case m ''excludedElements'' of OStr s \<Rightarrow> s | _ \<Rightarrow> [])\<rparr>"

section \<open>Instances\<close>

record ts_instance =
  in_node :: nat
  in_opts :: nat
  in_leaves :: bool
  in_state :: swipe

text \<open>
  \<open>pg_data\<close> is the data \<open>TouchSwipe\<close> of the nodes, an index into \<open>pg_instances\<close>. An instance that was destroyed is no
  longer the data of a node; its timeouts go on.
\<close>

record ts_page =
  pg_data :: "nat \<Rightarrow> nat option"
  pg_instances :: "ts_instance list"
  pg_options :: "settings list"

definition TouchSwipe :: "support \<Rightarrow> nat \<Rightarrow> nat \<Rightarrow> ts_page \<Rightarrow> ts_page" where
  "TouchSwipe c n a p =
     (let q = read_opts (pg_options p ! a)
      in p\<lparr>pg_instances := pg_instances p @
             [\<lparr>in_node = n, in_opts = a, in_leaves = LEAVE_EV c q \<noteq> None, in_state = new_swipe\<rparr>],
           pg_data := (pg_data p)(n := Some (length (pg_instances p)))\<rparr>)"

text \<open>The options that are given, with the changes that \<open>init\<close> makes to that object; without options it raises an error.\<close>

definition init_given :: "settings option \<Rightarrow> jserr + settings" where
  "init_given given = (case given of
     None \<Rightarrow> Inl TypeErr
   | Some m \<Rightarrow>
       let m = (if is_undef (m ''allowPageScroll'') \<and> (\<not> is_undef (m ''swipe'') \<or> \<not> is_undef (m ''swipeStatus''))
                then m(''allowPageScroll'' := OStr ''none'') else m)
       in Inr (if \<not> is_undef (m ''click'') \<and> is_undef (m ''tap'') then m(''tap'' := m ''click'') else m))"

fun init_each :: "support \<Rightarrow> nat \<Rightarrow> nat list \<Rightarrow> ts_page \<Rightarrow> ts_page" where
  "init_each c a [] p = p"
| "init_each c a (n # ns) p = init_each c a ns (if pg_data p n = None then TouchSwipe c n a p else p)"

definition ts_init :: "support \<Rightarrow> nat list \<Rightarrow> settings option \<Rightarrow> ts_page \<Rightarrow> jserr + ts_page" where
  "ts_init c ns given p = sbind (init_given given) (\<lambda>m.
     Inr (init_each c (length (pg_options p)) ns (p\<lparr>pg_options := pg_options p @ [extend_opts defaults m]\<rparr>)))"

section \<open>Methods\<close>

datatype ts_method = CallNothing | CallWith settings | CallName string "oval list"

text \<open>What a call returns: the jQuery object, the element of the instance or the value of an option.\<close>

datatype ts_return = RetThis | RetElement nat | RetValue oval

definition on_instance :: "nat \<Rightarrow> (swipe \<Rightarrow> swipe) \<Rightarrow> ts_page \<Rightarrow> ts_page" where
  "on_instance i f p = p\<lparr>pg_instances := (pg_instances p)[i := (pg_instances p ! i)\<lparr>in_state := f (in_state (pg_instances p ! i))\<rparr>]\<rparr>"

definition ts_option :: "string \<Rightarrow> oval \<Rightarrow> settings \<Rightarrow> jserr + (oval \<times> settings)" where
  "ts_option property val m =
     (if \<not> is_undef (m property) then
        if is_undef val then Inr (m property, m) else Inr (ONull, m(property := val))
      else Inl (Thrown (''Option '' @ property @ '' does not exist on jQuery.swipe.options'')))"

definition arg_at :: "nat \<Rightarrow> oval list \<Rightarrow> oval" where
  "arg_at i args = (if i < length args then args ! i else OUndef)"

text \<open>The name of an option, which is a text; without an argument it is \<open>undefined\<close>.\<close>

definition prop_name :: "oval \<Rightarrow> string" where
  "prop_name v = (case v of OStr s \<Rightarrow> s | _ \<Rightarrow> ''undefined'')"

text \<open>
  The four methods of an instance; the names of the properties that every object inherits are not methods here.
\<close>

definition call_method :: "nat \<Rightarrow> string \<Rightarrow> oval list \<Rightarrow> ts_page \<Rightarrow> jserr + (ts_return \<times> ts_page)" where
  "call_method i name args p =
     (let s = pg_instances p ! i in
      if name = ''enable'' then Inr (RetElement (in_node s), on_instance i ts_enable p)
      else if name = ''disable'' then Inr (RetElement (in_node s), on_instance i (ts_disable (in_leaves s)) p)
      else if name = ''destroy'' then
        Inr (RetElement (in_node s),
             (on_instance i (removeListeners (in_leaves s)) p)\<lparr>pg_data := (pg_data p)(in_node s := None)\<rparr>)
      else if name = ''option'' then
        sbind (ts_option (prop_name (arg_at 0 args)) (arg_at 1 args) (pg_options p ! in_opts s))
          (\<lambda>(v, m). Inr (RetValue v, p\<lparr>pg_options := (pg_options p)[in_opts s := m]\<rparr>))
      else Inl (Thrown (''Method '' @ name @ '' does not exist on jQuery.swipe'')))"

text \<open>The plugin called on a list of nodes: the data are those of the first one.\<close>

definition fn_swipe :: "support \<Rightarrow> nat list \<Rightarrow> ts_method \<Rightarrow> ts_page \<Rightarrow> jserr + (ts_return \<times> ts_page)" where
  "fn_swipe c ns method p =
     (let plugin = (case ns of n # _ \<Rightarrow> pg_data p n | [] \<Rightarrow> None)
      in case (plugin, method) of
           (Some i, CallName name args) \<Rightarrow> call_method i name args p
         | (None, CallName name args) \<Rightarrow>
             if name = [] then sbind (ts_init c ns (Some (\<lambda>_. OUndef)) p) (\<lambda>p. Inr (RetThis, p)) else Inr (RetThis, p)
         | (None, CallWith m) \<Rightarrow> sbind (ts_init c ns (Some m) p) (\<lambda>p. Inr (RetThis, p))
         | (None, CallNothing) \<Rightarrow> sbind (ts_init c ns None p) (\<lambda>p. Inr (RetThis, p))
         | (Some _, _) \<Rightarrow> Inr (RetThis, p))"

text \<open>An event or a timeout of an instance, with the options as they are at that time.\<close>

definition page_step :: "support \<Rightarrow> int \<Rightarrow> nat \<Rightarrow> ts_input \<Rightarrow> ts_page \<Rightarrow> (jserr \<times> ts_page) + ts_page" where
  "page_step c now i a p =
     (let s = pg_instances p ! i
      in case ts_step c (in_leaves s) (read_opts (pg_options p ! in_opts s)) now a (in_state s) of
           Inl (err, w) \<Rightarrow> Inl (err, on_instance i (\<lambda>_. w) p)
         | Inr w \<Rightarrow> Inr (on_instance i (\<lambda>_. w) p))"

end
