(* ===== verification/TsMath.thy ===== *)
theory TsMath
  imports TsPage
begin

text \<open>
  The arithmetic of touch gestures: the integer square root that the distances use, and the directions, which the code
  computes from rounded angles.
\<close>

section \<open>Distances\<close>

lemma isqrt_spec: "0 \<le> n \<Longrightarrow> 0 \<le> isqrt n \<and> isqrt n * isqrt n \<le> n \<and> n < (isqrt n + 1) * (isqrt n + 1)"
proof (induction n rule: isqrt.induct)
  case (1 n)
  show ?case
  proof (cases "n = 0")
    case True
    then show ?thesis by (simp add: isqrt.simps)
  next
    case False
    then have n: "0 < n" using 1(2) by simp
    define q r where "q = isqrt (n div 4)" and "r = 2 * q"
    have q: "0 \<le> q" "q * q \<le> n div 4" "n div 4 < (q + 1) * (q + 1)" using 1(1) n by (auto simp: q_def)
    have m: "n = 4 * (n div 4) + n mod 4" "0 \<le> n mod 4" "n mod 4 < 4" by simp_all
    have lo: "r * r \<le> n" using q(2) m by (simp add: r_def)
    have "n div 4 + 1 \<le> (q + 1) * (q + 1)" using q(3) by simp
    then have "n < 4 * ((q + 1) * (q + 1))" using m by linarith
    then have hi: "n < (r + 2) * (r + 2)" by (simp add: r_def algebra_simps)
    have e: "isqrt n = (if (r + 1) * (r + 1) \<le> n then r + 1 else r)"
      using n by (subst isqrt.simps) (simp add: Let_def r_def q_def)
    show ?thesis using lo hi q(1) e by (auto simp: r_def not_le algebra_simps)
  qed
qed

lemma round_root_nonneg [simp]: "0 \<le> n \<Longrightarrow> 0 \<le> round_root n"
  using isqrt_spec [of n] by (simp add: round_root_def Let_def)

lemma round_root_real:
  assumes "0 \<le> n"
  shows "round_root n = round (sqrt (of_int n))"
proof -
  define r where "r = isqrt n"
  have r: "0 \<le> r" "r * r \<le> n" "n < (r + 1) * (r + 1)" using isqrt_spec [OF assms] by (simp_all add: r_def)
  have sq: "sqrt (of_int n) * sqrt (of_int n) = (of_int n :: real)" using assms by simp
  have pos: "0 \<le> sqrt (of_int n :: real)" using assms by simp
  have low: "of_int r \<le> sqrt (of_int n :: real)"
    using r(1,2) by (intro real_le_rsqrt) (metis of_int_le_iff of_int_mult power2_eq_square)
  have "of_int n < (of_int (r + 1) :: real) * of_int (r + 1)" using r(3) by (metis of_int_less_iff of_int_mult)
  then have high: "sqrt (of_int n :: real) < of_int (r + 1)"
    using r(1) by (intro real_less_lsqrt) (simp_all add: power2_eq_square)
  show ?thesis
  proof (cases "r * r + r < n")
    case True
    then have "of_int (r * r + r + 1) \<le> (of_int n :: real)" by (metis add1_zle_eq of_int_le_iff)
    then have "(of_int r + 1 / 2) * (of_int r + 1 / 2) \<le> (of_int n :: real)" by (simp add: algebra_simps)
    then have "of_int r + 1 / 2 \<le> sqrt (of_int n :: real)" by (intro real_le_rsqrt) (simp add: power2_eq_square)
    then have "round (sqrt (of_int n :: real)) = r + 1"
      using high by (intro round_unique) simp_all
    then show ?thesis using True by (simp add: round_root_def r_def Let_def)
  next
    case False
    then have "of_int n \<le> (of_int r * of_int r + of_int r :: real)"
      by (metis not_less of_int_add of_int_le_iff of_int_mult)
    then have "of_int n < (of_int r + 1 / 2 :: real) ^ 2" by (simp add: power2_eq_square algebra_simps)
    then have "sqrt (of_int n :: real) < of_int r + 1 / 2" using r(1) by (intro real_less_lsqrt) simp_all
    then have "round (sqrt (of_int n :: real)) = r"
      using low by (intro round_unique) simp_all
    then show ?thesis using False by (simp add: round_root_def r_def Let_def)
  qed
qed

lemma calculateDistance_nonneg [simp]: "0 \<le> calculateDistance p q"
  by (simp add: calculateDistance_def)

lemma calculateDistance_real:
  "calculateDistance p q = round (sqrt ((of_int (px q) - of_int (px p))\<^sup>2 + (of_int (py q) - of_int (py p))\<^sup>2))"
  by (simp add: calculateDistance_def round_root_real)

section \<open>Directions\<close>

lemma tan_half_degree: "pi / 360 < arctan (3 / 203)"
proof -
  have p: "pi < 4" "0 < pi" using pi_less_4 by simp_all
  define t where "t = pi / 360"
  have t: "0 < t" "t < 1 / 90" "t < pi / 2" using p by (simp_all add: t_def)
  have s: "sin t \<le> t" "0 < sin t" using t by (auto intro: sin_x_le_x sin_gt_zero2)
  have "(sin t)\<^sup>2 < (1 / 90)\<^sup>2" using s t by (intro power_strict_mono) auto
  then have "(cos t)\<^sup>2 > 1 - (1 / 90)\<^sup>2" using sin_cos_squared_add [of t] by linarith
  then have "(9 / 10)\<^sup>2 < (cos t)\<^sup>2" by (simp add: power2_eq_square)
  moreover have "0 < cos t" using t by (intro cos_gt_zero) auto
  ultimately have c: "9 / 10 < cos t" using power2_less_imp_less [of "9 / 10" "cos t"] by simp
  have "sin t < 1 / 90" using s t by linarith
  moreover have "(9 / 10) * (3 / 203) < cos t * (3 / 203)" using c by simp
  ultimately have "sin t < cos t * (3 / 203)" by linarith
  then have "tan t < 3 / 203" using c by (simp add: tan_def field_simps)
  moreover have "arctan (tan t) = t" using t by (intro arctan_tan) auto
  ultimately show ?thesis using arctan_monotone [of "tan t" "3 / 203"] by (simp add: t_def)
qed

lemma arctan_steep: "pi / 4 + pi / 360 < arctan (103 / 100)"
proof -
  have "arctan 1 + arctan (3 / 203) = arctan ((1 + 3 / 203) / (1 - 1 * (3 / 203)))" by (rule arctan_add) simp_all
  then show ?thesis using tan_half_degree by (simp add: arctan_one)
qed

lemma arctan_flat: "\<bar>z\<bar> \<le> 1 \<Longrightarrow> \<bar>arctan z\<bar> \<le> pi / 4"
  using arctan_le_iff [of z 1] arctan_le_iff [of "- 1" z] by (simp add: arctan_one arctan_minus abs_le_iff)

lemma arctan_tilted: "103 / 100 \<le> z \<Longrightarrow> pi / 4 + pi / 360 < arctan z"
  using arctan_le_iff [of "103 / 100" z] arctan_steep by simp

text \<open>Rounding an angle in degrees.\<close>

lemma round_between: "of_int a - 1 / 2 \<le> x \<Longrightarrow> x < of_int b + 1 / 2 \<Longrightarrow> a \<le> round x \<and> round x \<le> b" for x :: real
  by (simp add: round_def le_floor_iff floor_le_iff)

lemma degrees_le: "r \<le> k * pi / 180 \<longleftrightarrow> r * 180 / pi \<le> k" "k * pi / 180 \<le> r \<longleftrightarrow> k \<le> r * 180 / pi"
  "r < k * pi / 180 \<longleftrightarrow> r * 180 / pi < k" "k * pi / 180 < r \<longleftrightarrow> k < r * 180 / pi" for r k :: real
  by (simp_all add: field_simps)

lemma angle_range:
  assumes "(of_int a - 1 / 2) * pi / 180 \<le> js_atan2 (of_int (py q - py p)) (of_int (px p - px q))"
    and "js_atan2 (of_int (py q - py p)) (of_int (px p - px q)) < (of_int b + 1 / 2) * pi / 180"
  shows "\<exists>k. a \<le> k \<and> k \<le> b \<and> calculateAngle p q = (if k < 0 then 360 + k else k)"
proof -
  let ?r = "js_atan2 (of_int (py q - py p)) (of_int (px p - px q)) * 180 / pi"
  have "a \<le> round ?r \<and> round ?r \<le> b" using assms by (intro round_between) (simp_all only: degrees_le)
  then show ?thesis by (intro exI [of _ "round ?r"]) (simp add: calculateAngle_def Let_def)
qed

lemma direction_left:
  assumes "\<bar>py q - py p\<bar> \<le> px p - px q"
  shows "calculateDirection p q = LEFT"
proof (cases "px p - px q = 0")
  case True
  then have "calculateAngle p q = 0" using assms by (simp add: calculateAngle_def js_atan2_def)
  then show ?thesis by (simp add: calculateDirection_def)
next
  case False
  define x y :: real where "x = of_int (px p - px q)" and "y = of_int (py q - py p)"
  have "\<bar>y\<bar> \<le> x" using assms by (simp only: x_def y_def of_int_abs [symmetric] of_int_le_iff)
  moreover have "x \<noteq> 0" using False by (simp only: x_def of_int_eq_0_iff) simp
  ultimately have x: "0 < x" "\<bar>y / x\<bar> \<le> 1" by auto
  have "\<bar>js_atan2 y x\<bar> \<le> pi / 4" using x arctan_flat [of "y / x"] by (simp add: js_atan2_def)
  then have b: "- (pi / 4) \<le> js_atan2 y x" "js_atan2 y x \<le> pi / 4" by auto
  have l: "(of_int (- 45) - 1 / 2) * pi / 180 \<le> js_atan2 y x" using b(1) pi_gt_zero by (simp add: field_simps del: pi_gt_zero)
  have u: "js_atan2 y x < (of_int 45 + 1 / 2) * pi / 180" using b(2) pi_gt_zero by (simp add: field_simps del: pi_gt_zero)
  from angle_range [OF l [unfolded x_def y_def] u [unfolded x_def y_def]]
  show ?thesis by (auto simp: calculateDirection_def Let_def split: if_splits)
qed

lemma direction_right:
  assumes "\<bar>py q - py p\<bar> \<le> px q - px p" and "px p \<noteq> px q"
  shows "calculateDirection p q = RIGHT"
proof -
  define x y :: real where "x = of_int (px p - px q)" and "y = of_int (py q - py p)"
  have "\<bar>y\<bar> \<le> - x" using assms(1) by (simp only: x_def y_def of_int_abs [symmetric] of_int_minus [symmetric] of_int_le_iff)
  moreover have "x \<noteq> 0" using assms(2) by (simp add: x_def)
  ultimately have x: "x < 0" "\<bar>y\<bar> \<le> - x" by auto
  then have "\<bar>y / x\<bar> \<le> 1" by (simp add: abs_divide abs_of_neg field_simps)
  then have f: "\<bar>arctan (y / x)\<bar> \<le> pi / 4" by (rule arctan_flat)
  show ?thesis
  proof (cases "0 \<le> y")
    case True
    then have e: "js_atan2 y x = arctan (y / x) + pi" using x by (simp add: js_atan2_def)
    have l: "(of_int 135 - 1 / 2) * pi / 180 \<le> js_atan2 y x" using f pi_gt_zero unfolding e abs_le_iff by (simp add: field_simps del: pi_gt_zero)
    have u: "js_atan2 y x < (of_int 225 + 1 / 2) * pi / 180" using f pi_gt_zero unfolding e abs_le_iff by (simp add: field_simps del: pi_gt_zero)
    from angle_range [OF l [unfolded x_def y_def] u [unfolded x_def y_def]]
    show ?thesis by (auto simp: calculateDirection_def Let_def split: if_splits)
  next
    case False
    then have e: "js_atan2 y x = arctan (y / x) - pi" using x by (simp add: js_atan2_def)
    have l: "(of_int (- 225) - 1 / 2) * pi / 180 \<le> js_atan2 y x"
      using f pi_gt_zero unfolding e abs_le_iff by (simp add: field_simps del: pi_gt_zero)
    have u: "js_atan2 y x < (of_int (- 135) + 1 / 2) * pi / 180"
      using f pi_gt_zero unfolding e abs_le_iff by (simp add: field_simps del: pi_gt_zero)
    from angle_range [OF l [unfolded x_def y_def] u [unfolded x_def y_def]]
    show ?thesis by (auto simp: calculateDirection_def Let_def split: if_splits)
  qed
qed

text \<open>Steep lines: the angle is more than half a degree away from the diagonals.\<close>

lemma atan2_steep:
  assumes "103 * \<bar>x\<bar> \<le> 100 * y" and "0 < y"
  shows "pi / 4 + pi / 360 < js_atan2 y x \<and> js_atan2 y x < 3 * pi / 4 - pi / 360"
proof -
  consider "x = 0" | "0 < x" | "x < 0" by linarith
  then show ?thesis
  proof cases
    case 1
    then show ?thesis using assms(2) pi_gt_zero by (simp add: js_atan2_def)
  next
    case 2
    then have "103 / 100 \<le> y / x" using assms(1) by (simp add: field_simps)
    from arctan_tilted [OF this] show ?thesis
      using 2 arctan_ubound [of "y / x"] pi_gt_zero by (simp add: js_atan2_def)
  next
    case 3
    then have "103 / 100 \<le> y / - x" using assms(1) by (simp add: field_simps)
    from arctan_tilted [OF this] show ?thesis
      using 3 assms(2) arctan_ubound [of "y / - x"] pi_gt_zero by (simp add: js_atan2_def arctan_minus)
  qed
qed

lemma atan2_neg: "y < 0 \<Longrightarrow> js_atan2 y x = - js_atan2 (- y) x"
  by (simp add: js_atan2_def arctan_minus)

lemma real_steep:
  assumes "103 * \<bar>a\<bar> \<le> 100 * b"
  shows "103 * \<bar>of_int a :: real\<bar> \<le> 100 * of_int b"
proof -
  have "of_int (103 * \<bar>a\<bar>) \<le> (of_int (100 * b) :: real)" using assms by (simp only: of_int_le_iff)
  then show ?thesis by simp
qed

lemma direction_down:
  assumes "103 * \<bar>px p - px q\<bar> \<le> 100 * (py q - py p)" and "py p < py q"
  shows "calculateDirection p q = DOWN"
proof -
  define x y :: real where "x = of_int (px p - px q)" and "y = of_int (py q - py p)"
  have "103 * \<bar>x\<bar> \<le> 100 * y" "0 < y" using real_steep [OF assms(1)] assms(2) by (simp_all add: x_def y_def)
  from atan2_steep [OF this]
  have l: "(of_int 46 - 1 / 2) * pi / 180 \<le> js_atan2 y x" and u: "js_atan2 y x < (of_int 134 + 1 / 2) * pi / 180"
    by (simp_all add: field_simps)
  from angle_range [OF l [unfolded x_def y_def] u [unfolded x_def y_def]]
  show ?thesis by (auto simp: calculateDirection_def Let_def split: if_splits)
qed

lemma direction_up:
  assumes "103 * \<bar>px p - px q\<bar> \<le> 100 * (py p - py q)" and "py q < py p"
  shows "calculateDirection p q = UP"
proof -
  define x y :: real where "x = of_int (px p - px q)" and "y = of_int (py q - py p)"
  have "103 * \<bar>x\<bar> \<le> 100 * - y" "y < 0" using real_steep [OF assms(1)] assms(2) by (simp_all add: x_def y_def)
  then have "pi / 4 + pi / 360 < - js_atan2 y x \<and> - js_atan2 y x < 3 * pi / 4 - pi / 360"
    using atan2_steep [of x "- y"] atan2_neg [of y x] by simp
  then have l: "(of_int (- 134) - 1 / 2) * pi / 180 \<le> js_atan2 y x" and u: "js_atan2 y x < (of_int (- 46) + 1 / 2) * pi / 180"
    by (simp_all add: field_simps)
  from angle_range [OF l [unfolded x_def y_def] u [unfolded x_def y_def]]
  show ?thesis by (auto simp: calculateDirection_def Let_def split: if_splits)
qed

text \<open>Which half of the plane an angle lies in.\<close>

lemma atan2_right: "0 \<le> x \<Longrightarrow> - (pi / 2) \<le> js_atan2 y x \<and> js_atan2 y x \<le> pi / 2"
  using arctan_lbound [of "y / x"] arctan_ubound [of "y / x"] by (auto simp: js_atan2_def)

lemma atan2_left:
  assumes "x < 0"
  shows "0 \<le> y \<and> pi / 2 \<le> js_atan2 y x \<and> js_atan2 y x \<le> pi \<or> - pi \<le> js_atan2 y x \<and> js_atan2 y x \<le> - (pi / 2)"
  using assms arctan_lbound [of "y / x"] arctan_ubound [of "y / x"] arctan_le_zero_iff [of "y / x"] arctan_less_zero_iff [of "y / x"]
  by (auto simp: js_atan2_def divide_le_0_iff divide_less_0_iff zero_le_divide_iff)

lemma atan2_upper: "0 \<le> y \<Longrightarrow> 0 \<le> js_atan2 y x \<and> js_atan2 y x \<le> pi"
  using arctan_lbound [of "y / x"] arctan_ubound [of "y / x"] arctan_le_zero_iff [of "y / x"] arctan_less_zero_iff [of "y / x"]
  by (auto simp: js_atan2_def divide_le_0_iff divide_less_0_iff)

lemma atan2_lower: "y < 0 \<Longrightarrow> - pi \<le> js_atan2 y x \<and> js_atan2 y x \<le> 0"
  using atan2_upper [of "- y" x] atan2_neg [of y x] by simp

lemma direction_half:
  assumes "of_int a * pi / 180 \<le> js_atan2 (of_int (py q - py p)) (of_int (px p - px q))"
    and "js_atan2 (of_int (py q - py p)) (of_int (px p - px q)) \<le> of_int b * pi / 180"
  shows "\<exists>k. a \<le> k \<and> k \<le> b \<and> calculateAngle p q = (if k < 0 then 360 + k else k)"
  using assms pi_gt_zero by (intro angle_range) (auto simp: field_simps simp del: pi_gt_zero)

lemma not_left: "px p < px q \<Longrightarrow> calculateDirection p q \<noteq> LEFT"
  using atan2_left [of "of_int (px p - px q)" "of_int (py q - py p)"] direction_half [of 90 q p 180] direction_half [of "- 180" q p "- 90"]
  by (auto simp: calculateDirection_def Let_def split: if_splits)

lemma not_right: "px q \<le> px p \<Longrightarrow> calculateDirection p q \<noteq> RIGHT"
  using atan2_right [of "of_int (px p - px q)" "of_int (py q - py p)"] direction_half [of "- 90" q p 90]
  by (auto simp: calculateDirection_def Let_def split: if_splits)

lemma not_down: "py q \<le> py p \<Longrightarrow> calculateDirection p q \<noteq> DOWN"
proof (cases "py q = py p")
  case True
  then show ?thesis using direction_left [of q p] direction_right [of q p] by (cases "px q \<le> px p") auto
next
  case False
  moreover assume "py q \<le> py p"
  ultimately have "(of_int (py q - py p) :: real) < 0" by simp
  then show ?thesis
    using atan2_lower [of "of_int (py q - py p)" "of_int (px p - px q)"] direction_half [of "- 180" q p 0]
    by (auto simp: calculateDirection_def Let_def split: if_splits)
qed

lemma not_up: "py p \<le> py q \<Longrightarrow> calculateDirection p q \<noteq> UP"
  using atan2_upper [of "of_int (py q - py p)" "of_int (px p - px q)"] direction_half [of 0 q p 180]
  by (auto simp: calculateDirection_def Let_def split: if_splits)

text \<open>
  What a direction says of a line, without angles: left and right are less than half a degree steeper than the diagonal,
  up and down are steeper than the diagonal.
\<close>

fun along :: "direction \<Rightarrow> point \<Rightarrow> point \<Rightarrow> bool" where
  "along LEFT p q = (100 * \<bar>py q - py p\<bar> \<le> 103 * (px p - px q))"
| "along RIGHT p q = (100 * \<bar>py q - py p\<bar> \<le> 103 * (px q - px p))"
| "along UP p q = (\<bar>px q - px p\<bar> < py p - py q)"
| "along DOWN p q = (\<bar>px q - px p\<bar> < py q - py p)"
| "along _ p q = False"

lemma flat_line: "\<not> (103 * \<bar>a\<bar> \<le> 100 * b \<and> 0 < b) \<Longrightarrow> \<not> (103 * \<bar>a\<bar> \<le> - 100 * b \<and> b < 0) \<Longrightarrow> 0 \<le> a \<Longrightarrow> 100 * \<bar>b\<bar> \<le> 103 * a"
  for a b :: int
  by (cases "0 < b"; cases "b < 0") auto

lemma calculateDirection_along: "along (calculateDirection p q) p q"
proof (cases "calculateDirection p q")
  case LEFT
  then have "px q \<le> px p" using not_left [of p q] by (metis not_less)
  with LEFT show ?thesis
    using flat_line [of "px p - px q" "py q - py p"] direction_down [of p q] direction_up [of p q] by auto
next
  case RIGHT
  then have "px p \<le> px q" using not_right [of q p] by (metis linear)
  with RIGHT show ?thesis
    using flat_line [of "px q - px p" "py q - py p"] direction_down [of p q] direction_up [of p q]
    by (auto simp: abs_minus_commute)
next
  case UP
  then have "py q < py p" using not_up [of p q] by (metis not_le)
  with UP show ?thesis
    using direction_left [of q p] direction_right [of q p] by (cases "px p \<le> px q") (auto simp: not_le [symmetric])
next
  case DOWN
  then have "py p < py q" using not_down [of q p] by (metis not_le)
  with DOWN show ?thesis
    using direction_left [of q p] direction_right [of q p] by (cases "px p \<le> px q") (auto simp: not_le [symmetric])
qed (auto simp: calculateDirection_def Let_def split: if_splits)

text \<open>
  An equation to compute directions with: in the narrow bands beside the diagonals, where only the exact angle decides,
  it leaves the definition as it is.
\<close>

definition exact_direction :: "point \<Rightarrow> point \<Rightarrow> direction" where
  "exact_direction = calculateDirection"

lemma calculateDirection_code [code]:
  "calculateDirection p q =
     (let x = px p - px q; y = py q - py p
      in if \<bar>y\<bar> \<le> x then LEFT
         else if \<bar>y\<bar> \<le> - x then RIGHT
         else if 103 * \<bar>x\<bar> \<le> 100 * y then DOWN
         else if 103 * \<bar>x\<bar> \<le> - 100 * y then UP
         else exact_direction p q)"
proof -
  have no: "103 * \<bar>a\<bar> \<le> - 100 * b \<Longrightarrow> b \<le> 0" "103 * \<bar>a\<bar> \<le> 100 * b \<Longrightarrow> 0 \<le> b" for a b :: int by simp_all
  have eq: "103 * \<bar>a\<bar> \<le> 100 * b \<Longrightarrow> b = 0 \<Longrightarrow> \<bar>b\<bar> \<le> a \<or> \<bar>b\<bar> \<le> - a" for a b :: int by auto
  show ?thesis
    using direction_left [of q p] direction_right [of q p] direction_down [of p q] direction_up [of p q]
      no [of "px p - px q" "py q - py p"] eq [of "px p - px q" "py q - py p"]
    by (cases "py p < py q"; cases "py q < py p") (auto simp: Let_def exact_direction_def)
qed

end
