(* ===== verification/TsRuns.thy ===== *)
theory TsRuns
  imports TsMath
begin

text \<open>
  Runs of the touch gestures: whatever the order of touches, mouse events, timeouts and errors, the handlers are bound
  exactly while a touch is in progress, and the events of gestures carry what the options ask for.
\<close>

section \<open>Outcomes\<close>

text \<open>\<open>safe P Q r\<close>: an error leaves a state with \<open>P\<close>, a result has \<open>Q\<close>.\<close>

definition safe :: "(swipe \<Rightarrow> bool) \<Rightarrow> ('a \<Rightarrow> bool) \<Rightarrow> 'a outcome \<Rightarrow> bool" where
  "safe P Q r = (case r of Inl (_, w) \<Rightarrow> P w | Inr a \<Rightarrow> Q a)"

lemma safe_simps [simp]: "safe P Q (Inl (e, w)) = P w" "safe P Q (Inr a) = Q a"
  by (simp_all add: safe_def)

lemma safe_sbind [simp]: "safe P R (sbind r k) = safe P (\<lambda>a. safe P R (k a)) r"
  by (cases r) (auto simp: safe_def sbind_def)

lemma safe_if [simp]: "safe P Q (if b then r else r') = (if b then safe P Q r else safe P Q r')"
  by simp

lemma safe_mono: "safe P Q r \<Longrightarrow> (\<And>w. P w \<Longrightarrow> P' w) \<Longrightarrow> (\<And>a. Q a \<Longrightarrow> Q' a) \<Longrightarrow> safe P' Q' r"
  by (auto simp: safe_def split: sum.splits)

section \<open>What the events of gestures carry\<close>

definition fingers_ok :: "support \<Rightarrow> ts_opts \<Rightarrow> nat \<Rightarrow> bool" where
  "fingers_ok c q n = (if SUPPORTS_TOUCH c then t_fingers q = Some (int n) \<or> t_fingers q = None else n = 0)"

text \<open>The direction and the distance are those of the line from the start to the end of the first finger.\<close>

definition straight :: "direction option \<Rightarrow> int \<Rightarrow> finger list \<Rightarrow> bool" where
  "straight d n fs = (case d of
     None \<Rightarrow> n = 0
   | Some k \<Rightarrow> (case fs of [] \<Rightarrow> False
       | f # _ \<Rightarrow> k = calculateDirection (f_start f) (f_end f) \<and> n = calculateDistance (f_start f) (f_end f)))"

definition swipe_name :: "string \<Rightarrow> direction option \<Rightarrow> bool" where
  "swipe_name n d = (n = ''swipe'' \<or> n = ''swipeLeft'' \<and> d = Some LEFT \<or> n = ''swipeRight'' \<and> d = Some RIGHT \<or>
     n = ''swipeUp'' \<and> d = Some UP \<or> n = ''swipeDown'' \<and> d = Some DOWN)"

definition payload_ok :: "support \<Rightarrow> ts_opts \<Rightarrow> string \<Rightarrow> payload \<Rightarrow> bool" where
  "payload_ok c q n p = (case p of
     PSwipe d k t m fs \<Rightarrow> swipe_name n d \<and> fingers_ok c q m \<and>
       (case t_threshold q of Some b \<Rightarrow> b \<le> k | None \<Rightarrow> True) \<and>
       (case t_maxTimeThreshold q of Some b \<Rightarrow> b \<noteq> 0 \<longrightarrow> t < b | None \<Rightarrow> True) \<and>
       (\<not> SUPPORTS_TOUCH c \<longrightarrow> straight d k fs)
   | PPinch d k t m z fs \<Rightarrow> (n = ''pinchIn'' \<and> d = Some IN \<or> n = ''pinchOut'' \<and> d = Some OUT) \<and> fingers_ok c q m \<and>
       (case t_pinchThreshold q of Some b \<Rightarrow> b \<le> k | None \<Rightarrow> True)
   | _ \<Rightarrow> n \<noteq> ''swipeLeft'' \<and> n \<noteq> ''swipeRight'' \<and> n \<noteq> ''swipeUp'' \<and> n \<noteq> ''swipeDown'' \<and> n \<noteq> ''swipe'' \<and>
       n \<noteq> ''pinchIn'' \<and> n \<noteq> ''pinchOut'')"

definition out_ok :: "support \<Rightarrow> ts_opts \<Rightarrow> ts_out \<Rightarrow> bool" where
  "out_ok c q e = (case e of Fired n p \<Rightarrow> payload_ok c q n p | Called n p \<Rightarrow> payload_ok c q n p | Prevented \<Rightarrow> True)"

section \<open>The invariant\<close>

text \<open>The part of the state that the gestures do not change.\<close>

definition core :: "swipe \<Rightarrow> _" where
  "core w = ((direction w, distance w, fingerData w, fingerCount w, previousTouchFingerCount w),
     (map fst (maximumsMap w), b_start w), (b_move w, b_end w, b_leave w, intouch w))"

definition bound_ok :: "bool \<Rightarrow> swipe \<Rightarrow> bool" where
  "bound_ok leaves w = (b_move w = (if intouch w then 1 else 0) \<and> b_end w = b_move w \<and>
     b_leave w = (if leaves \<and> intouch w then 1 else 0))"

text \<open>What a touch in progress needs: the data of six fingers and a largest distance for each direction.\<close>

definition ready :: "support \<Rightarrow> swipe \<Rightarrow> bool" where
  "ready c w = (length (fingerData w) = 6 \<and> map fst (maximumsMap w) = [LEFT, RIGHT, UP, DOWN] \<and>
     (SUPPORTS_TOUCH c \<or> f_identifier (fingerData w ! 0) = 0))"

definition mouse_ok :: "swipe \<Rightarrow> bool" where
  "mouse_ok w = (straight (direction w) (distance w) (fingerData w) \<and> fingerCount w = 0 \<and> previousTouchFingerCount w = 0)"

definition calm :: "support \<Rightarrow> bool \<Rightarrow> swipe \<Rightarrow> bool" where
  "calm c leaves w = (bound_ok leaves w \<and> (intouch w \<longrightarrow> ready c w) \<and> (SUPPORTS_TOUCH c \<or> mouse_ok w))"

definition log_ok :: "support \<Rightarrow> ts_opts \<Rightarrow> swipe \<Rightarrow> bool" where
  "log_ok c q w = list_all (out_ok c q) (ts_log w)"

definition ts_inv :: "support \<Rightarrow> bool \<Rightarrow> ts_opts \<Rightarrow> swipe \<Rightarrow> bool" where
  "ts_inv c leaves q w = (calm c leaves w \<and> log_ok c q w)"

lemma core_eqD:
  assumes "core w' = core w"
  shows "direction w' = direction w" "distance w' = distance w" "fingerData w' = fingerData w"
    "fingerCount w' = fingerCount w" "previousTouchFingerCount w' = previousTouchFingerCount w"
    "map fst (maximumsMap w') = map fst (maximumsMap w)" "b_start w' = b_start w" "b_move w' = b_move w"
    "b_end w' = b_end w" "b_leave w' = b_leave w" "intouch w' = intouch w"
  using assms by (simp_all add: core_def)

lemma calm_core: "core w' = core w \<Longrightarrow> calm c leaves w' = calm c leaves w"
  using core_eqD [of w' w] by (simp add: calm_def bound_ok_def ready_def mouse_ok_def)

lemma ready_core: "core w' = core w \<Longrightarrow> ready c w' = ready c w"
  using core_eqD [of w' w] by (simp add: ready_def)

lemma inv_core: "core w' = core w \<Longrightarrow> log_ok c q w' \<Longrightarrow> ts_inv c leaves q w \<Longrightarrow> ts_inv c leaves q w'"
  using calm_core [of w' w c leaves] by (simp add: ts_inv_def)

lemma core_updates [simp]:
  "core (out e w) = core w" "core (w\<lparr>phase := ph\<rparr>) = core w" "core (w\<lparr>timeouts := ts\<rparr>) = core w"
  "core (w\<lparr>doubleTapStartTime := t\<rparr>) = core w" "core (w\<lparr>singleTapTimeout := i\<rparr>) = core w"
  "core (w\<lparr>holdTimeout := i\<rparr>) = core w" "core (w\<lparr>endTime := n\<rparr>) = core w" "core (w\<lparr>startTime := n\<rparr>) = core w"
  "core (w\<lparr>duration := n\<rparr>) = core w" "core (w\<lparr>pinchZoom := z\<rparr>) = core w" "core (w\<lparr>pinchDistance := n\<rparr>) = core w"
  "core (w\<lparr>pinchDirection := p\<rparr>) = core w" "core (w\<lparr>startTouchesDistance := n\<rparr>) = core w"
  "core (w\<lparr>endTouchesDistance := n\<rparr>) = core w" "core (w\<lparr>next_id := k\<rparr>) = core w"
  "core (w\<lparr>previousTouchEndTime := n\<rparr>) = core w"
  by (simp_all add: core_def out_def)

lemma core_timeouts [simp]: "core (ts_clearTimeout j w) = core w" "core (snd (ts_setTimeout a n w)) = core w"
  by (simp_all add: ts_clearTimeout_def ts_setTimeout_def split: option.split)

lemma log_updates [simp]:
  "log_ok c q (w\<lparr>phase := ph\<rparr>) = log_ok c q w" "log_ok c q (w\<lparr>timeouts := ts\<rparr>) = log_ok c q w"
  "log_ok c q (w\<lparr>doubleTapStartTime := t\<rparr>) = log_ok c q w" "log_ok c q (w\<lparr>singleTapTimeout := i\<rparr>) = log_ok c q w"
  "log_ok c q (w\<lparr>holdTimeout := i\<rparr>) = log_ok c q w" "log_ok c q (w\<lparr>endTime := n\<rparr>) = log_ok c q w"
  "log_ok c q (w\<lparr>startTime := n\<rparr>) = log_ok c q w" "log_ok c q (w\<lparr>duration := n\<rparr>) = log_ok c q w"
  "log_ok c q (w\<lparr>pinchZoom := z\<rparr>) = log_ok c q w" "log_ok c q (w\<lparr>pinchDistance := n\<rparr>) = log_ok c q w"
  "log_ok c q (w\<lparr>pinchDirection := p\<rparr>) = log_ok c q w" "log_ok c q (w\<lparr>startTouchesDistance := n\<rparr>) = log_ok c q w"
  "log_ok c q (w\<lparr>endTouchesDistance := n\<rparr>) = log_ok c q w" "log_ok c q (w\<lparr>previousTouchEndTime := n\<rparr>) = log_ok c q w"
  "log_ok c q (w\<lparr>fingerCount := k\<rparr>) = log_ok c q w" "log_ok c q (w\<lparr>fingerData := fs\<rparr>) = log_ok c q w"
  "log_ok c q (w\<lparr>direction := d\<rparr>) = log_ok c q w" "log_ok c q (w\<lparr>distance := n\<rparr>) = log_ok c q w"
  "log_ok c q (w\<lparr>maximumsMap := mm\<rparr>) = log_ok c q w" "log_ok c q (w\<lparr>previousTouchFingerCount := k\<rparr>) = log_ok c q w"
  "log_ok c q (ts_clearTimeout j w) = log_ok c q w" "log_ok c q (snd (ts_setTimeout a n w)) = log_ok c q w"
  "log_ok c q (setTouchInProgress leaves b w) = log_ok c q w" "log_ok c q (touchCancel leaves w) = log_ok c q w"
  "log_ok c q (cancelMultiFingerRelease w) = log_ok c q w"
  "log_ok c q (clear_vars w) = log_ok c q w" "log_ok c q (start_hold now q' tg w) = log_ok c q w"
  by (simp_all add: log_ok_def out_def ts_clearTimeout_def ts_setTimeout_def setTouchInProgress_def touchCancel_def
      cancelMultiFingerRelease_def clear_vars_def start_hold_def split: option.splits)

lemma log_out [simp]: "log_ok c q (out e w) = (log_ok c q w \<and> out_ok c q e)"
  by (simp add: log_ok_def out_def)

section \<open>Gestures\<close>

text \<open>A step of a gesture: the core stays, the log stays right.\<close>

definition mild :: "support \<Rightarrow> ts_opts \<Rightarrow> swipe \<Rightarrow> swipe \<Rightarrow> bool" where
  "mild c q w w' = (core w' = core w \<and> log_ok c q w')"

lemma mild_inv: "mild c q w w' \<Longrightarrow> ts_inv c leaves q w \<Longrightarrow> ts_inv c leaves q w'"
  by (simp add: mild_def inv_core)

lemma mild_trans: "mild c q w w' \<Longrightarrow> mild c q w' w'' \<Longrightarrow> mild c q w w''"
  by (simp add: mild_def)

lemma fire_call_simps [simp]: "core (snd (fire_call n h p w)) = core w"
  "log_ok c q (snd (fire_call n h p w)) = (log_ok c q w \<and> payload_ok c q n p)"
  by (auto simp: fire_call_def out_ok_def split: option.splits)

lemma fire_call_mild: "log_ok c q w \<Longrightarrow> payload_ok c q n p \<Longrightarrow> mild c q w (snd (fire_call n h p w))"
  by (simp add: mild_def)

lemma fire_call_args [simp]:
  "swipe_args (snd (fire_call n h p w)) = swipe_args w" "pinch_args (snd (fire_call n h p w)) = pinch_args w"
  "direction (snd (fire_call n h p w)) = direction w" "pinchDirection (snd (fire_call n h p w)) = pinchDirection w"
  "validateSwipe c q (snd (fire_call n h p w)) = validateSwipe c q w"
  "validatePinch c q (snd (fire_call n h p w)) = validatePinch c q w"
  by (auto simp: fire_call_def out_def swipe_args_def pinch_args_def validateSwipe_def validatePinch_def
      didSwipeBackToCancel_def validateEndPoint_def validateFingers_def validateSwipeDistance_def validateSwipeTime_def
      validatePinchDistance_def getMaxDistance_def split: option.splits)

lemma status_names [simp]: "payload_ok c q ''swipeStatus'' (PStatus a d k t m fs)"
  "payload_ok c q ''pinchStatus'' (PPinchStatus a d k t m z fs)" "payload_ok c q ''tap'' (PTarget n)"
  "payload_ok c q ''doubletap'' (PTarget n)" "payload_ok c q ''longtap'' (PTarget n)" "payload_ok c q ''hold'' (PTarget n)"
  by (simp_all add: payload_ok_def)

lemma swipe_args_ok:
  assumes "validateSwipe c q w" and "calm c leaves w" and "swipe_name n (direction w)"
  shows "payload_ok c q n (swipe_args w)"
  using assms by (auto simp: payload_ok_def swipe_args_def validateSwipe_def validateFingers_def fingers_ok_def
      validateSwipeDistance_def validateSwipeTime_def calm_def mouse_ok_def split: option.splits if_splits)

lemma pinch_args_ok:
  "validatePinch c q w \<Longrightarrow> calm c leaves w \<Longrightarrow> n = ''pinchIn'' \<and> pinchDirection w = Some IN \<or> n = ''pinchOut'' \<and> pinchDirection w = Some OUT \<Longrightarrow>
   payload_ok c q n (pinch_args w)"
  by (auto simp: payload_ok_def pinch_args_def validatePinch_def validateFingers_def fingers_ok_def
      validatePinchDistance_def calm_def mouse_ok_def split: option.splits if_splits)

lemma direction_handler_name: "direction_handler q d = Some (n, h) \<Longrightarrow> swipe_name n d"
  by (auto simp: direction_handler_def swipe_name_def split: option.splits direction.splits)

lemma gesture_swipe_mild:
  assumes "ts_inv c leaves q w"
  shows "mild c q w (snd (gesture_swipe c q ph w))"
proof -
  define s where "s = snd (fire_call ''swipeStatus'' (t_swipeStatus q)
    (PStatus ph (direction w) (distance w) (duration w) (fingerCount w) (fingerData w)) w)"
  define t where "t = snd (fire_call ''swipe'' (t_swipe q) (swipe_args s) s)"
  have s: "mild c q w s" using assms by (simp add: s_def fire_call_mild ts_inv_def)
  have i: "ts_inv c leaves q s" by (rule mild_inv [OF s assms])
  have names: "swipe_name ''swipe'' d" for d by (simp add: swipe_name_def)
  have t: "mild c q w t" if "validateSwipe c q w"
  proof -
    have "payload_ok c q ''swipe'' (swipe_args s)"
      using that i names by (intro swipe_args_ok [of _ _ _ leaves]) (simp_all add: s_def ts_inv_def)
    then show ?thesis using i by (intro mild_trans [OF s]) (simp add: t_def fire_call_mild ts_inv_def)
  qed
  have u: "mild c q w (snd (fire_call n h (swipe_args t) t))"
    if "validateSwipe c q w" "direction_handler q (direction t) = Some (n, h)" for n h
  proof -
    have j: "ts_inv c leaves q t" by (rule mild_inv [OF t [OF that(1)] assms])
    have "payload_ok c q n (swipe_args t)"
      using that(1) j direction_handler_name [OF that(2)]
      by (intro swipe_args_ok [of _ _ _ leaves]) (simp_all add: t_def s_def ts_inv_def)
    then show ?thesis using j by (intro mild_trans [OF t [OF that(1)]] fire_call_mild) (simp_all add: ts_inv_def)
  qed
  show ?thesis
    using s t u
    by (auto simp: gesture_swipe_def split_beta s_def [symmetric] t_def [symmetric] Let_def split: option.splits prod.splits)
      (auto simp: s_def)
qed

lemma gesture_pinch_mild:
  assumes "ts_inv c leaves q w"
  shows "mild c q w (snd (gesture_pinch c q ph w))"
proof -
  define s where "s = snd (fire_call ''pinchStatus'' (t_pinchStatus q)
    (PPinchStatus ph (pinchDirection w) (pinchDistance w) (duration w) (fingerCount w) (pinchZoom w) (fingerData w)) w)"
  have s: "mild c q w s" using assms by (simp add: s_def fire_call_mild ts_inv_def)
  have u: "mild c q w (snd (fire_call n h (pinch_args s) s))"
    if "validatePinch c q w" "n = ''pinchIn'' \<and> pinchDirection s = Some IN \<or> n = ''pinchOut'' \<and> pinchDirection s = Some OUT" for n h
  proof -
    have "calm c leaves s" using assms calm_core [of s w c leaves] by (simp add: s_def ts_inv_def)
    then have "payload_ok c q n (pinch_args s)" using that by (intro pinch_args_ok [of _ _ _ leaves]) (simp_all add: s_def)
    then show ?thesis using s by (intro mild_trans [OF s] fire_call_mild) (simp_all add: mild_def)
  qed
  have v: "validatePinch c q s = validatePinch c q w" by (simp add: s_def)
  show ?thesis
    using s u by (auto simp: v gesture_pinch_def split_beta s_def [symmetric] Let_def split: option.splits direction.splits)
qed

lemma target_of_safe: "P w \<Longrightarrow> (\<And>n. Q n) \<Longrightarrow> safe P Q (target_of event w)"
  by (simp add: target_of_def split: option.split)

lemma touches_of_safe: "P w \<Longrightarrow> (\<And>ts. Q ts) \<Longrightarrow> safe P Q (touches_of event w)"
  by (simp add: touches_of_def split: option.split)

lemma touch_at_safe: "P w \<Longrightarrow> (\<And>t. Q t) \<Longrightarrow> safe P Q (touch_at i ts w)"
  by (simp add: touch_at_def)

lemma mild_refl: "log_ok c q w \<Longrightarrow> mild c q w w"
  by (simp add: mild_def)

lemma gesture_tap_mild:
  assumes "log_ok c q w"
  shows "safe (mild c q w) (\<lambda>(_, w'). mild c q w w') (gesture_tap now q event w)"
  using assms
  by (auto simp: gesture_tap_def Let_def split_beta mild_def intro!: target_of_safe)

lemma gesture_other_tap_mild:
  assumes "log_ok c q w" and "\<And>n. payload_ok c q name (PTarget n)"
  shows "safe (mild c q w) (\<lambda>(_, w'). mild c q w w') (gesture_other_tap name h event w)"
  using assms
  by (auto simp: gesture_other_tap_def Let_def split_beta mild_def intro!: target_of_safe)

lemma trigger_gesture_mild:
  assumes "ts_inv c leaves q w"
  shows "safe (mild c q w) (\<lambda>(_, w'). mild c q w w') (triggerHandlerForGesture c now q event ph g w)"
proof -
  have l: "log_ok c q w" using assms by (simp add: ts_inv_def)
  show ?thesis
    using gesture_swipe_mild [OF assms, of ph] gesture_pinch_mild [OF assms, of ph] gesture_tap_mild [OF l]
      gesture_other_tap_mild [OF l] mild_refl [OF l]
    by (cases g) (simp_all add: triggerHandlerForGesture_def split_beta)
qed

lemma trigger_swipe_or_pinch_mild:
  assumes "ts_inv c leaves q w"
  shows "safe (mild c q w) (\<lambda>(_, w'). mild c q w w') (trigger_swipe_or_pinch c now q event ph w)"
  using trigger_gesture_mild [OF assms] assms by (simp add: trigger_swipe_or_pinch_def ts_inv_def mild_refl)

lemma trigger_taps_mild:
  assumes "ts_inv c leaves q w" and "mild c q w u"
  shows "safe (mild c q w) (\<lambda>(_, w'). mild c q w w') (trigger_taps c now q event ph (r, u))"
proof -
  have "safe (mild c q w) (\<lambda>(_, w'). mild c q w w') (triggerHandlerForGesture c now q event ph g u)" for g
    using trigger_gesture_mild [OF mild_inv [OF assms(2,1)], of now event ph g] mild_trans [OF assms(2)]
    by (auto elim!: safe_mono)
  then show ?thesis using assms(2) by (simp add: trigger_taps_def)
qed

text \<open>What a handler leaves: a mild change, and at the end of a gesture perhaps a reset.\<close>

definition settled :: "support \<Rightarrow> bool \<Rightarrow> ts_opts \<Rightarrow> swipe \<Rightarrow> swipe \<Rightarrow> bool" where
  "settled c leaves q w w' = (mild c q w w' \<or> mild c q (touchCancel leaves w) w')"

lemma touchCancel_core: "core u = core w \<Longrightarrow> core (touchCancel leaves u) = core (touchCancel leaves w)"
  by (simp add: core_def touchCancel_def setTouchInProgress_def cancelMultiFingerRelease_def)

lemma triggerHandler_settled:
  assumes "ts_inv c leaves q w"
  shows "safe (settled c leaves q w) (\<lambda>(_, w'). settled c leaves q w w') (triggerHandler c leaves now q event ph w)"
proof -
  have r: "safe (settled c leaves q w) (\<lambda>(_, w'). settled c leaves q w w') (trigger_reset c leaves event ph (r, u))"
    if "mild c q w u" for r u
    using that touchCancel_core [of u w leaves]
    by (auto simp: trigger_reset_def settled_def mild_def intro!: touches_of_safe)
  show ?thesis
    unfolding triggerHandler_def safe_sbind
    by (rule safe_mono [OF trigger_swipe_or_pinch_mild [OF assms]])
      (auto simp: settled_def [of c leaves q w] split_beta intro!: r
        safe_mono [OF trigger_taps_mild [OF assms]])
qed

lemma triggerHandler_start:
  assumes "ts_inv c leaves q w" and "ph = PHASE_START \<or> ph = PHASE_MOVE"
  shows "safe (mild c q w) (\<lambda>(_, w'). mild c q w w') (triggerHandler c leaves now q event ph w)"
  unfolding triggerHandler_def safe_sbind
  by (rule safe_mono [OF trigger_swipe_or_pinch_mild [OF assms(1)]])
    (use assms(2) in \<open>auto simp: trigger_reset_def split_beta intro!: safe_mono [OF trigger_taps_mild [OF assms(1)]]\<close>)

section \<open>Handlers\<close>

lemma touchCancel_inv [simp]: "ts_inv c leaves q w \<Longrightarrow> ts_inv c leaves q (touchCancel leaves w)"
  by (auto simp: ts_inv_def calm_def bound_ok_def mouse_ok_def touchCancel_def setTouchInProgress_def
      cancelMultiFingerRelease_def log_ok_def)

lemma settled_inv: "ts_inv c leaves q w \<Longrightarrow> settled c leaves q w w' \<Longrightarrow> ts_inv c leaves q w'"
  by (auto simp: settled_def intro: mild_inv)

lemma set_touch_inv: "ts_inv c leaves q w \<Longrightarrow> ts_inv c leaves q (setTouchInProgress leaves False w)"
  by (auto simp: ts_inv_def calm_def bound_ok_def mouse_ok_def setTouchInProgress_def log_ok_def)

lemma triggerHandler_inv:
  "ts_inv c leaves q w \<Longrightarrow>
   safe (ts_inv c leaves q) (\<lambda>(_, w'). ts_inv c leaves q w') (triggerHandler c leaves now q event ph w)"
  by (rule safe_mono [OF triggerHandler_settled]) (auto intro: settled_inv)

lemma phase_inv [simp]: "ts_inv c leaves q (w\<lparr>phase := ph\<rparr>) = ts_inv c leaves q w"
  "ts_inv c leaves q (w\<lparr>endTime := n\<rparr>) = ts_inv c leaves q w" "ts_inv c leaves q (w\<lparr>duration := n\<rparr>) = ts_inv c leaves q w"
  "ts_inv c leaves q (out Prevented w) = ts_inv c leaves q w"
  using calm_core [of "w\<lparr>phase := ph\<rparr>" w c leaves] calm_core [of "w\<lparr>endTime := n\<rparr>" w c leaves]
    calm_core [of "w\<lparr>duration := n\<rparr>" w c leaves] calm_core [of "out Prevented w" w c leaves]
  by (simp_all add: ts_inv_def out_ok_def)

lemma cancel_now_inv:
  "ts_inv c leaves q w \<Longrightarrow> safe (ts_inv c leaves q) (ts_inv c leaves q) (cancel_now c leaves now q event w)"
  unfolding cancel_now_def safe_sbind by (rule safe_mono [OF triggerHandler_inv]) auto

subsection \<open>The start of a touch\<close>

definition armed :: "support \<Rightarrow> bool \<Rightarrow> ts_opts \<Rightarrow> swipe \<Rightarrow> bool" where
  "armed c leaves q w = (ts_inv c leaves q w \<and> ready c w \<and> \<not> intouch w \<and> direction w = None)"

lemma armed_mild: "armed c leaves q w \<Longrightarrow> mild c q w w' \<Longrightarrow> armed c leaves q w'"
  using ready_core [of w' w c] core_eqD(1,11) [of w' w] by (auto simp: armed_def mild_def intro: inv_core)

lemma armed_clear:
  assumes "ts_inv c leaves q w" and "\<not> intouch w"
  shows "armed c leaves q (clear_vars (if SUPPORTS_TOUCH c then w\<lparr>phase := ph, fingerCount := n\<rparr> else out Prevented (w\<lparr>phase := ph\<rparr>)))"
  using assms
  by (auto simp: armed_def ts_inv_def calm_def bound_ok_def mouse_ok_def ready_def clear_vars_def straight_def out_def
      cancelMultiFingerRelease_def createAllFingerData_def createMaximumsData_def createMaximumVO_def no_finger_def
      log_ok_def out_ok_def numeral_eq_Suc)

definition plain :: "support \<Rightarrow> jq_event \<Rightarrow> bool" where
  "plain c j = (SUPPORTS_TOUCH c \<or> tc_identifier (ev_point (event_of j)) = None)"

lemma finger_of_safe: "P w \<Longrightarrow> (\<And>f. Q f) \<Longrightarrow> safe P Q (finger_of i w)"
  by (simp add: finger_of_def)

lemma create_armed:
  assumes "armed c leaves q w" and "SUPPORTS_TOUCH c \<or> m = 0 \<and> touch_id t = 0"
  shows "safe (ts_inv c leaves q) (\<lambda>w'. armed c leaves q w' \<and> fingerCount w' = fingerCount w) (createFingerData m t w)"
  using assms
  by (auto simp: armed_def ts_inv_def calm_def bound_ok_def mouse_ok_def ready_def createFingerData_def straight_def log_ok_def)

lemma second_finger_armed:
  assumes "armed c leaves q w" and "SUPPORTS_TOUCH c"
  shows "safe (ts_inv c leaves q) (armed c leaves q) (second_finger_start e w)"
proof -
  have i: "ts_inv c leaves q u" if "armed c leaves q u" for u using that by (simp add: armed_def)
  have m: "armed c leaves q (u\<lparr>startTouchesDistance := n, endTouchesDistance := n\<rparr>)" if "armed c leaves q u" for u n
    using that by (intro armed_mild [OF that]) (auto simp: mild_def armed_def ts_inv_def)
  show ?thesis
    using assms(2) i
    by (auto simp: second_finger_start_def Let_def assms(1) intro!: touches_of_safe touch_at_safe finger_of_safe m
        safe_mono [OF create_armed [OF assms(1)]])
qed

lemma start_fingers_armed:
  assumes "armed c leaves q w" and "evt = Inl v \<or> evt = Inr t" and "SUPPORTS_TOUCH c \<or> touch_id t = 0 \<and> evt = Inr t"
  shows "safe (ts_inv c leaves q) (armed c leaves q) (start_fingers now e evt w)"
proof -
  have i: "ts_inv c leaves q w" using assms by (simp add: armed_def)
  have a: "armed c leaves q (u\<lparr>startTime := now\<rparr>)" if "armed c leaves q u" for u
    using armed_mild [OF that] that by (simp add: mild_def armed_def ts_inv_def)
  have two: "\<not> SUPPORTS_TOUCH c \<Longrightarrow> fingerCount w \<noteq> 2" using i by (simp add: ts_inv_def calm_def mouse_ok_def)
  show ?thesis
    using assms(2,3) i two second_finger_armed [OF a] a
    by (cases "SUPPORTS_TOUCH c")
      (auto simp: start_fingers_def Let_def intro!: safe_mono [OF create_armed [OF assms(1)]])
qed

lemma set_touch_armed:
  "armed c leaves q w \<Longrightarrow> ts_inv c leaves q (setTouchInProgress leaves True (start_hold now q' n w))"
  by (auto simp: armed_def ts_inv_def calm_def bound_ok_def mouse_ok_def ready_def setTouchInProgress_def start_hold_def
      ts_setTimeout_def log_ok_def)

lemma start_gesture_armed:
  assumes "armed c leaves q w" and "evt = Inl v \<or> evt = Inr t" and "SUPPORTS_TOUCH c \<or> touch_id t = 0 \<and> evt = Inr t"
  shows "safe (ts_inv c leaves q) (\<lambda>(_, w'). armed c leaves q w') (start_gesture c leaves now q e evt w)"
proof -
  have start: "safe (ts_inv c leaves q) (\<lambda>(_, w'). armed c leaves q w') (triggerHandler c leaves now q (Some e) PHASE_START x)"
    if "armed c leaves q x" for x
  proof -
    have i: "ts_inv c leaves q x" using that by (simp add: armed_def)
    show ?thesis by (rule safe_mono [OF triggerHandler_start [OF i]]) (auto intro: armed_mild [OF that] mild_inv [OF _ i])
  qed
  show ?thesis
    unfolding start_gesture_def using safe_mono [OF start_fingers_armed [OF assms]] start assms(1) by auto
qed

lemma finish_start_inv:
  assumes "armed c leaves q w"
  shows "safe (ts_inv c leaves q) (\<lambda>(_, w'). ts_inv c leaves q w') (finish_start c leaves now q e (r, w))"
proof -
  have "ts_inv c leaves q (w\<lparr>phase := PHASE_CANCEL\<rparr>)" using assms by (simp add: armed_def)
  from triggerHandler_inv [OF this, of now "Some e" PHASE_CANCEL]
  show ?thesis using set_touch_armed [OF assms] by (auto simp: finish_start_def elim!: safe_mono)
qed

lemma touchStart_inv:
  assumes "ts_inv c leaves q w" and "plain c j"
  shows "safe (ts_inv c leaves q) (\<lambda>(_, w'). ts_inv c leaves q w') (touchStart c leaves now q j w)"
proof (cases "getTouchInProgress w \<or> jq_excluded j")
  case True
  then show ?thesis using assms(1) by (auto simp: touchStart_def)
next
  case False
  let ?w = "\<lambda>n. if SUPPORTS_TOUCH c then w\<lparr>phase := PHASE_START, fingerCount := n\<rparr> else out Prevented (w\<lparr>phase := PHASE_START\<rparr>)"
  define evt where "evt = main_touch c (event_of j) w"
  obtain v t where t: "evt = Inl v \<or> evt = Inr t" "SUPPORTS_TOUCH c \<or> touch_id t = 0 \<and> evt = Inr t"
    using assms(2) by (cases "SUPPORTS_TOUCH c"; cases evt) (auto simp: evt_def main_touch_def plain_def touch_id_def)
  have w: "armed c leaves q (clear_vars (?w n))" for n
    using armed_clear [OF assms(1)] False by (simp add: getTouchInProgress_def)
  have go: "safe (ts_inv c leaves q) (\<lambda>(_, w'). ts_inv c leaves q w')
    (sbind (start_gesture c leaves now q (event_of j) evt (clear_vars (?w n))) (finish_start c leaves now q (event_of j)))" for n
    unfolding safe_sbind by (rule safe_mono [OF start_gesture_armed [OF w t]]) (auto intro: finish_start_inv)
  show ?thesis
    using go False assms(1)
    by (cases "SUPPORTS_TOUCH c") (auto simp: touchStart_def Let_def evt_def [symmetric] intro!: touches_of_safe)
qed

end
