(* ===== verification/TsReach.thy ===== *)
theory TsReach
  imports TsRuns
begin

text \<open>
  Runs of the touch gestures, continued: moves, ends, leaving the element, timeouts, and the states that an element
  can reach.
\<close>

section \<open>Moves\<close>

text \<open>
  Between reading the fingers and measuring the line of the first one, the line and its measures may differ; with a
  mouse no error can be raised there.
\<close>

definition midway :: "support \<Rightarrow> bool \<Rightarrow> ts_opts \<Rightarrow> nat \<Rightarrow> swipe \<Rightarrow> bool" where
  "midway c leaves q i w = (bound_ok leaves w \<and> intouch w \<and> ready c w \<and> log_ok c q w \<and>
     (SUPPORTS_TOUCH c \<or> i = 0 \<and> fingerCount w = 0 \<and> previousTouchFingerCount w = 0))"

lemma midway_core: "core w' = core w \<Longrightarrow> log_ok c q w' \<Longrightarrow> midway c leaves q i w \<Longrightarrow> midway c leaves q i w'"
  using core_eqD [of w' w] ready_core [of w' w c] by (simp add: midway_def bound_ok_def)

lemma midway_touch: "SUPPORTS_TOUCH c \<Longrightarrow> midway c leaves q i w \<longleftrightarrow> ts_inv c leaves q w \<and> intouch w"
  by (auto simp: midway_def ts_inv_def calm_def)

lemma update_inv:
  assumes "ts_inv c leaves q w" and "intouch w" and "SUPPORTS_TOUCH c"
  shows "safe (ts_inv c leaves q) (\<lambda>(_, w'). ts_inv c leaves q w' \<and> intouch w') (updateFingerData t w)"
  using assms
  by (auto simp: updateFingerData_def ts_inv_def calm_def bound_ok_def ready_def log_ok_def split: option.split)

lemma create_inv:
  assumes "ts_inv c leaves q w" and "intouch w" and "SUPPORTS_TOUCH c"
  shows "safe (ts_inv c leaves q) (\<lambda>w'. ts_inv c leaves q w' \<and> intouch w') (createFingerData m t w)"
  using assms by (auto simp: createFingerData_def ts_inv_def calm_def bound_ok_def ready_def log_ok_def)

lemma pinch_updates [simp]:
  "ts_inv c leaves q (w\<lparr>startTouchesDistance := m, endTouchesDistance := n\<rparr>) = ts_inv c leaves q w"
  "ts_inv c leaves q (w\<lparr>endTouchesDistance := n, pinchDirection := p\<rparr>) = ts_inv c leaves q w"
  "ts_inv c leaves q (w\<lparr>pinchZoom := z, pinchDistance := n\<rparr>) = ts_inv c leaves q w"
  "ts_inv c leaves q (w\<lparr>fingerCount := k\<rparr>) = ts_inv c leaves q w" if "SUPPORTS_TOUCH c" for w
  using that by (simp_all add: ts_inv_def calm_def bound_ok_def ready_def log_ok_def)

lemma clear_inv [simp]: "ts_inv c leaves q (ts_clearTimeout i w) = ts_inv c leaves q w"
  using calm_core [of "ts_clearTimeout i w" w c leaves] by (simp add: ts_inv_def)

lemma intouch_clear [simp]: "intouch (ts_clearTimeout i w) = intouch w"
  by (simp add: ts_clearTimeout_def split: option.split)

lemma move_pinch_inv:
  assumes "ts_inv c leaves q w" and "intouch w" and "SUPPORTS_TOUCH c"
  shows "safe (ts_inv c leaves q) (\<lambda>w'. ts_inv c leaves q w' \<and> intouch w') (move_pinch e w)"
  using assms
  by (auto simp: move_pinch_def second_finger_start_def Let_def intro!: touches_of_safe touch_at_safe finger_of_safe
      safe_mono [OF create_inv] safe_mono [OF update_inv])

lemma move_fingers_touch:
  assumes "ts_inv c leaves q w" and "intouch w" and "SUPPORTS_TOUCH c"
  shows "safe (ts_inv c leaves q) (\<lambda>(i, w'). midway c leaves q i w') (move_fingers c now q e w)"
  using assms
  by (auto simp: move_fingers_def main_touch_def midway_touch Let_def
      intro!: touches_of_safe touch_at_safe safe_mono [OF update_inv] safe_mono [OF move_pinch_inv]) simp_all

lemma move_fingers_mouse:
  assumes "ts_inv c leaves q w" and "intouch w" and "\<not> SUPPORTS_TOUCH c" and "tc_identifier (ev_point e) = None"
  shows "safe (ts_inv c leaves q) (\<lambda>(i, w'). midway c leaves q i w') (move_fingers c now q e w)"
proof -
  have r: "ready c w" "fingerCount w = 0" using assms by (simp_all add: ts_inv_def calm_def mouse_ok_def)
  obtain f fs where f: "fingerData w = f # fs" "f_identifier f = 0"
    using r(1) assms(3) by (cases "fingerData w") (auto simp: ready_def)
  have u: "updateFingerData (ev_point e) w = Inr (0, w\<lparr>fingerData := f\<lparr>f_end := touch_point (ev_point e)\<rparr> # fs\<rparr>)"
    using f assms(4) by (simp add: updateFingerData_def getFingerData_def touch_id_def)
  let ?w = "w\<lparr>fingerData := f\<lparr>f_end := touch_point (ev_point e)\<rparr> # fs\<rparr>"
  have m: "midway c leaves q 0 ?w"
    using assms f by (auto simp: midway_def ts_inv_def calm_def ready_def bound_ok_def mouse_ok_def)
  have "midway c leaves q 0 (ts_clearTimeout i (?w\<lparr>endTime := now\<rparr>)\<lparr>phase := ph\<rparr>)"
    "midway c leaves q 0 (?w\<lparr>endTime := now, phase := ph\<rparr>)" for i ph
    using m by (intro midway_core [OF _ _ m]; auto simp: midway_def)+
  moreover have "fingerCount (ts_clearTimeout i u) = fingerCount u" for i u
    by (simp add: ts_clearTimeout_def split: option.split)
  ultimately show ?thesis
    using assms(3) u r(2) by (simp add: move_fingers_def main_touch_def move_pinch_def Let_def split: if_splits)
qed

lemma direction_of_four: "calculateDirection p p' \<in> {LEFT, RIGHT, UP, DOWN}"
  by (simp add: calculateDirection_def Let_def)

lemma map_of_keys: "d \<in> set (map fst m) \<Longrightarrow> \<exists>v. map_of m d = Some v"
  by (induction m) auto

lemma move_measure_inv:
  assumes "midway c leaves q i w"
  shows "safe (ts_inv c leaves q) (ts_inv c leaves q) (move_measure q i w)"
proof -
  define f where "f = fingerData w ! i"
  define d where "d = calculateDirection (f_start f) (f_end f)"
  define n where "n = calculateDistance (f_start f) (f_end f)"
  have keys: "map fst (maximumsMap w) = [LEFT, RIGHT, UP, DOWN]" using assms by (simp add: midway_def ready_def)
  then have "d \<in> set (map fst (maximumsMap w))" using direction_of_four [of "f_start f" "f_end f"] by (auto simp: d_def)
  then obtain v where v: "map_of (maximumsMap w) d = Some v" using map_of_keys by metis
  have s: "SUPPORTS_TOUCH c \<or> straight (Some d) n (fingerData w)"
    using assms by (cases "fingerData w") (auto simp: straight_def d_def n_def f_def midway_def ready_def)
  have m: "map (fst \<circ> (\<lambda>(k, x). (k, g k x))) (maximumsMap w) = map fst (maximumsMap w)" for g
    by (simp add: comp_def split_beta)
  have "ts_inv c leaves q (x\<lparr>maximumsMap := map (\<lambda>(k, y). (k, g k y)) (maximumsMap w)\<rparr>)"
    if "fingerData x = fingerData w" "direction x = Some d" "distance x = n" "intouch x" "bound_ok leaves x" "log_ok c q x"
      "fingerCount x = fingerCount w" "previousTouchFingerCount x = previousTouchFingerCount w" for x g
    using assms s that keys
    by (auto simp: ts_inv_def calm_def midway_def mouse_ok_def ready_def bound_ok_def m)
  then show ?thesis
    using assms v
    by (simp add: move_measure_def setMaxDistance_def getMaxDistance_def Let_def f_def [symmetric] d_def [symmetric]
        n_def [symmetric] midway_def bound_ok_def out_def log_ok_def out_ok_def calculateDuration_def)
qed

lemma move_bounds_inv:
  "ts_inv c leaves q w \<Longrightarrow> safe (ts_inv c leaves q) (ts_inv c leaves q) (move_bounds c leaves now q j i w)"
  using triggerHandler_inv [of c leaves q]
  by (auto simp: move_bounds_def Let_def intro!: safe_mono [OF triggerHandler_inv])

lemma move_handlers_inv:
  "ts_inv c leaves q w \<Longrightarrow>
   safe (ts_inv c leaves q) (\<lambda>(_, w'). ts_inv c leaves q w') (move_handlers c leaves now q j i w)"
  by (auto simp: move_handlers_def intro!: safe_mono [OF triggerHandler_inv] safe_mono [OF move_bounds_inv])

lemma move_gesture_inv:
  assumes "midway c leaves q i w"
  shows "safe (ts_inv c leaves q) (\<lambda>(_, w'). ts_inv c leaves q w') (move_gesture c leaves now q j (i, w))"
  using safe_mono [OF move_measure_inv [OF assms]] move_handlers_inv [of c leaves q] midway_touch [of c leaves q i w] assms
  by (auto simp: move_gesture_def intro: safe_mono [OF cancel_now_inv])

lemma touchMove_inv:
  assumes "ts_inv c leaves q w" and "intouch w" and "plain c j"
  shows "safe (ts_inv c leaves q) (ts_inv c leaves q) (touchMove c leaves now q j w)"
proof -
  have f: "safe (ts_inv c leaves q) (\<lambda>(i, w'). midway c leaves q i w') (move_fingers c now q (event_of j) w)"
    using move_fingers_touch [OF assms(1,2)] move_fingers_mouse [OF assms(1,2)] assms(3) by (auto simp: plain_def)
  have "safe (ts_inv c leaves q) (\<lambda>(_, w'). ts_inv c leaves q w')
      (sbind (move_fingers c now q (event_of j) w) (move_gesture c leaves now q j))"
    unfolding safe_sbind by (rule safe_mono [OF f]) (auto intro: move_gesture_inv)
  from safe_mono [OF this]
  have "safe (ts_inv c leaves q) (ts_inv c leaves q)
      (sbind (sbind (move_fingers c now q (event_of j) w) (move_gesture c leaves now q j))
        (\<lambda>(ret, w). if ret = RFalse then cancel_now c leaves now q e w else Inr w))" for e
    unfolding safe_sbind [of _ _ "sbind _ _"] by this (auto intro: cancel_now_inv)
  then show ?thesis using assms(1) by (simp add: touchMove_def del: safe_sbind)
qed

section \<open>Ends, leaving and timeouts\<close>

lemma trigger_tap_inv:
  "ts_inv c leaves q w \<Longrightarrow>
   safe (ts_inv c leaves q) (\<lambda>(_, w'). ts_inv c leaves q w') (triggerHandlerForGesture c now q event ph g w)"
  by (rule safe_mono [OF trigger_gesture_mild]) (auto intro: mild_inv)

lemma end_gesture_inv:
  assumes "ts_inv c leaves q w"
  shows "safe (ts_inv c leaves q) (ts_inv c leaves q) (end_gesture c leaves now q event w)"
proof -
  have i: "ts_inv c leaves q ((out Prevented w)\<lparr>phase := ph\<rparr>)" "ts_inv c leaves q (w\<lparr>phase := ph\<rparr>)" for ph
    using assms by simp_all
  show ?thesis
    using assms safe_mono [OF triggerHandler_inv [OF i(1)]] safe_mono [OF trigger_tap_inv [OF i(2)]] cancel_now_inv [OF assms]
    by (auto simp: end_gesture_def)
qed

lemma touchEnd_inv:
  assumes "ts_inv c leaves q w"
  shows "safe (ts_inv c leaves q) (ts_inv c leaves q) (touchEnd c leaves now q j w)"
proof -
  have r: "safe (ts_inv c leaves q) (ts_inv c leaves q) (startMultiFingerRelease now n w)" if "SUPPORTS_TOUCH c" for n
    using assms that
    by (auto simp: startMultiFingerRelease_def Let_def ts_inv_def calm_def bound_ok_def ready_def log_ok_def split: option.split)
  have f: "ts_inv c leaves q (w\<lparr>fingerCount := previousTouchFingerCount w\<rparr>)"
    using assms by (auto simp: ts_inv_def calm_def bound_ok_def ready_def mouse_ok_def log_ok_def)
  have e: "safe (ts_inv c leaves q) (\<lambda>w. ts_inv c leaves q (setTouchInProgress leaves False w)) (end_gesture c leaves now q event x)"
    if "ts_inv c leaves q x" for event x
    by (rule safe_mono [OF end_gesture_inv [OF that]]) (auto intro: set_touch_inv)
  show ?thesis
    using r e f assms
    by (cases "SUPPORTS_TOUCH c") (auto simp: touchEnd_def Let_def intro!: touches_of_safe)
qed

lemma touchLeave_inv:
  "ts_inv c leaves q w \<Longrightarrow> safe (ts_inv c leaves q) (ts_inv c leaves q) (touchLeave c leaves now q j w)"
  by (auto simp: touchLeave_def Let_def intro!: safe_mono [OF triggerHandler_inv])

lemma ts_fire_inv:
  assumes "ts_inv c leaves q w"
  shows "safe (ts_inv c leaves q) (ts_inv c leaves q) (ts_fire q now i w)"
proof -
  have l: "log_ok c q w" using assms by (simp add: ts_inv_def)
  have m: "safe (mild c q w) (mild c q w) (run_waiting q a (ts_clearTimeout k w))" for a k
    using l by (cases a rule: waiting.exhaust)
      (auto simp: run_waiting_def mild_def split: option.split)
  have "safe (ts_inv c leaves q) (ts_inv c leaves q) (run_waiting q a (ts_clearTimeout k w))" for a k
    by (rule safe_mono [OF m]) (auto intro: mild_inv [OF _ assms])
  then show ?thesis using assms by (auto simp: ts_fire_def split: list.split)
qed

section \<open>Runs\<close>

lemma dispatch_inv:
  assumes "\<And>w. ts_inv c leaves q w \<Longrightarrow> safe (ts_inv c leaves q) (\<lambda>(_, w'). ts_inv c leaves q w') (h w)"
  shows "ts_inv c leaves q w \<Longrightarrow> safe (ts_inv c leaves q) (ts_inv c leaves q) (dispatch n h w)"
proof (induction n arbitrary: w)
  case 0
  then show ?case by simp
next
  case (Suc n)
  show ?case
    unfolding dispatch.simps safe_sbind by (rule safe_mono [OF assms [OF Suc.prems]]) (auto intro: Suc.IH)
qed

lemma quiet_inv: "safe P P r \<Longrightarrow> safe P (\<lambda>(_, w'). P w') (quiet r)"
  by (simp add: quiet_def)

text \<open>Events of a mouse have no identifier.\<close>

fun input_plain :: "support \<Rightarrow> ts_input \<Rightarrow> bool" where
  "input_plain c (InStart j) = plain c j"
| "input_plain c (InMove j) = plain c j"
| "input_plain c _ = True"

lemma ts_step_inv:
  assumes "ts_inv c leaves q w" and "input_plain c a"
  shows "safe (ts_inv c leaves q) (ts_inv c leaves q) (ts_step c leaves q now a w)"
proof (cases a)
  case (InMove j)
  show ?thesis
  proof (cases "intouch w")
    case True
    then have "b_move w = 1" using assms(1) by (simp add: ts_inv_def calm_def bound_ok_def)
    then show ?thesis
      using InMove assms quiet_inv [OF touchMove_inv [OF assms(1) True], of j now]
      by (auto simp: ts_step_def elim!: safe_mono)
  next
    case False
    then have "b_move w = 0" using assms(1) by (simp add: ts_inv_def calm_def bound_ok_def)
    then show ?thesis using InMove assms(1) by (simp add: ts_step_def)
  qed
qed (use assms in \<open>auto simp: ts_step_def intro!: dispatch_inv touchStart_inv quiet_inv touchEnd_inv touchLeave_inv ts_fire_inv\<close>)

text \<open>
  The states that an element reaches with options that stay as they are: from its creation, by events and timeouts,
  whether a handler returns or raises an error, and by the methods \<open>enable\<close> and \<open>disable\<close>.
\<close>

inductive ts_run :: "support \<Rightarrow> bool \<Rightarrow> ts_opts \<Rightarrow> swipe \<Rightarrow> bool" for c leaves q where
  created: "ts_run c leaves q new_swipe"
| returned: "ts_run c leaves q w \<Longrightarrow> input_plain c a \<Longrightarrow> ts_step c leaves q now a w = Inr w' \<Longrightarrow> ts_run c leaves q w'"
| raised: "ts_run c leaves q w \<Longrightarrow> input_plain c a \<Longrightarrow> ts_step c leaves q now a w = Inl (err, w') \<Longrightarrow> ts_run c leaves q w'"
| enabled: "ts_run c leaves q w \<Longrightarrow> ts_run c leaves q (ts_enable w)"
| disabled: "ts_run c leaves q w \<Longrightarrow> ts_run c leaves q (ts_disable leaves w)"

lemma new_inv: "ts_inv c leaves q new_swipe"
  by (simp add: ts_inv_def calm_def bound_ok_def mouse_ok_def straight_def log_ok_def new_swipe_def)

lemma methods_inv: "ts_inv c leaves q w \<Longrightarrow> ts_inv c leaves q (ts_enable w)"
  "ts_inv c leaves q w \<Longrightarrow> ts_inv c leaves q (ts_disable leaves w)"
  by (auto simp: ts_enable_def ts_disable_def removeListeners_def setTouchInProgress_def ts_inv_def calm_def bound_ok_def
      mouse_ok_def ready_def log_ok_def)

lemma ts_run_inv: "ts_run c leaves q w \<Longrightarrow> ts_inv c leaves q w"
proof (induction rule: ts_run.induct)
  case created
  show ?case by (rule new_inv)
next
  case (returned w a now w')
  from ts_step_inv [OF returned.IH returned.hyps(2), of now] returned.hyps(3) show ?case by simp
next
  case (raised w a now err w')
  from ts_step_inv [OF raised.IH raised.hyps(2), of now] raised.hyps(3) show ?case by simp
qed (auto intro: methods_inv)

lemma ts_run_logged: "ts_run c leaves q w \<Longrightarrow> Fired n p \<in> set (ts_log w) \<Longrightarrow> payload_ok c q n p"
  using ts_run_inv [of c leaves q w] by (auto simp: ts_inv_def log_ok_def list_all_iff out_ok_def)

end
