(* ===== verification/TsSound.thy ===== *)
theory TsSound
  imports TsReach
begin

text \<open>
  Touches that are handled without an error: in every state that an element reaches, a handler finds the data of the
  fingers and the largest distances that it reads and writes, so that only an event that lacks something raises an error.
\<close>

section \<open>Events with all that handlers read\<close>

text \<open>
  The event of the browser is there, with a list of touches where the browser has touches. A start needs a touch, a move a
  first touch that is known; of two touches the second one is read too, unless the start of the pinch is still to be set.
  The end of one of several touches reads the global variable \<open>event\<close>, and a single tap that waits needs its target.
\<close>

definition heard :: "support \<Rightarrow> jq_event \<Rightarrow> bool" where
  "heard c j = (case jq_original j of Some e \<Rightarrow> SUPPORTS_TOUCH c \<longrightarrow> ev_touches e \<noteq> None | None \<Rightarrow> False)"

definition touch_list :: "jq_event \<Rightarrow> touch list" where
  "touch_list j = (case ev_touches (event_of j) of Some ts \<Rightarrow> ts | None \<Rightarrow> [])"

definition known :: "swipe \<Rightarrow> touch \<Rightarrow> bool" where
  "known w t = (touch_id t \<in> f_identifier ` set (fingerData w))"

fun complete_input :: "support \<Rightarrow> swipe \<Rightarrow> ts_input \<Rightarrow> bool" where
  "complete_input c w (InStart j) = (heard c j \<and> (SUPPORTS_TOUCH c \<longrightarrow> touch_list j \<noteq> []))"
| "complete_input c w (InMove j) = (heard c j \<and> (SUPPORTS_TOUCH c \<longrightarrow> touch_list j \<noteq> [] \<and> known w (touch_list j ! 0) \<and>
     (length (touch_list j) = 2 \<and> startTouchesDistance w \<noteq> 0 \<longrightarrow> known w (touch_list j ! 1))))"
| "complete_input c w (InEnd j) = (heard c j \<and> (SUPPORTS_TOUCH c \<and> touch_list j \<noteq> [] \<longrightarrow> jq_global j))"
| "complete_input c w (InLeave j) = heard c j"
| "complete_input c w InCancel = True"
| "complete_input c w (InTimeout i) = list_all (\<lambda>t. to_id t = i \<longrightarrow> to_what t \<noteq> WSingleTap None) (timeouts w)"

section \<open>Results without an error\<close>

definition fine :: "'a outcome \<Rightarrow> bool" where
  "fine r = (case r of Inl _ \<Rightarrow> False | Inr _ \<Rightarrow> True)"

lemma fine_simps [simp]: "fine (Inr a)" "\<not> fine (Inl e)" "fine (if b then r else r') = (if b then fine r else fine r')"
  by (simp_all add: fine_def)

lemma sbind_Inr [simp]: "sbind (Inr a) k = k a"
  by (simp add: sbind_def)

lemma fine_sbind: "fine r \<Longrightarrow> (\<And>a. fine (k a)) \<Longrightarrow> fine (sbind r k)"
  by (cases r) (simp_all add: sbind_def)

lemma fine_known: "fine r \<Longrightarrow> safe P Q r \<Longrightarrow> (\<And>a. r = Inr a \<Longrightarrow> Q a \<Longrightarrow> fine (k a)) \<Longrightarrow> fine (sbind r k)"
  by (cases r) (simp_all add: sbind_def)

definition full :: "support \<Rightarrow> ts_event option \<Rightarrow> bool" where
  "full c event = (case event of Some e \<Rightarrow> SUPPORTS_TOUCH c \<longrightarrow> ev_touches e \<noteq> None | None \<Rightarrow> False)"

lemma heard_full: "heard c j \<Longrightarrow> full c (jq_original j) \<and> full c (Some (event_of j))"
  by (auto simp: heard_def full_def event_of_def split: option.splits)

lemma touches_fine: "full c event \<Longrightarrow> SUPPORTS_TOUCH c \<Longrightarrow> fine (touches_of event w)"
  by (auto simp: full_def touches_of_def split: option.splits)

lemma target_fine: "full c event \<Longrightarrow> fine (target_of event w)"
  by (auto simp: full_def target_of_def split: option.splits)

lemma gesture_fine: "full c event \<Longrightarrow> fine (triggerHandlerForGesture c now q event ph g w)"
  by (cases g) (auto simp: triggerHandlerForGesture_def gesture_tap_def gesture_other_tap_def Let_def split_beta
      intro!: fine_sbind target_fine)

lemma triggers_fine:
  assumes "full c event"
  shows "fine (trigger_swipe_or_pinch c now q event ph w)" "fine (trigger_taps c now q event ph rw)"
    "fine (trigger_reset c leaves event ph rw)"
proof -
  show "fine (trigger_swipe_or_pinch c now q event ph w)" "fine (trigger_taps c now q event ph rw)"
    by (simp_all add: trigger_swipe_or_pinch_def trigger_taps_def split_beta gesture_fine [OF assms])
  show "fine (trigger_reset c leaves event ph rw)"
    using touches_fine [OF assms] by (simp add: trigger_reset_def split_beta fine_sbind)
qed

lemma triggerHandler_fine: "full c event \<Longrightarrow> fine (triggerHandler c leaves now q event ph w)"
  unfolding triggerHandler_def by (intro fine_sbind triggers_fine)

lemma cancel_now_fine: "full c event \<Longrightarrow> fine (cancel_now c leaves now q event w)"
  by (auto simp: cancel_now_def split_beta intro!: fine_sbind triggerHandler_fine)

section \<open>Starts\<close>

lemma create_fine: "length (fingerData w) = 6 \<Longrightarrow> m < 6 \<Longrightarrow>
  \<exists>w'. createFingerData m t w = Inr w' \<and> length (fingerData w') = 6 \<and> fingerCount w' = fingerCount w"
  by (simp add: createFingerData_def)

lemma second_finger_fine:
  assumes "ev_touches e = Some ts" and "2 \<le> length ts" and "length (fingerData w) = 6"
  shows "fine (second_finger_start e w)"
  using assms by (auto simp: second_finger_start_def touches_of_def touch_at_def createFingerData_def finger_of_def Let_def)

lemma start_fingers_fine:
  assumes "length (fingerData w) = 6" and "evt = Inr t"
    and "fingerCount w = 2 \<longrightarrow> (\<exists>ts. ev_touches e = Some ts \<and> 2 \<le> length ts)"
  shows "fine (start_fingers now e evt w)"
proof -
  obtain u where u: "createFingerData 0 t w = Inr u" "length (fingerData u) = 6" "fingerCount u = fingerCount w"
    using create_fine [OF assms(1)] by fastforce
  have "fine (second_finger_start e (u\<lparr>startTime := now\<rparr>))" if "fingerCount u = 2"
    using second_finger_fine assms(3) u that by auto
  then show ?thesis using u assms(2) by (simp add: start_fingers_def Let_def)
qed

lemma clear_vars_data: "length (fingerData (clear_vars w)) = 6" "fingerCount (clear_vars w) = fingerCount w"
  by (simp_all add: clear_vars_def cancelMultiFingerRelease_def createAllFingerData_def)

lemma touchStart_fine:
  assumes "ts_inv c leaves q w" and "heard c j" and "SUPPORTS_TOUCH c \<longrightarrow> touch_list j \<noteq> []"
  shows "fine (touchStart c leaves now q j w)"
proof -
  let ?e = "event_of j"
  have full: "full c (Some ?e)" using heard_full [OF assms(2)] by simp
  have finish: "fine (finish_start c leaves now q ?e (r, x))" for r x
    by (auto simp: finish_start_def split_beta intro!: fine_sbind triggerHandler_fine full)
  have gest: "fine (sbind (start_gesture c leaves now q ?e (Inr t) x) (finish_start c leaves now q ?e))"
    if "length (fingerData x) = 6" "fingerCount x = 2 \<longrightarrow> (\<exists>ts. ev_touches ?e = Some ts \<and> 2 \<le> length ts)" for t x
    using start_fingers_fine [OF that(1) refl that(2)] finish
    by (auto simp: start_gesture_def intro!: fine_sbind triggerHandler_fine full)
  show ?thesis
  proof (cases "SUPPORTS_TOUCH c")
    case True
    then obtain ts where ts: "ev_touches ?e = Some ts" "ts \<noteq> []"
      using full assms(3) by (auto simp: full_def touch_list_def)
    have "main_touch c ?e w = Inr (ts ! 0)" using ts True by (simp add: main_touch_def touches_of_def touch_at_def)
    then show ?thesis
      using True ts gest clear_vars_data by (simp add: touchStart_def touches_of_def Let_def)
  next
    case False
    then have "main_touch c ?e w = Inr (ev_point ?e)" by (simp add: main_touch_def)
    moreover have "fingerCount w = 0" using assms(1) False by (simp add: ts_inv_def calm_def mouse_ok_def)
    ultimately show ?thesis
      using False gest clear_vars_data by (simp add: touchStart_def Let_def out_def)
  qed
qed

section \<open>Moves\<close>

lemma getFingerData_known:
  "touch_id t \<in> f_identifier ` set (fingerData w) \<Longrightarrow>
   \<exists>i. getFingerData (touch_id t) w = Some i \<and> i < length (fingerData w) \<and> f_identifier (fingerData w ! i) = touch_id t"
proof -
  have "n \<in> f_identifier ` set fs \<Longrightarrow> \<exists>i. getFingerData_from k n fs = Some (k + i) \<and> i < length fs \<and> f_identifier (fs ! i) = n"
    for k n fs
  proof (induction fs arbitrary: k)
    case (Cons f fs)
    show ?case
    proof (cases "f_identifier f = n")
      case False
      then obtain i where "getFingerData_from (Suc k) n fs = Some (Suc k + i)" "i < length fs" "f_identifier (fs ! i) = n"
        using Cons.IH [of "Suc k"] Cons.prems by auto
      then show ?thesis using False by (intro exI [of _ "Suc i"]) simp
    qed simp
  qed simp
  from this [of "touch_id t" "fingerData w" 0]
  show "touch_id t \<in> f_identifier ` set (fingerData w) \<Longrightarrow> ?thesis" by (auto simp: getFingerData_def)
qed

text \<open>Moving the end of a finger keeps the identifiers.\<close>

lemma update_fine:
  assumes "known w t"
  obtains i u where "updateFingerData t w = Inr (i, u)" "i < length (fingerData w)"
    "map f_identifier (fingerData u) = map f_identifier (fingerData w)" "startTouchesDistance u = startTouchesDistance w"
    "fingerCount u = fingerCount w"
proof -
  obtain i where i: "getFingerData (touch_id t) w = Some i" "i < length (fingerData w)"
    using getFingerData_known assms by (auto simp: known_def)
  have "map f_identifier ((fingerData w)[i := (fingerData w ! i)\<lparr>f_end := p\<rparr>]) = map f_identifier (fingerData w)" for p
    using i(2) by (simp add: map_update list_update_same_conv)
  then show ?thesis using that i by (simp add: updateFingerData_def)
qed

lemma known_cong: "map f_identifier (fingerData u) = map f_identifier (fingerData w) \<Longrightarrow> known u t = known w t"
  by (simp add: known_def flip: set_map)

lemma move_pinch_fine:
  assumes "length (fingerData w) = 6"
    and "fingerCount w = 2 \<longrightarrow> (\<exists>ts. ev_touches e = Some ts \<and> length ts = 2 \<and> (startTouchesDistance w \<noteq> 0 \<longrightarrow> known w (ts ! 1)))"
  shows "fine (move_pinch e w)"
proof (cases "fingerCount w = 2")
  case True
  then obtain ts where ts: "ev_touches e = Some ts" "length ts = 2" "startTouchesDistance w \<noteq> 0 \<longrightarrow> known w (ts ! 1)"
    using assms(2) by blast
  show ?thesis
  proof (cases "startTouchesDistance w = 0")
    case True
    then show ?thesis using second_finger_fine [OF ts(1) _ assms(1)] ts(2) by (auto simp: move_pinch_def intro: fine_sbind)
  next
    case False
    obtain i u where u: "updateFingerData (ts ! 1) w = Inr (i, u)" "map f_identifier (fingerData u) = map f_identifier (fingerData w)"
      using update_fine ts(3) False by metis
    then have "length (fingerData u) = 6" using assms(1) by (metis length_map)
    then show ?thesis
      using False u ts by (auto simp: move_pinch_def touches_of_def touch_at_def finger_of_def Let_def)
  qed
qed (simp add: move_pinch_def)

lemma clearTimeout_data [simp]: "fingerData (ts_clearTimeout i w) = fingerData w"
  "fingerCount (ts_clearTimeout i w) = fingerCount w" "startTouchesDistance (ts_clearTimeout i w) = startTouchesDistance w"
  by (simp_all add: ts_clearTimeout_def split: option.split)

lemma move_fingers_fine:
  assumes "ready c w" and "main_touch c e w = Inr t" and "known w t" and "\<not> SUPPORTS_TOUCH c \<longrightarrow> fingerCount w = 0"
    and "SUPPORTS_TOUCH c \<longrightarrow> (\<exists>ts. ev_touches e = Some ts \<and>
      (length ts = 2 \<and> startTouchesDistance w \<noteq> 0 \<longrightarrow> known w (ts ! 1)))"
  shows "fine (move_fingers c now q e w)"
proof -
  obtain i u where u: "updateFingerData t w = Inr (i, u)" "map f_identifier (fingerData u) = map f_identifier (fingerData w)"
    "startTouchesDistance u = startTouchesDistance w" "fingerCount u = fingerCount w"
    using update_fine [OF assms(3)] by metis
  have k: "known x t = known w t" if "fingerData x = fingerData u" for x t
    using known_cong [OF u(2)] that by (simp add: known_def)
  have l: "length (fingerData u) = 6" using u(2) assms(1) by (metis length_map ready_def)
  have m: "fine (move_pinch e x)" if "fingerData x = fingerData u" "startTouchesDistance x = startTouchesDistance w"
      "fingerCount x = (if SUPPORTS_TOUCH c then length (case ev_touches e of Some ts \<Rightarrow> ts | None \<Rightarrow> []) else 0)" for x
    using assms(5) k [OF that(1)] l that by (intro move_pinch_fine) (auto split: if_splits)
  show ?thesis
    using assms(2,4,5) u(1,3,4) m
    by (cases "SUPPORTS_TOUCH c") (auto simp: move_fingers_def touches_of_def Let_def intro!: fine_sbind [of "move_pinch _ _"])
qed

lemma move_gesture_fine:
  assumes "midway c leaves q i w" and "heard c j"
  shows "fine (move_gesture c leaves now q j (i, w))"
proof -
  have full: "full c (Some (event_of j))" using heard_full [OF assms(2)] by simp
  have measure: "fine (move_measure q i w)"
  proof -
    have "map fst (maximumsMap w) = [LEFT, RIGHT, UP, DOWN]" using assms(1) by (simp add: midway_def ready_def)
    then have "\<exists>v. map_of (maximumsMap w) (calculateDirection p p') = Some v" for p p'
      using map_of_keys direction_of_four [of p p'] by auto
    then have "fine (setMaxDistance (calculateDirection p p') n x)" if "maximumsMap x = maximumsMap w" for p p' n x
      using that by (auto simp: setMaxDistance_def getMaxDistance_def split: option.split)
    then show ?thesis by (simp add: move_measure_def Let_def out_def)
  qed
  have "fine (move_handlers c leaves now q j i x)" for x
    by (auto simp: move_handlers_def move_bounds_def Let_def split_beta intro!: fine_sbind triggerHandler_fine full)
  then show ?thesis
    using measure full by (auto simp: move_gesture_def intro!: fine_sbind cancel_now_fine)
qed

lemma touchMove_fine:
  assumes "ts_inv c leaves q w" and "intouch w" and "plain c j" and "complete_input c w (InMove j)"
  shows "fine (touchMove c leaves now q j w)"
proof -
  have heard: "heard c j" using assms(4) by simp
  have full: "full c (Some (event_of j))" using heard_full [OF heard] by simp
  have r: "ready c w" using assms(1,2) by (simp add: ts_inv_def calm_def)
  have moved: "safe (ts_inv c leaves q) (\<lambda>(i, w'). midway c leaves q i w') (move_fingers c now q (event_of j) w)"
    using move_fingers_touch [OF assms(1,2)] move_fingers_mouse [OF assms(1,2)] assms(3) by (auto simp: plain_def)
  have "fine (move_fingers c now q (event_of j) w)"
  proof (cases "SUPPORTS_TOUCH c")
    case True
    then obtain ts where ts: "ev_touches (event_of j) = Some ts" using full by (auto simp: full_def)
    then have "touch_list j = ts" by (simp add: touch_list_def)
    moreover from this have "main_touch c (event_of j) w = Inr (ts ! 0)"
      using True ts assms(4) by (simp add: main_touch_def touches_of_def touch_at_def)
    ultimately show ?thesis using r True ts assms(4) by (intro move_fingers_fine [of c w _ "ts ! 0"]) simp_all
  next
    case False
    have "touch_id (ev_point (event_of j)) = 0" using assms(3) False by (simp add: plain_def touch_id_def)
    then have "known w (ev_point (event_of j))"
      using r False by (cases "fingerData w") (auto simp: ready_def known_def)
    moreover have "fingerCount w = 0" using assms(1) False by (simp add: ts_inv_def calm_def mouse_ok_def)
    ultimately show ?thesis
      using r False by (intro move_fingers_fine [of c w _ "ev_point (event_of j)"]) (simp_all add: main_touch_def)
  qed
  then have "fine (sbind (move_fingers c now q (event_of j) w) (move_gesture c leaves now q j))"
    using moved by (rule fine_known) (auto intro: move_gesture_fine heard)
  then show ?thesis by (auto simp: touchMove_def intro!: fine_sbind cancel_now_fine full)
qed

section \<open>Ends, leaving and timeouts\<close>

lemma touchEnd_fine:
  assumes "complete_input c w (InEnd j)"
  shows "fine (touchEnd c leaves now q j w)"
proof -
  have heard: "heard c j" using assms by simp
  have full: "full c (jq_original j)" using heard_full [OF heard] by simp
  have e: "fine (end_gesture c leaves now q (jq_original j) x)" for x
    by (auto simp: end_gesture_def split_beta intro!: fine_sbind cancel_now_fine triggerHandler_fine gesture_fine full)
  show ?thesis
  proof (cases "SUPPORTS_TOUCH c")
    case True
    then obtain ev ts where ev: "jq_original j = Some ev" "ev_touches ev = Some ts" using full by (auto simp: full_def split: option.splits)
    then have "touch_list j = ts" by (simp add: touch_list_def event_of_def)
    then show ?thesis
      using True ev e assms
      by (auto simp: touchEnd_def touches_of_def startMultiFingerRelease_def Let_def intro!: fine_sbind)
  next
    case False
    then show ?thesis using e by (auto simp: touchEnd_def Let_def intro!: fine_sbind)
  qed
qed

lemma touchLeave_fine: "heard c j \<Longrightarrow> fine (touchLeave c leaves now q j w)"
  using heard_full by (auto simp: touchLeave_def Let_def split_beta intro!: fine_sbind triggerHandler_fine)

lemma ts_fire_fine:
  assumes "complete_input c w (InTimeout i)"
  shows "fine (ts_fire q now i w)"
proof (cases "filter (\<lambda>t. to_id t = i \<and> to_due t \<le> now) (timeouts w)")
  case (Cons t ts)
  then have "t \<in> set (filter (\<lambda>t. to_id t = i \<and> to_due t \<le> now) (timeouts w))" by simp
  then have "to_what t \<noteq> WSingleTap None" using assms by (auto simp: list_all_iff)
  then show ?thesis
    by (auto simp: ts_fire_def Cons run_waiting_def split: waiting.split option.split)
qed (simp add: ts_fire_def)

section \<open>Steps\<close>

lemma dispatch_fine:
  assumes "\<And>w. ts_inv c leaves q w \<Longrightarrow> safe (ts_inv c leaves q) (\<lambda>(_, w'). ts_inv c leaves q w') (h w)"
    and "\<And>w. ts_inv c leaves q w \<Longrightarrow> fine (h w)"
  shows "ts_inv c leaves q w \<Longrightarrow> fine (dispatch n h w)"
proof (induction n arbitrary: w)
  case (Suc n)
  show ?case
    unfolding dispatch.simps by (rule fine_known [OF assms(2) [OF Suc.prems] assms(1) [OF Suc.prems]]) (auto intro: Suc.IH)
qed simp

lemma quiet_fine: "fine r \<Longrightarrow> fine (quiet r)"
  by (auto simp: quiet_def intro: fine_sbind)

lemma ts_step_fine:
  assumes "ts_inv c leaves q w" and "input_plain c a" and "complete_input c w a"
  shows "fine (ts_step c leaves q now a w)"
proof (cases a)
  case (InMove j)
  have b: "b_move w = (if intouch w then 1 else 0)" using assms(1) by (simp add: ts_inv_def calm_def bound_ok_def)
  show ?thesis
    using InMove assms b quiet_fine [OF touchMove_fine [OF assms(1), of j now]]
    by (cases "intouch w") (auto simp: ts_step_def split_beta intro!: fine_sbind)
next
  case (InEnd j)
  have b: "b_end w \<le> 1" using assms(1) by (simp add: ts_inv_def calm_def bound_ok_def)
  then have n: "b_end w = 0 \<or> b_end w = 1" by auto
  show ?thesis
    using InEnd assms(3) n quiet_fine [OF touchEnd_fine [of c w j]]
    by (auto simp: ts_step_def split_beta intro!: fine_sbind)
next
  case (InLeave j)
  then show ?thesis
    using assms by (auto simp: ts_step_def intro!: dispatch_fine quiet_inv touchLeave_inv quiet_fine touchLeave_fine)
next
  case (InTimeout i)
  then show ?thesis using ts_fire_fine assms(3) by (simp add: ts_step_def)
qed (use assms in \<open>auto simp: ts_step_def intro!: dispatch_fine touchStart_inv touchStart_fine\<close>)

lemma ts_run_fine:
  assumes "ts_run c leaves q w" and "input_plain c a" and "complete_input c w a"
  shows "fine (ts_step c leaves q now a w)"
  using ts_step_fine [OF ts_run_inv] assms by blast

end
