(* ===== verification/TsProps.thy ===== *)
theory TsProps
  imports TsSound
begin

text \<open>
  Properties of the touch gestures: what a reported swipe means, when the element listens, and the behaviours of the
  code that its documentation does not promise.
\<close>

section \<open>Inputs to evaluate with\<close>

definition mouse_only :: support where
  "mouse_only = \<lparr>SUPPORTS_TOUCH = False, SUPPORTS_POINTER_IE10 = False, SUPPORTS_POINTER = False\<rparr>"

definition with_touch :: support where
  "with_touch = \<lparr>SUPPORTS_TOUCH = True, SUPPORTS_POINTER_IE10 = False, SUPPORTS_POINTER = False\<rparr>"

definition finger_at :: "int \<Rightarrow> int \<Rightarrow> int \<Rightarrow> touch" where
  "finger_at i x y = \<lparr>tc_identifier = Some i, tc_pageX = x, tc_pageY = y, tc_clientX = x, tc_clientY = y\<rparr>"

definition browser_event :: "ts_event \<Rightarrow> jq_event" where
  "browser_event e = \<lparr>jq_original = Some e, jq_own = e, jq_excluded = False, jq_offset = (0, 0), jq_size = (500, 500),
     jq_global = True\<rparr>"

definition mouse_at :: "int \<Rightarrow> int \<Rightarrow> jq_event" where
  "mouse_at x y = browser_event \<lparr>ev_touches = None, ev_point = (finger_at 0 x y)\<lparr>tc_identifier := None\<rparr>, ev_target = 7\<rparr>"

definition touches_at :: "touch list \<Rightarrow> jq_event" where
  "touches_at ts = browser_event \<lparr>ev_touches = Some ts, ev_point = finger_at 0 0 0, ev_target = 7\<rparr>"

definition handler_set :: "(string \<times> oval) list \<Rightarrow> ts_opts" where
  "handler_set kvs = read_opts (extend_opts defaults (\<lambda>k. case map_of kvs k of Some v \<Rightarrow> v | None \<Rightarrow> OUndef))"

definition ignoring :: oval where
  "ignoring = OFun (\<lambda>_. ROther)"

fun inputs :: "support \<Rightarrow> bool \<Rightarrow> ts_opts \<Rightarrow> (int \<times> ts_input) list \<Rightarrow> swipe \<Rightarrow> swipe outcome" where
  "inputs c leaves q [] w = Inr w"
| "inputs c leaves q ((now, a) # as) w = sbind (ts_step c leaves q now a w) (inputs c leaves q as)"

lemma inputs_run:
  "ts_run c leaves q w \<Longrightarrow> list_all (\<lambda>(_, a). input_plain c a) as \<Longrightarrow> inputs c leaves q as w = Inr w' \<Longrightarrow>
   ts_run c leaves q w'"
proof (induction as arbitrary: w)
  case (Cons na as)
  obtain now a where na: "na = (now, a)" by (cases na)
  then obtain u where u: "ts_step c leaves q now a w = Inr u" "inputs c leaves q as u = Inr w'"
    using Cons.prems(3) by (auto simp: sbind_Inr_iff)
  show ?case using Cons.prems(1,2) na by (intro Cons.IH [OF ts_run.returned [OF _ _ u(1)] _ u(2)]) auto
qed simp

definition left_swipe :: "(int \<times> ts_input) list" where
  "left_swipe = [(1000, InStart (mouse_at 300 100)), (1050, InMove (mouse_at 200 110)), (1100, InEnd (mouse_at 200 110))]"

definition left_opts :: ts_opts where
  "left_opts = handler_set [(''swipeLeft'', ignoring), (''maxTimeThreshold'', ONum 400)]"

definition left_end :: "swipe outcome" where
  "left_end = inputs mouse_only True left_opts left_swipe new_swipe"

definition left_finger :: finger where
  "left_finger = \<lparr>f_start = \<lparr>px = 300, py = 100\<rparr>, f_end = \<lparr>px = 200, py = 110\<rparr>, f_identifier = 0\<rparr>"

definition left_report :: ts_out where
  "left_report = Fired ''swipe'' (PSwipe (Some LEFT) 100 100 0 (left_finger # replicate 5 no_finger))"

lemma left_end_logged: "case left_end of Inl _ \<Rightarrow> False | Inr w \<Rightarrow> left_report \<in> set (ts_log w)"
  by code_simp

lemma left_end_run: "\<exists>w. ts_run mouse_only True left_opts w \<and> left_report \<in> set (ts_log w)"
proof -
  obtain w where w: "left_end = Inr w" "left_report \<in> set (ts_log w)" using left_end_logged by (auto split: sum.splits)
  have "ts_run mouse_only True left_opts w"
    by (rule inputs_run [OF ts_run.created _ w(1) [unfolded left_end_def]])
      (simp add: left_swipe_def plain_def mouse_at_def browser_event_def event_of_def finger_at_def)
  with w(2) show ?thesis by blast
qed

definition touch_swipe :: "(int \<times> ts_input) list" where
  "touch_swipe = [(1000, InStart (touches_at [finger_at 0 300 100])), (1050, InMove (touches_at [finger_at 0 200 110])),
     (1100, InEnd (touches_at []))]"

definition touch_report :: ts_out where
  "touch_report = Fired ''swipe'' (PSwipe (Some LEFT) 100 100 1 (left_finger # replicate 5 no_finger))"

lemma touch_end_logged:
  "case inputs with_touch False left_opts touch_swipe new_swipe of Inl _ \<Rightarrow> False | Inr w \<Rightarrow> touch_report \<in> set (ts_log w)"
  by code_simp

lemma touch_end_run: "\<exists>w. ts_run with_touch False left_opts w \<and> touch_report \<in> set (ts_log w)"
proof -
  obtain w where w: "inputs with_touch False left_opts touch_swipe new_swipe = Inr w" "touch_report \<in> set (ts_log w)"
    using touch_end_logged by (auto split: sum.splits)
  have "ts_run with_touch False left_opts w"
    by (rule inputs_run [OF ts_run.created _ w(1)])
      (simp add: touch_swipe_def with_touch_def plain_def touches_at_def browser_event_def event_of_def finger_at_def)
  with w(2) show ?thesis by blast
qed





section \<open>Properties\<close>

text \<open>C36: A swipe is reported only when the gesture has what the options ask for: the distance has reached the threshold,
  the time is below the limit, and the name of the event is that of the direction it reports. In a browser with touches the
  number of fingers is the one asked for, when the options ask for one; in a browser without touches the number of fingers
  is not compared, and swipes of the mouse are reported with no fingers whatever number is asked for. This holds after all
  sequences of touches, mouse events, timeouts, errors and calls of enable and disable.\<close>

theorem reported_swipes_valid:
  assumes "ts_run c leaves q w" and "Fired n (PSwipe d k t m fs) \<in> set (ts_log w)"
  shows "(case t_threshold q of Some b \<Rightarrow> b \<le> k | None \<Rightarrow> True) \<and>
    (case t_maxTimeThreshold q of Some b \<Rightarrow> b = 0 \<or> t < b | None \<Rightarrow> True) \<and>
    (if SUPPORTS_TOUCH c then t_fingers q = Some (int m) \<or> t_fingers q = None else m = 0) \<and>
    (n = ''swipe'' \<or> n = ''swipeLeft'' \<and> d = Some LEFT \<or> n = ''swipeRight'' \<and> d = Some RIGHT \<or>
     n = ''swipeUp'' \<and> d = Some UP \<or> n = ''swipeDown'' \<and> d = Some DOWN)"
  using ts_run_logged [OF assms] by (auto simp: payload_ok_def swipe_name_def fingers_ok_def split: option.splits)

theorem reported_swipes_valid_witness:
  "\<exists>w :: swipe. touch_report \<in> set (ts_log w) \<and> t_fingers left_opts = Some 1"
proof -
  obtain w where r: "ts_run with_touch False left_opts w" "touch_report \<in> set (ts_log w)" using touch_end_run by blast
  have s: "SUPPORTS_TOUCH with_touch" "t_fingers left_opts \<noteq> None" by (simp add: with_touch_def) code_simp
  from reported_swipes_valid [OF r(1) r(2) [unfolded touch_report_def]] r(2) s show ?thesis by auto
qed

text \<open>C37: With a mouse, a reported swipe is the straight line from where the button went down to where the mouse was last
  seen: its distance is the rounded Euclidean distance, and its direction is left or right only if the line is less than
  three percent steeper than the diagonal, and up or down only if it is steeper than the diagonal.\<close>

theorem mouse_swipe_is_line:
  assumes "ts_run c leaves q w" and "\<not> SUPPORTS_TOUCH c" and "Fired n (PSwipe (Some d) k t m fs) \<in> set (ts_log w)"
  shows "\<exists>f r. fs = f # r \<and> along d (f_start f) (f_end f) \<and>
    k = round (sqrt ((of_int (px (f_end f)) - of_int (px (f_start f)))\<^sup>2 + (of_int (py (f_end f)) - of_int (py (f_start f)))\<^sup>2))"
proof -
  have "straight (Some d) k fs" using ts_run_logged [OF assms(1,3)] assms(2) by (simp add: payload_ok_def)
  then obtain f r where "fs = f # r" "d = calculateDirection (f_start f) (f_end f)"
    "k = calculateDistance (f_start f) (f_end f)" by (auto simp: straight_def split: list.splits)
  then show ?thesis using calculateDirection_along [of "f_start f" "f_end f"] by (simp add: calculateDistance_real)
qed

theorem mouse_swipe_is_line_witness:
  "\<exists>w :: swipe. left_report \<in> set (ts_log w) \<and> along LEFT (f_start left_finger) (f_end left_finger)"
proof -
  obtain w where r: "ts_run mouse_only True left_opts w" "left_report \<in> set (ts_log w)" using left_end_run by blast
  have "\<not> SUPPORTS_TOUCH mouse_only" by (simp add: mouse_only_def)
  from mouse_swipe_is_line [OF r(1) this r(2) [unfolded left_report_def]] r(2) show ?thesis by auto
qed

text \<open>C39: The element listens to moves, ends and leaving exactly while a touch is in progress, and has each of these
  handlers bound once, however often it is enabled and whatever errors handlers raise.\<close>

theorem listens_while_touched:
  assumes "ts_run c leaves q w"
  shows "b_move w = (if intouch w then 1 else 0) \<and> b_end w = b_move w \<and> b_leave w = (if leaves then b_move w else 0)"
  using ts_run_inv [OF assms] by (simp add: ts_inv_def calm_def bound_ok_def)

theorem listens_while_touched_witness:
  "b_move (ts_enable new_swipe) = 0 \<and> b_start (ts_enable new_swipe) = 2"
proof -
  have "ts_run with_touch False left_opts (ts_enable new_swipe)" by (intro ts_run.enabled ts_run.created)
  from listens_while_touched [OF this] show ?thesis by (simp add: ts_enable_def new_swipe_def)
qed



section \<open>What the code does instead\<close>

text \<open>Letting go does not stop the timeout of \<open>hold\<close>: the handler runs for a touch that ended long before.\<close>

lemma hold_after_release:
  "case inputs mouse_only True (handler_set [(''hold'', ignoring)])
     [(1000, InStart (mouse_at 300 100)), (1100, InEnd (mouse_at 300 100)), (1500, InTimeout 1)] new_swipe of
     Inl _ \<Rightarrow> False | Inr w \<Rightarrow> \<not> intouch w \<and> last (ts_log w) = Called ''hold'' (PTarget 7)"
  by code_simp

text \<open>
  A pinch over 60 pixels, three times its threshold, is cancelled: the end of a touch asks for the distance of a swipe, 75
  pixels of the first finger. The reported direction is \<open>in\<close> although the factor is 0.40, because it is computed from the
  factor before the move.
\<close>

lemma pinch_cancelled:
  "case inputs with_touch False (handler_set [(''pinchIn'', ignoring), (''pinchOut'', ignoring), (''fingers'', ONum 2)])
     [(1000, InStart (touches_at [finger_at 0 300 100, finger_at 1 400 100])),
      (1100, InMove (touches_at [finger_at 0 330 100, finger_at 1 370 100])), (1500, InEnd (touches_at []))] new_swipe of
     Inl _ \<Rightarrow> False | Inr w \<Rightarrow> (case ts_log w of
       [Prevented, Fired n (PPinchStatus ph d k t m z fs)] \<Rightarrow> ph = PHASE_CANCEL \<and> d = Some IN \<and> k = 60 \<and> z = Hundredths 40
     | _ \<Rightarrow> False)"
  by code_simp

text \<open>
  When the first of three fingers has been lifted, moving the others raises an error: their identifiers are not stored.
\<close>

lemma move_without_first_finger:
  "case inputs with_touch False (handler_set [(''fingers'', ONum 3), (''swipe'', ignoring)])
     [(1000, InStart (touches_at [finger_at 0 300 100, finger_at 1 310 100, finger_at 2 320 100])),
      (1100, InEnd (touches_at [finger_at 1 310 100, finger_at 2 320 100])),
      (1500, InMove (touches_at [finger_at 1 315 100, finger_at 2 325 100]))] new_swipe of
     Inl (e, w) \<Rightarrow> e = TypeErr \<and> intouch w | Inr _ \<Rightarrow> False"
  by code_simp

text \<open>A swipe to the left edge of the page is not reported: the coordinate zero counts as no end point.\<close>

lemma swipe_to_edge_lost:
  "case inputs mouse_only True left_opts
     [(1000, InStart (mouse_at 300 100)), (1050, InMove (mouse_at 0 100)), (1100, InEnd (mouse_at 0 100))] new_swipe of
     Inl _ \<Rightarrow> False | Inr w \<Rightarrow> (case last (ts_log w) of
       Fired n (PStatus ph d k t m fs) \<Rightarrow> ph = PHASE_END \<and> d = Some LEFT \<and> k = 300 | _ \<Rightarrow> False)"
  by code_simp

text \<open>With a handler of swipes, no pinch is ever reported, whatever the swipe handler returns.\<close>

lemma no_pinch_with_swipes:
  "hasSwipes q \<Longrightarrow> trigger_swipe_or_pinch c now q event ph w = Inr (gesture_swipe c q ph w)"
  by (simp add: trigger_swipe_or_pinch_def triggerHandlerForGesture_def)

text \<open>Calling the plugin without options raises an error, before the line that would make up empty options.\<close>

lemma no_options_raises: "pg_data p n = None \<Longrightarrow> fn_swipe c (n # ns) CallNothing p = Inl TypeErr"
  by (simp add: fn_swipe_def ts_init_def init_given_def sbind_def)

text \<open>The elements of one call share their options: setting an option of one sets it for the other.\<close>

definition two_elements :: "jserr + ts_page" where
  "two_elements = sbind (fn_swipe mouse_only [1, 2] (CallWith (\<lambda>_. OUndef)) \<lparr>pg_data = \<lambda>_. None, pg_instances = [], pg_options = []\<rparr>)
     (\<lambda>(_, p). sbind (fn_swipe mouse_only [1] (CallName ''option'' [OStr ''threshold'', ONum 9]) p) (\<lambda>(_, p). Inr p))"

lemma options_shared:
  "case two_elements of Inl _ \<Rightarrow> False | Inr p \<Rightarrow>
     (case fn_swipe mouse_only [2] (CallName ''option'' [OStr ''threshold'']) p of
        Inr (RetValue (ONum n), _) \<Rightarrow> n = 9 | _ \<Rightarrow> False)"
  by code_simp

end
