(* ===== verification/Spec2Isabelle.thy ===== *)
theory Spec2Isabelle
  imports Hashes SigEnc MdProps FtProps UiProps UiTips UiExplorer UiMenus IsProps TsProps
begin

text \<open>
  ProCurrency is a wallet: a node in C++ (\<open>src/src\<close>) and a user interface whose pages are HTML with scripts
  (\<open>src/src/qt/res\<close>). This development models the scripts of the pages and, of the node, the hash functions and
  the encodings of scripts. It has six parts, which only share \<open>Prelude\<close> and the theories of JavaScript values.

  1. Markdown (\<open>qt/res/js/markdown.js\<close>), the parser of the texts of messages. \<open>JsValue\<close> has the values of the language and
  exceptions as values of a sum type (\<open>jserr + 'a\<close>, sequenced by \<open>sbind\<close>), \<open>JsDouble\<close> numbers that are rounded to doubles; \<open>Regex\<close> the part of its regular expressions
  that the scripts use, as a matcher with groups. \<open>MdCore\<close>: helpers, the constructor and \<open>split_blocks\<close>; \<open>MdInline\<close> and \<open>MdMeta\<close>:
  the inline rules of both dialects, with the stacks of open emphasis as state that is passed; \<open>MdBlock\<close>, \<open>MdList\<close> and
  \<open>MdMaruku\<close>: the block rules (lists build nested arrays in place, so they have a store of arrays); \<open>MdTop\<close>: \<open>processBlock\<close>,
  \<open>toTree\<close>, \<open>parse\<close>, \<open>toHTML\<close>; \<open>MdConvert\<close> and \<open>MdRender\<close>: conversion to HTML, merging of text, escaping, rendering. \<open>MdInlineSafe\<close>
  shows that each inline step uses a character, so that the fuel suffices and a closing tag only comes last for a
  delimiter that is open. Properties are in \<open>MdProps\<close>. Fuel: an inline parse has the length of the text plus one,
  conversion twice the depth of the tree, a call of \<open>processBlock\<close> the length of its text plus two; running out is the
  error \<open>NoFuel\<close>, excluded for inline parsing and conversion by \<open>processInline_returns\<close> and \<open>convert_terminates\<close>.

  2. FooTable (\<open>qt/res/js/footable.js\<close> and its sort, filter and paginate plugins), the tables of the pages. \<open>JqDom\<close> has what the
  scripts read and change of the page: a value of \<open>data\<close> is a \<open>dval\<close> (\<open>DU\<close> stands for \<open>null\<close> and \<open>undefined\<close>), a number is
  rational. \<open>FtCore\<close>: options, versions, plugins and timers, whose codes may call the timer and throw (\<open>timer_run\<close> in \<open>FtOrder\<close> has their runs); \<open>FtTable\<close>: the record of one
  table with its columns, breakpoints, rows and detail rows; \<open>FtRows\<close>: creating detail rows, redrawing, resizing;
  \<open>FtSort\<close>, \<open>FtFilter\<close>, \<open>FtPaginate\<close>: the plugins; \<open>FtTop\<close>: which plugin handles which event, in the order of binding. jQuery
  is modelled by its documented effect on these records. \<open>FtView\<close>, \<open>FtOrder\<close> and \<open>FtFlow\<close> have the lemmas: what showing, paging
  and filtering keep of a table (\<open>shell\<close>, \<open>plain\<close>), that sorting keeps detail rows behind their rows, the page links.
  \<open>FtProps\<close> has the properties.

  3. The pages of the wallet (\<open>qt/res/js/main.js\<close>), one theory for each: \<open>UiUnit\<close> (amounts in units, rounded as doubles, the
  keys of an amount field, base 58), \<open>UiOverview\<close> (menus, navigation, balances, recent transactions), \<open>UiOptions\<close>, \<open>UiSend\<close> and \<open>UiRing\<close> (recipients,
  coin control, ring size, \<open>sendCoins\<close>), \<open>UiAddress\<close> and \<open>UiTx\<close> (the address and transaction tables over part 2), \<open>UiMsg\<close> (contacts
  and messages), \<open>UiWizard\<close> (wizards, keys, signing, the editor), \<open>UiExplorer\<close> (blocks, their transactions, anonymous outputs),
  \<open>UiMenus\<close> (the items of the context menus with what they do, and the actions that the wallet answers), \<open>UiTips\<close> (tooltips,
  editing a label in place, the footer). Every page is a record, every function of the code a
  function on it; the wallet behind \<open>procbridge\<close> is a parameter, and the calls that change it are logged in order.
  Lemmas: \<open>UiAmounts\<close> (decimal texts), \<open>UiSending\<close> (what the loop over the recipients logs, bounds of the ring size),
  \<open>UiState\<close> (menus, recent transactions, options, pages of transactions, wizards, messages). Properties: \<open>UiProps\<close>.

  4. Scrolling (\<open>qt/res/js/iscroll.js\<close>). \<open>IsState\<close>: the record of a scroller, its options, momentum and easings; \<open>IsCore\<close>:
  scrollbars, positions, animations (a list of steps that wait for a frame) and snap pages; \<open>IsEvents\<close>: refresh, touches,
  drags, flings, the wheel, keys, the scrollbars and the constructor. Lengths and times are rational, the clock is an
  argument, and a handler that would give a position that is no finite number is \<open>None\<close>. \<open>IsInside\<close> and \<open>IsRuns\<close>: a scroller that
  does not bounce and has no snap pages stays within its boundaries in every run (\<open>is_run\<close>, an inductive relation over its
  events, frames, timeouts and refreshes, with the lowest position that a pending frame may still go to).
  \<open>UiScroll\<close> joins part 3 and this part: opening a contact scrolls its conversation to the end, again at each of eight
  timeouts. \<open>IsProps\<close> has the properties.

  5. Touch gestures (\<open>qt/res/js/jquery.touchSwipe.js\<close>). \<open>TsState\<close>: options, the record of an element, fingers, distances
  (integers, as \<open>Math.round (Math.sqrt n)\<close>), directions from rounded angles over the real numbers, and the tests of gestures;
  \<open>TsFlow\<close>: the handlers of touches and mouse events, the callbacks of the gestures, timeouts and bindings; \<open>TsPage\<close>: options
  by name, instances and methods. A handler gives its state or an error with the state in which it was raised.
  \<open>TsMath\<close> has the arithmetic, among it an equation that decides directions without angles away from the diagonals, so
  that gestures evaluate; \<open>TsRuns\<close> and \<open>TsReach\<close> an invariant of all reachable states (\<open>ts_run\<close>) by preconditions of each
  handler (\<open>safe\<close>); \<open>TsSound\<close> that a complete event (\<open>complete_input\<close>) raises no error there. \<open>TsProps\<close> has the properties. What is asked of the browser: an event of a mouse has no identifier.

  6. Hashes and scripts of the node. \<open>HashStream\<close>: the buffering that the four hash classes of \<open>crypto\<close> repeat, as the
  locales \<open>block_hash\<close> and \<open>digest_hash\<close>, which \<open>Sha256\<close>, \<open>Sha512\<close>, \<open>Sha1\<close> and \<open>Ripemd160\<close> interpret; \<open>Hashes\<close>: the double hashes,
  both HMAC classes, the hash writer, checksums, MurmurHash3 and \<open>BIP32Hash\<close> (OpenSSL's functions are parameters with their documented
  contract). \<open>Opcodes\<close>, \<open>ScriptNum\<close>, \<open>BigNum\<close>, \<open>Script\<close>, \<open>SigEnc\<close>: the vocabulary of scripts, their numbers, building, reading
  and recognising scripts, and the encodings of signatures. Words have the width of the code. The properties of
  the hashes are below, in this theory.

  Beside the properties there are named lemmas on errors of the code that the model shows: \<open>nested_emphasis_lost\<close>, \<open>timer_leak\<close>,
  \<open>timer_stuck\<close>, \<open>amount_field_shifts\<close>, \<open>no_choice_raises\<close>, \<open>all_choices_changed\<close>, \<open>animations_add_up\<close>, \<open>frame_after_refresh\<close>,
  \<open>parse_excess_decimals\<close>, \<open>parse_negative\<close>, \<open>transaction_extra_page\<close>, \<open>transaction_html_searched\<close>, \<open>click_twice_counts_twice\<close>, \<open>big_total_stale\<close>,
  \<open>touch_does_not_stop\<close>, \<open>up_key_goes_down\<close>, \<open>start_outside\<close>, \<open>reference_constructor_throws\<close>, \<open>list_then_rule_throws\<close>,
  \<open>paragraph_before_quote_lost\<close>, \<open>hold_after_release\<close>, \<open>pinch_cancelled\<close>, \<open>move_without_first_finger\<close>, \<open>swipe_to_edge_lost\<close>,
  \<open>no_pinch_with_swipes\<close>, \<open>no_options_raises\<close>, \<open>options_shared\<close>, \<open>click_after_enter\<close>, \<open>dollar_label\<close>, \<open>quote_label\<close>,
  \<open>opened_block_click\<close>, \<open>txn_error_stale\<close>, \<open>latest_error_row\<close>, \<open>verify_item_unknown\<close>, \<open>first_message_copied\<close>, \<open>paste_keeps_selected\<close>.

  Bounds of the models. Strings are lists of characters up to 255, and the objects of Markdown have no property
  \<open>__proto__\<close> and visit their properties in the order of insertion. Amounts are doubles that are integers: products, sums
  and quotients are rounded to 53 bits (\<open>fl_int\<close>, \<open>fl_div\<close>), below 2 to the 1024; numbers written in hexadecimal and \<open>Infinity\<close> are not
  read, and other numbers of the pages (counts, dates) are exact. The search for the shortest decimals of a double starts above
  the number and ends at the exponent -400, below that of every double. \<open>sort\<close> is stable. A row or
  a cell of a table has no HTML beyond what the scripts read; column groups and \<open>tfoot\<close> are not represented.

  Not modelled: the debug prints of the Markdown parser; of \<open>main.js\<close> the binding of handlers to
  elements, animations and the drawing of the QR code; of \<open>iscroll.js\<close> fading scrollbars, class names and prefixes of styles; minified libraries; of the node everything but part 6, above all the block chain, the network, the
  wallet's data base and the interpreter of scripts.
\<close>

text \<open>C2: However a message is cut into \<open>Write\<close> calls, and whatever the constructor left in the buffer,
  \<open>Finalize\<close> gives the SHA-256 digest of the concatenation (padded blocks compressed in order).\<close>

theorem CSHA256_pieces:
  assumes "length b = 64"
  shows "CSHA256_Finalize (foldl CSHA256_Write (CSHA256 b) ds) =
    digest_of 64 sha256_Transform sha256_Initialize 119 WriteBE64 CSHA256_out (concat ds)"
  unfolding CSHA256_Finalize_def CSHA256_Write_def CSHA256_def
  using sha256_hash.Finalize_digest
    [OF sha256_hash.Writes_represent [OF sha256_hash.represents_init [OF assms]], of ds]
  by simp

theorem CSHA256_pieces_witness:
  "CSHA256_Finalize (foldl CSHA256_Write (CSHA256 (replicate 64 7)) [[1], [2, 3]]) =
    digest_of 64 sha256_Transform sha256_Initialize 119 WriteBE64 CSHA256_out [1, 2, 3]"
  using CSHA256_pieces [of "replicate 64 7" "[[1], [2, 3]]"] by simp

text \<open>C3: Both HMAC classes compute the HMAC of RFC 2104 over their hash class, for keys shorter and
  longer than a block and however the message is cut into \<open>Write\<close> calls.\<close>

theorem CHMAC_pieces:
  "CHMAC_SHA256_Finalize (foldl CHMAC_SHA256_Write (CHMAC_SHA256 key) ds) =
     hmac_spec 64 CSHA256_digest key (concat ds) \<and>
   CHMAC_SHA512_Finalize (foldl CHMAC_SHA512_Write (CHMAC_SHA512 key) ds) =
     hmac_spec 128 CSHA512_digest key (concat ds)"
  by (simp add: CHMAC_SHA256_spec CHMAC_SHA512_spec)

text \<open>C4: Under the documented contract of OpenSSL's streaming SHA-512, \<open>BIP32Hash\<close> is HMAC-SHA512
  keyed with the chain code over header, data and the child number in big-endian order.\<close>

theorem BIP32Hash_hmac:
  assumes "sha512_lib_ok L H"
  shows "BIP32Hash L chainCode nChild header data =
    hmac_spec 128 H chainCode (header # data @ WriteBE32 nChild)"
  by (rule BIP32Hash_spec [OF assms])

definition csha512_lib :: "64 word hasher sha512_lib" where
  "csha512_lib = \<lparr>SHA512_Init = CSHA512 (replicate 128 0), SHA512_Update = CSHA512_Write,
     SHA512_Final = CSHA512_Finalize\<rparr>"

lemma csha512_lib_ok: "sha512_lib_ok csha512_lib CSHA512_digest"
proof -
  have "represents 128 sha512_Transform sha512_Initialize
      (foldl CSHA512_Write (CSHA512 (replicate 128 0)) ds) (concat ds)" for ds
    unfolding CSHA512_Write_def CSHA512_def
    using sha512_hash.Writes_represent [OF sha512_hash.represents_init, of "replicate 128 0" ds] by simp
  then show ?thesis
    by (simp add: sha512_lib_ok_def csha512_lib_def CSHA512_Finalize_def CSHA512_digest_spec
        sha512_hash.Finalize_digest sha512_hash.digest_length)
qed

theorem BIP32Hash_hmac_witness:
  "BIP32Hash csha512_lib (replicate 32 1) 5 0 [2, 3] =
    hmac_spec 128 CSHA512_digest (replicate 32 1) (0 # [2, 3] @ WriteBE32 5)"
  by (rule BIP32Hash_hmac [OF csha512_lib_ok])

text \<open>C5: \<open>VerifyChecksum\<close> accepts exactly the strings \<open>AppendChecksum\<close> produces.\<close>

theorem VerifyChecksum_spec:
  "VerifyChecksum sha256 data \<longleftrightarrow> (\<exists>d. data = AppendChecksum sha256 d)"
  by (rule VerifyChecksum_iff)

end
